(* ===== verification/Prelude.thy ===== *)
theory Prelude
  imports Main "HOL-Library.Word" "HOL-Library.AList" "HOL-Library.Sublist"
    "HOL-Library.Code_Target_Nat"
begin

text \<open>
  Shared vocabulary of the development: the machine integers of the C++ sources, exceptions
  as values, and the three container disciplines the plugin uses (\<open>std::string\<close>,
  \<open>std::unordered_map\<close>, \<open>std::unordered_set\<close>).

  \<^item> \<open>uint64_t\<close>, \<open>int64_t\<close> and \<open>int\<close> are words of their width; a cast between
    \<open>uint64_t\<close> and \<open>int64_t\<close> is the identity on words, and signed readings go through
    \<open>sint\<close>.
  \<^item> a call that may throw returns \<open>string + 'a\<close>: \<open>Inl\<close> carries \<open>e.what()\<close>.
  \<^item> an \<open>unordered_map\<close> is an association list with distinct keys whose list order is its
    iteration order; \<open>m[k] = v\<close> is \<open>AList.update\<close>, \<open>m.find(k)\<close> is \<open>map_of\<close>.
  \<^item> an \<open>unordered_set\<close> is a list without repetitions, \<open>set_insert\<close> its \<open>insert\<close>.
\<close>

section \<open>Types\<close>

type_synonym u64 = "64 word"
type_synonym i64 = "64 word"
type_synonym i32 = "32 word"
type_synonym 'a result = "string + 'a"
type_synonym ('k, 'v) umap = "('k \<times> 'v) list"
type_synonym 'a uset = "'a list"

named_theorems umap_simps \<open>lookups and key sets of the association-list maps\<close>
named_theorems result_simps \<open>evaluation of calls that may throw\<close>

section \<open>Exceptions as values\<close>

fun res_bind :: "'a result \<Rightarrow> ('a \<Rightarrow> 'b result) \<Rightarrow> 'b result" where
  "res_bind (Inl e) f = Inl e"
| "res_bind (Inr x) f = f x"

text \<open>A range-for whose body may throw: the first exception leaves the loop.\<close>

fun res_map :: "('a \<Rightarrow> 'b result) \<Rightarrow> 'a list \<Rightarrow> 'b list result" where
  "res_map f [] = Inr []"
| "res_map f (x # xs) =
     res_bind (f x) (\<lambda>y. res_bind (res_map f xs) (\<lambda>ys. Inr (y # ys)))"

section \<open>Steps and invariants\<close>

text \<open>
  A component whose operations interleave is a step relation with an initial state; \<open>reached\<close> are the states of its
  runs. The locale is the contract of an invariant: it holds at the start and every step keeps it.
\<close>

inductive reached :: "('s \<Rightarrow> 's \<Rightarrow> bool) \<Rightarrow> 's \<Rightarrow> 's \<Rightarrow> bool" for step init where
  reached_init: "reached step init init"
| reached_step: "reached step init s \<Longrightarrow> step s t \<Longrightarrow> reached step init t"

lemma reached_first: "step init t \<Longrightarrow> reached step init t"
  by (rule reached_step [OF reached_init])

locale step_invariant =
  fixes step :: "'s \<Rightarrow> 's \<Rightarrow> bool" and init :: 's and inv :: "'s \<Rightarrow> bool"
  assumes initially: "inv init"
    and kept: "step s t \<Longrightarrow> inv s \<Longrightarrow> inv t"
begin

lemma invariant: "reached step init s \<Longrightarrow> inv s"
  by (induction rule: reached.induct) (auto intro: initially kept)

end

section \<open>Strings and containers\<close>

text \<open>\<open>s.rfind(p, 0) == 0\<close>\<close>

definition starts_with :: "string \<Rightarrow> string \<Rightarrow> bool" where
  "starts_with p s \<longleftrightarrow> take (length p) s = p"

text \<open>\<open>it != m.end() ? it->second : d\<close>\<close>

definition find_or :: "('k, 'v) umap \<Rightarrow> 'k \<Rightarrow> 'v \<Rightarrow> 'v" where
  "find_or m k d = (case map_of m k of Some v \<Rightarrow> v | None \<Rightarrow> d)"

text \<open>\<open>m.count(k)\<close>\<close>

definition has_key :: "('k, 'v) umap \<Rightarrow> 'k \<Rightarrow> bool" where
  "has_key m k \<longleftrightarrow> map_of m k \<noteq> None"

text \<open>\<open>s.insert(x)\<close>\<close>

definition set_insert :: "'a \<Rightarrow> 'a uset \<Rightarrow> 'a uset" where
  "set_insert x xs = (if x \<in> set xs then xs else xs @ [x])"

text \<open>\<open>m[k1][k2] = v\<close>, with \<open>operator[]\<close> default-constructing the inner map\<close>

definition update2 :: "'k \<Rightarrow> 'l \<Rightarrow> 'v \<Rightarrow> ('k, ('l, 'v) umap) umap \<Rightarrow> ('k, ('l, 'v) umap) umap" where
  "update2 k l v m = AList.update k (AList.update l v (find_or m k [])) m"

definition lookup2 :: "('k, ('l, 'v) umap) umap \<Rightarrow> 'k \<Rightarrow> 'l \<Rightarrow> 'v option" where
  "lookup2 m k l = (case map_of m k of None \<Rightarrow> None | Some n \<Rightarrow> map_of n l)"

text \<open>A loop \<open>for (x : xs) m[key(x)] = val(x)\<close>\<close>

definition update_all :: "('a \<Rightarrow> 'k) \<Rightarrow> ('a \<Rightarrow> 'v) \<Rightarrow> 'a list \<Rightarrow> ('k, 'v) umap \<Rightarrow> ('k, 'v) umap" where
  "update_all key val xs m = fold (\<lambda>x. AList.update (key x) (val x)) xs m"

definition distinct_keys :: "('k, 'v) umap \<Rightarrow> bool" where
  "distinct_keys m \<longleftrightarrow> distinct (map fst m)"

section \<open>Lemmas\<close>

lemma res_bind_Inr_iff [result_simps]:
  "res_bind m f = Inr y \<longleftrightarrow> (\<exists>x. m = Inr x \<and> f x = Inr y)"
  by (cases m) auto

lemma res_bind_Inl_iff [result_simps]:
  "res_bind m f = Inl e \<longleftrightarrow> m = Inl e \<or> (\<exists>x. m = Inr x \<and> f x = Inl e)"
  by (cases m) auto

lemma res_map_Inr_map: "(\<And>x. x \<in> set xs \<Longrightarrow> f x = Inr (g x)) \<Longrightarrow> res_map f xs = Inr (map g xs)"
  by (induction xs) auto

lemma res_map_Inr_length: "res_map f xs = Inr ys \<Longrightarrow> length ys = length xs"
  by (induction xs arbitrary: ys) (auto simp: result_simps)

lemma res_map_Inr_iff: "res_map f xs = Inr ys \<longleftrightarrow> list_all2 (\<lambda>x y. f x = Inr y) xs ys"
  by (induction xs arbitrary: ys) (auto simp: result_simps list_all2_Cons1)

lemma res_map_Inl_ex: "res_map f xs = Inl e \<Longrightarrow> \<exists>x \<in> set xs. f x = Inl e"
  by (induction xs) (auto simp: result_simps)

lemma starts_with_append [simp]: "starts_with p (p @ s)"
  by (simp add: starts_with_def)

lemma starts_with_iff: "starts_with p s \<longleftrightarrow> (\<exists>t. s = p @ t)"
  unfolding starts_with_def by (metis append_eq_conv_conj append_take_drop_id)

lemma starts_with_split: "starts_with p s \<Longrightarrow> s = p @ drop (length p) s"
  unfolding starts_with_def by (metis append_take_drop_id)

lemma map_of_update [umap_simps]:
  "map_of (AList.update k v m) k' = (if k' = k then Some v else map_of m k')"
  by (simp add: update_conv')

lemma map_of_delete_key [umap_simps]:
  "map_of (AList.delete k m) k' = (if k' = k then None else map_of m k')"
  by (simp add: delete_conv')

lemma distinct_keys_update [umap_simps]: "distinct_keys m \<Longrightarrow> distinct_keys (AList.update k v m)"
  by (simp add: distinct_keys_def distinct_update)

lemma distinct_keys_delete [umap_simps]: "distinct_keys m \<Longrightarrow> distinct_keys (AList.delete k m)"
  by (simp add: distinct_keys_def distinct_delete)

lemma distinct_keys_Nil [simp]: "distinct_keys []"
  by (simp add: distinct_keys_def)

lemma distinct_keys_lookup: "distinct_keys m \<Longrightarrow> (k, v) \<in> set m \<longleftrightarrow> map_of m k = Some v"
  by (simp add: distinct_keys_def)

lemma find_or_update [umap_simps]:
  "find_or (AList.update k v m) k' d = (if k' = k then v else find_or m k' d)"
  by (simp add: find_or_def umap_simps)

lemma has_key_update [umap_simps]: "has_key (AList.update k v m) k' \<longleftrightarrow> k' = k \<or> has_key m k'"
  by (simp add: has_key_def umap_simps)

lemma has_key_fst: "has_key m k \<longleftrightarrow> k \<in> fst ` set m"
  by (simp add: has_key_def map_of_eq_None_iff)

lemma set_set_insert [simp]: "set (set_insert x xs) = insert x (set xs)"
  by (auto simp: set_insert_def)

lemma distinct_set_insert [simp]: "distinct (set_insert x xs) = distinct xs"
  by (auto simp: set_insert_def)

lemma lookup2_update2 [umap_simps]:
  "lookup2 (update2 k l v m) k' l' = (if k' = k \<and> l' = l then Some v else lookup2 m k' l')"
  by (auto simp: lookup2_def update2_def find_or_def umap_simps split: option.split)

text \<open>The last write to a key wins, and a key no element writes keeps its value.\<close>

lemma map_of_update_all_notin:
  "k \<notin> key ` set xs \<Longrightarrow> map_of (update_all key val xs m) k = map_of m k"
  unfolding update_all_def by (induction xs arbitrary: m) (auto simp: umap_simps)

lemma map_of_update_all_in:
  "k \<in> key ` set xs \<Longrightarrow> (\<And>y. y \<in> set xs \<Longrightarrow> key y = k \<Longrightarrow> val y = v) \<Longrightarrow>
   map_of (update_all key val xs m) k = Some v"
proof (induction xs arbitrary: m)
  case (Cons a xs)
  have step: "update_all key val (a # xs) m = update_all key val xs (AList.update (key a) (val a) m)"
    by (simp add: update_all_def)
  show ?case
  proof (cases "k \<in> key ` set xs")
    case True
    with Cons.IH Cons.prems(2) show ?thesis by (simp add: step)
  next
    case False
    with Cons.prems have "key a = k" and "val a = v" by auto
    with False show ?thesis by (simp add: step map_of_update_all_notin umap_simps)
  qed
qed simp

lemma distinct_keys_update_all: "distinct_keys m \<Longrightarrow> distinct_keys (update_all key val xs m)"
  unfolding update_all_def by (induction xs arbitrary: m) (auto simp: umap_simps)

section \<open>Invariants of maps of maps\<close>

text \<open>Every entry of a map of maps satisfies \<open>P\<close>; every level has distinct keys\<close>

definition all2 :: "('k \<Rightarrow> 'l \<Rightarrow> 'v \<Rightarrow> bool) \<Rightarrow> ('k, ('l, 'v) umap) umap \<Rightarrow> bool" where
  "all2 P m \<longleftrightarrow> (\<forall>(k, n) \<in> set m. \<forall>(l, v) \<in> set n. P k l v)"

definition distinct2 :: "('k, ('l, 'v) umap) umap \<Rightarrow> bool" where
  "distinct2 m \<longleftrightarrow> distinct_keys m \<and> (\<forall>(k, n) \<in> set m. distinct_keys n)"

lemma set_delete_subset: "set (AList.delete k m) \<subseteq> set m"
  by (auto simp: AList.delete_eq)

lemma set_update_subset: "set (AList.update k v m) \<subseteq> insert (k, v) (set m)"
  by (induction m) auto

lemma in_update_D: "x \<in> set (AList.update k v m) \<Longrightarrow> x = (k, v) \<or> x \<in> set m"
  using set_update_subset by fast

lemma find_or_in: "find_or m k d = d \<or> (k, find_or m k d) \<in> set m"
  by (auto simp: find_or_def split: option.split dest: map_of_SomeD)

lemma all2_Nil [simp]: "all2 P []" and distinct2_Nil [simp]: "distinct2 []"
  by (simp_all add: all2_def distinct2_def)

lemma all2_update2:
  assumes "all2 P m" and "P k l v"
  shows "all2 P (update2 k l v m)"
proof -
  have "\<forall>(l', v') \<in> set (find_or m k []). P k l' v'"
    using find_or_in [of m k "[]"] assms(1) by (auto simp: all2_def)
  with assms show ?thesis
    unfolding all2_def update2_def by (fastforce dest!: in_update_D)
qed

lemma distinct2_update2:
  assumes "distinct2 m"
  shows "distinct2 (update2 k l v m)"
proof -
  have "distinct_keys (find_or m k [])"
    using find_or_in [of m k "[]"] assms by (auto simp: distinct2_def)
  with assms show ?thesis
    unfolding distinct2_def update2_def by (auto dest!: in_update_D simp: umap_simps)
qed

lemma all2_mono: "all2 P m \<Longrightarrow> (\<And>k l v. P k l v \<Longrightarrow> Q k l v) \<Longrightarrow> all2 Q m"
  by (fastforce simp: all2_def)

lemma all2_lookup2: "all2 P m \<Longrightarrow> lookup2 m k l = Some v \<Longrightarrow> P k l v"
  by (auto simp: all2_def lookup2_def split: option.splits dest!: map_of_SomeD)

lemma has_key_delete [umap_simps]: "has_key (AList.delete k m) k' \<longleftrightarrow> k' \<noteq> k \<and> has_key m k'"
  by (simp add: has_key_def umap_simps)

lemma set_fold_insert: "set (fold (\<lambda>x. set_insert (f x)) xs A) = f ` set xs \<union> set A"
  by (induction xs arbitrary: A) auto

lemma distinct_fold_insert: "distinct A \<Longrightarrow> distinct (fold (\<lambda>x. set_insert (f x)) xs A)"
  by (induction xs arbitrary: A) auto

text \<open>An invariant of a loop body is an invariant of the loop.\<close>

lemma fold_invariant_step:
  "P s \<Longrightarrow> (\<And>x s. x \<in> set xs \<Longrightarrow> P s \<Longrightarrow> P (f x s)) \<Longrightarrow> P (fold f xs s)"
  by (induction xs arbitrary: s) auto

text \<open>A field no iteration touches keeps its value.\<close>

lemma fold_frame: "(\<And>x s. g (f x s) = g s) \<Longrightarrow> g (fold f xs s) = g s"
  by (induction xs arbitrary: s) auto

text \<open>The last entry written under a key is the one a lookup finds.\<close>

lemma map_of_update_all:
  "map_of (update_all key val xs m) k =
     (case map_of (map (\<lambda>x. (key x, val x)) (rev xs)) k of Some v \<Rightarrow> Some v | None \<Rightarrow> map_of m k)"
  by (induction xs arbitrary: m)
    (auto simp: update_all_def map_add_Some_iff umap_simps map_of_append map_add_def split: option.splits)

lemma lookup2_fold_update2:
  "lookup2 (fold (\<lambda>x. update2 (f x) (g x) (h x)) xs m) a b =
     (case map_of (map (\<lambda>x. ((f x, g x), h x)) (rev xs)) (a, b) of Some v \<Rightarrow> Some v | None \<Rightarrow> lookup2 m a b)"
  by (induction xs arbitrary: m) (auto simp: umap_simps map_add_def split: option.splits)

lemma lookup2_Nil [simp]: "lookup2 [] a b = None"
  by (simp add: lookup2_def)

lemma keys_update: "fst ` set (AList.update k v m) = insert k (fst ` set m)"
  by (induction m) auto

lemma keys_update_all: "fst ` set (update_all key val xs m) = key ` set xs \<union> fst ` set m"
  unfolding update_all_def
  by (induction xs arbitrary: m) (auto simp: keys_update)

lemma has_key_update_all: "has_key (update_all key val xs m) k \<longleftrightarrow> k \<in> key ` set xs \<or> has_key m k"
  by (simp add: has_key_fst keys_update_all)

lemma range_update_all:
  "(k, v) \<in> set (update_all key val xs m) \<Longrightarrow> (k, v) \<in> set m \<or> (\<exists>x \<in> set xs. k = key x \<and> v = val x)"
  unfolding update_all_def by (induction xs arbitrary: m) (auto dest!: in_update_D)

section \<open>Loops that skip elements\<close>

lemma in_map_filter: "y \<in> set (List.map_filter f xs) \<longleftrightarrow> (\<exists>x \<in> set xs. f x = Some y)"
  by (induction xs) (auto simp: List.map_filter_simps split: option.splits)

lemma map_filter_empty: "List.map_filter f xs = [] \<longleftrightarrow> (\<forall>x \<in> set xs. f x = None)"
  by (induction xs) (auto simp: List.map_filter_simps split: option.splits)

lemma in_map_filter_pair:
  "y \<in> set (List.map_filter (\<lambda>(a, b). f a b) xs) \<longleftrightarrow> (\<exists>a b. (a, b) \<in> set xs \<and> f a b = Some y)"
  by (simp add: in_map_filter Bex_def split_paired_Ex)

text \<open>A body that maps a skipped element to \<open>None\<close> and a kept one to \<open>Some\<close>\<close>

lemma if_None_Some [simp]:
  "(if b then None else e) = Some y \<longleftrightarrow> \<not> b \<and> e = Some y"
  "(if b then e else None) = Some y \<longleftrightarrow> b \<and> e = Some y"
  "(if b then None else e) = None \<longleftrightarrow> b \<or> e = None"
  "(if b then e else None) = None \<longleftrightarrow> (b \<longrightarrow> e = None)"
  by auto

lemma in_concat_map: "y \<in> set (concat (map f xs)) \<longleftrightarrow> (\<exists>x \<in> set xs. y \<in> set (f x))"
  by auto

lemma in_concat_map_pair:
  "y \<in> set (concat (map (\<lambda>(a, b). f a b) xs)) \<longleftrightarrow> (\<exists>a b. (a, b) \<in> set xs \<and> y \<in> set (f a b))"
  by (auto simp: Bex_def split_paired_Ex)

lemma in_if_Nil: "y \<in> set (if b then [] else xs) \<longleftrightarrow> \<not> b \<and> y \<in> set xs"
  by simp

lemma lookup2_fold_in:
  "(a, b) \<in> (\<lambda>x. (f x, g x)) ` set xs \<Longrightarrow> (\<And>x. x \<in> set xs \<Longrightarrow> f x = a \<Longrightarrow> g x = b \<Longrightarrow> h x = v) \<Longrightarrow>
   lookup2 (fold (\<lambda>x. update2 (f x) (g x) (h x)) xs m) a b = Some v"
proof (induction xs arbitrary: m)
  case (Cons x xs)
  show ?case
  proof (cases "(a, b) \<in> (\<lambda>x. (f x, g x)) ` set xs")
    case True
    with Cons show ?thesis by simp
  next
    case False
    then have "map_of (map (\<lambda>x. ((f x, g x), h x)) (rev xs)) (a, b) = None"
      by (auto simp: map_of_eq_None_iff)
    with False Cons.prems show ?thesis by (auto simp: lookup2_fold_update2 umap_simps)
  qed
qed simp

lemma lookup2_fold_notin:
  "(a, b) \<notin> (\<lambda>x. (f x, g x)) ` set xs \<Longrightarrow>
   lookup2 (fold (\<lambda>x. update2 (f x) (g x) (h x)) xs m) a b = lookup2 m a b"
  by (induction xs arbitrary: m) (auto simp: umap_simps)

lemma map_filter_cong_set: "(\<And>x. x \<in> set xs \<Longrightarrow> f x = g x) \<Longrightarrow> List.map_filter f xs = List.map_filter g xs"
proof (induction xs)
  case (Cons x xs)
  then have "f x = g x" and "List.map_filter f xs = List.map_filter g xs" by auto
  then show ?case by (cases "g x") (simp_all add: List.map_filter_simps)
qed (simp add: List.map_filter_simps)

lemma map_filter_append: "List.map_filter f (xs @ ys) = List.map_filter f xs @ List.map_filter f ys"
  by (simp add: List.map_filter_def)

lemma map_filter_concat: "List.map_filter f (concat xss) = concat (map (List.map_filter f) xss)"
  by (induction xss) (auto simp: map_filter_append List.map_filter_simps)

lemma map_filter_map_filter: "List.map_filter f (List.map_filter g xs) = List.map_filter (\<lambda>x. Option.bind (g x) f) xs"
  by (induction xs) (auto simp: List.map_filter_simps split: option.split)

lemma bind_map_option: "Option.bind (map_option f m) g = Option.bind m (\<lambda>x. g (f x))"
  by (cases m) auto

lemma filter_map_filter:
  "filter P (List.map_filter f xs) = List.map_filter (\<lambda>x. case f x of None \<Rightarrow> None | Some y \<Rightarrow> if P y then Some y else None) xs"
  by (induction xs) (auto simp: List.map_filter_simps split: option.split)

lemma set_fold_set_insert [simp]: "set (fold set_insert xs A) = set xs \<union> set A"
  by (induction xs arbitrary: A) auto

lemma list_ex_image: "list_ex (\<lambda>c. f c = a) cs \<longleftrightarrow> a \<in> f ` set cs"
  by (auto simp: list_ex_iff)

section \<open>Loops as homomorphisms\<close>

lemma fold_hom: "(\<And>x s. h (f x s) = g x (h s)) \<Longrightarrow> h (fold f xs s) = fold g xs (h s)"
  by (induction xs arbitrary: s) simp_all

lemma fold_inv: "(\<And>x s. P s \<Longrightarrow> P (f x s)) \<Longrightarrow> P s \<Longrightarrow> P (fold f xs s)"
  by (induction xs arbitrary: s) simp_all

lemma fold_skip [simp]: "fold (\<lambda>_ s. s) xs s = s"
  by (induction xs) simp_all

end
