(* ===== verification/Bn_View.thy ===== *)
theory Bn_View
  imports Prelude
begin

text \<open>
  What the check-in diff reads of a Binary Ninja view. The Binary Ninja API is not part of the
  repository, so a view is a record of the answers its queries give: each component is the value
  of one API call (or, for a call with arguments, a function of them), and a null \<open>Ref\<close> is
  \<open>None\<close>. Nothing is assumed about the answers beyond their types; theorems that need more say
  so in a hypothesis.
\<close>

section \<open>Symbols, types, tags and data variables\<close>

datatype BNSymbolType = FunctionSymbol | DataSymbol | LocalLabelSymbol | OtherSymbol

record bn_symbol =
  bs_address :: u64
  bs_type :: BNSymbolType
  bs_fullName :: string

text \<open>A structure member: name, offset, and the width and rendering of its type\<close>

record bn_member =
  bn_name :: string
  bn_offset :: u64
  bn_width :: u64
  bn_typeString :: string

record bn_enumerator =
  be_name :: string
  be_value :: u64

text \<open>
  A type by the class the diff looks at, with its width: a structure (and whether it is a union),
  an enumeration, a typedef (a named type reference for which \<open>IsTypedefReference\<close> holds, with the
  referenced name if there is one), or any other class.
\<close>

datatype bn_type =
    StructureType bool u64 "bn_member list"
  | EnumerationType u64 "bn_enumerator list"
  | TypedefType u64 "string option"
  | OtherType

text \<open>A tag reference: its address and, if the tag and its tag type exist, the type's name and the data\<close>

record bn_tagref =
  tr_addr :: u64
  tr_tag :: "(string option \<times> string) option"

record bn_datavar =
  dv_autoDiscovered :: bool
  dv_type :: "string option"

section \<open>Functions and their variables\<close>

datatype BNVariableSourceType = StackVariableSourceType | RegisterVariableSourceType | FlagVariableSourceType

text \<open>\<open>va_identifier\<close> is \<open>ToIdentifier()\<close>.\<close>

record bn_variable =
  va_type :: BNVariableSourceType
  va_storage :: i64
  va_identifier :: u64

text \<open>
  \<open>fn_defaultCC\<close> is the name of the default calling convention of the function's platform, \<open>None\<close>
  when there is no platform or the platform has no default.
\<close>

record bn_function =
  fn_start :: u64
  fn_comment :: string
  fn_parameterVariables :: "bn_variable list"
  fn_variables :: "(bn_variable \<times> string) list"
  fn_variableName :: "bn_variable \<Rightarrow> string"
  fn_variableType :: "bn_variable \<Rightarrow> string option"
  fn_hasUserType :: bool
  fn_callingConvention :: "string option"
  fn_returnType :: "string option"
  fn_defaultCC :: "string option"

text \<open>
  A code reference to a type. \<open>ct_site\<close> is \<open>None\<close> when its function or architecture is null;
  otherwise it gives, for a constant and an operand, whether the operand is displayed as an
  enumeration and the registered type id of that enumeration (\<open>None\<close> when there is no such type or
  no registered name).
\<close>

record bn_typeref =
  ct_addr :: u64
  ct_site :: "(u64 \<Rightarrow> nat \<Rightarrow> bool \<times> string option) option"

section \<open>The view\<close>

text \<open>
  \<open>bv_typeById\<close> answers \<open>GetTypeById\<close>: \<open>None\<close> for no type, \<open>Some None\<close> for a type that is no
  enumeration, else the enumerators. \<open>bv_registerNames\<close> lists the register names of the default
  architecture (empty when there is none). The lists of types and data variables are the ordered
  maps of the API.
\<close>

record bn_view =
  bv_start :: u64
  bv_symbolByAddress :: "u64 \<Rightarrow> string option"
  bv_symbols :: "bn_symbol list"
  bv_commentedAddresses :: "u64 list"
  bv_commentForAddress :: "u64 \<Rightarrow> string"
  bv_functionList :: "bn_function list"
  bv_functionsForAddress :: "u64 \<Rightarrow> bn_function list"
  bv_userTypes :: "string list option"
  bv_types :: "(string \<times> bn_type) list"
  bv_registerNames :: "string list"
  bv_tagReferences :: "bn_tagref list"
  bv_dataVariables :: "(u64 \<times> bn_datavar) list"
  bv_typeById :: "string \<Rightarrow> bn_enumerator list option option"
  bv_codeReferencesForType :: "string \<Rightarrow> bn_typeref list"

text \<open>A view with nothing in it, loaded at address \<open>b\<close>\<close>

definition empty_view :: "u64 \<Rightarrow> bn_view" where
  "empty_view b =
     \<lparr>bv_start = b, bv_symbolByAddress = (\<lambda>_. None), bv_symbols = [], bv_commentedAddresses = [],
      bv_commentForAddress = (\<lambda>_. []), bv_functionList = [], bv_functionsForAddress = (\<lambda>_. []),
      bv_userTypes = None, bv_types = [], bv_registerNames = [], bv_tagReferences = [],
      bv_dataVariables = [], bv_typeById = (\<lambda>_. None), bv_codeReferencesForType = (\<lambda>_. [])\<rparr>"

definition plain_function :: "u64 \<Rightarrow> bn_function" where
  "plain_function a =
     \<lparr>fn_start = a, fn_comment = [], fn_parameterVariables = [], fn_variables = [],
      fn_variableName = (\<lambda>_. []), fn_variableType = (\<lambda>_. None), fn_hasUserType = False,
      fn_callingConvention = None, fn_returnType = None, fn_defaultCC = None\<rparr>"

end
