(* ===== verification/Data_Model.thy ===== *)
theory Data_Model
  imports Prelude
begin

text \<open>
  The data transfer objects of \<open>plugin/include/GhidraConnection.h\<close>: the repository listing
  entries, one record per category of a program database export (\<open>GhidraDbExport\<close>), and the
  check-in preview (\<open>GhidraCheckinPreview\<close>) with its nested change records. Each struct is a
  record whose fields carry a prefix for the struct, in the struct's order; default member
  initialisers are the \<open>default_\<close> constants.
\<close>

section \<open>Repository listing\<close>

record RepoItem =
  ri_name :: string
  ri_parentPath :: string
  ri_path :: string
  ri_fileId :: string
  ri_itemType :: i32
  ri_contentType :: string
  ri_version :: i32
  ri_versionTime :: i64

record CheckoutInfo =
  co_id :: i64
  co_type :: string
  co_user :: string
  co_version :: i32
  co_time :: i64
  co_projectPath :: string

record VersionInfo =
  vi_version :: i32
  vi_time :: i64
  vi_user :: string
  vi_comment :: string

definition default_CheckoutInfo :: CheckoutInfo where
  "default_CheckoutInfo =
     \<lparr>co_id = 0, co_type = [], co_user = [], co_version = - 1, co_time = 0, co_projectPath = []\<rparr>"

section \<open>Database export\<close>

text \<open>
  \<open>enum class GhidraSymbolType : int\<close>. The bridge's number reaches the enumeration through an
  unchecked \<open>static_cast\<close>, so a number with no enumerator is a value of its own.
\<close>

datatype GhidraSymbolType =
    SymLabel | SymLibrary | SymNamespace | SymClass | SymFunction | SymParameter | SymLocalVar
  | SymGlobalVar | SymExternal | SymOther i32

definition symbolType_of_int :: "i32 \<Rightarrow> GhidraSymbolType" where
  "symbolType_of_int n =
     (if n = 0 then SymLabel else if n = 1 then SymLibrary else if n = 2 then SymNamespace
      else if n = 3 then SymClass else if n = 4 then SymFunction else if n = 5 then SymParameter
      else if n = 6 then SymLocalVar else if n = 7 then SymGlobalVar else if n = 8 then SymExternal
      else SymOther n)"

datatype GhidraSymbolSource = SrcDefault | SrcAnalysis | SrcImported | SrcUser | SrcOther i32

definition symbolSource_of_int :: "i32 \<Rightarrow> GhidraSymbolSource" where
  "symbolSource_of_int n =
     (if n = 0 then SrcDefault else if n = 1 then SrcAnalysis else if n = 2 then SrcImported
      else if n = 3 then SrcUser else SrcOther n)"

record GhidraSymbol =
  sym_key :: i64
  sym_name :: string
  sym_addr :: u64
  sym_type :: GhidraSymbolType
  sym_source :: GhidraSymbolSource
  sym_namespaceId :: i64

record GhidraComment =
  cm_addr :: u64
  cm_eol :: string
  cm_pre :: string
  cm_post :: string
  cm_plate :: string
  cm_rep :: string
  cm_encodedKey :: string

record GhidraFuncFlags =
  ff_key :: i64
  ff_thunk :: bool
  ff_noReturn :: bool
  ff_isInline :: bool

record GhidraFuncSig =
  fs_key :: i64
  fs_callingConvention :: string
  fs_returnTypeName :: string
  fs_returnTypeId :: i64

record GhidraEquateRef =
  er_addr :: u64
  er_opIndex :: i32

record GhidraEquate =
  eq_id :: i64
  eq_name :: string
  eq_value :: i64
  eq_refs :: "GhidraEquateRef list"

record GhidraBookmark =
  bm_type :: string
  bm_addr :: u64
  bm_category :: string
  bm_comment :: string

record GhidraParameter =
  pa_key :: i64
  pa_funcAddr :: u64
  pa_name :: string
  pa_isParam :: bool
  pa_ordinal :: i32
  pa_typeName :: string
  pa_typeId :: i64

record GhidraDataTypeMember =
  dm_offset :: i32
  dm_typeId :: i64
  dm_name :: string
  dm_comment :: string
  dm_size :: i32
  dm_ordinal :: i32
  dm_typeName :: string

record GhidraEnumValue =
  ev_name :: string
  ev_value :: i64
  ev_comment :: string

record GhidraDataType =
  dt_id :: i64
  dt_kind :: string
  dt_name :: string
  dt_comment :: string
  dt_size :: i32
  dt_underlyingTypeId :: i64
  dt_underlyingTypeName :: string
  dt_members :: "GhidraDataTypeMember list"
  dt_values :: "GhidraEnumValue list"

definition default_GhidraDataType :: GhidraDataType where
  "default_GhidraDataType =
     \<lparr>dt_id = 0, dt_kind = [], dt_name = [], dt_comment = [], dt_size = 0,
      dt_underlyingTypeId = 0, dt_underlyingTypeName = [], dt_members = [], dt_values = []\<rparr>"

record GhidraDataItem =
  di_addr :: u64
  di_typeId :: i64

record GhidraMemoryBlock =
  mb_name :: string
  mb_addr :: u64
  mb_size :: u64
  mb_read :: bool
  mb_write :: bool
  mb_execute :: bool
  mb_initialized :: bool
  mb_overlay :: bool

record GhidraXrefStats =
  xs_fromCount :: i32
  xs_toCount :: i32

record GhidraDbExport =
  ex_symbols :: "GhidraSymbol list"
  ex_comments :: "GhidraComment list"
  ex_funcFlags :: "GhidraFuncFlags list"
  ex_funcSigs :: "GhidraFuncSig list"
  ex_equates :: "GhidraEquate list"
  ex_bookmarks :: "GhidraBookmark list"
  ex_parameters :: "GhidraParameter list"
  ex_dataTypes :: "GhidraDataType list"
  ex_dataItems :: "GhidraDataItem list"
  ex_memoryBlocks :: "GhidraMemoryBlock list"
  ex_xrefStats :: GhidraXrefStats
  ex_diag :: "string list"
  ex_imageBase :: u64

definition default_GhidraDbExport :: GhidraDbExport where
  "default_GhidraDbExport =
     \<lparr>ex_symbols = [], ex_comments = [], ex_funcFlags = [], ex_funcSigs = [], ex_equates = [],
      ex_bookmarks = [], ex_parameters = [], ex_dataTypes = [], ex_dataItems = [],
      ex_memoryBlocks = [], ex_xrefStats = \<lparr>xs_fromCount = 0, xs_toCount = 0\<rparr>, ex_diag = [],
      ex_imageBase = 0\<rparr>"

section \<open>Check-in preview\<close>

record SymbolRename =
  sr_key :: i64
  sr_addr :: u64
  sr_originalName :: string
  sr_newName :: string

record CommentChange =
  cc_addr :: u64
  cc_text :: string
  cc_encodedKey :: string

record EquateRename =
  qr_id :: i64
  qr_name :: string

record BookmarkChange =
  bc_op :: string
  bc_type :: string
  bc_addr :: u64
  bc_category :: string
  bc_comment :: string

record ParamRename =
  pr_key :: i64
  pr_name :: string
  pr_typeName :: string

record DtcMember =
  tm_name :: string
  tm_offset :: i32
  tm_size :: i32
  tm_typeName :: string

record DtcValue =
  tv_name :: string
  tv_value :: i64

record DataTypeChange =
  tc_op :: string
  tc_kind :: string
  tc_name :: string
  tc_ghidraId :: i64
  tc_size :: i32
  tc_underlyingTypeName :: string
  tc_members :: "DtcMember list"
  tc_values :: "DtcValue list"

record DataItemChange =
  ic_op :: string
  ic_addr :: u64
  ic_typeName :: string

record FuncSigChange =
  sc_key :: i64
  sc_callingConvention :: string
  sc_returnTypeName :: string

record NewSymbol =
  ns_addr :: u64
  ns_name :: string
  ns_isFunction :: bool

record NewParam =
  np_funcAddr :: u64
  np_ordinal :: i32
  np_name :: string
  np_typeName :: string
  np_isLocal :: bool

record NewEquateRef =
  nr_equateId :: i64
  nr_addr :: u64
  nr_opIndex :: i32

record GhidraCheckinPreview =
  pv_renames :: "SymbolRename list"
  pv_comments :: "CommentChange list"
  pv_equateRenames :: "EquateRename list"
  pv_bookmarkChanges :: "BookmarkChange list"
  pv_paramRenames :: "ParamRename list"
  pv_dataTypeChanges :: "DataTypeChange list"
  pv_dataItemChanges :: "DataItemChange list"
  pv_funcSigChanges :: "FuncSigChange list"
  pv_newSymbols :: "NewSymbol list"
  pv_newParams :: "NewParam list"
  pv_newEquateRefs :: "NewEquateRef list"

definition default_GhidraCheckinPreview :: GhidraCheckinPreview where
  "default_GhidraCheckinPreview =
     \<lparr>pv_renames = [], pv_comments = [], pv_equateRenames = [], pv_bookmarkChanges = [],
      pv_paramRenames = [], pv_dataTypeChanges = [], pv_dataItemChanges = [],
      pv_funcSigChanges = [], pv_newSymbols = [], pv_newParams = [], pv_newEquateRefs = []\<rparr>"

definition preview_empty :: "GhidraCheckinPreview \<Rightarrow> bool" where
  "preview_empty p \<longleftrightarrow>
     pv_renames p = [] \<and> pv_comments p = [] \<and>
     pv_equateRenames p = [] \<and> pv_bookmarkChanges p = [] \<and>
     pv_paramRenames p = [] \<and> pv_dataTypeChanges p = [] \<and>
     pv_dataItemChanges p = [] \<and> pv_funcSigChanges p = [] \<and>
     pv_newSymbols p = [] \<and> pv_newParams p = [] \<and>
     pv_newEquateRefs p = []"

record GhidraEvent =
  ge_repo :: string
  ge_type :: string
  ge_parentPath :: string
  ge_name :: string
  ge_newParentPath :: string
  ge_newName :: string

lemma preview_empty_iff: "preview_empty p \<longleftrightarrow> p = default_GhidraCheckinPreview"
  by (cases p) (auto simp: preview_empty_def default_GhidraCheckinPreview_def)

end
