(* ===== verification/Text_Num.thy ===== *)
theory Text_Num
  imports Prelude
begin

text \<open>
  The number/text conversions of the C++ standard library the plugin relies on:
  \<open>snprintf("0x%llx")\<close> (\<open>print_hex\<close>), \<open>strtoull(p, nullptr, 16)\<close> (\<open>strtoull16\<close>),
  \<open>std::to_string\<close> on 64-bit and 32-bit integers (\<open>to_string_i64\<close>, \<open>to_string_u64\<close>,
  \<open>to_string_i32\<close>), \<open>std::stoi\<close> and \<open>std::stoull\<close>, with their error results.
\<close>

section \<open>Characters\<close>

definition char_code :: "char \<Rightarrow> nat" where
  "char_code c = of_char c"

definition is_dec_digit :: "char \<Rightarrow> bool" where
  "is_dec_digit c \<longleftrightarrow> 48 \<le> char_code c \<and> char_code c \<le> 57"

text \<open>\<open>(c >= '0' && c <= '9') || (c >= 'a' && c <= 'f') || (c >= 'A' && c <= 'F')\<close>\<close>

definition is_hex_digit :: "char \<Rightarrow> bool" where
  "is_hex_digit c \<longleftrightarrow>
     48 \<le> char_code c \<and> char_code c \<le> 57 \<or>
     97 \<le> char_code c \<and> char_code c \<le> 102 \<or>
     65 \<le> char_code c \<and> char_code c \<le> 70"

text \<open>\<open>isspace\<close> in the \<open>"C"\<close> locale: space, \<open>\t \n \v \f \r\<close>\<close>

definition is_space :: "char \<Rightarrow> bool" where
  "is_space c \<longleftrightarrow> char_code c = 32 \<or> 9 \<le> char_code c \<and> char_code c \<le> 13"

definition digit_val :: "char \<Rightarrow> nat" where
  "digit_val c =
     (if char_code c \<le> 57 then char_code c - 48
      else if char_code c \<le> 70 then char_code c - 55
      else char_code c - 87)"

definition hex_char :: "nat \<Rightarrow> char" where
  "hex_char n = char_of (if n < 10 then n + 48 else n + 87)"

section \<open>Printing\<close>

fun hex_digits :: "nat \<Rightarrow> string" where
  "hex_digits n = (if n < 16 then [hex_char n] else hex_digits (n div 16) @ [hex_char (n mod 16)])"

fun dec_digits :: "nat \<Rightarrow> string" where
  "dec_digits n = (if n < 10 then [hex_char n] else dec_digits (n div 10) @ [hex_char (n mod 10)])"

declare hex_digits.simps [simp del] dec_digits.simps [simp del]

definition print_hex :: "u64 \<Rightarrow> string" where
  "print_hex v = ''0x'' @ hex_digits (unat v)"

definition dec_int :: "int \<Rightarrow> string" where
  "dec_int i = (if i < 0 then ''-'' @ dec_digits (nat (- i)) else dec_digits (nat i))"

definition to_string_i64 :: "i64 \<Rightarrow> string" where
  "to_string_i64 v = dec_int (sint v)"

definition to_string_i32 :: "i32 \<Rightarrow> string" where
  "to_string_i32 v = dec_int (sint v)"

definition to_string_u64 :: "u64 \<Rightarrow> string" where
  "to_string_u64 v = dec_digits (unat v)"

section \<open>Reading\<close>

definition digits_val :: "nat \<Rightarrow> string \<Rightarrow> nat" where
  "digits_val base ds = foldl (\<lambda>a c. a * base + digit_val c) 0 ds"

text \<open>The NUL-terminated view \<open>s.c_str()\<close> hands to the C library.\<close>

definition c_str :: "string \<Rightarrow> string" where
  "c_str s = takeWhile (\<lambda>c. char_code c \<noteq> 0) s"

text \<open>The optional sign of the \<open>strto*\<close> family: whether it is a minus, and the rest.\<close>

fun split_sign :: "string \<Rightarrow> bool \<times> string" where
  "split_sign [] = (False, [])"
| "split_sign (c # cs) =
     (if char_code c = 45 then (True, cs) else if char_code c = 43 then (False, cs) else (False, c # cs))"

text \<open>The optional \<open>0x\<close>/\<open>0X\<close> of base 16, taken only when a hexadecimal digit follows.\<close>

fun skip_0x :: "string \<Rightarrow> string" where
  "skip_0x (a # b # c # cs) =
     (if char_code a = 48 \<and> (char_code b = 120 \<or> char_code b = 88) \<and> is_hex_digit c
      then c # cs else a # b # c # cs)"
| "skip_0x s = s"

text \<open>
  \<open>strtoull(p, nullptr, 16)\<close>: leading white space, a sign, the optional prefix, then the
  longest run of digits. No digit gives 0; a magnitude beyond 64 bits gives \<open>ULLONG_MAX\<close>; a
  minus negates modulo \<open>2^64\<close>.
\<close>

definition strtoull16 :: "string \<Rightarrow> u64" where
  "strtoull16 p =
     (let (neg, r) = split_sign (dropWhile is_space p);
          n = digits_val 16 (takeWhile is_hex_digit (skip_0x r))
      in if n \<ge> 2 ^ 64 then - 1 else if neg then - of_nat n else of_nat n)"

text \<open>\<open>std::stoi\<close>: \<open>Inl\<close> is \<open>std::invalid_argument\<close> or \<open>std::out_of_range\<close>.\<close>

definition stoi :: "string \<Rightarrow> i32 result" where
  "stoi s =
     (let (neg, r) = split_sign (dropWhile is_space (c_str s));
          ds = takeWhile is_dec_digit r;
          v = (if neg then - int (digits_val 10 ds) else int (digits_val 10 ds))
      in if ds = [] then Inl ''stoi''
         else if v < - (2 ^ 31) \<or> 2 ^ 31 \<le> v then Inl ''stoi'' else Inr (word_of_int v))"

text \<open>\<open>std::stoull\<close> in base 10\<close>

definition stoull :: "string \<Rightarrow> u64 result" where
  "stoull s =
     (let (neg, r) = split_sign (dropWhile is_space (c_str s));
          ds = takeWhile is_dec_digit r;
          n = digits_val 10 ds
      in if ds = [] then Inl ''stoull''
         else if n \<ge> 2 ^ 64 then Inl ''stoull''
         else Inr (if neg then - of_nat n else of_nat n))"

section \<open>Round trips\<close>

lemma char_code_hex_char: "n < 16 \<Longrightarrow> char_code (hex_char n) = (if n < 10 then n + 48 else n + 87)"
  by (simp add: char_code_def hex_char_def)

lemma hex_char_digit: "n < 16 \<Longrightarrow> is_hex_digit (hex_char n)"
  by (auto simp: is_hex_digit_def char_code_hex_char)

lemma dec_char_digit: "n < 10 \<Longrightarrow> is_dec_digit (hex_char n)"
  by (auto simp: is_dec_digit_def char_code_hex_char)

lemma digit_val_hex_char: "n < 16 \<Longrightarrow> digit_val (hex_char n) = n"
  by (auto simp: digit_val_def char_code_hex_char)

lemma digits_val_snoc: "digits_val b (ds @ [c]) = digits_val b ds * b + digit_val c"
  by (simp add: digits_val_def)

lemma hex_digits_all: "list_all is_hex_digit (hex_digits n)"
proof (induction n rule: hex_digits.induct)
  case (1 n)
  then show ?case
    by (cases "n < 16") (simp_all add: hex_digits.simps [of n] hex_char_digit)
qed

lemma digits_val_hex_digits: "digits_val 16 (hex_digits n) = n"
proof (induction n rule: hex_digits.induct)
  case (1 n)
  then show ?case
    by (cases "n < 16")
      (simp_all add: hex_digits.simps [of n] digits_val_snoc digit_val_hex_char,
       simp add: digits_val_def digit_val_hex_char)
qed

lemma dec_digits_all: "list_all is_dec_digit (dec_digits n)"
proof (induction n rule: dec_digits.induct)
  case (1 n)
  then show ?case
    by (cases "n < 10") (simp_all add: dec_digits.simps [of n] dec_char_digit)
qed

lemma digits_val_dec_digits: "digits_val 10 (dec_digits n) = n"
proof (induction n rule: dec_digits.induct)
  case (1 n)
  then show ?case
    by (cases "n < 10")
      (simp_all add: dec_digits.simps [of n] digits_val_snoc digit_val_hex_char,
       simp add: digits_val_def digit_val_hex_char)
qed

lemma hex_digits_nonempty: "hex_digits n \<noteq> []"
  by (simp add: hex_digits.simps [of n])

lemma dec_digits_nonempty: "dec_digits n \<noteq> []"
  by (simp add: dec_digits.simps [of n])

lemma takeWhile_list_all: "list_all P xs \<Longrightarrow> takeWhile P xs = xs"
  by (simp add: list_all_iff)

text \<open>A run of digits passes the leading stages of the \<open>strto*\<close> readers untouched.\<close>

lemma digit_not_space: "is_hex_digit c \<Longrightarrow> \<not> is_space c"
  by (auto simp: is_hex_digit_def is_space_def)

lemma dropWhile_space_digits: "list_all is_hex_digit ds \<Longrightarrow> dropWhile is_space ds = ds"
  by (cases ds) (auto simp: digit_not_space)

lemma split_sign_digits: "list_all is_hex_digit ds \<Longrightarrow> split_sign ds = (False, ds)"
  by (cases ds) (auto simp: is_hex_digit_def)

lemma skip_0x_digits: "list_all is_hex_digit ds \<Longrightarrow> skip_0x ds = ds"
  by (induction ds rule: skip_0x.induct) (auto simp: is_hex_digit_def)

lemma strtoull16_digits:
  "list_all is_hex_digit ds \<Longrightarrow> digits_val 16 ds < 2 ^ 64 \<Longrightarrow>
   strtoull16 ds = of_nat (digits_val 16 ds)"
  by (simp add: strtoull16_def dropWhile_space_digits split_sign_digits skip_0x_digits
      takeWhile_list_all)

lemma unat_u64_bound: "unat (v :: u64) < 2 ^ 64"
  using unsigned_less [of v, where ?'a = nat] by simp

lemma dec_is_hex: "list_all is_dec_digit ds \<Longrightarrow> list_all is_hex_digit ds"
  by (auto simp: list_all_iff is_dec_digit_def is_hex_digit_def)

lemma c_str_digits: "list_all is_hex_digit ds \<Longrightarrow> c_str ds = ds"
  unfolding c_str_def by (rule takeWhile_list_all) (auto simp: list_all_iff is_hex_digit_def)

lemma stoi_dec_digits: "n < 2 ^ 31 \<Longrightarrow> stoi (dec_digits n) = Inr (of_nat n)"
  using dec_digits_all [of n]
  by (simp add: stoi_def c_str_digits dropWhile_space_digits split_sign_digits dec_is_hex
      takeWhile_list_all dec_digits_nonempty digits_val_dec_digits)

lemma stoull_dec_digits: "n < 2 ^ 64 \<Longrightarrow> stoull (dec_digits n) = Inr (of_nat n)"
  using dec_digits_all [of n]
  by (simp add: stoull_def c_str_digits dropWhile_space_digits split_sign_digits dec_is_hex
      takeWhile_list_all dec_digits_nonempty digits_val_dec_digits)

lemma dec_digits_inj: "dec_digits m = dec_digits n \<longleftrightarrow> m = n"
  by (metis digits_val_dec_digits)

lemma dec_digits_no_minus: "dec_digits n \<noteq> CHR ''-'' # s"
  using dec_digits_all [of n] by (auto simp: is_dec_digit_def char_code_def)

lemma dec_int_inj: "dec_int i = dec_int j \<longleftrightarrow> i = j"
  by (auto simp: dec_int_def dec_digits_inj dec_digits_no_minus dec_digits_no_minus [symmetric])

lemma to_string_i64_inj: "to_string_i64 a = to_string_i64 b \<longleftrightarrow> a = b"
  by (auto simp: to_string_i64_def dec_int_inj intro: signed_word_eqI)

end
