(* ===== verification/Names.thy ===== *)
theory Names
  imports Text_Num
begin

text \<open>
  The string predicates and normal forms the check-in diff compares with: the recogniser of
  auto-generated symbol names (\<open>isAutoGeneratedSymbolName\<close> of \<open>GhidraConnection.cpp\<close> and the
  older \<open>isAutoGenName\<close> of \<open>SyncEngine.cpp\<close>), the type-name normal form
  \<open>canonicalTypeName\<close>, the calling-convention normal form \<open>canonicalCCName\<close>, the recogniser
  of register default names and the per-kind auto-name filters of variables. Lemmas: the
  recogniser equals a grammar of names, the normal form commutes with pointer and array
  formation, drops elaborated keywords and is idempotent.
\<close>

section \<open>Auto-generated symbol names\<close>

text \<open>
  \<open>hexSuffix(offset, minLen)\<close>: every character from \<open>offset\<close> on is a hexadecimal digit and there
  are at least \<open>minLen\<close> of them.
\<close>

definition hexSuffix :: "string \<Rightarrow> nat \<Rightarrow> nat \<Rightarrow> bool" where
  "hexSuffix n offset minLen \<longleftrightarrow>
     (if length n < offset + minLen then False else list_all is_hex_digit (drop offset n))"

function isAutoGeneratedSymbolName :: "string \<Rightarrow> bool" where
  "isAutoGeneratedSymbolName n =
     (if starts_with ''sub_'' n \<and> hexSuffix n 4 4 then True
      else if starts_with ''FUN_'' n \<and> hexSuffix n 4 4 then True
      else if starts_with ''off_'' n \<and> hexSuffix n 4 4 then True
      else if starts_with ''unk_'' n \<and> hexSuffix n 4 4 then True
      else if starts_with ''data_'' n \<and> hexSuffix n 5 4 then True
      else if starts_with ''j_'' n \<and> hexSuffix n 2 4 then True
      else if starts_with ''j_'' n then isAutoGeneratedSymbolName (drop 2 n)
      else False)"
  by pat_completeness auto
termination
proof (relation "measure length", goal_cases)
  case (2 n)
  from 2(7) obtain t where "n = ''j_'' @ t" unfolding starts_with_iff ..
  then show ?case by simp
qed simp

declare isAutoGeneratedSymbolName.simps [simp del]

text \<open>The import side's lambda \<open>isAutoGenName\<close>\<close>

definition isAutoGenName :: "string \<Rightarrow> bool" where
  "isAutoGenName n \<longleftrightarrow>
     (if starts_with ''sub_'' n \<and> hexSuffix n 4 4 then True
      else if starts_with ''FUN_'' n \<and> hexSuffix n 4 4 then True
      else if starts_with ''off_'' n \<and> hexSuffix n 4 4 then True
      else if starts_with ''unk_'' n \<and> hexSuffix n 4 4 then True
      else if starts_with ''j_'' n \<and> hexSuffix n 2 4 then True
      else False)"

section \<open>Variable names\<close>

definition autoGen_param :: "string \<Rightarrow> bool" where
  "autoGen_param n \<longleftrightarrow> n = [] \<or> starts_with ''arg'' n \<or> starts_with ''param_'' n"

definition autoGen_local :: "string \<Rightarrow> bool" where
  "autoGen_local n \<longleftrightarrow> n = [] \<or> starts_with ''var_'' n \<or> starts_with ''local_'' n"

text \<open>\<open>s.rfind(c)\<close> and \<open>s.find_last_of(c)\<close>: the position of the last occurrence\<close>

definition rfind_char :: "char \<Rightarrow> string \<Rightarrow> nat option" where
  "rfind_char c s =
     (if c \<in> set s then Some (length s - Suc (length (takeWhile (\<lambda>x. x \<noteq> c) (rev s)))) else None)"

definition isRegisterDefaultName :: "string uset \<Rightarrow> string \<Rightarrow> bool" where
  "isRegisterDefaultName archRegNames n \<longleftrightarrow>
     (if n \<in> set archRegNames then True
      else case rfind_char CHR ''_'' n of
        None \<Rightarrow> False
      | Some us \<Rightarrow>
          if us + 1 \<ge> length n then False
          else if \<not> list_all is_dec_digit (drop (us + 1) n) then False
          else take us n \<in> set archRegNames)"

definition autoGen_reg :: "string uset \<Rightarrow> string \<Rightarrow> bool" where
  "autoGen_reg archRegNames n \<longleftrightarrow>
     n = [] \<or> starts_with ''var_'' n \<or> starts_with ''local_'' n \<or> starts_with ''in_'' n \<or>
     isRegisterDefaultName archRegNames n"

section \<open>Type names\<close>

definition is_blank :: "char \<Rightarrow> bool" where
  "is_blank c \<longleftrightarrow> c = CHR '' '' \<or> char_code c = 9"

definition trim_blanks :: "string \<Rightarrow> string" where
  "trim_blanks raw = rev (dropWhile is_blank (rev (dropWhile is_blank raw)))"

definition type_keywords :: "string list" where
  "type_keywords = [''struct '', ''union '', ''enum '', ''class '', ''const '', ''volatile '']"

text \<open>One pass of the inner loop over the keywords: the string and whether anything was erased\<close>

definition strip_pass :: "string \<Rightarrow> string \<times> bool" where
  "strip_pass s =
     fold (\<lambda>kw (s, stripped). if starts_with kw s then (drop (length kw) s, True) else (s, stripped))
       type_keywords (s, False)"

lemma strip_pass_length:
  "fold (\<lambda>kw (s, stripped). if starts_with kw s then (drop (length kw) s, True) else (s, stripped))
       kws (s, b) = (s', b') \<Longrightarrow> (\<forall>kw \<in> set kws. kw \<noteq> []) \<Longrightarrow>
   length s' \<le> length s \<and> (b' \<and> \<not> b \<longrightarrow> length s' < length s) \<and> (\<not> b' \<longrightarrow> s' = s \<and> \<not> b)"
proof (induction kws arbitrary: s b)
  case (Cons kw kws)
  show ?case
  proof (cases "starts_with kw s")
    case True
    with Cons.prems have "length s' \<le> length (drop (length kw) s) \<and> b'"
      using Cons.IH [of "drop (length kw) s" True] by auto
    moreover from True Cons.prems(2) have "length (drop (length kw) s) < length s"
      by (cases kw) (auto simp: starts_with_iff)
    ultimately show ?thesis by auto
  next
    case False
    with Cons show ?thesis by auto
  qed
qed auto

lemma type_keywords_nonempty: "\<forall>kw \<in> set type_keywords. kw \<noteq> []"
  by (simp add: type_keywords_def)

function strip_keywords :: "string \<Rightarrow> string" where
  "strip_keywords s = (let (s', stripped) = strip_pass s in if stripped then strip_keywords s' else s')"
  by pat_completeness auto
termination
proof (relation "measure length", goal_cases)
  case (2 s x s' stripped)
  then show ?case
    using strip_pass_length [OF _ type_keywords_nonempty, of s False s' stripped]
    by (simp add: strip_pass_def)
qed simp

declare strip_keywords.simps [simp del]

definition type_aliases :: "(string, string) umap" where
  "type_aliases =
     [(''int8_t'', ''sbyte''), (''uint8_t'', ''byte''),
      (''int16_t'', ''short''), (''uint16_t'', ''ushort''),
      (''int32_t'', ''int''), (''uint32_t'', ''uint''),
      (''int64_t'', ''longlong''), (''uint64_t'', ''ulonglong''),
      (''size_t'', ''ulonglong''), (''ssize_t'', ''longlong''),
      (''intptr_t'', ''longlong''), (''uintptr_t'', ''ulonglong''),
      (''char'', ''sbyte''), (''uchar'', ''byte''),
      (''word'', ''ushort''), (''dword'', ''uint''), (''qword'', ''ulonglong''),
      (''long'', ''int''), (''ulong'', ''uint'')]"

lemma trim_blanks_length: "length (trim_blanks s) \<le> length s"
  unfolding trim_blanks_def using length_dropWhile_le le_trans by (metis length_rev)

function canonicalTypeName :: "string \<Rightarrow> string" where
  "canonicalTypeName raw =
     (let s = trim_blanks raw in
      if s = [] then []
      else if last s = CHR ''*'' then canonicalTypeName (butlast s) @ ''*''
      else case (if last s = CHR '']'' then rfind_char CHR ''['' s else None) of
        Some ob \<Rightarrow> canonicalTypeName (take ob s) @ drop ob s
      | None \<Rightarrow> let t = strip_keywords s in find_or type_aliases t t)"
  by pat_completeness auto
termination
proof (relation "measure length", goal_cases)
  case (2 raw s)
  then have "length (butlast s) < length s" by simp
  also have "\<dots> \<le> length raw" using 2 trim_blanks_length [of raw] by simp
  finally show ?case by simp
next
  case (3 raw s ob)
  then have "ob < length s"
    by (cases s rule: rev_cases) (auto simp: rfind_char_def split: if_splits)
  with 3 show ?case using trim_blanks_length [of raw] by auto
qed simp

declare canonicalTypeName.simps [simp del]

definition canonicalCCName :: "string \<Rightarrow> string" where
  "canonicalCCName raw = dropWhile (\<lambda>c. c = CHR ''_'') raw"

section \<open>Lemmas on auto-generated names\<close>

text \<open>The grammar: a known prefix followed by at least four hexadecimal digits\<close>

definition auto_prefixes :: "string list" where
  "auto_prefixes = [''sub_'', ''FUN_'', ''off_'', ''unk_'', ''data_'', ''j_'']"

definition auto_stem :: "string list \<Rightarrow> string \<Rightarrow> bool" where
  "auto_stem ps n \<longleftrightarrow> (\<exists>p h. p \<in> set ps \<and> n = p @ h \<and> 4 \<le> length h \<and> list_all is_hex_digit h)"

lemma hexSuffix_prefix:
  "starts_with p n \<and> hexSuffix n (length p) k \<longleftrightarrow> (\<exists>h. n = p @ h \<and> k \<le> length h \<and> list_all is_hex_digit h)"
  by (auto simp: starts_with_iff hexSuffix_def)

lemma auto_stem_ex: "auto_stem ps n \<longleftrightarrow> list_ex (\<lambda>p. starts_with p n \<and> hexSuffix n (length p) 4) ps"
  unfolding hexSuffix_prefix auto_stem_def by (auto simp: list_ex_iff)

lemma starts_j: "starts_with ''j_'' n \<and> P (drop 2 n) \<longleftrightarrow> (\<exists>t. n = ''j_'' @ t \<and> P t)"
  by (auto simp: starts_with_iff)

lemma isAuto_unfold:
  "isAutoGeneratedSymbolName n \<longleftrightarrow>
     auto_stem auto_prefixes n \<or> (\<exists>t. n = ''j_'' @ t \<and> isAutoGeneratedSymbolName t)"
  unfolding starts_j [symmetric] auto_stem_ex auto_prefixes_def
  by (subst isAutoGeneratedSymbolName.simps) (simp add: numeral_eq_Suc, blast)

lemma isAutoGen_iff: "isAutoGenName n \<longleftrightarrow> auto_stem [''sub_'', ''FUN_'', ''off_'', ''unk_'', ''j_''] n"
  unfolding auto_stem_ex isAutoGenName_def by (simp add: numeral_eq_Suc)

lemma auto_stem_mono: "auto_stem ps n \<Longrightarrow> set ps \<subseteq> set qs \<Longrightarrow> auto_stem qs n"
  unfolding auto_stem_def by blast

fun thunk_of :: "nat \<Rightarrow> string \<Rightarrow> string" where
  "thunk_of 0 n = n"
| "thunk_of (Suc k) n = ''j_'' @ thunk_of k n"

lemma isAuto_grammar:
  "isAutoGeneratedSymbolName n \<longleftrightarrow> (\<exists>k m. auto_stem auto_prefixes m \<and> n = thunk_of k m)"
proof
  assume "isAutoGeneratedSymbolName n"
  then show "\<exists>k m. auto_stem auto_prefixes m \<and> n = thunk_of k m"
  proof (induction n rule: length_induct)
    case IH: (1 n)
    from IH(2) consider "auto_stem auto_prefixes n" | t where "n = ''j_'' @ t" "isAutoGeneratedSymbolName t"
      unfolding isAuto_unfold [of n] by blast
    then show ?case
    proof cases
      case 1
      then show ?thesis by (intro exI [of _ 0] exI [of _ n]) simp
    next
      case (2 t)
      then have "length t < length n" by simp
      with IH(1) 2(2) obtain k m where "auto_stem auto_prefixes m" "t = thunk_of k m" by blast
      with 2 show ?thesis by (intro exI [of _ "Suc k"] exI [of _ m]) simp
    qed
  qed
next
  assume "\<exists>k m. auto_stem auto_prefixes m \<and> n = thunk_of k m"
  then obtain k m where m: "auto_stem auto_prefixes m" and n: "n = thunk_of k m" by blast
  from m have "isAutoGeneratedSymbolName (thunk_of k m)" for k
    by (induction k) (auto intro: isAuto_unfold [THEN iffD2])
  with n show "isAutoGeneratedSymbolName n" by simp
qed

lemma isAutoGen_imp: "isAutoGenName n \<Longrightarrow> isAutoGeneratedSymbolName n"
  unfolding isAutoGen_iff isAuto_unfold [of n]
  by (rule disjI1) (erule auto_stem_mono, simp add: auto_prefixes_def)

lemma auto_stem_Cons:
  "auto_stem (p # ps) n \<longleftrightarrow> (\<exists>h. n = p @ h \<and> 4 \<le> length h \<and> list_all is_hex_digit h) \<or> auto_stem ps n"
  unfolding auto_stem_def by auto

lemma isAutoGen_thunk: "isAutoGenName (''j_'' @ t) \<longleftrightarrow> 4 \<le> length t \<and> list_all is_hex_digit t"
  unfolding isAutoGen_iff auto_stem_def by auto

lemma isAutoGen_data: "\<not> isAutoGenName (''data_'' @ h)"
  by (simp add: isAutoGenName_def starts_with_def)

section \<open>Lemmas on type names\<close>

text \<open>Trimming when the last character is no blank\<close>

lemma dropWhile_snoc_keep: "\<not> P c \<Longrightarrow> dropWhile P (s @ c # t) = dropWhile P s @ c # t"
  by (induction s) auto

lemma trim_snoc: "\<not> is_blank c \<Longrightarrow> trim_blanks (s @ [c]) = dropWhile is_blank s @ [c]"
  by (simp add: trim_blanks_def dropWhile_snoc_keep)

lemma trim_dropWhile: "trim_blanks (dropWhile is_blank s) = trim_blanks s"
  by (simp add: trim_blanks_def)

lemma dropWhile_snoc_drop: "P c \<Longrightarrow> dropWhile P (s @ [c]) = (if \<forall>x \<in> set s. P x then [] else dropWhile P s @ [c])"
  by (induction s) auto

lemma trim_snoc_blank: "is_blank c \<Longrightarrow> trim_blanks (s @ [c]) = trim_blanks s"
  using dropWhile_eq_Nil_conv [of is_blank s]
  by (cases "\<forall>x \<in> set s. is_blank x") (auto simp: trim_blanks_def dropWhile_snoc_drop dest: set_dropWhileD)

lemma canonical_cong: "trim_blanks s = trim_blanks t \<Longrightarrow> canonicalTypeName s = canonicalTypeName t"
  by (simp add: canonicalTypeName.simps [of s] canonicalTypeName.simps [of t])

lemma canonical_Nil [simp]: "canonicalTypeName [] = []"
  by code_simp

lemma canonical_dropWhile: "canonicalTypeName (dropWhile is_blank s) = canonicalTypeName s"
  by (rule canonical_cong) (rule trim_dropWhile)

lemma canonical_trim_right: "is_blank c \<Longrightarrow> canonicalTypeName (s @ [c]) = canonicalTypeName s"
  by (rule canonical_cong) (rule trim_snoc_blank)

lemma canonical_pointer: "canonicalTypeName (s @ ''*'') = canonicalTypeName s @ ''*''"
proof -
  have "trim_blanks (s @ ''*'') = dropWhile is_blank s @ ''*''"
    by (rule trim_snoc) (simp add: is_blank_def char_code_def)
  then show ?thesis
    by (subst canonicalTypeName.simps) (simp add: canonical_dropWhile)
qed

lemma canonical_pointer_space: "canonicalTypeName (s @ '' *'') = canonicalTypeName (s @ ''*'')"
  using canonical_pointer [of "s @ '' ''"] canonical_trim_right [of "CHR '' ''" s]
  by (simp add: is_blank_def canonical_pointer)

lemma rfind_last: "c \<notin> set t \<Longrightarrow> rfind_char c (s @ c # t) = Some (length s)"
proof -
  assume "c \<notin> set t"
  then have "takeWhile (\<lambda>x. x \<noteq> c) (rev t @ [c] @ rev s) = rev t"
    by (metis (mono_tags, lifting) append_Cons set_rev takeWhile_append2 takeWhile_eq_Nil_iff list.sel(1) self_append_conv)
  then show ?thesis by (simp add: rfind_char_def)
qed

lemma rfind_Some: "rfind_char c s = Some i \<Longrightarrow> \<exists>t. s = take i s @ c # t \<and> c \<notin> set t"
proof -
  assume r: "rfind_char c s = Some i"
  then have "c \<in> set s" by (auto simp: rfind_char_def split: if_splits)
  then obtain u t where "s = u @ c # t" "c \<notin> set t" using split_list_last by metis
  with r rfind_last [of c t u] show ?thesis by auto
qed

lemma canonical_array:
  assumes "CHR ''['' \<notin> set n"
  shows "canonicalTypeName (s @ ''['' @ n @ '']'') = canonicalTypeName s @ ''['' @ n @ '']''"
proof -
  have "trim_blanks ((s @ ''['' @ n) @ '']'') = dropWhile is_blank (s @ ''['' @ n) @ '']''"
    by (rule trim_snoc) (simp add: is_blank_def char_code_def)
  also have "dropWhile is_blank (s @ ''['' @ n) = dropWhile is_blank s @ ''['' @ n"
    by (simp add: dropWhile_snoc_keep is_blank_def char_code_def)
  finally have t: "trim_blanks (s @ CHR ''['' # n @ '']'') = dropWhile is_blank s @ CHR ''['' # n @ '']''" by simp
  have "rfind_char CHR ''['' (dropWhile is_blank s @ CHR ''['' # n @ '']'') = Some (length (dropWhile is_blank s))"
    using assms by (intro rfind_last) simp
  with t show ?thesis
    by (subst canonicalTypeName.simps) (simp add: canonical_dropWhile)
qed

text \<open>Stripping keywords one at a time, without the passes of the source's loop\<close>

function bare_name :: "string \<Rightarrow> string" where
  "bare_name s = (case find (\<lambda>kw. starts_with kw s) type_keywords of
     None \<Rightarrow> s | Some kw \<Rightarrow> bare_name (drop (length kw) s))"
  by pat_completeness auto
termination
proof (relation "measure length", goal_cases)
  case (2 s kw)
  then have "kw \<noteq> []" "starts_with kw s"
    using type_keywords_nonempty by (auto simp: find_Some_iff)
  then show ?case by (cases kw) (auto simp: starts_with_iff)
qed simp

declare bare_name.simps [simp del]

lemma bare_name_keyword: "kw \<in> set type_keywords \<Longrightarrow> bare_name (kw @ t) = bare_name t"
  by (subst bare_name.simps) (auto simp: type_keywords_def starts_with_def)

lemma bare_name_fix: "\<forall>kw \<in> set type_keywords. \<not> starts_with kw s \<Longrightarrow> bare_name s = s"
proof -
  assume "\<forall>kw \<in> set type_keywords. \<not> starts_with kw s"
  then have "find (\<lambda>kw. starts_with kw s) type_keywords = None" by (simp add: find_None_iff)
  then show ?thesis by (simp add: bare_name.simps [of s])
qed

lemma strip_pass_bare:
  assumes "strip_pass s = (s', b)"
  shows "bare_name s' = bare_name s" and "\<not> b \<Longrightarrow> s' = s \<and> (\<forall>kw \<in> set type_keywords. \<not> starts_with kw s)"
proof -
  let ?f = "\<lambda>kw (s, stripped). if starts_with kw s then (drop (length kw) s, True) else (s, stripped)"
  have gen: "fold ?f kws (s, b0) = (s', b) \<Longrightarrow> set kws \<subseteq> set type_keywords \<Longrightarrow>
      bare_name s' = bare_name s \<and> (\<not> b \<longrightarrow> \<not> b0 \<and> s' = s \<and> (\<forall>kw \<in> set kws. \<not> starts_with kw s))" for kws s b0
  proof (induction kws arbitrary: s b0)
    case (Cons kw kws)
    show ?case
    proof (cases "starts_with kw s")
      case True
      then obtain t where t: "s = kw @ t" unfolding starts_with_iff ..
      have "bare_name s' = bare_name t \<and> b" using Cons True t by (auto dest: Cons.IH)
      with t Cons.prems show ?thesis by (auto simp: bare_name_keyword)
    next
      case False
      with Cons show ?thesis by auto
    qed
  qed auto
  from gen [of type_keywords s False] assms show "bare_name s' = bare_name s"
    and "\<not> b \<Longrightarrow> s' = s \<and> (\<forall>kw \<in> set type_keywords. \<not> starts_with kw s)"
    by (auto simp: strip_pass_def)
qed

lemma strip_keywords_bare: "strip_keywords s = bare_name s"
proof (induction s rule: strip_keywords.induct)
  case (1 s)
  obtain s' b where p: "strip_pass s = (s', b)" by fastforce
  show ?case
    using 1 [OF p [symmetric] refl] strip_pass_bare [OF p]
    by (cases b) (auto simp: strip_keywords.simps [of s] p bare_name_fix)
qed

lemma bare_name_idem: "bare_name (bare_name s) = bare_name s"
proof (induction s rule: bare_name.induct)
  case (1 s)
  then show ?case
    by (cases "find (\<lambda>kw. starts_with kw s) type_keywords") (simp_all add: bare_name.simps [of s])
qed

lemma bare_name_last:
  "s \<noteq> [] \<Longrightarrow> \<not> is_blank (last s) \<Longrightarrow>
   bare_name s \<noteq> [] \<and> last (bare_name s) = last s \<and> set (bare_name s) \<subseteq> set s"
proof (induction s rule: bare_name.induct)
  case (1 s)
  show ?case
  proof (cases "find (\<lambda>kw. starts_with kw s) type_keywords")
    case None
    with 1 show ?thesis by (simp add: bare_name.simps [of s])
  next
    case (Some kw)
    then have kw: "kw \<in> set type_keywords" "starts_with kw s" by (auto simp: find_Some_iff)
    then obtain t where t: "s = kw @ t" by (auto simp: starts_with_iff)
    have "is_blank (last kw)" using kw(1) by (auto simp: type_keywords_def is_blank_def)
    with 1 t have tn: "t \<noteq> []" by auto
    have "bare_name t \<noteq> [] \<and> last (bare_name t) = last t \<and> set (bare_name t) \<subseteq> set t"
      using 1(1) [OF Some] 1(3) t tn by simp
    with t tn show ?thesis by (auto simp: bare_name_keyword [OF kw(1)])
  qed
qed

text \<open>A name that is neither a pointer nor an array: its normal form is that of its bare name\<close>

definition type_base :: "string \<Rightarrow> bool" where
  "type_base s \<longleftrightarrow> s \<noteq> [] \<and> \<not> is_blank (last s) \<and> last s \<noteq> CHR ''*'' \<and>
     \<not> (last s = CHR '']'' \<and> CHR ''['' \<in> set s)"

lemma canonical_base:
  assumes "type_base s"
  shows "canonicalTypeName s = find_or type_aliases (bare_name (dropWhile is_blank s)) (bare_name (dropWhile is_blank s))"
proof -
  from assms obtain b c where s: "s = b @ [c]" and c: "\<not> is_blank c" 
    by (cases s rule: rev_cases) (auto simp: type_base_def)
  have t: "trim_blanks s = dropWhile is_blank s" and d: "dropWhile is_blank s = dropWhile is_blank b @ [c]"
    using trim_snoc [OF c, of b] s c by (simp_all add: dropWhile_snoc_keep)
  then have l: "last (dropWhile is_blank s) = c" "dropWhile is_blank s \<noteq> []" by simp_all
  have "c = CHR '']'' \<Longrightarrow> rfind_char CHR ''['' (dropWhile is_blank s) = None"
    using assms s set_dropWhileD [of "CHR ''[''" is_blank s] by (auto simp: type_base_def rfind_char_def)
  moreover have "c \<noteq> CHR ''*''" using assms s by (simp add: type_base_def)
  ultimately show ?thesis
    unfolding canonicalTypeName.simps [of s] t using l by (simp add: strip_keywords_bare Let_def del: dropWhile_eq_Nil_conv)
qed

lemma type_name_cases [case_names empty blank pointer array base]:
  obtains "s = []"
  | t c where "s = t @ [c]" "is_blank c"
  | t where "s = t @ ''*''"
  | t n where "s = t @ ''['' @ n @ '']''" "CHR ''['' \<notin> set n"
  | "type_base s"
proof (cases s rule: rev_cases)
  case (snoc t c)
  show ?thesis
  proof (cases "c = CHR '']'' \<and> CHR ''['' \<in> set t")
    case True
    then obtain u n where "t = u @ CHR ''['' # n" "CHR ''['' \<notin> set n" using split_list_last by metis
    with True snoc that(4) [of u n] show ?thesis by simp
  next
    case False
    with snoc that(2,3,5) show ?thesis by (auto simp: type_base_def)
  qed
qed (rule that(1))

lemma canonical_keyword:
  assumes "kw \<in> set type_keywords" "s \<noteq> []" "hd s \<noteq> CHR ''*''" "hd s \<noteq> CHR ''[''" "\<not> is_blank (hd s)"
  shows "canonicalTypeName (kw @ s) = canonicalTypeName s"
  using assms(2-)
proof (induction s rule: length_induct)
  case IH: (1 s)
  have step: "t \<noteq> [] \<Longrightarrow> u \<noteq> [] \<Longrightarrow> s = t @ u \<Longrightarrow> canonicalTypeName (kw @ t) = canonicalTypeName t" for t u
    using IH by (simp add: hd_append)
  show ?case
  proof (cases s rule: type_name_cases)
    case empty
    with IH show ?thesis by simp
  next
    case (blank t c)
    with IH have "t \<noteq> []" by auto
    with blank step [of t "[c]"] show ?thesis
      using canonical_trim_right [of c "kw @ t"] by (simp add: canonical_trim_right)
  next
    case (pointer t)
    with IH have "t \<noteq> []" by auto
    with pointer step [of t "''*''"] show ?thesis
      using canonical_pointer [of "kw @ t"] by (simp add: canonical_pointer)
  next
    case (array t n)
    with IH have "t \<noteq> []" by auto
    with array step [of t "''['' @ n @ '']''"] show ?thesis
      using canonical_array [of n "kw @ t"] canonical_array [of n t] by simp
  next
    case base
    have nb: "CHR ''['' \<notin> set kw" and hdk: "kw \<noteq> []" "\<not> is_blank (hd kw)"
      using assms(1) by (auto simp: type_keywords_def is_blank_def char_code_def)
    with base have b': "type_base (kw @ s)" by (auto simp: type_base_def)
    have "dropWhile is_blank (kw @ s) = kw @ s" using hdk by (cases kw) auto
    moreover have "dropWhile is_blank s = s" using IH by (cases s) auto
    ultimately show ?thesis
      using canonical_base [OF base] canonical_base [OF b'] by (simp add: bare_name_keyword [OF assms(1)])
  qed
qed

lemma alias_targets_canonical:
  "\<forall>t \<in> set (map snd type_aliases). canonicalTypeName t = t" 
  by code_simp

lemma canonical_fix_base:
  assumes "type_base t" "\<not> is_blank (hd t)" "bare_name t = t" "map_of type_aliases t = None"
  shows "canonicalTypeName t = t"
proof -
  have "dropWhile is_blank t = t" using assms by (cases t) auto
  with canonical_base [OF assms(1)] assms show ?thesis by (simp add: find_or_def)
qed

lemma canonical_idem:
  "canonicalTypeName s = [] \<or> \<not> is_blank (hd (canonicalTypeName s)) \<Longrightarrow>
   canonicalTypeName (canonicalTypeName s) = canonicalTypeName s"
proof (induction s rule: length_induct)
  case IH: (1 s)
  show ?case
  proof (cases s rule: type_name_cases)
    case empty
    then show ?thesis by simp
  next
    case (blank t c)
    with IH show ?thesis using IH(1) [rule_format, of t] by (simp add: canonical_trim_right)
  next
    case (pointer t)
    then have "canonicalTypeName (canonicalTypeName t) = canonicalTypeName t"
      using IH by (auto simp: canonical_pointer hd_append split: if_splits)
    with pointer show ?thesis by (simp add: canonical_pointer)
  next
    case (array t n)
    then have "canonicalTypeName (canonicalTypeName t) = canonicalTypeName t"
      using IH canonical_array [of n t] by (auto simp: hd_append split: if_splits)
    with array canonical_array [of n] show ?thesis by simp
  next
    case base
    let ?t = "bare_name (dropWhile is_blank s)"
    show ?thesis
    proof (cases "map_of type_aliases ?t")
      case None
      then have e: "canonicalTypeName s = ?t" using canonical_base [OF base] by (simp add: find_or_def)
      have "\<not> is_blank (last s)" and sn: "s \<noteq> []" using base by (auto simp: type_base_def)
      then have dn: "dropWhile is_blank s \<noteq> []" "last (dropWhile is_blank s) = last s"
        by (cases s rule: rev_cases; simp add: dropWhile_snoc_keep)+
      have l: "?t \<noteq> []" "last ?t = last s" "set ?t \<subseteq> set s"
        using bare_name_last [OF dn(1)] dn(2) \<open>\<not> is_blank (last s)\<close>
        by (auto dest: set_dropWhileD)
      then have "type_base ?t" using base by (auto simp: type_base_def)
      with None l IH(2) e show ?thesis by (simp add: canonical_fix_base bare_name_idem)
    next
      case (Some v)
      then have "canonicalTypeName s = v" using canonical_base [OF base] by (simp add: find_or_def)
      moreover have "v \<in> set (map snd type_aliases)" using map_of_SomeD [OF Some] by force
      ultimately show ?thesis using alias_targets_canonical by blast
    qed
  qed
qed

section \<open>Properties\<close>

text \<open>
  The recogniser of auto-generated symbol names accepts exactly the names of the grammar:
  any number of \<open>j_\<close> thunk prefixes in front of one of the known prefixes followed by at least
  four hexadecimal digits. In particular its recursion on \<open>j_\<close> names always ends.
\<close>

theorem auto_name_grammar:
  "isAutoGeneratedSymbolName n \<longleftrightarrow>
     (\<exists>k p h. p \<in> set auto_prefixes \<and> 4 \<le> length h \<and> list_all is_hex_digit h \<and>
              n = thunk_of k (p @ h))"
  unfolding isAuto_grammar auto_stem_def by blast

text \<open>
  The import side's filter \<open>isAutoGenName\<close> and the check-in side's filter
  \<open>isAutoGeneratedSymbolName\<close> disagree exactly on \<open>data_\<close> names and on thunks of
  auto-generated names that are not bare hexadecimal; there is no name only the import side
  rejects.
\<close>

theorem import_filter_gap:
  "isAutoGenName n \<noteq> isAutoGeneratedSymbolName n \<longleftrightarrow>
     (\<exists>h. n = ''data_'' @ h \<and> 4 \<le> length h \<and> list_all is_hex_digit h) \<or>
     (\<exists>t. n = ''j_'' @ t \<and> isAutoGeneratedSymbolName t \<and>
          \<not> (4 \<le> length t \<and> list_all is_hex_digit t))"
proof -
  have "isAutoGeneratedSymbolName n \<longleftrightarrow> isAutoGenName n \<or>
      (\<exists>h. n = ''data_'' @ h \<and> 4 \<le> length h \<and> list_all is_hex_digit h) \<or>
      (\<exists>t. n = ''j_'' @ t \<and> isAutoGeneratedSymbolName t)"
    unfolding isAuto_unfold [of n] isAutoGen_iff auto_prefixes_def auto_stem_Cons by argo
  then have "isAutoGenName n \<noteq> isAutoGeneratedSymbolName n \<longleftrightarrow>
      \<not> isAutoGenName n \<and> ((\<exists>h. n = ''data_'' @ h \<and> 4 \<le> length h \<and> list_all is_hex_digit h) \<or>
      (\<exists>t. n = ''j_'' @ t \<and> isAutoGeneratedSymbolName t))"
    by argo
  then show ?thesis by (auto simp: isAutoGen_thunk [simplified] isAutoGen_data [simplified])
qed

text \<open>
  The type-name normal form commutes with forming pointers and arrays (a blank before the
  star included) and ignores an elaborated-type keyword or qualifier in front of a name.
\<close>

theorem canonical_structure:
  "canonicalTypeName (s @ ''*'') = canonicalTypeName s @ ''*'' \<and>
   canonicalTypeName (s @ '' *'') = canonicalTypeName s @ ''*'' \<and>
   (CHR ''['' \<notin> set n \<longrightarrow>
     canonicalTypeName (s @ ''['' @ n @ '']'') = canonicalTypeName s @ ''['' @ n @ '']'') \<and>
   (kw \<in> set type_keywords \<and> s \<noteq> [] \<and> hd s \<notin> {CHR ''*'', CHR ''[''} \<and> \<not> is_blank (hd s) \<longrightarrow>
     canonicalTypeName (kw @ s) = canonicalTypeName s)"
  using canonical_pointer canonical_pointer_space canonical_array canonical_keyword by auto

theorem canonical_structure_witness:
  "canonicalTypeName ''struct Foo *'' = canonicalTypeName ''Foo *'' \<and>
   canonicalTypeName ''Foo *[4]'' = canonicalTypeName ''Foo *'' @ ''[4]'' \<and>
   canonicalTypeName ''Foo *'' = canonicalTypeName ''Foo'' @ ''*''"
  using canonical_structure [of "''Foo *''" "''4''" "''struct ''"] canonical_structure [of "''Foo''"]
  by (simp add: type_keywords_def is_blank_def char_code_def)

text \<open>
  Normalising twice is normalising once, unless the result starts with a blank (which only
  two blanks after a keyword leave behind, as in \<open>struct  Foo\<close>).
\<close>

theorem canonical_idempotent:
  assumes "canonicalTypeName s = [] \<or> \<not> is_blank (hd (canonicalTypeName s))"
  shows "canonicalTypeName (canonicalTypeName s) = canonicalTypeName s"
  using assms by (rule canonical_idem)

theorem canonical_idempotent_witness:
  "canonicalTypeName (canonicalTypeName ''const struct uint32_t *'') = ''uint*'' \<and>
   canonicalTypeName (canonicalTypeName ''struct  Foo'') \<noteq> canonicalTypeName ''struct  Foo''"
proof -
  have "canonicalTypeName ''const struct uint32_t *'' = ''uint*''" by code_simp
  then show ?thesis
    using canonical_idempotent [of "''const struct uint32_t *''"]
    by (simp add: is_blank_def char_code_def, code_simp)
qed

end
