(* ===== verification/Checkin_State.thy ===== *)
theory Checkin_State
  imports Data_Model Names
begin

text \<open>
  The check-in state of \<open>GhidraConnection\<close>: the private baseline members of the class as a record
  (\<open>m_addrToKey\<close> to \<open>m_checkinItem\<close> of \<open>GhidraConnection.h\<close>), \<open>storeCheckinState\<close> with one
  definition per loop, \<open>clearCheckinState\<close> and the accessors. Lemmas: what each baseline holds
  after a store, that a store forgets the state before it, and the well-formedness invariant
  \<open>checkin_wf\<close> every operation keeps.
\<close>

section \<open>State\<close>

record BookmarkKey =
  bk_addr :: u64
  bk_tagTypeName :: string
  bk_tagData :: string

record EquateRefKey =
  ek_addr :: u64
  ek_opIndex :: i32

record checkin_state =
  m_addrToKey :: "(u64, i64) umap"
  m_addrToOriginalName :: "(u64, string) umap"
  m_addrToCommentKey :: "(u64, string) umap"
  m_addrToOriginalComment :: "(u64, string) umap"
  m_addrToOriginalFuncComment :: "(u64, string) umap"
  m_addrToCommentField :: "(u64, string) umap"
  m_ghidraTypesByName :: "(string, GhidraDataType) umap"
  m_paramOriginalNameByKey :: "(i64, string) umap"
  m_paramOriginalTypeByKey :: "(i64, string) umap"
  m_paramKeyByAddrOrdinal :: "(u64, (i32, i64) umap) umap"
  m_localKeyByAddrOffset :: "(u64, (i32, i64) umap) umap"
  m_newParamBaseline :: "(u64, (i32, string) umap) umap"
  m_newRegLocalBaseline :: "(u64, (i32, string) umap) umap"
  m_ghidraBookmarkKeys :: "BookmarkKey uset"
  m_ghidraTagTypeNames :: "string uset"
  m_ghidraDataItemAddrs :: "u64 uset"
  m_equateOriginalNameById :: "(i64, string) umap"
  m_equateValueById :: "(i64, i64) umap"
  m_equateRefsByEquateId :: "(i64, EquateRefKey uset) umap"
  m_funcOriginalCC :: "(i64, string) umap"
  m_funcOriginalRetType :: "(i64, string) umap"
  m_funcReturnTypeId :: "(i64, i64) umap"
  m_imageBase :: u64
  m_checkinRepo :: string
  m_checkinFolder :: string
  m_checkinItem :: string

text \<open>The members as the constructor leaves them\<close>

definition initial_checkin :: checkin_state where
  "initial_checkin =
     \<lparr>m_addrToKey = [], m_addrToOriginalName = [], m_addrToCommentKey = [],
      m_addrToOriginalComment = [], m_addrToOriginalFuncComment = [], m_addrToCommentField = [],
      m_ghidraTypesByName = [], m_paramOriginalNameByKey = [], m_paramOriginalTypeByKey = [],
      m_paramKeyByAddrOrdinal = [], m_localKeyByAddrOffset = [], m_newParamBaseline = [],
      m_newRegLocalBaseline = [], m_ghidraBookmarkKeys = [], m_ghidraTagTypeNames = [],
      m_ghidraDataItemAddrs = [], m_equateOriginalNameById = [], m_equateValueById = [],
      m_equateRefsByEquateId = [], m_funcOriginalCC = [], m_funcOriginalRetType = [],
      m_funcReturnTypeId = [], m_imageBase = 0, m_checkinRepo = [], m_checkinFolder = [],
      m_checkinItem = []\<rparr>"

text \<open>The arguments of \<open>storeCheckinState\<close>, in its order\<close>

record store_args =
  sa_addrToKey :: "(u64, i64) umap"
  sa_addrToOriginalName :: "(u64, string) umap"
  sa_addrToCommentKey :: "(u64, string) umap"
  sa_addrToOriginalComment :: "(u64, string) umap"
  sa_addrToOriginalFuncComment :: "(u64, string) umap"
  sa_addrToCommentField :: "(u64, string) umap"
  sa_ghidraDataTypes :: "GhidraDataType list"
  sa_parameters :: "GhidraParameter list"
  sa_bookmarks :: "GhidraBookmark list"
  sa_dataItems :: "GhidraDataItem list"
  sa_equates :: "GhidraEquate list"
  sa_funcSigs :: "GhidraFuncSig list"
  sa_imageBase :: u64
  sa_repo :: string
  sa_folder :: string
  sa_item :: string

section \<open>storeCheckinState\<close>

definition store_types :: "GhidraDataType list \<Rightarrow> checkin_state \<Rightarrow> checkin_state" where
  "store_types dts S = S\<lparr>m_ghidraTypesByName := update_all dt_name (\<lambda>dt. dt) dts []\<rparr>"

definition store_param :: "GhidraParameter \<Rightarrow> checkin_state \<Rightarrow> checkin_state" where
  "store_param p S =
     (let S = S\<lparr>m_paramOriginalNameByKey := AList.update (pa_key p) (pa_name p) (m_paramOriginalNameByKey S)\<rparr>;
          S = (if pa_isParam p
               then S\<lparr>m_paramKeyByAddrOrdinal :=
                        update2 (pa_funcAddr p) (pa_ordinal p) (pa_key p) (m_paramKeyByAddrOrdinal S)\<rparr>
               else S\<lparr>m_localKeyByAddrOffset :=
                        update2 (pa_funcAddr p) (pa_ordinal p) (pa_key p) (m_localKeyByAddrOffset S)\<rparr>)
      in if pa_typeName p \<noteq> []
         then S\<lparr>m_paramOriginalTypeByKey := AList.update (pa_key p) (pa_typeName p) (m_paramOriginalTypeByKey S)\<rparr>
         else S)"

definition store_params :: "GhidraParameter list \<Rightarrow> checkin_state \<Rightarrow> checkin_state" where
  "store_params ps S =
     fold store_param ps
       (S\<lparr>m_paramOriginalNameByKey := [], m_paramOriginalTypeByKey := [],
         m_paramKeyByAddrOrdinal := [], m_localKeyByAddrOffset := [],
         m_newParamBaseline := [], m_newRegLocalBaseline := []\<rparr>)"

text \<open>The Binary Ninja tag a bookmark becomes: its tag type name and its data\<close>

definition bookmark_tagTypeName :: "string \<Rightarrow> string" where
  "bookmark_tagTypeName type = ''Ghidra: '' @ type"

definition bookmark_tagData :: "string \<Rightarrow> string \<Rightarrow> string" where
  "bookmark_tagData category comment = (if category \<noteq> [] then ''['' @ category @ ''] '' else []) @ comment"

definition bookmark_key :: "GhidraBookmark \<Rightarrow> BookmarkKey" where
  "bookmark_key bm =
     \<lparr>bk_addr = bm_addr bm, bk_tagTypeName = bookmark_tagTypeName (bm_type bm),
      bk_tagData = bookmark_tagData (bm_category bm) (bm_comment bm)\<rparr>"

definition store_bookmarks :: "GhidraBookmark list \<Rightarrow> checkin_state \<Rightarrow> checkin_state" where
  "store_bookmarks bms S =
     fold (\<lambda>bm S. S\<lparr>m_ghidraBookmarkKeys := set_insert (bookmark_key bm) (m_ghidraBookmarkKeys S),
                    m_ghidraTagTypeNames :=
                      set_insert (bookmark_tagTypeName (bm_type bm)) (m_ghidraTagTypeNames S)\<rparr>)
       bms (S\<lparr>m_ghidraBookmarkKeys := [], m_ghidraTagTypeNames := []\<rparr>)"

definition store_dataItems :: "GhidraDataItem list \<Rightarrow> checkin_state \<Rightarrow> checkin_state" where
  "store_dataItems items S = S\<lparr>m_ghidraDataItemAddrs := fold (\<lambda>i. set_insert (di_addr i)) items []\<rparr>"

text \<open>\<open>m_equateRefsByEquateId[id].insert(k)\<close>\<close>

definition insert_ref :: "i64 \<Rightarrow> EquateRefKey \<Rightarrow> (i64, EquateRefKey uset) umap \<Rightarrow> (i64, EquateRefKey uset) umap" where
  "insert_ref eid k m = AList.update eid (set_insert k (find_or m eid [])) m"

definition ref_key :: "GhidraEquateRef \<Rightarrow> EquateRefKey" where
  "ref_key r = \<lparr>ek_addr = er_addr r, ek_opIndex = er_opIndex r\<rparr>"

definition store_equates :: "GhidraEquate list \<Rightarrow> checkin_state \<Rightarrow> checkin_state" where
  "store_equates eqs S =
     fold (\<lambda>eq S. S\<lparr>m_equateOriginalNameById := AList.update (eq_id eq) (eq_name eq) (m_equateOriginalNameById S),
                    m_equateValueById := AList.update (eq_id eq) (eq_value eq) (m_equateValueById S),
                    m_equateRefsByEquateId :=
                      fold (\<lambda>r. insert_ref (eq_id eq) (ref_key r)) (eq_refs eq) (m_equateRefsByEquateId S)\<rparr>)
       eqs (S\<lparr>m_equateOriginalNameById := [], m_equateValueById := [], m_equateRefsByEquateId := []\<rparr>)"

definition store_funcSigs :: "GhidraFuncSig list \<Rightarrow> checkin_state \<Rightarrow> checkin_state" where
  "store_funcSigs sigs S =
     S\<lparr>m_funcOriginalCC :=
         update_all fs_key fs_callingConvention (filter (\<lambda>s. fs_callingConvention s \<noteq> []) sigs) [],
       m_funcOriginalRetType :=
         update_all fs_key fs_returnTypeName (filter (\<lambda>s. fs_returnTypeName s \<noteq> []) sigs) [],
       m_funcReturnTypeId := update_all fs_key fs_returnTypeId sigs []\<rparr>"

definition store_maps :: "store_args \<Rightarrow> checkin_state \<Rightarrow> checkin_state" where
  "store_maps a S =
     S\<lparr>m_addrToKey := sa_addrToKey a, m_addrToOriginalName := sa_addrToOriginalName a,
       m_addrToCommentKey := sa_addrToCommentKey a,
       m_addrToOriginalComment := sa_addrToOriginalComment a,
       m_addrToOriginalFuncComment := sa_addrToOriginalFuncComment a,
       m_addrToCommentField := sa_addrToCommentField a\<rparr>"

definition storeCheckinState :: "store_args \<Rightarrow> checkin_state \<Rightarrow> checkin_state" where
  "storeCheckinState a S =
     (let S = store_maps a S;
          S = store_types (sa_ghidraDataTypes a) S;
          S = store_params (sa_parameters a) S;
          S = store_bookmarks (sa_bookmarks a) S;
          S = store_dataItems (sa_dataItems a) S;
          S = store_equates (sa_equates a) S;
          S = store_funcSigs (sa_funcSigs a) S
      in S\<lparr>m_imageBase := sa_imageBase a, m_checkinRepo := sa_repo a,
           m_checkinFolder := sa_folder a, m_checkinItem := sa_item a\<rparr>)"

section \<open>clearCheckinState and the accessors\<close>

definition clearCheckinState :: "checkin_state \<Rightarrow> checkin_state" where
  "clearCheckinState S =
     S\<lparr>m_addrToKey := [], m_addrToOriginalName := [], m_addrToCommentKey := [],
       m_addrToOriginalComment := [], m_addrToOriginalFuncComment := [], m_addrToCommentField := [],
       m_ghidraTypesByName := [], m_paramOriginalNameByKey := [], m_paramOriginalTypeByKey := [],
       m_paramKeyByAddrOrdinal := [], m_localKeyByAddrOffset := [], m_newParamBaseline := [],
       m_newRegLocalBaseline := [], m_ghidraBookmarkKeys := [], m_ghidraTagTypeNames := [],
       m_ghidraDataItemAddrs := [], m_equateOriginalNameById := [], m_equateValueById := [],
       m_equateRefsByEquateId := [], m_funcOriginalCC := [], m_funcOriginalRetType := [],
       m_funcReturnTypeId := [], m_imageBase := 0, m_checkinRepo := [], m_checkinFolder := [],
       m_checkinItem := []\<rparr>"

definition hasCheckinState :: "checkin_state \<Rightarrow> bool" where
  "hasCheckinState S \<longleftrightarrow> m_checkinItem S \<noteq> []"

definition isCheckinItem :: "checkin_state \<Rightarrow> string \<Rightarrow> string \<Rightarrow> string \<Rightarrow> bool" where
  "isCheckinItem S repo folder item \<longleftrightarrow>
     m_checkinRepo S = repo \<and> m_checkinFolder S = folder \<and> m_checkinItem S = item"

section \<open>Well-formedness\<close>

definition wf_symbols :: "checkin_state \<Rightarrow> bool" where
  "wf_symbols S \<longleftrightarrow>
     distinct_keys (m_addrToKey S) \<and> distinct_keys (m_addrToOriginalName S) \<and>
     distinct_keys (m_addrToCommentKey S) \<and> distinct_keys (m_addrToOriginalComment S) \<and>
     distinct_keys (m_addrToOriginalFuncComment S) \<and> distinct_keys (m_addrToCommentField S)"

text \<open>A baseline type is stored under its own name.\<close>

definition wf_types :: "checkin_state \<Rightarrow> bool" where
  "wf_types S \<longleftrightarrow> distinct_keys (m_ghidraTypesByName S) \<and>
     (\<forall>(n, dt) \<in> set (m_ghidraTypesByName S). dt_name dt = n)"

text \<open>Every database key the ordinal maps lead to has a baseline name.\<close>

definition wf_params :: "checkin_state \<Rightarrow> bool" where
  "wf_params S \<longleftrightarrow>
     distinct_keys (m_paramOriginalNameByKey S) \<and> distinct_keys (m_paramOriginalTypeByKey S) \<and>
     distinct2 (m_paramKeyByAddrOrdinal S) \<and> distinct2 (m_localKeyByAddrOffset S) \<and>
     distinct2 (m_newParamBaseline S) \<and> distinct2 (m_newRegLocalBaseline S) \<and>
     all2 (\<lambda>_ _ k. has_key (m_paramOriginalNameByKey S) k) (m_paramKeyByAddrOrdinal S) \<and>
     all2 (\<lambda>_ _ k. has_key (m_paramOriginalNameByKey S) k) (m_localKeyByAddrOffset S)"

text \<open>Every bookmark key is a tag the import creates: its tag type has the import's prefix.\<close>

definition wf_bookmarks :: "checkin_state \<Rightarrow> bool" where
  "wf_bookmarks S \<longleftrightarrow> distinct (m_ghidraBookmarkKeys S) \<and> distinct (m_ghidraDataItemAddrs S) \<and>
     (\<forall>k \<in> set (m_ghidraBookmarkKeys S). starts_with ''Ghidra: '' (bk_tagTypeName k))"

text \<open>Equates have a name, a value and, if any, references under the same ids.\<close>

definition wf_equates :: "checkin_state \<Rightarrow> bool" where
  "wf_equates S \<longleftrightarrow>
     distinct_keys (m_equateOriginalNameById S) \<and> distinct_keys (m_equateValueById S) \<and>
     distinct_keys (m_equateRefsByEquateId S) \<and>
     fst ` set (m_equateValueById S) = fst ` set (m_equateOriginalNameById S) \<and>
     fst ` set (m_equateRefsByEquateId S) \<subseteq> fst ` set (m_equateOriginalNameById S) \<and>
     (\<forall>(i, refs) \<in> set (m_equateRefsByEquateId S). distinct refs)"

text \<open>A recorded calling convention or return type is not empty.\<close>

definition wf_funcSigs :: "checkin_state \<Rightarrow> bool" where
  "wf_funcSigs S \<longleftrightarrow>
     distinct_keys (m_funcOriginalCC S) \<and> distinct_keys (m_funcOriginalRetType S) \<and>
     distinct_keys (m_funcReturnTypeId S) \<and>
     (\<forall>(k, cc) \<in> set (m_funcOriginalCC S). cc \<noteq> []) \<and>
     (\<forall>(k, t) \<in> set (m_funcOriginalRetType S). t \<noteq> [])"

definition checkin_wf :: "checkin_state \<Rightarrow> bool" where
  "checkin_wf S \<longleftrightarrow> wf_symbols S \<and> wf_types S \<and> wf_params S \<and> wf_bookmarks S \<and> wf_equates S \<and> wf_funcSigs S"

definition args_ok :: "store_args \<Rightarrow> bool" where
  "args_ok a \<longleftrightarrow>
     distinct_keys (sa_addrToKey a) \<and> distinct_keys (sa_addrToOriginalName a) \<and>
     distinct_keys (sa_addrToCommentKey a) \<and> distinct_keys (sa_addrToOriginalComment a) \<and>
     distinct_keys (sa_addrToOriginalFuncComment a) \<and> distinct_keys (sa_addrToCommentField a)"

section \<open>Lemmas\<close>

subsection \<open>Fields each loop leaves alone\<close>

text \<open>
  \<open>store_params\<close>, \<open>store_bookmarks\<close> and \<open>store_equates\<close> are loops over the whole record; their
  results in closed form, one field at a time.
\<close>

definition param_store :: "GhidraParameter list \<Rightarrow> (u64, (i32, i64) umap) umap" where
  "param_store ps = fold (\<lambda>p. update2 (pa_funcAddr p) (pa_ordinal p) (pa_key p)) ps []"

lemma fold_store_param:
  "fold store_param ps S =
     S\<lparr>m_paramOriginalNameByKey := update_all pa_key pa_name ps (m_paramOriginalNameByKey S),
       m_paramOriginalTypeByKey :=
         update_all pa_key pa_typeName (filter (\<lambda>p. pa_typeName p \<noteq> []) ps) (m_paramOriginalTypeByKey S),
       m_paramKeyByAddrOrdinal :=
         fold (\<lambda>p. update2 (pa_funcAddr p) (pa_ordinal p) (pa_key p)) (filter pa_isParam ps) (m_paramKeyByAddrOrdinal S),
       m_localKeyByAddrOffset :=
         fold (\<lambda>p. update2 (pa_funcAddr p) (pa_ordinal p) (pa_key p)) (filter (\<lambda>p. \<not> pa_isParam p) ps) (m_localKeyByAddrOffset S)\<rparr>"
  by (induction ps arbitrary: S) (simp_all add: store_param_def update_all_def)

lemma store_params_eq:
  "store_params ps S =
     S\<lparr>m_paramOriginalNameByKey := update_all pa_key pa_name ps [],
       m_paramOriginalTypeByKey := update_all pa_key pa_typeName (filter (\<lambda>p. pa_typeName p \<noteq> []) ps) [],
       m_paramKeyByAddrOrdinal := param_store (filter pa_isParam ps),
       m_localKeyByAddrOffset := param_store (filter (\<lambda>p. \<not> pa_isParam p) ps),
       m_newParamBaseline := [], m_newRegLocalBaseline := []\<rparr>"
  by (simp add: store_params_def fold_store_param param_store_def)

lemma store_bookmarks_eq:
  "store_bookmarks bms S =
     S\<lparr>m_ghidraBookmarkKeys := fold (\<lambda>bm. set_insert (bookmark_key bm)) bms [],
       m_ghidraTagTypeNames := fold (\<lambda>bm. set_insert (bookmark_tagTypeName (bm_type bm))) bms []\<rparr>"
proof -
  have "fold (\<lambda>bm S. S\<lparr>m_ghidraBookmarkKeys := set_insert (bookmark_key bm) (m_ghidraBookmarkKeys S),
               m_ghidraTagTypeNames := set_insert (bookmark_tagTypeName (bm_type bm)) (m_ghidraTagTypeNames S)\<rparr>) bms S =
        S\<lparr>m_ghidraBookmarkKeys := fold (\<lambda>bm. set_insert (bookmark_key bm)) bms (m_ghidraBookmarkKeys S),
          m_ghidraTagTypeNames := fold (\<lambda>bm. set_insert (bookmark_tagTypeName (bm_type bm))) bms (m_ghidraTagTypeNames S)\<rparr>" for S :: checkin_state
    by (induction bms arbitrary: S) simp_all
  then show ?thesis by (simp add: store_bookmarks_def)
qed

definition ref_store :: "GhidraEquate list \<Rightarrow> (i64, EquateRefKey uset) umap" where
  "ref_store eqs = fold (\<lambda>eq. fold (\<lambda>r. insert_ref (eq_id eq) (ref_key r)) (eq_refs eq)) eqs []"

lemma store_equates_eq:
  "store_equates eqs S =
     S\<lparr>m_equateOriginalNameById := update_all eq_id eq_name eqs [],
       m_equateValueById := update_all eq_id eq_value eqs [],
       m_equateRefsByEquateId := ref_store eqs\<rparr>"
proof -
  have "fold (\<lambda>eq S. S\<lparr>m_equateOriginalNameById := AList.update (eq_id eq) (eq_name eq) (m_equateOriginalNameById S),
               m_equateValueById := AList.update (eq_id eq) (eq_value eq) (m_equateValueById S),
               m_equateRefsByEquateId := fold (\<lambda>r. insert_ref (eq_id eq) (ref_key r)) (eq_refs eq) (m_equateRefsByEquateId S)\<rparr>) eqs S =
        S\<lparr>m_equateOriginalNameById := update_all eq_id eq_name eqs (m_equateOriginalNameById S),
          m_equateValueById := update_all eq_id eq_value eqs (m_equateValueById S),
          m_equateRefsByEquateId := fold (\<lambda>eq. fold (\<lambda>r. insert_ref (eq_id eq) (ref_key r)) (eq_refs eq)) eqs (m_equateRefsByEquateId S)\<rparr>" for S :: checkin_state
    by (induction eqs arbitrary: S) (simp_all add: update_all_def)
  then show ?thesis by (simp add: store_equates_def ref_store_def)
qed

lemmas store_eqs = storeCheckinState_def store_maps_def store_types_def store_params_eq
  store_bookmarks_eq store_dataItems_def store_equates_eq store_funcSigs_def Let_def

subsection \<open>The store keeps the invariant\<close>

lemma param_store_lookup:
  "lookup2 (param_store ps) a b = map_of (map (\<lambda>p. ((pa_funcAddr p, pa_ordinal p), pa_key p)) (rev ps)) (a, b)"
  by (simp add: param_store_def lookup2_fold_update2 split: option.split)

lemma distinct2_param_store: "distinct2 (param_store ps)"
  unfolding param_store_def by (rule fold_invariant_step) (auto intro: distinct2_update2)

lemma all2_param_store: "(\<And>p. p \<in> set ps \<Longrightarrow> P (pa_funcAddr p) (pa_ordinal p) (pa_key p)) \<Longrightarrow> all2 P (param_store ps)"
  unfolding param_store_def by (rule fold_invariant_step) (auto intro: all2_update2)

lemma insert_ref_distinct:
  assumes "distinct_keys m" "\<forall>(i, refs) \<in> set m. distinct refs"
  shows "distinct_keys (insert_ref i k m)" "\<forall>(i, refs) \<in> set (insert_ref i k m). distinct refs"
    and "fst ` set (insert_ref i k m) = insert i (fst ` set m)"
proof -
  have "distinct (find_or m i [])" using find_or_in [of m i "[]"] assms(2) by auto
  then show "\<forall>(i, refs) \<in> set (insert_ref i k m). distinct refs"
    using assms(2) by (auto simp: insert_ref_def dest!: in_update_D)
  show "distinct_keys (insert_ref i k m)" using assms(1) by (simp add: insert_ref_def umap_simps)
  show "fst ` set (insert_ref i k m) = insert i (fst ` set m)"
    by (simp add: insert_ref_def keys_update)
qed

definition refs_ok :: "i64 set \<Rightarrow> (i64, EquateRefKey uset) umap \<Rightarrow> bool" where
  "refs_ok ids m \<longleftrightarrow> distinct_keys m \<and> (\<forall>(i, refs) \<in> set m. distinct refs) \<and> fst ` set m \<subseteq> ids"

lemma insert_ref_ok: "refs_ok ids m \<Longrightarrow> i \<in> ids \<Longrightarrow> refs_ok ids (insert_ref i k m)"
  using insert_ref_distinct [of m i k] by (simp add: refs_ok_def)

lemma ref_store_ok: "refs_ok (eq_id ` set eqs) (ref_store eqs)"
proof -
  have "refs_ok (eq_id ` set eqs) (fold (\<lambda>r. insert_ref (eq_id eq) (ref_key r)) rs m)"
    if "eq \<in> set eqs" "refs_ok (eq_id ` set eqs) m" for eq rs m
    by (rule fold_invariant_step) (use that in \<open>auto intro: insert_ref_ok\<close>)
  moreover have "refs_ok (eq_id ` set eqs) []" by (simp add: refs_ok_def)
  ultimately show ?thesis unfolding ref_store_def by (rule fold_invariant_step [rotated])
qed

lemma store_checkin_wf:
  assumes "args_ok a"
  shows "checkin_wf (storeCheckinState a S)"
proof -
  let ?T = "storeCheckinState a S"
  have "wf_symbols ?T" using assms by (simp add: wf_symbols_def store_eqs args_ok_def)
  moreover have "wf_types ?T"
    by (auto simp: wf_types_def store_eqs distinct_keys_update_all dest!: range_update_all)
  moreover have "wf_params ?T"
    by (auto simp: wf_params_def store_eqs distinct_keys_update_all distinct2_param_store has_key_update_all
      intro!: all2_param_store)
  moreover have "wf_bookmarks ?T"
    by (auto simp: wf_bookmarks_def store_eqs distinct_fold_insert set_fold_insert bookmark_key_def bookmark_tagTypeName_def
        starts_with_def)
  moreover have "wf_equates ?T"
    using ref_store_ok [of "sa_equates a"]
    by (simp add: wf_equates_def store_eqs distinct_keys_update_all keys_update_all refs_ok_def)
  moreover have "wf_funcSigs ?T"
    by (auto simp: wf_funcSigs_def store_eqs distinct_keys_update_all dest!: range_update_all)
  ultimately show ?thesis by (simp add: checkin_wf_def)
qed

lemma clear_eq: "clearCheckinState S = initial_checkin"
  by (cases S) (simp add: clearCheckinState_def initial_checkin_def)

lemma initial_wf: "checkin_wf initial_checkin"
  by (simp add: checkin_wf_def initial_checkin_def wf_symbols_def wf_types_def wf_params_def
      wf_bookmarks_def wf_equates_def wf_funcSigs_def)

lemma store_indep: "storeCheckinState a S = storeCheckinState a S'"
  by (cases S; cases S') (simp add: store_eqs)

section \<open>Properties\<close>

text \<open>
  A fresh check-out forgets everything of the previous one: what \<open>storeCheckinState\<close> leaves
  does not depend on the state before it, and \<open>clearCheckinState\<close> gives the state the
  constructor made, in which no item is checked out.
\<close>

theorem store_forgets_previous:
  "storeCheckinState a S = storeCheckinState a S' \<and>
   clearCheckinState S = initial_checkin \<and> \<not> hasCheckinState (clearCheckinState S) \<and>
   isCheckinItem (storeCheckinState a S) (sa_repo a) (sa_folder a) (sa_item a)"
  by (simp add: store_indep [of a S S'] clear_eq hasCheckinState_def isCheckinItem_def
      initial_checkin_def store_eqs)

text \<open>
  The baseline after a check-out is well formed: every map has one entry per key, a type is
  stored under its own name, every parameter key has a name, every bookmark key carries the tag
  prefix, equate names, values and references share their ids, and no empty signature part is
  recorded.
\<close>

theorem store_wf:
  assumes "args_ok a"
  shows "checkin_wf (storeCheckinState a S) \<and> checkin_wf (clearCheckinState S)"
  using assms by (simp add: store_checkin_wf clear_eq initial_wf)

definition sample_args :: store_args where
  "sample_args =
     \<lparr>sa_addrToKey = [(4198400, 7)], sa_addrToOriginalName = [(4198400, ''main'')],
      sa_addrToCommentKey = [], sa_addrToOriginalComment = [(4198404, ''entry'')],
      sa_addrToOriginalFuncComment = [], sa_addrToCommentField = [(4198404, ''eol'')],
      sa_ghidraDataTypes = [default_GhidraDataType\<lparr>dt_id := 3, dt_kind := ''struct'', dt_name := ''Foo''\<rparr>],
      sa_parameters =
        [\<lparr>pa_key = 11, pa_funcAddr = 4096, pa_name = ''argc'', pa_isParam = True, pa_ordinal = 0,
          pa_typeName = ''int'', pa_typeId = 0\<rparr>,
         \<lparr>pa_key = 12, pa_funcAddr = 4096, pa_name = ''ret'', pa_isParam = False, pa_ordinal = 0,
          pa_typeName = [], pa_typeId = 0\<rparr>],
      sa_bookmarks = [\<lparr>bm_type = ''Note'', bm_addr = 4096, bm_category = ''todo'', bm_comment = ''look''\<rparr>],
      sa_dataItems = [\<lparr>di_addr = 8192, di_typeId = 3\<rparr>],
      sa_equates = [\<lparr>eq_id = 5, eq_name = ''MAX'', eq_value = 16, eq_refs = [\<lparr>er_addr = 4100, er_opIndex = 1\<rparr>]\<rparr>],
      sa_funcSigs = [\<lparr>fs_key = 7, fs_callingConvention = ''__cdecl'', fs_returnTypeName = ''int'', fs_returnTypeId = 0\<rparr>],
      sa_imageBase = 0, sa_repo = ''repo'', sa_folder = ''/'', sa_item = ''a.exe''\<rparr>"

theorem store_wf_witness:
  "checkin_wf (storeCheckinState sample_args initial_checkin) \<and> checkin_wf (clearCheckinState initial_checkin)"
  by (rule store_wf) (simp add: args_ok_def sample_args_def distinct_keys_def)

text \<open>
  Parameters and stack locals never shadow each other. The key found for an ordinal is that
  of the last parameter with this function and ordinal, whatever the locals are, and the key
  found for a stack offset is that of the last local, whatever the parameters are.
\<close>

theorem store_separates_kinds:
  "lookup2 (m_paramKeyByAddrOrdinal (storeCheckinState a S)) f n =
     map_of (map (\<lambda>p. ((pa_funcAddr p, pa_ordinal p), pa_key p)) (rev (filter pa_isParam (sa_parameters a)))) (f, n) \<and>
   lookup2 (m_localKeyByAddrOffset (storeCheckinState a S)) f n =
     map_of (map (\<lambda>p. ((pa_funcAddr p, pa_ordinal p), pa_key p))
       (rev (filter (\<lambda>p. \<not> pa_isParam p) (sa_parameters a)))) (f, n)"
  by (simp add: store_eqs param_store_lookup)

end
