(* ===== verification/Json_Lib.thy ===== *)
theory Json_Lib
  imports Prelude
begin

text \<open>
  The JSON library (\<open>nlohmann::json\<close>, a third-party package) as a parameter of the model. The
  record \<open>json_lib\<close> holds the operations the plugin calls, over an abstract type of JSON
  values; every definition that touches JSON takes such a record. The locale
  \<open>json_library\<close> names the documented laws the proofs use: objects return what was stored,
  \<open>value(key, default)\<close> returns the default on a missing key and the converted member
  otherwise, iterating an array visits its elements. The laws are discharged at the end of the
  theory for a concrete tree of JSON values, \<open>tree_json\<close>, on which witnesses compute.
\<close>

section \<open>The operations the plugin calls\<close>

record 'j json_lib =
  jl_null :: 'j
  jl_string :: "string \<Rightarrow> 'j"
  jl_int64 :: "i64 \<Rightarrow> 'j"
  jl_int :: "i32 \<Rightarrow> 'j"
  jl_bool :: "bool \<Rightarrow> 'j"
  jl_array :: "'j list \<Rightarrow> 'j"
  jl_object :: "(string \<times> 'j) list \<Rightarrow> 'j"
  jl_set :: "string \<Rightarrow> 'j \<Rightarrow> 'j \<Rightarrow> 'j"
  jl_update :: "'j \<Rightarrow> 'j \<Rightarrow> 'j"
  jl_contains :: "'j \<Rightarrow> string \<Rightarrow> bool"
  jl_at :: "'j \<Rightarrow> string \<Rightarrow> 'j result"
  jl_elements :: "'j \<Rightarrow> 'j list"
  jl_items :: "'j \<Rightarrow> (string \<times> 'j) list"
  jl_size :: "'j \<Rightarrow> nat"
  jl_is_object :: "'j \<Rightarrow> bool"
  jl_is_number :: "'j \<Rightarrow> bool"
  jl_value_string :: "'j \<Rightarrow> string \<Rightarrow> string \<Rightarrow> string result"
  jl_value_int64 :: "'j \<Rightarrow> string \<Rightarrow> i64 \<Rightarrow> i64 result"
  jl_value_int :: "'j \<Rightarrow> string \<Rightarrow> i32 \<Rightarrow> i32 result"
  jl_value_bool :: "'j \<Rightarrow> string \<Rightarrow> bool \<Rightarrow> bool result"
  jl_get_string :: "'j \<Rightarrow> string result"
  jl_get_int64 :: "'j \<Rightarrow> i64 result"
  jl_get_int :: "'j \<Rightarrow> i32 result"
  jl_dump :: "'j \<Rightarrow> string result"
  jl_parse :: "string \<Rightarrow> 'j result"

section \<open>The documented laws\<close>

text \<open>
  \<open>operator[]\<close> on a missing key of a non-const object inserts and returns null
  (\<open>at_missing\<close>), and iterating null visits nothing (\<open>elements_null\<close>).
\<close>

locale json_library =
  fixes J :: "'j json_lib"
  assumes is_object_object: "jl_is_object J (jl_object J kvs)"
    and is_object_set: "jl_is_object J j \<or> j = jl_null J \<Longrightarrow> jl_is_object J (jl_set J k v j)"
    and contains_object: "jl_contains J (jl_object J kvs) k \<longleftrightarrow> k \<in> fst ` set kvs"
    and contains_null: "\<not> jl_contains J (jl_null J) k"
    and contains_set: "jl_is_object J j \<or> j = jl_null J \<Longrightarrow>
      jl_contains J (jl_set J k v j) k' \<longleftrightarrow> k' = k \<or> jl_contains J j k'"
    and at_object: "distinct (map fst kvs) \<Longrightarrow> map_of kvs k = Some v \<Longrightarrow>
      jl_at J (jl_object J kvs) k = Inr v"
    and at_set_same: "jl_is_object J j \<or> j = jl_null J \<Longrightarrow> jl_at J (jl_set J k v j) k = Inr v"
    and at_set_other: "jl_is_object J j \<or> j = jl_null J \<Longrightarrow> k' \<noteq> k \<Longrightarrow> jl_contains J j k' \<Longrightarrow>
      jl_at J (jl_set J k v j) k' = jl_at J j k'"
    and at_missing: "jl_is_object J j \<Longrightarrow> \<not> jl_contains J j k \<Longrightarrow> jl_at J j k = Inr (jl_null J)"
    and update_contains: "jl_is_object J a \<Longrightarrow> jl_is_object J b \<Longrightarrow>
      jl_contains J (jl_update J a b) k \<longleftrightarrow> jl_contains J a k \<or> jl_contains J b k"
    and update_is_object: "jl_is_object J a \<Longrightarrow> jl_is_object J b \<Longrightarrow>
      jl_is_object J (jl_update J a b)"
    and update_at_new: "jl_is_object J a \<Longrightarrow> jl_is_object J b \<Longrightarrow> jl_contains J b k \<Longrightarrow>
      jl_at J (jl_update J a b) k = jl_at J b k"
    and update_at_old: "jl_is_object J a \<Longrightarrow> jl_is_object J b \<Longrightarrow> \<not> jl_contains J b k \<Longrightarrow>
      jl_contains J a k \<Longrightarrow> jl_at J (jl_update J a b) k = jl_at J a k"
    and elements_array: "jl_elements J (jl_array J xs) = xs"
    and elements_null: "jl_elements J (jl_null J) = []"
    and size_array: "jl_size J (jl_array J xs) = length xs"
    and value_string_missing: "jl_is_object J j \<Longrightarrow> \<not> jl_contains J j k \<Longrightarrow>
      jl_value_string J j k d = Inr d"
    and value_string_at: "jl_is_object J j \<Longrightarrow> jl_contains J j k \<Longrightarrow> jl_at J j k = Inr (jl_string J s) \<Longrightarrow>
      jl_value_string J j k d = Inr s"
    and value_int64_missing: "jl_is_object J j \<Longrightarrow> \<not> jl_contains J j k \<Longrightarrow>
      jl_value_int64 J j k e = Inr e"
    and value_int64_at: "jl_is_object J j \<Longrightarrow> jl_contains J j k \<Longrightarrow> jl_at J j k = Inr (jl_int64 J i) \<Longrightarrow>
      jl_value_int64 J j k e = Inr i"
    and value_int_missing: "jl_is_object J j \<Longrightarrow> \<not> jl_contains J j k \<Longrightarrow>
      jl_value_int J j k f = Inr f"
    and value_int_at: "jl_is_object J j \<Longrightarrow> jl_contains J j k \<Longrightarrow> jl_at J j k = Inr (jl_int J n) \<Longrightarrow>
      jl_value_int J j k f = Inr n"
    and value_bool_missing: "jl_is_object J j \<Longrightarrow> \<not> jl_contains J j k \<Longrightarrow>
      jl_value_bool J j k bd = Inr bd"
    and value_bool_at: "jl_is_object J j \<Longrightarrow> jl_contains J j k \<Longrightarrow> jl_at J j k = Inr (jl_bool J c) \<Longrightarrow>
      jl_value_bool J j k bd = Inr c"
    and get_string_string: "jl_get_string J (jl_string J s) = Inr s"
    and get_int_int: "jl_get_int J (jl_int J n) = Inr n"
    and get_int64_int64: "jl_get_int64 J (jl_int64 J i) = Inr i"
    and is_number_int64: "jl_is_number J (jl_int64 J i)"
    and items_object: "distinct (map fst kvs) \<Longrightarrow> set (jl_items J (jl_object J kvs)) = set kvs"
begin

lemmas object_laws =
  is_object_object is_object_set contains_object contains_null contains_set at_set_same at_set_other
  update_contains update_is_object update_at_new update_at_old

lemmas value_laws =
  value_string_missing value_string_at value_int64_missing value_int64_at value_int_missing
  value_int_at value_bool_missing value_bool_at

text \<open>Reading a member of an object literal with the matching accessor.\<close>

lemma object_value_string:
  "distinct (map fst kvs) \<Longrightarrow> map_of kvs k = Some (jl_string J s) \<Longrightarrow>
   jl_value_string J (jl_object J kvs) k d = Inr s"
  by (rule value_string_at) (auto simp: object_laws at_object dest: map_of_SomeD intro: rev_image_eqI)

lemma object_value_int64:
  "distinct (map fst kvs) \<Longrightarrow> map_of kvs k = Some (jl_int64 J i) \<Longrightarrow>
   jl_value_int64 J (jl_object J kvs) k e = Inr i"
  by (rule value_int64_at) (auto simp: object_laws at_object dest: map_of_SomeD intro: rev_image_eqI)

lemma object_value_int:
  "distinct (map fst kvs) \<Longrightarrow> map_of kvs k = Some (jl_int J n) \<Longrightarrow>
   jl_value_int J (jl_object J kvs) k f = Inr n"
  by (rule value_int_at) (auto simp: object_laws at_object dest: map_of_SomeD intro: rev_image_eqI)

lemma object_value_bool:
  "distinct (map fst kvs) \<Longrightarrow> map_of kvs k = Some (jl_bool J c) \<Longrightarrow>
   jl_value_bool J (jl_object J kvs) k b = Inr c"
  by (rule value_bool_at) (auto simp: object_laws at_object dest: map_of_SomeD intro: rev_image_eqI)

text \<open>Reading a key an object literal lacks gives the default.\<close>

lemma object_value_missing:
  assumes "k \<notin> fst ` set kvs"
  shows "jl_value_string J (jl_object J kvs) k d = Inr d"
    and "jl_value_int64 J (jl_object J kvs) k e = Inr e"
    and "jl_value_int J (jl_object J kvs) k f = Inr f"
    and "jl_value_bool J (jl_object J kvs) k b = Inr b"
  using assms by (auto intro!: value_laws simp: object_laws)

lemmas object_reads =
  object_value_string object_value_int64 object_value_int object_value_bool object_value_missing

end

section \<open>A concrete tree of JSON values\<close>

datatype jtree =
    JNull
  | JBool bool
  | JNum i64
  | JStr string
  | JArr "jtree list"
  | JObj "(string \<times> jtree) list"

fun jt_entries :: "jtree \<Rightarrow> (string \<times> jtree) list" where
  "jt_entries (JObj kvs) = kvs"
| "jt_entries _ = []"

fun jt_is_object :: "jtree \<Rightarrow> bool" where
  "jt_is_object (JObj _) = True"
| "jt_is_object _ = False"

fun jt_elements :: "jtree \<Rightarrow> jtree list" where
  "jt_elements (JArr xs) = xs"
| "jt_elements (JObj kvs) = map snd kvs"
| "jt_elements JNull = []"
| "jt_elements j = [j]"

definition jt_of_pairs :: "(string \<times> jtree) list \<Rightarrow> jtree" where
  "jt_of_pairs kvs = JObj (AList.merge [] kvs)"

fun jt_set :: "string \<Rightarrow> jtree \<Rightarrow> jtree \<Rightarrow> jtree" where
  "jt_set k v j = JObj (AList.update k v (jt_entries j))"

fun jt_at :: "jtree \<Rightarrow> string \<Rightarrow> jtree result" where
  "jt_at (JObj kvs) k = Inr (find_or kvs k JNull)"
| "jt_at JNull k = Inr JNull"
| "jt_at _ k = Inl ''type_error.305''"

fun jt_string :: "jtree \<Rightarrow> string result" where
  "jt_string (JStr s) = Inr s"
| "jt_string _ = Inl ''type_error.302''"

fun jt_num :: "jtree \<Rightarrow> i64 result" where
  "jt_num (JNum n) = Inr n"
| "jt_num (JBool b) = Inr (of_bool b)"
| "jt_num _ = Inl ''type_error.302''"

fun jt_boolean :: "jtree \<Rightarrow> bool result" where
  "jt_boolean (JBool b) = Inr b"
| "jt_boolean _ = Inl ''type_error.302''"

fun jt_value :: "(jtree \<Rightarrow> 'a result) \<Rightarrow> jtree \<Rightarrow> string \<Rightarrow> 'a \<Rightarrow> 'a result" where
  "jt_value get (JObj kvs) k d = (case map_of kvs k of None \<Rightarrow> Inr d | Some v \<Rightarrow> get v)"
| "jt_value get _ k d = Inl ''type_error.306''"

definition jt_num32 :: "jtree \<Rightarrow> i32 result" where
  "jt_num32 j = res_bind (jt_num j) (\<lambda>n. Inr (ucast n))"

definition jt_update :: "jtree \<Rightarrow> jtree \<Rightarrow> jtree" where
  "jt_update a b = JObj (AList.merge (jt_entries a) (jt_entries b))"

text \<open>
  Text conversion is left to two further parameters: no law of \<open>json_library\<close> speaks of it.
\<close>

definition tree_json_with ::
    "(jtree \<Rightarrow> string result) \<Rightarrow> (string \<Rightarrow> jtree result) \<Rightarrow> jtree json_lib" where
  "tree_json_with dump parse =
     \<lparr>jl_null = JNull, jl_string = JStr, jl_int64 = JNum, jl_int = (\<lambda>n. JNum (scast n)),
      jl_bool = JBool, jl_array = JArr, jl_object = jt_of_pairs, jl_set = jt_set,
      jl_update = jt_update,
      jl_contains = (\<lambda>j k. map_of (jt_entries j) k \<noteq> None), jl_at = jt_at,
      jl_elements = jt_elements, jl_items = jt_entries,
      jl_size = (\<lambda>j. length (jt_elements j)), jl_is_object = jt_is_object,
      jl_is_number = (\<lambda>j. case j of JNum _ \<Rightarrow> True | _ \<Rightarrow> False),
      jl_value_string = jt_value jt_string, jl_value_int64 = jt_value jt_num,
      jl_value_int = jt_value jt_num32, jl_value_bool = jt_value jt_boolean,
      jl_get_string = jt_string, jl_get_int64 = jt_num, jl_get_int = jt_num32,
      jl_dump = dump, jl_parse = parse\<rparr>"

abbreviation tree_json :: "jtree json_lib" where
  "tree_json \<equiv> tree_json_with (\<lambda>_. Inr []) (\<lambda>_. Inl [])"

lemma jt_is_object_iff: "jt_is_object j \<longleftrightarrow> (\<exists>kvs. j = JObj kvs)"
  by (cases j) auto

lemma merge_Nil_set:
  assumes "distinct (map fst kvs)"
  shows "set (AList.merge [] kvs) = set kvs"
proof -
  have "distinct_keys (AList.merge [] kvs)" and "distinct_keys kvs"
    using assms by (simp_all add: distinct_keys_def distinct_merge)
  then have "(k, v) \<in> set (AList.merge [] kvs) \<longleftrightarrow> (k, v) \<in> set kvs" for k v
    by (simp add: distinct_keys_lookup merge_conv')
  then show ?thesis by auto
qed

lemma map_of_Some_key: "k \<in> fst ` set kvs \<longleftrightarrow> (\<exists>v. map_of kvs k = Some v)"
  by (metis map_of_eq_None_iff not_None_eq)

lemma ucast_scast_i32: "ucast (scast (n :: i32) :: i64) = n"
  by (rule bit_word_eqI) (simp add: bit_unsigned_iff bit_signed_iff)

interpretation tree: json_library "tree_json_with dump parse"
  by unfold_locales
    (auto simp: tree_json_with_def jt_of_pairs_def jt_update_def jt_num32_def jt_is_object_iff
      ucast_scast_i32 find_or_def umap_simps merge_conv' merge_Nil_set map_of_Some_key map_add_def
      split: option.splits)

lemma tree_laws: "json_library tree_json"
  by (rule tree.json_library_axioms)

end
