(* ===== verification/Ghidra_Json.thy ===== *)
theory Ghidra_Json
  imports Data_Model Json_Lib Text_Num
begin

text \<open>
  \<open>plugin/src/GhidraJson.cpp\<close>: the address text format, the decoder of the bridge's
  \<open>open_db\<close> response (\<open>parseDbExportJson\<close>) and the encoder of the \<open>checkin\<close> request body
  (\<open>buildCheckinJson\<close>). The decoder's range-for bodies are the \<open>parse_\<close> functions, one per
  category, in the order of the source; an exception of the JSON library leaves the decoder
  (\<open>Inl\<close>). The encoder's loops are the \<open>build_\<close> functions.
\<close>

section \<open>Addresses\<close>

text \<open>\<open>char buf[20]; snprintf(buf, sizeof(buf), ...)\<close> keeps at most 19 characters.\<close>

definition toHex :: "u64 \<Rightarrow> string" where
  "toHex v = take 19 (print_hex v)"

definition parseHexAddr :: "string \<Rightarrow> u64" where
  "parseHexAddr s =
     (if length s < 2 then 0
      else let p = c_str s in
        if length p \<ge> 2 \<and> p ! 0 = CHR ''0'' \<and> (p ! 1 = CHR ''x'' \<or> p ! 1 = CHR ''X'')
        then strtoull16 (drop 2 p) else strtoull16 p)"

section \<open>Decoding an export\<close>

text \<open>\<open>if (resp.contains(k)) for (auto& j : resp[k]) out.push_back(f(j))\<close>\<close>

definition parse_array :: "'j json_lib \<Rightarrow> string \<Rightarrow> ('j \<Rightarrow> 'a result) \<Rightarrow> 'j \<Rightarrow> 'a list result" where
  "parse_array J k f resp =
     (if jl_contains J resp k
      then res_bind (jl_at J resp k) (\<lambda>a. res_map f (jl_elements J a))
      else Inr [])"

text \<open>\<open>parseHexAddr(j.value(k, std::string{"0x0"}))\<close>\<close>

definition value_addr :: "'j json_lib \<Rightarrow> 'j \<Rightarrow> string \<Rightarrow> u64 result" where
  "value_addr J j k = res_bind (jl_value_string J j k ''0x0'') (\<lambda>s. Inr (parseHexAddr s))"

definition parse_symbol :: "'j json_lib \<Rightarrow> 'j \<Rightarrow> GhidraSymbol result" where
  "parse_symbol J j =
     res_bind (jl_value_int64 J j ''key'' 0) (\<lambda>key.
     res_bind (jl_value_string J j ''name'' []) (\<lambda>name.
     res_bind (value_addr J j ''addr'') (\<lambda>addr.
     res_bind (jl_value_int J j ''type'' 0) (\<lambda>type.
     res_bind (jl_value_int J j ''source'' 0) (\<lambda>source.
     res_bind (jl_value_int64 J j ''ns'' 0) (\<lambda>ns.
     Inr \<lparr>sym_key = key, sym_name = name, sym_addr = addr, sym_type = symbolType_of_int type,
          sym_source = symbolSource_of_int source, sym_namespaceId = ns\<rparr>))))))"

definition parse_comment :: "'j json_lib \<Rightarrow> 'j \<Rightarrow> GhidraComment result" where
  "parse_comment J j =
     res_bind (value_addr J j ''addr'') (\<lambda>addr.
     res_bind (jl_value_string J j ''key'' []) (\<lambda>key.
     res_bind (jl_value_string J j ''eol'' []) (\<lambda>eol.
     res_bind (jl_value_string J j ''pre'' []) (\<lambda>pre.
     res_bind (jl_value_string J j ''post'' []) (\<lambda>post.
     res_bind (jl_value_string J j ''plate'' []) (\<lambda>plate.
     res_bind (jl_value_string J j ''rep'' []) (\<lambda>rep.
     Inr \<lparr>cm_addr = addr, cm_eol = eol, cm_pre = pre, cm_post = post, cm_plate = plate,
          cm_rep = rep, cm_encodedKey = key\<rparr>)))))))"

text \<open>One \<open>func_flags\<close> element yields the flags and, if it names either, a signature.\<close>

definition parse_func_flags :: "'j json_lib \<Rightarrow> 'j \<Rightarrow> (GhidraFuncFlags \<times> GhidraFuncSig option) result" where
  "parse_func_flags J j =
     res_bind (jl_value_int64 J j ''key'' 0) (\<lambda>key.
     res_bind (jl_value_bool J j ''thunk'' False) (\<lambda>thunk.
     res_bind (jl_value_bool J j ''no_ret'' False) (\<lambda>noReturn.
     res_bind (jl_value_bool J j ''inline'' False) (\<lambda>isInline.
     res_bind (jl_value_string J j ''cc'' []) (\<lambda>cc.
     res_bind (jl_value_string J j ''ret_type'' []) (\<lambda>retType.
     res_bind (jl_value_int64 J j ''ret_type_id'' (- 1)) (\<lambda>retTypeId.
     Inr (\<lparr>ff_key = key, ff_thunk = thunk, ff_noReturn = noReturn, ff_isInline = isInline\<rparr>,
          if cc \<noteq> [] \<or> retType \<noteq> []
          then Some \<lparr>fs_key = key, fs_callingConvention = cc, fs_returnTypeName = retType,
                     fs_returnTypeId = retTypeId\<rparr>
          else None))))))))"

definition parse_equate_ref :: "'j json_lib \<Rightarrow> 'j \<Rightarrow> GhidraEquateRef result" where
  "parse_equate_ref J r =
     res_bind (value_addr J r ''addr'') (\<lambda>addr.
     res_bind (jl_value_int J r ''op_index'' 0) (\<lambda>opIndex.
     Inr \<lparr>er_addr = addr, er_opIndex = opIndex\<rparr>))"

definition parse_equate :: "'j json_lib \<Rightarrow> 'j \<Rightarrow> GhidraEquate result" where
  "parse_equate J j =
     res_bind (jl_value_int64 J j ''id'' 0) (\<lambda>id.
     res_bind (jl_value_string J j ''name'' []) (\<lambda>name.
     res_bind (jl_value_int64 J j ''value'' 0) (\<lambda>val.
     res_bind (parse_array J ''refs'' (parse_equate_ref J) j) (\<lambda>refs.
     Inr \<lparr>eq_id = id, eq_name = name, eq_value = val, eq_refs = refs\<rparr>))))"

definition parse_bookmark :: "'j json_lib \<Rightarrow> 'j \<Rightarrow> GhidraBookmark result" where
  "parse_bookmark J j =
     res_bind (jl_value_string J j ''type'' []) (\<lambda>type.
     res_bind (value_addr J j ''addr'') (\<lambda>addr.
     res_bind (jl_value_string J j ''category'' []) (\<lambda>category.
     res_bind (jl_value_string J j ''comment'' []) (\<lambda>comment.
     Inr \<lparr>bm_type = type, bm_addr = addr, bm_category = category, bm_comment = comment\<rparr>))))"

definition parse_parameter :: "'j json_lib \<Rightarrow> 'j \<Rightarrow> GhidraParameter result" where
  "parse_parameter J j =
     res_bind (jl_value_int64 J j ''key'' 0) (\<lambda>key.
     res_bind (value_addr J j ''func_addr'') (\<lambda>funcAddr.
     res_bind (jl_value_string J j ''name'' []) (\<lambda>name.
     res_bind (jl_value_bool J j ''is_param'' True) (\<lambda>isParam.
     res_bind (jl_value_int J j ''ordinal'' 0) (\<lambda>ordinal.
     res_bind (jl_value_string J j ''type_name'' []) (\<lambda>typeName.
     res_bind (jl_value_int64 J j ''type_id'' (- 1)) (\<lambda>typeId.
     Inr \<lparr>pa_key = key, pa_funcAddr = funcAddr, pa_name = name, pa_isParam = isParam,
          pa_ordinal = ordinal, pa_typeName = typeName, pa_typeId = typeId\<rparr>)))))))"

definition parse_member :: "'j json_lib \<Rightarrow> 'j \<Rightarrow> GhidraDataTypeMember result" where
  "parse_member J m =
     res_bind (jl_value_int J m ''offset'' 0) (\<lambda>offset.
     res_bind (jl_value_int64 J m ''type_id'' 0) (\<lambda>typeId.
     res_bind (jl_value_string J m ''name'' []) (\<lambda>name.
     res_bind (jl_value_string J m ''comment'' []) (\<lambda>comment.
     res_bind (jl_value_int J m ''size'' 0) (\<lambda>size.
     res_bind (jl_value_int J m ''ordinal'' 0) (\<lambda>ordinal.
     res_bind (jl_value_string J m ''type_name'' []) (\<lambda>typeName.
     Inr \<lparr>dm_offset = offset, dm_typeId = typeId, dm_name = name, dm_comment = comment,
          dm_size = size, dm_ordinal = ordinal, dm_typeName = typeName\<rparr>)))))))"

definition parse_enum_value :: "'j json_lib \<Rightarrow> 'j \<Rightarrow> GhidraEnumValue result" where
  "parse_enum_value J v =
     res_bind (jl_value_string J v ''name'' []) (\<lambda>name.
     res_bind (jl_value_int64 J v ''value'' 0) (\<lambda>val.
     res_bind (jl_value_string J v ''comment'' []) (\<lambda>comment.
     Inr \<lparr>ev_name = name, ev_value = val, ev_comment = comment\<rparr>)))"

definition parse_data_type :: "'j json_lib \<Rightarrow> 'j \<Rightarrow> GhidraDataType result" where
  "parse_data_type J j =
     res_bind (jl_value_int64 J j ''id'' 0) (\<lambda>id.
     res_bind (jl_value_string J j ''kind'' []) (\<lambda>kind.
     res_bind (jl_value_string J j ''name'' []) (\<lambda>name.
     res_bind (jl_value_string J j ''comment'' []) (\<lambda>comment.
     res_bind (jl_value_int J j ''size'' 0) (\<lambda>size.
     res_bind (jl_value_int64 J j ''underlying_type_id'' 0) (\<lambda>utid.
     res_bind (if kind = ''typedef'' then jl_value_string J j ''underlying_name'' [] else Inr [])
       (\<lambda>uname.
     res_bind (parse_array J ''members'' (parse_member J) j) (\<lambda>members.
     res_bind (parse_array J ''values'' (parse_enum_value J) j) (\<lambda>vals.
     Inr \<lparr>dt_id = id, dt_kind = kind, dt_name = name, dt_comment = comment, dt_size = size,
          dt_underlyingTypeId = utid, dt_underlyingTypeName = uname, dt_members = members,
          dt_values = vals\<rparr>)))))))))"

definition parse_data_item :: "'j json_lib \<Rightarrow> 'j \<Rightarrow> GhidraDataItem result" where
  "parse_data_item J j =
     res_bind (value_addr J j ''addr'') (\<lambda>addr.
     res_bind (jl_value_int64 J j ''type_id'' 0) (\<lambda>typeId.
     Inr \<lparr>di_addr = addr, di_typeId = typeId\<rparr>))"

definition parse_memory_block :: "'j json_lib \<Rightarrow> 'j \<Rightarrow> GhidraMemoryBlock result" where
  "parse_memory_block J j =
     res_bind (jl_value_string J j ''name'' []) (\<lambda>name.
     res_bind (value_addr J j ''addr'') (\<lambda>addr.
     res_bind (value_addr J j ''size'') (\<lambda>size.
     res_bind (jl_value_bool J j ''r'' True) (\<lambda>r.
     res_bind (jl_value_bool J j ''w'' False) (\<lambda>w.
     res_bind (jl_value_bool J j ''x'' False) (\<lambda>x.
     res_bind (jl_value_bool J j ''initialized'' True) (\<lambda>init.
     res_bind (jl_value_bool J j ''overlay'' False) (\<lambda>overlay.
     Inr \<lparr>mb_name = name, mb_addr = addr, mb_size = size, mb_read = r, mb_write = w,
          mb_execute = x, mb_initialized = init, mb_overlay = overlay\<rparr>))))))))"

definition parse_xref_stats :: "'j json_lib \<Rightarrow> 'j \<Rightarrow> GhidraXrefStats result" where
  "parse_xref_stats J resp =
     (if jl_contains J resp ''xref_stats''
      then res_bind (jl_at J resp ''xref_stats'') (\<lambda>xs.
           res_bind (jl_value_int J xs ''from_count'' 0) (\<lambda>fromCount.
           res_bind (jl_value_int J xs ''to_count'' 0) (\<lambda>toCount.
           Inr \<lparr>xs_fromCount = fromCount, xs_toCount = toCount\<rparr>)))
      else Inr \<lparr>xs_fromCount = 0, xs_toCount = 0\<rparr>)"

definition sigs_of :: "(GhidraFuncFlags \<times> GhidraFuncSig option) list \<Rightarrow> GhidraFuncSig list" where
  "sigs_of fs = List.map_filter snd fs"

definition parseDbExportJson :: "'j json_lib \<Rightarrow> 'j \<Rightarrow> GhidraDbExport result" where
  "parseDbExportJson J resp =
     res_bind (value_addr J resp ''image_base'') (\<lambda>imageBase.
     res_bind (parse_array J ''diag'' (jl_get_string J) resp) (\<lambda>diag.
     res_bind (parse_array J ''symbols'' (parse_symbol J) resp) (\<lambda>symbols.
     res_bind (parse_array J ''comments'' (parse_comment J) resp) (\<lambda>comments.
     res_bind (parse_array J ''func_flags'' (parse_func_flags J) resp) (\<lambda>flags.
     res_bind (parse_array J ''equates'' (parse_equate J) resp) (\<lambda>equates.
     res_bind (parse_array J ''bookmarks'' (parse_bookmark J) resp) (\<lambda>bookmarks.
     res_bind (parse_array J ''parameters'' (parse_parameter J) resp) (\<lambda>parameters.
     res_bind (parse_array J ''data_types'' (parse_data_type J) resp) (\<lambda>dataTypes.
     res_bind (parse_array J ''data_items'' (parse_data_item J) resp) (\<lambda>dataItems.
     res_bind (parse_array J ''memory_blocks'' (parse_memory_block J) resp) (\<lambda>memoryBlocks.
     res_bind (parse_xref_stats J resp) (\<lambda>xrefStats.
     Inr \<lparr>ex_symbols = symbols, ex_comments = comments, ex_funcFlags = map fst flags,
          ex_funcSigs = sigs_of flags, ex_equates = equates, ex_bookmarks = bookmarks,
          ex_parameters = parameters, ex_dataTypes = dataTypes, ex_dataItems = dataItems,
          ex_memoryBlocks = memoryBlocks, ex_xrefStats = xrefStats, ex_diag = diag,
          ex_imageBase = imageBase\<rparr>))))))))))))"

section \<open>Encoding a check-in\<close>

text \<open>\<open>(uint64_t)((int64_t)addr - rebase)\<close>\<close>

definition ghidra_va :: "i64 \<Rightarrow> u64 \<Rightarrow> u64" where
  "ghidra_va rebase addr = addr - rebase"

definition build_rename :: "'j json_lib \<Rightarrow> SymbolRename \<Rightarrow> 'j" where
  "build_rename J r =
     jl_object J [(''key'', jl_int64 J (sr_key r)), (''name'', jl_string J (sr_newName r))]"

definition build_new_symbol :: "'j json_lib \<Rightarrow> i64 \<Rightarrow> NewSymbol \<Rightarrow> 'j" where
  "build_new_symbol J rebase s =
     jl_object J [(''va'', jl_string J (toHex (ghidra_va rebase (ns_addr s)))),
                  (''name'', jl_string J (ns_name s)),
                  (''sym_type'', jl_int J (if ns_isFunction s then 5 else 0))]"

definition comment_field :: "(u64, string) umap \<Rightarrow> (u64, string) umap \<Rightarrow> u64 \<Rightarrow> string" where
  "comment_field addrToOriginalFuncComment addrToCommentField addr =
     (if has_key addrToOriginalFuncComment addr then ''plate''
      else find_or addrToCommentField addr ''eol'')"

definition build_comment ::
    "'j json_lib \<Rightarrow> i64 \<Rightarrow> (u64, string) umap \<Rightarrow> (u64, string) umap \<Rightarrow> CommentChange \<Rightarrow> 'j" where
  "build_comment J rebase funcComments columns c =
     (let entry = jl_object J [(''va'', jl_string J (toHex (ghidra_va rebase (cc_addr c))))];
          field = comment_field funcComments columns (cc_addr c);
          entry = jl_set J field (jl_string J (cc_text c)) entry
      in if cc_encodedKey c \<noteq> [] then jl_set J ''key'' (jl_string J (cc_encodedKey c)) entry
         else entry)"

definition build_equate_rename :: "'j json_lib \<Rightarrow> EquateRename \<Rightarrow> 'j" where
  "build_equate_rename J r =
     jl_object J [(''id'', jl_int64 J (qr_id r)), (''name'', jl_string J (qr_name r))]"

definition build_equate_ref :: "'j json_lib \<Rightarrow> i64 \<Rightarrow> NewEquateRef \<Rightarrow> 'j" where
  "build_equate_ref J rebase r =
     jl_object J [(''id'', jl_int64 J (nr_equateId r)),
                  (''va'', jl_string J (toHex (ghidra_va rebase (nr_addr r)))),
                  (''op_index'', jl_int J (nr_opIndex r))]"

definition build_bookmark :: "'j json_lib \<Rightarrow> i64 \<Rightarrow> BookmarkChange \<Rightarrow> 'j" where
  "build_bookmark J rebase b =
     jl_object J [(''op'', jl_string J (bc_op b)), (''type'', jl_string J (bc_type b)),
                  (''addr'', jl_string J (toHex (ghidra_va rebase (bc_addr b)))),
                  (''category'', jl_string J (bc_category b)),
                  (''comment'', jl_string J (bc_comment b))]"

definition build_param_rename :: "'j json_lib \<Rightarrow> ParamRename \<Rightarrow> 'j" where
  "build_param_rename J r =
     (let j = jl_object J [(''key'', jl_int64 J (pr_key r)), (''name'', jl_string J (pr_name r))]
      in if pr_typeName r \<noteq> [] then jl_set J ''type_name'' (jl_string J (pr_typeName r)) j else j)"

definition build_new_param :: "'j json_lib \<Rightarrow> i64 \<Rightarrow> NewParam \<Rightarrow> 'j" where
  "build_new_param J rebase p =
     (let j = jl_object J [(''func_va'', jl_string J (toHex (ghidra_va rebase (np_funcAddr p)))),
                           (''ordinal'', jl_int J (np_ordinal p)),
                           (''name'', jl_string J (np_name p)),
                           (''is_local'', jl_bool J (np_isLocal p))]
      in if np_typeName p \<noteq> [] then jl_set J ''type_name'' (jl_string J (np_typeName p)) j else j)"

definition build_data_type :: "'j json_lib \<Rightarrow> DataTypeChange \<Rightarrow> 'j" where
  "build_data_type J dt =
     (let j = jl_null J;
          j = jl_set J ''op'' (jl_string J (tc_op dt)) j;
          j = jl_set J ''kind'' (jl_string J (tc_kind dt)) j;
          j = jl_set J ''name'' (jl_string J (tc_name dt)) j;
          j = jl_set J ''ghidra_id'' (jl_int64 J (tc_ghidraId dt)) j;
          j = jl_set J ''size'' (jl_int J (tc_size dt)) j;
          j = (if tc_members dt \<noteq> []
               then jl_set J ''members'' (jl_array J (map (\<lambda>m.
                      jl_object J [(''name'', jl_string J (tm_name m)),
                                   (''offset'', jl_int J (tm_offset m)),
                                   (''size'', jl_int J (tm_size m)),
                                   (''type_name'', jl_string J (tm_typeName m))]) (tc_members dt))) j
               else j);
          j = (if tc_values dt \<noteq> []
               then jl_set J ''values'' (jl_array J (map (\<lambda>v.
                      jl_object J [(''name'', jl_string J (tv_name v)),
                                   (''value'', jl_int64 J (tv_value v))]) (tc_values dt))) j
               else j)
      in if tc_underlyingTypeName dt \<noteq> []
         then jl_set J ''underlying_type_name'' (jl_string J (tc_underlyingTypeName dt)) j
         else j)"

definition build_data_item :: "'j json_lib \<Rightarrow> i64 \<Rightarrow> DataItemChange \<Rightarrow> 'j" where
  "build_data_item J rebase di =
     jl_object J [(''op'', jl_string J (ic_op di)),
                  (''addr'', jl_string J (toHex (ghidra_va rebase (ic_addr di)))),
                  (''type_name'', jl_string J (ic_typeName di))]"

definition build_func_sig :: "'j json_lib \<Rightarrow> FuncSigChange \<Rightarrow> 'j" where
  "build_func_sig J fs =
     (let j = jl_set J ''key'' (jl_int64 J (sc_key fs)) (jl_null J);
          j = (if sc_callingConvention fs \<noteq> []
               then jl_set J ''cc'' (jl_string J (sc_callingConvention fs)) j else j)
      in if sc_returnTypeName fs \<noteq> []
         then jl_set J ''ret_type'' (jl_string J (sc_returnTypeName fs)) j else j)"

definition buildCheckinJson ::
    "'j json_lib \<Rightarrow> GhidraCheckinPreview \<Rightarrow> i64 \<Rightarrow> (u64, string) umap \<Rightarrow> (u64, string) umap \<Rightarrow> 'j" where
  "buildCheckinJson J preview rebase addrToOriginalFuncComment addrToCommentField =
     jl_object J
      [(''symbols'', jl_array J (map (build_rename J) (pv_renames preview) @
                                 map (build_new_symbol J rebase) (pv_newSymbols preview))),
       (''comments'', jl_array J (map (build_comment J rebase addrToOriginalFuncComment
                                         addrToCommentField) (pv_comments preview))),
       (''equate_renames'', jl_array J (map (build_equate_rename J) (pv_equateRenames preview))),
       (''equate_ref_adds'', jl_array J (map (build_equate_ref J rebase) (pv_newEquateRefs preview))),
       (''bookmark_changes'', jl_array J (map (build_bookmark J rebase) (pv_bookmarkChanges preview))),
       (''param_renames'', jl_array J (map (build_param_rename J) (pv_paramRenames preview) @
                                       map (build_new_param J rebase) (pv_newParams preview))),
       (''data_type_changes'', jl_array J (map (build_data_type J) (pv_dataTypeChanges preview))),
       (''data_item_changes'', jl_array J (map (build_data_item J rebase) (pv_dataItemChanges preview))),
       (''func_sig_changes'', jl_array J (map (build_func_sig J) (pv_funcSigChanges preview)))]"

section \<open>Vocabulary of the statements\<close>

text \<open>The members of an \<open>open_db\<close> response the decoder looks at, \<open>image_base\<close> apart.\<close>

definition export_keys :: "string list" where
  "export_keys = [''diag'', ''symbols'', ''comments'', ''func_flags'', ''equates'', ''bookmarks'',
     ''parameters'', ''data_types'', ''data_items'', ''memory_blocks'', ''xref_stats'']"

text \<open>The comment columns an address-level comment can be routed to.\<close>

definition columns :: "string list" where
  "columns = [''eol'', ''rep'', ''pre'', ''post'']"

definition columns_ok :: "(u64, string) umap \<Rightarrow> bool" where
  "columns_ok m \<longleftrightarrow> list_all (\<lambda>(a, f). f \<in> set columns) m"

text \<open>The elements of one array member of a request body.\<close>

definition entries_of :: "'j json_lib \<Rightarrow> 'j \<Rightarrow> string \<Rightarrow> 'j list" where
  "entries_of J b k = (case jl_at J b k of Inl _ \<Rightarrow> [] | Inr a \<Rightarrow> jl_elements J a)"

section \<open>Lemmas\<close>

lemma length_hex_digits: "n < 16 ^ Suc k \<Longrightarrow> length (hex_digits n) \<le> Suc k"
proof (induction k arbitrary: n)
  case 0
  then show ?case by (simp add: hex_digits.simps [of n])
next
  case (Suc k)
  show ?case
  proof (cases "n < 16")
    case False
    have "n div 16 < 16 ^ Suc k" using Suc.prems by (simp add: div_less_iff_less_mult mult.commute)
    then have "length (hex_digits (n div 16)) \<le> Suc k" by (rule Suc.IH)
    with False show ?thesis by (simp add: hex_digits.simps [of n])
  qed (simp add: hex_digits.simps [of n])
qed

lemma length_print_hex: "length (print_hex v) \<le> 18"
proof -
  have "unat v < 16 ^ Suc 15" using unat_u64_bound [of v] by simp
  from length_hex_digits [OF this] show ?thesis by (simp add: print_hex_def)
qed

lemma toHex_eq: "toHex v = ''0x'' @ hex_digits (unat v)"
  using length_print_hex [of v] by (simp add: toHex_def print_hex_def)

lemma parseHexAddr_digits:
  assumes "list_all is_hex_digit ds" and "digits_val 16 ds < 2 ^ 64"
  shows "parseHexAddr (''0x'' @ ds) = of_nat (digits_val 16 ds)"
proof -
  have "c_str (''0x'' @ ds) = ''0x'' @ ds"
    using c_str_digits [OF assms(1)] by (simp add: c_str_def char_code_def)
  then show ?thesis using strtoull16_digits [OF assms] by (simp add: parseHexAddr_def)
qed

lemma parse_toHex: "parseHexAddr (toHex v) = v"
  using parseHexAddr_digits [OF hex_digits_all, of "unat v"] unat_u64_bound [of v]
  by (simp add: toHex_eq digits_val_hex_digits)

lemma parse_array_cong:
  "jl_contains J r k = jl_contains J r' k \<Longrightarrow> jl_at J r k = jl_at J r' k \<Longrightarrow>
   parse_array J k f r = parse_array J k f r'"
  by (simp add: parse_array_def)

lemma parseDbExportJson_cong:
  assumes "list_all (\<lambda>k. jl_contains J r k = jl_contains J r' k \<and> jl_at J r k = jl_at J r' k) export_keys"
    and "jl_value_string J r ''image_base'' ''0x0'' = jl_value_string J r' ''image_base'' ''0x0''"
  shows "parseDbExportJson J r = parseDbExportJson J r'"
proof -
  have arr: "parse_array J k f r = parse_array J k f r'" if "k \<in> set export_keys" for k and f :: "'a \<Rightarrow> 'b result"
    using assms(1) that by (simp add: list_all_iff parse_array_def)
  have xs: "parse_xref_stats J r = parse_xref_stats J r'"
    using assms(1) by (simp add: list_all_iff parse_xref_stats_def export_keys_def)
  have ib: "value_addr J r ''image_base'' = value_addr J r' ''image_base''"
    using assms(2) by (simp add: value_addr_def)
  note mem = export_keys_def list.set insert_iff simp_thms
  show ?thesis
    unfolding parseDbExportJson_def xs ib
    by (simp only: arr mem)
qed

lemma sigs_of_filter: "sigs_of fs = map (\<lambda>p. the (snd p)) (filter (\<lambda>p. snd p \<noteq> None) fs)"
  unfolding sigs_of_def by (induction fs) (auto simp: List.map_filter_simps split: option.split)

lemma parse_array_Inr:
  "parse_array J k f r = Inr xs \<Longrightarrow> jl_contains J r k \<Longrightarrow>
   \<exists>a. jl_at J r k = Inr a \<and> list_all2 (\<lambda>j x. f j = Inr x) (jl_elements J a) xs"
  by (auto simp: parse_array_def result_simps res_map_Inr_iff)

lemma columns_ok_find: "columns_ok m \<Longrightarrow> find_or m a ''eol'' \<in> set columns"
  by (auto simp: columns_ok_def find_or_def list_all_iff columns_def split: option.splits dest!: map_of_SomeD)

lemma columns_ok_update: "columns_ok m \<Longrightarrow> f \<in> set columns \<Longrightarrow> columns_ok (AList.update a f m)"
  unfolding columns_ok_def by (induction m) auto

lemma comment_field_cases: "columns_ok m \<Longrightarrow> comment_field fc m a \<in> set (''plate'' # columns)"
  using columns_ok_find [of m a] by (auto simp: comment_field_def)

lemma func_flags_sig:
  "parse_func_flags J j = Inr (f, Some s) \<Longrightarrow>
   fs_key s = ff_key f \<and> (fs_callingConvention s \<noteq> [] \<or> fs_returnTypeName s \<noteq> [])"
  by (auto simp: parse_func_flags_def result_simps split: if_splits)

lemma sigs_of_subseq:
  "(\<And>f s. (f, Some s) \<in> set fs \<Longrightarrow> fs_key s = ff_key f) \<Longrightarrow>
   subseq (map fs_key (sigs_of fs)) (map (ff_key \<circ> fst) fs)"
  unfolding sigs_of_def
  by (induction fs) (auto simp: List.map_filter_simps split: option.split)

lemma parse_array_mem:
  "parse_array J k f r = Inr xs \<Longrightarrow> x \<in> set xs \<Longrightarrow> \<exists>j. f j = Inr x"
  by (auto simp: parse_array_def result_simps res_map_Inr_iff list_all2_conv_all_nth in_set_conv_nth
      split: if_splits)

lemma export_sigs:
  assumes "parseDbExportJson J r = Inr e"
  shows "subseq (map fs_key (ex_funcSigs e)) (map ff_key (ex_funcFlags e))"
    and "\<forall>s \<in> set (ex_funcSigs e). fs_callingConvention s \<noteq> [] \<or> fs_returnTypeName s \<noteq> []"
proof -
  obtain fs where fs: "parse_array J ''func_flags'' (parse_func_flags J) r = Inr fs"
    and e: "ex_funcSigs e = sigs_of fs" "ex_funcFlags e = map fst fs"
    using assms by (auto simp: parseDbExportJson_def result_simps)
  have sig: "fs_key s = ff_key f \<and> (fs_callingConvention s \<noteq> [] \<or> fs_returnTypeName s \<noteq> [])"
    if "(f, Some s) \<in> set fs" for f s
    using parse_array_mem [OF fs that] by (auto dest: func_flags_sig)
  then show "subseq (map fs_key (ex_funcSigs e)) (map ff_key (ex_funcFlags e))"
    using sigs_of_subseq [of fs] by (simp add: e)
  show "\<forall>s \<in> set (ex_funcSigs e). fs_callingConvention s \<noteq> [] \<or> fs_returnTypeName s \<noteq> []"
    using sig by (fastforce simp: e sigs_of_filter)
qed

context json_library
begin

lemma parse_array_missing: "k \<notin> fst ` set kvs \<Longrightarrow> parse_array J k f (jl_object J kvs) = Inr []"
  by (simp add: parse_array_def object_laws)

lemma parse_missing:
  assumes "set export_keys \<inter> fst ` set kvs = {}" and "''image_base'' \<notin> fst ` set kvs"
  shows "parseDbExportJson J (jl_object J kvs) = Inr default_GhidraDbExport"
proof -
  have arr: "parse_array J k f (jl_object J kvs) = Inr []" if "k \<in> set export_keys" for k and f :: "'j \<Rightarrow> 'c result"
    by (rule parse_array_missing) (use assms(1) that in blast)
  have "''xref_stats'' \<notin> fst ` set kvs" using assms(1) by (auto simp: export_keys_def)
  then have xs: "parse_xref_stats J (jl_object J kvs) = Inr \<lparr>xs_fromCount = 0, xs_toCount = 0\<rparr>"
    by (simp add: parse_xref_stats_def object_laws)
  have "parseHexAddr ''0x0'' = 0" by code_simp
  then have ib: "value_addr J (jl_object J kvs) ''image_base'' = Inr 0"
    by (simp add: value_addr_def object_reads(5) assms(2))
  show ?thesis
    unfolding parseDbExportJson_def xs ib default_GhidraDbExport_def
    by (simp add: arr export_keys_def sigs_of_def List.map_filter_simps del: List.map_filter_def)
qed

lemma value_addr_object:
  "distinct (map fst kvs) \<Longrightarrow> map_of kvs k = Some (jl_string J (toHex a)) \<Longrightarrow>
   value_addr J (jl_object J kvs) k = Inr a"
  by (simp add: value_addr_def object_value_string parse_toHex)

lemma set_value_addr_other:
  "jl_is_object J j \<Longrightarrow> k' \<noteq> k \<Longrightarrow> jl_contains J j k' \<Longrightarrow> jl_at J j k' = Inr (jl_string J (toHex a)) \<Longrightarrow>
   value_addr J (jl_set J k v j) k' = Inr a"
  unfolding value_addr_def
  by (subst value_string_at [where s = "toHex a"]) (auto simp: object_laws parse_toHex)

lemma build_addresses:
  "value_addr J (build_new_symbol J rb s) ''va'' = Inr (ns_addr s - rb)"
  "value_addr J (build_equate_ref J rb r) ''va'' = Inr (nr_addr r - rb)"
  "value_addr J (build_bookmark J rb b) ''addr'' = Inr (bc_addr b - rb)"
  "value_addr J (build_data_item J rb di) ''addr'' = Inr (ic_addr di - rb)"
  by (simp_all add: build_new_symbol_def build_equate_ref_def build_bookmark_def build_data_item_def
      ghidra_va_def value_addr_object)

lemma build_new_param_address: "value_addr J (build_new_param J rb p) ''func_va'' = Inr (np_funcAddr p - rb)"
proof -
  let ?kvs = "[(''func_va'', jl_string J (toHex (ghidra_va rb (np_funcAddr p)))),
                           (''ordinal'', jl_int J (np_ordinal p)),
                           (''name'', jl_string J (np_name p)),
                           (''is_local'', jl_bool J (np_isLocal p))]"
  have "jl_at J (jl_object J ?kvs) ''func_va'' = Inr (jl_string J (toHex (ghidra_va rb (np_funcAddr p))))"
    by (simp add: at_object)
  then show ?thesis
    unfolding build_new_param_def Let_def ghidra_va_def
    by (simp add: value_addr_object set_value_addr_other object_laws)
qed

text \<open>The entry of a comment: its address, its one column, no other column.\<close>

lemma build_comment_entry:
  fixes rb fc cols c d g
  assumes "columns_ok cols"
  defines "e \<equiv> build_comment J rb fc cols c"
    and "f \<equiv> comment_field fc cols (cc_addr c)"
  shows "value_addr J e ''va'' = Inr (cc_addr c - rb)"
    and "jl_value_string J e f d = Inr (cc_text c)"
    and "g \<in> set (''plate'' # columns) \<Longrightarrow> g \<noteq> f \<Longrightarrow> \<not> jl_contains J e g"
    and "jl_value_string J e ''key'' [] = Inr (cc_encodedKey c)"
    and "jl_contains J e f"
proof -
  have f: "f \<in> set (''plate'' # columns)" unfolding f_def by (rule comment_field_cases) (fact assms)
  then have f': "f \<noteq> ''va''" "f \<noteq> ''key''" by (auto simp: columns_def)
  let ?b = "jl_object J [(''va'', jl_string J (toHex (ghidra_va rb (cc_addr c))))]"
  have b: "jl_is_object J ?b" "jl_at J ?b ''va'' = Inr (jl_string J (toHex (ghidra_va rb (cc_addr c))))"
    "\<And>k. jl_contains J ?b k \<longleftrightarrow> k = ''va''"
    by (simp_all add: object_laws at_object)
  let ?m = "jl_set J f (jl_string J (cc_text c)) ?b"
  have m: "jl_is_object J ?m" "jl_at J ?m ''va'' = Inr (jl_string J (toHex (ghidra_va rb (cc_addr c))))"
    "\<And>k. jl_contains J ?m k \<longleftrightarrow> k = f \<or> k = ''va''" "jl_at J ?m f = Inr (jl_string J (cc_text c))"
    using f' by (simp_all add: object_laws b)
  have e: "e = (if cc_encodedKey c \<noteq> [] then jl_set J ''key'' (jl_string J (cc_encodedKey c)) ?m else ?m)"
    by (simp add: e_def build_comment_def f_def Let_def)
  have eo: "jl_is_object J e" "jl_at J e ''va'' = Inr (jl_string J (toHex (ghidra_va rb (cc_addr c))))"
    "\<And>k. jl_contains J e k \<longleftrightarrow> k = f \<or> k = ''va'' \<or> (k = ''key'' \<and> cc_encodedKey c \<noteq> [])"
    "jl_at J e f = Inr (jl_string J (cc_text c))"
    using f' by (auto simp: e object_laws m)
  show "value_addr J e ''va'' = Inr (cc_addr c - rb)"
    by (simp add: value_addr_def value_string_at eo parse_toHex ghidra_va_def)
  show "jl_contains J e f" by (simp add: eo)
  show "jl_value_string J e f d = Inr (cc_text c)"
    by (rule value_string_at) (simp_all add: eo)
  show "g \<in> set (''plate'' # columns) \<Longrightarrow> g \<noteq> f \<Longrightarrow> \<not> jl_contains J e g"
    by (auto simp: eo columns_def)
  show "jl_value_string J e ''key'' [] = Inr (cc_encodedKey c)"
  proof (cases "cc_encodedKey c = []")
    case True
    then show ?thesis using f' by (simp add: value_string_missing eo)
  next
    case False
    then have "jl_at J e ''key'' = Inr (jl_string J (cc_encodedKey c))"
      by (simp add: e at_set_same m(1))
    with False show ?thesis by (intro value_string_at) (simp_all add: eo)
  qed
qed


lemma buildCheckinJson_at:
  fixes p rb fc cols
  defines "b \<equiv> buildCheckinJson J p rb fc cols"
  shows "jl_at J b ''symbols'' = Inr (jl_array J (map (build_rename J) (pv_renames p) @ map (build_new_symbol J rb) (pv_newSymbols p)))"
    and "jl_at J b ''comments'' = Inr (jl_array J (map (build_comment J rb fc cols) (pv_comments p)))"
    and "jl_at J b ''equate_renames'' = Inr (jl_array J (map (build_equate_rename J) (pv_equateRenames p)))"
    and "jl_at J b ''equate_ref_adds'' = Inr (jl_array J (map (build_equate_ref J rb) (pv_newEquateRefs p)))"
    and "jl_at J b ''bookmark_changes'' = Inr (jl_array J (map (build_bookmark J rb) (pv_bookmarkChanges p)))"
    and "jl_at J b ''param_renames'' = Inr (jl_array J (map (build_param_rename J) (pv_paramRenames p) @ map (build_new_param J rb) (pv_newParams p)))"
    and "jl_at J b ''data_type_changes'' = Inr (jl_array J (map (build_data_type J) (pv_dataTypeChanges p)))"
    and "jl_at J b ''data_item_changes'' = Inr (jl_array J (map (build_data_item J rb) (pv_dataItemChanges p)))"
    and "jl_at J b ''func_sig_changes'' = Inr (jl_array J (map (build_func_sig J) (pv_funcSigChanges p)))"
    and "jl_is_object J b"
  unfolding b_def buildCheckinJson_def
  by (simp_all add: at_object is_object_object)

end

section \<open>Properties\<close>

text \<open>The text form of an address is never truncated by the 20-byte buffer of \<open>toHex\<close>, and
  \<open>parseHexAddr\<close> reads every address back exactly, for all 64-bit values.\<close>

theorem hex_roundtrip: "toHex v = print_hex v \<and> parseHexAddr (toHex v) = v"
  by (simp add: parse_toHex, simp add: toHex_eq print_hex_def)

text \<open>Decoding an \<open>open_db\<close> response depends only on the eleven category members and
  \<open>image_base\<close>; the transport members (\<open>ok\<close>, \<open>id\<close>, \<open>error\<close>) and anything else are
  ignored: two responses that agree on those members decode alike, errors included.\<close>

theorem export_ignores_transport:
  assumes "list_all (\<lambda>k. jl_contains J r k = jl_contains J r' k \<and> jl_at J r k = jl_at J r' k) export_keys"
    and "jl_value_string J r ''image_base'' ''0x0'' = jl_value_string J r' ''image_base'' ''0x0''"
  shows "parseDbExportJson J r = parseDbExportJson J r'"
  using assms by (rule parseDbExportJson_cong)

theorem export_ignores_transport_witness:
  "parseDbExportJson tree_json (JObj [(''ok'', JBool True), (''id'', JNum 7), (''image_base'', JStr ''0x10'')]) =
   parseDbExportJson tree_json (JObj [(''image_base'', JStr ''0x10'')])"
  by (rule export_ignores_transport) (simp_all add: export_keys_def tree_json_with_def find_or_def)

text \<open>A response without the category members decodes to empty vectors and zero counters,
  whatever else it contains (the contract stated in \<open>GhidraJson.h\<close>).\<close>

theorem export_missing_arrays:
  assumes "json_library J"
    and "set export_keys \<inter> fst ` set kvs = {}" and "''image_base'' \<notin> fst ` set kvs"
  shows "parseDbExportJson J (jl_object J kvs) = Inr default_GhidraDbExport"
  using json_library.parse_missing [OF assms] .

theorem export_missing_arrays_witness:
  "parseDbExportJson tree_json (jl_object tree_json [(''ok'', JBool True), (''id'', JNum 3)]) =
   Inr default_GhidraDbExport"
  by (rule export_missing_arrays [OF tree_laws]) (simp_all add: export_keys_def)

text \<open>The signatures of a decoded export are those of a subsequence of its function flags
  (same keys, same order), and each names a calling convention or a return type.\<close>

theorem export_signatures:
  assumes "parseDbExportJson J r = Inr e"
  shows "subseq (map fs_key (ex_funcSigs e)) (map ff_key (ex_funcFlags e)) \<and>
    list_all (\<lambda>s. fs_callingConvention s \<noteq> [] \<or> fs_returnTypeName s \<noteq> []) (ex_funcSigs e)"
  using export_sigs [OF assms] by (simp add: list_all_iff)

theorem export_signatures_witness:
  "subseq [9] (map ff_key (ex_funcFlags (default_GhidraDbExport\<lparr>
     ex_funcFlags := [\<lparr>ff_key = 4, ff_thunk = True, ff_noReturn = False, ff_isInline = False\<rparr>,
                      \<lparr>ff_key = 9, ff_thunk = False, ff_noReturn = False, ff_isInline = False\<rparr>]\<rparr>)))"
proof -
  let ?r = "JObj [(''func_flags'', JArr [JObj [(''key'', JNum 4), (''thunk'', JBool True)],
     JObj [(''key'', JNum 9), (''cc'', JStr ''__cdecl'')]])]"
  let ?e = "default_GhidraDbExport\<lparr>
     ex_funcFlags := [\<lparr>ff_key = 4, ff_thunk = True, ff_noReturn = False, ff_isInline = False\<rparr>,
                      \<lparr>ff_key = 9, ff_thunk = False, ff_noReturn = False, ff_isInline = False\<rparr>],
     ex_funcSigs := [\<lparr>fs_key = 9, fs_callingConvention = ''__cdecl'', fs_returnTypeName = [],
                      fs_returnTypeId = - 1\<rparr>]\<rparr>"
  have "parseDbExportJson tree_json ?r = Inr ?e" by code_simp
  from export_signatures [OF this] show ?thesis by simp
qed

text \<open>C28: every address of a check-in body is emitted in Ghidra space: the entries of all six
  address-carrying categories decode to the Binary Ninja address minus the rebase, in the
  preview's order.\<close>

theorem checkin_body_addresses:
  assumes "json_library J" and "columns_ok cols"
  shows "let b = buildCheckinJson J p rebase fc cols in
    map (\<lambda>e. value_addr J e ''va'') (drop (length (pv_renames p)) (entries_of J b ''symbols'')) =
      map (\<lambda>s. Inr (ns_addr s - rebase)) (pv_newSymbols p) \<and>
    map (\<lambda>e. value_addr J e ''va'') (entries_of J b ''comments'') =
      map (\<lambda>c. Inr (cc_addr c - rebase)) (pv_comments p) \<and>
    map (\<lambda>e. value_addr J e ''va'') (entries_of J b ''equate_ref_adds'') =
      map (\<lambda>r. Inr (nr_addr r - rebase)) (pv_newEquateRefs p) \<and>
    map (\<lambda>e. value_addr J e ''addr'') (entries_of J b ''bookmark_changes'') =
      map (\<lambda>k. Inr (bc_addr k - rebase)) (pv_bookmarkChanges p) \<and>
    map (\<lambda>e. value_addr J e ''func_va'')
        (drop (length (pv_paramRenames p)) (entries_of J b ''param_renames'')) =
      map (\<lambda>q. Inr (np_funcAddr q - rebase)) (pv_newParams p) \<and>
    map (\<lambda>e. value_addr J e ''addr'') (entries_of J b ''data_item_changes'') =
      map (\<lambda>d. Inr (ic_addr d - rebase)) (pv_dataItemChanges p)"
  unfolding Let_def entries_of_def
  by (simp add: json_library.buildCheckinJson_at [OF assms(1)] json_library.build_addresses [OF assms(1)]
      json_library.build_new_param_address [OF assms(1)] json_library.elements_array [OF assms(1)]
      json_library.build_comment_entry(1) [OF assms(1,2)])

theorem checkin_body_addresses_witness:
  "map (\<lambda>e. value_addr tree_json e ''va'') (entries_of tree_json (buildCheckinJson tree_json
     (default_GhidraCheckinPreview\<lparr>pv_comments := [\<lparr>cc_addr = 0x401000, cc_text = ''hi'', cc_encodedKey = []\<rparr>]\<rparr>)
     0x1000 [] [(0x401000, ''pre'')]) ''comments'') = [Inr 0x400000]"
  using checkin_body_addresses [OF tree_laws, where cols = "[(0x401000, ''pre'')]" and p =
     "default_GhidraCheckinPreview\<lparr>pv_comments := [\<lparr>cc_addr = 0x401000, cc_text = ''hi'', cc_encodedKey = []\<rparr>]\<rparr>"
     and rebase = "0x1000" and fc = "[]"]
  by (simp add: columns_ok_def columns_def default_GhidraCheckinPreview_def Let_def)

text \<open>A changed comment is sent in exactly one column, with its text: the plate column when the
  address carries an imported function comment, otherwise the column it was imported from, and
  \<open>eol\<close> for a new comment; the encoded key is sent when there is one.\<close>

theorem comment_routing:
  assumes "json_library J" and "columns_ok cols"
  shows "let f = (if has_key fc (cc_addr c) then ''plate'' else find_or cols (cc_addr c) ''eol'');
      e = build_comment J rebase fc cols c in
    jl_value_string J e f d = Inr (cc_text c) \<and>
    filter (jl_contains J e) (''plate'' # columns) = filter (\<lambda>g. g = f) (''plate'' # columns) \<and>
    jl_value_string J e ''key'' [] = Inr (cc_encodedKey c)"
  using json_library.build_comment_entry(2-5) [OF assms(1,2), where rb = rebase and fc = fc and c = c]
  unfolding Let_def comment_field_def [symmetric] by (auto intro!: filter_cong)

theorem comment_routing_witness:
  "jl_value_string tree_json (build_comment tree_json 0 [(0x10, ''old plate'')] []
     \<lparr>cc_addr = 0x10, cc_text = ''new'', cc_encodedKey = []\<rparr>) ''plate'' [] = Inr ''new''"
  using comment_routing [OF tree_laws, where cols = "[]" and fc = "[(0x10, ''old plate'')]" and c =
    "\<lparr>cc_addr = 0x10, cc_text = ''new'', cc_encodedKey = []\<rparr>" and rebase = 0 and d = "[]"]
  by (simp add: columns_ok_def has_key_def Let_def)

end
