(* ===== verification/Collect.thy ===== *)
theory Collect
  imports Bn_View Checkin_State Ghidra_Json
begin

text \<open>
  \<open>GhidraConnection::collectCheckinChanges\<close>: the diff of a Binary Ninja view against the
  check-in baselines. One definition per block of the function, in its order, each giving the
  entries the block appends to its vector of the preview; \<open>collectCheckinChanges\<close> composes them.
  A loop whose body only appends is \<open>map_filter\<close>; a loop whose body reads what it has appended is
  a fold.
\<close>

section \<open>Symbols\<close>

definition collect_renames :: "checkin_state \<Rightarrow> bn_view \<Rightarrow> SymbolRename list" where
  "collect_renames S V =
     List.map_filter (\<lambda>(bnAddr, key).
       let origName = find_or (m_addrToOriginalName S) bnAddr [] in
       case bv_symbolByAddress V bnAddr of
         None \<Rightarrow> None
       | Some curName \<Rightarrow>
           if curName = origName then None
           else Some \<lparr>sr_key = key, sr_addr = bnAddr, sr_originalName = origName, sr_newName = curName\<rparr>)
       (m_addrToKey S)"

text \<open>The body of the loop once the address has passed the two duplicate checks\<close>

definition newSymbol_entry :: "checkin_state \<Rightarrow> bn_symbol \<Rightarrow> NewSymbol option" where
  "newSymbol_entry S symbol =
     (let addr = bs_address symbol; symType = bs_type symbol; name = bs_fullName symbol in
      if symType \<noteq> FunctionSymbol \<and> symType \<noteq> DataSymbol \<and> symType \<noteq> LocalLabelSymbol then None
      else if name = [] \<or> isAutoGeneratedSymbolName name then None
      else if map_of (m_addrToOriginalName S) addr = Some name then None
      else Some \<lparr>ns_addr = addr, ns_name = name, ns_isFunction = (symType = FunctionSymbol)\<rparr>)"

fun newSymbols_loop :: "checkin_state \<Rightarrow> u64 uset \<Rightarrow> bn_symbol list \<Rightarrow> NewSymbol list" where
  "newSymbols_loop S seenAddrs [] = []"
| "newSymbols_loop S seenAddrs (symbol # syms) =
     (let addr = bs_address symbol in
      if has_key (m_addrToKey S) addr then newSymbols_loop S seenAddrs syms
      else if addr \<in> set seenAddrs then newSymbols_loop S seenAddrs syms
      else case newSymbol_entry S symbol of
        None \<Rightarrow> newSymbols_loop S (set_insert addr seenAddrs) syms
      | Some n \<Rightarrow> n # newSymbols_loop S (set_insert addr seenAddrs) syms)"

definition collect_newSymbols :: "checkin_state \<Rightarrow> bn_view \<Rightarrow> NewSymbol list" where
  "collect_newSymbols S V = newSymbols_loop S [] (bv_symbols V)"

section \<open>Comments\<close>

definition collect_addrComments :: "checkin_state \<Rightarrow> bn_view \<Rightarrow> CommentChange list" where
  "collect_addrComments S V =
     List.map_filter (\<lambda>addr.
       let text = bv_commentForAddress V addr in
       if text = [] then None
       else if text = find_or (m_addrToOriginalComment S) addr [] then None
       else Some \<lparr>cc_addr = addr, cc_text = text, cc_encodedKey = find_or (m_addrToCommentKey S) addr []\<rparr>)
       (bv_commentedAddresses V)"

definition funcComment_step :: "checkin_state \<Rightarrow> bn_function \<Rightarrow> CommentChange list \<Rightarrow> CommentChange list" where
  "funcComment_step S func comments =
     (let addr = fn_start func; text = fn_comment func in
      if text = [] then comments
      else if list_ex (\<lambda>c. cc_addr c = addr) comments then comments
      else if text = find_or (m_addrToOriginalFuncComment S) addr [] then comments
      else comments @
        [\<lparr>cc_addr = addr, cc_text = text, cc_encodedKey = find_or (m_addrToCommentKey S) addr []\<rparr>])"

definition collect_comments :: "checkin_state \<Rightarrow> bn_view \<Rightarrow> CommentChange list" where
  "collect_comments S V = fold (funcComment_step S) (bv_functionList V) (collect_addrComments S V)"

section \<open>Data types\<close>

text \<open>
  The change record built from a Binary Ninja type before it is compared (\<open>None\<close> where the loop
  continues: a class the check-in does not carry, an empty placeholder, a typedef without target)
\<close>

definition change_of_type :: "string \<Rightarrow> bn_type \<Rightarrow> DataTypeChange option" where
  "change_of_type name t =
     (let change = \<lparr>tc_op = [], tc_kind = [], tc_name = name, tc_ghidraId = 0, tc_size = 0,
                    tc_underlyingTypeName = [], tc_members = [], tc_values = []\<rparr> in
      case t of
        StructureType isUnion width members \<Rightarrow>
          if members = [] then None
          else Some (change\<lparr>tc_kind := (if isUnion then ''union'' else ''struct''), tc_size := ucast width,
            tc_members := map (\<lambda>m. \<lparr>tm_name = bn_name m, tm_offset = ucast (bn_offset m),
                                     tm_size = ucast (bn_width m), tm_typeName = bn_typeString m\<rparr>) members\<rparr>)
      | EnumerationType width es \<Rightarrow>
          if es = [] then None
          else Some (change\<lparr>tc_kind := ''enum'', tc_size := ucast width,
            tc_values := map (\<lambda>v. \<lparr>tv_name = be_name v, tv_value = be_value v\<rparr>) es\<rparr>)
      | TypedefType width target \<Rightarrow>
          (let change = change\<lparr>tc_kind := ''typedef'', tc_size := ucast width,
                 tc_underlyingTypeName := (case target of None \<Rightarrow> [] | Some n \<Rightarrow> n)\<rparr> in
           if tc_underlyingTypeName change = [] then None else Some change)
      | OtherType \<Rightarrow> None)"

definition type_different :: "bn_type \<Rightarrow> DataTypeChange \<Rightarrow> GhidraDataType \<Rightarrow> bool" where
  "type_different t change base =
     (case t of
        StructureType _ _ _ \<Rightarrow>
          length (tc_members change) \<noteq> length (dt_members base) \<or>
          list_ex (\<lambda>(m, b). tm_name m \<noteq> dm_name b \<or> tm_offset m \<noteq> dm_offset b \<or>
                            canonicalTypeName (tm_typeName m) \<noteq> canonicalTypeName (dm_typeName b))
            (zip (tc_members change) (dt_members base))
      | EnumerationType _ _ \<Rightarrow>
          length (tc_values change) \<noteq> length (dt_values base) \<or>
          list_ex (\<lambda>(v, b). tv_name v \<noteq> ev_name b \<or> tv_value v \<noteq> ev_value b)
            (zip (tc_values change) (dt_values base))
      | _ \<Rightarrow> canonicalTypeName (tc_underlyingTypeName change) \<noteq>
             canonicalTypeName (dt_underlyingTypeName base))"

definition type_change :: "checkin_state \<Rightarrow> string uset \<Rightarrow> string \<Rightarrow> bn_type \<Rightarrow> DataTypeChange option" where
  "type_change S userTypeNames name t =
     (if name = [] \<or> starts_with ''__'' name then None
      else if name \<notin> set userTypeNames \<and> \<not> has_key (m_ghidraTypesByName S) name then None
      else case change_of_type name t of
        None \<Rightarrow> None
      | Some change \<Rightarrow>
          (case map_of (m_ghidraTypesByName S) name of
             None \<Rightarrow> Some (change\<lparr>tc_op := ''add'', tc_ghidraId := 0\<rparr>)
           | Some base \<Rightarrow>
               if type_different t change base
               then Some (change\<lparr>tc_op := ''update'', tc_ghidraId := dt_id base\<rparr>)
               else None))"

definition user_type_names :: "bn_view \<Rightarrow> string uset" where
  "user_type_names V = (case bv_userTypes V of None \<Rightarrow> [] | Some ns \<Rightarrow> fold set_insert ns [])"

definition collect_typeChanges :: "checkin_state \<Rightarrow> bn_view \<Rightarrow> DataTypeChange list" where
  "collect_typeChanges S V =
     List.map_filter (\<lambda>(name, t). type_change S (user_type_names V) name t) (bv_types V)"

definition typeDeletion_step ::
    "string uset \<Rightarrow> string \<times> GhidraDataType \<Rightarrow> DataTypeChange list \<Rightarrow> DataTypeChange list" where
  "typeDeletion_step currentBnTypeNames entry changes =
     (let (name, baseType) = entry in
      if name \<in> set currentBnTypeNames then changes
      else if list_ex (\<lambda>c. tc_name c = name) changes then changes
      else changes @
        [\<lparr>tc_op = ''delete'', tc_kind = dt_kind baseType, tc_name = name, tc_ghidraId = dt_id baseType,
          tc_size = 0, tc_underlyingTypeName = [], tc_members = [], tc_values = []\<rparr>])"

definition collect_dataTypes :: "checkin_state \<Rightarrow> bn_view \<Rightarrow> DataTypeChange list" where
  "collect_dataTypes S V =
     (let currentBnTypeNames = fold (\<lambda>(qn, _). set_insert qn) (bv_types V) []
      in fold (typeDeletion_step currentBnTypeNames) (m_ghidraTypesByName S) (collect_typeChanges S V))"

section \<open>Parameters and locals\<close>

definition rebase_of :: "checkin_state \<Rightarrow> bn_view \<Rightarrow> i64" where
  "rebase_of S V = bv_start V - m_imageBase S"

definition type_string :: "string option \<Rightarrow> string" where
  "type_string t = (case t of None \<Rightarrow> [] | Some s \<Rightarrow> s)"

text \<open>The lambda \<open>checkVar\<close>\<close>

definition checkVar ::
    "checkin_state \<Rightarrow> bn_function \<Rightarrow> (i32, i64) umap option \<Rightarrow> bn_variable \<Rightarrow> i32 \<Rightarrow> bool \<Rightarrow> ParamRename option" where
  "checkVar S func ordinals var ordinalKey isAutoGen =
     (case ordinals of
        None \<Rightarrow> None
      | Some ords \<Rightarrow>
          (case map_of ords ordinalKey of
             None \<Rightarrow> None
           | Some key \<Rightarrow>
               let origName = find_or (m_paramOriginalNameByKey S) key [];
                   curName = fn_variableName func var;
                   curTypeName = type_string (fn_variableType func var);
                   origTypeName = find_or (m_paramOriginalTypeByKey S) key [];
                   nameChanged = (curName \<noteq> [] \<and> curName \<noteq> origName \<and> \<not> isAutoGen);
                   typeChanged = (curTypeName \<noteq> [] \<and>
                     canonicalTypeName curTypeName \<noteq> canonicalTypeName origTypeName)
               in if nameChanged \<or> typeChanged
                  then Some \<lparr>pr_key = key, pr_name = (if nameChanged then curName else origName),
                             pr_typeName = (if typeChanged then curTypeName else [])\<rparr>
                  else None))"

text \<open>The body of the first loop over functions: parameters by index, then stack variables by offset\<close>

definition func_paramRenames :: "checkin_state \<Rightarrow> i64 \<Rightarrow> bn_function \<Rightarrow> ParamRename list" where
  "func_paramRenames S rebase func =
     (let ghidraAddr = ghidra_va rebase (fn_start func);
          paramOrdinals = map_of (m_paramKeyByAddrOrdinal S) ghidraAddr;
          localOffsets = map_of (m_localKeyByAddrOffset S) ghidraAddr in
      if paramOrdinals = None \<and> localOffsets = None then []
      else
        List.map_filter (\<lambda>(i, var).
            checkVar S func paramOrdinals var (word_of_nat i) (autoGen_param (fn_variableName func var)))
          (enumerate 0 (fn_parameterVariables func)) @
        List.map_filter (\<lambda>(var, name).
            if va_type var \<noteq> StackVariableSourceType then None
            else checkVar S func localOffsets var (ucast (va_storage var)) (autoGen_local name))
          (fn_variables func))"

definition collect_paramRenames :: "checkin_state \<Rightarrow> bn_view \<Rightarrow> ParamRename list" where
  "collect_paramRenames S V = concat (map (func_paramRenames S (rebase_of S V)) (bv_functionList V))"

definition func_newParams :: "checkin_state \<Rightarrow> i64 \<Rightarrow> bn_function \<Rightarrow> NewParam list" where
  "func_newParams S rebase func =
     (let bnAddr = fn_start func; ghidraAddr = ghidra_va rebase bnAddr in
      List.map_filter (\<lambda>(i, var).
        if lookup2 (m_paramKeyByAddrOrdinal S) ghidraAddr (word_of_nat i) \<noteq> None then None
        else
          let curName = fn_variableName func var in
          if autoGen_param curName then None
          else if lookup2 (m_newParamBaseline S) ghidraAddr (word_of_nat i) = Some curName then None
          else Some \<lparr>np_funcAddr = bnAddr, np_ordinal = word_of_nat i, np_name = curName,
                     np_typeName = type_string (fn_variableType func var), np_isLocal = False\<rparr>)
        (enumerate 0 (fn_parameterVariables func)))"

definition arch_reg_names :: "bn_view \<Rightarrow> string uset" where
  "arch_reg_names V = fold set_insert (bv_registerNames V) []"

definition func_newRegLocals :: "checkin_state \<Rightarrow> i64 \<Rightarrow> string uset \<Rightarrow> bn_function \<Rightarrow> NewParam list" where
  "func_newRegLocals S rebase archRegNames func =
     (let bnAddr = fn_start func; ghidraAddr = ghidra_va rebase bnAddr;
          paramIds = fold (\<lambda>pv. set_insert (va_identifier pv)) (fn_parameterVariables func) [] in
      List.map_filter (\<lambda>(var, curName).
        if va_type var \<noteq> RegisterVariableSourceType then None
        else if va_identifier var \<in> set paramIds then None
        else if autoGen_reg archRegNames curName then None
        else
          let regKey = ucast (va_storage var) in
          if lookup2 (m_newRegLocalBaseline S) ghidraAddr regKey = Some curName then None
          else Some \<lparr>np_funcAddr = bnAddr, np_ordinal = regKey, np_name = curName,
                     np_typeName = type_string (fn_variableType func var), np_isLocal = True\<rparr>)
        (fn_variables func))"

definition collect_newParams :: "checkin_state \<Rightarrow> bn_view \<Rightarrow> NewParam list" where
  "collect_newParams S V =
     concat (map (func_newParams S (rebase_of S V)) (bv_functionList V)) @
     concat (map (func_newRegLocals S (rebase_of S V) (arch_reg_names V)) (bv_functionList V))"

section \<open>Bookmarks\<close>

text \<open>\<open>std::string::substr(pos)\<close> and \<open>find(c)\<close>\<close>

definition substr_from :: "string \<Rightarrow> nat \<Rightarrow> string result" where
  "substr_from s pos = (if pos > length s then Inl ''basic_string::substr'' else Inr (drop pos s))"

definition find_char :: "char \<Rightarrow> string \<Rightarrow> nat option" where
  "find_char c s = (if c \<in> set s then Some (length (takeWhile (\<lambda>x. x \<noteq> c) s)) else None)"

definition current_bookmarks :: "checkin_state \<Rightarrow> bn_view \<Rightarrow> BookmarkKey uset" where
  "current_bookmarks S V =
     fold (\<lambda>ref keys.
       case tr_tag ref of
         Some (Some typeName, tagData) \<Rightarrow>
           if \<not> starts_with ''Ghidra: '' typeName then keys
           else set_insert \<lparr>bk_addr = ghidra_va (rebase_of S V) (tr_addr ref),
                            bk_tagTypeName = typeName, bk_tagData = tagData\<rparr> keys
       | _ \<Rightarrow> keys)
       (bv_tagReferences V) []"

text \<open>Category and comment of a tag: the inverse of \<open>bookmark_tagData\<close> on well-formed data\<close>

definition split_tagData :: "string \<Rightarrow> string \<times> string" where
  "split_tagData tagData =
     (if tagData \<noteq> [] \<and> hd tagData = CHR ''['' then
        case find_char CHR '']'' tagData of
          None \<Rightarrow> ([], [])
        | Some close \<Rightarrow>
            (take (close - 1) (drop 1 tagData),
             if length tagData > close + 2 then drop (close + 2) tagData else [])
      else ([], tagData))"

definition bookmark_add :: "i64 \<Rightarrow> BookmarkKey \<Rightarrow> BookmarkChange result" where
  "bookmark_add rebase k =
     res_bind (substr_from (bk_tagTypeName k) 8) (\<lambda>typeName.
       let (category, comment) = split_tagData (bk_tagData k) in
       Inr \<lparr>bc_op = ''add'', bc_type = typeName, bc_addr = bk_addr k + rebase,
            bc_category = category, bc_comment = comment\<rparr>)"

definition bookmark_delete :: "i64 \<Rightarrow> BookmarkKey \<Rightarrow> BookmarkChange result" where
  "bookmark_delete rebase k =
     res_bind (substr_from (bk_tagTypeName k) 8) (\<lambda>typeName.
       Inr \<lparr>bc_op = ''delete'', bc_type = typeName, bc_addr = bk_addr k + rebase,
            bc_category = [], bc_comment = []\<rparr>)"

definition collect_bookmarks :: "checkin_state \<Rightarrow> bn_view \<Rightarrow> BookmarkChange list result" where
  "collect_bookmarks S V =
     (let rebase = rebase_of S V; currentKeys = current_bookmarks S V in
      res_bind (res_map (bookmark_add rebase)
                 (filter (\<lambda>k. k \<notin> set (m_ghidraBookmarkKeys S)) currentKeys)) (\<lambda>adds.
      res_bind (res_map (bookmark_delete rebase)
                 (filter (\<lambda>k. k \<notin> set currentKeys) (m_ghidraBookmarkKeys S))) (\<lambda>deletes.
      Inr (adds @ deletes))))"

section \<open>Data variables\<close>

definition collect_dataItems :: "checkin_state \<Rightarrow> bn_view \<Rightarrow> DataItemChange list" where
  "collect_dataItems S V =
     (let rebase = rebase_of S V; dataVars = bv_dataVariables V in
      List.map_filter (\<lambda>(bnAddr, dv).
        if dv_autoDiscovered dv then None
        else if ghidra_va rebase bnAddr \<in> set (m_ghidraDataItemAddrs S) then None
        else
          let typeName = type_string (dv_type dv) in
          if typeName = [] then None
          else Some \<lparr>ic_op = ''add'', ic_addr = bnAddr, ic_typeName = typeName\<rparr>) dataVars @
      List.map_filter (\<lambda>ghidraAddr.
        let bnAddr = ghidraAddr + rebase;
            stillPresent = (case map_of dataVars bnAddr of
                              None \<Rightarrow> False | Some dv \<Rightarrow> \<not> dv_autoDiscovered dv) in
        if \<not> stillPresent then Some \<lparr>ic_op = ''delete'', ic_addr = bnAddr, ic_typeName = []\<rparr>
        else None) (m_ghidraDataItemAddrs S))"

section \<open>Function signatures\<close>

text \<open>The inverse of \<open>m_addrToKey\<close>\<close>

definition keyToBnAddr :: "checkin_state \<Rightarrow> (i64, u64) umap" where
  "keyToBnAddr S = update_all snd fst (m_addrToKey S) []"

definition sig_nonempty :: "FuncSigChange \<Rightarrow> bool" where
  "sig_nonempty c \<longleftrightarrow> sc_callingConvention c \<noteq> [] \<or> sc_returnTypeName c \<noteq> []"

text \<open>The body of the first loop: a function with a calling-convention baseline\<close>

definition sigChange_baseline :: "checkin_state \<Rightarrow> bn_view \<Rightarrow> i64 \<Rightarrow> string \<Rightarrow> FuncSigChange option" where
  "sigChange_baseline S V key origCC =
     (case map_of (keyToBnAddr S) key of
        None \<Rightarrow> None
      | Some bnAddr \<Rightarrow>
          (case find (\<lambda>f. fn_start f = bnAddr) (bv_functionsForAddress V bnAddr) of
             None \<Rightarrow> None
           | Some func \<Rightarrow>
               if \<not> fn_hasUserType func then None
               else
                 let curCC = type_string (fn_callingConvention func);
                     cc = (if curCC \<noteq> [] \<and> canonicalCCName curCC \<noteq> canonicalCCName origCC then curCC else []);
                     ret = (case map_of (m_funcOriginalRetType S) key of
                              None \<Rightarrow> []
                            | Some origRet \<Rightarrow>
                                let curRet = type_string (fn_returnType func) in
                                if curRet \<noteq> [] \<and> canonicalTypeName curRet \<noteq> canonicalTypeName origRet
                                then curRet else []);
                     change = \<lparr>sc_key = key, sc_callingConvention = cc, sc_returnTypeName = ret\<rparr>
                 in if sig_nonempty change then Some change else None))"

text \<open>The body of the second loop: any function with a user type and a key\<close>

definition sigChange_user :: "checkin_state \<Rightarrow> bn_function \<Rightarrow> i64 \<Rightarrow> FuncSigChange" where
  "sigChange_user S func key =
     \<lparr>sc_key = key,
      sc_callingConvention =
        (case fn_callingConvention func of
           None \<Rightarrow> []
         | Some curCC \<Rightarrow>
             (case map_of (m_funcOriginalCC S) key of
                Some origCC \<Rightarrow> if canonicalCCName curCC \<noteq> canonicalCCName origCC then curCC else []
              | None \<Rightarrow>
                  let defCC = type_string (fn_defaultCC func) in
                  if defCC \<noteq> [] \<and> canonicalCCName curCC \<noteq> canonicalCCName defCC then curCC else [])),
      sc_returnTypeName =
        (case fn_returnType func of
           None \<Rightarrow> []
         | Some curRet \<Rightarrow>
             (case map_of (m_funcOriginalRetType S) key of
                None \<Rightarrow> curRet
              | Some origRet \<Rightarrow>
                  if canonicalTypeName curRet \<noteq> canonicalTypeName origRet then curRet else []))\<rparr>"

definition sigUser_step :: "checkin_state \<Rightarrow> bn_function \<Rightarrow> FuncSigChange list \<Rightarrow> FuncSigChange list" where
  "sigUser_step S func changes =
     (if \<not> fn_hasUserType func then changes
      else case map_of (m_addrToKey S) (fn_start func) of
        None \<Rightarrow> changes
      | Some key \<Rightarrow>
          if list_ex (\<lambda>c. sc_key c = key) changes then changes
          else
            let change = sigChange_user S func key in
            if sig_nonempty change then changes @ [change] else changes)"

definition collect_funcSigs :: "checkin_state \<Rightarrow> bn_view \<Rightarrow> FuncSigChange list" where
  "collect_funcSigs S V =
     fold (sigUser_step S) (bv_functionList V)
       (List.map_filter (\<lambda>(key, origCC). sigChange_baseline S V key origCC) (m_funcOriginalCC S))"

section \<open>Equates\<close>

definition equate_typeId :: "i64 \<Rightarrow> string" where
  "equate_typeId eid = ''ghidra_eq_'' @ to_string_i64 eid"

definition collect_equateRenames :: "checkin_state \<Rightarrow> bn_view \<Rightarrow> EquateRename list" where
  "collect_equateRenames S V =
     List.map_filter (\<lambda>(eid, originalName).
       case bv_typeById V (equate_typeId eid) of
         Some (Some (member # _)) \<Rightarrow>
           if be_name member = originalName then None
           else Some \<lparr>qr_id = eid, qr_name = be_name member\<rparr>
       | _ \<Rightarrow> None)
       (m_equateOriginalNameById S)"

text \<open>The probe of one instruction: operands 0 to 3 displayed as this equate and not in the baseline\<close>

definition probe_operands ::
    "checkin_state \<Rightarrow> i64 \<Rightarrow> i64 \<Rightarrow> u64 \<Rightarrow> u64 \<Rightarrow> (u64 \<Rightarrow> nat \<Rightarrow> bool \<times> string option) \<Rightarrow> NewEquateRef list" where
  "probe_operands S rebase eid val bnAddr site =
     List.map_filter (\<lambda>opIdx.
       let (isEnum, typeId) = site val opIdx in
       if \<not> isEnum then None
       else if typeId \<noteq> Some (equate_typeId eid) then None
       else if (case map_of (m_equateRefsByEquateId S) eid of
                  None \<Rightarrow> False
                | Some refs \<Rightarrow> \<lparr>ek_addr = ghidra_va rebase bnAddr, ek_opIndex = word_of_nat opIdx\<rparr> \<in> set refs)
       then None
       else Some \<lparr>nr_equateId = eid, nr_addr = bnAddr, nr_opIndex = word_of_nat opIdx\<rparr>)
       [0 ..< 4]"

definition collect_newEquateRefs :: "checkin_state \<Rightarrow> bn_view \<Rightarrow> NewEquateRef list" where
  "collect_newEquateRefs S V =
     concat (map (\<lambda>(eid, originalName).
       if bv_typeById V (equate_typeId eid) = None then []
       else
         let val = find_or (m_equateValueById S) eid 0 in
         concat (map (\<lambda>ref. case ct_site ref of
                        None \<Rightarrow> []
                      | Some site \<Rightarrow> probe_operands S (rebase_of S V) eid val (ct_addr ref) site)
           (bv_codeReferencesForType V originalName)))
       (m_equateOriginalNameById S))"

section \<open>The whole diff\<close>

definition collectCheckinChanges :: "checkin_state \<Rightarrow> bn_view option \<Rightarrow> GhidraCheckinPreview result" where
  "collectCheckinChanges S view =
     (case view of
        None \<Rightarrow> Inr default_GhidraCheckinPreview
      | Some V \<Rightarrow>
          if m_checkinItem S = [] then Inr default_GhidraCheckinPreview
          else
            res_bind (collect_bookmarks S V) (\<lambda>bookmarks.
              Inr \<lparr>pv_renames = collect_renames S V, pv_comments = collect_comments S V,
                   pv_equateRenames = collect_equateRenames S V, pv_bookmarkChanges = bookmarks,
                   pv_paramRenames = collect_paramRenames S V,
                   pv_dataTypeChanges = collect_dataTypes S V,
                   pv_dataItemChanges = collect_dataItems S V,
                   pv_funcSigChanges = collect_funcSigs S V,
                   pv_newSymbols = collect_newSymbols S V, pv_newParams = collect_newParams S V,
                   pv_newEquateRefs = collect_newEquateRefs S V\<rparr>))"

section \<open>Facts shared by the theories on top\<close>

lemma newSymbol_entry_addr: "newSymbol_entry S s = Some n \<Longrightarrow> ns_addr n = bs_address s \<and> ns_name n = bs_fullName s"
  by (auto simp: newSymbol_entry_def Let_def)

lemma newSymbols_fresh:
  "n \<in> set (newSymbols_loop S seen syms) \<Longrightarrow> ns_addr n \<notin> set seen \<and> \<not> has_key (m_addrToKey S) (ns_addr n)"
  by (induction S seen syms rule: newSymbols_loop.induct)
    (auto simp: Let_def newSymbol_entry_addr split: if_splits option.splits)

text \<open>A reported comment is one of an address or of a function of the view.\<close>

lemma in_collect_comments:
  assumes "c \<in> set (collect_comments S V)"
  obtains "c \<in> set (collect_addrComments S V)"
  | f where "f \<in> set (bv_functionList V)" "cc_addr c = fn_start f" "cc_text c = fn_comment f" "fn_comment f \<noteq> []"
      "fn_comment f \<noteq> find_or (m_addrToOriginalFuncComment S) (fn_start f) []"
proof -
  have "c \<in> set cs \<or> (\<exists>f \<in> set fs. cc_addr c = fn_start f \<and> cc_text c = fn_comment f \<and> fn_comment f \<noteq> [] \<and>
      fn_comment f \<noteq> find_or (m_addrToOriginalFuncComment S) (fn_start f) [])"
    if "c \<in> set (fold (funcComment_step S) fs cs)" for fs cs
    using that
  proof (induction fs arbitrary: cs)
    case (Cons f fs)
    from Cons.IH [of "funcComment_step S f cs"] Cons.prems show ?case
      by (auto simp: funcComment_step_def Let_def split: if_splits)
  qed simp
  with assms that show ?thesis unfolding collect_comments_def by blast
qed

end
