(* ===== verification/Checkin.thy ===== *)
theory Checkin
  imports Collect
begin

text \<open>
  \<open>GhidraConnection::checkin\<close>: the guards, the request, the reading of the bridge's response and
  the update of the baselines, one definition per loop of the update in the function's order.
  The bridge round trip \<open>m_client->sendSync\<close> is an argument: a function from the request and the
  timeout to the response or the exception it throws. Lemmas: what each update leaves in the
  baseline it writes, and that no update touches a baseline another one reads.
\<close>

section \<open>Baseline updates\<close>

definition update_renames :: "SymbolRename list \<Rightarrow> checkin_state \<Rightarrow> checkin_state" where
  "update_renames rs S =
     S\<lparr>m_addrToOriginalName := update_all sr_addr sr_newName rs (m_addrToOriginalName S)\<rparr>"

definition update_newSymbols :: "NewSymbol list \<Rightarrow> checkin_state \<Rightarrow> checkin_state" where
  "update_newSymbols ss S =
     S\<lparr>m_addrToOriginalName := update_all ns_addr ns_name ss (m_addrToOriginalName S)\<rparr>"

definition update_comment :: "CommentChange \<Rightarrow> checkin_state \<Rightarrow> checkin_state" where
  "update_comment c S =
     (if has_key (m_addrToOriginalComment S) (cc_addr c)
      then S\<lparr>m_addrToOriginalComment := AList.update (cc_addr c) (cc_text c) (m_addrToOriginalComment S)\<rparr>
      else if has_key (m_addrToOriginalFuncComment S) (cc_addr c)
      then S\<lparr>m_addrToOriginalFuncComment := AList.update (cc_addr c) (cc_text c) (m_addrToOriginalFuncComment S)\<rparr>
      else S\<lparr>m_addrToOriginalComment := AList.update (cc_addr c) (cc_text c) (m_addrToOriginalComment S),
             m_addrToCommentField := AList.update (cc_addr c) ''eol'' (m_addrToCommentField S)\<rparr>)"

definition update_comments :: "CommentChange list \<Rightarrow> checkin_state \<Rightarrow> checkin_state" where
  "update_comments cs S = fold update_comment cs S"

text \<open>The entry \<open>m_ghidraTypesByName[dt.name]\<close> after an add or an update\<close>

definition stored_type :: "DataTypeChange \<Rightarrow> GhidraDataType \<Rightarrow> GhidraDataType" where
  "stored_type dt stored =
     stored\<lparr>dt_name := tc_name dt, dt_kind := tc_kind dt, dt_size := tc_size dt,
       dt_id := (if tc_ghidraId dt \<noteq> 0 then tc_ghidraId dt else dt_id stored),
       dt_underlyingTypeName := tc_underlyingTypeName dt,
       dt_members := map (\<lambda>m. \<lparr>dm_offset = tm_offset m, dm_typeId = 0, dm_name = tm_name m, dm_comment = [],
                               dm_size = tm_size m, dm_ordinal = 0, dm_typeName = tm_typeName m\<rparr>) (tc_members dt),
       dt_values := map (\<lambda>v. \<lparr>ev_name = tv_name v, ev_value = tv_value v, ev_comment = []\<rparr>) (tc_values dt)\<rparr>"

definition update_dataType ::
    "DataTypeChange \<Rightarrow> (string, GhidraDataType) umap \<Rightarrow> (string, GhidraDataType) umap" where
  "update_dataType dt m =
     (if tc_op dt = ''delete'' then AList.delete (tc_name dt) m
      else AList.update (tc_name dt) (stored_type dt (find_or m (tc_name dt) default_GhidraDataType)) m)"

definition update_dataTypes :: "DataTypeChange list \<Rightarrow> checkin_state \<Rightarrow> checkin_state" where
  "update_dataTypes dts S = S\<lparr>m_ghidraTypesByName := fold update_dataType dts (m_ghidraTypesByName S)\<rparr>"

definition update_params :: "ParamRename list \<Rightarrow> checkin_state \<Rightarrow> checkin_state" where
  "update_params rs S =
     S\<lparr>m_paramOriginalNameByKey := update_all pr_key pr_name rs (m_paramOriginalNameByKey S),
       m_paramOriginalTypeByKey :=
         update_all pr_key pr_typeName (filter (\<lambda>r. pr_typeName r \<noteq> []) rs) (m_paramOriginalTypeByKey S)\<rparr>"

definition update_newParam :: "i64 \<Rightarrow> NewParam \<Rightarrow> checkin_state \<Rightarrow> checkin_state" where
  "update_newParam rebaseLocal p S =
     (let ghidraAddr = ghidra_va rebaseLocal (np_funcAddr p) in
      if np_isLocal p
      then S\<lparr>m_newRegLocalBaseline := update2 ghidraAddr (np_ordinal p) (np_name p) (m_newRegLocalBaseline S)\<rparr>
      else S\<lparr>m_newParamBaseline := update2 ghidraAddr (np_ordinal p) (np_name p) (m_newParamBaseline S)\<rparr>)"

definition update_newParams :: "i64 \<Rightarrow> NewParam list \<Rightarrow> checkin_state \<Rightarrow> checkin_state" where
  "update_newParams rebaseLocal ps S = fold (update_newParam rebaseLocal) ps S"

definition update_equates :: "EquateRename list \<Rightarrow> checkin_state \<Rightarrow> checkin_state" where
  "update_equates rs S =
     S\<lparr>m_equateOriginalNameById := update_all qr_id qr_name rs (m_equateOriginalNameById S)\<rparr>"

definition update_equateRefs :: "i64 \<Rightarrow> NewEquateRef list \<Rightarrow> checkin_state \<Rightarrow> checkin_state" where
  "update_equateRefs rebase rs S =
     S\<lparr>m_equateRefsByEquateId :=
         fold (\<lambda>r. insert_ref (nr_equateId r) \<lparr>ek_addr = ghidra_va rebase (nr_addr r), ek_opIndex = nr_opIndex r\<rparr>)
           rs (m_equateRefsByEquateId S)\<rparr>"

text \<open>The baseline key the update derives from a bookmark change\<close>

definition change_key :: "i64 \<Rightarrow> BookmarkChange \<Rightarrow> BookmarkKey" where
  "change_key rebase2 b =
     \<lparr>bk_addr = ghidra_va rebase2 (bc_addr b), bk_tagTypeName = bookmark_tagTypeName (bc_type b),
      bk_tagData = bookmark_tagData (bc_category b) (bc_comment b)\<rparr>"

definition update_bookmarks :: "i64 \<Rightarrow> BookmarkChange list \<Rightarrow> checkin_state \<Rightarrow> checkin_state" where
  "update_bookmarks rebase2 bs S =
     S\<lparr>m_ghidraBookmarkKeys :=
         fold (\<lambda>b keys. if bc_op b = ''add'' then set_insert (change_key rebase2 b) keys
                        else removeAll (change_key rebase2 b) keys) bs (m_ghidraBookmarkKeys S)\<rparr>"

definition update_dataItems :: "i64 \<Rightarrow> DataItemChange list \<Rightarrow> checkin_state \<Rightarrow> checkin_state" where
  "update_dataItems rebase2 ds S =
     S\<lparr>m_ghidraDataItemAddrs :=
         fold (\<lambda>d addrs. let ghidraAddr = ghidra_va rebase2 (ic_addr d) in
                 if ic_op d = ''add'' then set_insert ghidraAddr addrs else removeAll ghidraAddr addrs)
           ds (m_ghidraDataItemAddrs S)\<rparr>"

definition update_funcSigs :: "FuncSigChange list \<Rightarrow> checkin_state \<Rightarrow> checkin_state" where
  "update_funcSigs fs S =
     S\<lparr>m_funcOriginalCC :=
         update_all sc_key sc_callingConvention (filter (\<lambda>f. sc_callingConvention f \<noteq> []) fs) (m_funcOriginalCC S),
       m_funcOriginalRetType :=
         update_all sc_key sc_returnTypeName (filter (\<lambda>f. sc_returnTypeName f \<noteq> []) fs) (m_funcOriginalRetType S)\<rparr>"

definition update_baselines :: "bn_view \<Rightarrow> GhidraCheckinPreview \<Rightarrow> checkin_state \<Rightarrow> checkin_state" where
  "update_baselines V preview S =
     (let rebase = rebase_of S V;
          S = update_renames (pv_renames preview) S;
          S = update_newSymbols (pv_newSymbols preview) S;
          S = update_comments (pv_comments preview) S;
          S = update_dataTypes (pv_dataTypeChanges preview) S;
          S = update_params (pv_paramRenames preview) S;
          S = update_newParams (rebase_of S V) (pv_newParams preview) S;
          S = update_equates (pv_equateRenames preview) S;
          S = update_equateRefs rebase (pv_newEquateRefs preview) S;
          rebase2 = rebase_of S V;
          S = update_bookmarks rebase2 (pv_bookmarkChanges preview) S;
          S = update_dataItems rebase2 (pv_dataItemChanges preview) S
      in update_funcSigs (pv_funcSigChanges preview) S)"

section \<open>The response\<close>

text \<open>\<open>added_type_ids\<close>: the database ids of new types, for the names the baseline holds\<close>

definition set_type_id :: "string \<times> i64 \<Rightarrow> (string, GhidraDataType) umap \<Rightarrow> (string, GhidraDataType) umap" where
  "set_type_id entry m =
     (let (typeName, newId) = entry in
      case map_of m typeName of
        None \<Rightarrow> m
      | Some dt \<Rightarrow> AList.update typeName (dt\<lparr>dt_id := newId\<rparr>) m)"

definition added_type_ids :: "'j json_lib \<Rightarrow> 'j \<Rightarrow> (string \<times> i64) list result" where
  "added_type_ids J resp =
     (if \<not> jl_contains J resp ''added_type_ids'' then Inr []
      else res_bind (jl_at J resp ''added_type_ids'') (\<lambda>ids.
        if \<not> jl_is_object J ids then Inr []
        else res_map (\<lambda>(typeName, idVal). res_bind (jl_get_int64 J idVal) (\<lambda>i. Inr (typeName, i)))
               (filter (\<lambda>(typeName, idVal). jl_is_number J idVal) (jl_items J ids))))"

definition apply_type_ids :: "(string \<times> i64) list \<Rightarrow> checkin_state \<Rightarrow> checkin_state" where
  "apply_type_ids ids S = S\<lparr>m_ghidraTypesByName := fold set_type_id ids (m_ghidraTypesByName S)\<rparr>"

text \<open>
  The applied-count check: label, field of \<open>applied\<close> and member of the body of each category, and
  the warnings (applied count, sent count, label) the check logs
\<close>

definition applied_categories :: "(string \<times> string \<times> string) list" where
  "applied_categories =
     [(''symbols'', ''symbols'', ''symbols''), (''comments'', ''comments'', ''comments''),
      (''equate renames'', ''equate_renames'', ''equate_renames''),
      (''equate refs'', ''equate_ref_adds'', ''equate_ref_adds''),
      (''bookmarks'', ''bookmarks'', ''bookmark_changes''),
      (''params/vars'', ''params'', ''param_renames''),
      (''data types'', ''data_types'', ''data_type_changes''),
      (''data items'', ''data_items'', ''data_item_changes''),
      (''function signatures'', ''func_sigs'', ''func_sig_changes'')]"

definition warnShort :: "'j json_lib \<Rightarrow> 'j \<Rightarrow> string \<Rightarrow> string \<Rightarrow> nat \<Rightarrow> (i64 \<times> nat \<times> string) list result" where
  "warnShort J ap label field sent =
     (if sent = 0 \<or> \<not> jl_contains J ap field then Inr []
      else res_bind (jl_at J ap field) (\<lambda>v.
        if \<not> jl_is_number J v then Inr []
        else res_bind (jl_get_int64 J v) (\<lambda>applied.
          if sint applied < sint (word_of_nat sent :: i64) then Inr [(applied, sent, label)] else Inr [])))"

definition applied_warnings :: "'j json_lib \<Rightarrow> 'j \<Rightarrow> 'j \<Rightarrow> (i64 \<times> nat \<times> string) list result" where
  "applied_warnings J body resp =
     (if \<not> jl_contains J resp ''applied'' then Inr []
      else res_bind (jl_at J resp ''applied'') (\<lambda>ap.
        if \<not> jl_is_object J ap then Inr []
        else res_bind (res_map (\<lambda>(label, field, member).
               res_bind (jl_at J body member) (\<lambda>sent. warnShort J ap label field (jl_size J sent)))
               applied_categories) (\<lambda>ws. Inr (concat ws))))"

section \<open>The operation\<close>

definition checkin_request ::
    "'j json_lib \<Rightarrow> checkin_state \<Rightarrow> bn_view \<Rightarrow> GhidraCheckinPreview \<Rightarrow> string \<Rightarrow> 'j" where
  "checkin_request J S V preview comment =
     jl_update J
       (jl_object J [(''op'', jl_string J ''checkin''), (''repo'', jl_string J (m_checkinRepo S)),
          (''folder'', jl_string J (m_checkinFolder S)), (''item'', jl_string J (m_checkinItem S)),
          (''comment'', jl_string J comment)])
       (buildCheckinJson J preview (rebase_of S V) (m_addrToOriginalFuncComment S) (m_addrToCommentField S))"

text \<open>
  The \<open>try\<close> block: the exception thrown in it, or the error text of a refused check-in, or the
  warnings and the updated state
\<close>

definition checkin_exchange ::
    "'j json_lib \<Rightarrow> ('j \<Rightarrow> nat \<Rightarrow> 'j result) \<Rightarrow> bn_view \<Rightarrow> GhidraCheckinPreview \<Rightarrow> string \<Rightarrow> checkin_state \<Rightarrow>
     (string + (i64 \<times> nat \<times> string) list \<times> checkin_state) result" where
  "checkin_exchange J sendSync V preview comment S =
     (let body = buildCheckinJson J preview (rebase_of S V) (m_addrToOriginalFuncComment S) (m_addrToCommentField S) in
      res_bind (sendSync (checkin_request J S V preview comment) 120000) (\<lambda>resp.
      res_bind (jl_value_bool J resp ''ok'' False) (\<lambda>okay.
      if \<not> okay
      then res_bind (jl_value_string J resp ''error'' ''checkin failed'') (\<lambda>e. Inr (Inl e))
      else
        res_bind (applied_warnings J body resp) (\<lambda>ws.
        res_bind (added_type_ids J resp) (\<lambda>ids.
        Inr (Inr (ws, update_baselines V preview (apply_type_ids ids S))))))))"

record checkin_outcome =
  out_ok :: bool
  out_error :: string
  out_warnings :: "(i64 \<times> nat \<times> string) list"
  out_state :: checkin_state

definition checkin ::
    "'j json_lib \<Rightarrow> bool \<Rightarrow> bool \<Rightarrow> ('j \<Rightarrow> nat \<Rightarrow> 'j result) \<Rightarrow> bn_view \<Rightarrow> GhidraCheckinPreview \<Rightarrow> string \<Rightarrow>
     string \<Rightarrow> checkin_state \<Rightarrow> checkin_outcome" where
  "checkin J bridgeConnected serverConnected sendSync V preview comment errorOut S =
     (let fail = (\<lambda>e. \<lparr>out_ok = False, out_error = e, out_warnings = [], out_state = S\<rparr>) in
      if \<not> bridgeConnected then fail ''Bridge not connected''
      else if \<not> serverConnected then fail ''Not connected to server''
      else if m_checkinItem S = [] then fail (''No import '' @ map char_of [226 :: nat, 128, 148] @ '' import first'')
      else case checkin_exchange J sendSync V preview comment S of
        Inl what \<Rightarrow> fail what
      | Inr (Inl e) \<Rightarrow> fail e
      | Inr (Inr (ws, S')) \<Rightarrow>
          \<lparr>out_ok = True, out_error = errorOut, out_warnings = ws, out_state = S'\<rparr>)"

section \<open>Fields after the update\<close>

named_theorems baseline_simps \<open>fields of the state after a baseline update\<close>

lemma update_comments_frame [baseline_simps]:
  "m_addrToKey (update_comments cs S) = m_addrToKey S"
  "m_addrToOriginalName (update_comments cs S) = m_addrToOriginalName S"
  "m_addrToCommentKey (update_comments cs S) = m_addrToCommentKey S"
  "m_ghidraTypesByName (update_comments cs S) = m_ghidraTypesByName S"
  "m_paramOriginalNameByKey (update_comments cs S) = m_paramOriginalNameByKey S"
  "m_paramOriginalTypeByKey (update_comments cs S) = m_paramOriginalTypeByKey S"
  "m_paramKeyByAddrOrdinal (update_comments cs S) = m_paramKeyByAddrOrdinal S"
  "m_localKeyByAddrOffset (update_comments cs S) = m_localKeyByAddrOffset S"
  "m_newParamBaseline (update_comments cs S) = m_newParamBaseline S"
  "m_newRegLocalBaseline (update_comments cs S) = m_newRegLocalBaseline S"
  "m_ghidraBookmarkKeys (update_comments cs S) = m_ghidraBookmarkKeys S"
  "m_ghidraTagTypeNames (update_comments cs S) = m_ghidraTagTypeNames S"
  "m_ghidraDataItemAddrs (update_comments cs S) = m_ghidraDataItemAddrs S"
  "m_equateOriginalNameById (update_comments cs S) = m_equateOriginalNameById S"
  "m_equateValueById (update_comments cs S) = m_equateValueById S"
  "m_equateRefsByEquateId (update_comments cs S) = m_equateRefsByEquateId S"
  "m_funcOriginalCC (update_comments cs S) = m_funcOriginalCC S"
  "m_funcOriginalRetType (update_comments cs S) = m_funcOriginalRetType S"
  "m_funcReturnTypeId (update_comments cs S) = m_funcReturnTypeId S"
  "m_imageBase (update_comments cs S) = m_imageBase S"
  "m_checkinRepo (update_comments cs S) = m_checkinRepo S"
  "m_checkinFolder (update_comments cs S) = m_checkinFolder S"
  "m_checkinItem (update_comments cs S) = m_checkinItem S"
  unfolding update_comments_def by (rule fold_frame, simp add: update_comment_def)+

lemma update_newParams_eq [baseline_simps]:
  "update_newParams rb ps S =
     S\<lparr>m_newParamBaseline :=
         fold (\<lambda>p. update2 (ghidra_va rb (np_funcAddr p)) (np_ordinal p) (np_name p))
           (filter (\<lambda>p. \<not> np_isLocal p) ps) (m_newParamBaseline S),
       m_newRegLocalBaseline :=
         fold (\<lambda>p. update2 (ghidra_va rb (np_funcAddr p)) (np_ordinal p) (np_name p))
           (filter np_isLocal ps) (m_newRegLocalBaseline S)\<rparr>"
  unfolding update_newParams_def
  by (induction ps arbitrary: S) (simp_all add: update_newParam_def)

lemmas update_defs = update_renames_def update_newSymbols_def update_dataTypes_def update_params_def
  update_equates_def update_equateRefs_def update_bookmarks_def update_dataItems_def update_funcSigs_def

lemma rebase_frame [baseline_simps]:
  "rebase_of (update_renames rs S) V = rebase_of S V"
  "rebase_of (update_newSymbols ss S) V = rebase_of S V"
  "rebase_of (update_comments cs S) V = rebase_of S V"
  "rebase_of (update_dataTypes dts S) V = rebase_of S V"
  "rebase_of (update_params ps S) V = rebase_of S V"
  "rebase_of (update_newParams rb nps S) V = rebase_of S V"
  "rebase_of (update_equates es S) V = rebase_of S V"
  "rebase_of (update_equateRefs rb ers S) V = rebase_of S V"
  by (simp_all add: rebase_of_def baseline_simps update_defs)

lemma update_baselines_flat:
  "update_baselines V p S =
     update_funcSigs (pv_funcSigChanges p)
      (update_dataItems (rebase_of S V) (pv_dataItemChanges p)
       (update_bookmarks (rebase_of S V) (pv_bookmarkChanges p)
        (update_equateRefs (rebase_of S V) (pv_newEquateRefs p)
         (update_equates (pv_equateRenames p)
          (update_newParams (rebase_of S V) (pv_newParams p)
           (update_params (pv_paramRenames p)
            (update_dataTypes (pv_dataTypeChanges p)
             (update_comments (pv_comments p)
              (update_newSymbols (pv_newSymbols p)
               (update_renames (pv_renames p) S))))))))))"
  unfolding update_baselines_def Let_def rebase_frame ..

lemma update_baselines_fields [baseline_simps]:
  "m_addrToKey (update_baselines V p S) = m_addrToKey S"
  "m_addrToOriginalName (update_baselines V p S) =
     update_all ns_addr ns_name (pv_newSymbols p) (update_all sr_addr sr_newName (pv_renames p) (m_addrToOriginalName S))"
  "m_addrToCommentKey (update_baselines V p S) = m_addrToCommentKey S"
  "m_ghidraTypesByName (update_baselines V p S) = fold update_dataType (pv_dataTypeChanges p) (m_ghidraTypesByName S)"
  "m_paramOriginalNameByKey (update_baselines V p S) =
     update_all pr_key pr_name (pv_paramRenames p) (m_paramOriginalNameByKey S)"
  "m_paramOriginalTypeByKey (update_baselines V p S) =
     update_all pr_key pr_typeName (filter (\<lambda>r. pr_typeName r \<noteq> []) (pv_paramRenames p)) (m_paramOriginalTypeByKey S)"
  "m_paramKeyByAddrOrdinal (update_baselines V p S) = m_paramKeyByAddrOrdinal S"
  "m_localKeyByAddrOffset (update_baselines V p S) = m_localKeyByAddrOffset S"
  "m_newParamBaseline (update_baselines V p S) =
     fold (\<lambda>q. update2 (ghidra_va (rebase_of S V) (np_funcAddr q)) (np_ordinal q) (np_name q))
       (filter (\<lambda>q. \<not> np_isLocal q) (pv_newParams p)) (m_newParamBaseline S)"
  "m_newRegLocalBaseline (update_baselines V p S) =
     fold (\<lambda>q. update2 (ghidra_va (rebase_of S V) (np_funcAddr q)) (np_ordinal q) (np_name q))
       (filter np_isLocal (pv_newParams p)) (m_newRegLocalBaseline S)"
  "m_ghidraBookmarkKeys (update_baselines V p S) =
     m_ghidraBookmarkKeys (update_bookmarks (rebase_of S V) (pv_bookmarkChanges p) S)"
  "m_ghidraDataItemAddrs (update_baselines V p S) =
     m_ghidraDataItemAddrs (update_dataItems (rebase_of S V) (pv_dataItemChanges p) S)"
  "m_equateOriginalNameById (update_baselines V p S) =
     update_all qr_id qr_name (pv_equateRenames p) (m_equateOriginalNameById S)"
  "m_equateValueById (update_baselines V p S) = m_equateValueById S"
  "m_equateRefsByEquateId (update_baselines V p S) =
     m_equateRefsByEquateId (update_equateRefs (rebase_of S V) (pv_newEquateRefs p) S)"
  "m_funcOriginalCC (update_baselines V p S) = m_funcOriginalCC (update_funcSigs (pv_funcSigChanges p) S)"
  "m_funcOriginalRetType (update_baselines V p S) = m_funcOriginalRetType (update_funcSigs (pv_funcSigChanges p) S)"
  "m_funcReturnTypeId (update_baselines V p S) = m_funcReturnTypeId S"
  "m_imageBase (update_baselines V p S) = m_imageBase S"
  "m_checkinRepo (update_baselines V p S) = m_checkinRepo S"
  "m_checkinFolder (update_baselines V p S) = m_checkinFolder S"
  "m_checkinItem (update_baselines V p S) = m_checkinItem S"
  unfolding update_baselines_flat by (simp_all add: update_defs baseline_simps)

lemma rebase_update [baseline_simps]: "rebase_of (update_baselines V p S) V = rebase_of S V"
  by (simp add: rebase_of_def baseline_simps)

text \<open>The comment maps are updated independently of the others.\<close>

lemma update_comments_cong:
  "m_addrToOriginalComment S = m_addrToOriginalComment T \<Longrightarrow>
   m_addrToOriginalFuncComment S = m_addrToOriginalFuncComment T \<Longrightarrow>
   m_addrToCommentField S = m_addrToCommentField T \<Longrightarrow>
   m_addrToOriginalComment (update_comments cs S) = m_addrToOriginalComment (update_comments cs T) \<and>
   m_addrToOriginalFuncComment (update_comments cs S) = m_addrToOriginalFuncComment (update_comments cs T) \<and>
   m_addrToCommentField (update_comments cs S) = m_addrToCommentField (update_comments cs T)"
  unfolding update_comments_def
proof (induction cs arbitrary: S T)
  case (Cons c cs)
  show ?case unfolding fold_Cons comp_apply
    by (rule Cons.IH) (use Cons.prems in \<open>simp_all add: update_comment_def\<close>)
qed simp

lemma update_baselines_comments [baseline_simps]:
  "m_addrToOriginalComment (update_baselines V p S) = m_addrToOriginalComment (update_comments (pv_comments p) S)"
  "m_addrToOriginalFuncComment (update_baselines V p S) = m_addrToOriginalFuncComment (update_comments (pv_comments p) S)"
  "m_addrToCommentField (update_baselines V p S) = m_addrToCommentField (update_comments (pv_comments p) S)"
proof -
  let ?T = "update_newSymbols (pv_newSymbols p) (update_renames (pv_renames p) S)"
  have "m_addrToOriginalComment ?T = m_addrToOriginalComment S" "m_addrToOriginalFuncComment ?T = m_addrToOriginalFuncComment S"
    "m_addrToCommentField ?T = m_addrToCommentField S" by (simp_all add: update_defs)
  note * = update_comments_cong [OF this, of "pv_comments p"]
  show "m_addrToOriginalComment (update_baselines V p S) = m_addrToOriginalComment (update_comments (pv_comments p) S)"
    "m_addrToOriginalFuncComment (update_baselines V p S) = m_addrToOriginalFuncComment (update_comments (pv_comments p) S)"
    "m_addrToCommentField (update_baselines V p S) = m_addrToCommentField (update_comments (pv_comments p) S)"
    using * unfolding update_baselines_flat by (simp_all add: update_newParams_eq update_defs)
qed

end
