(* ===== verification/Converge_Items.thy ===== *)
theory Converge_Items
  imports Checkin
begin

text \<open>
  Why a check-in empties the next preview, first part: symbols, data items, equates and bookmarks.
  Each section characterises the entries its block of \<open>collectCheckinChanges\<close> reports and shows
  that a baseline updated with them (the hypotheses named \<open>T\<close>) makes the block report nothing.
\<close>

section \<open>Symbols\<close>

lemma in_collect_renames:
  "r \<in> set (collect_renames S V) \<longleftrightarrow>
     (sr_addr r, sr_key r) \<in> set (m_addrToKey S) \<and> bv_symbolByAddress V (sr_addr r) = Some (sr_newName r) \<and>
     sr_originalName r = find_or (m_addrToOriginalName S) (sr_addr r) [] \<and> sr_newName r \<noteq> sr_originalName r"
  by (cases r) (auto simp: collect_renames_def in_map_filter_pair Let_def split: option.splits)

lemma newSymbols_distinct: "distinct (map ns_addr (newSymbols_loop S seen syms))"
  by (induction S seen syms rule: newSymbols_loop.induct)
    (auto simp: Let_def newSymbol_entry_addr dest!: newSymbols_fresh split: option.split)

text \<open>An entry disappears once the baseline records it, and none appears while the baseline is the same.\<close>

lemma newSymbol_entry_recorded:
  "newSymbol_entry S s = Some n \<Longrightarrow> map_of (m_addrToOriginalName T) (ns_addr n) = Some (ns_name n) \<Longrightarrow>
   newSymbol_entry T s = None"
  "newSymbol_entry S s = None \<Longrightarrow>
   map_of (m_addrToOriginalName T) (bs_address s) = map_of (m_addrToOriginalName S) (bs_address s) \<Longrightarrow>
   newSymbol_entry T s = None"
  by (auto simp: newSymbol_entry_def Let_def)

lemma newSymbols_loop_converges:
  assumes "m_addrToKey T = m_addrToKey S"
    and "\<And>n. n \<in> set (newSymbols_loop S seen syms) \<Longrightarrow> map_of (m_addrToOriginalName T) (ns_addr n) = Some (ns_name n)"
    and "\<And>a. a \<notin> set seen \<Longrightarrow> \<not> has_key (m_addrToKey S) a \<Longrightarrow> a \<notin> ns_addr ` set (newSymbols_loop S seen syms) \<Longrightarrow>
           map_of (m_addrToOriginalName T) a = map_of (m_addrToOriginalName S) a"
  shows "newSymbols_loop T seen syms = []"
  using assms
proof (induction syms arbitrary: seen)
  case (Cons s syms)
  let ?a = "bs_address s"
  show ?case
  proof (cases "has_key (m_addrToKey S) ?a \<or> ?a \<in> set seen")
    case True
    with Cons show ?thesis by (auto simp: Let_def)
  next
    case False
    let ?seen = "set_insert ?a seen"
    have fresh: "?a \<notin> ns_addr ` set (newSymbols_loop S ?seen syms)" using newSymbols_fresh by fastforce
    have eq: "newSymbols_loop R seen (s # syms) =
        (case newSymbol_entry R s of None \<Rightarrow> [] | Some n \<Rightarrow> [n]) @ newSymbols_loop R ?seen syms"
      if "m_addrToKey R = m_addrToKey S" for R
      using False that by (simp add: Let_def split: option.split)
    have IH: "newSymbols_loop T ?seen syms = []"
    proof (rule Cons.IH)
      fix a assume "a \<notin> set ?seen" "\<not> has_key (m_addrToKey S) a" "a \<notin> ns_addr ` set (newSymbols_loop S ?seen syms)"
      then show "map_of (m_addrToOriginalName T) a = map_of (m_addrToOriginalName S) a"
        using eq [of S] by (intro Cons.prems(3)) (auto dest: newSymbol_entry_addr split: option.splits)
    qed (use Cons.prems eq [of S] in auto)
    have "newSymbol_entry T s = None"
    proof (cases "newSymbol_entry S s")
      case None
      with False fresh Cons.prems(3) [of ?a] show ?thesis
        by (auto simp: eq intro: newSymbol_entry_recorded(2))
    next
      case (Some n)
      then have "n \<in> set (newSymbols_loop S seen (s # syms))" unfolding eq [OF refl] by simp
      with Some Cons.prems(2) show ?thesis by (blast intro: newSymbol_entry_recorded(1))
    qed
    with eq [of T] Cons.prems(1) IH show ?thesis by simp
  qed
qed simp

definition symbols_recorded :: "checkin_state \<Rightarrow> bn_view \<Rightarrow> checkin_state \<Rightarrow> bool" where
  "symbols_recorded S V T \<longleftrightarrow> m_addrToKey T = m_addrToKey S \<and>
     m_addrToOriginalName T =
       update_all ns_addr ns_name (collect_newSymbols S V)
        (update_all sr_addr sr_newName (collect_renames S V) (m_addrToOriginalName S))"

lemma renames_converge:
  assumes T: "symbols_recorded S V T"
  shows "collect_renames T V = []"
proof -
  have "False" if r: "r \<in> set (collect_renames T V)" for r
  proof -
    let ?a = "sr_addr r"
    have k: "(?a, sr_key r) \<in> set (m_addrToKey S)" and cur: "bv_symbolByAddress V ?a = Some (sr_newName r)"
      and ne: "sr_newName r \<noteq> find_or (m_addrToOriginalName T) ?a []"
      using r T by (auto simp: in_collect_renames symbols_recorded_def)
    have "?a \<notin> ns_addr ` set (collect_newSymbols S V)"
      using k newSymbols_fresh by (force simp: collect_newSymbols_def has_key_fst)
    then have mT: "map_of (m_addrToOriginalName T) ?a = map_of (update_all sr_addr sr_newName (collect_renames S V) (m_addrToOriginalName S)) ?a"
      using T by (simp add: symbols_recorded_def map_of_update_all_notin)
    show False
    proof (cases "?a \<in> sr_addr ` set (collect_renames S V)")
      case True
      then have "map_of (m_addrToOriginalName T) ?a = Some (sr_newName r)"
        unfolding mT by (rule map_of_update_all_in) (use cur in \<open>auto simp: in_collect_renames\<close>)
      with ne show False by (simp add: find_or_def)
    next
      case False
      then have "find_or (m_addrToOriginalName T) ?a [] = find_or (m_addrToOriginalName S) ?a []"
        unfolding find_or_def mT by (simp add: map_of_update_all_notin)
      moreover from False k cur have "sr_newName r = find_or (m_addrToOriginalName S) ?a []"
        using in_collect_renames [of "\<lparr>sr_key = sr_key r, sr_addr = ?a, sr_originalName = find_or (m_addrToOriginalName S) ?a [],
          sr_newName = sr_newName r\<rparr>" S V] by (force simp: image_iff)
      ultimately show False using ne by simp
    qed
  qed
  then show ?thesis by (metis list.set_intros(1) neq_Nil_conv)
qed

lemma newSymbols_converge:
  assumes T: "symbols_recorded S V T"
  shows "collect_newSymbols T V = []"
  unfolding collect_newSymbols_def
proof (rule newSymbols_loop_converges [of T S])
  show "m_addrToKey T = m_addrToKey S" using T by (simp add: symbols_recorded_def)
next
  fix n assume n: "n \<in> set (newSymbols_loop S [] (bv_symbols V))"
  then show "map_of (m_addrToOriginalName T) (ns_addr n) = Some (ns_name n)"
    using T newSymbols_distinct [of S "[]" "bv_symbols V"]
    by (auto simp: symbols_recorded_def collect_newSymbols_def distinct_map intro!: map_of_update_all_in dest: inj_onD)
next
  fix a assume a: "\<not> has_key (m_addrToKey S) a" "a \<notin> ns_addr ` set (newSymbols_loop S [] (bv_symbols V))"
  then have "a \<notin> sr_addr ` set (collect_renames S V)" by (force simp: in_collect_renames has_key_fst)
  with a T show "map_of (m_addrToOriginalName T) a = map_of (m_addrToOriginalName S) a"
    by (simp add: symbols_recorded_def collect_newSymbols_def map_of_update_all_notin)
qed

section \<open>Data items\<close>

lemma set_update_dataItems:
  assumes "\<forall>d \<in> set ads. ic_op d = ''add''" "\<forall>d \<in> set dels. ic_op d = ''delete''"
  shows "set (m_ghidraDataItemAddrs (update_dataItems rb (ads @ dels) S)) =
     (set (m_ghidraDataItemAddrs S) \<union> (\<lambda>d. ghidra_va rb (ic_addr d)) ` set ads) - (\<lambda>d. ghidra_va rb (ic_addr d)) ` set dels"
proof -
  let ?u = "\<lambda>d addrs. let ghidraAddr = ghidra_va rb (ic_addr d) in
                 if ic_op d = ''add'' then set_insert ghidraAddr addrs else removeAll ghidraAddr addrs"
  have a: "set (fold ?u ads A) = set A \<union> (\<lambda>d. ghidra_va rb (ic_addr d)) ` set ads" for A
    using assms(1) by (induction ads arbitrary: A) (auto simp: Let_def)
  have d: "set (fold ?u dels A) = set A - (\<lambda>d. ghidra_va rb (ic_addr d)) ` set dels" for A
    using assms(2) by (induction dels arbitrary: A) (auto simp: Let_def)
  show ?thesis by (simp add: update_dataItems_def a d del: removeAll.simps)
qed

definition user_data :: "bn_view \<Rightarrow> u64 \<Rightarrow> bool" where
  "user_data V a \<longleftrightarrow> (case map_of (bv_dataVariables V) a of None \<Rightarrow> False | Some dv \<Rightarrow> \<not> dv_autoDiscovered dv)"

lemma dataItems_converge:
  assumes rb: "rebase_of T V = rebase_of S V"
    and T: "m_ghidraDataItemAddrs T = m_ghidraDataItemAddrs (update_dataItems (rebase_of S V) (collect_dataItems S V) S)"
    and keys: "distinct_keys (bv_dataVariables V)"
  shows "collect_dataItems T V = []"
proof -
  define rb' where "rb' = rebase_of S V"
  define ads where "ads = List.map_filter (\<lambda>(bnAddr, dv).
        if dv_autoDiscovered dv then None
        else if ghidra_va rb' bnAddr \<in> set (m_ghidraDataItemAddrs S) then None
        else let typeName = type_string (dv_type dv) in
          if typeName = [] then None
          else Some \<lparr>ic_op = ''add'', ic_addr = bnAddr, ic_typeName = typeName\<rparr>) (bv_dataVariables V)"
  define dels where "dels = List.map_filter (\<lambda>ghidraAddr.
        let bnAddr = ghidraAddr + rb';
            stillPresent = (case map_of (bv_dataVariables V) bnAddr of
                              None \<Rightarrow> False | Some dv \<Rightarrow> \<not> dv_autoDiscovered dv) in
        if \<not> stillPresent then Some \<lparr>ic_op = ''delete'', ic_addr = bnAddr, ic_typeName = []\<rparr>
        else None) (m_ghidraDataItemAddrs S)"
  let ?A = "set (m_ghidraDataItemAddrs S)" and ?B = "set (m_ghidraDataItemAddrs T)"
  have c: "collect_dataItems S V = ads @ dels"
    unfolding collect_dataItems_def ads_def dels_def rb'_def Let_def ..
  have ads: "y \<in> (\<lambda>d. ghidra_va rb' (ic_addr d)) ` set ads \<longleftrightarrow> (\<exists>x dv. y = x - rb' \<and>
      (x, dv) \<in> set (bv_dataVariables V) \<and> \<not> dv_autoDiscovered dv \<and> x - rb' \<notin> ?A \<and> type_string (dv_type dv) \<noteq> [])" for y
  proof
    assume "\<exists>x dv. y = x - rb' \<and>
      (x, dv) \<in> set (bv_dataVariables V) \<and> \<not> dv_autoDiscovered dv \<and> x - rb' \<notin> ?A \<and> type_string (dv_type dv) \<noteq> []"
    then obtain x dv where "y = x - rb'" and x: "(x, dv) \<in> set (bv_dataVariables V)" "\<not> dv_autoDiscovered dv"
        "x - rb' \<notin> ?A" "type_string (dv_type dv) \<noteq> []" by blast
    moreover from x have "\<lparr>ic_op = ''add'', ic_addr = x, ic_typeName = type_string (dv_type dv)\<rparr> \<in> set ads"
      unfolding ads_def in_map_filter_pair by (intro exI [of _ x] exI [of _ dv]) (simp add: ghidra_va_def)
    ultimately show "y \<in> (\<lambda>d. ghidra_va rb' (ic_addr d)) ` set ads"
      using imageI [of _ "set ads" "\<lambda>d. ghidra_va rb' (ic_addr d)"] by (force simp: ghidra_va_def)
  next
    assume "y \<in> (\<lambda>d. ghidra_va rb' (ic_addr d)) ` set ads"
    then show "\<exists>x dv. y = x - rb' \<and>
      (x, dv) \<in> set (bv_dataVariables V) \<and> \<not> dv_autoDiscovered dv \<and> x - rb' \<notin> ?A \<and> type_string (dv_type dv) \<noteq> []"
      by (auto simp: ads_def in_map_filter_pair Let_def ghidra_va_def) blast
  qed
  have dels: "(\<lambda>d. ghidra_va rb' (ic_addr d)) ` set dels = {x \<in> ?A. \<not> user_data V (x + rb')}"
  proof -
    have "set dels = (\<lambda>x. \<lparr>ic_op = ''delete'', ic_addr = x + rb', ic_typeName = []\<rparr>) ` {x \<in> ?A. \<not> user_data V (x + rb')}"
      unfolding user_data_def by (auto simp: dels_def in_map_filter Let_def image_iff)
    then show ?thesis by (simp add: image_image ghidra_va_def)
  qed
  have B: "?B = (?A \<union> (\<lambda>d. ghidra_va rb' (ic_addr d)) ` set ads) - (\<lambda>d. ghidra_va rb' (ic_addr d)) ` set dels"
    unfolding T c rb'_def [symmetric]
    by (rule set_update_dataItems) (auto simp: ads_def dels_def in_map_filter_pair in_map_filter Let_def)
  have user: "user_data V x \<longleftrightarrow> \<not> dv_autoDiscovered dv" if "(x, dv) \<in> set (bv_dataVariables V)" for x dv
    using that keys by (simp add: user_data_def distinct_keys_lookup)
  have "\<not> dv_autoDiscovered dv \<Longrightarrow> type_string (dv_type dv) \<noteq> [] \<Longrightarrow> x - rb' \<in> ?B" if "(x, dv) \<in> set (bv_dataVariables V)" for x dv
    using that user [OF that] unfolding B Diff_iff Un_iff ads dels by auto
  moreover have "user_data V (x + rb')" if "x \<in> ?B" for x
    using that user unfolding B Diff_iff Un_iff ads dels by auto
  ultimately show ?thesis
    unfolding collect_dataItems_def rb rb'_def [symmetric]
    by (auto simp: map_filter_empty Let_def ghidra_va_def user_data_def)
qed

section \<open>Equates\<close>

lemma first_enumerator:
  "(case t of Some (Some (e # es)) \<Rightarrow> f e | _ \<Rightarrow> None) = Some y \<longleftrightarrow> (\<exists>e es. t = Some (Some (e # es)) \<and> f e = Some y)"
  by (auto split: option.splits list.splits)

lemma in_equateRenames:
  "r \<in> set (collect_equateRenames S V) \<longleftrightarrow>
     (\<exists>n e es. (qr_id r, n) \<in> set (m_equateOriginalNameById S) \<and>
        bv_typeById V (equate_typeId (qr_id r)) = Some (Some (e # es)) \<and> be_name e \<noteq> n \<and> qr_name r = be_name e)"
  unfolding collect_equateRenames_def in_map_filter_pair first_enumerator by (cases r) auto

lemma equateRenames_converge:
  assumes T: "m_equateOriginalNameById T = update_all qr_id qr_name (collect_equateRenames S V) (m_equateOriginalNameById S)"
    and wf: "distinct_keys (m_equateOriginalNameById S)"
  shows "collect_equateRenames T V = []"
proof -
  have "False" if r: "r \<in> set (collect_equateRenames T V)" for r
  proof -
    let ?i = "qr_id r"
    obtain n e es where n: "(?i, n) \<in> set (m_equateOriginalNameById T)"
      and e: "bv_typeById V (equate_typeId ?i) = Some (Some (e # es))" and ne: "be_name e \<noteq> n"
      using r by (auto simp: in_equateRenames)
    have mT: "map_of (m_equateOriginalNameById T) ?i = Some n"
      using n wf by (simp add: T distinct_keys_update_all flip: distinct_keys_lookup)
    show False
    proof (cases "?i \<in> qr_id ` set (collect_equateRenames S V)")
      case True
      have "map_of (m_equateOriginalNameById T) ?i = Some (be_name e)"
        unfolding T using True by (rule map_of_update_all_in) (use e in \<open>auto simp: in_equateRenames\<close>)
      with mT ne show False by simp
    next
      case False
      with mT have "(?i, n) \<in> set (m_equateOriginalNameById S)"
        by (simp add: T map_of_update_all_notin distinct_keys_lookup [OF wf])
      with e ne have "\<lparr>qr_id = ?i, qr_name = be_name e\<rparr> \<in> set (collect_equateRenames S V)"
        by (auto simp: in_equateRenames)
      from imageI [OF this, of qr_id] False show False by simp
    qed
  qed
  then show ?thesis by (metis list.set_intros(1) neq_Nil_conv)
qed

definition ref_known :: "checkin_state \<Rightarrow> i64 \<Rightarrow> EquateRefKey \<Rightarrow> bool" where
  "ref_known S eid k \<longleftrightarrow> k \<in> set (find_or (m_equateRefsByEquateId S) eid [])"

lemma ref_known_insert: "k' \<in> set (find_or (insert_ref i k m) j []) \<longleftrightarrow> i = j \<and> k' = k \<or> k' \<in> set (find_or m j [])"
  by (auto simp: insert_ref_def umap_simps)

lemma ref_known_fold:
  "k' \<in> set (find_or (fold (\<lambda>r. insert_ref (f r) (g r)) rs m) j []) \<longleftrightarrow>
     (\<exists>r \<in> set rs. f r = j \<and> g r = k') \<or> k' \<in> set (find_or m j [])"
  by (induction rs arbitrary: m) (auto simp: ref_known_insert)

definition display_sites :: "checkin_state \<Rightarrow> bn_view \<Rightarrow> (i64 \<times> u64 \<times> nat) list" where
  "display_sites S V =
     concat (map (\<lambda>(eid, originalName).
       if bv_typeById V (equate_typeId eid) = None then []
       else concat (map (\<lambda>ref. case ct_site ref of
              None \<Rightarrow> []
            | Some site \<Rightarrow> map (\<lambda>i. (eid, ct_addr ref, i))
                (filter (\<lambda>i. site (find_or (m_equateValueById S) eid 0) i = (True, Some (equate_typeId eid))) [0 ..< 4]))
           (bv_codeReferencesForType V originalName)))
       (m_equateOriginalNameById S))"

lemma in_display_sites:
  "(eid, a, i) \<in> set (display_sites S V) \<longleftrightarrow>
     (\<exists>n ref site. (eid, n) \<in> set (m_equateOriginalNameById S) \<and> bv_typeById V (equate_typeId eid) \<noteq> None \<and>
        ref \<in> set (bv_codeReferencesForType V n) \<and> ct_site ref = Some site \<and> ct_addr ref = a \<and> i < 4 \<and>
        site (find_or (m_equateValueById S) eid 0) i = (True, Some (equate_typeId eid)))"
proof -
  let ?sites = "\<lambda>eid ref. (case ct_site ref of
              None \<Rightarrow> []
            | Some site \<Rightarrow> map (\<lambda>i. (eid, ct_addr ref, i))
                (filter (\<lambda>i. site (find_or (m_equateValueById S) eid 0) i = (True, Some (equate_typeId eid))) [0 ..< 4]))"
  have m: "(eid, a, i) \<in> set (?sites e ref) \<longleftrightarrow> (\<exists>site. ct_site ref = Some site \<and> e = eid \<and> ct_addr ref = a \<and> i < 4 \<and>
        site (find_or (m_equateValueById S) eid 0) i = (True, Some (equate_typeId eid)))" for e ref
    by (cases "ct_site ref") auto
  show ?thesis unfolding display_sites_def in_concat_map_pair unfolding in_concat_map in_if_Nil m by blast
qed

lemma in_newEquateRefs:
  "r \<in> set (collect_newEquateRefs S V) \<longleftrightarrow>
     (\<exists>i. (nr_equateId r, nr_addr r, i) \<in> set (display_sites S V) \<and> nr_opIndex r = word_of_nat i \<and>
       \<not> ref_known S (nr_equateId r) \<lparr>ek_addr = ghidra_va (rebase_of S V) (nr_addr r), ek_opIndex = nr_opIndex r\<rparr>)"
proof -
  have probe: "r \<in> set (probe_operands S rb eid val a site) \<longleftrightarrow>
      (\<exists>i \<in> set [0 ..< 4]. site val i = (True, Some (equate_typeId eid)) \<and> nr_equateId r = eid \<and> nr_addr r = a \<and>
        nr_opIndex r = word_of_nat i \<and> \<not> ref_known S eid \<lparr>ek_addr = ghidra_va rb a, ek_opIndex = word_of_nat i\<rparr>)"
    for rb eid val a site
    unfolding probe_operands_def in_map_filter ref_known_def find_or_def
  proof (rule bex_cong [OF refl])
    fix i
    show "(let (isEnum, typeId) = site val i in
       if \<not> isEnum then None
       else if typeId \<noteq> Some (equate_typeId eid) then None
       else if (case map_of (m_equateRefsByEquateId S) eid of
                  None \<Rightarrow> False
                | Some refs \<Rightarrow> \<lparr>ek_addr = ghidra_va rb a, ek_opIndex = word_of_nat i\<rparr> \<in> set refs)
       then None
       else Some \<lparr>nr_equateId = eid, nr_addr = a, nr_opIndex = word_of_nat i\<rparr>) = Some r \<longleftrightarrow>
      site val i = (True, Some (equate_typeId eid)) \<and> nr_equateId r = eid \<and> nr_addr r = a \<and>
        nr_opIndex r = word_of_nat i \<and>
        \<lparr>ek_addr = ghidra_va rb a, ek_opIndex = word_of_nat i\<rparr> \<notin>
          set (case map_of (m_equateRefsByEquateId S) eid of None \<Rightarrow> [] | Some v \<Rightarrow> v)"
      by (cases r; cases "site val i"; cases "map_of (m_equateRefsByEquateId S) eid") auto
  qed
  let ?new = "\<lambda>eid ref. (case ct_site ref of
                        None \<Rightarrow> []
                      | Some site \<Rightarrow> probe_operands S (rebase_of S V) eid (find_or (m_equateValueById S) eid 0) (ct_addr ref) site)"
  have m: "r \<in> set (?new eid ref) \<longleftrightarrow> (\<exists>site i. ct_site ref = Some site \<and> i < 4 \<and>
        site (find_or (m_equateValueById S) eid 0) i = (True, Some (equate_typeId eid)) \<and> nr_equateId r = eid \<and> nr_addr r = ct_addr ref \<and>
        nr_opIndex r = word_of_nat i \<and>
        \<not> ref_known S eid \<lparr>ek_addr = ghidra_va (rebase_of S V) (ct_addr ref), ek_opIndex = word_of_nat i\<rparr>)" for eid ref
    by (cases "ct_site ref") (auto simp: probe)
  have "r \<in> set (collect_newEquateRefs S V) \<longleftrightarrow> (\<exists>n ref site i. (nr_equateId r, n) \<in> set (m_equateOriginalNameById S) \<and>
        bv_typeById V (equate_typeId (nr_equateId r)) \<noteq> None \<and>
        ref \<in> set (bv_codeReferencesForType V n) \<and> ct_site ref = Some site \<and> ct_addr ref = nr_addr r \<and> i < 4 \<and>
        site (find_or (m_equateValueById S) (nr_equateId r) 0) i = (True, Some (equate_typeId (nr_equateId r))) \<and>
        nr_opIndex r = word_of_nat i \<and>
        \<not> ref_known S (nr_equateId r) \<lparr>ek_addr = ghidra_va (rebase_of S V) (nr_addr r), ek_opIndex = nr_opIndex r\<rparr>)"
    unfolding collect_newEquateRefs_def Let_def in_concat_map_pair unfolding in_concat_map in_if_Nil m by (intro iffI; clarsimp; fastforce)
  then show ?thesis unfolding in_display_sites by blast
qed

lemma newEquateRefs_converge:
  assumes rb: "rebase_of T V = rebase_of S V"
    and T: "m_equateRefsByEquateId T = m_equateRefsByEquateId (update_equateRefs (rebase_of S V) (collect_newEquateRefs S V) S)"
    and names: "m_equateOriginalNameById T = m_equateOriginalNameById S" "m_equateValueById T = m_equateValueById S"
  shows "collect_newEquateRefs T V = []"
proof -
  have sites: "display_sites T V = display_sites S V" unfolding display_sites_def names ..
  have known: "ref_known T j k \<longleftrightarrow> (\<exists>r \<in> set (collect_newEquateRefs S V). nr_equateId r = j \<and>
      \<lparr>ek_addr = ghidra_va (rebase_of S V) (nr_addr r), ek_opIndex = nr_opIndex r\<rparr> = k) \<or> ref_known S j k" for j k
    by (simp add: ref_known_def T update_equateRefs_def ref_known_fold)
  have "r \<notin> set (collect_newEquateRefs T V)" for r
    unfolding in_newEquateRefs [of r T] known rb sites using in_newEquateRefs [of r S V] by blast
  then show ?thesis by (metis list.set_intros(1) neq_Nil_conv)
qed

section \<open>Bookmarks\<close>

lemma find_char_split: "c \<notin> set u \<Longrightarrow> find_char c (u @ c # v) = Some (length u)"
  by (simp add: find_char_def takeWhile_append2 takeWhile_eq_all_conv [THEN iffD2])
    (metis (mono_tags, lifting) append_Nil2 takeWhile.simps(2) takeWhile_append2)

lemma split_tagData_bracket:
  "CHR '']'' \<notin> set cat \<Longrightarrow>
   split_tagData (CHR ''['' # cat @ CHR '']'' # rest) = (cat, drop 1 rest)"
proof -
  assume "CHR '']'' \<notin> set cat"
  then have "find_char CHR '']'' (CHR ''['' # cat @ CHR '']'' # rest) = Some (Suc (length cat))"
    using find_char_split [of "CHR '']''" "CHR ''['' # cat" rest] by simp
  then show ?thesis by (cases rest) (simp_all add: split_tagData_def)
qed

lemma split_tagData_open: "CHR '']'' \<notin> set cat \<Longrightarrow> split_tagData (CHR ''['' # cat) = ([], [])"
  by (simp add: split_tagData_def find_char_def)

lemma split_tagData_plain: "s = [] \<or> hd s \<noteq> CHR ''['' \<Longrightarrow> split_tagData s = ([], s)"
  by (auto simp: split_tagData_def)

definition tag_roundtrips :: "string \<Rightarrow> bool" where
  "tag_roundtrips d \<longleftrightarrow> bookmark_tagData (fst (split_tagData d)) (snd (split_tagData d)) = d"

lemma tag_cases [case_names plain opened closed]:
  obtains "d = [] \<or> hd d \<noteq> CHR ''[''"
  | cat where "d = CHR ''['' # cat" "CHR '']'' \<notin> set cat"
  | cat rest where "d = CHR ''['' # cat @ CHR '']'' # rest" "CHR '']'' \<notin> set cat"
  by (cases d) (auto dest: split_list_first)

lemma tag_roundtrips_iff:
  "tag_roundtrips d \<longleftrightarrow>
     d = [] \<or> hd d \<noteq> CHR ''['' \<or>
     (\<exists>cat rest. cat \<noteq> [] \<and> CHR '']'' \<notin> set cat \<and> d = ''['' @ cat @ ''] '' @ rest)"
proof (cases d rule: tag_cases)
  case plain
  then show ?thesis by (auto simp: tag_roundtrips_def split_tagData_plain bookmark_tagData_def)
next
  case (opened cat)
  have "\<not> (\<exists>c r. d = ''['' @ c @ ''] '' @ r)" using opened by auto
  with opened show ?thesis by (auto simp: tag_roundtrips_def split_tagData_open bookmark_tagData_def)
next
  case (closed cat rest)
  have uniq: "c = cat \<and> CHR '' '' # r = rest" if "d = ''['' @ c @ ''] '' @ r" "CHR '']'' \<notin> set c" for c r
    using that closed append_eq_append_conv2 [of c "CHR '']'' # CHR '' '' # r" cat "CHR '']'' # rest"]
    by (auto simp: append_eq_Cons_conv Cons_eq_append_conv)
  have "tag_roundtrips d \<longleftrightarrow> cat \<noteq> [] \<and> (\<exists>r. rest = CHR '' '' # r)"
    using closed by (cases rest) (auto simp: tag_roundtrips_def split_tagData_bracket bookmark_tagData_def)
  also have "\<dots> \<longleftrightarrow> (\<exists>c r. c \<noteq> [] \<and> CHR '']'' \<notin> set c \<and> d = ''['' @ c @ ''] '' @ r)"
    using closed uniq by fastforce
  finally show ?thesis using closed by simp
qed

text \<open>The import's encoding of a category and a comment is read back exactly when it is unambiguous.\<close>

lemma bookmark_encoding:
  assumes "if category = [] then comment = [] \<or> hd comment \<noteq> CHR ''['' else CHR '']'' \<notin> set category"
  shows "split_tagData (bookmark_tagData category comment) = (category, comment)"
  using assms split_tagData_bracket [of category "CHR '' '' # comment"] split_tagData_plain [of comment]
  by (auto simp: bookmark_tagData_def split: if_splits)

subsection \<open>The bookmark diff never throws\<close>

text \<open>The key of a tag reference, if the reference is one of the import's tags\<close>

definition tag_key :: "i64 \<Rightarrow> bn_tagref \<Rightarrow> BookmarkKey option" where
  "tag_key rb ref =
     (case tr_tag ref of
        Some (Some typeName, tagData) \<Rightarrow>
          if starts_with ''Ghidra: '' typeName
          then Some \<lparr>bk_addr = ghidra_va rb (tr_addr ref), bk_tagTypeName = typeName, bk_tagData = tagData\<rparr>
          else None
      | _ \<Rightarrow> None)"

lemma current_bookmarks_eq:
  "current_bookmarks S V = fold set_insert (List.map_filter (tag_key (rebase_of S V)) (bv_tagReferences V)) []"
proof -
  have "fold (\<lambda>ref keys.
       case tr_tag ref of
         Some (Some typeName, tagData) \<Rightarrow>
           if \<not> starts_with ''Ghidra: '' typeName then keys
           else set_insert \<lparr>bk_addr = ghidra_va rb (tr_addr ref), bk_tagTypeName = typeName, bk_tagData = tagData\<rparr> keys
       | _ \<Rightarrow> keys) refs A = fold set_insert (List.map_filter (tag_key rb) refs) A" for rb refs A
    by (induction refs arbitrary: A) (auto simp: tag_key_def List.map_filter_simps split: option.split prod.split)
  then show ?thesis by (simp add: current_bookmarks_def)
qed

lemma tag_key_prefix: "tag_key rb ref = Some k \<Longrightarrow> starts_with ''Ghidra: '' (bk_tagTypeName k)"
  by (cases "tr_tag ref") (auto simp: tag_key_def split: option.splits)

lemma in_current_bookmarks:
  "k \<in> set (current_bookmarks S V) \<longleftrightarrow> (\<exists>ref \<in> set (bv_tagReferences V). tag_key (rebase_of S V) ref = Some k)"
  by (simp add: current_bookmarks_eq in_map_filter)

lemma current_prefix: "k \<in> set (current_bookmarks S V) \<Longrightarrow> starts_with ''Ghidra: '' (bk_tagTypeName k)"
  by (auto simp: in_current_bookmarks dest: tag_key_prefix)

definition add_change :: "i64 \<Rightarrow> BookmarkKey \<Rightarrow> BookmarkChange" where
  "add_change rb k =
     \<lparr>bc_op = ''add'', bc_type = drop 8 (bk_tagTypeName k), bc_addr = bk_addr k + rb,
      bc_category = fst (split_tagData (bk_tagData k)), bc_comment = snd (split_tagData (bk_tagData k))\<rparr>"

definition delete_change :: "i64 \<Rightarrow> BookmarkKey \<Rightarrow> BookmarkChange" where
  "delete_change rb k =
     \<lparr>bc_op = ''delete'', bc_type = drop 8 (bk_tagTypeName k), bc_addr = bk_addr k + rb,
      bc_category = [], bc_comment = []\<rparr>"

lemma substr_prefix: "starts_with ''Ghidra: '' s \<Longrightarrow> substr_from s 8 = Inr (drop 8 s) \<and> s = bookmark_tagTypeName (drop 8 s)"
  by (auto simp: starts_with_iff substr_from_def bookmark_tagTypeName_def)

lemma bookmark_changes_Inr:
  assumes "starts_with ''Ghidra: '' (bk_tagTypeName k)"
  shows "bookmark_add rb k = Inr (add_change rb k)" "bookmark_delete rb k = Inr (delete_change rb k)"
  using substr_prefix [OF assms]
  by (simp_all add: bookmark_add_def bookmark_delete_def add_change_def delete_change_def split: prod.split)

lemma collect_bookmarks_eq:
  assumes "wf_bookmarks S"
  shows "collect_bookmarks S V = Inr
     (map (add_change (rebase_of S V)) (filter (\<lambda>k. k \<notin> set (m_ghidraBookmarkKeys S)) (current_bookmarks S V)) @
      map (delete_change (rebase_of S V)) (filter (\<lambda>k. k \<notin> set (current_bookmarks S V)) (m_ghidraBookmarkKeys S)))"
proof -
  have "res_map (bookmark_add rb) (filter (\<lambda>k. k \<notin> set (m_ghidraBookmarkKeys S)) (current_bookmarks S V)) =
      Inr (map (add_change rb) (filter (\<lambda>k. k \<notin> set (m_ghidraBookmarkKeys S)) (current_bookmarks S V)))" for rb
    by (rule res_map_Inr_map) (auto intro: bookmark_changes_Inr current_prefix)
  moreover have "res_map (bookmark_delete rb) (filter (\<lambda>k. k \<notin> set (current_bookmarks S V)) (m_ghidraBookmarkKeys S)) =
      Inr (map (delete_change rb) (filter (\<lambda>k. k \<notin> set (current_bookmarks S V)) (m_ghidraBookmarkKeys S)))" for rb
    using assms by (intro res_map_Inr_map) (auto simp: wf_bookmarks_def intro: bookmark_changes_Inr)
  ultimately show ?thesis by (simp add: collect_bookmarks_def Let_def)
qed

subsection \<open>The baseline after a check-in\<close>

lemma change_key_add:
  assumes "starts_with ''Ghidra: '' (bk_tagTypeName k)"
  shows "change_key rb (add_change rb k) = k\<lparr>bk_tagData := bookmark_tagData (fst (split_tagData (bk_tagData k))) (snd (split_tagData (bk_tagData k)))\<rparr>"
  using substr_prefix [OF assms] by (cases k) (simp add: change_key_def add_change_def ghidra_va_def)

lemma change_key_delete:
  assumes "starts_with ''Ghidra: '' (bk_tagTypeName k)"
  shows "change_key rb (delete_change rb k) = k\<lparr>bk_tagData := []\<rparr>"
  using substr_prefix [OF assms] by (cases k) (simp add: change_key_def delete_change_def ghidra_va_def bookmark_tagData_def)

lemma set_update_bookmarks:
  "set (m_ghidraBookmarkKeys (update_bookmarks rb (map (add_change rb) xs @ map (delete_change rb) ys) S)) =
     (set (m_ghidraBookmarkKeys S) \<union> (\<lambda>k. change_key rb (add_change rb k)) ` set xs) - (\<lambda>k. change_key rb (delete_change rb k)) ` set ys"
proof -
  let ?u = "\<lambda>b keys. if bc_op b = ''add'' then set_insert (change_key rb b) keys else removeAll (change_key rb b) keys"
  have a: "set (fold ?u (map (add_change rb) xs) A) = set A \<union> (\<lambda>k. change_key rb (add_change rb k)) ` set xs" for A
    by (induction xs arbitrary: A) (auto simp: add_change_def)
  have d: "set (fold ?u (map (delete_change rb) ys) A) = set A - (\<lambda>k. change_key rb (delete_change rb k)) ` set ys" for A
    by (induction ys arbitrary: A) (auto simp: delete_change_def)
  show ?thesis by (simp add: update_bookmarks_def a d)
qed

lemma bookmarks_converge:
  assumes rb: "rebase_of T V = rebase_of S V" and wf: "wf_bookmarks S"
    and bs: "collect_bookmarks S V = Inr bs"
    and T: "m_ghidraBookmarkKeys T = m_ghidraBookmarkKeys (update_bookmarks (rebase_of S V) bs S)"
    and adds: "\<forall>k \<in> set (current_bookmarks S V) - set (m_ghidraBookmarkKeys S). tag_roundtrips (bk_tagData k)"
    and dels: "\<forall>k \<in> set (m_ghidraBookmarkKeys S) - set (current_bookmarks S V). bk_tagData k = []"
  shows "collect_bookmarks T V = Inr []"
proof -
  let ?cur = "current_bookmarks S V" and ?A = "set (m_ghidraBookmarkKeys S)"
  have cur: "current_bookmarks T V = ?cur" by (simp add: current_bookmarks_eq rb)
  have pre: "starts_with ''Ghidra: '' (bk_tagTypeName k)" if "k \<in> set ?cur \<union> ?A" for k
    using that wf current_prefix by (auto simp: wf_bookmarks_def)
  have "change_key (rebase_of S V) (add_change (rebase_of S V) k) = k" if "k \<in> set ?cur - ?A" for k
    using that adds pre by (simp add: change_key_add tag_roundtrips_def)
  moreover have "change_key (rebase_of S V) (delete_change (rebase_of S V) k) = k" if "k \<in> ?A - set ?cur" for k
    using that dels pre by (simp add: change_key_delete)
  ultimately have keys: "set (m_ghidraBookmarkKeys T) = set ?cur"
    using bs unfolding T collect_bookmarks_eq [OF wf] by (force simp: set_update_bookmarks image_iff)
  then show ?thesis by (simp add: collect_bookmarks_def cur Let_def)
qed

text \<open>A deletion of a bookmark with text does not reach the baseline.\<close>

lemma bookmark_delete_stays:
  assumes wf: "wf_bookmarks S" and bs: "collect_bookmarks S V = Inr bs"
    and T: "m_ghidraBookmarkKeys T = m_ghidraBookmarkKeys (update_bookmarks (rebase_of S V) bs S)"
    and k: "k \<in> set (m_ghidraBookmarkKeys S)" "bk_tagData k \<noteq> []"
  shows "k \<in> set (m_ghidraBookmarkKeys T)"
proof -
  have "bk_tagData (change_key rb (delete_change rb k')) = []" for rb k'
    by (simp add: change_key_def delete_change_def bookmark_tagData_def)
  then have "k \<notin> (\<lambda>k'. change_key rb (delete_change rb k')) ` X" for rb X using k(2) by (metis imageE)
  moreover obtain xs ys where "bs = map (add_change (rebase_of S V)) xs @ map (delete_change (rebase_of S V)) ys"
    using bs collect_bookmarks_eq [OF wf] by auto
  ultimately show ?thesis using k(1) unfolding T by (simp add: set_update_bookmarks)
qed

end
