(* ===== verification/Converge_Program.thy ===== *)
theory Converge_Program
  imports Converge_Items
begin

text \<open>
  Why a check-in empties the next preview, second part: parameters and locals, data types, comments
  and function signatures, with the conditions under which one check-in is enough.
\<close>

section \<open>Renamed parameters and locals\<close>

text \<open>Every comparison the two variable loops make: the key, the current name and type, and the auto-name flag\<close>

definition func_checks :: "checkin_state \<Rightarrow> i64 \<Rightarrow> bn_function \<Rightarrow> (i64 \<times> string \<times> string \<times> bool) list" where
  "func_checks S rebase func =
     (let ghidraAddr = ghidra_va rebase (fn_start func) in
      List.map_filter (\<lambda>(i, var).
          map_option (\<lambda>key. (key, fn_variableName func var, type_string (fn_variableType func var),
                             autoGen_param (fn_variableName func var)))
            (lookup2 (m_paramKeyByAddrOrdinal S) ghidraAddr (word_of_nat i)))
        (enumerate 0 (fn_parameterVariables func)) @
      List.map_filter (\<lambda>(var, name).
          if va_type var \<noteq> StackVariableSourceType then None
          else map_option (\<lambda>key. (key, fn_variableName func var, type_string (fn_variableType func var), autoGen_local name))
            (lookup2 (m_localKeyByAddrOffset S) ghidraAddr (ucast (va_storage var))))
        (fn_variables func))"

definition var_checks :: "checkin_state \<Rightarrow> bn_view \<Rightarrow> (i64 \<times> string \<times> string \<times> bool) list" where
  "var_checks S V = concat (map (func_checks S (rebase_of S V)) (bv_functionList V))"

definition check_diff :: "checkin_state \<Rightarrow> i64 \<times> string \<times> string \<times> bool \<Rightarrow> ParamRename option" where
  "check_diff S c =
     (let (key, curName, curTypeName, isAutoGen) = c;
          origName = find_or (m_paramOriginalNameByKey S) key [];
          nameChanged = (curName \<noteq> [] \<and> curName \<noteq> origName \<and> \<not> isAutoGen);
          typeChanged = (curTypeName \<noteq> [] \<and>
            canonicalTypeName curTypeName \<noteq> canonicalTypeName (find_or (m_paramOriginalTypeByKey S) key []))
      in if nameChanged \<or> typeChanged
         then Some \<lparr>pr_key = key, pr_name = (if nameChanged then curName else origName),
                    pr_typeName = (if typeChanged then curTypeName else [])\<rparr>
         else None)"

lemma checkVar_diff:
  "checkVar S func ords var k auto =
     Option.bind (case ords of None \<Rightarrow> None | Some m \<Rightarrow> map_of m k)
       (\<lambda>key. check_diff S (key, fn_variableName func var, type_string (fn_variableType func var), auto))"
  by (simp add: checkVar_def check_diff_def Let_def split: option.split)

lemma func_paramRenames_checks: "func_paramRenames S rb func = List.map_filter (check_diff S) (func_checks S rb func)"
proof (cases "map_of (m_paramKeyByAddrOrdinal S) (ghidra_va rb (fn_start func)) = None \<and>
              map_of (m_localKeyByAddrOffset S) (ghidra_va rb (fn_start func)) = None")
  case True
  then have "func_checks S rb func = []"
    by (auto simp: func_checks_def lookup2_def map_filter_empty Let_def)
  with True show ?thesis by (simp add: func_paramRenames_def Let_def List.map_filter_simps)
next
  case False
  have l: "(case map_of m a of None \<Rightarrow> None | Some n \<Rightarrow> map_of n b) = lookup2 m a b" for m :: "(u64, (i32, i64) umap) umap" and a b
    by (simp add: lookup2_def)
  from False show ?thesis
    unfolding func_paramRenames_def func_checks_def Let_def map_filter_append map_filter_map_filter checkVar_diff l
    by (auto simp: bind_map_option intro!: arg_cong2 [where f = append] map_filter_cong_set)
qed

lemma collect_paramRenames_checks: "collect_paramRenames S V = List.map_filter (check_diff S) (var_checks S V)"
  by (simp add: collect_paramRenames_def var_checks_def map_filter_concat func_paramRenames_checks [abs_def] comp_def)

lemma check_diff_recorded:
  assumes r: "check_diff S (key, n, t, auto) = Some r"
    and name: "find_or (m_paramOriginalNameByKey T) key [] = pr_name r"
    and type: "find_or (m_paramOriginalTypeByKey T) key [] = (if pr_typeName r \<noteq> [] then pr_typeName r else find_or (m_paramOriginalTypeByKey S) key [])"
  shows "check_diff T (key, n, t, auto) = None"
  using assms by (auto simp: check_diff_def Let_def split: if_splits)

lemma paramRenames_converge:
  assumes rb: "rebase_of T V = rebase_of S V"
    and keys: "m_paramKeyByAddrOrdinal T = m_paramKeyByAddrOrdinal S" "m_localKeyByAddrOffset T = m_localKeyByAddrOffset S"
    and names: "m_paramOriginalNameByKey T = update_all pr_key pr_name (collect_paramRenames S V) (m_paramOriginalNameByKey S)"
    and types: "m_paramOriginalTypeByKey T =
       update_all pr_key pr_typeName (filter (\<lambda>r. pr_typeName r \<noteq> []) (collect_paramRenames S V)) (m_paramOriginalTypeByKey S)"
    and one: "distinct (map fst (var_checks S V))"
  shows "collect_paramRenames T V = []"
proof -
  have same: "var_checks T V = var_checks S V"
    unfolding var_checks_def rb func_checks_def keys ..
  have key_r: "pr_key r = fst c" if "check_diff S c = Some r" for c r
    using that by (cases c) (auto simp: check_diff_def Let_def)
  have uniq: "c = c'" if "c \<in> set (var_checks S V)" "c' \<in> set (var_checks S V)" "fst c = fst c'" for c c'
    using one that by (auto simp: distinct_map dest: inj_onD)
  have in_col: "r \<in> set (collect_paramRenames S V) \<longleftrightarrow> (\<exists>c \<in> set (var_checks S V). check_diff S c = Some r)" for r
    by (simp add: collect_paramRenames_checks in_map_filter)
  have "check_diff T c = None" if c: "c \<in> set (var_checks S V)" for c
  proof (cases "check_diff S c")
    case None
    then have "fst c \<notin> pr_key ` set (collect_paramRenames S V)"
      using uniq [OF c] key_r by (fastforce simp: in_col)
    moreover from this have "fst c \<notin> pr_key ` set (filter (\<lambda>r. pr_typeName r \<noteq> []) (collect_paramRenames S V))" by auto
    ultimately have "find_or (m_paramOriginalNameByKey T) (fst c) [] = find_or (m_paramOriginalNameByKey S) (fst c) []"
      "find_or (m_paramOriginalTypeByKey T) (fst c) [] = find_or (m_paramOriginalTypeByKey S) (fst c) []"
      by (simp_all add: find_or_def names types map_of_update_all_notin)
    with None show ?thesis by (cases c) (simp add: check_diff_def Let_def)
  next
    case (Some r)
    have only: "r' = r" if "r' \<in> set (collect_paramRenames S V)" "pr_key r' = fst c" for r'
    proof -
      from that(1) obtain c' where c': "c' \<in> set (var_checks S V)" "check_diff S c' = Some r'" unfolding in_col ..
      have "fst c = fst c'" using key_r [OF c'(2)] that(2) by simp
      from uniq [OF c c'(1) this] c'(2) Some show ?thesis by simp
    qed
    have r: "r \<in> set (collect_paramRenames S V)" "pr_key r = fst c" using c Some key_r by (auto simp: in_col)
    have n: "map_of (m_paramOriginalNameByKey T) (fst c) = Some (pr_name r)"
      unfolding names
    proof (rule map_of_update_all_in)
      show "fst c \<in> pr_key ` set (collect_paramRenames S V)" using r by (metis imageI)
    qed (drule (1) only, simp)
    have t: "pr_typeName r \<noteq> [] \<Longrightarrow> map_of (m_paramOriginalTypeByKey T) (fst c) = Some (pr_typeName r)"
      unfolding types
    proof (rule map_of_update_all_in)
      assume "pr_typeName r \<noteq> []"
      with r show "fst c \<in> pr_key ` set (filter (\<lambda>r. pr_typeName r \<noteq> []) (collect_paramRenames S V))"
        by (intro image_eqI [of _ _ r]) auto
    qed (auto dest: only)
    have "pr_typeName r = [] \<Longrightarrow> fst c \<notin> pr_key ` set (filter (\<lambda>r. pr_typeName r \<noteq> []) (collect_paramRenames S V))"
      using only by auto
    then have t': "pr_typeName r = [] \<Longrightarrow> map_of (m_paramOriginalTypeByKey T) (fst c) = map_of (m_paramOriginalTypeByKey S) (fst c)"
      unfolding types by (rule map_of_update_all_notin)
    show ?thesis
      using Some n t t' by (cases c) (auto simp: find_or_def intro: check_diff_recorded)
  qed
  then show ?thesis by (simp add: collect_paramRenames_checks same map_filter_empty)
qed

section \<open>New parameters and register locals\<close>

text \<open>The entries of the two loops before the check against the previous check-in\<close>

definition param_candidates :: "checkin_state \<Rightarrow> i64 \<Rightarrow> bn_function \<Rightarrow> NewParam list" where
  "param_candidates S rebase func =
     List.map_filter (\<lambda>(i, var).
       if lookup2 (m_paramKeyByAddrOrdinal S) (ghidra_va rebase (fn_start func)) (word_of_nat i) \<noteq> None \<or>
          autoGen_param (fn_variableName func var) then None
       else Some \<lparr>np_funcAddr = fn_start func, np_ordinal = word_of_nat i, np_name = fn_variableName func var,
                  np_typeName = type_string (fn_variableType func var), np_isLocal = False\<rparr>)
       (enumerate 0 (fn_parameterVariables func))"

definition reg_candidates :: "string uset \<Rightarrow> bn_function \<Rightarrow> NewParam list" where
  "reg_candidates regs func =
     List.map_filter (\<lambda>(var, curName).
       if va_type var \<noteq> RegisterVariableSourceType \<or> va_identifier var \<in> va_identifier ` set (fn_parameterVariables func) \<or>
          autoGen_reg regs curName then None
       else Some \<lparr>np_funcAddr = fn_start func, np_ordinal = ucast (va_storage var), np_name = curName,
                  np_typeName = type_string (fn_variableType func var), np_isLocal = True\<rparr>)
       (fn_variables func)"

definition unrecorded :: "(u64, (i32, string) umap) umap \<Rightarrow> i64 \<Rightarrow> NewParam list \<Rightarrow> NewParam list" where
  "unrecorded m rebase ps =
     filter (\<lambda>p. lookup2 m (ghidra_va rebase (np_funcAddr p)) (np_ordinal p) \<noteq> Some (np_name p)) ps"

text \<open>No two entries claim one slot of a function under different names.\<close>

definition slots_unique :: "NewParam list \<Rightarrow> bool" where
  "slots_unique ps \<longleftrightarrow> (\<forall>p \<in> set ps. \<forall>q \<in> set ps.
     np_funcAddr p = np_funcAddr q \<and> np_ordinal p = np_ordinal q \<longrightarrow> np_name p = np_name q)"

lemma func_newParams_eq: "func_newParams S rb func = unrecorded (m_newParamBaseline S) rb (param_candidates S rb func)"
  unfolding func_newParams_def unrecorded_def param_candidates_def filter_map_filter Let_def
  by (rule map_filter_cong_set) (auto simp: Let_def)

lemma func_newRegLocals_eq:
  "func_newRegLocals S rb regs func = unrecorded (m_newRegLocalBaseline S) rb (reg_candidates regs func)"
  unfolding func_newRegLocals_def unrecorded_def reg_candidates_def filter_map_filter Let_def set_fold_insert
  by (rule map_filter_cong_set) (auto simp: Let_def)

lemma unrecorded_concat: "concat (map (\<lambda>f. unrecorded m rb (g f)) fs) = unrecorded m rb (concat (map g fs))"
  by (induction fs) (auto simp: unrecorded_def)

definition new_params :: "checkin_state \<Rightarrow> bn_view \<Rightarrow> NewParam list" where
  "new_params S V = concat (map (param_candidates S (rebase_of S V)) (bv_functionList V))"

definition new_regLocals :: "bn_view \<Rightarrow> NewParam list" where
  "new_regLocals V = concat (map (reg_candidates (arch_reg_names V)) (bv_functionList V))"

lemma collect_newParams_eq:
  "collect_newParams S V =
     unrecorded (m_newParamBaseline S) (rebase_of S V) (new_params S V) @
     unrecorded (m_newRegLocalBaseline S) (rebase_of S V) (new_regLocals V)"
  by (simp add: collect_newParams_def func_newParams_eq [abs_def] func_newRegLocals_eq [abs_def] unrecorded_concat
      new_params_def new_regLocals_def)

lemma new_params_kind: "p \<in> set (new_params S V) \<Longrightarrow> \<not> np_isLocal p" "q \<in> set (new_regLocals V) \<Longrightarrow> np_isLocal q"
  by (auto simp: new_params_def new_regLocals_def param_candidates_def reg_candidates_def in_map_filter_pair)

lemma unrecorded_subset: "set (unrecorded m rb ps) \<subseteq> set ps"
  by (auto simp: unrecorded_def)

text \<open>Recording what was unrecorded leaves nothing unrecorded.\<close>

lemma unrecorded_recorded:
  assumes "slots_unique ps"
  shows "unrecorded (fold (\<lambda>q. update2 (ghidra_va rb (np_funcAddr q)) (np_ordinal q) (np_name q)) (unrecorded m rb ps) m) rb ps = []"
proof -
  let ?m = "fold (\<lambda>q. update2 (ghidra_va rb (np_funcAddr q)) (np_ordinal q) (np_name q)) (unrecorded m rb ps) m"
  have "lookup2 ?m (ghidra_va rb (np_funcAddr p)) (np_ordinal p) = Some (np_name p)" if p: "p \<in> set ps" for p
  proof (cases "(ghidra_va rb (np_funcAddr p), np_ordinal p) \<in> (\<lambda>q. (ghidra_va rb (np_funcAddr q), np_ordinal q)) ` set (unrecorded m rb ps)")
    case True
    then show ?thesis
    proof (rule lookup2_fold_in)
      fix q assume q: "q \<in> set (unrecorded m rb ps)" "ghidra_va rb (np_funcAddr q) = ghidra_va rb (np_funcAddr p)"
        "np_ordinal q = np_ordinal p"
      then have "q \<in> set ps" "np_funcAddr q = np_funcAddr p"
        using unrecorded_subset by (blast, simp add: ghidra_va_def)
      with q(3) show "np_name q = np_name p"
        using assms [unfolded slots_unique_def] p by blast
    qed
  next
    case False
    then have "p \<notin> set (unrecorded m rb ps)" by (auto simp: image_iff)
    with p have "lookup2 m (ghidra_va rb (np_funcAddr p)) (np_ordinal p) = Some (np_name p)" by (simp add: unrecorded_def)
    with False show ?thesis by (simp add: lookup2_fold_notin)
  qed
  then show ?thesis by (simp add: unrecorded_def [of ?m] filter_empty_conv)
qed

lemma newParams_converge:
  assumes rb: "rebase_of T V = rebase_of S V" and keys: "m_paramKeyByAddrOrdinal T = m_paramKeyByAddrOrdinal S"
    and params: "m_newParamBaseline T =
      fold (\<lambda>q. update2 (ghidra_va (rebase_of S V) (np_funcAddr q)) (np_ordinal q) (np_name q))
       (filter (\<lambda>q. \<not> np_isLocal q) (collect_newParams S V)) (m_newParamBaseline S)"
    and locals: "m_newRegLocalBaseline T =
      fold (\<lambda>q. update2 (ghidra_va (rebase_of S V) (np_funcAddr q)) (np_ordinal q) (np_name q))
       (filter np_isLocal (collect_newParams S V)) (m_newRegLocalBaseline S)"
    and unique: "slots_unique (new_params S V)" "slots_unique (new_regLocals V)"
  shows "collect_newParams T V = []"
proof -
  have same: "new_params T V = new_params S V"
    unfolding new_params_def rb param_candidates_def keys ..
  have "filter (\<lambda>q. \<not> np_isLocal q) (collect_newParams S V) = unrecorded (m_newParamBaseline S) (rebase_of S V) (new_params S V)"
    and "filter np_isLocal (collect_newParams S V) = unrecorded (m_newRegLocalBaseline S) (rebase_of S V) (new_regLocals V)"
  proof -
    let ?A = "unrecorded (m_newParamBaseline S) (rebase_of S V) (new_params S V)"
    let ?B = "unrecorded (m_newRegLocalBaseline S) (rebase_of S V) (new_regLocals V)"
    have A: "\<not> np_isLocal q" if "q \<in> set ?A" for q using that unrecorded_subset new_params_kind(1) by blast
    have B: "np_isLocal q" if "q \<in> set ?B" for q using that unrecorded_subset new_params_kind(2) by blast
    show "filter (\<lambda>q. \<not> np_isLocal q) (collect_newParams S V) = ?A" "filter np_isLocal (collect_newParams S V) = ?B"
      by (simp_all add: collect_newParams_eq A B filter_empty_conv filter_id_conv)
  qed
  then show ?thesis
    unfolding collect_newParams_eq [of T] same rb params locals
    by (simp add: unrecorded_recorded unique)
qed

section \<open>Data types\<close>

lemma stored_type_same:
  "change_of_type n t = Some c \<Longrightarrow> \<not> type_different t (c\<lparr>tc_op := x, tc_ghidraId := y\<rparr>) (stored_type (c\<lparr>tc_op := x, tc_ghidraId := y\<rparr>) b)"
  by (cases t) (auto simp: change_of_type_def type_different_def stored_type_def Let_def zip_map1 zip_map2 zip_same_conv_map list_ex_iff
      split: if_splits)

lemma type_different_id: "type_different t c (b\<lparr>dt_id := i\<rparr>) = type_different t c b"
  by (cases t) (simp_all add: type_different_def)

lemma type_different_change: "type_different t (c\<lparr>tc_op := x, tc_ghidraId := y\<rparr>) b = type_different t c b"
  by (cases t) (simp_all add: type_different_def)

lemma change_of_type_name: "change_of_type n t = Some c \<Longrightarrow> tc_name c = n"
  by (cases t) (auto simp: change_of_type_def Let_def split: if_splits)

lemma type_change_Some:
  "type_change S us n t = Some c \<longleftrightarrow>
     n \<noteq> [] \<and> \<not> starts_with ''__'' n \<and> (n \<in> set us \<or> has_key (m_ghidraTypesByName S) n) \<and>
     (\<exists>d. change_of_type n t = Some d \<and>
       (case map_of (m_ghidraTypesByName S) n of
          None \<Rightarrow> c = d\<lparr>tc_op := ''add'', tc_ghidraId := 0\<rparr>
        | Some b \<Rightarrow> type_different t d b \<and> c = d\<lparr>tc_op := ''update'', tc_ghidraId := dt_id b\<rparr>))"
  by (auto simp: type_change_def split: option.splits if_splits)

lemma dt_id_self: "\<exists>i. b = b\<lparr>dt_id := i\<rparr>"
  by (rule exI [of _ "dt_id b"]) simp

lemma set_type_id_map:
  "map_of (fold set_type_id ids m) n = None \<longleftrightarrow> map_of m n = None"
  "map_of (fold set_type_id ids m) n = Some b \<Longrightarrow> \<exists>b0 i. map_of m n = Some b0 \<and> b = b0\<lparr>dt_id := i\<rparr>"
proof -
  have step: "map_of (set_type_id e m) n = None \<longleftrightarrow> map_of m n = None" for e m
    by (cases e) (auto simp: set_type_id_def umap_simps split: option.splits)
  have step2: "\<exists>b0 i. map_of m n = Some b0 \<and> b = b0\<lparr>dt_id := i\<rparr>" if "map_of (set_type_id e m) n = Some b" for e m b
    using that dt_id_self [of b]
    by (cases e) (auto simp: set_type_id_def umap_simps split: option.splits if_splits)
  show "map_of (fold set_type_id ids m) n = None \<longleftrightarrow> map_of m n = None"
    by (induction ids arbitrary: m) (auto simp: step)
  show "map_of (fold set_type_id ids m) n = Some b \<Longrightarrow> \<exists>b0 i. map_of m n = Some b0 \<and> b = b0\<lparr>dt_id := i\<rparr>"
  proof (induction ids arbitrary: m)
    case Nil
    with dt_id_self [of b] show ?case by auto
  next
    case (Cons e ids)
    from Cons.prems have "map_of (fold set_type_id ids (set_type_id e m)) n = Some b" by simp
    from Cons.IH [OF this] obtain b1 i where "map_of (set_type_id e m) n = Some b1" "b = b1\<lparr>dt_id := i\<rparr>" by blast
    with step2 [of e m b1] show ?case by auto
  qed
qed

text \<open>The map after a list of changes with distinct names\<close>

lemma map_of_update_dataTypes:
  "distinct (map tc_name cs) \<Longrightarrow>
   map_of (fold update_dataType cs m) n =
     (case find (\<lambda>c. tc_name c = n) cs of
        None \<Rightarrow> map_of m n
      | Some c \<Rightarrow> if tc_op c = ''delete'' then None else Some (stored_type c (find_or m n default_GhidraDataType)))"
proof (induction cs arbitrary: m)
  case (Cons c cs)
  have out: "tc_name c \<notin> tc_name ` set cs" using Cons.prems by simp
  then have "find (\<lambda>d. tc_name d = tc_name c) cs = None" unfolding find_None_iff by (metis imageI)
  with Cons show ?case
    by (auto simp: update_dataType_def umap_simps find_or_def split: option.split)
qed simp


text \<open>The deletion loop appends one entry per baseline type the view no longer has.\<close>

definition deletion :: "string \<times> GhidraDataType \<Rightarrow> DataTypeChange" where
  "deletion e = \<lparr>tc_op = ''delete'', tc_kind = dt_kind (snd e), tc_name = fst e, tc_ghidraId = dt_id (snd e),
          tc_size = 0, tc_underlyingTypeName = [], tc_members = [], tc_values = []\<rparr>"

lemma typeDeletion_loop:
  assumes "distinct_keys m" "\<forall>c \<in> set cs. tc_name c \<in> set current \<or> tc_name c \<notin> fst ` set m"
  shows "fold (typeDeletion_step current) m cs = cs @ map deletion (filter (\<lambda>e. fst e \<notin> set current) m)"
  using assms
proof (induction m arbitrary: cs)
  case (Cons e m)
  obtain n dt where e: "e = (n, dt)" by force
  show ?case
  proof (cases "n \<in> set current")
    case True
    with Cons e show ?thesis by (auto simp: typeDeletion_step_def distinct_keys_def)
  next
    case False
    then have "\<not> list_ex (\<lambda>c. tc_name c = n) cs" using Cons.prems(2) e by (auto simp: list_ex_iff)
    with False have "typeDeletion_step current e cs = cs @ [deletion e]"
      by (simp add: typeDeletion_step_def e deletion_def)
    moreover have "fold (typeDeletion_step current) m (cs @ [deletion e]) =
        (cs @ [deletion e]) @ map deletion (filter (\<lambda>e. fst e \<notin> set current) m)"
      by (rule Cons.IH) (use Cons.prems e in \<open>auto simp: distinct_keys_def deletion_def\<close>)
    ultimately show ?thesis using False e by simp
  qed
qed simp

lemma set_current_names: "set (fold (\<lambda>(qn, _). set_insert qn) ts A) = fst ` set ts \<union> set A"
  by (induction ts arbitrary: A) auto

lemma in_typeChanges:
  "c \<in> set (collect_typeChanges S V) \<longleftrightarrow>
     (\<exists>n t. (n, t) \<in> set (bv_types V) \<and> type_change S (user_type_names V) n t = Some c)"
  by (simp add: collect_typeChanges_def in_map_filter_pair)

lemma type_change_name: "type_change S us n t = Some c \<Longrightarrow> tc_name c = n \<and> tc_op c \<noteq> ''delete''"
  by (auto simp: type_change_Some dest: change_of_type_name split: option.splits)

lemma collect_dataTypes_eq:
  assumes "distinct_keys (m_ghidraTypesByName S)"
  shows "collect_dataTypes S V = collect_typeChanges S V @
     map deletion (filter (\<lambda>e. fst e \<notin> fst ` set (bv_types V)) (m_ghidraTypesByName S))"
  unfolding collect_dataTypes_def Let_def
  by (subst typeDeletion_loop [OF assms])
    (force simp: set_current_names in_typeChanges dest!: type_change_name, simp add: set_current_names)

lemma typeChanges_distinct:
  assumes "distinct_keys (bv_types V)"
  shows "distinct (map tc_name (collect_typeChanges S V))"
proof -
  have "distinct (map tc_name (List.map_filter (\<lambda>(n, t). type_change S us n t) ts)) \<and>
      tc_name ` set (List.map_filter (\<lambda>(n, t). type_change S us n t) ts) \<subseteq> fst ` set ts"
    if "distinct (map fst ts)" for us ts
    using that
  proof (induction ts)
    case (Cons e ts)
    obtain n t where e: "e = (n, t)" by force
    show ?case
      using Cons type_change_name [of S us n t] by (cases "type_change S us n t") (auto simp: e List.map_filter_simps)
  qed (simp add: List.map_filter_simps)
  with assms show ?thesis by (simp add: collect_typeChanges_def distinct_keys_def)
qed

lemma dataTypes_distinct:
  assumes "distinct_keys (bv_types V)" "distinct_keys (m_ghidraTypesByName S)"
  shows "distinct (map tc_name (collect_dataTypes S V))"
proof -
  let ?dels = "filter (\<lambda>e. fst e \<notin> fst ` set (bv_types V)) (m_ghidraTypesByName S)"
  have names: "map tc_name (map deletion xs) = map fst xs" for xs by (simp add: deletion_def)
  have "tc_name ` set (collect_typeChanges S V) \<subseteq> fst ` set (bv_types V)"
    by (force simp: in_typeChanges dest!: type_change_name)
  then have "set (map tc_name (collect_typeChanges S V)) \<inter> set (map fst ?dels) = {}" by (fastforce dest: subsetD)
  moreover have "distinct (map fst ?dels)" using assms(2) by (simp add: distinct_keys_def distinct_map_filter)
  ultimately show ?thesis
    unfolding collect_dataTypes_eq [OF assms(2)] map_append names
    using typeChanges_distinct [OF assms(1), of S] by simp
qed

lemma distinct_keys_dataTypes: "distinct_keys m \<Longrightarrow> distinct_keys (fold update_dataType cs (fold set_type_id ids m))"
proof -
  have u: "distinct_keys (update_dataType c m)" if "distinct_keys m" for c m
    using that by (simp add: update_dataType_def umap_simps)
  have i: "distinct_keys (set_type_id e m)" if "distinct_keys m" for e m
    using that by (cases e) (simp add: set_type_id_def umap_simps split: option.split)
  assume "distinct_keys m"
  then show ?thesis by (intro fold_invariant_step [of distinct_keys] u i)
qed

lemma type_change_recorded:
  assumes c: "type_change S us n t = Some c" and T: "map_of (m_ghidraTypesByName T) n = Some (stored_type c b)"
  shows "type_change T us n t = None"
proof -
  obtain d x y where d: "change_of_type n t = Some d" and c': "c = d\<lparr>tc_op := x, tc_ghidraId := y\<rparr>"
    using c by (auto simp: type_change_Some split: option.splits)
  then have "\<not> type_different t d (stored_type c b)"
    using stored_type_same [OF d] by (simp add: type_different_change)
  with T d show ?thesis by (simp add: type_change_def)
qed

lemma type_change_kept:
  assumes c: "type_change S us n t = None"
    and T: "map_of (m_ghidraTypesByName T) n = map_of (fold set_type_id ids (m_ghidraTypesByName S)) n"
  shows "type_change T us n t = None"
proof (cases "map_of (m_ghidraTypesByName T) n")
  case None
  with T set_type_id_map(1) have "map_of (m_ghidraTypesByName S) n = None" by metis
  with None c show ?thesis by (simp add: type_change_def has_key_def split: option.splits if_splits)
next
  case (Some b)
  with T set_type_id_map(2) obtain b0 i where "map_of (m_ghidraTypesByName S) n = Some b0" "b = b0\<lparr>dt_id := i\<rparr>" by metis
  with Some c show ?thesis by (auto simp: type_change_def has_key_def type_different_id split: option.splits if_splits)
qed

lemma dataTypes_converge:
  assumes T: "m_ghidraTypesByName T = fold update_dataType (collect_dataTypes S V) (fold set_type_id ids (m_ghidraTypesByName S))"
    and types: "distinct_keys (bv_types V)" and wf: "distinct_keys (m_ghidraTypesByName S)"
  shows "collect_dataTypes T V = []"
proof -
  let ?M = "fold set_type_id ids (m_ghidraTypesByName S)" and ?cs = "collect_dataTypes S V"
  note look = map_of_update_dataTypes [OF dataTypes_distinct [OF types wf], of ?M, folded T]
  have cs: "c \<in> set ?cs \<longleftrightarrow> c \<in> set (collect_typeChanges S V) \<or>
      (\<exists>e \<in> set (m_ghidraTypesByName S). fst e \<notin> fst ` set (bv_types V) \<and> c = deletion e)" for c
    by (auto simp: collect_dataTypes_eq [OF wf])
  have "type_change T (user_type_names V) n t = None" if nt: "(n, t) \<in> set (bv_types V)" for n t
  proof (cases "find (\<lambda>c. tc_name c = n) ?cs")
    case None
    then have "c \<in> set (collect_typeChanges S V) \<Longrightarrow> tc_name c \<noteq> n" for c by (auto simp: find_None_iff cs)
    then have "type_change S (user_type_names V) n t = None"
      using nt type_change_name in_typeChanges by (metis option.exhaust)
    with None look [of n] show ?thesis by (auto intro: type_change_kept)
  next
    case (Some c)
    then have c: "c \<in> set ?cs" "tc_name c = n" by (auto simp: find_Some_iff)
    moreover have "n \<in> fst ` set (bv_types V)" using nt by (force)
    ultimately have "c \<in> set (collect_typeChanges S V)" unfolding cs by (metis DataTypeChange.select_convs(3) deletion_def)
    then obtain n' t' where n': "(n', t') \<in> set (bv_types V)" "type_change S (user_type_names V) n' t' = Some c"
      unfolding in_typeChanges by blast
    moreover have "n' = n" using type_change_name [OF n'(2)] c(2) by simp
    ultimately have t': "(n, t') \<in> set (bv_types V)" "type_change S (user_type_names V) n t' = Some c" by simp_all
    then have "t' = t" using nt types by (simp add: distinct_keys_lookup)
    with t' have tc: "type_change S (user_type_names V) n t = Some c" by simp
    have "map_of (m_ghidraTypesByName T) n = Some (stored_type c (find_or ?M n default_GhidraDataType))"
      using look [of n] Some type_change_name [OF tc] by simp
    with tc show ?thesis by (rule type_change_recorded)
  qed
  then have no_changes: "collect_typeChanges T V = []" by (auto simp: collect_typeChanges_def map_filter_empty)
  have "n \<in> fst ` set (bv_types V)" if "(n, b) \<in> set (m_ghidraTypesByName T)" for n b
  proof (rule ccontr)
    assume out: "n \<notin> fst ` set (bv_types V)"
    have "map_of (m_ghidraTypesByName T) n \<noteq> None" using that weak_map_of_SomeI by fastforce
    then show False
    proof (cases "find (\<lambda>c. tc_name c = n) ?cs")
      case None
      with \<open>map_of (m_ghidraTypesByName T) n \<noteq> None\<close> look [of n] obtain b0 where "(n, b0) \<in> set (m_ghidraTypesByName S)"
        by (auto simp: set_type_id_map(1) dest!: map_of_SomeD)
      with out have "deletion (n, b0) \<in> set ?cs" unfolding cs by (intro disjI2 bexI [of _ "(n, b0)"]) simp_all
      with None show False by (auto simp: find_None_iff deletion_def)
    next
      case (Some c)
      then have "c \<in> set ?cs" "tc_name c = n" by (auto simp: find_Some_iff)
      then have "tc_op c = ''delete''"
        using out type_change_name by (force simp: cs deletion_def in_typeChanges)
      with Some look [of n] \<open>map_of (m_ghidraTypesByName T) n \<noteq> None\<close> show False by simp
    qed
  qed
  moreover have "distinct_keys (m_ghidraTypesByName T)" unfolding T using wf by (rule distinct_keys_dataTypes)
  ultimately show ?thesis by (auto simp: collect_dataTypes_eq no_changes filter_empty_conv)
qed

section \<open>Comments\<close>

text \<open>Where an update records a comment: the first map that has the address, else the address map\<close>

definition to_func_map :: "checkin_state \<Rightarrow> u64 \<Rightarrow> bool" where
  "to_func_map S a \<longleftrightarrow> \<not> has_key (m_addrToOriginalComment S) a \<and> has_key (m_addrToOriginalFuncComment S) a"

lemma to_func_map_update: "to_func_map (update_comment c S) a = to_func_map S a"
  by (auto simp: to_func_map_def update_comment_def umap_simps)

lemma update_comments_lookup:
  assumes "a \<in> cc_addr ` set cs \<Longrightarrow> (\<And>c. c \<in> set cs \<Longrightarrow> cc_addr c = a \<Longrightarrow> cc_text c = t)"
  shows "map_of (m_addrToOriginalComment (update_comments cs S)) a =
      (if a \<in> cc_addr ` set cs \<and> \<not> to_func_map S a then Some t else map_of (m_addrToOriginalComment S) a)"
    and "map_of (m_addrToOriginalFuncComment (update_comments cs S)) a =
      (if a \<in> cc_addr ` set cs \<and> to_func_map S a then Some t else map_of (m_addrToOriginalFuncComment S) a)"
proof -
  have "(map_of (m_addrToOriginalComment (fold update_comment cs S)) a =
      (if a \<in> cc_addr ` set cs \<and> \<not> to_func_map S a then Some t else map_of (m_addrToOriginalComment S) a)) \<and>
    (map_of (m_addrToOriginalFuncComment (fold update_comment cs S)) a =
      (if a \<in> cc_addr ` set cs \<and> to_func_map S a then Some t else map_of (m_addrToOriginalFuncComment S) a))"
    using assms
  proof (induction cs arbitrary: S)
    case (Cons c cs)
    have IH: "(map_of (m_addrToOriginalComment (fold update_comment cs (update_comment c S))) a =
        (if a \<in> cc_addr ` set cs \<and> \<not> to_func_map S a then Some t else map_of (m_addrToOriginalComment (update_comment c S)) a)) \<and>
      (map_of (m_addrToOriginalFuncComment (fold update_comment cs (update_comment c S))) a =
        (if a \<in> cc_addr ` set cs \<and> to_func_map S a then Some t else map_of (m_addrToOriginalFuncComment (update_comment c S)) a))"
      using Cons.IH [of "update_comment c S"] Cons.prems unfolding to_func_map_update by (simp add: image_iff)
    have "cc_addr c = a \<Longrightarrow> cc_text c = t" using Cons.prems by simp
    then have "map_of (m_addrToOriginalComment (update_comment c S)) a =
        (if a = cc_addr c \<and> \<not> to_func_map S a then Some t else map_of (m_addrToOriginalComment S) a)"
      "map_of (m_addrToOriginalFuncComment (update_comment c S)) a =
        (if a = cc_addr c \<and> to_func_map S a then Some t else map_of (m_addrToOriginalFuncComment S) a)"
      by (auto simp: update_comment_def to_func_map_def umap_simps)
    with IH show ?case by auto
  qed simp
  then show "map_of (m_addrToOriginalComment (update_comments cs S)) a =
      (if a \<in> cc_addr ` set cs \<and> \<not> to_func_map S a then Some t else map_of (m_addrToOriginalComment S) a)"
    and "map_of (m_addrToOriginalFuncComment (update_comments cs S)) a =
      (if a \<in> cc_addr ` set cs \<and> to_func_map S a then Some t else map_of (m_addrToOriginalFuncComment S) a)"
    by (simp_all add: update_comments_def)
qed

lemma in_addrComments:
  "c \<in> set (collect_addrComments S V) \<longleftrightarrow>
     cc_addr c \<in> set (bv_commentedAddresses V) \<and> cc_text c = bv_commentForAddress V (cc_addr c) \<and> cc_text c \<noteq> [] \<and>
     cc_text c \<noteq> find_or (m_addrToOriginalComment S) (cc_addr c) [] \<and>
     cc_encodedKey c = find_or (m_addrToCommentKey S) (cc_addr c) []"
  by (cases c) (auto simp: collect_addrComments_def in_map_filter Let_def)

text \<open>Whether the function loop has something to say about a function\<close>

definition func_comment_changed :: "checkin_state \<Rightarrow> bn_function \<Rightarrow> bool" where
  "func_comment_changed S f \<longleftrightarrow> fn_comment f \<noteq> [] \<and> fn_comment f \<noteq> find_or (m_addrToOriginalFuncComment S) (fn_start f) []"

lemma funcComment_step_eq:
  "funcComment_step S f cs =
     (if func_comment_changed S f \<and> fn_start f \<notin> cc_addr ` set cs
      then cs @ [\<lparr>cc_addr = fn_start f, cc_text = fn_comment f, cc_encodedKey = find_or (m_addrToCommentKey S) (fn_start f) []\<rparr>]
      else cs)"
  by (auto simp: funcComment_step_def func_comment_changed_def Let_def list_ex_image)

lemma fold_funcComment:
  assumes "distinct (map fn_start fs)"
  shows "fold (funcComment_step S) fs cs = cs @
     map (\<lambda>f. \<lparr>cc_addr = fn_start f, cc_text = fn_comment f, cc_encodedKey = find_or (m_addrToCommentKey S) (fn_start f) []\<rparr>)
       (filter (\<lambda>f. func_comment_changed S f \<and> fn_start f \<notin> cc_addr ` set cs) fs)"
  using assms
proof (induction fs arbitrary: cs)
  case (Cons f fs)
  let ?c = "\<lambda>f. \<lparr>cc_addr = fn_start f, cc_text = fn_comment f, cc_encodedKey = find_or (m_addrToCommentKey S) (fn_start f) []\<rparr>"
  have "filter (\<lambda>g. func_comment_changed S g \<and> fn_start g \<notin> cc_addr ` set (cs @ [?c f])) fs =
      filter (\<lambda>g. func_comment_changed S g \<and> fn_start g \<notin> cc_addr ` set cs) fs"
    using Cons.prems by (intro filter_cong) (auto intro: rev_image_eqI)
  with Cons show ?case by (auto simp: funcComment_step_eq)
qed simp

text \<open>
  The comments a check-in can settle: a changed address comment is not routed to the function map,
  and a changed function comment is, with no address comment in its way.
\<close>

definition comments_settle :: "checkin_state \<Rightarrow> bn_view \<Rightarrow> bool" where
  "comments_settle S V \<longleftrightarrow>
     (\<forall>a \<in> cc_addr ` set (collect_addrComments S V). \<not> to_func_map S a) \<and>
     (\<forall>f \<in> set (bv_functionList V). func_comment_changed S f \<longrightarrow>
        to_func_map S (fn_start f) \<and> fn_start f \<notin> cc_addr ` set (collect_addrComments S V))"

lemma comments_converge:
  assumes T: "m_addrToOriginalComment T = m_addrToOriginalComment (update_comments (collect_comments S V) S)"
      "m_addrToOriginalFuncComment T = m_addrToOriginalFuncComment (update_comments (collect_comments S V) S)"
    and starts: "distinct (map fn_start (bv_functionList V))" and settle: "comments_settle S V"
  shows "collect_comments T V = []"
proof -
  let ?A = "collect_addrComments S V" and ?F = "filter (func_comment_changed S) (bv_functionList V)"
  let ?c = "\<lambda>f. \<lparr>cc_addr = fn_start f, cc_text = fn_comment f, cc_encodedKey = find_or (m_addrToCommentKey S) (fn_start f) []\<rparr>"
  have col: "collect_comments S V = ?A @ map ?c ?F"
    using settle unfolding collect_comments_def fold_funcComment [OF starts]
    by (auto simp: comments_settle_def intro!: arg_cong [where f = "map ?c"] filter_cong)
  have addr: "find_or (m_addrToOriginalComment T) a [] = bv_commentForAddress V a"
    if a: "a \<in> set (bv_commentedAddresses V)" "bv_commentForAddress V a \<noteq> []" for a
  proof (cases "a \<in> cc_addr ` set ?A")
    case True
    then have nf: "\<not> to_func_map S a" using settle by (auto simp: comments_settle_def)
    have "cc_text c = bv_commentForAddress V a" if "c \<in> set (collect_comments S V)" "cc_addr c = a" for c
    proof -
      have "c \<notin> set (map ?c ?F)" using that(2) True settle by (auto simp: comments_settle_def)
      with that show ?thesis by (auto simp: col in_addrComments)
    qed
    with True nf show ?thesis
      unfolding find_or_def T by (subst update_comments_lookup(1) [where t = "bv_commentForAddress V a"]) (auto simp: col)
  next
    case False
    then have same: "bv_commentForAddress V a = find_or (m_addrToOriginalComment S) a []"
      using a in_addrComments [of "\<lparr>cc_addr = a, cc_text = bv_commentForAddress V a, cc_encodedKey = find_or (m_addrToCommentKey S) a []\<rparr>" S V]
      by (force simp: image_iff)
    have "has_key (m_addrToOriginalComment S) a" using same a(2) by (auto simp: find_or_def has_key_def split: option.splits)
    then have "a \<notin> cc_addr ` set (collect_comments S V)"
      using False settle by (auto simp: col comments_settle_def to_func_map_def)
    then have "map_of (m_addrToOriginalComment T) a = map_of (m_addrToOriginalComment S) a"
      unfolding T by (subst update_comments_lookup(1) [where t = "[]"]) auto
    with same show ?thesis by (simp add: find_or_def)
  qed
  have func: "\<not> func_comment_changed T f" if f: "f \<in> set (bv_functionList V)" for f
  proof (cases "func_comment_changed S f")
    case True
    then have tf: "to_func_map S (fn_start f)" "fn_start f \<notin> cc_addr ` set ?A" using f settle by (auto simp: comments_settle_def)
    have "cc_text c = fn_comment f" if "c \<in> set (collect_comments S V)" "cc_addr c = fn_start f" for c
    proof -
      have "c \<notin> set ?A" using that(2) tf(2) by (metis imageI)
      with that f starts show ?thesis by (auto simp: col distinct_map dest: inj_onD)
    qed
    moreover have "fn_start f \<in> cc_addr ` set (collect_comments S V)" using True f by (auto simp: col image_Un image_image)
    ultimately show ?thesis
      using tf unfolding func_comment_changed_def find_or_def T
      by (subst update_comments_lookup(2) [where t = "fn_comment f"]) auto
  next
    case False
    have "fn_start f \<notin> cc_addr ` set (collect_comments S V) \<or> \<not> to_func_map S (fn_start f)"
      using False f starts settle by (auto simp: col comments_settle_def distinct_map dest: inj_onD)
    then have "map_of (m_addrToOriginalFuncComment T) (fn_start f) = map_of (m_addrToOriginalFuncComment S) (fn_start f)"
    proof
      assume "\<not> to_func_map S (fn_start f)"
      have "fn_start f \<notin> cc_addr ` set (map ?c ?F)"
        using False f starts by (auto simp: distinct_map dest: inj_onD)
      then have "cc_text c = bv_commentForAddress V (fn_start f)" if "c \<in> set (collect_comments S V)" "cc_addr c = fn_start f" for c
        using that by (auto simp: col in_addrComments image_iff)
      with \<open>\<not> to_func_map S (fn_start f)\<close> show ?thesis
        unfolding T by (subst update_comments_lookup(2) [where t = "bv_commentForAddress V (fn_start f)"]) auto
    next
      assume "fn_start f \<notin> cc_addr ` set (collect_comments S V)"
      then show ?thesis unfolding T by (subst update_comments_lookup(2) [where t = "[]"]) auto
    qed
    with False show ?thesis by (simp add: func_comment_changed_def find_or_def)
  qed
  have "collect_addrComments T V = []"
    by (auto simp: collect_addrComments_def map_filter_empty Let_def) (metis addr)
  with func show ?thesis
    unfolding collect_comments_def fold_funcComment [OF starts] by (simp add: filter_empty_conv)
qed

section \<open>Function signatures\<close>

definition user_key :: "checkin_state \<Rightarrow> bn_function \<Rightarrow> i64 option" where
  "user_key S f = (if fn_hasUserType f then map_of (m_addrToKey S) (fn_start f) else None)"

text \<open>
  What the view and the baseline must satisfy for one check-in to settle every signature: no two
  functions share a key, looking a function up by address finds it in the function list, and a
  baseline calling convention comes with a baseline return type.
\<close>

definition sigs_settle :: "checkin_state \<Rightarrow> bn_view \<Rightarrow> bool" where
  "sigs_settle S V \<longleftrightarrow>
     (\<forall>f \<in> set (bv_functionList V). \<forall>g \<in> set (bv_functionList V).
        user_key S f \<noteq> None \<and> user_key S f = user_key S g \<longrightarrow> f = g) \<and>
     (\<forall>a. set (bv_functionsForAddress V a) \<subseteq> set (bv_functionList V)) \<and>
     (\<forall>(key, cc) \<in> set (m_funcOriginalCC S). has_key (m_funcOriginalRetType S) key)"

lemma sigChange_user_key [simp]: "sc_key (sigChange_user S f k) = k"
  by (simp add: sigChange_user_def)

lemma keyToBnAddr_in: "map_of (keyToBnAddr S) key = Some a \<Longrightarrow> (a, key) \<in> set (m_addrToKey S)"
  unfolding keyToBnAddr_def by (drule map_of_SomeD, drule range_update_all) auto

lemma find_start: "find (\<lambda>f. fn_start f = a) fs = Some g \<Longrightarrow> g \<in> set fs \<and> fn_start g = a"
  by (auto simp: find_Some_iff)

text \<open>
  What the first loop reports about a function the second would report too; with a baseline return
  type the two changes are the same.
\<close>

lemma sigChange_baseline_user:
  assumes c: "sigChange_baseline S V key origCC = Some c"
    and wf: "distinct_keys (m_addrToKey S)" and cc: "map_of (m_funcOriginalCC S) key = Some origCC"
    and fns: "\<forall>a. set (bv_functionsForAddress V a) \<subseteq> set (bv_functionList V)"
  shows "\<exists>f \<in> set (bv_functionList V). user_key S f = Some key \<and> sig_nonempty c \<and> sc_key c = key \<and>
     sig_nonempty (sigChange_user S f key) \<and> (has_key (m_funcOriginalRetType S) key \<longrightarrow> c = sigChange_user S f key)"
proof -
  from c obtain a g where a: "map_of (keyToBnAddr S) key = Some a"
    and g: "find (\<lambda>f. fn_start f = a) (bv_functionsForAddress V a) = Some g" and u: "fn_hasUserType g"
    by (auto simp: sigChange_baseline_def split: option.splits)
  have "g \<in> set (bv_functionList V)" "user_key S g = Some key"
    using find_start [OF g] keyToBnAddr_in [OF a] wf fns u
    by (auto simp: user_key_def distinct_keys_lookup)
  moreover have "sc_key c = key" "sig_nonempty c" "sig_nonempty (sigChange_user S g key)"
    and "has_key (m_funcOriginalRetType S) key \<longrightarrow> c = sigChange_user S g key"
    using c a g u cc
    by (cases "map_of (m_funcOriginalRetType S) key";
        auto simp: sigChange_baseline_def sigChange_user_def Let_def type_string_def sig_nonempty_def has_key_def
          split: option.splits if_splits)+
  ultimately show ?thesis by blast
qed

lemma fold_sigUser:
  "set (fold (sigUser_step S) fs cs) \<subseteq> set cs \<union> {sigChange_user S f k | f k. f \<in> set fs \<and> user_key S f = Some k \<and> sig_nonempty (sigChange_user S f k)}"
  "set cs \<subseteq> set (fold (sigUser_step S) fs cs)"
  "f \<in> set fs \<Longrightarrow> user_key S f = Some k \<Longrightarrow> sig_nonempty (sigChange_user S f k) \<Longrightarrow> k \<in> sc_key ` set (fold (sigUser_step S) fs cs)"
proof -
  have step: "set (sigUser_step S f cs) \<subseteq> set cs \<union> {sigChange_user S f k | k. user_key S f = Some k \<and> sig_nonempty (sigChange_user S f k)}"
    and keep: "set cs \<subseteq> set (sigUser_step S f cs)" for f cs
    by (auto simp: sigUser_step_def user_key_def Let_def split: option.splits)
  show "set (fold (sigUser_step S) fs cs) \<subseteq> set cs \<union> {sigChange_user S f k | f k. f \<in> set fs \<and> user_key S f = Some k \<and> sig_nonempty (sigChange_user S f k)}"
  proof (induction fs arbitrary: cs)
    case (Cons g fs)
    from Cons [of "sigUser_step S g cs"] step [of g cs] show ?case by (auto; blast)
  qed simp
  show keep_all: "set cs \<subseteq> set (fold (sigUser_step S) fs cs)" for fs cs
    using keep by (induction fs arbitrary: cs) (simp, force)
  have hit: "user_key S f = Some k \<Longrightarrow> sig_nonempty (sigChange_user S f k) \<Longrightarrow> k \<in> sc_key ` set (sigUser_step S f cs)" for f k cs
    by (auto simp: sigUser_step_def user_key_def Let_def list_ex_image split: if_splits)
  show "f \<in> set fs \<Longrightarrow> user_key S f = Some k \<Longrightarrow> sig_nonempty (sigChange_user S f k) \<Longrightarrow> k \<in> sc_key ` set (fold (sigUser_step S) fs cs)"
  proof (induction fs arbitrary: cs)
    case (Cons g fs)
    show ?case
    proof (cases "g = f")
      case True
      then show ?thesis using hit [OF Cons.prems(2,3), of cs] keep_all [of "sigUser_step S f cs" fs] by auto
    next
      case False
      with Cons show ?thesis by simp
    qed
  qed simp
qed

text \<open>Every reported signature change is the second loop's change of the function with this key.\<close>

lemma funcSigs_char:
  assumes wf: "distinct_keys (m_addrToKey S)" "distinct_keys (m_funcOriginalCC S)" and settle: "sigs_settle S V"
  shows "c \<in> set (collect_funcSigs S V) \<Longrightarrow>
      \<exists>f \<in> set (bv_functionList V). user_key S f = Some (sc_key c) \<and> c = sigChange_user S f (sc_key c) \<and> sig_nonempty c"
    and "f \<in> set (bv_functionList V) \<Longrightarrow> user_key S f = Some k \<Longrightarrow> sig_nonempty (sigChange_user S f k) \<Longrightarrow>
      k \<in> sc_key ` set (collect_funcSigs S V)"
proof -
  let ?first = "List.map_filter (\<lambda>(key, origCC). sigChange_baseline S V key origCC) (m_funcOriginalCC S)"
  have first: "\<exists>f \<in> set (bv_functionList V). user_key S f = Some (sc_key c) \<and> c = sigChange_user S f (sc_key c) \<and> sig_nonempty c"
    if "c \<in> set ?first" for c
  proof -
    from that obtain key cc where k: "(key, cc) \<in> set (m_funcOriginalCC S)" "sigChange_baseline S V key cc = Some c"
      by (auto simp: in_map_filter_pair)
    have "has_key (m_funcOriginalRetType S) key" using k(1) settle by (auto simp: sigs_settle_def)
    moreover have "map_of (m_funcOriginalCC S) key = Some cc" using k(1) wf(2) by (simp add: distinct_keys_lookup)
    moreover have "\<forall>a. set (bv_functionsForAddress V a) \<subseteq> set (bv_functionList V)" using settle by (simp add: sigs_settle_def)
    ultimately show ?thesis using sigChange_baseline_user [OF k(2) wf(1)] by metis
  qed
  show "c \<in> set (collect_funcSigs S V) \<Longrightarrow>
      \<exists>f \<in> set (bv_functionList V). user_key S f = Some (sc_key c) \<and> c = sigChange_user S f (sc_key c) \<and> sig_nonempty c"
    using first fold_sigUser(1) [of S "bv_functionList V" ?first] unfolding collect_funcSigs_def by fastforce
  show "f \<in> set (bv_functionList V) \<Longrightarrow> user_key S f = Some k \<Longrightarrow> sig_nonempty (sigChange_user S f k) \<Longrightarrow>
      k \<in> sc_key ` set (collect_funcSigs S V)"
    unfolding collect_funcSigs_def by (rule fold_sigUser(3))
qed


lemma sigChange_user_recorded:
  assumes cc: "map_of (m_funcOriginalCC T) k =
      (if sc_callingConvention (sigChange_user S f k) \<noteq> [] then Some (sc_callingConvention (sigChange_user S f k)) else map_of (m_funcOriginalCC S) k)"
    and ret: "map_of (m_funcOriginalRetType T) k =
      (if sc_returnTypeName (sigChange_user S f k) \<noteq> [] then Some (sc_returnTypeName (sigChange_user S f k)) else map_of (m_funcOriginalRetType S) k)"
  shows "\<not> sig_nonempty (sigChange_user T f k)"
proof -
  have "sc_callingConvention (sigChange_user T f k) = []"
    using cc by (cases "fn_callingConvention f"; cases "map_of (m_funcOriginalCC S) k")
      (auto simp: sigChange_user_def Let_def split: if_splits)
  moreover have "sc_returnTypeName (sigChange_user T f k) = []"
    using ret by (cases "fn_returnType f"; cases "map_of (m_funcOriginalRetType S) k")
      (auto simp: sigChange_user_def split: if_splits)
  ultimately show ?thesis by (simp add: sig_nonempty_def)
qed

text \<open>Recording the non-empty parts of a list of changes that has at most one entry for a key\<close>

lemma map_of_sig_update:
  assumes "\<And>c. c \<in> set cs \<Longrightarrow> key c = k \<Longrightarrow> val c = v" and "k \<in> key ` set cs \<or> v = []"
  shows "map_of (update_all key val (filter (\<lambda>c. val c \<noteq> []) cs) m) k = (if v \<noteq> [] then Some v else map_of m k)"
proof (cases "v = []")
  case True
  then have "k \<notin> key ` set (filter (\<lambda>c. val c \<noteq> []) cs)" using assms(1) by auto
  with True show ?thesis by (simp add: map_of_update_all_notin)
next
  case False
  then have "k \<in> key ` set (filter (\<lambda>c. val c \<noteq> []) cs)" using assms by auto
  then have "map_of (update_all key val (filter (\<lambda>c. val c \<noteq> []) cs) m) k = Some v"
    by (rule map_of_update_all_in) (use assms(1) in auto)
  with False show ?thesis by simp
qed

lemma funcSigs_converge:
  assumes keys: "m_addrToKey T = m_addrToKey S"
    and T: "m_funcOriginalCC T = m_funcOriginalCC (update_funcSigs (collect_funcSigs S V) S)"
      "m_funcOriginalRetType T = m_funcOriginalRetType (update_funcSigs (collect_funcSigs S V) S)"
    and wf: "distinct_keys (m_addrToKey S)" "distinct_keys (m_funcOriginalCC S)" and settle: "sigs_settle S V"
  shows "collect_funcSigs T V = []"
proof -
  let ?cs = "collect_funcSigs S V"
  have cc_upd: "m_funcOriginalCC (update_funcSigs cs S) = update_all sc_key sc_callingConvention (filter (\<lambda>f. sc_callingConvention f \<noteq> []) cs) (m_funcOriginalCC S)"
    and ret_upd: "m_funcOriginalRetType (update_funcSigs cs S) = update_all sc_key sc_returnTypeName (filter (\<lambda>f. sc_returnTypeName f \<noteq> []) cs) (m_funcOriginalRetType S)" for cs
    by (simp_all add: update_funcSigs_def)
  have uk: "user_key T f = user_key S f" for f by (simp add: user_key_def keys)
  have quiet: "\<not> sig_nonempty (sigChange_user T f k)" if f: "f \<in> set (bv_functionList V)" "user_key S f = Some k" for f k
  proof (rule sigChange_user_recorded [of T k S f])
    have one: "c = sigChange_user S f k" if c: "c \<in> set ?cs" "sc_key c = k" for c
      using funcSigs_char(1) [OF wf settle c(1)] c(2) f settle by (auto simp: sigs_settle_def)
    have hit: "k \<in> sc_key ` set ?cs \<or> sc_callingConvention (sigChange_user S f k) = [] \<and> sc_returnTypeName (sigChange_user S f k) = []"
      using funcSigs_char(2) [OF wf settle f] by (auto simp: sig_nonempty_def)
    show "map_of (m_funcOriginalCC T) k =
      (if sc_callingConvention (sigChange_user S f k) \<noteq> [] then Some (sc_callingConvention (sigChange_user S f k)) else map_of (m_funcOriginalCC S) k)"
      unfolding T cc_upd ret_upd by (rule map_of_sig_update) (use one hit in auto)
    show "map_of (m_funcOriginalRetType T) k =
      (if sc_returnTypeName (sigChange_user S f k) \<noteq> [] then Some (sc_returnTypeName (sigChange_user S f k)) else map_of (m_funcOriginalRetType S) k)"
      unfolding T cc_upd ret_upd by (rule map_of_sig_update) (use one hit in auto)
  qed
  have wfT: "distinct_keys (m_addrToKey T)" "distinct_keys (m_funcOriginalCC T)"
    using wf by (simp_all add: keys T update_funcSigs_def distinct_keys_update_all)
  have fns: "\<forall>a. set (bv_functionsForAddress V a) \<subseteq> set (bv_functionList V)" using settle by (simp add: sigs_settle_def)
  have "sigChange_baseline T V key cc = None" if k: "(key, cc) \<in> set (m_funcOriginalCC T)" for key cc
  proof (rule ccontr)
    assume "sigChange_baseline T V key cc \<noteq> None"
    then obtain c where c: "sigChange_baseline T V key cc = Some c" by blast
    have "map_of (m_funcOriginalCC T) key = Some cc" using k wfT(2) by (simp add: distinct_keys_lookup)
    from sigChange_baseline_user [OF c wfT(1) this fns] quiet show False by (auto simp: uk)
  qed
  then have "List.map_filter (\<lambda>(key, cc). sigChange_baseline T V key cc) (m_funcOriginalCC T) = []"
    by (auto simp: map_filter_empty)
  then have "set (collect_funcSigs T V) \<subseteq> {}"
    using fold_sigUser(1) [of T "bv_functionList V" "[]"] quiet unfolding collect_funcSigs_def by (fastforce simp: uk)
  then show ?thesis by simp
qed

end
