(* ===== verification/Convergence.thy ===== *)
theory Convergence
  imports Converge_Program
begin

text \<open>
  The effect of a successful check-in on the next preview. \<open>checked_in J send V comment S T\<close> says
  that the diff of view \<open>V\<close> against state \<open>S\<close> was sent with \<open>checkin\<close>, that the bridge accepted it,
  and that \<open>T\<close> is the state left behind. The theory shows that the state invariant is kept, which
  categories are always settled, the exact conditions under which the whole next preview is empty,
  and the cases in which the code reports the same change for ever.
\<close>

section \<open>The state after a check-in\<close>

lemma checkin_ok_state:
  assumes "out_ok (checkin J bc sc send V p comment err S)"
  shows "\<exists>ids. out_state (checkin J bc sc send V p comment err S) = update_baselines V p (apply_type_ids ids S)"
  using assms
  by (auto simp: checkin_def checkin_exchange_def Let_def result_simps split: if_splits sum.splits)

lemma checkin_fail_state:
  "\<not> out_ok (checkin J bc sc send V p comment err S) \<Longrightarrow> out_state (checkin J bc sc send V p comment err S) = S"
  by (auto simp: checkin_def Let_def split: if_splits sum.splits)

lemma apply_type_ids_frame [baseline_simps]:
  "apply_type_ids ids S = S\<lparr>m_ghidraTypesByName := fold set_type_id ids (m_ghidraTypesByName S)\<rparr>"
  by (simp add: apply_type_ids_def)

lemma update_comments_types [baseline_simps]:
  "m_addrToOriginalComment (update_comments cs (S\<lparr>m_ghidraTypesByName := x\<rparr>)) = m_addrToOriginalComment (update_comments cs S)"
  "m_addrToOriginalFuncComment (update_comments cs (S\<lparr>m_ghidraTypesByName := x\<rparr>)) = m_addrToOriginalFuncComment (update_comments cs S)"
  "m_addrToCommentField (update_comments cs (S\<lparr>m_ghidraTypesByName := x\<rparr>)) = m_addrToCommentField (update_comments cs S)"
  using update_comments_cong [of "S\<lparr>m_ghidraTypesByName := x\<rparr>" S cs] by simp_all

lemma rebase_types [baseline_simps]: "rebase_of (S\<lparr>m_ghidraTypesByName := x\<rparr>) V = rebase_of S V"
  by (simp add: rebase_of_def)

lemma preview_fields:
  assumes "collectCheckinChanges S (Some V) = Inr p" "m_checkinItem S \<noteq> []"
  shows "pv_renames p = collect_renames S V" "pv_comments p = collect_comments S V"
    "pv_equateRenames p = collect_equateRenames S V" "collect_bookmarks S V = Inr (pv_bookmarkChanges p)"
    "pv_paramRenames p = collect_paramRenames S V" "pv_dataTypeChanges p = collect_dataTypes S V"
    "pv_dataItemChanges p = collect_dataItems S V" "pv_funcSigChanges p = collect_funcSigs S V"
    "pv_newSymbols p = collect_newSymbols S V" "pv_newParams p = collect_newParams S V"
    "pv_newEquateRefs p = collect_newEquateRefs S V"
  using assms by (auto simp: collectCheckinChanges_def result_simps)

text \<open>The arrays a check-in sends, and the outcome of one that failed\<close>

definition sent_body :: "'j json_lib \<Rightarrow> checkin_state \<Rightarrow> bn_view \<Rightarrow> GhidraCheckinPreview \<Rightarrow> 'j" where
  "sent_body J S V p = buildCheckinJson J p (rebase_of S V) (m_addrToOriginalFuncComment S) (m_addrToCommentField S)"

definition failed_checkin :: "checkin_state \<Rightarrow> string \<Rightarrow> checkin_outcome" where
  "failed_checkin S e = \<lparr>out_ok = False, out_error = e, out_warnings = [], out_state = S\<rparr>"

text \<open>A check-in that sends exactly what the diff found, and succeeds\<close>

definition checked_in ::
    "'j json_lib \<Rightarrow> ('j \<Rightarrow> nat \<Rightarrow> 'j result) \<Rightarrow> bn_view \<Rightarrow> string \<Rightarrow> checkin_state \<Rightarrow> checkin_state \<Rightarrow> bool" where
  "checked_in J send V comment S T \<longleftrightarrow>
     (case collectCheckinChanges S (Some V) of
        Inl _ \<Rightarrow> False
      | Inr p \<Rightarrow> let out = checkin J True True send V p comment [] S in out_ok out \<and> out_state out = T)"

lemma checked_inE:
  assumes "checked_in J send V comment S T"
  obtains p ids where "collectCheckinChanges S (Some V) = Inr p" "m_checkinItem S \<noteq> []"
    "T = update_baselines V p (apply_type_ids ids S)"
proof -
  from assms obtain p where p: "collectCheckinChanges S (Some V) = Inr p"
      "out_ok (checkin J True True send V p comment [] S)" "out_state (checkin J True True send V p comment [] S) = T"
    by (auto simp: checked_in_def Let_def split: sum.splits)
  moreover from p(2) have "m_checkinItem S \<noteq> []" by (auto simp: checkin_def)
  ultimately show ?thesis using checkin_ok_state [OF p(2)] that by blast
qed

text \<open>The baselines of \<open>T\<close> in terms of \<open>S\<close> and what the diff found\<close>

lemma checkin_fields:
  assumes p: "collectCheckinChanges S (Some V) = Inr p" "m_checkinItem S \<noteq> []"
    and T: "T = update_baselines V p (apply_type_ids ids S)"
  shows "symbols_recorded S V T" "rebase_of T V = rebase_of S V" "m_checkinItem T = m_checkinItem S"
    "m_addrToKey T = m_addrToKey S"
    "m_addrToOriginalComment T = m_addrToOriginalComment (update_comments (collect_comments S V) S)"
    "m_addrToOriginalFuncComment T = m_addrToOriginalFuncComment (update_comments (collect_comments S V) S)"
    "m_ghidraTypesByName T = fold update_dataType (collect_dataTypes S V) (fold set_type_id ids (m_ghidraTypesByName S))"
    "m_paramKeyByAddrOrdinal T = m_paramKeyByAddrOrdinal S" "m_localKeyByAddrOffset T = m_localKeyByAddrOffset S"
    "m_paramOriginalNameByKey T = update_all pr_key pr_name (collect_paramRenames S V) (m_paramOriginalNameByKey S)"
    "m_paramOriginalTypeByKey T =
       update_all pr_key pr_typeName (filter (\<lambda>r. pr_typeName r \<noteq> []) (collect_paramRenames S V)) (m_paramOriginalTypeByKey S)"
    "m_newParamBaseline T =
      fold (\<lambda>q. update2 (ghidra_va (rebase_of S V) (np_funcAddr q)) (np_ordinal q) (np_name q))
       (filter (\<lambda>q. \<not> np_isLocal q) (collect_newParams S V)) (m_newParamBaseline S)"
    "m_newRegLocalBaseline T =
      fold (\<lambda>q. update2 (ghidra_va (rebase_of S V) (np_funcAddr q)) (np_ordinal q) (np_name q))
       (filter np_isLocal (collect_newParams S V)) (m_newRegLocalBaseline S)"
    "collect_bookmarks S V = Inr (pv_bookmarkChanges p)"
    "m_ghidraBookmarkKeys T = m_ghidraBookmarkKeys (update_bookmarks (rebase_of S V) (pv_bookmarkChanges p) S)"
    "m_ghidraDataItemAddrs T = m_ghidraDataItemAddrs (update_dataItems (rebase_of S V) (collect_dataItems S V) S)"
    "m_equateOriginalNameById T = update_all qr_id qr_name (collect_equateRenames S V) (m_equateOriginalNameById S)"
    "m_equateValueById T = m_equateValueById S"
    "m_equateRefsByEquateId T = m_equateRefsByEquateId (update_equateRefs (rebase_of S V) (collect_newEquateRefs S V) S)"
    "m_funcOriginalCC T = m_funcOriginalCC (update_funcSigs (collect_funcSigs S V) S)"
    "m_funcOriginalRetType T = m_funcOriginalRetType (update_funcSigs (collect_funcSigs S V) S)"
  unfolding T
  by (simp_all add: symbols_recorded_def baseline_simps preview_fields [OF p]
      update_dataItems_def update_equateRefs_def update_funcSigs_def update_bookmarks_def)

text \<open>Everything one check-in needs in order to settle the whole preview\<close>

definition view_settles :: "checkin_state \<Rightarrow> bn_view \<Rightarrow> bool" where
  "view_settles S V \<longleftrightarrow>
     distinct_keys (bv_types V) \<and> distinct_keys (bv_dataVariables V) \<and>
     distinct (map fn_start (bv_functionList V)) \<and> distinct (map fst (var_checks S V)) \<and>
     slots_unique (new_params S V) \<and> slots_unique (new_regLocals V) \<and>
     collect_equateRenames S V = [] \<and> comments_settle S V \<and> sigs_settle S V \<and>
     (\<forall>k \<in> set (current_bookmarks S V) - set (m_ghidraBookmarkKeys S). tag_roundtrips (bk_tagData k)) \<and>
     (\<forall>k \<in> set (m_ghidraBookmarkKeys S) - set (current_bookmarks S V). bk_tagData k = [])"

lemma converges:
  assumes c: "checked_in J send V comment S T" and wf: "checkin_wf S" and v: "view_settles S V"
  shows "collectCheckinChanges T (Some V) = Inr default_GhidraCheckinPreview"
proof -
  from c obtain p ids where p: "collectCheckinChanges S (Some V) = Inr p" "m_checkinItem S \<noteq> []"
    and T: "T = update_baselines V p (apply_type_ids ids S)" by (rule checked_inE)
  note f = checkin_fields [OF p T]
  have w: "distinct_keys (m_ghidraTypesByName S)" "distinct_keys (m_equateOriginalNameById S)"
    "distinct_keys (m_addrToKey S)" "distinct_keys (m_funcOriginalCC S)" "wf_bookmarks S"
    using wf by (auto simp: checkin_wf_def wf_types_def wf_equates_def wf_symbols_def wf_funcSigs_def)
  have eq: "collect_equateRenames S V = []" using v by (simp add: view_settles_def)
  have n: "m_equateOriginalNameById T = m_equateOriginalNameById S" using f(17) by (simp add: eq update_all_def)
  show ?thesis
    using renames_converge [OF f(1)] newSymbols_converge [OF f(1)]
      comments_converge [OF f(5,6)] dataTypes_converge [OF f(7)] paramRenames_converge [OF f(2,8,9,10,11)]
      newParams_converge [OF f(2,8,12,13)] bookmarks_converge [OF f(2) w(5) f(14,15)]
      dataItems_converge [OF f(2,16)] equateRenames_converge [OF f(17) w(2)]
      newEquateRefs_converge [OF f(2,19) n f(18)] funcSigs_converge [OF f(4,20,21) w(3,4)]
      v w f(3) p(2)
    by (simp add: view_settles_def collectCheckinChanges_def default_GhidraCheckinPreview_def)
qed

section \<open>The invariant is kept\<close>

lemma wf_symbols_comments: "wf_symbols S \<Longrightarrow> wf_symbols (update_comments cs S)"
  unfolding update_comments_def
  by (rule fold_invariant_step) (auto simp: wf_symbols_def update_comment_def umap_simps)

lemma wf_types_kept:
  assumes "distinct_keys m" "\<forall>(n, dt) \<in> set m. dt_name dt = n"
  shows "distinct_keys (fold update_dataType cs (fold set_type_id ids m)) \<and>
    (\<forall>(n, dt) \<in> set (fold update_dataType cs (fold set_type_id ids m)). dt_name dt = n)"
proof -
  let ?P = "\<lambda>m. distinct_keys m \<and> (\<forall>(n, dt) \<in> set m. dt_name dt = n)"
  have u: "?P (update_dataType c m)" if "?P m" for c m
    using that set_delete_subset [of "tc_name c" m]
    by (auto simp: update_dataType_def umap_simps stored_type_def dest!: in_update_D)
  have i: "?P (set_type_id e m)" if "?P m" for e m
    using that by (cases e) (auto simp: set_type_id_def umap_simps split: option.split dest!: in_update_D map_of_SomeD)
  have "?P (fold set_type_id ids m)" by (rule fold_invariant_step) (use assms i in auto)
  then show ?thesis by (rule fold_invariant_step [where P = ?P]) (use u in auto)
qed

lemma distinct2_fold: "distinct2 m \<Longrightarrow> distinct2 (fold (\<lambda>q. update2 (f q) (g q) (h q)) xs m)"
  by (rule fold_invariant_step) (auto intro: distinct2_update2)

lemma wf_bookmarks_kept:
  assumes "wf_bookmarks S"
  shows "distinct (m_ghidraBookmarkKeys (update_bookmarks rb bs S))"
    "\<forall>k \<in> set (m_ghidraBookmarkKeys (update_bookmarks rb bs S)). starts_with ''Ghidra: '' (bk_tagTypeName k)"
    "distinct (m_ghidraDataItemAddrs (update_dataItems rb ds S))"
proof -
  let ?P = "\<lambda>ks. distinct ks \<and> (\<forall>k \<in> set ks. starts_with ''Ghidra: '' (bk_tagTypeName k))"
  have "?P (m_ghidraBookmarkKeys (update_bookmarks rb bs S))"
    unfolding update_bookmarks_def checkin_state.simps
    by (simp, rule fold_invariant_step [where P = ?P])
      (use assms in \<open>auto simp: wf_bookmarks_def change_key_def bookmark_tagTypeName_def starts_with_def distinct_removeAll\<close>)
  then show "distinct (m_ghidraBookmarkKeys (update_bookmarks rb bs S))"
    "\<forall>k \<in> set (m_ghidraBookmarkKeys (update_bookmarks rb bs S)). starts_with ''Ghidra: '' (bk_tagTypeName k)" by auto
  show "distinct (m_ghidraDataItemAddrs (update_dataItems rb ds S))"
    unfolding update_dataItems_def
    by (simp, rule fold_invariant_step) (use assms in \<open>auto simp: wf_bookmarks_def Let_def distinct_removeAll\<close>)
qed

lemma newEquateRefs_ids: "r \<in> set (collect_newEquateRefs S V) \<Longrightarrow> nr_equateId r \<in> fst ` set (m_equateOriginalNameById S)"
  by (auto simp: in_newEquateRefs in_display_sites intro: rev_image_eqI)

lemma refs_ok_fold:
  "refs_ok ids m \<Longrightarrow> (\<And>r. r \<in> set rs \<Longrightarrow> f r \<in> ids) \<Longrightarrow> refs_ok ids (fold (\<lambda>r. insert_ref (f r) (g r)) rs m)"
  by (rule fold_invariant_step) (auto intro: insert_ref_ok)

lemma checked_in_wf:
  assumes c: "checked_in J send V comment S T" and wf: "checkin_wf S"
  shows "checkin_wf T"
proof -
  from c obtain p ids where p: "collectCheckinChanges S (Some V) = Inr p" "m_checkinItem S \<noteq> []"
    and T: "T = update_baselines V p (apply_type_ids ids S)" by (rule checked_inE)
  note f = checkin_fields [OF p T]
  have w: "wf_symbols S" "wf_types S" "wf_params S" "wf_bookmarks S" "wf_equates S" "wf_funcSigs S"
    using wf by (auto simp: checkin_wf_def)
  have "wf_symbols T"
    using w(1) wf_symbols_comments [OF w(1), of "pv_comments p"]
    by (simp add: wf_symbols_def T baseline_simps distinct_keys_update_all)
  moreover have "wf_types T"
    using w(2) wf_types_kept unfolding wf_types_def f(7) by blast
  moreover have "wf_params T"
    unfolding wf_params_def f(8-13)
    using w(3) by (auto simp: wf_params_def distinct_keys_update_all has_key_update_all intro: distinct2_fold elim: all2_mono)
  moreover have "wf_bookmarks T"
    unfolding wf_bookmarks_def f(15,16) using wf_bookmarks_kept [OF w(4)] by blast
  moreover have "wf_equates T"
  proof -
    have ids: "qr_id ` set (collect_equateRenames S V) \<subseteq> fst ` set (m_equateOriginalNameById S)"
      by (force simp: in_equateRenames)
    have "refs_ok (fst ` set (m_equateOriginalNameById S)) (m_equateRefsByEquateId T)"
      unfolding f(19) update_equateRefs_def
      by (simp, rule refs_ok_fold) (use w(5) newEquateRefs_ids in \<open>auto simp: wf_equates_def refs_ok_def\<close>)
    then show ?thesis
      using w(5) ids unfolding wf_equates_def f(17,18) refs_ok_def
      by (auto simp: distinct_keys_update_all keys_update_all)
  qed
  moreover have "wf_funcSigs T"
    unfolding wf_funcSigs_def f(20,21) using w(6)
    by (auto simp: T baseline_simps wf_funcSigs_def update_funcSigs_def distinct_keys_update_all dest!: range_update_all)
  ultimately show ?thesis by (simp add: checkin_wf_def)
qed

section \<open>A worked example\<close>

text \<open>A bridge that accepts every check-in, reports a database id for the new type \<open>Bar\<close> and that no symbol was applied\<close>

definition ok_send :: "jtree \<Rightarrow> nat \<Rightarrow> jtree result" where
  "ok_send req timeout =
     Inr (JObj [(''ok'', JBool True), (''added_type_ids'', JObj [(''Bar'', JNum 99)]),
       (''applied'', JObj [(''symbols'', JNum 0)])])"

definition sample_param :: bn_variable where
  "sample_param = \<lparr>va_type = RegisterVariableSourceType, va_storage = 7, va_identifier = 1\<rparr>"

definition sample_counter :: bn_variable where
  "sample_counter = \<lparr>va_type = RegisterVariableSourceType, va_storage = 3, va_identifier = 2\<rparr>"

definition sample_function :: bn_function where
  "sample_function =
     \<lparr>fn_start = 4198400, fn_comment = [], fn_parameterVariables = [sample_param],
      fn_variables = [(sample_param, ''count''), (sample_counter, ''total'')],
      fn_variableName = (\<lambda>v. if v = sample_param then ''count'' else ''total''),
      fn_variableType = (\<lambda>v. Some ''int32_t''), fn_hasUserType = True,
      fn_callingConvention = Some ''stdcall'', fn_returnType = Some ''int64_t'', fn_defaultCC = None\<rparr>"

definition sample_view :: bn_view where
  "sample_view =
     \<lparr>bv_start = 4194304,
      bv_symbolByAddress = (\<lambda>a. if a = 4198400 then Some ''start'' else None),
      bv_symbols =
        [\<lparr>bs_address = 4198400, bs_type = FunctionSymbol, bs_fullName = ''start''\<rparr>,
         \<lparr>bs_address = 4202496, bs_type = DataSymbol, bs_fullName = ''table''\<rparr>,
         \<lparr>bs_address = 4198480, bs_type = FunctionSymbol, bs_fullName = ''sub_401050''\<rparr>],
      bv_commentedAddresses = [4198404],
      bv_commentForAddress = (\<lambda>a. if a = 4198404 then ''entry point'' else []),
      bv_functionList = [sample_function],
      bv_functionsForAddress = (\<lambda>a. if a = 4198400 then [sample_function] else []),
      bv_userTypes = Some [''Foo'', ''Bar''],
      bv_types =
        [(''Foo'', StructureType False 4 [\<lparr>bn_name = ''a'', bn_offset = 0, bn_width = 4, bn_typeString = ''int32_t''\<rparr>]),
         (''Bar'', EnumerationType 4 [\<lparr>be_name = ''ONE'', be_value = 1\<rparr>])],
      bv_registerNames = [''rax'', ''rcx''],
      bv_tagReferences =
        [\<lparr>tr_addr = 4198400, tr_tag = Some (Some ''Ghidra: Note'', ''[todo] look'')\<rparr>,
         \<lparr>tr_addr = 4198404, tr_tag = Some (Some ''Ghidra: Note'', ''[x] y'')\<rparr>],
      bv_dataVariables =
        [(4202496, \<lparr>dv_autoDiscovered = False, dv_type = Some ''Foo''\<rparr>),
         (4202512, \<lparr>dv_autoDiscovered = False, dv_type = Some ''int32_t''\<rparr>)],
      bv_typeById = (\<lambda>i. if i = ''ghidra_eq_5'' then Some (Some [\<lparr>be_name = ''MAX'', be_value = 16\<rparr>]) else None),
      bv_codeReferencesForType = (\<lambda>n. if n = ''MAX''
        then [\<lparr>ct_addr = 4198404, ct_site = Some (\<lambda>v i. (i = 1 \<or> i = 2, Some ''ghidra_eq_5''))\<rparr>] else [])\<rparr>"

definition sample_state :: checkin_state where
  "sample_state = storeCheckinState sample_args initial_checkin"

definition sample_after :: checkin_state where
  "sample_after =
     (case collectCheckinChanges sample_state (Some sample_view) of
        Inl _ \<Rightarrow> sample_state
      | Inr p \<Rightarrow> out_state (checkin tree_json True True ok_send sample_view p ''edits'' [] sample_state))"

lemma sample_ok:
  "case collectCheckinChanges sample_state (Some sample_view) of
     Inl _ \<Rightarrow> False
   | Inr p \<Rightarrow> out_ok (checkin tree_json True True ok_send sample_view p ''edits'' [] sample_state)"
  by code_simp

lemma sample_checked_in: "checked_in tree_json ok_send sample_view ''edits'' sample_state sample_after"
  using sample_ok by (auto simp: checked_in_def sample_after_def Let_def split: sum.splits)

lemma sample_short:
  "case collectCheckinChanges sample_state (Some sample_view) of
     Inl _ \<Rightarrow> False
   | Inr p \<Rightarrow> out_warnings (checkin tree_json True True ok_send sample_view p ''edits'' [] sample_state) = [(0, 2, ''symbols'')]"
  by code_simp

lemma sample_wf: "checkin_wf sample_state"
  by code_simp

lemma sample_nontrivial:
  "case collectCheckinChanges sample_state (Some sample_view) of
     Inl _ \<Rightarrow> False
   | Inr p \<Rightarrow> map sr_newName (pv_renames p) = [''start''] \<and> map ns_name (pv_newSymbols p) = [''table''] \<and>
       map cc_text (pv_comments p) = [''entry point''] \<and> map tc_op (pv_dataTypeChanges p) = [''update'', ''add''] \<and>
       map pr_name (pv_paramRenames p) = [''count''] \<and> map np_name (pv_newParams p) = [''total''] \<and>
       map bc_category (pv_bookmarkChanges p) = [''x''] \<and> map ic_addr (pv_dataItemChanges p) = [4202512] \<and>
       map sc_returnTypeName (pv_funcSigChanges p) = [''int64_t''] \<and> map nr_opIndex (pv_newEquateRefs p) = [2]"
  by code_simp

lemma sample_sigs: "sigs_settle sample_state sample_view"
proof -
  have "\<forall>(key, cc) \<in> set (m_funcOriginalCC sample_state). has_key (m_funcOriginalRetType sample_state) key" by code_simp
  then show ?thesis by (auto simp: sigs_settle_def sample_view_def)
qed

lemma sample_settles: "view_settles sample_state sample_view"
proof -
  have "distinct_keys (bv_types sample_view)" "distinct_keys (bv_dataVariables sample_view)"
    "distinct (map fn_start (bv_functionList sample_view))" "distinct (map fst (var_checks sample_state sample_view))"
    "slots_unique (new_params sample_state sample_view)" "slots_unique (new_regLocals sample_view)"
    "collect_equateRenames sample_state sample_view = []" "comments_settle sample_state sample_view"
    "\<forall>k \<in> set (filter (\<lambda>k. k \<notin> set (m_ghidraBookmarkKeys sample_state)) (current_bookmarks sample_state sample_view)). tag_roundtrips (bk_tagData k)"
    "\<forall>k \<in> set (filter (\<lambda>k. k \<notin> set (current_bookmarks sample_state sample_view)) (m_ghidraBookmarkKeys sample_state)). bk_tagData k = []"
    by code_simp+
  with sample_sigs show ?thesis by (simp add: view_settles_def)
qed

section \<open>Properties\<close>

text \<open>
  C1: a check-in settles the preview. If the diff of a view against a well-formed state was sent and
  accepted, and the view meets the conditions of \<open>view_settles\<close>, then the next diff of the same view
  is empty in all eleven categories. This holds for every count of applied items the bridge reports: an item it left out is
  not reported again either, although the warning the check-in logs for it says that it will re-appear in the next
  preview. In the witness no symbol was applied, the warning is given, and the next diff is empty.
\<close>

theorem checkin_converges:
  assumes "checked_in J send V comment S T" and "checkin_wf S" and "view_settles S V"
  shows "collectCheckinChanges T (Some V) = Inr default_GhidraCheckinPreview"
  using assms by (rule converges)

theorem checkin_converges_witness:
  "(case collectCheckinChanges sample_state (Some sample_view) of
      Inl _ \<Rightarrow> False
    | Inr p \<Rightarrow> out_warnings (checkin tree_json True True ok_send sample_view p ''edits'' [] sample_state) = [(0, 2, ''symbols'')]) \<and>
   collectCheckinChanges sample_after (Some sample_view) = Inr default_GhidraCheckinPreview"
  using sample_short checkin_converges [OF sample_checked_in sample_wf sample_settles] by (rule conjI)

text \<open>
  Symbol changes are always settled. After any accepted check-in no rename and no new symbol is
  reported again, whatever the view contains.
\<close>

theorem checkin_settles_symbols:
  assumes "checked_in J send V comment S T"
  shows "collect_renames T V = [] \<and> collect_newSymbols T V = []"
proof -
  from assms obtain p ids where "collectCheckinChanges S (Some V) = Inr p" "m_checkinItem S \<noteq> []"
    "T = update_baselines V p (apply_type_ids ids S)" by (rule checked_inE)
  from checkin_fields(1) [OF this] show ?thesis by (simp add: renames_converge newSymbols_converge)
qed

theorem checkin_settles_symbols_witness:
  "collect_renames sample_after sample_view = [] \<and> collect_newSymbols sample_after sample_view = []"
  by (rule checkin_settles_symbols [OF sample_checked_in])

text \<open>
  Data types, data items and equate names are settled: after an accepted check-in from a
  well-formed state no type addition, update or deletion, no data item and no equate rename is
  reported again, given that the view's type and data-variable maps have one entry per key.
\<close>

theorem checkin_settles_types_and_data:
  assumes "checked_in J send V comment S T" and "checkin_wf S"
    and "distinct_keys (bv_types V)" and "distinct_keys (bv_dataVariables V)"
  shows "collect_dataTypes T V = [] \<and> collect_dataItems T V = [] \<and> collect_equateRenames T V = []"
proof -
  from assms(1) obtain p ids where "collectCheckinChanges S (Some V) = Inr p" "m_checkinItem S \<noteq> []"
    "T = update_baselines V p (apply_type_ids ids S)" by (rule checked_inE)
  note f = checkin_fields [OF this]
  have "distinct_keys (m_ghidraTypesByName S)" "distinct_keys (m_equateOriginalNameById S)"
    using assms(2) by (auto simp: checkin_wf_def wf_types_def wf_equates_def)
  then show ?thesis
    using dataTypes_converge [OF f(7) assms(3)] dataItems_converge [OF f(2,16) assms(4)] equateRenames_converge [OF f(17)]
    by simp
qed

theorem checkin_settles_types_and_data_witness:
  "collect_dataTypes sample_after sample_view = [] \<and> collect_dataItems sample_after sample_view = [] \<and>
   collect_equateRenames sample_after sample_view = []"
  by (rule checkin_settles_types_and_data [OF sample_checked_in sample_wf])
    (simp_all add: sample_view_def distinct_keys_def)

text \<open>
  Variables are settled when no two of them compete: if every comparison of a parameter or local
  goes to its own database key and no two new variables claim one slot of a function under different
  names, no variable is reported again after an accepted check-in.
\<close>

theorem checkin_settles_variables:
  assumes "checked_in J send V comment S T" and "distinct (map fst (var_checks S V))"
    and "slots_unique (new_params S V)" and "slots_unique (new_regLocals V)"
  shows "collect_paramRenames T V = [] \<and> collect_newParams T V = []"
proof -
  from assms(1) obtain p ids where "collectCheckinChanges S (Some V) = Inr p" "m_checkinItem S \<noteq> []"
    "T = update_baselines V p (apply_type_ids ids S)" by (rule checked_inE)
  note f = checkin_fields [OF this]
  from paramRenames_converge [OF f(2,8,9,10,11)] newParams_converge [OF f(2,8,12,13)] assms show ?thesis by simp
qed

theorem checkin_settles_variables_witness:
  "collect_paramRenames sample_after sample_view = [] \<and> collect_newParams sample_after sample_view = []"
  by (rule checkin_settles_variables [OF sample_checked_in]) (use sample_settles in \<open>simp_all add: view_settles_def\<close>)

text \<open>
  C15: the state invariant is kept: an accepted check-in of a collected preview leaves a well-formed
  state for the same item.
\<close>

theorem checkin_keeps_wf:
  assumes "checked_in J send V comment S T" and "checkin_wf S"
  shows "checkin_wf T \<and> m_checkinItem T = m_checkinItem S \<and> m_imageBase T = m_imageBase S"
proof -
  from assms(1) obtain p ids where "T = update_baselines V p (apply_type_ids ids S)" by (rule checked_inE)
  with checked_in_wf [OF assms] show ?thesis by (simp add: baseline_simps)
qed

theorem checkin_keeps_wf_witness:
  "checkin_wf sample_after \<and> m_checkinItem sample_after = m_checkinItem sample_state \<and>
   m_imageBase sample_after = m_imageBase sample_state"
  by (rule checkin_keeps_wf [OF sample_checked_in sample_wf])

text \<open>
  C2: a check-in that fails leaves the state as it was, with no warnings, so the same preview can be sent again. The
  three guards are checked in order, each with its text, before anything is sent: the outcome does not depend on the
  bridge. A request that cannot be sent reports the exception's text; a refusal reports the text of the response, or a
  default; an exception while the response is read reports its text.
\<close>

theorem checkin_failure_atomic:
  "(\<not> out_ok (checkin J bc sc send V p comment err S) \<longrightarrow>
      out_state (checkin J bc sc send V p comment err S) = S \<and> out_warnings (checkin J bc sc send V p comment err S) = []) \<and>
   (\<not> bc \<longrightarrow> checkin J bc sc send V p comment err S = failed_checkin S ''Bridge not connected'') \<and>
   (bc \<and> \<not> sc \<longrightarrow> checkin J bc sc send V p comment err S = failed_checkin S ''Not connected to server'') \<and>
   (bc \<and> sc \<and> m_checkinItem S = [] \<longrightarrow>
      checkin J bc sc send V p comment err S = failed_checkin S (''No import '' @ map char_of [226 :: nat, 128, 148] @ '' import first'')) \<and>
   (bc \<and> sc \<and> m_checkinItem S \<noteq> [] \<longrightarrow>
      (case send (checkin_request J S V p comment) 120000 of
         Inl what \<Rightarrow> checkin J bc sc send V p comment err S = failed_checkin S what
       | Inr resp \<Rightarrow>
           (\<forall>e. jl_value_bool J resp ''ok'' False = Inl e \<longrightarrow> checkin J bc sc send V p comment err S = failed_checkin S e) \<and>
           (jl_value_bool J resp ''ok'' False = Inr False \<longrightarrow>
              (\<forall>e. jl_value_string J resp ''error'' ''checkin failed'' \<in> {Inr e, Inl e} \<longrightarrow>
                checkin J bc sc send V p comment err S = failed_checkin S e)) \<and>
           (jl_value_bool J resp ''ok'' False = Inr True \<longrightarrow>
              (\<forall>ws e. applied_warnings J (sent_body J S V p) resp = Inl e \<or>
                  applied_warnings J (sent_body J S V p) resp = Inr ws \<and> added_type_ids J resp = Inl e \<longrightarrow>
                checkin J bc sc send V p comment err S = failed_checkin S e))))"
proof (intro conjI impI)
  assume "\<not> out_ok (checkin J bc sc send V p comment err S)"
  then show "out_state (checkin J bc sc send V p comment err S) = S"
    and "out_warnings (checkin J bc sc send V p comment err S) = []"
    by (auto simp: checkin_def Let_def split: if_splits sum.splits)
next
  assume "bc \<and> sc \<and> m_checkinItem S \<noteq> []"
  then have go: "checkin J bc sc send V p comment err S =
      (case checkin_exchange J send V p comment S of
         Inl what \<Rightarrow> failed_checkin S what | Inr (Inl e) \<Rightarrow> failed_checkin S e
       | Inr (Inr (ws, S')) \<Rightarrow> \<lparr>out_ok = True, out_error = err, out_warnings = ws, out_state = S'\<rparr>)"
    by (simp add: checkin_def failed_checkin_def Let_def split: sum.split)
  show "case send (checkin_request J S V p comment) 120000 of
         Inl what \<Rightarrow> checkin J bc sc send V p comment err S = failed_checkin S what
       | Inr resp \<Rightarrow>
           (\<forall>e. jl_value_bool J resp ''ok'' False = Inl e \<longrightarrow> checkin J bc sc send V p comment err S = failed_checkin S e) \<and>
           (jl_value_bool J resp ''ok'' False = Inr False \<longrightarrow>
              (\<forall>e. jl_value_string J resp ''error'' ''checkin failed'' \<in> {Inr e, Inl e} \<longrightarrow>
                checkin J bc sc send V p comment err S = failed_checkin S e)) \<and>
           (jl_value_bool J resp ''ok'' False = Inr True \<longrightarrow>
              (\<forall>ws e. applied_warnings J (sent_body J S V p) resp = Inl e \<or>
                  applied_warnings J (sent_body J S V p) resp = Inr ws \<and> added_type_ids J resp = Inl e \<longrightarrow>
                checkin J bc sc send V p comment err S = failed_checkin S e))"
    unfolding go by (auto simp: checkin_exchange_def sent_body_def Let_def split: sum.split)
qed (simp_all add: checkin_def failed_checkin_def Let_def)

theorem checkin_failure_atomic_witness:
  "checkin tree_json True True (\<lambda>req t. Inr (JObj [(''ok'', JBool False), (''error'', JStr ''locked'')])) sample_view
     default_GhidraCheckinPreview ''edits'' [] sample_state = failed_checkin sample_state ''locked''"
proof -
  have "m_checkinItem sample_state \<noteq> []" by code_simp
  then show ?thesis
    using checkin_failure_atomic [where J = tree_json and bc = True and sc = True and
        send = "\<lambda>req t. Inr (JObj [(''ok'', JBool False), (''error'', JStr ''locked'')])"
        and V = sample_view and p = default_GhidraCheckinPreview and comment = "''edits''" and err = "[]" and S = sample_state]
    by (simp add: tree_json_with_def)
qed

end
