(* ===== verification/Resurfacing.thy ===== *)
theory Resurfacing
  imports Convergence
begin

text \<open>
  Changes the code reports again after they were accepted. Each theorem gives a condition on the
  state and the view under which an accepted check-in does not settle a category, and names the
  update in \<open>checkin\<close> responsible.
\<close>

section \<open>What a check-in does not settle\<close>

lemma type_change_add:
  "type_change S us n t = Some c \<Longrightarrow> tc_op c = ''add'' \<Longrightarrow>
   map_of (m_ghidraTypesByName S) (tc_name c) = None \<and> tc_ghidraId c = 0"
  by (cases "map_of (m_ghidraTypesByName S) n") (auto simp: type_change_Some dest: change_of_type_name)

lemma type_id_zero:
  assumes c: "checked_in J send V comment S T" and wf: "checkin_wf S" "distinct_keys (bv_types V)"
    and ch: "ch \<in> set (collect_dataTypes S V)" "tc_op ch = ''add''"
  shows "\<exists>dt. map_of (m_ghidraTypesByName T) (tc_name ch) = Some dt \<and> dt_id dt = 0"
proof -
  from c obtain p ids where p: "collectCheckinChanges S (Some V) = Inr p" "m_checkinItem S \<noteq> []"
    and T: "T = update_baselines V p (apply_type_ids ids S)" by (rule checked_inE)
  have d: "distinct_keys (m_ghidraTypesByName S)" using wf(1) by (simp add: checkin_wf_def wf_types_def)
  have "ch \<in> set (collect_typeChanges S V)" using ch by (auto simp: collect_dataTypes_eq [OF d] deletion_def)
  then have none: "map_of (m_ghidraTypesByName S) (tc_name ch) = None" and id0: "tc_ghidraId ch = 0"
    using ch(2) by (auto simp: in_typeChanges dest!: type_change_add)
  have "find (\<lambda>c. tc_name c = tc_name ch) (collect_dataTypes S V) = Some ch"
  proof -
    have "inj_on tc_name (set (collect_dataTypes S V))" using dataTypes_distinct [OF wf(2) d] by (simp add: distinct_map)
    moreover obtain c' where c': "find (\<lambda>c. tc_name c = tc_name ch) (collect_dataTypes S V) = Some c'"
      using ch(1) by (cases "find (\<lambda>c. tc_name c = tc_name ch) (collect_dataTypes S V)") (auto simp: find_None_iff)
    moreover from c' have "c' \<in> set (collect_dataTypes S V)" "tc_name c' = tc_name ch" by (auto simp: find_Some_iff)
    ultimately show ?thesis using ch(1) by (auto dest: inj_onD)
  qed
  then have "map_of (m_ghidraTypesByName T) (tc_name ch) =
      Some (stored_type ch (find_or (fold set_type_id ids (m_ghidraTypesByName S)) (tc_name ch) default_GhidraDataType))"
    using ch(2) unfolding checkin_fields(7) [OF p T] map_of_update_dataTypes [OF dataTypes_distinct [OF wf(2) d]] by simp
  moreover have "find_or (fold set_type_id ids (m_ghidraTypesByName S)) (tc_name ch) default_GhidraDataType = default_GhidraDataType"
    using none by (simp add: find_or_def set_type_id_map(1) [THEN iffD2])
  ultimately show ?thesis by (simp add: stored_type_def id0 default_GhidraDataType_def)
qed

lemma bookmark_delete_again:
  assumes c: "checked_in J send V comment S T" and wf: "checkin_wf S"
    and k: "k \<in> set (m_ghidraBookmarkKeys S)" "k \<notin> set (current_bookmarks S V)" "bk_tagData k \<noteq> []"
  shows "\<exists>bs. collect_bookmarks T V = Inr bs \<and> delete_change (rebase_of S V) k \<in> set bs"
proof -
  from c obtain p ids where p: "collectCheckinChanges S (Some V) = Inr p" "m_checkinItem S \<noteq> []"
    and T: "T = update_baselines V p (apply_type_ids ids S)" by (rule checked_inE)
  note f = checkin_fields [OF p T]
  have w: "wf_bookmarks S" "wf_bookmarks T" using wf checked_in_wf [OF c wf] by (auto simp: checkin_wf_def)
  have "k \<in> set (m_ghidraBookmarkKeys T)" by (rule bookmark_delete_stays [OF w(1) f(14,15) k(1,3)])
  moreover have "current_bookmarks T V = current_bookmarks S V" by (simp add: current_bookmarks_eq f(2))
  ultimately show ?thesis using k(2) by (auto simp: collect_bookmarks_eq [OF w(2)] f(2))
qed

lemma func_comment_again:
  assumes c: "checked_in J send V comment S T" and starts: "distinct (map fn_start (bv_functionList V))"
    and f: "f \<in> set (bv_functionList V)" "fn_comment f \<noteq> []" "fn_start f \<notin> set (bv_commentedAddresses V)"
    and new: "\<not> has_key (m_addrToOriginalComment S) (fn_start f)" "\<not> has_key (m_addrToOriginalFuncComment S) (fn_start f)"
  shows "\<exists>ch. ch \<in> set (collect_comments S V) \<and> ch \<in> set (collect_comments T V) \<and> cc_addr ch = fn_start f \<and> cc_text ch = fn_comment f"
proof -
  from c obtain p ids where p: "collectCheckinChanges S (Some V) = Inr p" "m_checkinItem S \<noteq> []"
    and T: "T = update_baselines V p (apply_type_ids ids S)" by (rule checked_inE)
  note g = checkin_fields [OF p T]
  let ?c = "\<lparr>cc_addr = fn_start f, cc_text = fn_comment f, cc_encodedKey = find_or (m_addrToCommentKey S) (fn_start f) []\<rparr>"
  have key: "m_addrToCommentKey T = m_addrToCommentKey S" by (simp add: T baseline_simps)
  have rep: "?c \<in> set (collect_comments R V)"
    if "map_of (m_addrToOriginalFuncComment R) (fn_start f) = None" "m_addrToCommentKey R = m_addrToCommentKey S" for R
  proof -
    have "fn_start f \<notin> cc_addr ` set (collect_addrComments R V)" using f(3) by (auto simp: in_addrComments)
    moreover have "func_comment_changed R f" using that f(2) by (simp add: func_comment_changed_def find_or_def)
    ultimately show ?thesis using f(1) that(2) unfolding collect_comments_def fold_funcComment [OF starts] by auto
  qed
  have "map_of (m_addrToOriginalFuncComment T) (fn_start f) = map_of (m_addrToOriginalFuncComment S) (fn_start f)"
  proof -
    have "cc_text ch = fn_comment f" if ch: "ch \<in> set (collect_comments S V)" "cc_addr ch = fn_start f" for ch
    proof -
      have "ch \<notin> set (collect_addrComments S V)" using ch(2) f(3) by (auto simp: in_addrComments)
      with ch f(1) starts show ?thesis
        unfolding collect_comments_def fold_funcComment [OF starts] by (auto simp: distinct_map dest: inj_onD)
    qed
    moreover have "\<not> to_func_map S (fn_start f)" using new by (simp add: to_func_map_def)
    ultimately show ?thesis
      unfolding g(6) by (subst update_comments_lookup(2) [where t = "fn_comment f"]) auto
  qed
  with new(2) rep [of S] rep [of T] key show ?thesis by (intro exI [of _ ?c]) (auto simp: has_key_def)
qed

lemma shared_slot:
  assumes "p \<in> set (new_regLocals V)" "q \<in> set (new_regLocals V)"
    and "np_funcAddr p = np_funcAddr q" "np_ordinal p = np_ordinal q" "np_name p \<noteq> np_name q"
  shows "collect_newParams T V \<noteq> []"
proof
  assume "collect_newParams T V = []"
  then have "unrecorded (m_newRegLocalBaseline T) (rebase_of T V) (new_regLocals V) = []" by (simp add: collect_newParams_eq)
  then have "lookup2 (m_newRegLocalBaseline T) (ghidra_va (rebase_of T V) (np_funcAddr x)) (np_ordinal x) = Some (np_name x)"
    if "x \<in> set (new_regLocals V)" for x using that by (auto simp: unrecorded_def filter_empty_conv)
  from this [OF assms(1)] this [OF assms(2)] assms(3-5) show False by simp
qed

section \<open>Examples\<close>

text \<open>A state with an item and no baseline, and the smallest accepted check-in from it\<close>

definition bare_state :: checkin_state where
  "bare_state = initial_checkin\<lparr>m_checkinItem := ''a.exe''\<rparr>"

definition after :: "checkin_state \<Rightarrow> bn_view \<Rightarrow> checkin_state" where
  "after S V =
     (case collectCheckinChanges S (Some V) of
        Inl _ \<Rightarrow> S
      | Inr p \<Rightarrow> out_state (checkin tree_json True True ok_send V p [] [] S))"

definition accepted :: "checkin_state \<Rightarrow> bn_view \<Rightarrow> bool" where
  "accepted S V =
     (case collectCheckinChanges S (Some V) of
        Inl _ \<Rightarrow> False
      | Inr p \<Rightarrow> out_ok (checkin tree_json True True ok_send V p [] [] S))"

lemma accepted_checked_in: "accepted S V \<Longrightarrow> checked_in tree_json ok_send V [] S (after S V)"
  by (auto simp: accepted_def after_def checked_in_def Let_def split: sum.splits)

definition noted_bookmark :: BookmarkKey where
  "noted_bookmark = \<lparr>bk_addr = 4096, bk_tagTypeName = ''Ghidra: Note'', bk_tagData = ''[todo] look''\<rparr>"

definition bookmark_state :: checkin_state where
  "bookmark_state = bare_state\<lparr>m_ghidraBookmarkKeys := [noted_bookmark]\<rparr>"

definition commented_function :: bn_function where
  "commented_function = (plain_function 4096)\<lparr>fn_comment := ''entry''\<rparr>"

definition commented_view :: bn_view where
  "commented_view = (empty_view 0)\<lparr>bv_functionList := [commented_function]\<rparr>"

definition enum_view :: bn_view where
  "enum_view = (empty_view 0)\<lparr>bv_userTypes := Some [''Bar''],
     bv_types := [(''Bar'', EnumerationType 4 [\<lparr>be_name = ''ONE'', be_value = 1\<rparr>])]\<rparr>"

definition enum_change :: DataTypeChange where
  "enum_change = \<lparr>tc_op = ''add'', tc_kind = ''enum'', tc_name = ''Bar'', tc_ghidraId = 0, tc_size = 4,
     tc_underlyingTypeName = [], tc_members = [], tc_values = [\<lparr>tv_name = ''ONE'', tv_value = 1\<rparr>]\<rparr>"

definition reg_var :: "u64 \<Rightarrow> bn_variable" where
  "reg_var i = \<lparr>va_type = RegisterVariableSourceType, va_storage = 3, va_identifier = i\<rparr>"

definition split_view :: bn_view where
  "split_view = (empty_view 0)\<lparr>bv_functionList :=
     [(plain_function 4096)\<lparr>fn_variables := [(reg_var 1, ''lo''), (reg_var 2, ''hi'')]\<rparr>]\<rparr>"

definition split_local :: "string \<Rightarrow> NewParam" where
  "split_local n = \<lparr>np_funcAddr = 4096, np_ordinal = 3, np_name = n, np_typeName = [], np_isLocal = True\<rparr>"

section \<open>Properties\<close>

text \<open>
  The database id of a type added in a check-in is not recorded. Whatever ids the bridge returns
  in \<open>added_type_ids\<close>, the baseline entry of a type sent with operation \<open>add\<close> has id 0 afterwards,
  because the ids are applied before the entry exists.
\<close>

theorem added_type_id_lost:
  assumes "checked_in J send V comment S T" and "checkin_wf S" and "distinct_keys (bv_types V)"
    and "ch \<in> set (collect_dataTypes S V)" and "tc_op ch = ''add''"
  shows "\<exists>dt. map_of (m_ghidraTypesByName T) (tc_name ch) = Some dt \<and> dt_id dt = 0"
  using assms by (rule type_id_zero)

theorem added_type_id_lost_witness:
  "\<exists>dt. map_of (m_ghidraTypesByName (after bare_state enum_view)) ''Bar'' = Some dt \<and> dt_id dt = 0"
proof -
  have "accepted bare_state enum_view" "checkin_wf bare_state" "distinct_keys (bv_types enum_view)"
    "enum_change \<in> set (collect_dataTypes bare_state enum_view)" by code_simp+
  from added_type_id_lost [OF accepted_checked_in, OF this] show ?thesis by (simp add: enum_change_def)
qed

text \<open>
  A deleted bookmark with text is reported as deleted after every check-in, because the update
  erases the key of an empty bookmark at the same place instead of the bookmark's own key.
\<close>

theorem deleted_bookmark_resurfaces:
  assumes "checked_in J send V comment S T" and "checkin_wf S"
    and "k \<in> set (m_ghidraBookmarkKeys S)" and "k \<notin> set (current_bookmarks S V)" and "bk_tagData k \<noteq> []"
  shows "\<exists>bs. collect_bookmarks T V = Inr bs \<and> delete_change (rebase_of S V) k \<in> set bs"
  using assms by (rule bookmark_delete_again)

theorem deleted_bookmark_resurfaces_witness:
  "\<exists>bs. collect_bookmarks (after bookmark_state (empty_view 0)) (empty_view 0) = Inr bs \<and>
        delete_change (rebase_of bookmark_state (empty_view 0)) noted_bookmark \<in> set bs"
proof -
  have "accepted bookmark_state (empty_view 0)" "checkin_wf bookmark_state"
    "noted_bookmark \<in> set (m_ghidraBookmarkKeys bookmark_state)"
    "noted_bookmark \<notin> set (current_bookmarks bookmark_state (empty_view 0))" "bk_tagData noted_bookmark \<noteq> []"
    by code_simp+
  from deleted_bookmark_resurfaces [OF accepted_checked_in, OF this] show ?thesis .
qed

text \<open>
  A new function-level comment is reported again after every check-in, because the update records
  it in the address-level baseline while the diff compares it with the function-level one.
\<close>

theorem new_function_comment_resurfaces:
  assumes "checked_in J send V comment S T" and "distinct (map fn_start (bv_functionList V))"
    and "f \<in> set (bv_functionList V)" and "fn_comment f \<noteq> []" and "fn_start f \<notin> set (bv_commentedAddresses V)"
    and "\<not> has_key (m_addrToOriginalComment S) (fn_start f)"
    and "\<not> has_key (m_addrToOriginalFuncComment S) (fn_start f)"
  shows "\<exists>ch. ch \<in> set (collect_comments S V) \<and> ch \<in> set (collect_comments T V) \<and>
              cc_addr ch = fn_start f \<and> cc_text ch = fn_comment f"
  using assms by (rule func_comment_again)

theorem new_function_comment_resurfaces_witness:
  "\<exists>ch. ch \<in> set (collect_comments bare_state commented_view) \<and>
        ch \<in> set (collect_comments (after bare_state commented_view) commented_view) \<and>
        cc_addr ch = fn_start commented_function \<and> cc_text ch = fn_comment commented_function"
proof -
  have a: "accepted bare_state commented_view" by code_simp
  have f: "commented_function \<in> set (bv_functionList commented_view)" by (simp add: commented_view_def)
  have "distinct (map fn_start (bv_functionList commented_view))" "fn_comment commented_function \<noteq> []"
    "fn_start commented_function \<notin> set (bv_commentedAddresses commented_view)"
    "\<not> has_key (m_addrToOriginalComment bare_state) (fn_start commented_function)"
    "\<not> has_key (m_addrToOriginalFuncComment bare_state) (fn_start commented_function)" by code_simp+
  from new_function_comment_resurfaces [OF accepted_checked_in [OF a] this(1) f this(2-)] show ?thesis .
qed

text \<open>
  Two user-named variables in one register are never settled. In every state at least one of them
  is reported as new, because the baseline has a single slot per register of a function.
\<close>

theorem split_register_never_settles:
  assumes "p \<in> set (new_regLocals V)" and "q \<in> set (new_regLocals V)"
    and "np_funcAddr p = np_funcAddr q" and "np_ordinal p = np_ordinal q" and "np_name p \<noteq> np_name q"
  shows "collect_newParams T V \<noteq> []"
  using assms by (rule shared_slot)

theorem split_register_never_settles_witness:
  "collect_newParams (after bare_state split_view) split_view \<noteq> []"
proof -
  have "split_local ''lo'' \<in> set (new_regLocals split_view)" "split_local ''hi'' \<in> set (new_regLocals split_view)" by code_simp+
  from split_register_never_settles [OF this] show ?thesis by (simp add: split_local_def)
qed

text \<open>
  The text of a Binary Ninja tag survives the way into a bookmark and back exactly when it does
  not start with a bracket, or starts with a non-empty category in brackets followed by a blank.
\<close>

theorem tag_text_roundtrip:
  "bookmark_tagData (fst (split_tagData d)) (snd (split_tagData d)) = d \<longleftrightarrow>
     d = [] \<or> hd d \<noteq> CHR ''['' \<or>
     (\<exists>cat rest. cat \<noteq> [] \<and> CHR '']'' \<notin> set cat \<and> d = ''['' @ cat @ ''] '' @ rest)"
  using tag_roundtrips_iff by (simp add: tag_roundtrips_def)

theorem tag_text_roundtrip_witness:
  "bookmark_tagData (fst (split_tagData ''[todo] look'')) (snd (split_tagData ''[todo] look'')) = ''[todo] look'' \<and>
   bookmark_tagData (fst (split_tagData ''[todo'')) (snd (split_tagData ''[todo'')) \<noteq> ''[todo''"
proof
  have "\<exists>cat rest. cat \<noteq> [] \<and> CHR '']'' \<notin> set cat \<and> ''[todo] look'' = ''['' @ cat @ ''] '' @ rest"
    by (rule exI [of _ "''todo''"], rule exI [of _ "''look''"]) simp
  then show "bookmark_tagData (fst (split_tagData ''[todo] look'')) (snd (split_tagData ''[todo] look'')) = ''[todo] look''"
    using tag_text_roundtrip [of "''[todo] look''"] by blast
  show "bookmark_tagData (fst (split_tagData ''[todo'')) (snd (split_tagData ''[todo'')) \<noteq> ''[todo''" by code_simp
qed

end
