(* ===== verification/Sync_Engine.thy ===== *)
theory Sync_Engine
  imports Checkin_State Bn_View
begin

text \<open>
  \<open>SyncEngine.cpp\<close>: applying a database export to a Binary Ninja view and building the
  write-back maps. The Binary Ninja API is a parameter: the record \<open>bn_api\<close> holds the calls the
  engine makes, over abstract types of views, functions, types and tag types; a query takes the
  view, a mutation returns the changed view. \<open>applyToView\<close> has one definition per loop, in the
  function's order; the loop state is the view, the result record and, where the loop uses it, the
  map \<open>keyToAddr\<close>.
\<close>

section \<open>The API the engine calls\<close>

datatype BNSectionSemantics = ReadOnlyCodeSection | ReadOnlyDataSection | ReadWriteDataSection

datatype import_symbol_type = ImpFunctionSymbol | ImpImportedFunctionSymbol | ImpDataSymbol

text \<open>The segment flag bits of the API, by name\<close>

datatype segment_flag = SegmentReadable | SegmentWritable | SegmentExecutable | SegmentContainsCode | SegmentContainsData

record ('v, 'f, 't, 'g) bn_api =
  ap_start :: "'v \<Rightarrow> u64"
  ap_addressSize :: "'v \<Rightarrow> nat"
  ap_hasDefaultPlatform :: "'v \<Rightarrow> bool"
  ap_segmentAt :: "'v \<Rightarrow> u64 \<Rightarrow> bool"
  ap_addUserSegment :: "u64 \<Rightarrow> u64 \<Rightarrow> segment_flag list \<Rightarrow> 'v \<Rightarrow> 'v"
  ap_addUserSection :: "string \<Rightarrow> u64 \<Rightarrow> u64 \<Rightarrow> BNSectionSemantics \<Rightarrow> 'v \<Rightarrow> 'v"
  ap_symbolByAddress :: "'v \<Rightarrow> u64 \<Rightarrow> string option"
  ap_defineUserSymbol :: "import_symbol_type \<Rightarrow> string \<Rightarrow> u64 \<Rightarrow> 'v \<Rightarrow> 'v"
  ap_functionsForAddress :: "'v \<Rightarrow> u64 \<Rightarrow> 'f list"
  ap_functionsContaining :: "'v \<Rightarrow> u64 \<Rightarrow> 'f list"
  ap_functionStart :: "'f \<Rightarrow> u64"
  ap_createUserFunction :: "u64 \<Rightarrow> 'v \<Rightarrow> 'v"
  ap_commentForAddress :: "'v \<Rightarrow> u64 \<Rightarrow> string"
  ap_setCommentForAddress :: "u64 \<Rightarrow> string \<Rightarrow> 'v \<Rightarrow> 'v"
  ap_functionComment :: "'v \<Rightarrow> 'f \<Rightarrow> string"
  ap_setFunctionComment :: "'f \<Rightarrow> string \<Rightarrow> 'v \<Rightarrow> 'v"
  ap_tagType :: "'v \<Rightarrow> string \<Rightarrow> 'g option"
  ap_newTagType :: "string \<Rightarrow> string \<Rightarrow> 'v \<Rightarrow> 'g"
  ap_addTagType :: "'g \<Rightarrow> 'v \<Rightarrow> 'v"
  ap_createUserFunctionTag :: "'f \<Rightarrow> 'g \<Rightarrow> string \<Rightarrow> 'v \<Rightarrow> 'v"
  ap_createUserDataTag :: "u64 \<Rightarrow> 'g \<Rightarrow> string \<Rightarrow> 'v \<Rightarrow> 'v"
  ap_voidType :: 't
  ap_boolType :: 't
  ap_integerType :: "nat \<Rightarrow> bool \<Rightarrow> 't"
  ap_floatType :: "nat \<Rightarrow> 't"
  ap_pointerType :: "nat \<Rightarrow> 't \<Rightarrow> 't"
  ap_arrayType :: "'t \<Rightarrow> u64 \<Rightarrow> 't"
  ap_structureType :: "bool \<Rightarrow> ('t \<times> string \<times> u64) list \<Rightarrow> 't"
  ap_enumerationType :: "(string \<times> u64) list \<Rightarrow> nat \<Rightarrow> 't"
  ap_typedefType :: "string \<Rightarrow> nat \<Rightarrow> 't"
  ap_generateAutoTypeId :: "string \<Rightarrow> string \<Rightarrow> string"
  ap_defineType :: "string \<Rightarrow> string \<Rightarrow> 't \<Rightarrow> 'v \<Rightarrow> 'v"
  ap_typeById :: "'v \<Rightarrow> string \<Rightarrow> 't option"
  ap_typeByName :: "'v \<Rightarrow> string \<Rightarrow> 't option"
  ap_setConstantDisplay :: "'f \<Rightarrow> u64 \<Rightarrow> u64 \<Rightarrow> u64 \<Rightarrow> 't \<Rightarrow> 'v \<Rightarrow> 'v"
  ap_parameterVariables :: "'v \<Rightarrow> 'f \<Rightarrow> bn_variable list"
  ap_variables :: "'v \<Rightarrow> 'f \<Rightarrow> (bn_variable \<times> string \<times> 't option) list"
  ap_variableName :: "'v \<Rightarrow> 'f \<Rightarrow> bn_variable \<Rightarrow> string"
  ap_variableType :: "'v \<Rightarrow> 'f \<Rightarrow> bn_variable \<Rightarrow> 't option"
  ap_createUserVariable :: "'f \<Rightarrow> bn_variable \<Rightarrow> 't option \<times> nat \<Rightarrow> string \<Rightarrow> 'v \<Rightarrow> 'v"
  ap_defineUserDataVariable :: "u64 \<Rightarrow> 't \<Rightarrow> 'v \<Rightarrow> 'v"
  ap_hasCallingConvention :: "'f \<Rightarrow> string \<Rightarrow> bool"
  ap_setCallingConvention :: "'f \<Rightarrow> string \<Rightarrow> 'v \<Rightarrow> 'v"
  ap_setReturnType :: "'f \<Rightarrow> 't \<Rightarrow> 'v \<Rightarrow> 'v"
  ap_updateAnalysis :: "'v \<Rightarrow> 'v"

section \<open>Results\<close>

record SyncResult =
  rs_symbolsApplied :: i32
  rs_commentsApplied :: i32
  rs_flagsApplied :: i32
  rs_functionsCreated :: i32
  rs_sectionsAdded :: i32
  rs_segmentsAdded :: i32
  rs_addrMin :: u64
  rs_addrMax :: u64
  rs_sampleSymbol :: string
  rs_addrToKey :: "(u64, i64) umap"
  rs_addrToOriginalName :: "(u64, string) umap"
  rs_addrToCommentKey :: "(u64, string) umap"
  rs_addrToOriginalComment :: "(u64, string) umap"
  rs_addrToOriginalFuncComment :: "(u64, string) umap"
  rs_addrToCommentField :: "(u64, string) umap"
  rs_ghidraDataTypes :: "GhidraDataType list"
  rs_parameters :: "GhidraParameter list"
  rs_bookmarks :: "GhidraBookmark list"
  rs_dataItems :: "GhidraDataItem list"
  rs_equates :: "GhidraEquate list"
  rs_funcSigs :: "GhidraFuncSig list"
  rs_imageBase :: u64

definition default_SyncResult :: SyncResult where
  "default_SyncResult =
     \<lparr>rs_symbolsApplied = 0, rs_commentsApplied = 0, rs_flagsApplied = 0, rs_functionsCreated = 0,
      rs_sectionsAdded = 0, rs_segmentsAdded = 0, rs_addrMin = - 1, rs_addrMax = 0,
      rs_sampleSymbol = [], rs_addrToKey = [], rs_addrToOriginalName = [], rs_addrToCommentKey = [],
      rs_addrToOriginalComment = [], rs_addrToOriginalFuncComment = [], rs_addrToCommentField = [],
      rs_ghidraDataTypes = [], rs_parameters = [], rs_bookmarks = [], rs_dataItems = [],
      rs_equates = [], rs_funcSigs = [], rs_imageBase = 0\<rparr>"

text \<open>\<open>applyRebase\<close>\<close>

definition applyRebase :: "i64 \<Rightarrow> u64 \<Rightarrow> u64" where
  "applyRebase rebase addr = addr + rebase"

section \<open>resolveTypeName\<close>

definition rtrim :: "string \<Rightarrow> string" where
  "rtrim s = rev (dropWhile is_blank (rev s))"

text \<open>Step 0a: the pointee of a pointer name; step 0b: element name and count of an array name\<close>

definition pointer_base :: "string \<Rightarrow> string option" where
  "pointer_base typeName =
     (let trimmed = rtrim typeName in
      if trimmed \<noteq> [] \<and> last trimmed = CHR ''*'' then Some (rtrim (butlast trimmed)) else None)"

definition array_parts :: "string \<Rightarrow> (string \<times> u64) option" where
  "array_parts typeName =
     (case rfind_char CHR ''['' typeName of
        None \<Rightarrow> None
      | Some ob \<Rightarrow>
          if last typeName \<noteq> CHR '']'' then None
          else
            let elemName = rtrim (take ob typeName);
                countStr = take (length typeName - ob - 2) (drop (ob + 1) typeName);
                count = (case stoull countStr of Inl _ \<Rightarrow> 0 | Inr n \<Rightarrow> n)
            in if count > 0 \<and> elemName \<noteq> [] then Some (elemName, count) else None)"

text \<open>The table of primitives: name, width, signedness, float\<close>

definition prims :: "(string \<times> nat \<times> bool \<times> bool) list" where
  "prims =
     [(''void'', 0, False, False), (''bool'', 1, False, False), (''char'', 1, True, False),
      (''uchar'', 1, False, False), (''byte'', 1, False, False), (''sbyte'', 1, True, False),
      (''short'', 2, True, False), (''ushort'', 2, False, False), (''word'', 2, False, False),
      (''int'', 4, True, False), (''uint'', 4, False, False), (''dword'', 4, False, False),
      (''long'', 4, True, False), (''ulong'', 4, False, False), (''longlong'', 8, True, False),
      (''ulonglong'', 8, False, False), (''qword'', 8, False, False), (''int8_t'', 1, True, False),
      (''uint8_t'', 1, False, False), (''int16_t'', 2, True, False), (''uint16_t'', 2, False, False),
      (''int32_t'', 4, True, False), (''uint32_t'', 4, False, False), (''int64_t'', 8, True, False),
      (''uint64_t'', 8, False, False), (''float'', 4, False, True), (''double'', 8, False, True),
      (''long double'', 10, False, True), (''float16'', 2, False, True)]"

definition prim_type :: "('v, 'f, 't, 'g) bn_api \<Rightarrow> string \<Rightarrow> 't option" where
  "prim_type A typeName =
     (case map_of prims typeName of
        None \<Rightarrow> None
      | Some (width, isSigned, isFloat) \<Rightarrow>
          Some (if width = 0 then ap_voidType A
                else if isFloat then ap_floatType A width
                else if typeName = ''bool'' then ap_boolType A
                else ap_integerType A width isSigned))"

definition hint_type :: "('v, 'f, 't, 'g) bn_api \<Rightarrow> i32 \<Rightarrow> 't option" where
  "hint_type A hintSize =
     (if 0 < sint hintSize \<and> sint hintSize \<le> 16 then Some (ap_integerType A (unat hintSize) False) else None)"

text \<open>Steps 1 to 3: a type of the view, a primitive, an integer of the hinted width\<close>

definition named_type :: "('v, 'f, 't, 'g) bn_api \<Rightarrow> 'v option \<Rightarrow> string \<Rightarrow> i32 \<Rightarrow> 't option" where
  "named_type A view typeName hintSize =
     (case (case view of None \<Rightarrow> None | Some v \<Rightarrow> ap_typeByName A v typeName) of
        Some t \<Rightarrow> Some t
      | None \<Rightarrow>
          (case prim_type A typeName of
             Some t \<Rightarrow> Some t
           | None \<Rightarrow> hint_type A hintSize))"

lemma length_rtrim: "length (rtrim s) \<le> length s"
  by (metis length_dropWhile_le length_rev rtrim_def)

lemma pointer_base_length: "pointer_base s = Some b \<Longrightarrow> length b < length s"
proof -
  assume "pointer_base s = Some b"
  then have "rtrim s \<noteq> []" and b: "b = rtrim (butlast (rtrim s))"
    by (auto simp: pointer_base_def Let_def)
  then have "length (butlast (rtrim s)) < length (rtrim s)" by simp
  with length_rtrim [of s] length_rtrim [of "butlast (rtrim s)"] show ?thesis unfolding b by linarith
qed

lemma rfind_char_length: "rfind_char c s = Some i \<Longrightarrow> i < length s"
  by (cases s rule: rev_cases) (auto simp: rfind_char_def split: if_splits)

lemma array_parts_length: "array_parts s = Some (e, n) \<Longrightarrow> length e < length s"
proof -
  assume "array_parts s = Some (e, n)"
  then obtain ob where "rfind_char CHR ''['' s = Some ob" and e: "e = rtrim (take ob s)"
    by (auto simp: array_parts_def Let_def split: option.splits if_splits)
  then have "ob < length s" by (simp add: rfind_char_length)
  then show ?thesis using length_rtrim [of "take ob s"] by (simp add: e)
qed

function resolveTypeName :: "('v, 'f, 't, 'g) bn_api \<Rightarrow> 'v option \<Rightarrow> string \<Rightarrow> i32 \<Rightarrow> 't option" where
  "resolveTypeName A view typeName hintSize =
     (if typeName = [] then None
      else case pointer_base typeName of
        Some base \<Rightarrow>
          let inner = (if base = [] then Some (ap_voidType A) else resolveTypeName A view base 0);
              inner = (case inner of None \<Rightarrow> ap_voidType A | Some t \<Rightarrow> t);
              ptrWidth = (case view of None \<Rightarrow> 8 | Some v \<Rightarrow> ap_addressSize A v)
          in Some (ap_pointerType A ptrWidth inner)
      | None \<Rightarrow>
          (case array_parts typeName of
             None \<Rightarrow> named_type A view typeName hintSize
           | Some (elemName, count) \<Rightarrow>
               (case resolveTypeName A view elemName 0 of
                  Some inner \<Rightarrow> Some (ap_arrayType A inner count)
                | None \<Rightarrow> named_type A view typeName hintSize)))"
  by pat_completeness auto
termination
  by (relation "measure (\<lambda>(A, view, n, h). length n)")
    (auto simp: pointer_base_length array_parts_length)

declare resolveTypeName.simps [simp del]

section \<open>applyToView\<close>

subsection \<open>Memory map\<close>

definition segment_flags :: "GhidraMemoryBlock \<Rightarrow> segment_flag list" where
  "segment_flags mb =
     (if mb_read mb then [SegmentReadable] else []) @ (if mb_write mb then [SegmentWritable] else []) @
     (if mb_execute mb then [SegmentExecutable] else []) @
     (if mb_execute mb then [SegmentContainsCode] else [SegmentContainsData])"

definition apply_block ::
    "('v, 'f, 't, 'g) bn_api \<Rightarrow> i64 \<Rightarrow> GhidraMemoryBlock \<Rightarrow> 'v \<times> SyncResult \<Rightarrow> 'v \<times> SyncResult" where
  "apply_block A rebase mb st =
     (if mb_size mb = 0 \<or> mb_overlay mb then st
      else
        let (v, r) = st;
            start = applyRebase rebase (mb_addr mb);
            (v, r) = (if \<not> ap_segmentAt A v start
                      then (ap_addUserSegment A start (mb_size mb) (segment_flags mb) v,
                            r\<lparr>rs_segmentsAdded := rs_segmentsAdded r + 1\<rparr>)
                      else (v, r));
            sem = (if mb_execute mb then ReadOnlyCodeSection
                   else if mb_write mb then ReadWriteDataSection else ReadOnlyDataSection);
            name = (if mb_name mb = [] then ''ghidra_'' @ to_string_u64 start else mb_name mb)
        in (ap_addUserSection A name start (mb_size mb) sem v,
            r\<lparr>rs_sectionsAdded := rs_sectionsAdded r + 1\<rparr>))"

subsection \<open>Symbols\<close>

definition import_symbolType :: "GhidraSymbolType \<Rightarrow> import_symbol_type" where
  "import_symbolType t =
     (if t = SymFunction then ImpFunctionSymbol
      else if t = SymExternal then ImpImportedFunctionSymbol else ImpDataSymbol)"

definition keep_existing_name :: "('v, 'f, 't, 'g) bn_api \<Rightarrow> 'v \<Rightarrow> u64 \<Rightarrow> string \<Rightarrow> bool" where
  "keep_existing_name A v addr name \<longleftrightarrow>
     (case ap_symbolByAddress A v addr of
        None \<Rightarrow> False
      | Some en \<Rightarrow> en \<noteq> [] \<and> en \<noteq> name \<and> \<not> isAutoGenName en)"

definition function_at :: "('v, 'f, 't, 'g) bn_api \<Rightarrow> 'v \<Rightarrow> u64 \<Rightarrow> 'f option" where
  "function_at A v addr = find (\<lambda>f. ap_functionStart A f = addr) (ap_functionsForAddress A v addr)"

definition record_symbol :: "GhidraSymbol \<Rightarrow> u64 \<Rightarrow> SyncResult \<Rightarrow> SyncResult" where
  "record_symbol s addr r =
     r\<lparr>rs_symbolsApplied := rs_symbolsApplied r + 1,
       rs_addrMin := (if addr < rs_addrMin r then addr else rs_addrMin r),
       rs_addrMax := (if addr > rs_addrMax r then addr else rs_addrMax r),
       rs_sampleSymbol := (if rs_sampleSymbol r = [] \<and> sym_type s = SymFunction then sym_name s else rs_sampleSymbol r),
       rs_addrToKey := AList.update addr (sym_key s) (rs_addrToKey r),
       rs_addrToOriginalName := AList.update addr (sym_name s) (rs_addrToOriginalName r)\<rparr>"

definition apply_symbol ::
    "('v, 'f, 't, 'g) bn_api \<Rightarrow> i64 \<Rightarrow> bool \<Rightarrow> GhidraSymbol \<Rightarrow>
     'v \<times> SyncResult \<times> (i64, u64) umap \<Rightarrow> 'v \<times> SyncResult \<times> (i64, u64) umap" where
  "apply_symbol A rebase defaultPlat s st =
     (let (v, r, keyToAddr) = st;
          addr = applyRebase rebase (sym_addr s);
          v = (if \<not> keep_existing_name A v addr (sym_name s)
               then ap_defineUserSymbol A (import_symbolType (sym_type s)) (sym_name s) addr v else v);
          (v, r) = (if sym_type s = SymFunction \<and> defaultPlat \<and> function_at A v addr = None
                    then (ap_createUserFunction A addr v, r\<lparr>rs_functionsCreated := rs_functionsCreated r + 1\<rparr>)
                    else (v, r))
      in (v, record_symbol s addr r,
          if sym_type s = SymFunction then AList.update (sym_key s) addr keyToAddr else keyToAddr))"

subsection \<open>Comments\<close>

definition comment_parts :: "GhidraComment \<Rightarrow> (string \<times> string) list" where
  "comment_parts c =
     filter (\<lambda>(part, field). part \<noteq> [])
       [(cm_eol c, ''eol''), (cm_rep c, ''rep''), (cm_pre c, ''pre''), (cm_post c, ''post'')]"

text \<open>The merged text: the non-empty columns, one per line\<close>

definition comment_text :: "GhidraComment \<Rightarrow> string" where
  "comment_text c =
     fold (\<lambda>(part, field) text. (if text \<noteq> [] then text @ [char_of (10 :: nat)] else text) @ part)
       (comment_parts c) []"

definition comment_column :: "GhidraComment \<Rightarrow> string" where
  "comment_column c = (if length (comment_parts c) = 1 then snd (hd (comment_parts c)) else ''eol'')"

definition record_comment :: "GhidraComment \<Rightarrow> u64 \<Rightarrow> SyncResult \<Rightarrow> SyncResult" where
  "record_comment c caddr r =
     (let r = (if cm_encodedKey c \<noteq> []
               then r\<lparr>rs_addrToCommentKey := AList.update caddr (cm_encodedKey c) (rs_addrToCommentKey r)\<rparr> else r)
      in if comment_text c \<noteq> []
         then r\<lparr>rs_addrToCommentField := AList.update caddr (comment_column c) (rs_addrToCommentField r),
                rs_addrToOriginalComment := AList.update caddr (comment_text c) (rs_addrToOriginalComment r)\<rparr>
         else r)"

definition record_plate :: "GhidraComment \<Rightarrow> u64 \<Rightarrow> SyncResult \<Rightarrow> SyncResult" where
  "record_plate c caddr r =
     r\<lparr>rs_addrToOriginalFuncComment := AList.update caddr (cm_plate c) (rs_addrToOriginalFuncComment r)\<rparr>"

definition apply_comment ::
    "('v, 'f, 't, 'g) bn_api \<Rightarrow> i64 \<Rightarrow> GhidraComment \<Rightarrow> 'v \<times> SyncResult \<Rightarrow> 'v \<times> SyncResult" where
  "apply_comment A rebase c st =
     (let (v, r) = st;
          caddr = applyRebase rebase (cm_addr c);
          r = record_comment c caddr r;
          text = comment_text c;
          (v, r) = (if text \<noteq> [] \<and> (ap_commentForAddress A v caddr = [] \<or> ap_commentForAddress A v caddr = text)
                    then (ap_setCommentForAddress A caddr text v, r\<lparr>rs_commentsApplied := rs_commentsApplied r + 1\<rparr>)
                    else (v, r))
      in if cm_plate c = [] then (v, r)
         else case function_at A v caddr of
           None \<Rightarrow> (v, r)
         | Some func \<Rightarrow>
             (if ap_functionComment A v func = [] \<or> ap_functionComment A v func = cm_plate c
              then ap_setFunctionComment A func (cm_plate c) v else v,
              record_plate c caddr r))"

subsection \<open>Function flags\<close>

definition getOrCreateTagType :: "('v, 'f, 't, 'g) bn_api \<Rightarrow> string \<Rightarrow> 'v \<Rightarrow> 'g \<times> 'v" where
  "getOrCreateTagType A name v =
     (case ap_tagType A v name of
        Some tt \<Rightarrow> (tt, v)
      | None \<Rightarrow> let tt = ap_newTagType A name ''G'' v in (tt, ap_addTagType A tt v))"

text \<open>A cached tag type: looked up or created on first use\<close>

definition flag_tag ::
    "('v, 'f, 't, 'g) bn_api \<Rightarrow> 'f \<Rightarrow> string \<Rightarrow> bool \<Rightarrow> 'v \<times> 'g option \<Rightarrow> 'v \<times> 'g option" where
  "flag_tag A func name flag st =
     (if \<not> flag then st
      else
        let (v, cached) = st;
            (tt, v) = (case cached of Some tt \<Rightarrow> (tt, v) | None \<Rightarrow> getOrCreateTagType A name v)
        in (ap_createUserFunctionTag A func tt [] v, Some tt))"

definition apply_flags ::
    "('v, 'f, 't, 'g) bn_api \<Rightarrow> (i64, u64) umap \<Rightarrow> GhidraFuncFlags \<Rightarrow>
     'v \<times> SyncResult \<times> 'g option \<times> 'g option \<times> 'g option \<Rightarrow>
     'v \<times> SyncResult \<times> 'g option \<times> 'g option \<times> 'g option" where
  "apply_flags A keyToAddr ff st =
     (let (v, r, ttThunk, ttNoRet, ttInline) = st in
      case map_of keyToAddr (ff_key ff) of
        None \<Rightarrow> st
      | Some addr \<Rightarrow>
          (case function_at A v addr of
             None \<Rightarrow> st
           | Some func \<Rightarrow>
               let (v, ttThunk) = flag_tag A func ''Ghidra: Thunk'' (ff_thunk ff) (v, ttThunk);
                   (v, ttNoRet) = flag_tag A func ''Ghidra: NoReturn'' (ff_noReturn ff) (v, ttNoRet);
                   (v, ttInline) = flag_tag A func ''Ghidra: Inline'' (ff_isInline ff) (v, ttInline)
               in (v, r\<lparr>rs_flagsApplied := rs_flagsApplied r + 1\<rparr>, ttThunk, ttNoRet, ttInline)))"

subsection \<open>Equates and bookmarks\<close>

definition equate_type_id :: "GhidraEquate \<Rightarrow> string" where
  "equate_type_id eq = ''ghidra_eq_'' @ to_string_i64 (eq_id eq)"

definition apply_equate :: "('v, 'f, 't, 'g) bn_api \<Rightarrow> i64 \<Rightarrow> GhidraEquate \<Rightarrow> 'v \<Rightarrow> 'v" where
  "apply_equate A rebase eq v =
     (if eq_name eq = [] \<or> eq_refs eq = [] then v
      else
        let enumType = ap_enumerationType A [(eq_name eq, eq_value eq)] 4;
            typeId = equate_type_id eq;
            v = ap_defineType A typeId (eq_name eq) enumType v in
        case ap_typeById A v typeId of
          None \<Rightarrow> v
        | Some bnType \<Rightarrow>
            fold (\<lambda>ref v.
              let refAddr = applyRebase rebase (er_addr ref) in
              fold (\<lambda>func. ap_setConstantDisplay A func refAddr (eq_value eq) (scast (er_opIndex ref)) bnType)
                (ap_functionsContaining A v refAddr) v) (eq_refs eq) v)"

definition apply_bookmark :: "('v, 'f, 't, 'g) bn_api \<Rightarrow> i64 \<Rightarrow> GhidraBookmark \<Rightarrow> 'v \<Rightarrow> 'v" where
  "apply_bookmark A rebase bm v =
     (let bmAddr = applyRebase rebase (bm_addr bm);
          (tt, v) = getOrCreateTagType A (bookmark_tagTypeName (bm_type bm)) v
      in ap_createUserDataTag A bmAddr tt (bookmark_tagData (bm_category bm) (bm_comment bm)) v)"

subsection \<open>Parameters and local variables\<close>

text \<open>The type a variable gets: the resolved one, or its present one with confidence 0\<close>

definition variable_type :: "('v, 'f, 't, 'g) bn_api \<Rightarrow> 'v \<Rightarrow> string \<Rightarrow> 't option \<Rightarrow> 't option \<times> nat" where
  "variable_type A v typeName current =
     (case resolveTypeName A (Some v) typeName 0 of
        Some t \<Rightarrow> (Some t, 128)
      | None \<Rightarrow> (current, 0))"

definition apply_parameter :: "('v, 'f, 't, 'g) bn_api \<Rightarrow> 'f \<Rightarrow> GhidraParameter \<Rightarrow> 'v \<Rightarrow> 'v" where
  "apply_parameter A func param v =
     (let vars = ap_parameterVariables A v func in
      if 0 \<le> sint (pa_ordinal param) \<and> unat (pa_ordinal param) < length vars then
        let var = vars ! unat (pa_ordinal param) in
        if autoGen_param (ap_variableName A v func var)
        then ap_createUserVariable A func var
               (variable_type A v (pa_typeName param) (ap_variableType A v func var)) (pa_name param) v
        else v
      else v)"

text \<open>The first stack variable of the local's offset; the loop stops there whether or not it renames it\<close>

definition apply_local :: "('v, 'f, 't, 'g) bn_api \<Rightarrow> 'f \<Rightarrow> GhidraParameter \<Rightarrow> 'v \<Rightarrow> 'v" where
  "apply_local A func param v =
     (case find (\<lambda>(var, nm, ty). va_type var = StackVariableSourceType \<and> ucast (va_storage var) = pa_ordinal param)
             (ap_variables A v func) of
        None \<Rightarrow> v
      | Some (var, nm, ty) \<Rightarrow>
          if autoGen_local nm
          then ap_createUserVariable A func var (variable_type A v (pa_typeName param) ty) (pa_name param) v
          else v)"

definition apply_param :: "('v, 'f, 't, 'g) bn_api \<Rightarrow> i64 \<Rightarrow> GhidraParameter \<Rightarrow> 'v \<Rightarrow> 'v" where
  "apply_param A rebase param v =
     (case function_at A v (applyRebase rebase (pa_funcAddr param)) of
        None \<Rightarrow> v
      | Some func \<Rightarrow> if pa_isParam param then apply_parameter A func param v else apply_local A func param v)"

subsection \<open>Data types and data items\<close>

definition member_type :: "('v, 'f, 't, 'g) bn_api \<Rightarrow> 'v \<Rightarrow> GhidraDataTypeMember \<Rightarrow> 't" where
  "member_type A v m =
     (case resolveTypeName A (Some v) (dm_typeName m) (dm_size m) of
        Some t \<Rightarrow> t
      | None \<Rightarrow> if 0 < sint (dm_size m) then ap_integerType A (unat (dm_size m)) False else ap_voidType A)"

definition import_type :: "('v, 'f, 't, 'g) bn_api \<Rightarrow> 'v \<Rightarrow> GhidraDataType \<Rightarrow> 't option" where
  "import_type A v dt =
     (if dt_kind dt = ''struct'' \<or> dt_kind dt = ''union'' then
        Some (ap_structureType A (dt_kind dt = ''union'')
          (map (\<lambda>m. (member_type A v m, dm_name m, scast (dm_offset m)))
            (filter (\<lambda>m. dm_name m \<noteq> []) (dt_members dt))))
      else if dt_kind dt = ''enum'' then
        Some (ap_enumerationType A (map (\<lambda>e. (ev_name e, ev_value e)) (dt_values dt))
          (if 0 < sint (dt_size dt) then unat (dt_size dt) else 4))
      else if dt_kind dt = ''typedef'' \<and> dt_underlyingTypeName dt \<noteq> [] then
        Some (ap_typedefType A (dt_underlyingTypeName dt) (if 0 < sint (dt_size dt) then unat (dt_size dt) else 0))
      else None)"

definition apply_dataType :: "('v, 'f, 't, 'g) bn_api \<Rightarrow> GhidraDataType \<Rightarrow> 'v \<Rightarrow> 'v" where
  "apply_dataType A dt v =
     (if dt_name dt = [] then v
      else case import_type A v dt of
        None \<Rightarrow> v
      | Some t \<Rightarrow> ap_defineType A (ap_generateAutoTypeId A ''ghidra'' (dt_name dt)) (dt_name dt) t v)"

text \<open>The map from names to the types the view has for them after the types were registered\<close>

definition typeById_map :: "('v, 'f, 't, 'g) bn_api \<Rightarrow> 'v \<Rightarrow> GhidraDataType list \<Rightarrow> (string, 't) umap" where
  "typeById_map A v dts =
     fold (\<lambda>dt m. if dt_name dt = [] then m
                  else case ap_typeByName A v (dt_name dt) of
                    None \<Rightarrow> m
                  | Some t \<Rightarrow> AList.update (dt_name dt) t m) dts []"

definition apply_dataItem ::
    "('v, 'f, 't, 'g) bn_api \<Rightarrow> i64 \<Rightarrow> GhidraDataType list \<Rightarrow> (string, 't) umap \<Rightarrow> GhidraDataItem \<Rightarrow> 'v \<Rightarrow> 'v" where
  "apply_dataItem A rebase dts typeById item v =
     (case find (\<lambda>dt. dt_id dt = di_typeId item \<and> dt_name dt \<noteq> []) dts of
        None \<Rightarrow> v
      | Some dt \<Rightarrow>
          (case map_of typeById (dt_name dt) of
             None \<Rightarrow> v
           | Some t \<Rightarrow> ap_defineUserDataVariable A (applyRebase rebase (di_addr item)) t v))"

subsection \<open>Function signatures\<close>

definition apply_funcSig :: "('v, 'f, 't, 'g) bn_api \<Rightarrow> (i64, u64) umap \<Rightarrow> GhidraFuncSig \<Rightarrow> 'v \<Rightarrow> 'v" where
  "apply_funcSig A keyToAddr sig v =
     (case map_of keyToAddr (fs_key sig) of
        None \<Rightarrow> v
      | Some bnAddr \<Rightarrow>
          (case function_at A v bnAddr of
             None \<Rightarrow> v
           | Some func \<Rightarrow>
               let v = (if fs_callingConvention sig \<noteq> [] \<and> ap_hasCallingConvention A func (fs_callingConvention sig)
                        then ap_setCallingConvention A func (fs_callingConvention sig) v else v) in
               if fs_returnTypeName sig = [] then v
               else case resolveTypeName A (Some v) (fs_returnTypeName sig) 0 of
                 None \<Rightarrow> v
               | Some t \<Rightarrow> ap_setReturnType A func t v))"

subsection \<open>The whole import\<close>

text \<open>\<open>(int64_t)bnBase - (int64_t)ghidraBase\<close>\<close>

definition import_rebase :: "u64 \<Rightarrow> GhidraDbExport \<Rightarrow> i64" where
  "import_rebase bnBase data = bnBase - ex_imageBase data"

definition copy_baselines :: "GhidraDbExport \<Rightarrow> SyncResult \<Rightarrow> SyncResult" where
  "copy_baselines data r =
     r\<lparr>rs_ghidraDataTypes := ex_dataTypes data, rs_parameters := ex_parameters data,
       rs_bookmarks := ex_bookmarks data, rs_dataItems := ex_dataItems data,
       rs_equates := ex_equates data, rs_funcSigs := ex_funcSigs data\<rparr>"

text \<open>The passes over the view after the symbols; none of them touches the result record\<close>

definition apply_types_pass :: "('v, 'f, 't, 'g) bn_api \<Rightarrow> i64 \<Rightarrow> GhidraDbExport \<Rightarrow> 'v \<Rightarrow> 'v" where
  "apply_types_pass A rebase data v =
     (let v = fold (apply_param A rebase) (ex_parameters data) v;
          v = fold (apply_dataType A) (ex_dataTypes data) v;
          typeById = typeById_map A v (ex_dataTypes data)
      in fold (apply_dataItem A rebase (ex_dataTypes data) typeById) (ex_dataItems data) v)"

definition applyToView ::
    "('v, 'f, 't, 'g) bn_api \<Rightarrow> 'v option \<Rightarrow> GhidraDbExport \<Rightarrow> 'v option \<times> SyncResult" where
  "applyToView A view data =
     (case view of
        None \<Rightarrow> (None, default_SyncResult)
      | Some v \<Rightarrow>
          let r = default_SyncResult\<lparr>rs_imageBase := ex_imageBase data\<rparr>;
              rebase = import_rebase (ap_start A v) data;
              defaultPlat = ap_hasDefaultPlatform A v;
              (v, r) = fold (apply_block A rebase) (ex_memoryBlocks data) (v, r);
              (v, r, keyToAddr) = fold (apply_symbol A rebase defaultPlat) (ex_symbols data) (v, r, []);
              (v, r) = fold (apply_comment A rebase) (ex_comments data) (v, r);
              (v, r, tags) = fold (apply_flags A keyToAddr) (ex_funcFlags data) (v, r, None, None, None);
              v = fold (apply_equate A rebase) (ex_equates data) v;
              v = fold (apply_bookmark A rebase) (ex_bookmarks data) v;
              v = apply_types_pass A rebase data v;
              v = fold (apply_funcSig A keyToAddr) (ex_funcSigs data) v
          in (Some (ap_updateAnalysis A v), copy_baselines data r))"

section \<open>buildWritebackMaps\<close>

definition map_symbol :: "i64 \<Rightarrow> GhidraSymbol \<Rightarrow> SyncResult \<Rightarrow> SyncResult" where
  "map_symbol rebase s r =
     (let addr = applyRebase rebase (sym_addr s) in
      r\<lparr>rs_addrToKey := AList.update addr (sym_key s) (rs_addrToKey r),
        rs_addrToOriginalName := AList.update addr (sym_name s) (rs_addrToOriginalName r),
        rs_addrMin := (if addr < rs_addrMin r then addr else rs_addrMin r),
        rs_addrMax := (if addr > rs_addrMax r then addr else rs_addrMax r)\<rparr>)"

definition map_comment :: "i64 \<Rightarrow> GhidraComment \<Rightarrow> SyncResult \<Rightarrow> SyncResult" where
  "map_comment rebase c r =
     (let caddr = applyRebase rebase (cm_addr c);
          r = record_comment c caddr r
      in if cm_plate c \<noteq> [] then record_plate c caddr r else r)"

definition buildWritebackMaps :: "('v, 'f, 't, 'g) bn_api \<Rightarrow> 'v option \<Rightarrow> GhidraDbExport \<Rightarrow> SyncResult" where
  "buildWritebackMaps A view data =
     (case view of
        None \<Rightarrow> default_SyncResult
      | Some v \<Rightarrow>
          let r = default_SyncResult\<lparr>rs_imageBase := ex_imageBase data\<rparr>;
              rebase = import_rebase (ap_start A v) data;
              r = fold (map_symbol rebase) (ex_symbols data) r;
              r = fold (map_comment rebase) (ex_comments data) r
          in copy_baselines data r)"

end
