(* ===== verification/Import.thy ===== *)
theory Import
  imports Sync_Engine Collect
begin

text \<open>
  What the import does to a view and to the baselines. The locale \<open>view_laws\<close> states what the
  import relies on of the Binary Ninja API: a user symbol, a comment and the comment of a function are found where
  they were put, a call that creates a function changes nothing elsewhere and need not create one, a new function has no
  comment, defining a data variable may name an address that has no name, and the other calls leave names, comments and
  function starts alone.
\<close>

section \<open>The write-back maps\<close>

text \<open>The part of a result both entry points compute alike: everything but the counters, the sample
  name and the function comments\<close>

definition shared_maps :: "SyncResult \<Rightarrow> SyncResult" where
  "shared_maps r =
     r\<lparr>rs_symbolsApplied := 0, rs_commentsApplied := 0, rs_flagsApplied := 0, rs_functionsCreated := 0,
       rs_sectionsAdded := 0, rs_segmentsAdded := 0, rs_sampleSymbol := [],
       rs_addrToOriginalFuncComment := []\<rparr>"

lemma shared_block: "shared_maps (snd (apply_block A rb mb st)) = shared_maps (snd st)"
  by (cases st) (simp add: apply_block_def shared_maps_def Let_def)

lemma shared_symbol:
  "shared_maps (fst (snd (apply_symbol A rb pl s st))) = map_symbol rb s (shared_maps (fst (snd st)))"
  by (cases st) (simp add: apply_symbol_def shared_maps_def map_symbol_def record_symbol_def Let_def)

lemma shared_plate [simp]: "shared_maps (record_plate c a r) = shared_maps r"
  by (simp add: shared_maps_def record_plate_def)

lemma shared_record_comment:
  "shared_maps (record_comment c a r) = record_comment c a (shared_maps r)"
  by (simp add: shared_maps_def record_comment_def Let_def)

lemma shared_counter [simp]: "shared_maps (r\<lparr>rs_commentsApplied := n\<rparr>) = shared_maps r"
  by (simp add: shared_maps_def)

lemma shared_comment:
  "shared_maps (snd (apply_comment A rb c st)) = record_comment c (applyRebase rb (cm_addr c)) (shared_maps (snd st))"
  by (cases st) (simp add: apply_comment_def shared_record_comment Let_def split: option.split)

lemma shared_flags: "shared_maps (fst (snd (apply_flags A k ff st))) = shared_maps (fst (snd st))"
  by (cases st) (simp add: apply_flags_def shared_maps_def Let_def split: option.split prod.split)

lemma shared_map_comment:
  "shared_maps (map_comment rb c r) = record_comment c (applyRebase rb (cm_addr c)) (shared_maps r)"
  by (simp add: map_comment_def shared_record_comment Let_def)

lemma shared_map_symbol: "shared_maps (map_symbol rb s r) = map_symbol rb s (shared_maps r)"
  by (simp add: map_symbol_def shared_maps_def Let_def)

lemma shared_copy: "shared_maps (copy_baselines data r) = copy_baselines data (shared_maps r)"
  by (simp add: copy_baselines_def shared_maps_def)

lemma shared_folds:
  "shared_maps (snd (fold (apply_block A rb) mbs st)) = shared_maps (snd st)"
  "shared_maps (fst (snd (fold (apply_symbol A rb pl) ss st'))) = fold (map_symbol rb) ss (shared_maps (fst (snd st')))"
  "shared_maps (snd (fold (apply_comment A rb) cs st)) =
     fold (\<lambda>c. record_comment c (applyRebase rb (cm_addr c))) cs (shared_maps (snd st))"
  "shared_maps (fst (snd (fold (apply_flags A k) ffs st''))) = shared_maps (fst (snd st''))"
  "shared_maps (fold (map_symbol rb) ss r) = fold (map_symbol rb) ss (shared_maps r)"
  "shared_maps (fold (map_comment rb) cs r) =
     fold (\<lambda>c. record_comment c (applyRebase rb (cm_addr c))) cs (shared_maps r)"
  by (simp_all add: fold_frame [of "\<lambda>st. shared_maps (snd st)"] shared_block
      fold_hom [of "\<lambda>st. shared_maps (fst (snd st))"] shared_symbol fold_hom [of "\<lambda>st. shared_maps (snd st)"]
      shared_comment fold_frame [of "\<lambda>st. shared_maps (fst (snd st))"] shared_flags fold_hom [of shared_maps]
      shared_map_symbol shared_map_comment)

text \<open>The states between the passes of \<open>applyToView\<close>\<close>

definition after_blocks :: "('v, 'f, 't, 'g) bn_api \<Rightarrow> 'v \<Rightarrow> GhidraDbExport \<Rightarrow> 'v \<times> SyncResult" where
  "after_blocks A v data =
     fold (apply_block A (import_rebase (ap_start A v) data)) (ex_memoryBlocks data)
       (v, default_SyncResult\<lparr>rs_imageBase := ex_imageBase data\<rparr>)"

definition after_symbols ::
    "('v, 'f, 't, 'g) bn_api \<Rightarrow> 'v \<Rightarrow> GhidraDbExport \<Rightarrow> 'v \<times> SyncResult \<times> (i64, u64) umap" where
  "after_symbols A v data =
     fold (apply_symbol A (import_rebase (ap_start A v) data) (ap_hasDefaultPlatform A v)) (ex_symbols data)
       (fst (after_blocks A v data), snd (after_blocks A v data), [])"

definition after_comments :: "('v, 'f, 't, 'g) bn_api \<Rightarrow> 'v \<Rightarrow> GhidraDbExport \<Rightarrow> 'v \<times> SyncResult" where
  "after_comments A v data =
     fold (apply_comment A (import_rebase (ap_start A v) data)) (ex_comments data)
       (fst (after_symbols A v data), fst (snd (after_symbols A v data)))"

definition after_flags ::
    "('v, 'f, 't, 'g) bn_api \<Rightarrow> 'v \<Rightarrow> GhidraDbExport \<Rightarrow>
     'v \<times> SyncResult \<times> 'g option \<times> 'g option \<times> 'g option" where
  "after_flags A v data =
     fold (apply_flags A (snd (snd (after_symbols A v data)))) (ex_funcFlags data)
       (fst (after_comments A v data), snd (after_comments A v data), None, None, None)"

definition view_passes :: "('v, 'f, 't, 'g) bn_api \<Rightarrow> 'v \<Rightarrow> GhidraDbExport \<Rightarrow> 'v \<Rightarrow> 'v" where
  "view_passes A v data w =
     (let rebase = import_rebase (ap_start A v) data in
      fold (apply_funcSig A (snd (snd (after_symbols A v data)))) (ex_funcSigs data)
        (apply_types_pass A rebase data
          (fold (apply_bookmark A rebase) (ex_bookmarks data) (fold (apply_equate A rebase) (ex_equates data) w))))"

lemma applyToView_passes:
  "applyToView A (Some v) data =
     (Some (ap_updateAnalysis A (view_passes A v data (fst (after_flags A v data)))),
      copy_baselines data (fst (snd (after_flags A v data))))"
  by (simp add: applyToView_def after_blocks_def after_symbols_def after_comments_def after_flags_def
      view_passes_def Let_def split: prod.split)

lemma maps_agree: "shared_maps (snd (applyToView A view data)) = shared_maps (buildWritebackMaps A view data)"
proof (cases view)
  case None
  then show ?thesis by (simp add: applyToView_def buildWritebackMaps_def)
next
  case (Some v)
  then show ?thesis
    by (simp add: applyToView_passes buildWritebackMaps_def Let_def shared_copy after_flags_def after_comments_def
        after_symbols_def after_blocks_def shared_folds)
qed

text \<open>The maps as their specification: the last entry of the export for an address\<close>

definition last_entry :: "i64 \<Rightarrow> ('a \<Rightarrow> u64) \<Rightarrow> ('a \<Rightarrow> 'b) \<Rightarrow> 'a list \<Rightarrow> u64 \<Rightarrow> 'b option" where
  "last_entry rebase addr val xs b = map_of (map (\<lambda>x. (applyRebase rebase (addr x), val x)) (rev xs)) b"

abbreviation map_addr :: "i64 \<Rightarrow> GhidraComment \<Rightarrow> u64" where
  "map_addr rb c \<equiv> applyRebase rb (cm_addr c)"

lemma build_symbols:
  "rs_addrToKey (fold (map_symbol rb) ss r) = update_all (\<lambda>s. applyRebase rb (sym_addr s)) sym_key ss (rs_addrToKey r)"
  "rs_addrToOriginalName (fold (map_symbol rb) ss r) =
     update_all (\<lambda>s. applyRebase rb (sym_addr s)) sym_name ss (rs_addrToOriginalName r)"
  "rs_addrToCommentKey (fold (map_symbol rb) ss r) = rs_addrToCommentKey r"
  "rs_addrToOriginalComment (fold (map_symbol rb) ss r) = rs_addrToOriginalComment r"
  "rs_addrToOriginalFuncComment (fold (map_symbol rb) ss r) = rs_addrToOriginalFuncComment r"
  "rs_addrToCommentField (fold (map_symbol rb) ss r) = rs_addrToCommentField r"
  "rs_imageBase (fold (map_symbol rb) ss r) = rs_imageBase r"
  by (induction ss arbitrary: r) (simp_all add: map_symbol_def update_all_def Let_def)

lemma build_comments:
  "rs_addrToKey (fold (map_comment rb) cs r) = rs_addrToKey r"
  "rs_addrToOriginalName (fold (map_comment rb) cs r) = rs_addrToOriginalName r"
  "rs_addrToCommentKey (fold (map_comment rb) cs r) =
     update_all (map_addr rb) cm_encodedKey (filter (\<lambda>c. cm_encodedKey c \<noteq> []) cs) (rs_addrToCommentKey r)"
  "rs_addrToOriginalComment (fold (map_comment rb) cs r) =
     update_all (map_addr rb) comment_text (filter (\<lambda>c. comment_text c \<noteq> []) cs) (rs_addrToOriginalComment r)"
  "rs_addrToCommentField (fold (map_comment rb) cs r) =
     update_all (map_addr rb) comment_column (filter (\<lambda>c. comment_text c \<noteq> []) cs) (rs_addrToCommentField r)"
  "rs_addrToOriginalFuncComment (fold (map_comment rb) cs r) =
     update_all (map_addr rb) cm_plate (filter (\<lambda>c. cm_plate c \<noteq> []) cs) (rs_addrToOriginalFuncComment r)"
  "rs_imageBase (fold (map_comment rb) cs r) = rs_imageBase r"
  by (induction cs arbitrary: r)
    (simp_all add: map_comment_def record_comment_def record_plate_def update_all_def Let_def)

lemma map_of_update_all_last: "map_of (update_all (\<lambda>x. applyRebase rb (addr x)) val xs []) b = last_entry rb addr val xs b"
  by (simp add: map_of_update_all last_entry_def split: option.split)

lemmas build_eqs = buildWritebackMaps_def Let_def copy_baselines_def default_SyncResult_def build_symbols build_comments

lemma shared_fields:
  assumes "shared_maps r = shared_maps r'"
  shows "rs_addrToKey r = rs_addrToKey r'" "rs_addrToOriginalName r = rs_addrToOriginalName r'"
    "rs_addrToCommentKey r = rs_addrToCommentKey r'" "rs_addrToOriginalComment r = rs_addrToOriginalComment r'"
    "rs_addrToCommentField r = rs_addrToCommentField r'" "rs_imageBase r = rs_imageBase r'"
    "rs_ghidraDataTypes r = rs_ghidraDataTypes r'" "rs_parameters r = rs_parameters r'"
    "rs_bookmarks r = rs_bookmarks r'" "rs_dataItems r = rs_dataItems r'" "rs_equates r = rs_equates r'"
    "rs_funcSigs r = rs_funcSigs r'" "rs_addrMin r = rs_addrMin r'" "rs_addrMax r = rs_addrMax r'"
  using assms by (cases r; cases r'; simp add: shared_maps_def)+

section \<open>The state the import leaves\<close>

text \<open>The call \<open>storeCheckinState(result.addrToKey, ...)\<close> of \<open>importItem\<close> and \<open>doCheckin\<close>\<close>

definition to_store_args :: "SyncResult \<Rightarrow> string \<Rightarrow> string \<Rightarrow> string \<Rightarrow> store_args" where
  "to_store_args r repo folder item =
     \<lparr>sa_addrToKey = rs_addrToKey r, sa_addrToOriginalName = rs_addrToOriginalName r,
      sa_addrToCommentKey = rs_addrToCommentKey r, sa_addrToOriginalComment = rs_addrToOriginalComment r,
      sa_addrToOriginalFuncComment = rs_addrToOriginalFuncComment r,
      sa_addrToCommentField = rs_addrToCommentField r, sa_ghidraDataTypes = rs_ghidraDataTypes r,
      sa_parameters = rs_parameters r, sa_bookmarks = rs_bookmarks r, sa_dataItems = rs_dataItems r,
      sa_equates = rs_equates r, sa_funcSigs = rs_funcSigs r, sa_imageBase = rs_imageBase r,
      sa_repo = repo, sa_folder = folder, sa_item = item\<rparr>"

lemma plates_distinct:
  "distinct_keys (rs_addrToOriginalFuncComment (snd st)) \<Longrightarrow>
   distinct_keys (rs_addrToOriginalFuncComment (snd (apply_comment A rb c st)))"
  by (cases st)
    (auto simp: apply_comment_def record_comment_def record_plate_def Let_def umap_simps split: option.split)

lemma plates_frame:
  "rs_addrToOriginalFuncComment (snd (fold (apply_block A rb) mbs st)) = rs_addrToOriginalFuncComment (snd st)"
  "rs_addrToOriginalFuncComment (fst (snd (fold (apply_symbol A rb pl) ss st'))) =
     rs_addrToOriginalFuncComment (fst (snd st'))"
  "rs_addrToOriginalFuncComment (fst (snd (fold (apply_flags A k) ffs st''))) =
     rs_addrToOriginalFuncComment (fst (snd st''))"
proof -
  have "rs_addrToOriginalFuncComment (snd (apply_block A rb mb st)) = rs_addrToOriginalFuncComment (snd st)" for mb st
    by (cases st) (simp add: apply_block_def Let_def)
  then show "rs_addrToOriginalFuncComment (snd (fold (apply_block A rb) mbs st)) = rs_addrToOriginalFuncComment (snd st)"
    by (rule fold_frame [of "\<lambda>st. rs_addrToOriginalFuncComment (snd st)"])
  have "rs_addrToOriginalFuncComment (fst (snd (apply_symbol A rb pl s st))) =
      rs_addrToOriginalFuncComment (fst (snd st))" for s st
    by (cases st) (simp add: apply_symbol_def record_symbol_def Let_def)
  then show "rs_addrToOriginalFuncComment (fst (snd (fold (apply_symbol A rb pl) ss st'))) =
      rs_addrToOriginalFuncComment (fst (snd st'))"
    by (rule fold_frame [of "\<lambda>st. rs_addrToOriginalFuncComment (fst (snd st))"])
  have "rs_addrToOriginalFuncComment (fst (snd (apply_flags A k ff st))) =
      rs_addrToOriginalFuncComment (fst (snd st))" for ff st
    by (cases st) (simp add: apply_flags_def Let_def split: option.split prod.split)
  then show "rs_addrToOriginalFuncComment (fst (snd (fold (apply_flags A k) ffs st''))) =
      rs_addrToOriginalFuncComment (fst (snd st''))"
    by (rule fold_frame [of "\<lambda>st. rs_addrToOriginalFuncComment (fst (snd st))"])
qed

lemma plates_after:
  "rs_addrToOriginalFuncComment (snd (applyToView A (Some v) data)) =
     rs_addrToOriginalFuncComment (snd (after_comments A v data))"
  by (simp add: applyToView_passes copy_baselines_def after_flags_def plates_frame)

lemma plates_before: "rs_addrToOriginalFuncComment (fst (snd (after_symbols A v data))) = []"
  by (simp add: after_symbols_def after_blocks_def plates_frame default_SyncResult_def)

lemma build_args_ok: "args_ok (to_store_args (buildWritebackMaps A view data) repo folder item)"
  by (cases view) (simp_all add: args_ok_def to_store_args_def build_eqs distinct_keys_update_all)

lemma apply_args_ok: "args_ok (to_store_args (snd (applyToView A view data)) repo folder item)"
proof -
  have "distinct_keys (rs_addrToOriginalFuncComment (snd (applyToView A view data)))"
  proof (cases view)
    case (Some v)
    then show ?thesis
      unfolding Some plates_after after_comments_def
      by (intro fold_inv [of "\<lambda>st. distinct_keys (rs_addrToOriginalFuncComment (snd st))"])
        (simp_all add: plates_distinct plates_before)
  qed (simp add: applyToView_def default_SyncResult_def)
  then show ?thesis
    using build_args_ok [of A view data repo folder item]
    by (simp add: args_ok_def to_store_args_def shared_fields [OF maps_agree])
qed

section \<open>The laws of the view\<close>

definition has_function :: "('v, 'f, 't, 'g) bn_api \<Rightarrow> 'v \<Rightarrow> u64 \<Rightarrow> bool" where
  "has_function A v a \<longleftrightarrow> function_at A v a \<noteq> None"

text \<open>The comment of the function that starts at an address, empty if there is none\<close>

definition plate_text :: "('v, 'f, 't, 'g) bn_api \<Rightarrow> 'v \<Rightarrow> u64 \<Rightarrow> string" where
  "plate_text A v a = (case function_at A v a of None \<Rightarrow> [] | Some f \<Rightarrow> ap_functionComment A v f)"

text \<open>Two views with the same names, comments and function starts; and the second may have more names\<close>

definition same_labels :: "('v, 'f, 't, 'g) bn_api \<Rightarrow> 'v \<Rightarrow> 'v \<Rightarrow> bool" where
  "same_labels A v w \<longleftrightarrow>
     ap_symbolByAddress A w = ap_symbolByAddress A v \<and> ap_commentForAddress A w = ap_commentForAddress A v \<and>
     has_function A w = has_function A v"

definition same_names :: "('v, 'f, 't, 'g) bn_api \<Rightarrow> 'v \<Rightarrow> 'v \<Rightarrow> bool" where
  "same_names A v w \<longleftrightarrow> same_labels A v w \<and> plate_text A w = plate_text A v"

definition keeps_names :: "('v, 'f, 't, 'g) bn_api \<Rightarrow> 'v \<Rightarrow> 'v \<Rightarrow> bool" where
  "keeps_names A v w \<longleftrightarrow>
     (\<forall>b n. ap_symbolByAddress A v b = Some n \<longrightarrow> ap_symbolByAddress A w b = Some n) \<and>
     ap_commentForAddress A w = ap_commentForAddress A v \<and> has_function A w = has_function A v \<and>
     plate_text A w = plate_text A v"

lemma same_names_refl [simp]: "same_names A v v"
  by (simp add: same_names_def same_labels_def)

lemma same_names_trans: "same_names A u v \<Longrightarrow> same_names A v w \<Longrightarrow> same_names A u w"
  by (simp add: same_names_def same_labels_def)

lemma same_names_keeps: "same_names A v w \<Longrightarrow> keeps_names A v w"
  by (simp add: same_names_def same_labels_def keeps_names_def)

lemma keeps_names_trans: "keeps_names A u v \<Longrightarrow> keeps_names A v w \<Longrightarrow> keeps_names A u w"
  by (simp add: keeps_names_def)

lemma keeps_names_fold: "(\<And>x v. keeps_names A v (f x v)) \<Longrightarrow> keeps_names A v (fold f xs v)"
  by (rule fold_inv [of "keeps_names A v"]) (blast intro: keeps_names_trans, simp add: keeps_names_def)

lemma same_names_fold: "(\<And>x v. same_names A v (f x v)) \<Longrightarrow> same_names A v (fold f xs v)"
  by (rule fold_inv [of "same_names A v"]) (blast intro: same_names_trans, simp)

text \<open>The name and the comment an address has after one import step\<close>

definition import_name :: "string \<Rightarrow> string option \<Rightarrow> string option" where
  "import_name n cur =
     (case cur of
        None \<Rightarrow> Some n
      | Some en \<Rightarrow> if en \<noteq> [] \<and> en \<noteq> n \<and> \<not> isAutoGenName en then Some en else Some n)"

definition import_comment :: "string \<Rightarrow> string \<Rightarrow> string" where
  "import_comment t cur = (if t \<noteq> [] \<and> (cur = [] \<or> cur = t) then t else cur)"

text \<open>The view after a symbol's name was applied or an existing one kept\<close>

definition named_view :: "('v, 'f, 't, 'g) bn_api \<Rightarrow> i64 \<Rightarrow> GhidraSymbol \<Rightarrow> 'v \<Rightarrow> 'v" where
  "named_view A rebase s v =
     (if \<not> keep_existing_name A v (applyRebase rebase (sym_addr s)) (sym_name s)
      then ap_defineUserSymbol A (import_symbolType (sym_type s)) (sym_name s) (applyRebase rebase (sym_addr s)) v
      else v)"

lemma apply_symbol_view:
  "fst (apply_symbol A rb pl s st) =
     (if sym_type s = SymFunction \<and> pl \<and> \<not> has_function A (named_view A rb s (fst st)) (applyRebase rb (sym_addr s))
      then ap_createUserFunction A (applyRebase rb (sym_addr s)) (named_view A rb s (fst st))
      else named_view A rb s (fst st))"
  by (cases st) (auto simp: apply_symbol_def named_view_def has_function_def Let_def)

text \<open>The view after a comment's text was applied or an existing one kept\<close>

definition commented_view :: "('v, 'f, 't, 'g) bn_api \<Rightarrow> i64 \<Rightarrow> GhidraComment \<Rightarrow> 'v \<Rightarrow> 'v" where
  "commented_view A rb c v =
     (if comment_text c \<noteq> [] \<and>
         (ap_commentForAddress A v (map_addr rb c) = [] \<or> ap_commentForAddress A v (map_addr rb c) = comment_text c)
      then ap_setCommentForAddress A (map_addr rb c) (comment_text c) v else v)"

lemma apply_comment_plates:
  "rs_addrToOriginalFuncComment (snd (apply_comment A rb c st)) =
     (if cm_plate c \<noteq> [] \<and> has_function A (commented_view A rb c (fst st)) (map_addr rb c)
      then AList.update (map_addr rb c) (cm_plate c) (rs_addrToOriginalFuncComment (snd st))
      else rs_addrToOriginalFuncComment (snd st))"
  by (cases st)
    (auto simp: apply_comment_def commented_view_def record_comment_def record_plate_def has_function_def Let_def
      split: option.split if_splits)

locale view_laws =
  fixes A :: "('v, 'f, 't, 'g) bn_api"
  assumes define_symbol:
      "ap_symbolByAddress A (ap_defineUserSymbol A k n a v) b = (if b = a then Some n else ap_symbolByAddress A v b)"
    and define_symbol_comment: "ap_commentForAddress A (ap_defineUserSymbol A k n a v) = ap_commentForAddress A v"
    and define_symbol_function: "has_function A (ap_defineUserSymbol A k n a v) = has_function A v"
    and define_symbol_plate: "plate_text A (ap_defineUserSymbol A k n a v) = plate_text A v"
    and create_keeps_function: "has_function A v b \<Longrightarrow> has_function A (ap_createUserFunction A a v) b"
    and create_function_other: "b \<noteq> a \<Longrightarrow> has_function A (ap_createUserFunction A a v) b \<longleftrightarrow> has_function A v b"
    and create_plate: "\<not> has_function A v a \<Longrightarrow> plate_text A (ap_createUserFunction A a v) = plate_text A v"
    and create_symbol_other:
      "b \<noteq> a \<Longrightarrow> ap_symbolByAddress A (ap_createUserFunction A a v) b = ap_symbolByAddress A v b"
    and create_symbol:
      "ap_symbolByAddress A v b = Some n \<Longrightarrow> ap_symbolByAddress A (ap_createUserFunction A a v) b = Some n"
    and create_comment: "ap_commentForAddress A (ap_createUserFunction A a v) = ap_commentForAddress A v"
    and set_comment:
      "ap_commentForAddress A (ap_setCommentForAddress A a t v) b = (if b = a then t else ap_commentForAddress A v b)"
    and set_comment_symbol: "ap_symbolByAddress A (ap_setCommentForAddress A a t v) = ap_symbolByAddress A v"
    and set_comment_function: "has_function A (ap_setCommentForAddress A a t v) = has_function A v"
    and set_comment_plate: "plate_text A (ap_setCommentForAddress A a t v) = plate_text A v"
    and segment_keeps: "same_names A v (ap_addUserSegment A a l fl v)"
    and section_keeps: "same_names A v (ap_addUserSection A nm a l sem v)"
    and functionComment_keeps: "same_labels A v (ap_setFunctionComment A f t v)"
    and functionComment_set: "function_at A v a = Some f \<Longrightarrow>
      plate_text A (ap_setFunctionComment A f t v) b = (if b = a then t else plate_text A v b)"
    and tagType_keeps: "same_names A v (ap_addTagType A g v)"
    and functionTag_keeps: "same_names A v (ap_createUserFunctionTag A f g t v)"
    and dataTag_keeps: "same_names A v (ap_createUserDataTag A a g t v)"
    and defineType_keeps: "same_names A v (ap_defineType A i n ty v)"
    and display_keeps: "same_names A v (ap_setConstantDisplay A f a x opn ty v)"
    and variable_keeps: "same_names A v (ap_createUserVariable A f var vt n v)"
    and dataVariable_keeps: "keeps_names A v (ap_defineUserDataVariable A a ty v)"
    and callingConvention_keeps: "same_names A v (ap_setCallingConvention A f n v)"
    and returnType_keeps: "same_names A v (ap_setReturnType A f ty v)"
    and analysis_symbol:
      "ap_symbolByAddress A v b = Some n \<Longrightarrow> ap_symbolByAddress A (ap_updateAnalysis A v) b = Some n"
    and analysis_function: "has_function A v b \<Longrightarrow> has_function A (ap_updateAnalysis A v) b"
    and analysis_comment: "ap_commentForAddress A (ap_updateAnalysis A v) = ap_commentForAddress A v"
    and analysis_plate: "plate_text A (ap_updateAnalysis A v) = plate_text A v"
begin

lemma block_keeps: "same_names A (fst st) (fst (apply_block A rb mb st))"
  by (cases st)
    (auto simp: apply_block_def Let_def intro: section_keeps same_names_trans [OF segment_keeps section_keeps])

lemma tag_keeps: "getOrCreateTagType A n v = (g, w) \<Longrightarrow> same_names A v w"
  by (auto simp: getOrCreateTagType_def Let_def tagType_keeps split: option.splits)

lemma flag_tag_keeps: "flag_tag A f n b st = st' \<Longrightarrow> same_names A (fst st) (fst st')"
  by (cases st)
    (auto simp: flag_tag_def Let_def split: option.splits prod.splits if_splits
      intro: functionTag_keeps same_names_trans [OF tag_keeps functionTag_keeps])

lemma flags_keeps: "same_names A (fst st) (fst (apply_flags A k ff st))"
  by (cases st)
    (auto simp: apply_flags_def Let_def split: option.split prod.split
      dest!: flag_tag_keeps intro: same_names_trans [OF same_names_trans])

lemma equate_keeps: "same_names A v (apply_equate A rb eq v)"
proof -
  let ?w = "ap_defineType A (equate_type_id eq) (eq_name eq) (ap_enumerationType A [(eq_name eq, eq_value eq)] 4) v"
  have "same_names A ?w (fold (\<lambda>ref v. fold (\<lambda>func. ap_setConstantDisplay A func (applyRebase rb (er_addr ref))
      (eq_value eq) (scast (er_opIndex ref)) ty) (ap_functionsContaining A v (applyRebase rb (er_addr ref))) v) (eq_refs eq) ?w)"
    for ty
    by (rule same_names_fold, rule same_names_fold, rule display_keeps)
  then show ?thesis
    by (auto simp: apply_equate_def Let_def defineType_keeps split: option.split
        intro: same_names_trans [OF defineType_keeps])
qed

lemma bookmark_keeps: "same_names A v (apply_bookmark A rb bm v)"
  by (auto simp: apply_bookmark_def Let_def split: prod.split
      intro: same_names_trans [OF tag_keeps dataTag_keeps])

lemma param_keeps: "same_names A v (apply_param A rb p v)"
  by (auto simp: apply_param_def apply_parameter_def apply_local_def Let_def variable_keeps split: option.split)

lemma dataType_keeps: "same_names A v (apply_dataType A dt v)"
  by (simp add: apply_dataType_def defineType_keeps split: option.split)

lemma dataItem_keeps: "keeps_names A v (apply_dataItem A rb dts m it v)"
  by (simp add: apply_dataItem_def dataVariable_keeps same_names_keeps split: option.split)

lemma funcSig_keeps: "same_names A v (apply_funcSig A k sg v)"
  by (auto simp: apply_funcSig_def Let_def split: option.split
      intro: callingConvention_keeps returnType_keeps same_names_trans [OF callingConvention_keeps returnType_keeps])

lemma types_pass_keeps: "keeps_names A v (apply_types_pass A rb data v)"
  unfolding apply_types_pass_def Let_def
  by (rule keeps_names_trans [OF keeps_names_fold [OF same_names_keeps [OF param_keeps]]],
      rule keeps_names_trans [OF keeps_names_fold [OF same_names_keeps [OF dataType_keeps]] keeps_names_fold [OF dataItem_keeps]])

lemma passes_keep: "keeps_names A w (view_passes A v data w)"
  unfolding view_passes_def Let_def
  by (rule keeps_names_trans [OF keeps_names_fold [OF same_names_keeps [OF equate_keeps]]],
      rule keeps_names_trans [OF keeps_names_fold [OF same_names_keeps [OF bookmark_keeps]]],
      rule keeps_names_trans [OF types_pass_keeps keeps_names_fold [OF same_names_keeps [OF funcSig_keeps]]])

lemma blocks_keep: "same_names A v (fst (after_blocks A v data))"
  unfolding after_blocks_def
  by (rule fold_inv [of "\<lambda>st. same_names A v (fst st)"]) (blast intro: same_names_trans block_keeps, simp)

lemma flags_keep: "same_names A (fst (after_comments A v data)) (fst (after_flags A v data))"
  unfolding after_flags_def
  by (rule fold_inv [of "\<lambda>st. same_names A (fst (after_comments A v data)) (fst st)"])
    (blast intro: same_names_trans flags_keeps, simp)

text \<open>The symbol pass\<close>

lemma named_view_function: "has_function A (named_view A rb s v) = has_function A v"
  by (simp add: named_view_def define_symbol_function)

lemma named_view_name:
  "ap_symbolByAddress A (named_view A rb s v) b =
     (if applyRebase rb (sym_addr s) = b then import_name (sym_name s) (ap_symbolByAddress A v b)
      else ap_symbolByAddress A v b)"
  by (auto simp: named_view_def define_symbol keep_existing_name_def import_name_def split: option.splits)

lemma symbol_name:
  "ap_symbolByAddress A (fst (apply_symbol A rb pl s st)) b =
     (if applyRebase rb (sym_addr s) = b then import_name (sym_name s) (ap_symbolByAddress A (fst st) b)
      else ap_symbolByAddress A (fst st) b)"
proof -
  let ?a = "applyRebase rb (sym_addr s)" and ?w = "named_view A rb s (fst st)"
  have "ap_symbolByAddress A (ap_createUserFunction A ?a ?w) b = ap_symbolByAddress A ?w b"
  proof (cases "?a = b")
    case True
    then have "\<exists>n. ap_symbolByAddress A ?w b = Some n"
      by (auto simp: named_view_name import_name_def split: option.split)
    then show ?thesis by (metis create_symbol)
  qed (simp add: create_symbol_other)
  then show ?thesis unfolding apply_symbol_view named_view_name [symmetric] by simp
qed

lemma symbol_comment: "ap_commentForAddress A (fst (apply_symbol A rb pl s st)) = ap_commentForAddress A (fst st)"
  by (cases st) (simp add: apply_symbol_def Let_def create_comment define_symbol_comment)

lemma symbol_function: "has_function A (fst st) b \<Longrightarrow> has_function A (fst (apply_symbol A rb pl s st)) b"
  by (auto simp: apply_symbol_view named_view_function intro: create_keeps_function)

lemma symbol_plate: "plate_text A (fst (apply_symbol A rb pl s st)) = plate_text A (fst st)"
  by (simp add: apply_symbol_view named_view_def create_plate define_symbol_plate)

lemma symbols_name:
  "ap_symbolByAddress A (fst (fold (apply_symbol A rb pl) ss st)) b =
     fold import_name (map sym_name (filter (\<lambda>s. applyRebase rb (sym_addr s) = b) ss)) (ap_symbolByAddress A (fst st) b)"
  by (induction ss arbitrary: st) (simp_all add: symbol_name)

lemma symbols_comment: "ap_commentForAddress A (fst (fold (apply_symbol A rb pl) ss st)) = ap_commentForAddress A (fst st)"
  by (rule fold_frame [of "\<lambda>st. ap_commentForAddress A (fst st)"]) (simp add: symbol_comment)

lemma symbols_function: "has_function A (fst st) b \<Longrightarrow> has_function A (fst (fold (apply_symbol A rb pl) ss st)) b"
  by (rule fold_inv [of "\<lambda>st. has_function A (fst st) b"]) (erule symbol_function)

lemma symbols_plate: "plate_text A (fst (fold (apply_symbol A rb pl) ss st)) = plate_text A (fst st)"
  by (rule fold_frame [of "\<lambda>st. plate_text A (fst st)"]) (simp add: symbol_plate)

text \<open>The comment pass\<close>

lemma commented_view_frame:
  "ap_symbolByAddress A (commented_view A rb c v) = ap_symbolByAddress A v"
  "has_function A (commented_view A rb c v) = has_function A v"
  "plate_text A (commented_view A rb c v) = plate_text A v"
  by (simp_all add: commented_view_def set_comment_symbol set_comment_function set_comment_plate)

lemma apply_comment_commented:
  "fst (apply_comment A rb c st) =
     (let v = commented_view A rb c (fst st) in
      case function_at A v (map_addr rb c) of
        Some func \<Rightarrow>
          if cm_plate c \<noteq> [] \<and> (plate_text A v (map_addr rb c) = [] \<or> plate_text A v (map_addr rb c) = cm_plate c)
          then ap_setFunctionComment A func (cm_plate c) v else v
      | None \<Rightarrow> v)"
  by (cases st) (auto simp: apply_comment_def commented_view_def plate_text_def Let_def split: option.split)

lemma comment_view: "same_labels A (commented_view A rb c (fst st)) (fst (apply_comment A rb c st))"
  unfolding apply_comment_commented Let_def
  using functionComment_keeps by (auto simp: same_labels_def split: option.split)

lemma comment_step:
  "ap_commentForAddress A (fst (apply_comment A rb c st)) b =
     (if applyRebase rb (cm_addr c) = b then import_comment (comment_text c) (ap_commentForAddress A (fst st) b)
      else ap_commentForAddress A (fst st) b)"
  "ap_symbolByAddress A (fst (apply_comment A rb c st)) = ap_symbolByAddress A (fst st)"
  "has_function A (fst (apply_comment A rb c st)) = has_function A (fst st)"
  using comment_view [of rb c st] commented_view_frame [of rb c "fst st"]
  by (auto simp: same_labels_def commented_view_def import_comment_def set_comment split: if_splits)

lemma comment_plate:
  "plate_text A (fst (apply_comment A rb c st)) b =
     (if applyRebase rb (cm_addr c) = b \<and> has_function A (fst st) b
      then import_comment (cm_plate c) (plate_text A (fst st) b) else plate_text A (fst st) b)"
proof -
  let ?v = "commented_view A rb c (fst st)"
  have "has_function A (fst st) (map_addr rb c) \<longleftrightarrow> function_at A ?v (map_addr rb c) \<noteq> None"
    using commented_view_frame(2) [of rb c "fst st"] by (metis has_function_def)
  then show ?thesis
    unfolding apply_comment_commented Let_def
    by (cases "function_at A ?v (map_addr rb c)")
      (auto simp: import_comment_def functionComment_set commented_view_frame)
qed

lemma comments_text:
  "ap_commentForAddress A (fst (fold (apply_comment A rb) cs st)) b =
     fold import_comment (map comment_text (filter (\<lambda>c. applyRebase rb (cm_addr c) = b) cs)) (ap_commentForAddress A (fst st) b)"
  by (induction cs arbitrary: st) (simp_all add: comment_step)

lemma comments_keep:
  "ap_symbolByAddress A (fst (fold (apply_comment A rb) cs st)) = ap_symbolByAddress A (fst st)"
  "has_function A (fst (fold (apply_comment A rb) cs st)) = has_function A (fst st)"
  by (rule fold_frame [of "\<lambda>st. ap_symbolByAddress A (fst st)"] fold_frame [of "\<lambda>st. has_function A (fst st)"];
      simp add: comment_step)+

lemma comments_plate:
  "plate_text A (fst (fold (apply_comment A rb) cs st)) b =
     (if has_function A (fst st) b
      then fold import_comment (map cm_plate (filter (\<lambda>c. applyRebase rb (cm_addr c) = b) cs)) (plate_text A (fst st) b)
      else plate_text A (fst st) b)"
  by (induction cs arbitrary: st) (simp_all add: comment_plate comment_step)

text \<open>The whole import\<close>

lemma import_effect:
  assumes "applyToView A (Some v) data = (Some w, r)"
  defines "rb \<equiv> import_rebase (ap_start A v) data"
  shows "fold import_name (map sym_name (filter (\<lambda>s. applyRebase rb (sym_addr s) = b) (ex_symbols data)))
           (ap_symbolByAddress A v b) = Some n \<Longrightarrow> ap_symbolByAddress A w b = Some n"
    and "ap_commentForAddress A w b =
           fold import_comment (map comment_text (filter (\<lambda>c. applyRebase rb (cm_addr c) = b) (ex_comments data)))
             (ap_commentForAddress A v b)"
    and "has_function A v b \<Longrightarrow> has_function A w b"
    and "plate_text A w b =
           (if has_function A (fst (after_symbols A v data)) b
            then fold import_comment (map cm_plate (filter (\<lambda>c. applyRebase rb (cm_addr c) = b) (ex_comments data))) (plate_text A v b)
            else plate_text A v b)"
proof -
  let ?u = "view_passes A v data (fst (after_flags A v data))"
  have w: "w = ap_updateAnalysis A ?u" using assms(1) by (simp add: applyToView_passes)
  have u: "keeps_names A (fst (after_comments A v data)) ?u"
    by (rule keeps_names_trans [OF same_names_keeps [OF flags_keep] passes_keep])
  have v: "same_names A v (fst (after_blocks A v data))" by (rule blocks_keep)
  note eqs = after_comments_def after_symbols_def symbols_name symbols_comment symbols_plate comments_text
    comments_keep comments_plate
  show "ap_symbolByAddress A w b = Some n" if "fold import_name (map sym_name (filter (\<lambda>s. applyRebase rb (sym_addr s) = b) (ex_symbols data)))
           (ap_symbolByAddress A v b) = Some n"
  proof -
    have "ap_symbolByAddress A (fst (after_comments A v data)) b = Some n"
      using that v by (simp add: same_names_def same_labels_def eqs rb_def)
    with u show ?thesis unfolding w by (simp add: keeps_names_def analysis_symbol)
  qed
  show "has_function A w b" if "has_function A v b"
  proof -
    have "has_function A (fst (after_comments A v data)) b"
      using that v by (simp add: same_names_def same_labels_def eqs symbols_function)
    with u show ?thesis unfolding w by (simp add: keeps_names_def analysis_function)
  qed
  show "ap_commentForAddress A w b =
      fold import_comment (map comment_text (filter (\<lambda>c. applyRebase rb (cm_addr c) = b) (ex_comments data)))
        (ap_commentForAddress A v b)"
    unfolding w analysis_comment using u v by (simp add: keeps_names_def same_names_def same_labels_def eqs rb_def)
  have "plate_text A (fst (after_symbols A v data)) = plate_text A v"
    using v by (simp add: after_symbols_def symbols_plate same_names_def)
  then show "plate_text A w b =
           (if has_function A (fst (after_symbols A v data)) b
            then fold import_comment (map cm_plate (filter (\<lambda>c. applyRebase rb (cm_addr c) = b) (ex_comments data))) (plate_text A v b)
            else plate_text A v b)"
    unfolding w analysis_plate using u by (simp add: keeps_names_def after_comments_def comments_plate rb_def)
qed

lemma plate_step:
  "map_of (rs_addrToOriginalFuncComment (snd (apply_comment A rb c st))) b =
     (if applyRebase rb (cm_addr c) = b \<and> cm_plate c \<noteq> [] \<and> has_function A (fst st) b then Some (cm_plate c)
      else map_of (rs_addrToOriginalFuncComment (snd st)) b)"
proof -
  have "has_function A (commented_view A rb c v) = has_function A v" for v
    by (simp add: commented_view_def set_comment_function)
  then show ?thesis by (simp add: apply_comment_plates umap_simps)
qed

lemma plates_fold:
  "map_of (rs_addrToOriginalFuncComment (snd (fold (apply_comment A rb) cs st))) b =
     (if has_function A (fst st) b
      then (case last_entry rb cm_addr cm_plate (filter (\<lambda>c. cm_plate c \<noteq> []) cs) b of
              Some t \<Rightarrow> Some t | None \<Rightarrow> map_of (rs_addrToOriginalFuncComment (snd st)) b)
      else map_of (rs_addrToOriginalFuncComment (snd st)) b)"
proof (induction cs arbitrary: st)
  case (Cons c cs)
  show ?case
    by (auto simp: Cons.IH comment_step plate_step last_entry_def map_add_def split: option.split)
qed (simp add: last_entry_def)

lemma plates_import:
  assumes "applyToView A (Some v) data = (Some w, r)"
  shows "map_of (rs_addrToOriginalFuncComment r) b =
     (if has_function A (fst (after_symbols A v data)) b
      then map_of (rs_addrToOriginalFuncComment (buildWritebackMaps A (Some v) data)) b else None)"
proof -
  have r: "rs_addrToOriginalFuncComment r = rs_addrToOriginalFuncComment (snd (after_comments A v data))"
    using plates_after [of A v data] assms by simp
  show ?thesis
    unfolding r after_comments_def plates_fold
    by (simp add: plates_before build_eqs map_of_update_all_last split: option.split)
qed

text \<open>The symbol pass makes functions only at the addresses of function symbols.\<close>

lemma symbols_function_only:
  "has_function A (fst (fold (apply_symbol A rb pl) ss st)) b \<Longrightarrow>
   has_function A (fst st) b \<or> (pl \<and> (\<exists>s \<in> set ss. sym_type s = SymFunction \<and> applyRebase rb (sym_addr s) = b))"
proof (induction ss arbitrary: st)
  case (Cons s ss)
  have "has_function A (fst (apply_symbol A rb pl s st)) b \<Longrightarrow>
      has_function A (fst st) b \<or> (pl \<and> sym_type s = SymFunction \<and> applyRebase rb (sym_addr s) = b)"
    using create_function_other [of b "applyRebase rb (sym_addr s)" "named_view A rb s (fst st)"]
    by (auto simp: apply_symbol_view named_view_function split: if_splits)
  with Cons.IH [of "apply_symbol A rb pl s st"] Cons.prems show ?case by auto
qed simp

lemma symbols_pass_function:
  "has_function A (fst (after_symbols A v data)) b \<Longrightarrow>
     has_function A v b \<or> (ap_hasDefaultPlatform A v \<and>
       (\<exists>s \<in> set (ex_symbols data). sym_type s = SymFunction \<and>
          applyRebase (import_rebase (ap_start A v) data) (sym_addr s) = b))"
  using blocks_keep [of v data] symbols_function_only
  by (fastforce simp: after_symbols_def same_names_def same_labels_def)

end

text \<open>Folding the import steps over one address\<close>

lemma import_name_kept: "en \<noteq> [] \<Longrightarrow> \<not> isAutoGenName en \<Longrightarrow> fold import_name ns (Some en) = Some en"
  by (induction ns) (auto simp: import_name_def)

lemma import_comment_kept: "cur \<noteq> [] \<Longrightarrow> fold import_comment ts cur = cur"
  by (induction ts) (auto simp: import_comment_def)

lemma filter_distinct_single:
  "distinct (map f xs) \<Longrightarrow> x \<in> set xs \<Longrightarrow> filter (\<lambda>y. f y = f x) xs = [x]"
  by (induction xs) (auto simp: filter_empty_conv image_iff)

lemma applyRebase_inj [simp]: "applyRebase rb a = applyRebase rb b \<longleftrightarrow> a = b"
  by (simp add: applyRebase_def)

lemma last_entry_distinct:
  "distinct (map addr xs) \<Longrightarrow> x \<in> set xs \<Longrightarrow> last_entry rb addr val xs (applyRebase rb (addr x)) = Some (val x)"
  unfolding last_entry_def
  by (rule map_of_is_SomeI) (auto simp: distinct_map inj_on_def comp_def rev_map [symmetric] image_iff)

end
