(* ===== verification/Import_Props.thy ===== *)
theory Import_Props
  imports Import
begin

text \<open>
  A concrete view for the laws of \<open>view_laws\<close> and the properties of the import. The concrete view
  keeps every list the engine changes (segments, sections, names, functions, comments, tags, types,
  variables, signatures), with functions and tag types named by their address and name.
\<close>

section \<open>A concrete view\<close>

datatype sim_type =
    SimVoid | SimBool | SimInt nat bool | SimFloat nat | SimPointer nat sim_type | SimArray sim_type u64
  | SimStruct bool "(sim_type \<times> string \<times> u64) list" | SimEnum "(string \<times> u64) list" nat | SimTypedef string nat

record sim_view =
  sv_start :: u64
  sv_platform :: bool
  sv_segments :: "(u64 \<times> u64 \<times> segment_flag list) list"
  sv_sections :: "(string \<times> u64 \<times> u64 \<times> BNSectionSemantics) list"
  sv_symbols :: "(u64, string) umap"
  sv_functions :: "u64 list"
  sv_comments :: "(u64, string) umap"
  sv_plates :: "(u64, string) umap"
  sv_tagTypes :: "string list"
  sv_tags :: "(u64 \<times> string \<times> string) list"
  sv_types :: "(string \<times> string \<times> sim_type) list"
  sv_displays :: "(u64 \<times> u64 \<times> u64 \<times> u64 \<times> sim_type) list"
  sv_params :: "bn_variable list"
  sv_variables :: "(bn_variable \<times> string \<times> sim_type option) list"
  sv_userVariables :: "(u64 \<times> bn_variable \<times> (sim_type option \<times> nat) \<times> string) list"
  sv_dataVariables :: "(u64, sim_type) umap"
  sv_conventions :: "(u64, string) umap"
  sv_returnTypes :: "(u64, sim_type) umap"

definition sim_empty :: "u64 \<Rightarrow> sim_view" where
  "sim_empty b =
     \<lparr>sv_start = b, sv_platform = True, sv_segments = [], sv_sections = [], sv_symbols = [], sv_functions = [],
      sv_comments = [], sv_plates = [], sv_tagTypes = [], sv_tags = [], sv_types = [], sv_displays = [],
      sv_params = [], sv_variables = [], sv_userVariables = [], sv_dataVariables = [], sv_conventions = [],
      sv_returnTypes = []\<rparr>"

definition sim_api :: "(sim_view, u64, sim_type, string) bn_api" where
  "sim_api =
     \<lparr>ap_start = sv_start, ap_addressSize = (\<lambda>_. 8), ap_hasDefaultPlatform = sv_platform,
      ap_segmentAt = (\<lambda>v a. list_ex (\<lambda>(s, l, _). s \<le> a \<and> a - s < l) (sv_segments v)),
      ap_addUserSegment = (\<lambda>a l fl v. v\<lparr>sv_segments := (a, l, fl) # sv_segments v\<rparr>),
      ap_addUserSection = (\<lambda>n a l sem v. v\<lparr>sv_sections := (n, a, l, sem) # sv_sections v\<rparr>),
      ap_symbolByAddress = (\<lambda>v. map_of (sv_symbols v)),
      ap_defineUserSymbol = (\<lambda>_ n a v. v\<lparr>sv_symbols := (a, n) # sv_symbols v\<rparr>),
      ap_functionsForAddress = (\<lambda>v a. filter (\<lambda>f. f = a) (sv_functions v)),
      ap_functionsContaining = (\<lambda>v a. filter (\<lambda>f. f \<le> a \<and> a - f < 256) (sv_functions v)),
      ap_functionStart = (\<lambda>f. f),
      ap_createUserFunction = (\<lambda>a v. if a = 0 \<or> a \<in> set (sv_functions v) then v
                                 else v\<lparr>sv_functions := a # sv_functions v, sv_plates := (a, []) # sv_plates v\<rparr>),
      ap_commentForAddress = (\<lambda>v a. find_or (sv_comments v) a []),
      ap_setCommentForAddress = (\<lambda>a t v. v\<lparr>sv_comments := (a, t) # sv_comments v\<rparr>),
      ap_functionComment = (\<lambda>v f. find_or (sv_plates v) f []),
      ap_setFunctionComment = (\<lambda>f t v. v\<lparr>sv_plates := (f, t) # sv_plates v\<rparr>),
      ap_tagType = (\<lambda>v n. if n \<in> set (sv_tagTypes v) then Some n else None),
      ap_newTagType = (\<lambda>n _ _. n),
      ap_addTagType = (\<lambda>g v. v\<lparr>sv_tagTypes := g # sv_tagTypes v\<rparr>),
      ap_createUserFunctionTag = (\<lambda>f g t v. v\<lparr>sv_tags := (f, g, t) # sv_tags v\<rparr>),
      ap_createUserDataTag = (\<lambda>a g t v. v\<lparr>sv_tags := (a, g, t) # sv_tags v\<rparr>),
      ap_voidType = SimVoid, ap_boolType = SimBool, ap_integerType = SimInt, ap_floatType = SimFloat,
      ap_pointerType = SimPointer, ap_arrayType = SimArray, ap_structureType = SimStruct,
      ap_enumerationType = SimEnum, ap_typedefType = SimTypedef,
      ap_generateAutoTypeId = (\<lambda>src n. src @ '':'' @ n),
      ap_defineType = (\<lambda>i n t v. v\<lparr>sv_types := (i, n, t) # sv_types v\<rparr>),
      ap_typeById = (\<lambda>v i. map_option (snd \<circ> snd) (find (\<lambda>(j, _, _). j = i) (sv_types v))),
      ap_typeByName = (\<lambda>v n. map_option (snd \<circ> snd) (find (\<lambda>(_, m, _). m = n) (sv_types v))),
      ap_setConstantDisplay = (\<lambda>f a x opn t v. v\<lparr>sv_displays := (f, a, x, opn, t) # sv_displays v\<rparr>),
      ap_parameterVariables = (\<lambda>v _. sv_params v),
      ap_variables = (\<lambda>v _. sv_variables v),
      ap_variableName = (\<lambda>v f var. case find (\<lambda>(g, w, _). g = f \<and> w = var) (sv_userVariables v) of
                           None \<Rightarrow> [] | Some (_, _, _, n) \<Rightarrow> n),
      ap_variableType = (\<lambda>v f var. None),
      ap_createUserVariable = (\<lambda>f var vt n v. v\<lparr>sv_userVariables := (f, var, vt, n) # sv_userVariables v\<rparr>),
      ap_defineUserDataVariable = (\<lambda>a t v. v\<lparr>sv_dataVariables := (a, t) # sv_dataVariables v\<rparr>),
      ap_hasCallingConvention = (\<lambda>_ n. n \<in> {''__cdecl'', ''__stdcall''}),
      ap_setCallingConvention = (\<lambda>f n v. v\<lparr>sv_conventions := (f, n) # sv_conventions v\<rparr>),
      ap_setReturnType = (\<lambda>f t v. v\<lparr>sv_returnTypes := (f, t) # sv_returnTypes v\<rparr>),
      ap_updateAnalysis = (\<lambda>v. v)\<rparr>"

lemma sim_function_at: "function_at sim_api v a = (if a \<in> set (sv_functions v) then Some a else None)"
proof -
  have "find (\<lambda>f. f = a) (filter (\<lambda>f. f = a) fs) = (if a \<in> set fs then Some a else None)" for fs by (induction fs) auto
  then show ?thesis by (simp add: function_at_def sim_api_def)
qed

lemma sim_has_function: "has_function sim_api v a \<longleftrightarrow> a \<in> set (sv_functions v)"
  by (simp add: has_function_def sim_function_at)

lemma sim_plate_text: "plate_text sim_api v a = (if a \<in> set (sv_functions v) then find_or (sv_plates v) a [] else [])"
  unfolding plate_text_def sim_function_at by (simp add: sim_api_def)

interpretation sim: view_laws sim_api
  by unfold_locales
    (simp_all add: same_names_def same_labels_def keeps_names_def sim_has_function sim_plate_text sim_function_at fun_eq_iff,
      auto simp: sim_api_def find_or_def)

lemma sim_laws: "view_laws sim_api"
  by (rule sim.view_laws_axioms)

text \<open>An export with two functions, a label, comments, flags, an equate, a bookmark, a type and an item\<close>

definition sample_export :: GhidraDbExport where
  "sample_export =
     default_GhidraDbExport\<lparr>ex_imageBase := 0x1000,
       ex_symbols :=
         [\<lparr>sym_key = 7, sym_name = ''main'', sym_addr = 0x1010, sym_type = SymFunction, sym_source = SrcUser, sym_namespaceId = 0\<rparr>,
          \<lparr>sym_key = 8, sym_name = ''helper'', sym_addr = 0x1100, sym_type = SymFunction, sym_source = SrcUser, sym_namespaceId = 0\<rparr>,
          \<lparr>sym_key = 9, sym_name = ''table'', sym_addr = 0x2000, sym_type = SymLabel, sym_source = SrcUser, sym_namespaceId = 0\<rparr>],
       ex_comments :=
         [\<lparr>cm_addr = 0x1010, cm_eol = ''a'', cm_pre = ''b'', cm_post = [], cm_plate = ''entry'', cm_rep = [], cm_encodedKey = ''k''\<rparr>,
          \<lparr>cm_addr = 0x2000, cm_eol = [], cm_pre = ''c'', cm_post = [], cm_plate = ''data'', cm_rep = [], cm_encodedKey = []\<rparr>],
       ex_funcFlags := [\<lparr>ff_key = 7, ff_thunk = False, ff_noReturn = True, ff_isInline = False\<rparr>],
       ex_funcSigs := [\<lparr>fs_key = 7, fs_callingConvention = ''__cdecl'', fs_returnTypeName = ''int'', fs_returnTypeId = 0\<rparr>],
       ex_bookmarks := [\<lparr>bm_type = ''Note'', bm_addr = 0x1010, bm_category = ''todo'', bm_comment = ''look''\<rparr>],
       ex_dataTypes := [default_GhidraDataType\<lparr>dt_id := 3, dt_kind := ''enum'', dt_name := ''Mode''\<rparr>],
       ex_dataItems := [\<lparr>di_addr = 0x2000, di_typeId = 3\<rparr>]\<rparr>"

text \<open>A view in which the user has named one function and commented another and the table\<close>

definition sample_bn :: sim_view where
  "sample_bn = (sim_empty 0x401000)\<lparr>sv_symbols := [(0x401010, ''sub_401010''), (0x401100, ''my_helper'')],
     sv_functions := [0x401010], sv_comments := [(0x402000, ''mine'')], sv_plates := [(0x401010, ''my entry'')]\<rparr>"

definition sample_imported :: sim_view where
  "sample_imported = the (fst (applyToView sim_api (Some sample_bn) sample_export))"

definition sample_result :: SyncResult where
  "sample_result = snd (applyToView sim_api (Some sample_bn) sample_export)"

lemma sample_import: "applyToView sim_api (Some sample_bn) sample_export = (Some sample_imported, sample_result)"
  by (simp add: sample_imported_def sample_result_def applyToView_passes)

section \<open>The diff right after an import\<close>

lemma import_maps:
  assumes "applyToView A (Some v) data = (Some w, r)"
  defines "rb \<equiv> import_rebase (ap_start A v) data"
  shows "map_of (rs_addrToOriginalName r) b = last_entry rb sym_addr sym_name (ex_symbols data) b"
    "map_of (rs_addrToKey r) b = last_entry rb sym_addr sym_key (ex_symbols data) b"
    "fst ` set (rs_addrToKey r) = (\<lambda>s. applyRebase rb (sym_addr s)) ` set (ex_symbols data)"
    "map_of (rs_addrToOriginalComment r) b =
       last_entry rb cm_addr comment_text (filter (\<lambda>c. comment_text c \<noteq> []) (ex_comments data)) b"
  using shared_fields [OF maps_agree [of A "Some v" data]] assms
  by (simp_all add: build_eqs map_of_update_all_last keys_update_all)

lemma import_name_either: "\<exists>m. import_name n cur = Some m \<and> (m = n \<or> cur = Some m)"
  by (auto simp: import_name_def split: option.split)

lemma rename_from_user:
  fixes S :: checkin_state
  assumes laws: "view_laws A" and app: "applyToView A (Some v) data = (Some w, r)"
    and dist: "distinct (map sym_addr (ex_symbols data))"
    and sees: "bv_symbolByAddress V = ap_symbolByAddress A w"
    and rn: "rn \<in> set (collect_renames (storeCheckinState (to_store_args r repo folder item) S) V)"
  shows "ap_symbolByAddress A v (sr_addr rn) = Some (sr_newName rn)"
proof -
  let ?rb = "import_rebase (ap_start A v) data"
  from rn obtain key where key: "(sr_addr rn, key) \<in> set (rs_addrToKey r)"
    and cur: "ap_symbolByAddress A w (sr_addr rn) = Some (sr_newName rn)"
    and differs: "sr_newName rn \<noteq> find_or (rs_addrToOriginalName r) (sr_addr rn) []"
    by (auto simp: collect_renames_def in_map_filter sees store_eqs to_store_args_def split: option.splits if_splits)
  from key have "sr_addr rn \<in> fst ` set (rs_addrToKey r)" by force
  then obtain s where s: "s \<in> set (ex_symbols data)" and addr: "sr_addr rn = applyRebase ?rb (sym_addr s)"
    by (auto simp: import_maps [OF app])
  have one: "filter (\<lambda>x. applyRebase ?rb (sym_addr x) = sr_addr rn) (ex_symbols data) = [s]"
    using filter_distinct_single [OF dist s] by (simp add: addr)
  obtain m where m: "import_name (sym_name s) (ap_symbolByAddress A v (sr_addr rn)) = Some m"
    "m = sym_name s \<or> ap_symbolByAddress A v (sr_addr rn) = Some m"
    using import_name_either by blast
  with view_laws.import_effect(1) [OF laws app, of "sr_addr rn" m] one cur have "sr_newName rn = m" by simp
  with m(2) differs last_entry_distinct [OF dist s, where rb = ?rb and val = sym_name] show ?thesis
    by (auto simp: find_or_def import_maps [OF app] addr)
qed

lemma comment_from_user:
  fixes S :: checkin_state
  assumes laws: "view_laws A" and app: "applyToView A (Some v) data = (Some w, r)"
    and dist: "distinct (map cm_addr (ex_comments data))"
    and sees: "bv_commentForAddress V = ap_commentForAddress A w"
    and c: "c \<in> set (collect_addrComments (storeCheckinState (to_store_args r repo folder item) S) V)"
  shows "ap_commentForAddress A v (cc_addr c) = cc_text c"
proof -
  let ?rb = "import_rebase (ap_start A v) data"
  let ?cs = "filter (\<lambda>x. applyRebase ?rb (cm_addr x) = cc_addr c) (ex_comments data)"
  from c have now: "cc_text c = ap_commentForAddress A w (cc_addr c)" "cc_text c \<noteq> []"
    and differs: "cc_text c \<noteq> find_or (rs_addrToOriginalComment r) (cc_addr c) []"
    by (auto simp: collect_addrComments_def in_map_filter sees Let_def store_eqs to_store_args_def split: if_splits)
  note eff = view_laws.import_effect(2) [OF laws app, of "cc_addr c"]
  show ?thesis
  proof (cases "ap_commentForAddress A v (cc_addr c) = []")
    case True
    with eff now have "?cs \<noteq> []" by auto
    then obtain x where x: "x \<in> set (ex_comments data)" and addr: "cc_addr c = applyRebase ?rb (cm_addr x)"
      by (auto simp: filter_empty_conv)
    have "?cs = [x]" using filter_distinct_single [OF dist x] by (simp add: addr)
    with eff now True have t: "comment_text x \<noteq> []" "cc_text c = comment_text x"
      by (auto simp: import_comment_def split: if_splits)
    have "distinct (map cm_addr (filter (\<lambda>c. comment_text c \<noteq> []) (ex_comments data)))"
      using dist by (rule distinct_map_filter)
    from last_entry_distinct [OF this, of x ?rb comment_text] x t differs show ?thesis
      by (simp add: find_or_def import_maps [OF app] addr)
  qed (simp add: eff now import_comment_kept)
qed

lemma plate_from_user:
  assumes laws: "view_laws A" and app: "applyToView A (Some v) data = (Some w, r)"
    and dist: "distinct (map cm_addr (ex_comments data))"
    and t: "plate_text A w b \<noteq> []" "plate_text A w b \<noteq> find_or (rs_addrToOriginalFuncComment r) b []"
  shows "plate_text A v b = plate_text A w b"
proof (rule ccontr)
  let ?rb = "import_rebase (ap_start A v) data"
  let ?cs = "filter (\<lambda>x. applyRebase ?rb (cm_addr x) = b) (ex_comments data)"
  assume differs: "plate_text A v b \<noteq> plate_text A w b"
  note eff = view_laws.import_effect(4) [OF laws app, of b]
  from differs eff have f: "has_function A (fst (after_symbols A v data)) b" by (auto split: if_splits)
  from differs eff have empty: "plate_text A v b = []" by (cases "plate_text A v b = []") (simp_all add: import_comment_kept split: if_splits)
  with eff f t(1) have "?cs \<noteq> []" by auto
  then obtain x where x: "x \<in> set (ex_comments data)" and b: "b = applyRebase ?rb (cm_addr x)" by (auto simp: filter_empty_conv)
  have "?cs = [x]" using filter_distinct_single [OF dist x] by (simp add: b)
  with eff f t(1) empty have p: "cm_plate x \<noteq> []" "plate_text A w b = cm_plate x" by (auto simp: import_comment_def split: if_splits)
  have "distinct (map cm_addr (filter (\<lambda>c. cm_plate c \<noteq> []) (ex_comments data)))" using dist by (rule distinct_map_filter)
  from last_entry_distinct [OF this, of x ?rb cm_plate] x p
  have "map_of (rs_addrToOriginalFuncComment (buildWritebackMaps A (Some v) data)) b = Some (cm_plate x)"
    by (simp add: build_eqs map_of_update_all_last b)
  with view_laws.plates_import [OF laws app, of b] f t(2) p(2) show False by (simp add: find_or_def)
qed

lemma fold_import_first:
  "hd ns \<noteq> [] \<Longrightarrow> \<not> isAutoGenName (hd ns) \<Longrightarrow> ns \<noteq> [] \<Longrightarrow> fold import_name ns None = Some (hd ns)"
  by (cases ns) (simp_all add: import_name_def import_name_kept)

lemma last_entry_last:
  assumes "filter (\<lambda>x. applyRebase rb (addr x) = b) xs \<noteq> []"
  shows "last_entry rb addr val xs b = Some (val (last (filter (\<lambda>x. applyRebase rb (addr x) = b) xs)))"
  using assms by (induction xs rule: rev_induct) (auto simp: last_entry_def)

section \<open>Properties\<close>

text \<open>
  C17: both entry points compute the write-back state the export specifies. The maps of \<open>applyToView\<close> and
  \<open>buildWritebackMaps\<close> hold, for every address, the last entry of the export rebased to it, and the
  other baselines are the export's own lists, whatever the view holds. They differ in the comments of functions:
  \<open>buildWritebackMaps\<close> records a plate comment at every address, \<open>applyToView\<close> only where a function starts once the
  symbols were applied.
\<close>

theorem writeback_refines_export:
  fixes A :: "('v, 'f, 't, 'g) bn_api" and v :: 'v
  defines "rb data \<equiv> import_rebase (ap_start A v) data"
  shows "r \<in> {snd (applyToView A (Some v) data), buildWritebackMaps A (Some v) data} \<Longrightarrow>
    map_of (rs_addrToKey r) b = last_entry (rb data) sym_addr sym_key (ex_symbols data) b \<and>
    map_of (rs_addrToOriginalName r) b = last_entry (rb data) sym_addr sym_name (ex_symbols data) b \<and>
    map_of (rs_addrToOriginalComment r) b =
      last_entry (rb data) cm_addr comment_text (filter (\<lambda>c. comment_text c \<noteq> []) (ex_comments data)) b \<and>
    map_of (rs_addrToCommentField r) b =
      last_entry (rb data) cm_addr comment_column (filter (\<lambda>c. comment_text c \<noteq> []) (ex_comments data)) b \<and>
    map_of (rs_addrToCommentKey r) b =
      last_entry (rb data) cm_addr cm_encodedKey (filter (\<lambda>c. cm_encodedKey c \<noteq> []) (ex_comments data)) b \<and>
    rs_ghidraDataTypes r = ex_dataTypes data \<and> rs_parameters r = ex_parameters data \<and>
    rs_bookmarks r = ex_bookmarks data \<and> rs_dataItems r = ex_dataItems data \<and> rs_equates r = ex_equates data \<and>
    rs_funcSigs r = ex_funcSigs data \<and> rs_imageBase r = ex_imageBase data \<and>
    map_of (rs_addrToOriginalFuncComment (buildWritebackMaps A (Some v) data)) b =
      last_entry (rb data) cm_addr cm_plate (filter (\<lambda>c. cm_plate c \<noteq> []) (ex_comments data)) b \<and>
    (view_laws A \<longrightarrow> map_of (rs_addrToOriginalFuncComment (snd (applyToView A (Some v) data))) b =
      (if has_function A (fst (after_symbols A v data)) b
       then last_entry (rb data) cm_addr cm_plate (filter (\<lambda>c. cm_plate c \<noteq> []) (ex_comments data)) b else None))"
proof -
  assume "r \<in> {snd (applyToView A (Some v) data), buildWritebackMaps A (Some v) data}"
  then have "shared_maps r = shared_maps (buildWritebackMaps A (Some v) data)" by (auto simp: maps_agree)
  note f = shared_fields [OF this]
  have build: "map_of (rs_addrToOriginalFuncComment (buildWritebackMaps A (Some v) data)) b =
      last_entry (rb data) cm_addr cm_plate (filter (\<lambda>c. cm_plate c \<noteq> []) (ex_comments data)) b"
    by (simp add: build_eqs map_of_update_all_last rb_def)
  moreover have "map_of (rs_addrToOriginalFuncComment (snd (applyToView A (Some v) data))) b =
      (if has_function A (fst (after_symbols A v data)) b
       then last_entry (rb data) cm_addr cm_plate (filter (\<lambda>c. cm_plate c \<noteq> []) (ex_comments data)) b else None)" if "view_laws A"
    unfolding build [symmetric] by (rule view_laws.plates_import [OF that]) (simp add: applyToView_passes)
  ultimately show ?thesis unfolding f by (simp add: build_eqs map_of_update_all_last rb_def)
qed

theorem writeback_refines_export_witness:
  "map_of (rs_addrToOriginalName (buildWritebackMaps sim_api (Some sample_bn) sample_export)) 0x401010 = Some ''main'' \<and>
   map_of (rs_addrToOriginalFuncComment (buildWritebackMaps sim_api (Some sample_bn) sample_export)) 0x402000 = Some ''data'' \<and>
   map_of (rs_addrToOriginalFuncComment (snd (applyToView sim_api (Some sample_bn) sample_export))) 0x402000 = None"
proof -
  let ?r = "buildWritebackMaps sim_api (Some sample_bn) sample_export"
  note eqs = last_entry_def sample_export_def default_GhidraDbExport_def import_rebase_def sim_api_def sample_bn_def
      sim_empty_def applyRebase_def
  have "\<not> (has_function sim_api sample_bn 0x402000 \<or> ap_hasDefaultPlatform sim_api sample_bn \<and>
      (\<exists>s \<in> set (ex_symbols sample_export). sym_type s = SymFunction \<and>
        applyRebase (import_rebase (ap_start sim_api sample_bn) sample_export) (sym_addr s) = 0x402000))"
    by code_simp
  then have "\<not> has_function sim_api (fst (after_symbols sim_api sample_bn sample_export)) 0x402000"
    using sim.symbols_pass_function by blast
  moreover note props = writeback_refines_export [of ?r sim_api sample_bn sample_export]
  have "map_of (rs_addrToOriginalName ?r) 0x401010 =
      last_entry (import_rebase (ap_start sim_api sample_bn) sample_export) sym_addr sym_name (ex_symbols sample_export) 0x401010"
    using props [of "0x401010"] by blast
  moreover have "map_of (rs_addrToOriginalFuncComment ?r) 0x402000 =
      last_entry (import_rebase (ap_start sim_api sample_bn) sample_export) cm_addr cm_plate
        (filter (\<lambda>c. cm_plate c \<noteq> []) (ex_comments sample_export)) 0x402000"
    using props [of "0x402000"] by blast
  moreover have "last_entry (import_rebase (ap_start sim_api sample_bn) sample_export) sym_addr sym_name (ex_symbols sample_export) 0x401010 = Some ''main''"
    by (simp add: eqs)
  moreover have "last_entry (import_rebase (ap_start sim_api sample_bn) sample_export) cm_addr cm_plate
        (filter (\<lambda>c. cm_plate c \<noteq> []) (ex_comments sample_export)) 0x402000 = Some ''data''" by (simp add: eqs)
  moreover have "map_of (rs_addrToOriginalFuncComment (snd (applyToView sim_api (Some sample_bn) sample_export))) 0x402000 =
      (if has_function sim_api (fst (after_symbols sim_api sample_bn sample_export)) 0x402000
       then last_entry (import_rebase (ap_start sim_api sample_bn) sample_export) cm_addr cm_plate
         (filter (\<lambda>c. cm_plate c \<noteq> []) (ex_comments sample_export)) 0x402000 else None)"
    using props [of "0x402000"] sim_laws by blast
  ultimately show ?thesis by (simp only: if_False simp_thms)
qed

text \<open>
  C6: the import never overwrites the user's work. A name of the view that is not auto-generated, a comment of an address
  and a comment of a function that are not empty are still there, unchanged, after \<open>applyToView\<close>, and every function
  of the view is kept.
\<close>

theorem import_preserves_user_edits:
  assumes "view_laws A" and "applyToView A (Some v) data = (Some w, r)"
  shows "(ap_symbolByAddress A v b = Some en \<and> en \<noteq> [] \<and> \<not> isAutoGenName en \<longrightarrow> ap_symbolByAddress A w b = Some en) \<and>
    (ap_commentForAddress A v b \<noteq> [] \<longrightarrow> ap_commentForAddress A w b = ap_commentForAddress A v b) \<and>
    (plate_text A v b \<noteq> [] \<longrightarrow> plate_text A w b = plate_text A v b) \<and>
    (has_function A v b \<longrightarrow> has_function A w b)"
  using view_laws.import_effect [OF assms] by (simp add: import_name_kept import_comment_kept)

theorem import_preserves_user_edits_witness:
  "ap_symbolByAddress sim_api sample_imported 0x401100 = Some ''my_helper'' \<and>
   ap_commentForAddress sim_api sample_imported 0x402000 = ''mine'' \<and> plate_text sim_api sample_imported 0x401010 = ''my entry''"
proof -
  have "ap_symbolByAddress sim_api sample_bn 0x401100 = Some ''my_helper'' \<and> \<not> isAutoGenName ''my_helper'' \<and>
      ap_commentForAddress sim_api sample_bn 0x402000 = ''mine'' \<and> plate_text sim_api sample_bn 0x401010 = ''my entry''"
    by code_simp
  then show ?thesis
    using import_preserves_user_edits [OF sim_laws sample_import, of "0x401100" "''my_helper''"]
      import_preserves_user_edits [OF sim_laws sample_import, of "0x402000"]
      import_preserves_user_edits [OF sim_laws sample_import, of "0x401010"] by simp
qed

text \<open>
  C7: right after an import of an export with one symbol and one comment per address, the check-in
  diff reports only what the user had in the view before: each rename carries a name and each comment
  a text the view already had at that address, or in the function there, before the import; and no symbol of the export
  is reported as new.
\<close>

theorem import_reports_only_user_edits:
  fixes S :: checkin_state
  assumes "view_laws A" and "applyToView A (Some v) data = (Some w, r)"
    and "distinct (map sym_addr (ex_symbols data))" and "distinct (map cm_addr (ex_comments data))"
    and "bv_symbolByAddress V = ap_symbolByAddress A w" and "bv_commentForAddress V = ap_commentForAddress A w"
    and "\<forall>f \<in> set (bv_functionList V). fn_comment f = plate_text A w (fn_start f)"
  shows "(\<forall>rn \<in> set (collect_renames (storeCheckinState (to_store_args r repo folder item) S) V).
            ap_symbolByAddress A v (sr_addr rn) = Some (sr_newName rn)) \<and>
    (\<forall>c \<in> set (collect_comments (storeCheckinState (to_store_args r repo folder item) S) V).
            cc_text c \<in> {ap_commentForAddress A v (cc_addr c), plate_text A v (cc_addr c)}) \<and>
    (\<forall>n \<in> set (collect_newSymbols (storeCheckinState (to_store_args r repo folder item) S) V).
            \<forall>s \<in> set (ex_symbols data). ns_addr n \<noteq> applyRebase (import_rebase (ap_start A v) data) (sym_addr s))"
proof (intro conjI ballI)
  fix c assume "c \<in> set (collect_comments (storeCheckinState (to_store_args r repo folder item) S) V)"
  then show "cc_text c \<in> {ap_commentForAddress A v (cc_addr c), plate_text A v (cc_addr c)}"
  proof (cases rule: in_collect_comments)
    case 1
    then show ?thesis using comment_from_user [OF assms(1,2,4,6)] by simp
  next
    case (2 f)
    then show ?thesis using plate_from_user [OF assms(1,2,4), of "fn_start f"] assms(7) by (simp add: store_eqs to_store_args_def)
  qed
next
  fix n s assume "n \<in> set (collect_newSymbols (storeCheckinState (to_store_args r repo folder item) S) V)" "s \<in> set (ex_symbols data)"
  then show "ns_addr n \<noteq> applyRebase (import_rebase (ap_start A v) data) (sym_addr s)"
    using newSymbols_fresh [of n "storeCheckinState (to_store_args r repo folder item) S" "[]" "bv_symbols V"] import_maps(3) [OF assms(2)]
    by (auto simp: collect_newSymbols_def has_key_def map_of_eq_None_iff store_eqs to_store_args_def)
qed (use rename_from_user [OF assms(1-3,5)] in blast)

text \<open>The answers of a concrete view the diff looks at\<close>

definition sim_bn_view :: "sim_view \<Rightarrow> bn_view" where
  "sim_bn_view v = (empty_view (sv_start v))\<lparr>bv_symbolByAddress := ap_symbolByAddress sim_api v,
     bv_commentForAddress := ap_commentForAddress sim_api v, bv_commentedAddresses := map fst (sv_comments v),
     bv_functionList := map (\<lambda>f. \<lparr>fn_start = f, fn_comment = plate_text sim_api v f, fn_parameterVariables = [], fn_variables = [],
       fn_variableName = (\<lambda>_. []), fn_variableType = (\<lambda>_. None), fn_hasUserType = False, fn_callingConvention = None,
       fn_returnType = None, fn_defaultCC = None\<rparr>) (sv_functions v)\<rparr>"

lemma sample_maps:
  "rs_addrToKey sample_result = [(0x401010, 7), (0x401100, 8), (0x402000, 9)]"
  "rs_addrToOriginalName sample_result = [(0x401010, ''main''), (0x401100, ''helper''), (0x402000, ''table'')]"
  unfolding sample_result_def shared_fields [OF maps_agree] by code_simp+

lemma sample_names:
  "ap_symbolByAddress sim_api sample_imported 0x401010 = Some ''main''"
  "ap_symbolByAddress sim_api sample_imported 0x401100 = Some ''my_helper''"
  "ap_symbolByAddress sim_api sample_imported 0x402000 = Some ''table''"
  by (rule sim.import_effect(1) [OF sample_import], code_simp)+

theorem import_reports_only_user_edits_witness:
  "collect_renames (storeCheckinState (to_store_args sample_result [] [] ''a'') initial_checkin) (sim_bn_view sample_imported) =
     [\<lparr>sr_key = 8, sr_addr = 0x401100, sr_originalName = ''helper'', sr_newName = ''my_helper''\<rparr>] \<and>
   list_all (\<lambda>rn. ap_symbolByAddress sim_api sample_bn (sr_addr rn) = Some (sr_newName rn))
     (collect_renames (storeCheckinState (to_store_args sample_result [] [] ''a'') initial_checkin) (sim_bn_view sample_imported))"
proof -
  have "distinct (map sym_addr (ex_symbols sample_export))" "distinct (map cm_addr (ex_comments sample_export))"
    by code_simp+
  from import_reports_only_user_edits [OF sim_laws sample_import this, where V = "sim_bn_view sample_imported" and
      S = initial_checkin and repo = "[]" and folder = "[]" and item = "''a''"]
  have "list_all (\<lambda>rn. ap_symbolByAddress sim_api sample_bn (sr_addr rn) = Some (sr_newName rn))
     (collect_renames (storeCheckinState (to_store_args sample_result [] [] ''a'') initial_checkin) (sim_bn_view sample_imported))"
    by (simp add: list_all_iff sim_bn_view_def)
  moreover have "collect_renames (storeCheckinState (to_store_args sample_result [] [] ''a'') initial_checkin)
      (sim_bn_view sample_imported) =
     [\<lparr>sr_key = 8, sr_addr = 0x401100, sr_originalName = ''helper'', sr_newName = ''my_helper''\<rparr>]"
    by (simp add: collect_renames_def store_eqs to_store_args_def sample_maps sim_bn_view_def sample_names find_or_def
        List.map_filter_simps)
  ultimately show ?thesis by (rule conjI [rotated])
qed

text \<open>
  When an export holds several symbols at one address that has no name in the view, the view
  gets the first name and the baseline the last one. The next check-in then reports a rename of the
  last symbol to the first one's name, which no user made.
\<close>

theorem second_symbol_spurious_rename:
  fixes S :: checkin_state
  assumes "view_laws A" and "applyToView A (Some v) data = (Some w, r)"
    and "ss = filter (\<lambda>s. applyRebase (import_rebase (ap_start A v) data) (sym_addr s) = b) (ex_symbols data)"
    and "ss \<noteq> []" and "ap_symbolByAddress A v b = None"
    and "sym_name (hd ss) \<noteq> []" and "\<not> isAutoGenName (sym_name (hd ss))" and "sym_name (hd ss) \<noteq> sym_name (last ss)"
    and "bv_symbolByAddress V = ap_symbolByAddress A w"
  shows "\<lparr>sr_key = sym_key (last ss), sr_addr = b, sr_originalName = sym_name (last ss), sr_newName = sym_name (hd ss)\<rparr>
    \<in> set (collect_renames (storeCheckinState (to_store_args r repo folder item) S) V)"
proof -
  have "fold import_name (map sym_name ss) None = Some (sym_name (hd ss))"
    using assms(4,6,7) by (simp add: fold_import_first hd_map)
  with assms(3,5) have "ap_symbolByAddress A w b = Some (sym_name (hd ss))"
    by (intro view_laws.import_effect(1) [OF assms(1,2)]) simp
  moreover have "map_of (rs_addrToOriginalName r) b = Some (sym_name (last ss))"
    "map_of (rs_addrToKey r) b = Some (sym_key (last ss))"
    using last_entry_last [of "import_rebase (ap_start A v) data" sym_addr b "ex_symbols data"] assms(3,4)
    by (simp_all add: import_maps [OF assms(2)])
  ultimately show ?thesis
    using assms(8) by (auto simp: collect_renames_def in_map_filter assms(9) store_eqs to_store_args_def find_or_def
        dest: map_of_SomeD intro!: bexI [where x = "(b, sym_key (last ss))"])
qed

definition twin_export :: GhidraDbExport where
  "twin_export =
     default_GhidraDbExport\<lparr>ex_symbols :=
       [\<lparr>sym_key = 1, sym_name = ''first'', sym_addr = 0x10, sym_type = SymLabel, sym_source = SrcUser, sym_namespaceId = 0\<rparr>,
        \<lparr>sym_key = 2, sym_name = ''second'', sym_addr = 0x10, sym_type = SymLabel, sym_source = SrcUser, sym_namespaceId = 0\<rparr>]\<rparr>"

theorem second_symbol_spurious_rename_witness:
  "\<exists>w r. applyToView sim_api (Some (sim_empty 0)) twin_export = (Some w, r) \<and>
     \<lparr>sr_key = 2, sr_addr = 0x10, sr_originalName = ''second'', sr_newName = ''first''\<rparr>
       \<in> set (collect_renames (storeCheckinState (to_store_args r [] [] ''a'') initial_checkin) (sim_bn_view w))"
proof -
  obtain w r where app: "applyToView sim_api (Some (sim_empty 0)) twin_export = (Some w, r)"
    by (simp add: applyToView_passes)
  have ss: "ex_symbols twin_export = filter (\<lambda>s. applyRebase (import_rebase (ap_start sim_api (sim_empty 0)) twin_export)
      (sym_addr s) = 0x10) (ex_symbols twin_export)"
    and facts: "ex_symbols twin_export \<noteq> []" "ap_symbolByAddress sim_api (sim_empty 0) 0x10 = None"
      "sym_name (hd (ex_symbols twin_export)) \<noteq> []" "\<not> isAutoGenName (sym_name (hd (ex_symbols twin_export)))"
      "sym_name (hd (ex_symbols twin_export)) \<noteq> sym_name (last (ex_symbols twin_export))"
    by code_simp+
  have "bv_symbolByAddress (sim_bn_view w) = ap_symbolByAddress sim_api w" by (simp add: sim_bn_view_def)
  from second_symbol_spurious_rename [OF sim_laws app ss facts this, of "[]" "[]" "''a''" initial_checkin] app
  show ?thesis by (auto simp: twin_export_def)
qed

text \<open>
  C16: the check-in state an import or a restore leaves is well formed, whatever the export holds and
  whether or not a view is open, and belongs to the imported item.
\<close>

theorem imported_state_wf:
  "checkin_wf (storeCheckinState (to_store_args (snd (applyToView A view data)) repo folder item) S) \<and>
   checkin_wf (storeCheckinState (to_store_args (buildWritebackMaps A view data) repo folder item) S) \<and>
   isCheckinItem (storeCheckinState (to_store_args (snd (applyToView A view data)) repo folder item) S) repo folder item"
  by (intro conjI store_checkin_wf apply_args_ok build_args_ok)
    (simp add: isCheckinItem_def store_eqs to_store_args_def)

section \<open>Type names\<close>

lemma rtrim_snoc: "\<not> is_blank c \<Longrightarrow> rtrim (s @ [c]) = s @ [c]"
  by (simp add: rtrim_def)

lemma resolve_pointer:
  "resolveTypeName A view (s @ ''*'') h =
     Some (ap_pointerType A (case view of None \<Rightarrow> 8 | Some v \<Rightarrow> ap_addressSize A v)
       (if rtrim s = [] then ap_voidType A
        else case resolveTypeName A view (rtrim s) 0 of None \<Rightarrow> ap_voidType A | Some t \<Rightarrow> t))"
proof -
  have "pointer_base (s @ ''*'') = Some (rtrim s)"
    by (simp add: pointer_base_def Let_def rtrim_snoc is_blank_def char_code_def)
  then show ?thesis
    by (subst resolveTypeName.simps) (simp add: Let_def)
qed

lemma resolve_array:
  assumes "0 < n" "n < 2 ^ 64" "rtrim s \<noteq> []" "resolveTypeName A view (rtrim s) 0 = Some t"
  shows "resolveTypeName A view (s @ ''['' @ dec_digits n @ '']'') h = Some (ap_arrayType A t (of_nat n))"
proof -
  let ?name = "s @ ''['' @ dec_digits n @ '']''"
  have digits: "CHR ''['' \<notin> set (dec_digits n)"
    using dec_digits_all [of n] by (auto simp: list_all_iff is_dec_digit_def char_code_def)
  have "pointer_base ?name = None"
    using rtrim_snoc [of "CHR '']''" "s @ ''['' @ dec_digits n"] by (simp add: pointer_base_def Let_def is_blank_def char_code_def)
  moreover have "array_parts ?name = Some (rtrim s, of_nat n)"
  proof -
    have "rfind_char CHR ''['' ?name = Some (length s)"
      using rfind_last [of "CHR ''[''" "dec_digits n @ '']''" s] digits by simp
    moreover have "(of_nat n :: u64) > 0"
      using assms(1,2) by (auto simp: word_greater_zero_iff word_of_nat_eq_0_iff take_bit_eq_mod dest: dvd_imp_le)
    ultimately show ?thesis
      using assms(3) stoull_dec_digits [OF assms(2)] by (simp add: array_parts_def Let_def)
  qed
  ultimately show ?thesis using assms(4) by (subst resolveTypeName.simps) simp
qed

text \<open>
  C29: type names resolve structurally. A pointer name always resolves, to a pointer to what its base
  resolves to or to void; an array name with a count that fits 64 bits resolves to an array of its
  element with exactly that count; any other name is a type of the view, a primitive, or an unsigned
  integer of the hinted width, which is between 1 and 16 bytes.
\<close>

theorem resolve_structure:
  "(\<exists>t. resolveTypeName A view (s @ ''*'') h =
      Some (ap_pointerType A (case view of None \<Rightarrow> 8 | Some v \<Rightarrow> ap_addressSize A v) t) \<and>
      (resolveTypeName A view (rtrim s) 0 = Some t \<or> resolveTypeName A view (rtrim s) 0 = None \<and> t = ap_voidType A)) \<and>
   (0 < n \<and> n < 2 ^ 64 \<and> resolveTypeName A view (rtrim s) 0 = Some t \<longrightarrow>
      resolveTypeName A view (s @ ''['' @ dec_digits n @ '']'') h = Some (ap_arrayType A t (of_nat n))) \<and>
   (pointer_base s = None \<and> array_parts s = None \<and> s \<noteq> [] \<and> resolveTypeName A view s h = Some u \<longrightarrow>
      (\<exists>v. view = Some v \<and> ap_typeByName A v s = Some u) \<or> prim_type A s = Some u \<or>
      0 < sint h \<and> sint h \<le> 16 \<and> u = ap_integerType A (unat h) False)"
proof (intro conjI impI)
  have nil: "resolveTypeName A view [] 0 = None" by (subst resolveTypeName.simps) simp
  show "\<exists>t. resolveTypeName A view (s @ ''*'') h =
      Some (ap_pointerType A (case view of None \<Rightarrow> 8 | Some v \<Rightarrow> ap_addressSize A v) t) \<and>
      (resolveTypeName A view (rtrim s) 0 = Some t \<or> resolveTypeName A view (rtrim s) 0 = None \<and> t = ap_voidType A)"
    by (auto simp: resolve_pointer nil split: option.split)
  show "resolveTypeName A view (s @ ''['' @ dec_digits n @ '']'') h = Some (ap_arrayType A t (of_nat n))"
    if "0 < n \<and> n < 2 ^ 64 \<and> resolveTypeName A view (rtrim s) 0 = Some t"
    using that nil by (intro resolve_array) auto
  show "(\<exists>v. view = Some v \<and> ap_typeByName A v s = Some u) \<or> prim_type A s = Some u \<or>
      0 < sint h \<and> sint h \<le> 16 \<and> u = ap_integerType A (unat h) False"
    if "pointer_base s = None \<and> array_parts s = None \<and> s \<noteq> [] \<and> resolveTypeName A view s h = Some u"
    using that
    by (subst (asm) resolveTypeName.simps)
      (auto simp: named_type_def hint_type_def split: option.splits if_splits)
qed

theorem resolve_structure_witness:
  "resolveTypeName sim_api None ''int *[4]'' 0 = Some (SimArray (SimPointer 8 (SimInt 4 True)) 4)"
proof -
  have "resolveTypeName sim_api None (rtrim ''int *'') 0 = Some (SimPointer 8 (SimInt 4 True))" by code_simp
  moreover have "ap_arrayType sim_api = SimArray" "dec_digits 4 = ''4''" by (simp add: sim_api_def, code_simp)
  ultimately show ?thesis
    using resolve_structure [of sim_api None "''int *''" 0 4 "SimPointer 8 (SimInt 4 True)"] by simp
qed

definition int_prims :: "(string \<times> nat \<times> bool) list" where
  "int_prims = map (\<lambda>(n, w, sg, fl). (n, w, sg)) (filter (\<lambda>(n, w, sg, fl). \<not> fl \<and> w > 0 \<and> n \<noteq> ''bool'') prims)"

definition stdint_name :: "nat \<Rightarrow> bool \<Rightarrow> string" where
  "stdint_name w sg = (if sg then ''int'' else ''uint'') @ dec_digits (8 * w) @ ''_t''"

text \<open>
  The table of primitives the import resolves and the aliases the check-in compares with agree:
  an imported integer type is rendered by its \<open>stdint\<close> name, and the normal form of that rendering is
  the normal form of the Ghidra name it came from, for every integer entry of the table.
\<close>

theorem prim_tables_agree:
  "map (\<lambda>(n, w, sg). canonicalTypeName (stdint_name w sg)) int_prims = map (\<lambda>(n, w, sg). canonicalTypeName n) int_prims \<and>
   length int_prims = 23"
  by code_simp

end
