(* ===== verification/Lines.thy ===== *)
theory Lines
  imports Text_Num
begin

text \<open>
  Lines of a byte stream. The client's receive loop, the handshake reader and the loggers of the
  bridge process all cut a stream at newlines and drop a carriage return before the newline; their
  loops are compared with \<open>split_nl\<close>.
\<close>

definition newline :: char where
  "newline = char_of (10 :: nat)"

definition carriage_return :: char where
  "carriage_return = char_of (13 :: nat)"

definition strip_cr :: "string \<Rightarrow> string" where
  "strip_cr line = (if line \<noteq> [] \<and> last line = carriage_return then butlast line else line)"

text \<open>The lines of a byte stream and the rest after the last newline\<close>

fun split_nl :: "string \<Rightarrow> string list \<times> string" where
  "split_nl [] = ([], [])"
| "split_nl (c # s) =
     (let (ls, r) = split_nl s in
      if c = newline then ([] # ls, r)
      else case ls of [] \<Rightarrow> ([], c # r) | l # ls' \<Rightarrow> ((c # l) # ls', r))"

lemma split_nl_first:
  assumes "newline \<in> set s"
  defines "line \<equiv> takeWhile (\<lambda>c. c \<noteq> newline) s"
  shows "split_nl s = (line # fst (split_nl (drop (Suc (length line)) s)), snd (split_nl (drop (Suc (length line)) s)))"
  using assms by (induction s arbitrary: line) (auto simp: Let_def split: prod.splits)

lemma split_nl_none: "newline \<notin> set s \<Longrightarrow> split_nl s = ([], s)"
  by (induction s) auto

lemma split_nl_append:
  "split_nl (s @ t) =
     (fst (split_nl s) @ fst (split_nl (snd (split_nl s) @ t)), snd (split_nl (snd (split_nl s) @ t)))"
proof (induction s)
  case (Cons c s)
  then show ?case
    by (cases "split_nl s"; cases "fst (split_nl s)")
      (auto simp: Let_def split: prod.splits list.splits)
qed simp

lemma split_nl_roundtrip: "split_nl s = (ls, r) \<Longrightarrow> concat (map (\<lambda>l. l @ [newline]) ls) @ r = s \<and> newline \<notin> set r \<and> (\<forall>l \<in> set ls. newline \<notin> set l)"
  by (induction s arbitrary: ls r) (auto simp: Let_def split: prod.splits list.splits if_splits)

lemma split_nl_rest: "newline \<notin> set (snd (split_nl s))"
  using split_nl_roundtrip [of s] by (cases "split_nl s") auto

lemma split_nl_line: "newline \<notin> set l \<Longrightarrow> split_nl (l @ newline # s) = (l # fst (split_nl s), snd (split_nl s))"
  using split_nl_first [of "l @ newline # s"] by (simp add: takeWhile_append)

lemma split_nl_lines:
  "list_all (\<lambda>l. newline \<notin> set l) ls \<Longrightarrow>
   split_nl (concat (map (\<lambda>l. l @ [newline]) ls) @ s) = (ls @ fst (split_nl s), snd (split_nl s))"
  by (induction ls) (simp_all add: split_nl_line)

end
