(* ===== verification/Bridge_Client.thy ===== *)
theory Bridge_Client
  imports Lines Json_Lib "HOL-Library.Multiset"
begin

text \<open>
  \<open>BridgeClient\<close>: the newline-delimited JSON client of the bridge process. The state is the record
  of the class's members; callbacks are tokens, and an operation that calls some returns the calls in
  order. Sockets are arguments: \<open>connect\<close> takes the outcomes of the three system calls, \<open>sendRaw\<close> a
  function that answers \<open>send\<close>, \<open>receiveLoop\<close> the list of what \<open>recv\<close> returned. Threads appear
  in the step relation \<open>client_step\<close>, whose steps are the critical sections of the class.
\<close>

section \<open>State\<close>

datatype ('c, 'j) callback_call = ResponseCall 'c 'j | EventCall 'c 'j

record 'c bridge_client =
  m_sockValid :: bool
  m_running :: bool
  m_nextId :: i32
  m_pending :: "(i32, 'c) umap"
  m_eventCallback :: "'c option"

definition new_client :: "'c bridge_client" where
  "new_client = \<lparr>m_sockValid = False, m_running = False, m_nextId = 1, m_pending = [], m_eventCallback = None\<rparr>"

definition isConnected :: "'c bridge_client \<Rightarrow> bool" where
  "isConnected C = m_sockValid C"

definition error_response :: "'j json_lib \<Rightarrow> i32 \<Rightarrow> string \<Rightarrow> 'j" where
  "error_response J rid e = jl_object J [(''id'', jl_int J rid), (''ok'', jl_bool J False), (''error'', jl_string J e)]"

section \<open>Connect and disconnect\<close>

text \<open>Pending requests are failed in the order of the ordered map, by increasing id.\<close>

definition disconnect ::
    "'j json_lib \<Rightarrow> 'c bridge_client \<Rightarrow> 'c bridge_client \<times> ('c, 'j) callback_call list" where
  "disconnect J C =
     (C\<lparr>m_running := False, m_sockValid := False, m_pending := []\<rparr>,
      map (\<lambda>(rid, cb). ResponseCall cb (error_response J rid ''BridgeClient disconnected''))
        (sort_key (\<lambda>(rid, cb). sint rid) (m_pending C)))"

text \<open>
  \<open>socketOk\<close>, \<open>ptonOk\<close> and \<open>connectOk\<close> are the outcomes of \<open>socket\<close>, \<open>inet_pton\<close> and \<open>connect\<close>;
  the error is the value left in \<open>errorOut\<close>, \<open>None\<close> when it is not written.
\<close>

definition bridge_connect ::
    "'j json_lib \<Rightarrow> string \<Rightarrow> i32 \<Rightarrow> bool \<Rightarrow> bool \<Rightarrow> bool \<Rightarrow> 'c bridge_client \<Rightarrow>
     string option \<times> 'c bridge_client \<times> ('c, 'j) callback_call list" where
  "bridge_connect J host port socketOk ptonOk connectOk C =
     (let (C, calls) = disconnect J C;
          h = (if host = [] then ''127.0.0.1'' else c_str host) in
      if \<not> socketOk then (Some ''socket() failed'', C, calls)
      else if \<not> ptonOk then (Some (''Invalid bridge host address: '' @ h), C, calls)
      else if \<not> connectOk
      then (Some (''connect() to '' @ h @ '':'' @ to_string_i32 port @ '' failed''), C, calls)
      else (None, C\<lparr>m_sockValid := True, m_running := True\<rparr>, calls))"

section \<open>Sending\<close>

text \<open>
  The loop of \<open>sendRaw\<close>: \<open>send k bytes\<close> is the answer of the \<open>k\<close>-th call for the remaining bytes;
  the result is the return value and the bytes handed to the socket.
\<close>

function sendRaw_loop :: "(nat \<Rightarrow> string \<Rightarrow> int) \<Rightarrow> nat \<Rightarrow> int \<Rightarrow> string \<Rightarrow> bool \<times> string" where
  "sendRaw_loop send k rem p =
     (if rem \<le> 0 then (True, [])
      else
        let sent = send k (take (nat rem) p) in
        if sent \<le> 0 then (False, [])
        else let (ok, wire) = sendRaw_loop send (Suc k) (rem - sent) (drop (nat sent) p)
             in (ok, take (nat sent) p @ wire))"
  by pat_completeness auto
termination
  by (relation "measure (\<lambda>(send, k, rem, p). nat rem)") auto

declare sendRaw_loop.simps [simp del]

definition sendRaw :: "(nat \<Rightarrow> string \<Rightarrow> int) \<Rightarrow> string \<Rightarrow> 'c bridge_client \<Rightarrow> bool \<times> string" where
  "sendRaw send line C =
     (if \<not> m_sockValid C then (False, [])
      else sendRaw_loop send 0 (sint (of_nat (length line) :: i32)) line)"

text \<open>The two critical sections of \<open>sendAsync\<close>: registering the callback, and failing it\<close>

definition register_callback :: "'c \<Rightarrow> 'c bridge_client \<Rightarrow> i32 \<times> 'c bridge_client" where
  "register_callback cb C =
     (let rid = m_nextId C in (rid, C\<lparr>m_nextId := rid + 1, m_pending := AList.update rid cb (m_pending C)\<rparr>))"

definition fail_send ::
    "'j json_lib \<Rightarrow> i32 \<Rightarrow> 'c bridge_client \<Rightarrow> 'c bridge_client \<times> ('c, 'j) callback_call list" where
  "fail_send J rid C =
     (case map_of (m_pending C) rid of
        None \<Rightarrow> (C, [])
      | Some cb \<Rightarrow> (C\<lparr>m_pending := AList.delete rid (m_pending C)\<rparr>,
                    [ResponseCall cb (error_response J rid ''send failed'')]))"

text \<open>An exception of \<open>dump\<close> leaves the callback registered.\<close>

definition sendAsync ::
    "'j json_lib \<Rightarrow> (nat \<Rightarrow> string \<Rightarrow> int) \<Rightarrow> 'j \<Rightarrow> 'c \<Rightarrow> 'c bridge_client \<Rightarrow>
     unit result \<times> string \<times> 'c bridge_client \<times> ('c, 'j) callback_call list" where
  "sendAsync J send request cb C =
     (let (rid, C) = register_callback cb C in
      case jl_dump J (jl_set J ''id'' (jl_int J rid) request) of
        Inl e \<Rightarrow> (Inl e, [], C, [])
      | Inr text \<Rightarrow>
          (let (ok, wire) = sendRaw send (text @ [char_of (10 :: nat)]) C in
           if ok then (Inr (), wire, C, [])
           else let (C, calls) = fail_send J rid C in (Inr (), wire, C, calls)))"

definition setEventCallback :: "'c option \<Rightarrow> 'c bridge_client \<Rightarrow> 'c bridge_client" where
  "setEventCallback cb C = C\<lparr>m_eventCallback := cb\<rparr>"

section \<open>Receiving\<close>

definition dispatch ::
    "'j json_lib \<Rightarrow> 'j \<Rightarrow> 'c bridge_client \<Rightarrow> ('c bridge_client \<times> ('c, 'j) callback_call list) result" where
  "dispatch J msg C =
     (if jl_contains J msg ''event''
      then Inr (C, case m_eventCallback C of None \<Rightarrow> [] | Some cb \<Rightarrow> [EventCall cb msg])
      else if \<not> jl_contains J msg ''id'' then Inr (C, [])
      else
        res_bind (jl_at J msg ''id'') (\<lambda>j.
        res_bind (jl_get_int J j) (\<lambda>rid.
        Inr (case map_of (m_pending C) rid of
               None \<Rightarrow> (C, [])
             | Some cb \<Rightarrow> (C\<lparr>m_pending := AList.delete rid (m_pending C)\<rparr>, [ResponseCall cb msg])))))"

text \<open>One line of the inner loop: empty lines are skipped, exceptions ignored\<close>

definition receive_line ::
    "'j json_lib \<Rightarrow> string \<Rightarrow> 'c bridge_client \<times> ('c, 'j) callback_call list \<Rightarrow>
     'c bridge_client \<times> ('c, 'j) callback_call list" where
  "receive_line J line st =
     (let (C, calls) = st; line = strip_cr line in
      if line = [] then st
      else case res_bind (jl_parse J line) (\<lambda>msg. dispatch J msg C) of
        Inl _ \<Rightarrow> st
      | Inr (C', new) \<Rightarrow> (C', calls @ new))"

function process_partial ::
    "'j json_lib \<Rightarrow> string \<Rightarrow> 'c bridge_client \<times> ('c, 'j) callback_call list \<Rightarrow>
     string \<times> 'c bridge_client \<times> ('c, 'j) callback_call list" where
  "process_partial J partial st =
     (if newline \<in> set partial then
        let line = takeWhile (\<lambda>c. c \<noteq> newline) partial
        in process_partial J (drop (Suc (length line)) partial) (receive_line J line st)
      else (partial, st))"
  by pat_completeness auto
termination
  by (relation "measure (\<lambda>(J, partial, st). length partial)") (auto intro!: diff_less length_pos_if_in_set)

declare process_partial.simps [simp del]

text \<open>\<open>None\<close> is a \<open>recv\<close> that returned 0 or less; the list ends where \<open>recv\<close> blocks.\<close>

fun receiveLoop ::
    "'j json_lib \<Rightarrow> string option list \<Rightarrow> string \<Rightarrow> 'c bridge_client \<times> ('c, 'j) callback_call list \<Rightarrow>
     string \<times> 'c bridge_client \<times> ('c, 'j) callback_call list" where
  "receiveLoop J [] partial st = (partial, st)"
| "receiveLoop J (r # rs) partial (C, calls) =
     (if \<not> m_running C then (partial, C\<lparr>m_running := False\<rparr>, calls)
      else case r of
        None \<Rightarrow> (partial, C\<lparr>m_running := False\<rparr>, calls)
      | Some buf \<Rightarrow>
          let (partial, st) = process_partial J (partial @ buf) (C, calls)
          in receiveLoop J rs partial st)"

section \<open>sendSync\<close>

text \<open>
  \<open>sendSync\<close> with what \<open>recv\<close> delivers before the deadline: the value of the promise is the
  response of the first call of its callback, and no call before the deadline is a timeout.
\<close>

definition response_of :: "'c \<Rightarrow> ('c, 'j) callback_call list \<Rightarrow> 'j option" where
  "response_of cb calls =
     (case List.map_filter (\<lambda>call. case call of ResponseCall c j \<Rightarrow> if c = cb then Some j else None | EventCall _ _ \<Rightarrow> None) calls
      of [] \<Rightarrow> None | j # _ \<Rightarrow> Some j)"

definition sendSync ::
    "'j json_lib \<Rightarrow> (nat \<Rightarrow> string \<Rightarrow> int) \<Rightarrow> string option list \<Rightarrow> string \<Rightarrow> 'j \<Rightarrow> i32 \<Rightarrow> 'c \<Rightarrow> 'c bridge_client \<Rightarrow>
     'j result \<times> string \<times> 'c bridge_client \<times> ('c, 'j) callback_call list" where
  "sendSync J send answers partial request timeoutMs cb C =
     (case sendAsync J send request cb C of
        (Inl e, wire, C, calls) \<Rightarrow> (Inl e, partial, C, calls)
      | (Inr _, wire, C, calls) \<Rightarrow>
          (let (partial, C, calls) = receiveLoop J answers partial (C, calls) in
           (case response_of cb calls of
              None \<Rightarrow> Inl (''Ghidra bridge request timed out after '' @ to_string_i32 timeoutMs @ ''ms'')
            | Some resp \<Rightarrow> Inr resp, partial, C, calls)))"

section \<open>Threads\<close>

text \<open>
  The steps the threads of the class take, each a critical section or a system call: a sender
  registers a callback and later finds its bytes sent or fails the request; the receive thread
  handles a line; the owner disconnects, connects or sets the event callback. The state adds what the
  members do not show: the ids of senders between the two sections, every callback registered, and
  every call made.
\<close>

record ('c, 'j) client_trace =
  tr_client :: "'c bridge_client"
  tr_sending :: "i32 list"
  tr_registered :: "'c list"
  tr_calls :: "('c, 'j) callback_call list"

definition initial_trace :: "('c, 'j) client_trace" where
  "initial_trace = \<lparr>tr_client = new_client, tr_sending = [], tr_registered = [], tr_calls = []\<rparr>"

definition with_client ::
    "('c, 'j) client_trace \<Rightarrow> 'c bridge_client \<times> ('c, 'j) callback_call list \<Rightarrow> ('c, 'j) client_trace" where
  "with_client T r = T\<lparr>tr_client := fst r, tr_calls := tr_calls T @ snd r\<rparr>"

inductive client_step :: "'j json_lib \<Rightarrow> ('c, 'j) client_trace \<Rightarrow> ('c, 'j) client_trace \<Rightarrow> bool" for J where
  step_register: "register_callback cb (tr_client T) = (rid, C) \<Longrightarrow>
     client_step J T (T\<lparr>tr_client := C, tr_sending := rid # tr_sending T, tr_registered := tr_registered T @ [cb]\<rparr>)"
| step_sent: "rid \<in> set (tr_sending T) \<Longrightarrow> client_step J T (T\<lparr>tr_sending := remove1 rid (tr_sending T)\<rparr>)"
| step_send_failed: "rid \<in> set (tr_sending T) \<Longrightarrow>
     client_step J T (with_client (T\<lparr>tr_sending := remove1 rid (tr_sending T)\<rparr>) (fail_send J rid (tr_client T)))"
| step_line: "client_step J T (with_client T (receive_line J line (tr_client T, [])))"
| step_disconnect: "client_step J T (with_client T (disconnect J (tr_client T)))"
| step_connect: "client_step J T (with_client T (snd (bridge_connect J host port sok pok cok (tr_client T))))"
| step_event: "client_step J T (T\<lparr>tr_client := setEventCallback cb (tr_client T)\<rparr>)"

abbreviation reachable_trace :: "'j json_lib \<Rightarrow> ('c, 'j) client_trace \<Rightarrow> bool" where
  "reachable_trace J \<equiv> reached (client_step J) initial_trace"

section \<open>Framing\<close>

lemma process_partial_split:
  "process_partial J p st = (snd (split_nl p), fold (receive_line J) (fst (split_nl p)) st)"
proof (induction J p st rule: process_partial.induct)
  case (1 J p st)
  show ?case
  proof (cases "newline \<in> set p")
    case True
    then show ?thesis
      using 1 by (subst process_partial.simps) (simp add: Let_def split_nl_first [OF True])
  qed (subst process_partial.simps, simp add: split_nl_none)
qed

lemma receive_line_running [simp]: "m_running (fst (receive_line J line st)) = m_running (fst st)"
  by (cases st)
    (auto simp: receive_line_def dispatch_def Let_def result_simps split: sum.split option.splits if_splits)

lemma receive_lines_running [simp]: "m_running (fst (fold (receive_line J) ls st)) = m_running (fst st)"
  by (rule fold_frame [of "\<lambda>st. m_running (fst st)"]) simp

lemma receiveLoop_stream:
  assumes "m_running (fst st)" and "newline \<notin> set p"
  shows "receiveLoop J (map Some bufs) p st =
     (snd (split_nl (p @ concat bufs)), fold (receive_line J) (fst (split_nl (p @ concat bufs))) st)"
  using assms
proof (induction bufs arbitrary: p st)
  case Nil
  then show ?case by (simp add: split_nl_none)
next
  case (Cons b bufs)
  let ?q = "snd (split_nl (p @ b))" and ?st = "fold (receive_line J) (fst (split_nl (p @ b))) st"
  have "receiveLoop J (map Some (b # bufs)) p st = receiveLoop J (map Some bufs) ?q ?st"
    using Cons.prems by (cases st) (simp add: process_partial_split)
  also have "\<dots> = (snd (split_nl (?q @ concat bufs)), fold (receive_line J) (fst (split_nl (?q @ concat bufs))) ?st)"
    using Cons.prems by (intro Cons.IH) (simp_all add: split_nl_rest)
  finally show ?case
    using split_nl_append [of "p @ b" "concat bufs"] by simp
qed

section \<open>Sending whole lines\<close>

lemma sendRaw_loop_wire:
  assumes "sendRaw_loop send k rem p = (ok, wire)" and "rem \<le> int (length p)"
  shows "\<exists>rest. p = wire @ rest \<and> (ok \<longrightarrow> rem \<le> int (length wire))"
  using assms
proof (induction send k rem p arbitrary: ok wire rule: sendRaw_loop.induct)
  case (1 send k rem p)
  show ?case
  proof (cases "rem \<le> 0 \<or> send k (take (nat rem) p) \<le> 0")
    case True
    with "1.prems" show ?thesis by (subst (asm) sendRaw_loop.simps) (auto simp: Let_def split: if_splits)
  next
    case False
    let ?sent = "send k (take (nat rem) p)"
    obtain wire' where rec: "sendRaw_loop send (Suc k) (rem - ?sent) (drop (nat ?sent) p) = (ok, wire')"
      and wire: "wire = take (nat ?sent) p @ wire'"
      using "1.prems"(1) False by (subst (asm) (2) sendRaw_loop.simps) (auto simp: Let_def split: prod.splits if_splits)
    have "\<exists>rest. drop (nat ?sent) p = wire' @ rest \<and> (ok \<longrightarrow> rem - ?sent \<le> int (length wire'))"
      by (rule "1.IH" [OF _ refl _ rec]) (use False "1.prems"(2) in auto)
    then obtain rest where rest: "drop (nat ?sent) p = wire' @ rest" and len: "ok \<Longrightarrow> rem - ?sent \<le> int (length wire')"
      by blast
    have "p = wire @ rest" unfolding wire append_assoc rest [symmetric] by simp
    moreover have "rem \<le> int (length wire)" if ok
      using len [OF that] False "1.prems"(2) by (cases "nat ?sent \<le> length p") (auto simp: wire)
    ultimately show ?thesis by blast
  qed
qed

lemma sendRaw_prefix:
  assumes "sendRaw send line C = (ok, wire)" and "length line < 2 ^ 31"
  shows "(\<exists>rest. line = wire @ rest) \<and> (ok \<longrightarrow> wire = line)"
proof -
  have size: "sint (of_nat (length line) :: i32) = int (length line)"
    using assms(2) by (simp add: signed_take_bit_int_eq_self sint_uint unsigned_of_nat take_bit_nat_eq_self)
  show ?thesis
  proof (cases "m_sockValid C")
    case True
    with assms(1) sendRaw_loop_wire [of send 0 "int (length line)" line ok wire] size
    show ?thesis by (auto simp: sendRaw_def)
  qed (use assms(1) in \<open>auto simp: sendRaw_def\<close>)
qed

section \<open>No callback is lost or called twice\<close>

definition responded :: "('c, 'j) callback_call list \<Rightarrow> 'c multiset" where
  "responded calls =
     mset (List.map_filter (\<lambda>call. case call of ResponseCall c _ \<Rightarrow> Some c | EventCall _ _ \<Rightarrow> None) calls)"

definition waiting :: "'c bridge_client \<Rightarrow> 'c multiset" where
  "waiting C = mset (map snd (m_pending C))"

definition trace_inv :: "('c, 'j) client_trace \<Rightarrow> bool" where
  "trace_inv T \<longleftrightarrow>
     distinct_keys (m_pending (tr_client T)) \<and>
     m_nextId (tr_client T) = 1 + of_nat (length (tr_registered T)) \<and>
     fst ` set (m_pending (tr_client T)) \<subseteq> (\<lambda>k. 1 + of_nat k) ` {..<length (tr_registered T)} \<and>
     mset (tr_registered T) = waiting (tr_client T) + responded (tr_calls T)"

lemma responded_append: "responded (xs @ ys) = responded xs + responded ys"
  by (simp add: responded_def map_filter_append)

lemma responded_simps [simp]:
  "responded [] = {#}" "responded [ResponseCall c j] = {#c#}" "responded [EventCall c j] = {#}"
  by (simp_all add: responded_def List.map_filter_simps)

lemma responded_all: "responded (map (\<lambda>(i, c). ResponseCall c (f i c)) xs) = mset (map snd xs)"
  by (induction xs) (auto simp: responded_def List.map_filter_simps)

lemma delete_mset:
  "distinct_keys m \<Longrightarrow> map_of m k = Some c \<Longrightarrow> mset (map snd m) = add_mset c (mset (map snd (AList.delete k m)))"
proof (induction m)
  case (Cons x m)
  have "AList.delete k m = m" if "k \<notin> fst ` set m"
    using that by (simp add: delete_id)
  with Cons show ?case by (cases x) (auto simp: distinct_keys_def split: if_splits)
qed simp

lemma update_mset: "k \<notin> fst ` set m \<Longrightarrow> mset (map snd (AList.update k c m)) = add_mset c (mset (map snd m))"
  by (induction m) auto

text \<open>Handling an id: either nothing happens or its callback is called once and forgotten\<close>

definition settles ::
    "'c bridge_client \<Rightarrow> 'c bridge_client \<times> ('c, 'j) callback_call list \<Rightarrow> bool" where
  "settles C r \<longleftrightarrow>
     m_nextId (fst r) = m_nextId C \<and>
     (distinct_keys (m_pending C) \<longrightarrow>
        distinct_keys (m_pending (fst r)) \<and> set (m_pending (fst r)) \<subseteq> set (m_pending C) \<and>
        waiting C = waiting (fst r) + responded (snd r))"

lemma settles_same: "settles C (C, [])" and settles_event: "settles C (C, [EventCall c j])"
  by (simp_all add: settles_def)

lemma settles_answer:
  "map_of (m_pending C) k = Some c \<Longrightarrow>
   settles C (C\<lparr>m_pending := AList.delete k (m_pending C)\<rparr>, [ResponseCall c j])"
  using delete_mset [of "m_pending C" k c] set_delete_subset [of k "m_pending C"]
  by (auto simp: settles_def umap_simps waiting_def)

lemma fail_send_settles: "settles C (fail_send J rid C)"
  by (simp add: fail_send_def settles_same settles_answer split: option.split)

lemma dispatch_settles: "dispatch J msg C = Inr r \<Longrightarrow> settles C r"
  by (auto simp: dispatch_def result_simps settles_same settles_event intro: settles_answer split: option.splits if_splits)

lemma receive_line_settles: "settles C (receive_line J line (C, []))"
  by (auto simp: receive_line_def Let_def settles_same result_simps dest: dispatch_settles split: sum.splits)

lemma disconnect_settles: "settles C (disconnect J C)"
  by (simp add: settles_def disconnect_def waiting_def responded_all [of "\<lambda>i c. error_response J i ''BridgeClient disconnected''"])

lemma connect_settles: "settles C (snd (bridge_connect J host port sok pok cok C))"
  using disconnect_settles [of C J]
  by (auto simp: bridge_connect_def settles_def waiting_def Let_def split: prod.split)

lemma trace_inv_settles:
  assumes "trace_inv T" and "settles (tr_client T) r"
  shows "trace_inv (with_client T r)"
  using assms by (auto simp: trace_inv_def settles_def with_client_def responded_append add.assoc)

lemma of_nat_i32_inj: "m < 2 ^ 32 \<Longrightarrow> n < 2 ^ 32 \<Longrightarrow> (of_nat m :: i32) = of_nat n \<Longrightarrow> m = n"
  by (simp add: word_of_nat_eq_iff take_bit_nat_eq_self)

lemma trace_inv_register:
  assumes inv: "trace_inv T" and len: "length (tr_registered T) < 2 ^ 32"
    and reg: "register_callback cb (tr_client T) = (rid, C)"
  shows "trace_inv (T\<lparr>tr_client := C, tr_sending := sn, tr_registered := tr_registered T @ [cb]\<rparr>)"
proof -
  let ?n = "length (tr_registered T)"
  have C: "m_pending C = AList.update rid cb (m_pending (tr_client T))" and rid: "rid = 1 + of_nat ?n"
    and next_id: "m_nextId C = 1 + of_nat (Suc ?n)"
    using reg inv by (auto simp: register_callback_def trace_inv_def Let_def)
  have "rid \<notin> fst ` set (m_pending (tr_client T))"
  proof
    assume "rid \<in> fst ` set (m_pending (tr_client T))"
    with inv obtain k where "k < ?n" and "rid = 1 + of_nat k" by (auto simp: trace_inv_def)
    with rid len of_nat_i32_inj [of k ?n] show False by auto
  qed
  then have "waiting C = add_mset cb (waiting (tr_client T))"
    unfolding waiting_def C by (rule update_mset)
  moreover have "fst ` set (m_pending C) \<subseteq> (\<lambda>k. 1 + of_nat k) ` {..<Suc ?n}"
    using inv by (auto simp: C keys_update trace_inv_def rid lessThan_Suc)
  ultimately show ?thesis
    using inv by (auto simp: trace_inv_def C next_id umap_simps)
qed

lemma trace_inv_initial: "trace_inv initial_trace"
  by (simp add: trace_inv_def initial_trace_def new_client_def waiting_def)

lemma trace_inv_sending [simp]: "trace_inv (T\<lparr>tr_sending := sn\<rparr>) = trace_inv T"
  by (simp add: trace_inv_def)

lemma step_registered: "client_step J T T' \<Longrightarrow> length (tr_registered T) \<le> length (tr_registered T')"
  by (cases rule: client_step.cases) (auto simp: with_client_def)

lemma step_inv:
  assumes "client_step J T T'" and "trace_inv T" and "length (tr_registered T') \<le> 2 ^ 32"
  shows "trace_inv T'"
  using assms
proof (cases rule: client_step.cases)
  case (step_register cb rid C)
  then show ?thesis using assms(2,3) by (auto intro!: trace_inv_register)
next
  case (step_event cb)
  then show ?thesis using assms(2) by (simp add: trace_inv_def setEventCallback_def waiting_def)
next
  case (step_send_failed rid)
  then show ?thesis
    using assms(2) trace_inv_settles [of "T\<lparr>tr_sending := remove1 rid (tr_sending T)\<rparr>"] by (simp add: fail_send_settles)
qed (simp_all add: trace_inv_settles receive_line_settles disconnect_settles connect_settles)

interpretation traces: step_invariant "client_step J" initial_trace "\<lambda>T. length (tr_registered T) \<le> 2 ^ 32 \<longrightarrow> trace_inv T"
  for J :: "'j json_lib"
proof unfold_locales
  fix T T' :: "('c, 'j) client_trace"
  assume "client_step J T T'" and "length (tr_registered T) \<le> 2 ^ 32 \<longrightarrow> trace_inv T"
  then show "length (tr_registered T') \<le> 2 ^ 32 \<longrightarrow> trace_inv T'"
    using step_inv step_registered by (meson le_trans)
qed (simp add: trace_inv_initial)

text \<open>\<open>sendAsync\<close> is a run of the sender's steps\<close>

lemma sendAsync_steps:
  assumes "sendAsync J send request cb (tr_client T) = (Inr u, wire, C, calls)"
  shows "\<exists>T1. client_step J T T1 \<and> client_step J T1 (T\<lparr>tr_client := C, tr_registered := tr_registered T @ [cb], tr_calls := tr_calls T @ calls\<rparr>)"
proof -
  obtain rid C1 where reg: "register_callback cb (tr_client T) = (rid, C1)" by (cases "register_callback cb (tr_client T)")
  let ?T1 = "T\<lparr>tr_client := C1, tr_sending := rid # tr_sending T, tr_registered := tr_registered T @ [cb]\<rparr>"
  have "client_step J T ?T1" by (rule step_register [OF reg])
  moreover have "client_step J ?T1 (T\<lparr>tr_client := C, tr_registered := tr_registered T @ [cb], tr_calls := tr_calls T @ calls\<rparr>)"
  proof (cases "C = C1 \<and> calls = []")
    case True
    then show ?thesis using step_sent [of rid ?T1 J] by simp
  next
    case False
    with assms have "fail_send J rid C1 = (C, calls)"
      by (auto simp: sendAsync_def reg split: sum.splits prod.splits if_splits)
    then show ?thesis
      using step_send_failed [of rid ?T1 J] by (cases T) (simp add: with_client_def)
  qed
  ultimately show ?thesis by blast
qed

section \<open>The response of a synchronous request\<close>

text \<open>The message of a line that answers request \<open>rid\<close>\<close>

definition own_reply :: "'j json_lib \<Rightarrow> i32 \<Rightarrow> string \<Rightarrow> 'j option" where
  "own_reply J rid line =
     (if strip_cr line = [] then None
      else case jl_parse J (strip_cr line) of
        Inl _ \<Rightarrow> None
      | Inr msg \<Rightarrow>
          if jl_contains J msg ''event'' \<or> \<not> jl_contains J msg ''id'' then None
          else case res_bind (jl_at J msg ''id'') (jl_get_int J) of
            Inl _ \<Rightarrow> None
          | Inr i \<Rightarrow> if i = rid then Some msg else None)"

lemma receive_line_appends: "\<exists>new. snd (receive_line J line st) = snd st @ new"
  by (cases st) (auto simp: receive_line_def Let_def split: sum.splits)

lemma receive_lines_append: "\<exists>new. snd (fold (receive_line J) ls st) = snd st @ new"
proof (induction ls arbitrary: st)
  case (Cons l ls)
  then show ?case using receive_line_appends [of J l st] by (metis append_assoc fold_simps(2))
qed simp

lemma response_of_append: "response_of cb (xs @ ys) = (case response_of cb xs of Some j \<Rightarrow> Some j | None \<Rightarrow> response_of cb ys)"
  by (simp add: response_of_def map_filter_append split: list.split)

text \<open>\<open>cb\<close> waits under \<open>rid\<close> and nowhere else\<close>

definition awaits :: "'c \<Rightarrow> i32 \<Rightarrow> 'c bridge_client \<Rightarrow> bool" where
  "awaits cb rid C \<longleftrightarrow> (\<forall>i. map_of (m_pending C) i = Some cb \<longleftrightarrow> i = rid)"

lemma response_of_simps [simp]:
  "response_of cb [] = None" "response_of cb [EventCall c j] = None"
  "response_of cb [ResponseCall c j] = (if c = cb then Some j else None)"
  by (simp_all add: response_of_def List.map_filter_simps)

lemma receive_line_own:
  assumes "awaits cb rid (fst st)" and "response_of cb (snd st) = None"
  shows "case own_reply J rid line of
      Some msg \<Rightarrow> response_of cb (snd (receive_line J line st)) = Some msg
    | None \<Rightarrow> response_of cb (snd (receive_line J line st)) = None \<and> awaits cb rid (fst (receive_line J line st))"
proof -
  obtain C calls where st: "st = (C, calls)" by (cases st)
  have aw: "map_of (m_pending C) i = Some cb \<longleftrightarrow> i = rid" for i using assms(1) by (simp add: st awaits_def)
  have own: "map_of (m_pending C) rid = Some cb" by (simp add: aw)
  have r: "response_of cb (calls @ xs) = response_of cb xs" for xs
    using assms(2) by (simp add: st response_of_append)
  note defs = st own_reply_def receive_line_def dispatch_def Let_def r awaits_def own aw umap_simps
  show ?thesis
  proof (cases "jl_parse J (strip_cr line)")
    case (Inr msg)
    show ?thesis
    proof (cases "res_bind (jl_at J msg ''id'') (jl_get_int J)")
      case Inl
      then show ?thesis using assms Inr by (auto simp: defs result_simps split: option.split)
    next
      case (Inr i)
      then obtain j where "jl_at J msg ''id'' = Inr j" "jl_get_int J j = Inr i" by (auto simp: result_simps)
      with assms \<open>jl_parse J (strip_cr line) = Inr msg\<close> show ?thesis
        by (auto simp: defs split: option.split)
    qed
  qed (use assms in \<open>simp add: defs\<close>)
qed

lemma receive_lines_own:
  assumes "awaits cb rid (fst st)" and "response_of cb (snd st) = None"
  shows "response_of cb (snd (fold (receive_line J) ls st)) =
    (case List.map_filter (own_reply J rid) ls of [] \<Rightarrow> None | msg # _ \<Rightarrow> Some msg)"
  using assms
proof (induction ls arbitrary: st)
  case (Cons l ls)
  note own = receive_line_own [OF Cons.prems, of J l]
  show ?case
  proof (cases "own_reply J rid l")
    case None
    with own Cons.IH show ?thesis by (simp add: List.map_filter_simps)
  next
    case (Some msg)
    obtain new where "snd (fold (receive_line J) ls (receive_line J l st)) = snd (receive_line J l st) @ new"
      using receive_lines_append by blast
    with Some own show ?thesis by (simp add: List.map_filter_simps response_of_append)
  qed
qed (simp add: List.map_filter_simps)

section \<open>Properties\<close>

text \<open>A library whose texts are \<open>ping\<close> for every request and \<open>r\<close> or \<open>e\<close> for a response or an event\<close>

definition wire_json :: "jtree json_lib" where
  "wire_json = tree_json_with (\<lambda>_. Inr ''ping'')
     (\<lambda>s. if s = ''r'' then Inr (JObj [(''id'', JNum 1), (''ok'', JBool True)])
          else if s = ''e'' then Inr (JObj [(''event'', JStr ''saved'')]) else Inl ''parse error'')"

definition ready_client :: "string bridge_client" where
  "ready_client = new_client\<lparr>m_sockValid := True, m_running := True\<rparr>"

text \<open>
  C10: the client's framing does not depend on how the bytes arrive. Whatever buffers \<open>recv\<close>
  returns, the loop handles exactly the newline-terminated lines of the whole stream, in order, and
  keeps the unfinished rest.
\<close>

theorem framing_independent_of_buffers:
  assumes "m_running (fst st)" and "newline \<notin> set partial"
  shows "receiveLoop J (map Some bufs) partial st =
     (snd (split_nl (partial @ concat bufs)), fold (receive_line J) (fst (split_nl (partial @ concat bufs))) st) \<and>
   concat (map (\<lambda>l. l @ [newline]) (fst (split_nl (partial @ concat bufs)))) @ snd (split_nl (partial @ concat bufs)) =
     partial @ concat bufs"
  using receiveLoop_stream [OF assms] split_nl_roundtrip [of "partial @ concat bufs"]
  by (metis prod.collapse)

theorem framing_independent_of_buffers_witness:
  "receiveLoop wire_json [Some ''e'', Some [newline, CHR ''r''], Some [newline]] [] (ready_client, []) =
     ([], fold (receive_line wire_json) [''e'', ''r''] (ready_client, []))"
proof -
  have "m_running (fst (ready_client, [] :: (string, jtree) callback_call list))" "newline \<notin> set []"
    by (simp_all add: ready_client_def)
  moreover have "split_nl ([] @ concat [''e'', [newline, CHR ''r''], [newline]]) = ([''e'', ''r''], [])" by code_simp
  ultimately show ?thesis
    using framing_independent_of_buffers [of "(ready_client, [])" "[]" wire_json "[''e'', [newline, CHR ''r''], [newline]]"]
    by (simp only: list.map fst_conv snd_conv simp_thms)
qed

text \<open>
  C8: no callback is lost and none is called twice. In every interleaving of senders, receive thread
  and owner, with at most \<open>2 ^ 32\<close> requests, the callbacks registered are those still waiting plus
  those called, each as often as it was registered; and disconnecting answers all that wait.
\<close>

theorem callbacks_exactly_once:
  assumes "reachable_trace J T" and "length (tr_registered T) \<le> 2 ^ 32"
  shows "mset (tr_registered T) = waiting (tr_client T) + responded (tr_calls T) \<and>
    waiting (fst (disconnect J (tr_client T))) = {#} \<and>
    mset (tr_registered T) = responded (tr_calls T @ snd (disconnect J (tr_client T)))"
proof -
  have inv: "trace_inv T" using traces.invariant [OF assms(1)] assms(2) by blast
  have "responded (snd (disconnect J (tr_client T))) = waiting (tr_client T)"
    and "waiting (fst (disconnect J (tr_client T))) = {#}"
    using disconnect_settles [of "tr_client T" J] inv by (auto simp: settles_def trace_inv_def disconnect_def waiting_def)
  with inv show ?thesis by (simp add: trace_inv_def responded_append)
qed

theorem callbacks_exactly_once_witness:
  "\<exists>T :: (string, jtree) client_trace. reachable_trace wire_json T \<and> tr_registered T = [''a''] \<and>
     waiting (tr_client T) + responded (tr_calls T) = {#''a''#} \<and>
     responded (tr_calls T @ snd (disconnect wire_json (tr_client T))) = {#''a''#}"
proof -
  define I :: "(string, jtree) client_trace" where "I = initial_trace"
  obtain rid C where reg: "register_callback ''a'' (tr_client I) = (rid, C)"
    by (cases "register_callback ''a'' (tr_client I)")
  let ?T = "I\<lparr>tr_client := C, tr_sending := rid # tr_sending I, tr_registered := tr_registered I @ [''a'']\<rparr>"
  have "reachable_trace wire_json I" unfolding I_def by (rule reached_init)
  then have "reachable_trace wire_json ?T" by (rule reached_step) (rule step_register [OF reg])
  moreover have "tr_registered ?T = [''a'']" by (simp add: I_def initial_trace_def)
  ultimately show ?thesis
    using callbacks_exactly_once [of wire_json ?T] by (intro exI [of _ ?T]) (auto dest: sym)
qed

text \<open>
  \<open>sendRaw\<close> hands over the bytes of the line in order, and reports success only when all of
  them went out, however \<open>send\<close> splits them, for lines shorter than \<open>2 ^ 31\<close> bytes.
\<close>

theorem sendRaw_whole_line:
  assumes "sendRaw send line C = (ok, wire)" and "length line < 2 ^ 31"
  shows "(\<exists>rest. line = wire @ rest) \<and> (ok \<longrightarrow> wire = line)"
  by (rule sendRaw_prefix [OF assms])

theorem sendRaw_whole_line_witness:
  "sendRaw (\<lambda>k bytes. 2) ''abc'' ready_client = (True, ''abc'')"
proof -
  have "fst (sendRaw (\<lambda>k bytes. 2) ''abc'' ready_client)" by code_simp
  moreover obtain ok wire where "sendRaw (\<lambda>k bytes. 2) ''abc'' ready_client = (ok, wire)"
    by (cases "sendRaw (\<lambda>k bytes. 2) ''abc'' ready_client")
  ultimately show ?thesis using sendRaw_whole_line [of "\<lambda>k bytes. 2" "''abc''" ready_client ok wire] by simp
qed



text \<open>
  Losing the connection is not reported as an exception. When the peer closes, the loop only
  stops: the requests that wait stay waiting and the client still counts as connected, so a
  synchronous request ends in a timeout; on a closed client a synchronous request returns an error
  response.
\<close>

theorem lost_connection_not_thrown:
  "(m_running C \<longrightarrow> receiveLoop J (None # rs) partial (C, calls) = (partial, C\<lparr>m_running := False\<rparr>, calls)) \<and>
   isConnected (C\<lparr>m_running := False\<rparr>) = isConnected C \<and>
   (\<not> isConnected C \<and> jl_dump J (jl_set J ''id'' (jl_int J (m_nextId C)) request) = Inr line \<longrightarrow>
      fst (sendSync J send [] partial request timeoutMs cb C) = Inr (error_response J (m_nextId C) ''send failed''))"
  by (auto simp: isConnected_def sendSync_def sendAsync_def register_callback_def sendRaw_def fail_send_def
      Let_def umap_simps)

theorem lost_connection_not_thrown_witness:
  "receiveLoop wire_json [None] [] (ready_client, []) = ([], ready_client\<lparr>m_running := False\<rparr>, []) \<and>
   fst (sendSync wire_json (\<lambda>_ _. 0) [] [] JNull 15000 ''cb'' (new_client :: string bridge_client)) =
     Inr (error_response wire_json 1 ''send failed'')"
proof
  show "receiveLoop wire_json [None] [] (ready_client, []) = ([], ready_client\<lparr>m_running := False\<rparr>, [])"
    using lost_connection_not_thrown [where C = ready_client and J = wire_json and rs = "[]" and partial = "[]" and calls = "[]"]
    by (simp add: ready_client_def)
  have "jl_dump wire_json (jl_set wire_json ''id'' (jl_int wire_json 1) JNull) = Inr ''ping''"
    by (simp add: wire_json_def tree_json_with_def)
  then show "fst (sendSync wire_json (\<lambda>_ _. 0) [] [] JNull 15000 ''cb'' (new_client :: string bridge_client)) =
      Inr (error_response wire_json 1 ''send failed'')"
    using lost_connection_not_thrown [where C = "new_client :: string bridge_client" and J = wire_json and
        request = JNull and partial = "[]" and send = "\<lambda>_ _. 0" and timeoutMs = 15000 and cb = "''cb''" and line = "''ping''"]
    by (simp add: isConnected_def new_client_def)
qed

end
