(* ===== verification/Bridge_Process.thy ===== *)
theory Bridge_Process
  imports Lines
begin

text \<open>
  \<open>BridgeProcess\<close>: the Java child process of the local mode, in its POSIX and its Windows
  implementation. Operating-system calls are arguments where the code uses their answer and members
  of a list of calls where it only makes them; a child's output is the byte string it writes until
  it closes the pipe.
\<close>

section \<open>Class path and command line\<close>

definition kFramework :: "string list" where
  "kFramework =
     [''DB'', ''Docking'', ''Emulation'', ''FileSystem'', ''Generic'', ''Graph'', ''Gui'',
      ''Help'', ''Project'', ''Pty'', ''SoftwareModeling'', ''Utility'']"

definition classpath_entries :: "string \<Rightarrow> string list" where
  "classpath_entries ghidraHome =
     map (\<lambda>m. ghidraHome @ ''/Ghidra/Framework/'' @ m @ ''/lib/*'') kFramework @
     [ghidraHome @ ''/Ghidra/Features/GhidraServer/lib/*'', ghidraHome @ ''/Ghidra/Features/Base/lib/*'']"

definition buildClasspath_windows :: "string \<Rightarrow> string \<Rightarrow> string" where
  "buildClasspath_windows bridgeJar ghidraHome =
     fold (\<lambda>e cp. cp @ '';'' @ e) (classpath_entries ghidraHome) bridgeJar"

definition buildClasspath_posix :: "string \<Rightarrow> string \<Rightarrow> string" where
  "buildClasspath_posix bridgeJar ghidraHome =
     fold (\<lambda>e cp. cp @ '':'' @ e) (classpath_entries ghidraHome) bridgeJar"

text \<open>The argument vector the POSIX child passes to \<open>execvp\<close>, and the Windows command line\<close>

definition child_argv :: "string \<Rightarrow> string \<Rightarrow> string \<Rightarrow> bool \<Rightarrow> string list" where
  "child_argv javaExe bridgeJar ghidraHome trustAll =
     [if javaExe = [] then ''java'' else javaExe, ''-cp'', buildClasspath_posix bridgeJar ghidraHome,
      ''com.ghidra_svr.bridge.BridgeMain'', ''--port'', ''0''] @
     (if trustAll then [''--trust-all''] else []) @
     (if ghidraHome \<noteq> [] then [''--ghidra-home'', ghidraHome] else [])"

definition quoted :: "string \<Rightarrow> string" where
  "quoted s = CHR 0x22 # s @ [CHR 0x22]"

definition windows_command :: "string \<Rightarrow> string \<Rightarrow> string \<Rightarrow> bool \<Rightarrow> string" where
  "windows_command javaExe bridgeJar ghidraHome trustAll =
     quoted (if javaExe = [] then ''java'' else javaExe) @
     '' -cp '' @ quoted (buildClasspath_windows bridgeJar ghidraHome) @
     '' com.ghidra_svr.bridge.BridgeMain'' @ '' --port 0'' @
     (if trustAll then '' --trust-all'' else []) @
     (if ghidraHome \<noteq> [] then '' --ghidra-home '' @ quoted ghidraHome else [])"

section \<open>Handshake and logging\<close>

definition kPrefix :: string where
  "kPrefix = ''READY port=''"

text \<open>
  The handshake reader on the bytes of the child's standard output: the port, \<open>None\<close> when the output
  ends first, or the exception of \<open>stoi\<close>
\<close>

fun ready_loop :: "string \<Rightarrow> string \<Rightarrow> i32 option result" where
  "ready_loop line [] = Inr None"
| "ready_loop line (ch # rest) =
     (if ch = newline then
        let line = strip_cr line in
        if starts_with kPrefix line
        then res_bind (stoi (drop (length kPrefix) line)) (\<lambda>port. Inr (Some port))
        else ready_loop [] rest
      else ready_loop (line @ [ch]) rest)"

definition exited_error :: string where
  "exited_error = ''Bridge process exited before sending READY''"

definition readReadyLine_posix :: "string \<Rightarrow> (string + i32) result" where
  "readReadyLine_posix out =
     res_bind (ready_loop [] out) (\<lambda>r. Inr (case r of None \<Rightarrow> Inl exited_error | Some port \<Rightarrow> Inr port))"

text \<open>On Windows the error carries what the child has written to its standard error.\<close>

definition readReadyLine_windows :: "string \<Rightarrow> string \<Rightarrow> (string + i32) result" where
  "readReadyLine_windows out err =
     res_bind (ready_loop [] out) (\<lambda>r. Inr (case r of
       None \<Rightarrow> Inl (exited_error @ (if err \<noteq> [] then '':'' @ [newline] @ err else []))
     | Some port \<Rightarrow> Inr port))"

text \<open>The standard-error loggers: the lines logged for the buffers read, and the unfinished line at the end\<close>

definition log_char :: "char \<Rightarrow> string \<times> string list \<Rightarrow> string \<times> string list" where
  "log_char ch st =
     (let (line, logged) = st in
      if ch = newline then
        let line = strip_cr line in ([], if line \<noteq> [] then logged @ [line] else logged)
      else (line @ [ch], logged))"

definition stderr_logger :: "string list \<Rightarrow> string list" where
  "stderr_logger bufs =
     (let (line, logged) = fold (fold log_char) bufs ([], [])
      in if line \<noteq> [] then logged @ [line] else logged)"

text \<open>The Windows thread: an answer of \<open>ReadFile\<close> is \<open>None\<close> when it failed, else the bytes read\<close>

fun windows_log_loop :: "string option list \<Rightarrow> string \<times> string list \<Rightarrow> string \<times> string list" where
  "windows_log_loop [] st = st"
| "windows_log_loop (None # reads) st = st"
| "windows_log_loop (Some buf # reads) st = (if buf = [] then st else windows_log_loop reads (fold log_char buf st))"

definition stderrLoggerThread :: "string option list \<Rightarrow> string list" where
  "stderrLoggerThread reads =
     (let (line, logged) = windows_log_loop reads ([], [])
      in if line \<noteq> [] then logged @ [line] else logged)"

section \<open>POSIX: start, stop, isRunning\<close>

text \<open>\<open>Exec\<close> is the program the forked child turns into.\<close>

datatype posix_call = Exec "string list" | Kill int | Close int | JoinLogger | WaitPid int

record posix_process =
  bp_port :: i32
  bp_pid :: int
  bp_pipeFd :: int
  bp_stderrFd :: int
  bp_stderrThread :: bool

definition new_process :: posix_process where
  "new_process = \<lparr>bp_port = - 1, bp_pid = - 1, bp_pipeFd = - 1, bp_stderrFd = - 1, bp_stderrThread = False\<rparr>"

definition process_stop :: "posix_process \<Rightarrow> posix_process \<times> posix_call list" where
  "process_stop P =
     (P\<lparr>bp_port := - 1, bp_pid := (if bp_pid P > 0 then - 1 else bp_pid P),
        bp_pipeFd := (if bp_pipeFd P \<ge> 0 then - 1 else bp_pipeFd P),
        bp_stderrFd := (if bp_stderrFd P \<ge> 0 then - 1 else bp_stderrFd P), bp_stderrThread := False\<rparr>,
      (if bp_pid P > 0 then [Kill (bp_pid P)] else []) @
      (if bp_stderrFd P \<ge> 0 then [Close (bp_stderrFd P)] else []) @
      (if bp_stderrThread P then [JoinLogger] else []) @
      (if bp_pipeFd P \<ge> 0 then [Close (bp_pipeFd P)] else []) @
      (if bp_pid P > 0 then [WaitPid (bp_pid P)] else []))"

definition startStderrLogger :: "posix_process \<Rightarrow> posix_process" where
  "startStderrLogger P = (if bp_stderrFd P < 0 then P else P\<lparr>bp_stderrThread := True\<rparr>)"

text \<open>
  What the system answers: two pipes and a fork, each with the text of \<open>strerror(errno)\<close> on failure,
  and the child's standard output
\<close>

record posix_answers =
  os_pipe :: "string + int \<times> int"
  os_errpipe :: "string + int \<times> int"
  os_fork :: "string + int"
  os_stdout :: string

text \<open>The parent's side of \<open>start\<close>: \<open>Inr None\<close> is success, \<open>Inr (Some e)\<close> a failure with that error text\<close>

definition process_start ::
    "string \<Rightarrow> string \<Rightarrow> string \<Rightarrow> bool \<Rightarrow> posix_answers \<Rightarrow> posix_process \<Rightarrow>
     string option result \<times> posix_process \<times> posix_call list" where
  "process_start javaExe bridgeJar ghidraHome trustAll A P =
     (let (P, calls) = process_stop P in
      case os_pipe A of
        Inl e \<Rightarrow> (Inr (Some (''pipe() failed: '' @ e)), P, calls)
      | Inr (rd, wr) \<Rightarrow>
          (case os_errpipe A of
             Inl e \<Rightarrow> (Inr (Some (''pipe(stderr) failed: '' @ e)), P, calls @ [Close rd, Close wr])
           | Inr (erd, ewr) \<Rightarrow>
               (case os_fork A of
                  Inl e \<Rightarrow> (Inr (Some (''fork() failed: '' @ e)), P,
                            calls @ [Close rd, Close wr, Close erd, Close ewr])
                | Inr pid \<Rightarrow>
                    let P = P\<lparr>bp_pid := pid, bp_pipeFd := rd, bp_stderrFd := erd\<rparr>;
                        calls = calls @ [Exec (child_argv javaExe bridgeJar ghidraHome trustAll), Close wr, Close ewr] in
                    (case readReadyLine_posix (os_stdout A) of
                       Inl exn \<Rightarrow> (Inl exn, P, calls)
                     | Inr (Inl e) \<Rightarrow> let (P, more) = process_stop P in (Inr (Some e), P, calls @ more)
                     | Inr (Inr port) \<Rightarrow> (Inr None, startStderrLogger (P\<lparr>bp_port := port\<rparr>), calls)))))"

text \<open>\<open>waitResult\<close> is the answer of \<open>waitpid(m_pid, nullptr, WNOHANG)\<close>: 0 while the child runs.\<close>

definition process_isRunning :: "int \<Rightarrow> posix_process \<Rightarrow> bool" where
  "process_isRunning waitResult P \<longleftrightarrow> (if bp_pid P \<le> 0 then False else waitResult = 0)"

section \<open>Windows: start, stop, isRunning\<close>

datatype windows_call = CreateProcess string | CloseHandle nat | TerminateProcess nat | WaitForSingleObject nat

text \<open>Handles are numbers; \<open>None\<close> is \<open>INVALID_HANDLE_VALUE\<close>, or \<open>nullptr\<close> for the process.\<close>

record windows_process =
  wp_port :: i32
  wp_process :: "(nat \<times> nat) option"
  wp_stdoutRead :: "nat option"
  wp_stderrRead :: "nat option"
  wp_stderrThread :: "nat option"

definition windows_stop :: "windows_process \<Rightarrow> windows_process \<times> windows_call list" where
  "windows_stop P =
     (P\<lparr>wp_port := - 1, wp_process := None, wp_stdoutRead := None, wp_stderrRead := None, wp_stderrThread := None\<rparr>,
      (case wp_process P of None \<Rightarrow> []
       | Some (hProcess, hThread) \<Rightarrow>
           [TerminateProcess hProcess, WaitForSingleObject hProcess, CloseHandle hProcess, CloseHandle hThread]) @
      (case wp_stderrRead P of None \<Rightarrow> [] | Some h \<Rightarrow> [CloseHandle h]) @
      (case wp_stderrThread P of None \<Rightarrow> [] | Some h \<Rightarrow> [WaitForSingleObject h, CloseHandle h]) @
      (case wp_stdoutRead P of None \<Rightarrow> [] | Some h \<Rightarrow> [CloseHandle h]))"

record windows_answers =
  wo_pipe :: "string + nat \<times> nat"
  wo_errpipe :: "string + nat \<times> nat"
  wo_create :: "string + nat \<times> nat"
  wo_stdout :: string
  wo_stderr :: string
  wo_thread :: "nat option"

definition windows_start ::
    "string \<Rightarrow> string \<Rightarrow> string \<Rightarrow> bool \<Rightarrow> windows_answers \<Rightarrow> windows_process \<Rightarrow>
     string option result \<times> windows_process \<times> windows_call list" where
  "windows_start javaExe bridgeJar ghidraHome trustAll A P =
     (let (P, calls) = windows_stop P in
      case wo_pipe A of
        Inl e \<Rightarrow> (Inr (Some (''CreatePipe failed: '' @ e)), P, calls)
      | Inr (rd, wr) \<Rightarrow>
          (case wo_errpipe A of
             Inl e \<Rightarrow> (Inr (Some (''CreatePipe(stderr) failed: '' @ e)), P, calls @ [CloseHandle rd, CloseHandle wr])
           | Inr (erd, ewr) \<Rightarrow>
               let calls = calls @ [CreateProcess (windows_command javaExe bridgeJar ghidraHome trustAll),
                                    CloseHandle wr, CloseHandle ewr] in
               (case wo_create A of
                  Inl e \<Rightarrow> (Inr (Some (''CreateProcessW failed: '' @ e)), P,
                            calls @ [CloseHandle rd, CloseHandle erd])
                | Inr pi \<Rightarrow>
                    let P = P\<lparr>wp_process := Some pi, wp_stdoutRead := Some rd, wp_stderrRead := Some erd\<rparr> in
                    (case readReadyLine_windows (wo_stdout A) (wo_stderr A) of
                       Inl exn \<Rightarrow> (Inl exn, P, calls)
                     | Inr (Inl e) \<Rightarrow> let (P, more) = windows_stop P in (Inr (Some e), P, calls @ more)
                     | Inr (Inr port) \<Rightarrow>
                         (Inr None, P\<lparr>wp_port := port, wp_stderrThread := wo_thread A\<rparr>, calls)))))"

text \<open>\<open>exitCode\<close> is what \<open>GetExitCodeProcess\<close> stored, \<open>None\<close> when it failed; 259 is \<open>STILL_ACTIVE\<close>.\<close>

definition windows_isRunning :: "nat option \<Rightarrow> windows_process \<Rightarrow> bool" where
  "windows_isRunning exitCode P \<longleftrightarrow> wp_process P \<noteq> None \<and> exitCode = Some 259"

section \<open>The loops and the lines of the stream\<close>

lemma ready_loop_lines:
  assumes "newline \<notin> set line"
  shows "ready_loop line out =
    (case find (\<lambda>l. starts_with kPrefix (strip_cr l)) (fst (split_nl (line @ out))) of
       None \<Rightarrow> Inr None
     | Some l \<Rightarrow> res_bind (stoi (drop (length kPrefix) (strip_cr l))) (\<lambda>port. Inr (Some port)))"
  using assms
proof (induction line out rule: ready_loop.induct)
  case (1 line)
  then show ?case by (simp add: split_nl_none)
next
  case (2 line ch rest)
  show ?case
  proof (cases "ch = newline")
    case True
    have "split_nl (line @ ch # rest) = (line # fst (split_nl rest), snd (split_nl rest))"
      using split_nl_line [of line rest] 2(3) True by simp
    then show ?thesis using 2(1) True by (simp add: Let_def)
  next
    case False
    then show ?thesis using 2 by simp
  qed
qed

lemma log_chars:
  assumes "newline \<notin> set line"
  shows "fold log_char s (line, logged) =
    (snd (split_nl (line @ s)), logged @ filter (\<lambda>l. l \<noteq> []) (map strip_cr (fst (split_nl (line @ s)))))"
  using assms
proof (induction s arbitrary: line logged)
  case Nil
  then show ?case by (simp add: split_nl_none)
next
  case (Cons ch s)
  show ?case
  proof (cases "ch = newline")
    case True
    have "split_nl (line @ ch # s) = (line # fst (split_nl s), snd (split_nl s))"
      using split_nl_line [of line s] Cons.prems True by simp
    with True Cons.IH [of "[]"] show ?thesis by (simp add: log_char_def Let_def)
  next
    case False
    with Cons.prems Cons.IH [of "line @ [ch]"] show ?thesis by (simp add: log_char_def)
  qed
qed

lemma log_buffers: "fold (fold log_char) bufs st = fold log_char (concat bufs) st"
  by (induction bufs arbitrary: st) simp_all

lemma stop_state: "bp_pid (fst (process_stop P)) \<le> 0" "bp_pipeFd (fst (process_stop P)) < 0"
    "bp_stderrFd (fst (process_stop P)) < 0" "bp_port (fst (process_stop P)) = - 1"
    "\<not> bp_stderrThread (fst (process_stop P))"
  by (simp_all add: process_stop_def)

lemma process_stop_stopped:
  "bp_pid P \<le> 0 \<Longrightarrow> bp_pipeFd P < 0 \<Longrightarrow> bp_stderrFd P < 0 \<Longrightarrow> bp_port P = - 1 \<Longrightarrow> \<not> bp_stderrThread P \<Longrightarrow>
   process_stop P = (P, [])"
  by (cases P) (simp add: process_stop_def)

lemma stop_twice: "process_stop (fst (process_stop P)) = (fst (process_stop P), [])"
  by (rule process_stop_stopped) (simp_all add: stop_state)

lemma stop_not_running: "\<not> process_isRunning w (fst (process_stop P))"
  using stop_state(1) [of P] by (simp add: process_isRunning_def)

lemma started_releases:
  assumes "process_start je jar home ta A P = (Inr (Some e), P', calls)"
    and "os_pipe A = Inr (rd, wr)" and "0 \<le> rd" and "os_errpipe A = Inr (erd, ewr)" and "0 \<le> erd"
    and "\<forall>pid. os_fork A = Inr pid \<longrightarrow> pid > 0"
  shows "{Close rd, Close wr, Close erd, Close ewr} \<subseteq> set calls \<and>
    (\<forall>pid. os_fork A = Inr pid \<longrightarrow> {Kill pid, WaitPid pid} \<subseteq> set calls) \<and>
    process_stop P' = (P', []) \<and> \<not> process_isRunning w P'"
proof (cases "os_fork A")
  case (Inl x)
  then have "P' = fst (process_stop P)" "{Close rd, Close wr, Close erd, Close ewr} \<subseteq> set calls"
    using assms(1) by (auto simp: process_start_def assms(2,4) Let_def split: prod.splits)
  with Inl show ?thesis by (simp add: stop_twice stop_not_running)
next
  case (Inr pid)
  define P1 where "P1 = (fst (process_stop P))\<lparr>bp_pid := pid, bp_pipeFd := rd, bp_stderrFd := erd\<rparr>"
  have "P' = fst (process_stop P1)" and calls: "calls = snd (process_stop P) @ [Exec (child_argv je jar home ta), Close wr, Close ewr] @ snd (process_stop P1)"
    using assms(1) Inr
    by (auto simp: process_start_def assms(2,4) P1_def Let_def split: prod.splits sum.splits)
  moreover have "{Kill pid, Close erd, Close rd, WaitPid pid} \<subseteq> set (snd (process_stop P1))"
    using assms(3,5,6) Inr by (simp add: process_stop_def P1_def)
  ultimately show ?thesis using Inr by (auto simp: stop_twice stop_not_running)
qed

lemma ready_line:
  assumes "list_all (\<lambda>l. newline \<notin> set l \<and> \<not> starts_with kPrefix (strip_cr l)) pre" and "port < 2 ^ 31"
    and "eol \<in> {[newline], [carriage_return, newline]}"
  shows "ready_loop [] (concat (map (\<lambda>l. l @ [newline]) pre) @ kPrefix @ dec_digits port @ eol @ rest) =
    Inr (Some (of_nat port))"
proof -
  let ?l = "kPrefix @ dec_digits port" and ?pre = "concat (map (\<lambda>l. l @ [newline]) pre)"
  have digits: "c \<notin> set (dec_digits port)" if "\<not> is_dec_digit c" for c
    using dec_digits_all [of port] that by (auto simp: list_all_iff)
  have codes: "\<not> is_dec_digit newline" "\<not> is_dec_digit carriage_return"
    by code_simp+
  have nl: "newline \<notin> set ?l" "newline \<notin> set (?l @ [carriage_return])"
    using digits [OF codes(1)] by (auto simp: kPrefix_def newline_def carriage_return_def char_of_eq_iff)
  have last: "last ?l \<noteq> carriage_return"
    using digits [OF codes(2)] dec_digits_nonempty [of port] by (metis last_appendR last_in_set)
  obtain l where eol: "kPrefix @ dec_digits port @ eol @ rest = l @ newline # rest" and l: "newline \<notin> set l" "strip_cr l = ?l"
    using assms(3) nl last by (auto simp: strip_cr_def butlast_append)
  have "list_all (\<lambda>l. newline \<notin> set l) pre" using assms(1) by (simp add: list_all_iff)
  from split_nl_lines [OF this, of "l @ newline # rest"]
  have "fst (split_nl (?pre @ l @ newline # rest)) = pre @ l # fst (split_nl rest)"
    by (simp add: split_nl_line [OF l(1)])
  moreover have "find (\<lambda>l. starts_with kPrefix (strip_cr l)) (pre @ l # fst (split_nl rest)) = Some l"
    using assms(1) l(2) by (induction pre) auto
  ultimately show ?thesis
    unfolding eol using assms(2) l(2) by (simp add: ready_loop_lines stoi_dec_digits)
qed

section \<open>Properties\<close>

text \<open>
  The handshake takes its port from the first line of the child's output that starts with
  \<open>READY port=\<close>, and fails only when the output ends without such a line. A port number printed in
  decimal after other output is read back, on both platforms, whatever the line ending.
\<close>

theorem handshake_reads_port:
  "readReadyLine_posix out =
     (case find (\<lambda>l. starts_with kPrefix (strip_cr l)) (fst (split_nl out)) of
        None \<Rightarrow> Inr (Inl exited_error)
      | Some l \<Rightarrow> res_bind (stoi (drop (length kPrefix) (strip_cr l))) (\<lambda>port. Inr (Inr port))) \<and>
   (list_all (\<lambda>l. newline \<notin> set l \<and> \<not> starts_with kPrefix (strip_cr l)) pre \<and> port < 2 ^ 31 \<and>
    eol \<in> {[newline], [carriage_return, newline]} \<longrightarrow>
      readReadyLine_posix (concat (map (\<lambda>l. l @ [newline]) pre) @ kPrefix @ dec_digits port @ eol @ rest) =
        Inr (Inr (of_nat port)) \<and>
      readReadyLine_windows (concat (map (\<lambda>l. l @ [newline]) pre) @ kPrefix @ dec_digits port @ eol @ rest) err =
        Inr (Inr (of_nat port)))"
proof (rule conjI)
  show "readReadyLine_posix out =
     (case find (\<lambda>l. starts_with kPrefix (strip_cr l)) (fst (split_nl out)) of
        None \<Rightarrow> Inr (Inl exited_error)
      | Some l \<Rightarrow> res_bind (stoi (drop (length kPrefix) (strip_cr l))) (\<lambda>port. Inr (Inr port)))"
  proof (cases "find (\<lambda>l. starts_with kPrefix (strip_cr l)) (fst (split_nl out))")
    case (Some l)
    then show ?thesis
      by (cases "stoi (drop (length kPrefix) (strip_cr l))") (simp_all add: readReadyLine_posix_def ready_loop_lines)
  qed (simp add: readReadyLine_posix_def ready_loop_lines)
qed (auto simp: readReadyLine_posix_def readReadyLine_windows_def ready_line)

theorem handshake_reads_port_witness:
  "readReadyLine_posix (''starting'' @ [newline] @ ''READY port=4242'' @ [carriage_return, newline]) = Inr (Inr 4242)"
proof -
  have "list_all (\<lambda>l. newline \<notin> set l \<and> \<not> starts_with kPrefix (strip_cr l)) [''starting'']" by code_simp
  moreover have "dec_digits 4242 = ''4242''" by code_simp
  ultimately show ?thesis
    using handshake_reads_port [of "[]" "[''starting'']" 4242 "[carriage_return, newline]" "[]"] by (simp add: kPrefix_def)
qed

text \<open>
  The standard-error loggers log the non-empty lines of the child's error stream, without their
  carriage returns, and the unfinished line at its end, however the stream is cut into buffers.
\<close>

theorem logger_lines:
  "stderr_logger bufs =
     filter (\<lambda>l. l \<noteq> []) (map strip_cr (fst (split_nl (concat bufs)))) @
     (if snd (split_nl (concat bufs)) \<noteq> [] then [snd (split_nl (concat bufs))] else [])"
  by (simp add: stderr_logger_def log_buffers log_chars)

lemma windows_log_buffers:
  "windows_log_loop reads st = fold (fold log_char) (map the (takeWhile (\<lambda>a. a \<noteq> None \<and> a \<noteq> Some []) reads)) st"
  by (induction reads st rule: windows_log_loop.induct) auto

text \<open>The two platforms log the same lines: those of what was read before the pipe ended or failed.\<close>

theorem loggers_agree:
  "stderrLoggerThread reads = stderr_logger (map the (takeWhile (\<lambda>a. a \<noteq> None \<and> a \<noteq> Some []) reads))"
  by (simp add: stderrLoggerThread_def stderr_logger_def windows_log_buffers)

text \<open>
  C33: a failed start releases what it acquired. When \<open>start\<close> reports a failure the process is in the
  stopped state, and every descriptor the pipes gave and the child, if one was forked, have been
  closed and reaped, whichever step failed; stopping again makes no call.
\<close>

theorem failed_start_releases:
  assumes "process_start je jar home ta A P = (Inr (Some e), P', calls)"
    and "os_pipe A = Inr (rd, wr)" and "0 \<le> rd" and "\<forall>erd ewr. os_errpipe A = Inr (erd, ewr) \<longrightarrow> 0 \<le> erd"
    and "\<forall>pid. os_fork A = Inr pid \<longrightarrow> pid > 0"
  shows "{Close rd, Close wr} \<subseteq> set calls \<and>
    (\<forall>erd ewr. os_errpipe A = Inr (erd, ewr) \<longrightarrow> {Close erd, Close ewr} \<subseteq> set calls \<and>
       (\<forall>pid. os_fork A = Inr pid \<longrightarrow> {Kill pid, WaitPid pid} \<subseteq> set calls)) \<and>
    process_stop P' = (P', []) \<and> \<not> process_isRunning w P'"
proof (cases "os_errpipe A")
  case (Inl x)
  then have "P' = fst (process_stop P)" "{Close rd, Close wr} \<subseteq> set calls"
    using assms(1) by (auto simp: process_start_def assms(2) Let_def split: prod.splits)
  with Inl show ?thesis by (simp add: stop_twice stop_not_running)
next
  case (Inr ends)
  then obtain erd ewr where err: "os_errpipe A = Inr (erd, ewr)" by (cases ends) simp
  with assms(4) have "0 \<le> erd" by simp
  from started_releases [OF assms(1-3) err this assms(5)] err show ?thesis by auto
qed

definition failing_answers :: posix_answers where
  "failing_answers = \<lparr>os_pipe = Inr (3, 4), os_errpipe = Inr (5, 6), os_fork = Inr 77, os_stdout = ''no java''\<rparr>"

theorem failed_start_releases_witness:
  "fst (process_start [] ''/b.jar'' ''/g'' False failing_answers new_process) = Inr (Some exited_error) \<and>
   {Kill 77, WaitPid 77} \<subseteq> set (snd (snd (process_start [] ''/b.jar'' ''/g'' False failing_answers new_process)))"
proof -
  have fails: "fst (process_start [] ''/b.jar'' ''/g'' False failing_answers new_process) = Inr (Some exited_error)" by code_simp
  then obtain P' calls where "process_start [] ''/b.jar'' ''/g'' False failing_answers new_process = (Inr (Some exited_error), P', calls)"
    by (metis prod.collapse)
  with fails show ?thesis
    using failed_start_releases [of "[]" "''/b.jar''" "''/g''" False failing_answers new_process exited_error P' calls 3 4]
    by (simp add: failing_answers_def)
qed

text \<open>
  A handshake line whose port is no number is not reported as a failure: the exception of \<open>stoi\<close>
  leaves \<open>start\<close>, with the child still running and neither signalled nor reaped, and the process
  object keeps its descriptors.
\<close>

theorem malformed_handshake_escapes:
  assumes "os_pipe A = Inr (rd, wr)" and "os_errpipe A = Inr (erd, ewr)" and "os_fork A = Inr pid"
    and "readReadyLine_posix (os_stdout A) = Inl exn"
  shows "process_start je jar home ta A new_process =
    (Inl exn, new_process\<lparr>bp_pid := pid, bp_pipeFd := rd, bp_stderrFd := erd\<rparr>, [Exec (child_argv je jar home ta), Close wr, Close ewr])"
  using assms by (simp add: process_start_def process_stop_def new_process_def Let_def)

theorem malformed_handshake_escapes_witness:
  "fst (process_start [] ''/b.jar'' ''/g'' False (failing_answers\<lparr>os_stdout := ''READY port=none'' @ [newline]\<rparr>) new_process) = Inl ''stoi''"
proof -
  let ?A = "failing_answers\<lparr>os_stdout := ''READY port=none'' @ [newline]\<rparr>"
  have "readReadyLine_posix (os_stdout ?A) = Inl ''stoi''" by code_simp
  from malformed_handshake_escapes [of ?A 3 4 5 6 77, OF _ _ _ this] show ?thesis
    by (simp add: failing_answers_def)
qed

end
