(* ===== verification/Connection.thy ===== *)
theory Connection
  imports Bridge_Client Bridge_Process Ghidra_Json Names
begin

text \<open>
  \<open>GhidraConnection\<close>: the settings, the detection of the local installation, the life cycle of the
  bridge (\<open>connectBridge\<close>, \<open>startLocalBridge\<close>, \<open>disconnectBridge\<close>), the server session
  (\<open>connectToServer\<close>, \<open>disconnectFromServer\<close>), the repository operations and the events. The
  bridge client and the bridge process are those of their own theories, on POSIX; what the code asks
  of its surroundings is a record \<open>conn_env\<close>. A request is answered by an argument \<open>send\<close>, the
  client's \<open>sendSync\<close>: a request and a timeout give a response or the text of an exception.
\<close>

section \<open>State, settings and surroundings\<close>

datatype conn_callback = OnBridgeEvent | Promise nat

record ghidra_conn =
  m_process :: "posix_process option"
  m_client :: "conn_callback bridge_client option"
  m_serverConnected :: bool
  m_user :: string
  m_host :: string
  m_port :: i32
  m_password :: string
  m_eventHandler :: bool

definition new_connection :: ghidra_conn where
  "new_connection =
     \<lparr>m_process = None, m_client = None, m_serverConnected = False, m_user = [], m_host = [], m_port = 0,
      m_password = [], m_eventHandler = False\<rparr>"

record bridge_settings =
  se_bridgeMode :: string
  se_bridgePort :: i64
  se_javaExe :: string
  se_bridgeJar :: string
  se_ghidraHome :: string
  se_trustAll :: bool

text \<open>\<open>bridgePort()\<close> narrows the 64-bit setting to an \<open>int\<close>.\<close>

definition bridgePort :: "bridge_settings \<Rightarrow> i32" where
  "bridgePort s = ucast (se_bridgePort s)"

text \<open>
  \<open>en_pluginFile\<close> is the file name \<open>dladdr\<close> gives, \<open>en_listing\<close> the entries of a directory that can be
  opened, \<open>en_homeDefault\<close> the value of \<open>GHIDRA_HOME_DEFAULT\<close> (empty when undefined), \<open>en_wait\<close> the
  answer of \<open>waitpid\<close> for the running child, and the last three the outcomes of the socket calls.
\<close>

record conn_env =
  en_settings :: bridge_settings
  en_pluginFile :: "string option"
  en_listing :: "string \<Rightarrow> string list option"
  en_homeDefault :: string
  en_wait :: int
  en_posix :: posix_answers
  en_socketOk :: bool
  en_ptonOk :: bool
  en_connectOk :: bool

section \<open>Detection of the local installation\<close>

definition pluginDir :: "string option \<Rightarrow> string" where
  "pluginDir fname =
     (case fname of
        None \<Rightarrow> []
      | Some path \<Rightarrow> (case rfind_char CHR ''/'' path of None \<Rightarrow> [] | Some slash \<Rightarrow> take slash path))"

definition is_ghidra_dir :: "string \<Rightarrow> bool" where
  "is_ghidra_dir name \<longleftrightarrow>
     length name > 14 \<and> take 7 name = ''ghidra_'' \<and> drop (length name - 7) name = ''_PUBLIC''"

text \<open>\<open>dir.find_last_of("/\")\<close>\<close>

definition find_separator :: "string \<Rightarrow> nat option" where
  "find_separator s =
     (case (rfind_char CHR ''/'' s, rfind_char (CHR 0x5C) s) of
        (None, p) \<Rightarrow> p
      | (Some i, None) \<Rightarrow> Some i
      | (Some i, Some j) \<Rightarrow> Some (max i j))"

text \<open>The loop over the directory and its parents, with the number of rounds left\<close>

fun ghidra_home_loop :: "(string \<Rightarrow> string list option) \<Rightarrow> nat \<Rightarrow> string \<Rightarrow> string option" where
  "ghidra_home_loop listing 0 dir = None"
| "ghidra_home_loop listing (Suc n) dir =
     (if dir = [] then None
      else case Option.bind (listing dir) (find is_ghidra_dir) of
        Some name \<Rightarrow> Some (dir @ ''/'' @ name)
      | None \<Rightarrow>
          (case find_separator dir of
             None \<Rightarrow> None
           | Some sep \<Rightarrow> ghidra_home_loop listing n (take sep dir)))"

definition autoDetectGhidraHome :: "conn_env \<Rightarrow> string" where
  "autoDetectGhidraHome E =
     (case ghidra_home_loop (en_listing E) 3 (pluginDir (en_pluginFile E)) of
        Some home \<Rightarrow> home
      | None \<Rightarrow> en_homeDefault E)"

definition autoDetectBridgeJar :: "conn_env \<Rightarrow> string" where
  "autoDetectBridgeJar E =
     (let dir = pluginDir (en_pluginFile E) in if dir \<noteq> [] then dir @ ''/ghidra-bridge-0.1.0.jar'' else [])"

section \<open>Life cycle of the bridge\<close>

definition isBridgeConnected :: "conn_env \<Rightarrow> ghidra_conn \<Rightarrow> bool" where
  "isBridgeConnected E K \<longleftrightarrow>
     (case m_client K of
        None \<Rightarrow> False
      | Some c \<Rightarrow>
          if \<not> isConnected c then False
          else \<not> (se_bridgeMode (en_settings E) = ''local'' \<and>
                  (case m_process K of None \<Rightarrow> False | Some p \<Rightarrow> \<not> process_isRunning (en_wait E) p)))"

text \<open>The start of a local bridge after the cleanup: \<open>Inr None\<close> is success, \<open>Inr (Some e)\<close> failure with \<open>errorOut = e\<close>\<close>

definition spawn_bridge ::
    "'j json_lib \<Rightarrow> conn_env \<Rightarrow> string \<Rightarrow> string \<Rightarrow> ghidra_conn \<Rightarrow> string option result \<times> ghidra_conn" where
  "spawn_bridge J E jar home K =
     (case process_start (se_javaExe (en_settings E)) jar home (se_trustAll (en_settings E)) (en_posix E) new_process of
        (Inl exn, p, _) \<Rightarrow> (Inl exn, K\<lparr>m_process := Some p\<rparr>)
      | (Inr (Some e), p, _) \<Rightarrow> (Inr (Some e), K\<lparr>m_process := None\<rparr>)
      | (Inr None, p, _) \<Rightarrow>
          (case bridge_connect J ''127.0.0.1'' (bp_port p) (en_socketOk E) (en_ptonOk E) (en_connectOk E) new_client of
             (Some e, _, _) \<Rightarrow> (Inr (Some e), K\<lparr>m_process := None, m_client := None\<rparr>)
           | (None, c, _) \<Rightarrow>
               (Inr None, K\<lparr>m_process := Some p, m_client := Some (setEventCallback (Some OnBridgeEvent) c)\<rparr>)))"

definition startLocalBridge :: "'j json_lib \<Rightarrow> conn_env \<Rightarrow> ghidra_conn \<Rightarrow> string option result \<times> ghidra_conn" where
  "startLocalBridge J E K =
     (if (case (m_process K, m_client K) of
            (Some p, Some c) \<Rightarrow> process_isRunning (en_wait E) p \<and> isConnected c
          | _ \<Rightarrow> False)
      then (Inr None, K)
      else
        let K = K\<lparr>m_client := None, m_process := None\<rparr>;
            jar = se_bridgeJar (en_settings E);
            jar = (if jar = [] then autoDetectBridgeJar E else jar) in
        if jar = []
        then (Inr (Some (''Bridge JAR not found. Set ghidra.bridgeJar in Settings, or build with '' @
                         [CHR 0x27] @ ''./build.sh bridge'' @ [CHR 0x27] @ '' and install.'')), K)
        else
          let home = se_ghidraHome (en_settings E);
              home = (if home = [] then autoDetectGhidraHome E else home) in
          if home = []
          then (Inr (Some ''Ghidra installation not found. Set ghidra.ghidraHome in Settings.''), K)
          else spawn_bridge J E jar home K)"

definition connectBridge ::
    "'j json_lib \<Rightarrow> conn_env \<Rightarrow> string \<Rightarrow> ghidra_conn \<Rightarrow> string option result \<times> ghidra_conn" where
  "connectBridge J E remoteHost K =
     (if isBridgeConnected E K then (Inr None, K)
      else if se_bridgeMode (en_settings E) = ''local'' then startLocalBridge J E K
      else
        let port = bridgePort (en_settings E) in
        case bridge_connect J remoteHost port (en_socketOk E) (en_ptonOk E) (en_connectOk E) new_client of
          (Some e, _, _) \<Rightarrow>
            (Inr (Some (''Cannot reach Ghidra bridge at '' @ remoteHost @ '':'' @ to_string_i32 port @ '' '' @
               map char_of [226 :: nat, 128, 148] @ '' is start-bridge.sh running on the server? ('' @ e @ '')'')),
             K\<lparr>m_client := None\<rparr>)
        | (None, c, _) \<Rightarrow> (Inr None, K\<lparr>m_client := Some (setEventCallback (Some OnBridgeEvent) c)\<rparr>))"

section \<open>The server session\<close>

definition connect_request :: "'j json_lib \<Rightarrow> string \<Rightarrow> i32 \<Rightarrow> string \<Rightarrow> string \<Rightarrow> 'j" where
  "connect_request J host port user password =
     jl_object J [(''op'', jl_string J ''connect''), (''host'', jl_string J host), (''port'', jl_int J port),
       (''user'', jl_string J user), (''password'', jl_string J password)]"

text \<open>
  The common shape of an operation: send the request, take the error text of a refused one, decode
  the response otherwise; an exception gives its text. \<open>Inl\<close> is the text left in \<open>errorOut\<close>.
\<close>

definition bridge_op ::
    "'j json_lib \<Rightarrow> ('j \<Rightarrow> nat \<Rightarrow> 'j result) \<Rightarrow> 'j \<Rightarrow> nat \<Rightarrow> string \<Rightarrow> ('j \<Rightarrow> 'a result) \<Rightarrow> 'a result" where
  "bridge_op J send request timeoutMs refused decode =
     res_bind (send request timeoutMs) (\<lambda>resp.
     res_bind (jl_value_bool J resp ''ok'' False) (\<lambda>okay.
     if \<not> okay then res_bind (jl_value_string J resp ''error'' refused) Inl
     else decode resp))"

definition connectToServer ::
    "'j json_lib \<Rightarrow> conn_env \<Rightarrow> ('j \<Rightarrow> nat \<Rightarrow> 'j result) \<Rightarrow> string \<Rightarrow> i32 \<Rightarrow> string \<Rightarrow> string \<Rightarrow> ghidra_conn \<Rightarrow>
     string option result \<times> ghidra_conn" where
  "connectToServer J E send host port user password K =
     (case (if \<not> isBridgeConnected E K then connectBridge J E host K else (Inr None, K)) of
        (Inl exn, K) \<Rightarrow> (Inl exn, K)
      | (Inr (Some e), K) \<Rightarrow> (Inr (Some e), K)
      | (Inr None, K) \<Rightarrow>
          (case bridge_op J send (connect_request J host port user password) 15000 ''unknown error'' (\<lambda>_. Inr ()) of
             Inl e \<Rightarrow> (Inr (Some e), K)
           | Inr _ \<Rightarrow>
               (Inr None, K\<lparr>m_serverConnected := True, m_user := user, m_host := host, m_port := port,
                           m_password := password\<rparr>)))"

text \<open>The request sent, if any, and the state; the answer is not looked at\<close>

definition disconnectFromServer :: "'j json_lib \<Rightarrow> ghidra_conn \<Rightarrow> ('j \<times> nat) list \<times> ghidra_conn" where
  "disconnectFromServer J K =
     ((if m_client K \<noteq> None \<and> m_serverConnected K
       then [(jl_object J [(''op'', jl_string J ''disconnect'')], 3000)] else []),
      K\<lparr>m_serverConnected := False, m_user := [], m_host := [], m_port := 0, m_password := []\<rparr>)"

definition disconnectBridge :: "'j json_lib \<Rightarrow> ghidra_conn \<Rightarrow> ('j \<times> nat) list \<times> ghidra_conn" where
  "disconnectBridge J K =
     (let (sent, K) = disconnectFromServer J K in (sent, K\<lparr>m_client := None, m_process := None\<rparr>))"

section \<open>Repository operations\<close>

text \<open>A value of an operation is \<open>Inr\<close>, or the error text with the default value the code returns.\<close>

definition itemFromJson :: "'j json_lib \<Rightarrow> 'j \<Rightarrow> RepoItem result" where
  "itemFromJson J j =
     res_bind (jl_value_string J j ''name'' []) (\<lambda>name.
     res_bind (jl_value_string J j ''parent_path'' []) (\<lambda>parentPath.
     res_bind (jl_value_string J j ''path'' []) (\<lambda>path.
     res_bind (jl_value_string J j ''file_id'' []) (\<lambda>fileId.
     res_bind (jl_value_int J j ''item_type'' 0) (\<lambda>itemType.
     res_bind (jl_value_string J j ''content_type'' []) (\<lambda>contentType.
     res_bind (jl_value_int J j ''version'' (- 1)) (\<lambda>version.
     res_bind (jl_value_int64 J j ''version_time'' 0) (\<lambda>versionTime.
     Inr \<lparr>ri_name = name, ri_parentPath = parentPath, ri_path = path, ri_fileId = fileId,
          ri_itemType = itemType, ri_contentType = contentType, ri_version = version,
          ri_versionTime = versionTime\<rparr>))))))))"

definition checkoutFromJson :: "'j json_lib \<Rightarrow> 'j \<Rightarrow> CheckoutInfo result" where
  "checkoutFromJson J j =
     res_bind (jl_value_int64 J j ''id'' 0) (\<lambda>i.
     res_bind (jl_value_string J j ''type'' []) (\<lambda>type.
     res_bind (jl_value_string J j ''user'' []) (\<lambda>user.
     res_bind (jl_value_int J j ''version'' (- 1)) (\<lambda>version.
     res_bind (jl_value_int64 J j ''time'' 0) (\<lambda>time.
     res_bind (jl_value_string J j ''project_path'' []) (\<lambda>projectPath.
     Inr \<lparr>co_id = i, co_type = type, co_user = user, co_version = version, co_time = time,
          co_projectPath = projectPath\<rparr>))))))"

definition versionFromJson :: "'j json_lib \<Rightarrow> 'j \<Rightarrow> VersionInfo result" where
  "versionFromJson J j =
     res_bind (jl_value_int J j ''version'' (- 1)) (\<lambda>version.
     res_bind (jl_value_int64 J j ''time'' 0) (\<lambda>time.
     res_bind (jl_value_string J j ''user'' []) (\<lambda>user.
     res_bind (jl_value_string J j ''comment'' []) (\<lambda>comment.
     Inr \<lparr>vi_version = version, vi_time = time, vi_user = user, vi_comment = comment\<rparr>))))"

text \<open>\<open>for (auto& j : resp[key]) out.push_back(f(j))\<close>\<close>

definition decode_array :: "'j json_lib \<Rightarrow> string \<Rightarrow> ('j \<Rightarrow> 'a result) \<Rightarrow> 'j \<Rightarrow> 'a list result" where
  "decode_array J key f resp = res_bind (jl_at J resp key) (\<lambda>a. res_map f (jl_elements J a))"

definition item_request :: "'j json_lib \<Rightarrow> string \<Rightarrow> (string \<times> 'j) list \<Rightarrow> 'j" where
  "item_request J oper args = jl_object J ((''op'', jl_string J oper) # args)"

definition listRepos :: "'j json_lib \<Rightarrow> ('j \<Rightarrow> nat \<Rightarrow> 'j result) \<Rightarrow> string list result" where
  "listRepos J send =
     bridge_op J send (item_request J ''list_repos'' []) 15000 ''list_repos failed''
       (decode_array J ''repos'' (jl_get_string J))"

definition openRepo :: "'j json_lib \<Rightarrow> ('j \<Rightarrow> nat \<Rightarrow> 'j result) \<Rightarrow> string \<Rightarrow> unit result" where
  "openRepo J send repo =
     bridge_op J send (item_request J ''open_repo'' [(''repo'', jl_string J repo)]) 15000 ''open_repo failed''
       (\<lambda>_. Inr ())"

text \<open>The answer and any exception are ignored: only the request is sent.\<close>

definition closeRepo :: "'j json_lib \<Rightarrow> string \<Rightarrow> 'j \<times> nat" where
  "closeRepo J repo = (item_request J ''close_repo'' [(''repo'', jl_string J repo)], 3000)"

definition listItems :: "'j json_lib \<Rightarrow> ('j \<Rightarrow> nat \<Rightarrow> 'j result) \<Rightarrow> string \<Rightarrow> string \<Rightarrow> RepoItem list result" where
  "listItems J send repo folder =
     bridge_op J send (item_request J ''list_items'' [(''repo'', jl_string J repo), (''folder'', jl_string J folder)])
       15000 [] (decode_array J ''items'' (itemFromJson J))"

definition getSubfolders :: "'j json_lib \<Rightarrow> ('j \<Rightarrow> nat \<Rightarrow> 'j result) \<Rightarrow> string \<Rightarrow> string \<Rightarrow> string list result" where
  "getSubfolders J send repo folder =
     bridge_op J send (item_request J ''get_subfolders'' [(''repo'', jl_string J repo), (''folder'', jl_string J folder)])
       15000 [] (decode_array J ''subfolders'' (jl_get_string J))"

definition item_args :: "'j json_lib \<Rightarrow> string \<Rightarrow> string \<Rightarrow> string \<Rightarrow> (string \<times> 'j) list" where
  "item_args J repo folder item =
     [(''repo'', jl_string J repo), (''folder'', jl_string J folder), (''item'', jl_string J item)]"

definition getVersions ::
    "'j json_lib \<Rightarrow> ('j \<Rightarrow> nat \<Rightarrow> 'j result) \<Rightarrow> string \<Rightarrow> string \<Rightarrow> string \<Rightarrow> VersionInfo list result" where
  "getVersions J send repo folder item =
     bridge_op J send (item_request J ''get_versions'' (item_args J repo folder item)) 15000 []
       (decode_array J ''versions'' (versionFromJson J))"

definition getCheckouts ::
    "'j json_lib \<Rightarrow> ('j \<Rightarrow> nat \<Rightarrow> 'j result) \<Rightarrow> string \<Rightarrow> string \<Rightarrow> string \<Rightarrow> CheckoutInfo list result" where
  "getCheckouts J send repo folder item =
     bridge_op J send (item_request J ''get_checkouts'' (item_args J repo folder item)) 15000 []
       (decode_array J ''checkouts'' (checkoutFromJson J))"

definition checkout ::
    "'j json_lib \<Rightarrow> ('j \<Rightarrow> nat \<Rightarrow> 'j result) \<Rightarrow> string \<Rightarrow> string \<Rightarrow> string \<Rightarrow> string \<Rightarrow> CheckoutInfo result" where
  "checkout J send repo folder item checkoutType =
     bridge_op J send
       (item_request J ''checkout'' (item_args J repo folder item @ [(''type'', jl_string J checkoutType)])) 15000 []
       (\<lambda>resp. res_bind (jl_at J resp ''checkout'') (checkoutFromJson J))"

definition openDatabase ::
    "'j json_lib \<Rightarrow> ('j \<Rightarrow> nat \<Rightarrow> 'j result) \<Rightarrow> string \<Rightarrow> string \<Rightarrow> string \<Rightarrow> i32 \<Rightarrow> GhidraDbExport result" where
  "openDatabase J send repo folder item version =
     bridge_op J send
       (item_request J ''open_db'' (item_args J repo folder item @ [(''version'', jl_int J version)])) 120000
       ''open_db failed'' (parseDbExportJson J)"

record BinaryFile =
  bf_filename :: string
  bf_bytes :: string

text \<open>\<open>fromBase64\<close> is \<open>BinaryNinja::DataBuffer::FromBase64\<close>, \<open>toBase64\<close> its inverse.\<close>

definition binary_file :: "'j json_lib \<Rightarrow> (string \<Rightarrow> string) \<Rightarrow> 'j \<Rightarrow> BinaryFile result" where
  "binary_file J fromBase64 j =
     res_bind (jl_value_string J j ''filename'' []) (\<lambda>filename.
     res_bind (jl_value_string J j ''data'' []) (\<lambda>b64.
     Inr \<lparr>bf_filename = filename, bf_bytes = fromBase64 b64\<rparr>))"

definition downloadBinary ::
    "'j json_lib \<Rightarrow> (string \<Rightarrow> string) \<Rightarrow> ('j \<Rightarrow> nat \<Rightarrow> 'j result) \<Rightarrow> string \<Rightarrow> string \<Rightarrow> string \<Rightarrow> i32 \<Rightarrow>
     BinaryFile list result" where
  "downloadBinary J fromBase64 send repo folder item version =
     bridge_op J send
       (item_request J ''download_binary'' (item_args J repo folder item @ [(''version'', jl_int J version)])) 300000
       ''download_binary failed'' (decode_array J ''files'' (binary_file J fromBase64))"

definition terminateCheckout ::
    "'j json_lib \<Rightarrow> ('j \<Rightarrow> nat \<Rightarrow> 'j result) \<Rightarrow> string \<Rightarrow> string \<Rightarrow> string \<Rightarrow> i64 \<Rightarrow> unit result" where
  "terminateCheckout J send repo folder item checkoutId =
     bridge_op J send
       (item_request J ''terminate_checkout'' (item_args J repo folder item @ [(''checkout_id'', jl_int64 J checkoutId)]))
       15000 [] (\<lambda>_. Inr ())"

definition deleteItem ::
    "'j json_lib \<Rightarrow> ('j \<Rightarrow> nat \<Rightarrow> 'j result) \<Rightarrow> string \<Rightarrow> string \<Rightarrow> string \<Rightarrow> unit result" where
  "deleteItem J send repo folder item =
     bridge_op J send (item_request J ''delete_item'' (item_args J repo folder item)) 15000 [] (\<lambda>_. Inr ())"

definition upload_request ::
    "'j json_lib \<Rightarrow> (string \<Rightarrow> string) \<Rightarrow> ghidra_conn \<Rightarrow> string \<Rightarrow> string \<Rightarrow> string \<Rightarrow> string \<Rightarrow> string \<Rightarrow> bool \<Rightarrow>
     string \<Rightarrow> 'j" where
  "upload_request J toBase64 K repo folder item bytes comment keepCheckout analysisJson =
     item_request J ''upload_binary''
       (item_args J repo folder item @
        [(''data'', jl_string J (toBase64 bytes)), (''comment'', jl_string J comment),
         (''keep_checkout'', jl_bool J keepCheckout), (''host'', jl_string J (m_host K)),
         (''port'', jl_int J (m_port K)), (''user'', jl_string J (m_user K)),
         (''password'', jl_string J (m_password K)), (''analysis_json'', jl_string J analysisJson)])"

definition uploadBinary ::
    "'j json_lib \<Rightarrow> (string \<Rightarrow> string) \<Rightarrow> conn_env \<Rightarrow> ('j \<Rightarrow> nat \<Rightarrow> 'j result) \<Rightarrow> ghidra_conn \<Rightarrow> string \<Rightarrow> string \<Rightarrow>
     string \<Rightarrow> string \<Rightarrow> string \<Rightarrow> bool \<Rightarrow> string \<Rightarrow> unit result" where
  "uploadBinary J toBase64 E send K repo folder item bytes comment keepCheckout analysisJson =
     (if \<not> isBridgeConnected E K then Inl ''Bridge not connected''
      else if \<not> m_serverConnected K then Inl ''Not connected to server''
      else if bytes = [] then Inl ''Binary data is empty''
      else bridge_op J send
             (upload_request J toBase64 K repo folder item bytes comment keepCheckout analysisJson) 660000
             ''upload_binary failed'' (\<lambda>_. Inr ()))"

section \<open>Events\<close>

definition setEventHandler :: "bool \<Rightarrow> ghidra_conn \<Rightarrow> ghidra_conn" where
  "setEventHandler h K = K\<lparr>m_eventHandler := h\<rparr>"

text \<open>The event handed to the handler, if one is set\<close>

definition onBridgeEvent :: "'j json_lib \<Rightarrow> 'j \<Rightarrow> ghidra_conn \<Rightarrow> GhidraEvent option result" where
  "onBridgeEvent J evt K =
     (if \<not> m_eventHandler K then Inr None
      else
        res_bind (jl_value_string J evt ''repo'' []) (\<lambda>repo.
        res_bind (jl_value_string J evt ''type'' []) (\<lambda>type.
        res_bind (jl_value_string J evt ''parent_path'' []) (\<lambda>parentPath.
        res_bind (jl_value_string J evt ''name'' []) (\<lambda>name.
        res_bind (jl_value_string J evt ''new_parent_path'' []) (\<lambda>newParentPath.
        res_bind (jl_value_string J evt ''new_name'' []) (\<lambda>newName.
        Inr (Some \<lparr>ge_repo = repo, ge_type = type, ge_parentPath = parentPath, ge_name = name,
                   ge_newParentPath = newParentPath, ge_newName = newName\<rparr>))))))))"

end
