(* ===== verification/Connection_Props.thy ===== *)
theory Connection_Props
  imports Connection
begin

text \<open>
  Properties of \<open>GhidraConnection\<close>: what a session holds, what the life cycle of the bridge leaves
  behind, and what the repository operations decode. The steps the user interface can make on the
  singleton are the relation \<open>conn_step\<close>.
\<close>

section \<open>Runs of the singleton\<close>

inductive conn_step :: "'j json_lib \<Rightarrow> ghidra_conn \<Rightarrow> ghidra_conn \<Rightarrow> bool" for J where
  conn_bridge: "connectBridge J E host K = (res, K') \<Longrightarrow> conn_step J K K'"
| conn_server: "connectToServer J E send host port user password K = (res, K') \<Longrightarrow> conn_step J K K'"
| conn_leave: "disconnectFromServer J K = (sent, K') \<Longrightarrow> conn_step J K K'"
| conn_close: "disconnectBridge J K = (sent, K') \<Longrightarrow> conn_step J K K'"
| conn_handler: "conn_step J K (setEventHandler h K)"

abbreviation conn_reachable :: "'j json_lib \<Rightarrow> ghidra_conn \<Rightarrow> bool" where
  "conn_reachable J \<equiv> reached (conn_step J) new_connection"

text \<open>The members a session sets, and those the life cycle of the bridge changes\<close>

definition session_of :: "ghidra_conn \<Rightarrow> bool \<times> string \<times> string \<times> i32 \<times> string" where
  "session_of K = (m_serverConnected K, m_user K, m_host K, m_port K, m_password K)"

definition no_session :: "bool \<times> string \<times> string \<times> i32 \<times> string" where
  "no_session = (False, [], [], 0, [])"

lemma spawn_session: "session_of (snd (spawn_bridge J E jar home K)) = session_of K"
  by (simp add: spawn_bridge_def session_of_def split: prod.split sum.split option.split)

lemma local_session: "session_of (snd (startLocalBridge J E K)) = session_of K"
  using spawn_session [of J E _ _ "K\<lparr>m_client := None, m_process := None\<rparr>"]
  by (auto simp: startLocalBridge_def session_of_def Let_def split: option.split)

lemma bridge_session: "session_of (snd (connectBridge J E host K)) = session_of K"
  using local_session [of J E K]
  by (auto simp: connectBridge_def session_of_def Let_def split: prod.split option.split)

lemma server_session:
  "session_of (snd (connectToServer J E send host port user password K)) =
     (if fst (connectToServer J E send host port user password K) = Inr None
      then (True, user, host, port, password) else session_of K)"
  using bridge_session [of J E host K]
  by (auto simp: connectToServer_def session_of_def split: prod.split sum.split option.split)

lemma leave_session: "session_of (snd (disconnectFromServer J K)) = no_session"
  by (simp add: disconnectFromServer_def session_of_def no_session_def)

lemma close_session: "session_of (snd (disconnectBridge J K)) = no_session"
  using leave_session [of J K]
  by (auto simp: disconnectBridge_def session_of_def Let_def split: prod.split)

lemma step_session:
  assumes "conn_step J K K'"
  shows "session_of K' = session_of K \<or> session_of K' = no_session \<or> m_serverConnected K'"
  using assms
proof (cases rule: conn_step.cases)
  case (conn_server E send host port user password res)
  then show ?thesis
    using server_session [of J E send host port user password K] by (auto simp: session_of_def split: if_splits)
next
  case (conn_bridge E host res)
  then show ?thesis using bridge_session [of J E host K] by simp
next
  case (conn_leave sent)
  then show ?thesis using leave_session [of J K] by simp
next
  case (conn_close sent)
  then show ?thesis using close_session [of J K] by simp
next
  case (conn_handler h)
  then show ?thesis by (simp add: setEventHandler_def session_of_def)
qed

text \<open>The session's members are set only while connected to the server.\<close>

interpretation sessions: step_invariant "conn_step J" new_connection "\<lambda>K. m_serverConnected K \<or> session_of K = no_session"
  for J :: "'j json_lib"
proof unfold_locales
  fix K K' :: ghidra_conn
  assume "conn_step J K K'" and "m_serverConnected K \<or> session_of K = no_session"
  then show "m_serverConnected K' \<or> session_of K' = no_session"
    using step_session [of J K K'] by (auto simp: session_of_def no_session_def)
qed (simp add: session_of_def no_session_def new_connection_def)

section \<open>Decoding\<close>

text \<open>The object the bridge sends for an item and for a checkout\<close>

definition item_json :: "'j json_lib \<Rightarrow> RepoItem \<Rightarrow> 'j" where
  "item_json J r =
     jl_object J [(''name'', jl_string J (ri_name r)), (''parent_path'', jl_string J (ri_parentPath r)),
       (''path'', jl_string J (ri_path r)), (''file_id'', jl_string J (ri_fileId r)),
       (''item_type'', jl_int J (ri_itemType r)), (''content_type'', jl_string J (ri_contentType r)),
       (''version'', jl_int J (ri_version r)), (''version_time'', jl_int64 J (ri_versionTime r))]"

definition checkout_json :: "'j json_lib \<Rightarrow> CheckoutInfo \<Rightarrow> 'j" where
  "checkout_json J c =
     jl_object J [(''id'', jl_int64 J (co_id c)), (''type'', jl_string J (co_type c)),
       (''user'', jl_string J (co_user c)), (''version'', jl_int J (co_version c)),
       (''time'', jl_int64 J (co_time c)), (''project_path'', jl_string J (co_projectPath c))]"

definition ok_response :: "'j json_lib \<Rightarrow> string \<Rightarrow> 'j \<Rightarrow> 'j" where
  "ok_response J key payload = jl_object J [(''ok'', jl_bool J True), (key, payload)]"

definition file_json :: "'j json_lib \<Rightarrow> (string \<Rightarrow> string) \<Rightarrow> BinaryFile \<Rightarrow> 'j" where
  "file_json J toBase64 f =
     jl_object J [(''filename'', jl_string J (bf_filename f)), (''data'', jl_string J (toBase64 (bf_bytes f)))]"

context json_library
begin

lemma file_decodes: "(\<And>b. fromBase64 (toBase64 b) = b) \<Longrightarrow> binary_file J fromBase64 (file_json J toBase64 f) = Inr f"
  by (simp add: binary_file_def file_json_def object_reads)

lemma upload_reads:
  assumes "req = upload_request J toBase64 K repo folder item bytes comment keep analysis"
  shows "jl_value_string J req ''data'' [] = Inr (toBase64 bytes)"
    "jl_value_string J req ''user'' [] = Inr (m_user K)" "jl_value_string J req ''host'' [] = Inr (m_host K)"
    "jl_value_int J req ''port'' 0 = Inr (m_port K)" "jl_value_string J req ''password'' [] = Inr (m_password K)"
  by (simp_all add: assms upload_request_def item_request_def item_args_def object_reads)

lemma item_decodes: "itemFromJson J (item_json J r) = Inr r"
  by (simp add: itemFromJson_def item_json_def object_reads)

lemma checkout_decodes: "checkoutFromJson J (checkout_json J c) = Inr c"
  by (simp add: checkoutFromJson_def checkout_json_def object_reads)

lemma bridge_op_ok:
  assumes "send request t = Inr (ok_response J key payload)" and "key \<noteq> ''ok''"
  shows "bridge_op J send request t refused decode = decode (ok_response J key payload)"
  using assms by (simp add: bridge_op_def ok_response_def object_reads)

lemma decode_array_ok:
  assumes "key \<noteq> ''ok''" and "\<And>x. x \<in> set xs \<Longrightarrow> f (enc x) = Inr x"
  shows "decode_array J key f (ok_response J key (jl_array J (map enc xs))) = Inr xs"
proof -
  have "jl_at J (ok_response J key (jl_array J (map enc xs))) key = Inr (jl_array J (map enc xs))"
    using assms(1) unfolding ok_response_def by (intro at_object) auto
  moreover have "res_map f (map enc xs) = Inr xs" using assms(2) by (induction xs) auto
  ultimately show ?thesis by (simp add: decode_array_def elements_array)
qed

end

section \<open>Ancestors of the plugin directory\<close>

fun ancestors :: "nat \<Rightarrow> string \<Rightarrow> string list" where
  "ancestors 0 dir = []"
| "ancestors (Suc n) dir =
     (if dir = [] then []
      else dir # (case find_separator dir of None \<Rightarrow> [] | Some sep \<Rightarrow> ancestors n (take sep dir)))"

lemma home_loop_ancestors:
  "ghidra_home_loop listing n dir =
     (case List.map_filter (\<lambda>a. map_option (\<lambda>name. a @ ''/'' @ name) (Option.bind (listing a) (find is_ghidra_dir)))
             (ancestors n dir)
      of [] \<Rightarrow> None | home # _ \<Rightarrow> Some home)"
  by (induction n arbitrary: dir) (auto simp: List.map_filter_simps split: option.split)

lemma ancestors_length: "length (ancestors n dir) \<le> n"
  by (induction n arbitrary: dir) (auto split: option.split)

lemma ancestors_prefix: "a \<in> set (ancestors n dir) \<Longrightarrow> a = take (length a) dir"
proof (induction n arbitrary: dir)
  case (Suc n)
  show ?case
  proof (cases "a = dir")
    case False
    with Suc.prems obtain sep where "a \<in> set (ancestors n (take sep dir))" by (auto split: if_splits option.splits)
    then have a: "a = take (length a) (take sep dir)" by (rule Suc.IH)
    then have "length a \<le> sep" by (metis length_take min.cobounded1 min.cobounded2 min.assoc le_trans)
    with a show ?thesis by (metis take_take min.absorb1)
  qed simp
qed simp

section \<open>Properties\<close>

text \<open>
  C19: credentials are held only during a session. In every run of connects, failed connects,
  disconnects and bridge losses, a connection that does not count as connected holds no user, host,
  port or password; a failed connect leaves the session as it was, and a successful one records
  exactly its arguments.
\<close>

theorem credentials_only_in_session:
  assumes "conn_reachable J K"
  shows "(\<not> m_serverConnected K \<longrightarrow> m_user K = [] \<and> m_host K = [] \<and> m_port K = 0 \<and> m_password K = []) \<and>
    (let (res, K') = connectToServer J E send host port user password K in
       session_of K' = (if res = Inr None then (True, user, host, port, password) else session_of K))"
  using sessions.invariant [OF assms] server_session [of J E send host port user password K]
  by (auto simp: session_of_def no_session_def split: prod.split)

definition sample_env :: conn_env where
  "sample_env =
     \<lparr>en_settings = \<lparr>se_bridgeMode = ''local'', se_bridgePort = 13100, se_javaExe = [], se_bridgeJar = ''/b.jar'',
        se_ghidraHome = ''/g'', se_trustAll = False\<rparr>,
      en_pluginFile = None, en_listing = (\<lambda>_. None), en_homeDefault = [], en_wait = 0,
      en_posix = \<lparr>os_pipe = Inr (3, 4), os_errpipe = Inr (5, 6), os_fork = Inr 77,
        os_stdout = ''READY port=4242'' @ [newline]\<rparr>,
      en_socketOk = True, en_ptonOk = True, en_connectOk = True\<rparr>"

definition sample_session :: ghidra_conn where
  "sample_session = snd (connectToServer tree_json sample_env (\<lambda>_ _. Inr (JObj [(''ok'', JBool True)]))
     ''srv'' 13100 ''ann'' ''pw'' new_connection)"

theorem credentials_only_in_session_witness:
  "session_of sample_session = (True, ''ann'', ''srv'', 13100, ''pw'')"
proof -
  have "fst (connectToServer tree_json sample_env (\<lambda>_ _. Inr (JObj [(''ok'', JBool True)]))
     ''srv'' 13100 ''ann'' ''pw'' new_connection) = Inr None" by code_simp
  then show ?thesis
    using credentials_only_in_session [OF reached_init, of tree_json sample_env "\<lambda>_ _. Inr (JObj [(''ok'', JBool True)])"
        "''srv''" 13100 "''ann''" "''pw''"]
    by (simp add: sample_session_def split: prod.splits)
qed

text \<open>
  A failed reconnection can leave the connection counting as connected to the server while it has
  no client at all: when the local bridge has died and cannot be started again, \<open>connectToServer\<close>
  drops the client and the process, reports the error, and keeps \<open>m_serverConnected\<close>. The repository
  operations then dereference a null client.
\<close>

theorem failed_reconnect_drops_client:
  assumes "se_bridgeMode (en_settings E) = ''local''" and "m_process K = Some p" and "en_wait E \<noteq> 0"
    and "se_bridgeJar (en_settings E) \<noteq> []" and "se_ghidraHome (en_settings E) \<noteq> []"
    and "os_pipe (en_posix E) = Inl e" and "m_serverConnected K"
  shows "\<exists>K'. connectToServer J E send host port user password K = (Inr (Some (''pipe() failed: '' @ e)), K') \<and>
    m_serverConnected K' \<and> m_client K' = None \<and> m_process K' = None"
proof -
  have dead: "\<not> isBridgeConnected E K" "\<not> process_isRunning (en_wait E) p"
    using assms(1-3) by (auto simp: isBridgeConnected_def process_isRunning_def split: option.split)
  have start: "fst (process_start je jar home ta (en_posix E) new_process) = Inr (Some (''pipe() failed: '' @ e))" for je jar home ta
    using assms(6) by (simp add: process_start_def Let_def split: prod.split)
  have "spawn_bridge J E jar home (K\<lparr>m_client := None, m_process := None\<rparr>) =
      (Inr (Some (''pipe() failed: '' @ e)), K\<lparr>m_client := None, m_process := None\<rparr>)" for jar home
    using start [of "se_javaExe (en_settings E)" jar home "se_trustAll (en_settings E)"]
    by (auto simp: spawn_bridge_def split: prod.split)
  then have "startLocalBridge J E K = (Inr (Some (''pipe() failed: '' @ e)), K\<lparr>m_client := None, m_process := None\<rparr>)"
    using dead assms by (simp add: startLocalBridge_def Let_def split: option.split)
  then show ?thesis
    using dead assms(1,7) by (simp add: connectToServer_def connectBridge_def)
qed

definition broken_env :: conn_env where
  "broken_env = sample_env\<lparr>en_wait := 77, en_posix := (en_posix sample_env)\<lparr>os_pipe := Inl ''EMFILE''\<rparr>\<rparr>"

theorem failed_reconnect_drops_client_witness:
  "\<exists>K'. connectToServer tree_json broken_env (\<lambda>_ _. Inl []) ''srv'' 13100 ''ann'' ''pw'' sample_session =
      (Inr (Some ''pipe() failed: EMFILE''), K') \<and> m_serverConnected K' \<and> m_client K' = None \<and> m_process K' = None"
proof -
  have facts: "m_process sample_session \<noteq> None" "m_serverConnected sample_session"
    by code_simp+
  then obtain p where "m_process sample_session = Some p" by blast
  then show ?thesis
    using failed_reconnect_drops_client [of broken_env sample_session p "''EMFILE''" tree_json "\<lambda>_ _. Inl []"
        "''srv''" 13100 "''ann''" "''pw''"] facts(2)
    by (simp add: broken_env_def sample_env_def)
qed

text \<open>
  Disconnecting the bridge leaves nothing behind: no client, no child process, no session, and it
  tells the server goodbye exactly when there was a session to end.
\<close>

theorem disconnect_leaves_nothing:
  "let (sent, K') = disconnectBridge J K in
     m_client K' = None \<and> m_process K' = None \<and> session_of K' = no_session \<and> \<not> isBridgeConnected E K' \<and>
     (sent \<noteq> [] \<longleftrightarrow> m_client K \<noteq> None \<and> m_serverConnected K)"
  using close_session [of J K]
  by (auto simp: disconnectBridge_def disconnectFromServer_def isBridgeConnected_def Let_def)

text \<open>
  Listing reads back what the bridge lists. When the bridge answers with the objects of a list of
  items, or of checkouts, the operation returns exactly that list, in order, with no error.
\<close>

theorem listing_roundtrip:
  assumes "json_library J"
    and "\<And>req t. send req t = Inr (ok_response J ''items'' (jl_array J (map (item_json J) items)))"
    and "\<And>req t. send' req t = Inr (ok_response J ''checkouts'' (jl_array J (map (checkout_json J) cos)))"
  shows "listItems J send repo folder = Inr items \<and> getCheckouts J send' repo folder item = Inr cos"
  by (simp add: listItems_def getCheckouts_def json_library.bridge_op_ok [OF assms(1), where send = send, OF assms(2)]
      json_library.bridge_op_ok [OF assms(1), where send = send', OF assms(3)]
      json_library.decode_array_ok [OF assms(1)] json_library.item_decodes [OF assms(1)]
      json_library.checkout_decodes [OF assms(1)])

definition sample_item :: RepoItem where
  "sample_item = \<lparr>ri_name = ''a.exe'', ri_parentPath = ''/'', ri_path = ''/a.exe'', ri_fileId = ''f1'', ri_itemType = 0,
     ri_contentType = ''Program'', ri_version = 3, ri_versionTime = 1700000000\<rparr>"

theorem listing_roundtrip_witness:
  "listItems tree_json (\<lambda>_ _. Inr (ok_response tree_json ''items'' (jl_array tree_json (map (item_json tree_json) [sample_item]))))
     ''r'' ''/'' = Inr [sample_item]"
  using listing_roundtrip [OF tree_laws, where items = "[sample_item]" and cos = "[]",
      where send = "\<lambda>_ _. Inr (ok_response tree_json ''items'' (jl_array tree_json (map (item_json tree_json) [sample_item])))"
        and send' = "\<lambda>_ _. Inr (ok_response tree_json ''checkouts'' (jl_array tree_json (map (checkout_json tree_json) [])))"]
  by blast

text \<open>
  Binaries survive the transfer. When decoding undoes encoding, the data of an upload request
  decodes to the bytes given, the request carries the user, host, port and password of the session,
  and a download returns the files the bridge encoded, byte for byte.
\<close>

theorem binary_transfer_roundtrip:
  assumes "json_library J" and "\<And>b. fromBase64 (toBase64 b) = b"
    and "\<And>req t. send req t = Inr (ok_response J ''files'' (jl_array J (map (file_json J toBase64) files)))"
  shows "downloadBinary J fromBase64 send repo folder item version = Inr files \<and>
    (let req = upload_request J toBase64 K repo folder item bytes comment keep analysis in
       res_bind (jl_value_string J req ''data'' []) (\<lambda>d. Inr (fromBase64 d)) = Inr bytes \<and>
       jl_value_string J req ''user'' [] = Inr (m_user K) \<and> jl_value_string J req ''host'' [] = Inr (m_host K) \<and>
       jl_value_int J req ''port'' 0 = Inr (m_port K) \<and> jl_value_string J req ''password'' [] = Inr (m_password K))"
proof
  have "binary_file J fromBase64 (file_json J toBase64 f) = Inr f" for f
    using assms(1) by (rule json_library.file_decodes) (rule assms(2))
  then show "downloadBinary J fromBase64 send repo folder item version = Inr files"
    by (simp add: downloadBinary_def json_library.bridge_op_ok [OF assms(1), where send = send, OF assms(3)]
        json_library.decode_array_ok [OF assms(1)])
qed (simp add: json_library.upload_reads [OF assms(1) refl] assms(2))

definition sample_file :: BinaryFile where
  "sample_file = \<lparr>bf_filename = ''a.exe'', bf_bytes = ''MZ''\<rparr>"

theorem binary_transfer_roundtrip_witness:
  "downloadBinary tree_json rev (\<lambda>_ _. Inr (ok_response tree_json ''files''
      (jl_array tree_json (map (file_json tree_json rev) [sample_file])))) ''r'' ''/'' ''a.exe'' (- 1) = Inr [sample_file]"
  using binary_transfer_roundtrip [OF tree_laws, of rev rev "\<lambda>_ _. Inr (ok_response tree_json ''files''
      (jl_array tree_json (map (file_json tree_json rev) [sample_file])))" "[sample_file]"]
  by simp

text \<open>
  The search for a Ghidra installation looks at the plugin's directory and at most its two parents,
  nearest first, and takes the first entry there whose name is that of a public release.
\<close>

theorem home_detection_bounded:
  "ghidra_home_loop listing 3 dir =
     (case List.map_filter (\<lambda>a. map_option (\<lambda>name. a @ ''/'' @ name) (Option.bind (listing a) (find is_ghidra_dir)))
             (ancestors 3 dir)
      of [] \<Rightarrow> None | home # _ \<Rightarrow> Some home) \<and>
   length (ancestors 3 dir) \<le> 3 \<and> list_all (\<lambda>a. a = take (length a) dir) (ancestors 3 dir)"
  using ancestors_length [of 3 dir] ancestors_prefix [of _ 3 dir]
  by (simp only: home_loop_ancestors list_all_iff simp_thms) blast

end
