(* ===== verification/Panel.thy ===== *)
theory Panel
  imports Connection Import
begin

text \<open>
  The state the project panel (\<open>ProjectPanel.cpp\<close>) keeps and the operations that change it: the link
  of the open view to a Ghidra item, stored as metadata in the Binary Ninja project and in the
  database of the view, and the flag that says whether the item is checked out. Projects, views and
  their metadata stores are Binary Ninja's; an operation of the panel is a function on them. The work
  a handler gives to a worker thread and the callback it posts back to the user interface thread are
  two definitions, since other handlers run between them. Widgets and log lines are left out.
\<close>

section \<open>Metadata, projects and views\<close>

text \<open>\<open>BinaryNinja::Metadata\<close> by the types the panel tests for\<close>

datatype metadata = MetaString string | MetaUInt u64 | MetaStore "(string \<times> metadata) list" | MetaOther

type_synonym meta_store = "(string, metadata) umap"

record project_file =
  pf_id :: string
  pf_name :: string
  pf_path :: string

record bn_project =
  pj_files :: "project_file list"
  pj_meta :: meta_store

text \<open>
  A view: its project and the id of its project file (\<open>GetProjectFile\<close>), its file name, its metadata and which of its
  keys were stored as automatic
\<close>

record panel_view =
  vw_projectFile :: "(nat \<times> string) option"
  vw_filename :: string
  vw_meta :: meta_store
  vw_autoKeys :: "string set"

record GhidraLink =
  gl_host :: string
  gl_user :: string
  gl_repo :: string
  gl_folder :: string
  gl_item :: string
  gl_port :: i32

definition no_link :: GhidraLink where
  "no_link = \<lparr>gl_host = [], gl_user = [], gl_repo = [], gl_folder = [], gl_item = [], gl_port = 0\<rparr>"

definition link_valid :: "GhidraLink \<Rightarrow> bool" where
  "link_valid l \<longleftrightarrow> gl_host l \<noteq> [] \<and> gl_item l \<noteq> []"

text \<open>Projects and views are numbered; \<open>pn_contextProject\<close> is the project of the active \<open>UIContext\<close>.\<close>

record panel =
  pn_project :: "nat \<Rightarrow> bn_project"
  pn_view :: "nat \<Rightarrow> panel_view"
  pn_contextProject :: "nat option"
  m_currentView :: "nat option"
  m_linkedGhidra :: GhidraLink
  m_checkedOut :: bool

definition projectForView :: "panel \<Rightarrow> nat option \<Rightarrow> nat option" where
  "projectForView P view = Option.bind view (\<lambda>v. map_option fst (vw_projectFile (pn_view P v)))"

definition projectFileId :: "panel \<Rightarrow> nat option \<Rightarrow> string" where
  "projectFileId P view =
     (case Option.bind view (\<lambda>v. vw_projectFile (pn_view P v)) of None \<Rightarrow> [] | Some (p, fid) \<Rightarrow> fid)"

definition currentOpenProject :: "panel \<Rightarrow> nat option \<Rightarrow> nat option" where
  "currentOpenProject P view =
     (case projectForView P view of Some p \<Rightarrow> Some p | None \<Rightarrow> pn_contextProject P)"

definition project_meta :: "panel \<Rightarrow> nat \<Rightarrow> string \<Rightarrow> metadata option" where
  "project_meta P p key = map_of (pj_meta (pn_project P p)) key"

definition change_project_meta :: "nat \<Rightarrow> (meta_store \<Rightarrow> meta_store) \<Rightarrow> panel \<Rightarrow> panel" where
  "change_project_meta p f P =
     P\<lparr>pn_project := (pn_project P)(p := (pn_project P p)\<lparr>pj_meta := f (pj_meta (pn_project P p))\<rparr>)\<rparr>"

definition change_view_meta :: "nat \<Rightarrow> (meta_store \<Rightarrow> meta_store) \<Rightarrow> panel \<Rightarrow> panel" where
  "change_view_meta v f P =
     P\<lparr>pn_view := (pn_view P)(v := (pn_view P v)\<lparr>vw_meta := f (vw_meta (pn_view P v))\<rparr>)\<rparr>"

text \<open>\<open>BinaryView::StoreMetadata\<close>\<close>

definition store_view_meta :: "nat \<Rightarrow> string \<Rightarrow> metadata \<Rightarrow> bool \<Rightarrow> panel \<Rightarrow> panel" where
  "store_view_meta v key md isAuto P =
     (let P = change_view_meta v (AList.update key md) P; V = pn_view P v in
      P\<lparr>pn_view := (pn_view P)(v := V\<lparr>vw_autoKeys := (if isAuto then insert key (vw_autoKeys V) else vw_autoKeys V - {key})\<rparr>)\<rparr>)"

text \<open>The readers of a key-value store, with their defaults\<close>

definition kvStr :: "meta_store \<Rightarrow> string \<Rightarrow> string" where
  "kvStr kv k = (case map_of kv k of Some (MetaString s) \<Rightarrow> s | _ \<Rightarrow> [])"

definition kvUInt :: "meta_store \<Rightarrow> string \<Rightarrow> u64" where
  "kvUInt kv k = (case map_of kv k of Some (MetaUInt n) \<Rightarrow> n | _ \<Rightarrow> 0)"

definition kvInt :: "meta_store \<Rightarrow> string \<Rightarrow> i32" where
  "kvInt kv k = ucast (kvUInt kv k)"

fun key_value_store :: "metadata option \<Rightarrow> meta_store option" where
  "key_value_store (Some (MetaStore kv)) = Some kv"
| "key_value_store _ = None"

definition file_key :: "string \<Rightarrow> string" where
  "file_key fid = ''ghidra.link.'' @ fid"

definition file_link :: "panel \<Rightarrow> nat \<Rightarrow> string \<Rightarrow> meta_store option" where
  "file_link P p fid = key_value_store (project_meta P p (file_key fid))"

text \<open>The stores the panel writes; the port is cast from \<open>int\<close> to \<open>uint64_t\<close>.\<close>

definition server_store :: "string \<Rightarrow> u64 \<Rightarrow> string \<Rightarrow> metadata" where
  "server_store host port user =
     MetaStore [(''host'', MetaString host), (''port'', MetaUInt port), (''user'', MetaString user)]"

definition link_store :: "string \<Rightarrow> string \<Rightarrow> string \<Rightarrow> metadata" where
  "link_store repo folder item =
     MetaStore [(''repo'', MetaString repo), (''folder'', MetaString folder), (''item'', MetaString item)]"

definition checked_link_store :: "string \<Rightarrow> string \<Rightarrow> string \<Rightarrow> bool \<Rightarrow> metadata" where
  "checked_link_store repo folder item out =
     MetaStore [(''repo'', MetaString repo), (''folder'', MetaString folder), (''item'', MetaString item),
       (''checked_out'', MetaUInt (if out then 1 else 0))]"

definition bndb_store :: "string \<Rightarrow> u64 \<Rightarrow> string \<Rightarrow> string \<Rightarrow> string \<Rightarrow> string \<Rightarrow> metadata" where
  "bndb_store host port user repo folder item =
     MetaStore [(''host'', MetaString host), (''port'', MetaUInt port), (''user'', MetaString user),
       (''repo'', MetaString repo), (''folder'', MetaString folder), (''item'', MetaString item)]"

definition store_server_if_missing :: "nat \<Rightarrow> string \<Rightarrow> u64 \<Rightarrow> string \<Rightarrow> panel \<Rightarrow> panel" where
  "store_server_if_missing p host port user P =
     (if project_meta P p ''ghidra.server'' = None
      then change_project_meta p (AList.update ''ghidra.server'' (server_store host port user)) P else P)"

section \<open>The open view and its link\<close>

definition migrateStandaloneMetadata :: "panel \<Rightarrow> panel" where
  "migrateStandaloneMetadata P =
     (case m_currentView P of
        None \<Rightarrow> P
      | Some v \<Rightarrow>
          let fileId = projectFileId P (Some v) in
          case projectForView P (Some v) of
            None \<Rightarrow> P
          | Some p \<Rightarrow>
              if fileId = [] \<or> project_meta P p (file_key fileId) \<noteq> None then P
              else case key_value_store (map_of (vw_meta (pn_view P v)) ''ghidra.link'') of
                None \<Rightarrow> P
              | Some kv \<Rightarrow>
                  change_project_meta p
                    (AList.update (file_key fileId) (link_store (kvStr kv ''repo'') (kvStr kv ''folder'') (kvStr kv ''item'')))
                    (store_server_if_missing p (kvStr kv ''host'') (kvUInt kv ''port'') (kvStr kv ''user'') P))"

text \<open>The link and the flag from the project, if it has both entries\<close>

definition link_from_project :: "nat \<Rightarrow> panel \<Rightarrow> panel" where
  "link_from_project v P =
     (let fileId = projectFileId P (Some v) in
      case projectForView P (Some v) of
        None \<Rightarrow> P
      | Some p \<Rightarrow>
          if fileId = [] then P
          else case (key_value_store (project_meta P p ''ghidra.server''), file_link P p fileId) of
            (Some skv, Some ikv) \<Rightarrow>
              P\<lparr>m_linkedGhidra :=
                  \<lparr>gl_host = kvStr skv ''host'', gl_user = kvStr skv ''user'', gl_repo = kvStr ikv ''repo'',
                   gl_folder = kvStr ikv ''folder'', gl_item = kvStr ikv ''item'', gl_port = kvInt skv ''port''\<rparr>,
                m_checkedOut := kvInt ikv ''checked_out'' \<noteq> 0\<rparr>
          | _ \<Rightarrow> P)"

definition link_from_view :: "nat \<Rightarrow> panel \<Rightarrow> panel" where
  "link_from_view v P =
     (if link_valid (m_linkedGhidra P) then P
      else case key_value_store (map_of (vw_meta (pn_view P v)) ''ghidra.link'') of
        None \<Rightarrow> P
      | Some kv \<Rightarrow>
          migrateStandaloneMetadata
            (P\<lparr>m_linkedGhidra :=
                \<lparr>gl_host = kvStr kv ''host'', gl_user = kvStr kv ''user'', gl_repo = kvStr kv ''repo'',
                 gl_folder = kvStr kv ''folder'', gl_item = kvStr kv ''item'', gl_port = kvInt kv ''port''\<rparr>\<rparr>))"

definition notifyViewChanged :: "nat option \<Rightarrow> panel \<Rightarrow> panel" where
  "notifyViewChanged view P =
     (let P = P\<lparr>m_currentView := view, m_linkedGhidra := no_link\<rparr> in
      case view of None \<Rightarrow> P | Some v \<Rightarrow> link_from_view v (link_from_project v P))"

definition persistCheckedOutState :: "bool \<Rightarrow> panel \<Rightarrow> panel" where
  "persistCheckedOutState val P =
     (let P = P\<lparr>m_checkedOut := val\<rparr>; fileId = projectFileId P (m_currentView P) in
      case projectForView P (m_currentView P) of
        None \<Rightarrow> P
      | Some p \<Rightarrow>
          if fileId = [] then P
          else case file_link P p fileId of
            None \<Rightarrow> P
          | Some ikv \<Rightarrow>
              change_project_meta p
                (AList.update (file_key fileId)
                  (MetaStore (AList.update ''checked_out'' (MetaUInt (if val then 1 else 0)) ikv))) P)"

text \<open>The banner is shown for a valid link to a server the connection is not connected to.\<close>

definition link_banner_shown :: "ghidra_conn \<Rightarrow> panel \<Rightarrow> bool" where
  "link_banner_shown K P \<longleftrightarrow>
     link_valid (m_linkedGhidra P) \<and>
     \<not> (m_serverConnected K \<and> m_host K = gl_host (m_linkedGhidra P) \<and> m_port K = gl_port (m_linkedGhidra P) \<and>
        m_user K = gl_user (m_linkedGhidra P))"

text \<open>Whether the context menu of an item offers ``Check In'' rather than ``Check Out''\<close>

definition linkedHere :: "panel \<Rightarrow> string \<Rightarrow> string \<Rightarrow> string \<Rightarrow> bool" where
  "linkedHere P repo folder name \<longleftrightarrow>
     link_valid (m_linkedGhidra P) \<and> gl_repo (m_linkedGhidra P) = repo \<and> gl_folder (m_linkedGhidra P) = folder \<and>
     gl_item (m_linkedGhidra P) = name"

definition effectivelyCheckedOut :: "checkin_state \<Rightarrow> panel \<Rightarrow> string \<Rightarrow> string \<Rightarrow> string \<Rightarrow> bool" where
  "effectivelyCheckedOut S P repo folder name \<longleftrightarrow>
     isCheckinItem S repo folder name \<or> (linkedHere P repo folder name \<and> m_checkedOut P)"

end
