(* ===== verification/Upload_Text.thy ===== *)
theory Upload_Text
  imports Lines
begin

text \<open>
  The annotations that travel with an upload: \<open>ProjectPanel::uploadToGhidra\<close> writes one line per
  function and per comment, and the script \<open>BinjaSyncScript\<close>, which the bridge hands to Ghidra
  (\<open>BINJA_SYNC_SCRIPT\<close> in \<open>BridgeConnection.java\<close>), reads them back. Both sides are modelled on UTF-8
  bytes: the writer with \<open>QString::replace\<close> and \<open>QString::arg\<close> as documented (\<open>arg\<close> replaces every
  occurrence of the lowest numbered place marker), the reader with \<open>readLine\<close>, \<open>split\<close>,
  \<open>String.replace\<close> and \<open>Long.parseUnsignedLong\<close>. The reader's result is the list of annotations it
  hands to Ghidra's API.
\<close>

section \<open>Strings\<close>

definition tab :: char where
  "tab = char_of (9 :: nat)"

definition backslash :: char where
  "backslash = CHR 0x5C"

definition nul :: char where
  "nul = char_of (0 :: nat)"

lemma special_chars [simp]:
  "tab \<noteq> newline" "tab \<noteq> backslash" "newline \<noteq> backslash" "nul \<noteq> newline" "nul \<noteq> tab" "nul \<noteq> backslash"
  "carriage_return \<noteq> tab" "carriage_return \<noteq> newline" "carriage_return \<noteq> backslash"
  "backslash \<noteq> CHR ''t''" "backslash \<noteq> CHR ''n''" "nul \<noteq> CHR ''t''" "nul \<noteq> CHR ''n''" "tab \<noteq> CHR ''t''"
  "tab \<noteq> CHR ''n''" "newline \<noteq> CHR ''t''" "newline \<noteq> CHR ''n''" "carriage_return \<noteq> CHR ''t''"
  "carriage_return \<noteq> CHR ''n''" "carriage_return \<noteq> CHR ''C''" "carriage_return \<noteq> CHR ''F''"
  "newline \<noteq> CHR ''C''" "newline \<noteq> CHR ''F''" "tab \<noteq> CHR ''C''" "tab \<noteq> CHR ''F''" "tab \<noteq> CHR ''%''" "newline \<noteq> CHR ''%''"
  "tab \<noteq> CHR ''0''" "tab \<noteq> CHR ''x''" "newline \<noteq> CHR ''0''" "newline \<noteq> CHR ''x''"
  "carriage_return \<noteq> CHR ''0''" "carriage_return \<noteq> CHR ''x''"
  by code_simp+

lemmas special_chars_sym [simp] = special_chars [THEN not_sym]

text \<open>Replacing a character, and Java's replacement of a text of two characters from left to right\<close>

definition replace_char :: "char \<Rightarrow> string \<Rightarrow> string \<Rightarrow> string" where
  "replace_char c r s = concat (map (\<lambda>d. if d = c then r else [d]) s)"

fun replace_pair :: "char \<Rightarrow> char \<Rightarrow> string \<Rightarrow> string \<Rightarrow> string" where
  "replace_pair a b r (x # y # xs) =
     (if x = a \<and> y = b then r @ replace_pair a b r xs else x # replace_pair a b r (y # xs))"
| "replace_pair a b r [x] = [x]"
| "replace_pair a b r [] = []"

section \<open>QString::arg\<close>

text \<open>A format as characters and place markers: \<open>%\<close>, an optional \<open>L\<close>, and one or two digits\<close>

datatype format_piece = Literal char | Marker nat string

definition marker_at :: "string \<Rightarrow> (nat \<times> nat) option" where
  "marker_at s =
     (let k = (if s \<noteq> [] \<and> hd s = CHR ''L'' then 1 else 0);
          ds = takeWhile is_dec_digit (take 2 (drop k s))
      in if ds = [] then None else Some (digits_val 10 ds, k + length ds))"

function format_pieces :: "string \<Rightarrow> format_piece list" where
  "format_pieces [] = []"
| "format_pieces (c # s) =
     (case (if c = CHR ''%'' then marker_at s else None) of
        None \<Rightarrow> Literal c # format_pieces s
      | Some (n, len) \<Rightarrow> Marker n (c # take len s) # format_pieces (drop len s))"
  by pat_completeness auto
termination by (relation "measure length") auto

declare format_pieces.simps(2) [simp del]

definition marker_numbers :: "format_piece list \<Rightarrow> nat list" where
  "marker_numbers ps = concat (map (\<lambda>p. case p of Literal c \<Rightarrow> [] | Marker n t \<Rightarrow> [n]) ps)"

definition qstring_arg :: "string \<Rightarrow> string \<Rightarrow> string" where
  "qstring_arg fmt a =
     (let ps = format_pieces fmt; ns = marker_numbers ps in
      if ns = [] then fmt
      else concat (map (\<lambda>p. case p of Literal c \<Rightarrow> [c] | Marker n t \<Rightarrow> if n = fold min (tl ns) (hd ns) then a else t) ps))"

section \<open>The writer\<close>

text \<open>A function of the view: \<open>GetStart()\<close>, the raw name of its symbol and its comment\<close>

record upload_function =
  uf_start :: u64
  uf_rawName :: string
  uf_comment :: string

record upload_view =
  uv_functions :: "upload_function list"
  uv_commentedAddresses :: "u64 list"
  uv_commentForAddress :: "u64 \<Rightarrow> string"

definition upload_escape :: "string \<Rightarrow> string" where
  "upload_escape s =
     replace_char newline [backslash, CHR ''n'']
       (replace_char tab [backslash, CHR ''t''] (replace_char backslash [backslash, backslash] s))"

definition is_default_name :: "string \<Rightarrow> bool" where
  "is_default_name name \<longleftrightarrow>
     take 4 name = ''sub_'' \<or> take 4 name = ''FUN_'' \<or> take 2 name = ''j_'' \<or> name = []"

definition function_format :: string where
  "function_format = ''F'' @ [tab] @ ''0x%1'' @ [tab] @ ''%2'' @ [tab] @ ''%3'' @ [newline]"

definition comment_format :: string where
  "comment_format = ''C'' @ [tab] @ ''0x%1'' @ [tab] @ ''%2'' @ [newline]"

definition function_line :: "upload_function \<Rightarrow> string" where
  "function_line f =
     qstring_arg
       (qstring_arg (qstring_arg function_format (hex_digits (unat (uf_start f))))
         (upload_escape (if is_default_name (uf_rawName f) then [] else uf_rawName f)))
       (upload_escape (uf_comment f))"

definition comment_line :: "upload_view \<Rightarrow> u64 \<Rightarrow> string" where
  "comment_line V addr =
     (let text = uv_commentForAddress V addr in
      if text = [] then []
      else qstring_arg (qstring_arg comment_format (hex_digits (unat addr))) (upload_escape text))"

definition upload_analysis :: "upload_view option \<Rightarrow> string" where
  "upload_analysis view =
     (case view of
        None \<Rightarrow> []
      | Some V \<Rightarrow>
          concat (map function_line (uv_functions V)) @ concat (map (comment_line V) (uv_commentedAddresses V)))"

section \<open>The reader\<close>

datatype annotation = AnnotateFunction u64 string string | AnnotateComment u64 string

text \<open>\<open>BufferedReader.readLine\<close>: a line ends at a newline, a carriage return or both\<close>

function read_lines :: "string \<Rightarrow> string \<Rightarrow> string list" where
  "read_lines acc [] = (if acc = [] then [] else [acc])"
| "read_lines acc (c # s) =
     (if c = newline then acc # read_lines [] s
      else if c = carriage_return then acc # read_lines [] (if s \<noteq> [] \<and> hd s = newline then tl s else s)
      else read_lines (acc @ [c]) s)"
  by pat_completeness auto
termination by (relation "measure (\<lambda>(acc, s). length s)") auto

fun split_on :: "char \<Rightarrow> string \<Rightarrow> string list" where
  "split_on d [] = [[]]"
| "split_on d (c # s) =
     (if c = d then [] # split_on d s
      else case split_on d s of [] \<Rightarrow> [[c]] | f # fs \<Rightarrow> (c # f) # fs)"

definition parseUnsignedLong16 :: "string \<Rightarrow> u64 option" where
  "parseUnsignedLong16 s =
     (let ds = (if s \<noteq> [] \<and> hd s = CHR ''+'' then tl s else s) in
      if ds = [] \<or> \<not> list_all is_hex_digit ds \<or> digits_val 16 ds \<ge> 2 ^ 64 then None
      else Some (of_nat (digits_val 16 ds)))"

definition unescape :: "string \<Rightarrow> string" where
  "unescape s =
     replace_char nul [backslash]
       (replace_pair backslash (CHR ''t'') [tab]
         (replace_pair backslash (CHR ''n'') [newline] (replace_pair backslash backslash [nul] s)))"

definition read_annotation :: "string \<Rightarrow> annotation option" where
  "read_annotation line =
     (let p = split_on tab line in
      if line = [] \<or> length p < 2 then None
      else case parseUnsignedLong16 (if take 2 (p ! 1) = ''0x'' then drop 2 (p ! 1) else p ! 1) of
        None \<Rightarrow> None
      | Some addr \<Rightarrow>
          if p ! 0 = ''F'' \<and> length p \<ge> 4 then Some (AnnotateFunction addr (unescape (p ! 2)) (unescape (p ! 3)))
          else if p ! 0 = ''C'' \<and> length p \<ge> 3 \<and> unescape (p ! 2) \<noteq> []
          then Some (AnnotateComment addr (unescape (p ! 2)))
          else None)"

definition read_annotations :: "string \<Rightarrow> annotation list" where
  "read_annotations text = List.map_filter read_annotation (read_lines [] text)"

section \<open>Escaping\<close>

lemma replace_pair_skip: "x \<noteq> a \<Longrightarrow> replace_pair a b r (x # xs) = x # replace_pair a b r xs"
  by (cases xs) simp_all

lemma replace_pair_other: "y \<noteq> b \<Longrightarrow> replace_pair a b r (a # y # xs) = a # replace_pair a b r (y # xs)"
  by simp

definition escape_char :: "char \<Rightarrow> string" where
  "escape_char c =
     (if c = backslash then [backslash, backslash] else if c = tab then [backslash, CHR ''t'']
      else if c = newline then [backslash, CHR ''n''] else [c])"

lemma upload_escape_eq: "upload_escape s = concat (map escape_char s)"
  by (induction s) (simp_all add: upload_escape_def replace_char_def escape_char_def)

lemma unescape_escape:
  assumes "nul \<notin> set s"
  shows "unescape (upload_escape s) = s"
proof -
  have 1: "replace_pair backslash backslash [nul] (concat (map escape_char s)) =
      concat (map (\<lambda>c. if c = backslash then [nul] else escape_char c) s)"
    by (induction s) (simp_all add: escape_char_def replace_pair_skip replace_pair_other)
  have 2: "replace_pair backslash (CHR ''n'') [newline] (concat (map (\<lambda>c. if c = backslash then [nul] else escape_char c) s)) =
      concat (map (\<lambda>c. if c = backslash then [nul] else if c = tab then [backslash, CHR ''t''] else [c]) s)"
    by (induction s) (simp_all add: escape_char_def replace_pair_skip replace_pair_other)
  have 3: "replace_pair backslash (CHR ''t'') [tab]
      (concat (map (\<lambda>c. if c = backslash then [nul] else if c = tab then [backslash, CHR ''t''] else [c]) s)) =
      map (\<lambda>c. if c = backslash then nul else c) s"
    by (induction s) (simp_all add: replace_pair_skip)
  have 4: "replace_char nul [backslash] (map (\<lambda>c. if c = backslash then nul else c) s) = s"
    using assms by (induction s) (auto simp: replace_char_def)
  show ?thesis by (simp add: unescape_def upload_escape_eq 1 2 3 4)
qed

lemma upload_escape_chars: "tab \<notin> set (upload_escape s)" "newline \<notin> set (upload_escape s)"
  by (auto simp: upload_escape_eq escape_char_def split: if_splits)

lemma upload_escape_no_return: "carriage_return \<notin> set s \<Longrightarrow> carriage_return \<notin> set (upload_escape s)"
  by (auto simp: upload_escape_eq escape_char_def split: if_splits)

lemma upload_escape_append: "upload_escape (s @ t) = upload_escape s @ upload_escape t"
  by (simp add: upload_escape_eq)

lemma upload_escape_return: "upload_escape (carriage_return # s) = carriage_return # upload_escape s"
  by (simp add: upload_escape_eq escape_char_def)

section \<open>Formats\<close>

lemma format_pieces_plain:
  "CHR ''%'' \<notin> set xs \<Longrightarrow> format_pieces (xs @ ys) = map Literal xs @ format_pieces ys"
  by (induction xs) (auto simp: format_pieces.simps)

lemma marker_numbers_simps [simp]:
  "marker_numbers [] = []" "marker_numbers (Literal c # ps) = marker_numbers ps"
  "marker_numbers (Marker n t # ps) = n # marker_numbers ps"
  "marker_numbers (map Literal xs) = []" "marker_numbers (ps @ qs) = marker_numbers ps @ marker_numbers qs"
  by (simp_all add: marker_numbers_def comp_def)

lemma hex_digit_plain: "is_hex_digit c \<Longrightarrow> c \<noteq> CHR ''%'' \<and> c \<noteq> tab \<and> c \<noteq> newline \<and> c \<noteq> carriage_return \<and> c \<noteq> CHR ''+''"
  by (auto simp: is_hex_digit_def char_code_def tab_def newline_def carriage_return_def)

lemma hex_digits_plain:
  "CHR ''%'' \<notin> set (hex_digits n)" "tab \<notin> set (hex_digits n)" "newline \<notin> set (hex_digits n)"
  "carriage_return \<notin> set (hex_digits n)" "CHR ''+'' \<notin> set (hex_digits n)"
  using hex_digits_all [of n] hex_digit_plain by (auto simp: list_all_iff)

lemma marker_at_tab:
  "marker_at (CHR ''1'' # tab # s) = Some (1, 1)" "marker_at (CHR ''2'' # tab # s) = Some (2, 1)"
  "marker_at (CHR ''3'' # newline # s) = Some (3, 1)" "marker_at (CHR ''2'' # newline # s) = Some (2, 1)"
  by (simp_all add: marker_at_def is_dec_digit_def tab_def newline_def char_code_def digits_val_def digit_val_def numeral_2_eq_2)

lemma format_marker:
  "marker_at s = Some (n, len) \<Longrightarrow>
   format_pieces (CHR ''%'' # s) = Marker n (CHR ''%'' # take len s) # format_pieces (drop len s)"
  by (simp add: format_pieces.simps)

lemma format_literal: "c \<noteq> CHR ''%'' \<Longrightarrow> format_pieces (c # s) = Literal c # format_pieces s"
  by (simp add: format_pieces.simps)

lemmas format_eval = format_marker [OF marker_at_tab(1)] format_marker [OF marker_at_tab(2)]
  format_marker [OF marker_at_tab(3)] format_marker [OF marker_at_tab(4)] format_literal

lemma concat_literals: "concat (map (\<lambda>p. case p of Literal c \<Rightarrow> [c] | Marker n t \<Rightarrow> f n t) (map Literal xs)) = xs"
  by (induction xs) simp_all

lemma concat_literals' [simp]: "concat (map ((\<lambda>p. case p of Literal c \<Rightarrow> [c] | Marker n t \<Rightarrow> f n t) \<circ> Literal) xs) = xs"
  by (induction xs) simp_all

lemma function_line_eq:
  assumes "CHR ''%'' \<notin> set (uf_rawName f)"
  shows "function_line f =
     (CHR ''F'' # tab # print_hex (uf_start f) @ tab #
      upload_escape (if is_default_name (uf_rawName f) then [] else uf_rawName f) @ tab #
      upload_escape (uf_comment f)) @ [newline]"
proof -
  define h where "h = hex_digits (unat (uf_start f))"
  define n where "n = upload_escape (if is_default_name (uf_rawName f) then [] else uf_rawName f)"
  have h: "CHR ''%'' \<notin> set h" by (simp add: h_def hex_digits_plain)
  have n: "CHR ''%'' \<notin> set n"
    using assms by (auto simp: n_def upload_escape_eq escape_char_def split: if_splits) (simp_all add: backslash_def)
  have 1: "qstring_arg function_format h = (CHR ''F'' # tab # CHR ''0'' # CHR ''x'' # h @ [tab]) @ ''%2'' @ [tab] @ ''%3'' @ [newline]"
    by (simp add: qstring_arg_def function_format_def format_eval Let_def)
  have 2: "qstring_arg ((CHR ''F'' # tab # CHR ''0'' # CHR ''x'' # h @ [tab]) @ ''%2'' @ [tab] @ ''%3'' @ [newline]) n =
      (CHR ''F'' # tab # CHR ''0'' # CHR ''x'' # h @ tab # n @ [tab]) @ ''%3'' @ [newline]"
    using h by (subst qstring_arg_def, subst format_pieces_plain) (simp_all add: format_eval Let_def)
  have 3: "qstring_arg ((CHR ''F'' # tab # CHR ''0'' # CHR ''x'' # h @ tab # n @ [tab]) @ ''%3'' @ [newline]) c =
      (CHR ''F'' # tab # CHR ''0'' # CHR ''x'' # h @ tab # n @ [tab]) @ c @ [newline]" for c
    using h n by (subst qstring_arg_def, subst format_pieces_plain) (simp_all add: format_eval Let_def)
  show ?thesis
    unfolding function_line_def h_def [symmetric] n_def [symmetric] 1 2 3
    by (simp add: print_hex_def h_def)
qed

lemma comment_line_eq:
  "comment_line V a =
     (if uv_commentForAddress V a = [] then []
      else (CHR ''C'' # tab # print_hex a @ tab # upload_escape (uv_commentForAddress V a)) @ [newline])"
proof -
  define h where "h = hex_digits (unat a)"
  have h: "CHR ''%'' \<notin> set h" by (simp add: h_def hex_digits_plain)
  have 1: "qstring_arg comment_format h = (CHR ''C'' # tab # CHR ''0'' # CHR ''x'' # h @ [tab]) @ ''%2'' @ [newline]"
    by (simp add: qstring_arg_def comment_format_def format_eval Let_def)
  have 2: "qstring_arg ((CHR ''C'' # tab # CHR ''0'' # CHR ''x'' # h @ [tab]) @ ''%2'' @ [newline]) c =
      (CHR ''C'' # tab # CHR ''0'' # CHR ''x'' # h @ [tab]) @ c @ [newline]" for c
    using h by (subst qstring_arg_def, subst format_pieces_plain) (simp_all add: format_eval Let_def)
  show ?thesis
    unfolding comment_line_def h_def [symmetric] 1 2 by (simp add: print_hex_def h_def)
qed

section \<open>Reading back\<close>

lemma read_lines_line:
  "newline \<notin> set l \<Longrightarrow> carriage_return \<notin> set l \<Longrightarrow> read_lines acc (l @ newline # s) = (acc @ l) # read_lines [] s"
  by (induction l arbitrary: acc) auto

lemma read_lines_return:
  "newline \<notin> set l \<Longrightarrow> carriage_return \<notin> set l \<Longrightarrow> s \<noteq> [] \<Longrightarrow> hd s \<noteq> newline \<Longrightarrow>
   read_lines acc (l @ carriage_return # s) = (acc @ l) # read_lines [] s"
  by (induction l arbitrary: acc) auto

lemma split_on_last: "d \<notin> set x \<Longrightarrow> split_on d x = [x]"
  by (induction x) auto

lemma split_on_field: "d \<notin> set x \<Longrightarrow> split_on d (x @ d # y) = x # split_on d y"
  by (induction x) auto

lemma parse_printed_address: "parseUnsignedLong16 (hex_digits (unat a)) = Some (a :: u64)"
proof -
  have "hd (hex_digits (unat a)) \<noteq> CHR ''+''"
    using hex_digits_plain(5) [of "unat a"] hex_digits_nonempty [of "unat a"] by (metis list.set_sel(1))
  moreover have "unat a < 2 ^ 64" using unsigned_less [of a] by simp
  ultimately show ?thesis
    by (simp add: parseUnsignedLong16_def hex_digits_nonempty hex_digits_all digits_val_hex_digits)
qed

lemma print_hex_plain:
  "tab \<notin> set (print_hex a)" "newline \<notin> set (print_hex a)" "carriage_return \<notin> set (print_hex a)"
  by (simp_all add: print_hex_def hex_digits_plain)

lemma printed_address [simp]: "take 2 (print_hex a) = ''0x''" "drop 2 (print_hex a) = hex_digits (unat a)"
  by (simp_all add: print_hex_def)

lemma read_function_line:
  assumes "tab \<notin> set n" "tab \<notin> set c"
  shows "read_annotation (CHR ''F'' # tab # print_hex a @ tab # n @ tab # c) = Some (AnnotateFunction a (unescape n) (unescape c))"
proof -
  have "split_on tab (CHR ''F'' # tab # print_hex a @ tab # n @ tab # c) = [''F'', print_hex a, n, c]"
    using assms by (simp add: split_on_field split_on_last print_hex_plain)
  then show ?thesis by (simp add: read_annotation_def Let_def parse_printed_address)
qed

lemma read_comment_line:
  assumes "tab \<notin> set c"
  shows "read_annotation (CHR ''C'' # tab # print_hex a @ tab # c) =
     (if unescape c = [] then None else Some (AnnotateComment a (unescape c)))"
proof -
  have "split_on tab (CHR ''C'' # tab # print_hex a @ tab # c) = [''C'', print_hex a, c]"
    using assms by (simp add: split_on_field split_on_last print_hex_plain)
  then show ?thesis by (simp add: read_annotation_def Let_def parse_printed_address)
qed

lemma read_annotations_line:
  "newline \<notin> set l \<Longrightarrow> carriage_return \<notin> set l \<Longrightarrow>
   read_annotations (l @ newline # s) = (case read_annotation l of None \<Rightarrow> [] | Some x \<Rightarrow> [x]) @ read_annotations s"
  by (simp add: read_annotations_def read_lines_line List.map_filter_simps split: option.splits)

text \<open>Texts the format carries: no carriage return, which the reader takes for a line end, and no NUL, its stand-in for a backslash\<close>

definition plain_text :: "string \<Rightarrow> bool" where
  "plain_text s \<longleftrightarrow> carriage_return \<notin> set s \<and> nul \<notin> set s"

lemma unescape_plain: "plain_text s \<Longrightarrow> unescape (upload_escape s) = s"
  by (simp add: plain_text_def unescape_escape)

lemma escape_plain: "plain_text s \<Longrightarrow> carriage_return \<notin> set (upload_escape s)"
  by (simp add: plain_text_def upload_escape_no_return)

definition sent_name :: "upload_function \<Rightarrow> string" where
  "sent_name f = (if is_default_name (uf_rawName f) then [] else uf_rawName f)"

lemma read_function_lines:
  assumes "\<forall>f \<in> set fs. plain_text (uf_rawName f) \<and> CHR ''%'' \<notin> set (uf_rawName f) \<and> plain_text (uf_comment f)"
  shows "read_annotations (concat (map function_line fs) @ s) =
     map (\<lambda>f. AnnotateFunction (uf_start f) (sent_name f) (uf_comment f)) fs @ read_annotations s"
  using assms
proof (induction fs)
  case (Cons f fs)
  define l where "l = CHR ''F'' # tab # print_hex (uf_start f) @ tab # upload_escape (sent_name f) @ tab # upload_escape (uf_comment f)"
  have ok: "plain_text (sent_name f)" "plain_text (uf_comment f)" and "CHR ''%'' \<notin> set (uf_rawName f)"
    using Cons.prems by (auto simp: sent_name_def plain_text_def)
  then have "function_line f = l @ [newline]" by (simp add: function_line_eq l_def sent_name_def)
  moreover have "newline \<notin> set l" "carriage_return \<notin> set l"
    using ok by (auto simp: l_def upload_escape_chars escape_plain print_hex_plain)
  moreover have "read_annotation l = Some (AnnotateFunction (uf_start f) (sent_name f) (uf_comment f))"
    unfolding l_def using ok by (simp add: read_function_line upload_escape_chars unescape_plain)
  ultimately show ?case using Cons by (simp add: read_annotations_line)
qed simp

lemma read_comment_lines:
  assumes "\<forall>a \<in> set as. plain_text (uv_commentForAddress V a)"
  shows "read_annotations (concat (map (comment_line V) as)) =
     map (\<lambda>a. AnnotateComment a (uv_commentForAddress V a)) (filter (\<lambda>a. uv_commentForAddress V a \<noteq> []) as)"
  using assms
proof (induction as)
  case Nil
  show ?case by (simp add: read_annotations_def List.map_filter_simps)
next
  case (Cons a as)
  define c where "c = uv_commentForAddress V a"
  define l where "l = CHR ''C'' # tab # print_hex a @ tab # upload_escape c"
  have ok: "plain_text c" using Cons.prems by (simp add: c_def)
  have "comment_line V a = (if c = [] then [] else l @ [newline])" by (simp add: comment_line_eq l_def c_def)
  moreover have "newline \<notin> set l" "carriage_return \<notin> set l"
    using ok by (auto simp: l_def upload_escape_chars escape_plain print_hex_plain)
  moreover have "read_annotation l = (if c = [] then None else Some (AnnotateComment a c))"
    unfolding l_def using ok by (simp add: read_comment_line upload_escape_chars unescape_plain)
  ultimately show ?case using Cons by (simp add: read_annotations_line c_def)
qed

section \<open>Properties\<close>

text \<open>
  C21: The annotations of an upload reach Ghidra unchanged. For every view whose names and comments
  hold no carriage return and no NUL, and whose function names hold no \<open>%\<close>, the script reads back
  exactly one function per function of the view, in order, with its address, its comment and its
  name (empty for a default name), and then every non-empty comment with its address; tabs,
  newlines and backslashes in the texts survive.
\<close>

theorem upload_text_roundtrip:
  assumes "\<forall>f \<in> set (uv_functions V). plain_text (uf_rawName f) \<and> CHR ''%'' \<notin> set (uf_rawName f) \<and> plain_text (uf_comment f)"
    and "\<forall>a \<in> set (uv_commentedAddresses V). plain_text (uv_commentForAddress V a)"
  shows "read_annotations (upload_analysis (Some V)) =
     map (\<lambda>f. AnnotateFunction (uf_start f) (sent_name f) (uf_comment f)) (uv_functions V) @
     map (\<lambda>a. AnnotateComment a (uv_commentForAddress V a))
       (filter (\<lambda>a. uv_commentForAddress V a \<noteq> []) (uv_commentedAddresses V))"
  using read_function_lines [OF assms(1)] read_comment_lines [OF assms(2)] by (simp add: upload_analysis_def)

definition sample_upload :: upload_view where
  "sample_upload =
     \<lparr>uv_functions =
        [\<lparr>uf_start = 0x401000, uf_rawName = ''parse'', uf_comment = ''a'' @ [tab, backslash, newline] @ ''b''\<rparr>,
         \<lparr>uf_start = 0x402000, uf_rawName = ''sub_402000'', uf_comment = []\<rparr>],
      uv_commentedAddresses = [0x401004, 0x401008],
      uv_commentForAddress = (\<lambda>a. if a = 0x401004 then ''x'' @ [backslash] @ ''t'' else [])\<rparr>"

theorem upload_text_roundtrip_witness:
  "read_annotations (upload_analysis (Some sample_upload)) =
     [AnnotateFunction 0x401000 ''parse'' (''a'' @ [tab, backslash, newline] @ ''b''),
      AnnotateFunction 0x402000 [] [], AnnotateComment 0x401004 (''x'' @ [backslash] @ ''t'')]"
proof -
  have "\<forall>f \<in> set (uv_functions sample_upload).
      plain_text (uf_rawName f) \<and> CHR ''%'' \<notin> set (uf_rawName f) \<and> plain_text (uf_comment f)" by code_simp
  moreover have "\<forall>a \<in> set (uv_commentedAddresses sample_upload). plain_text (uv_commentForAddress sample_upload a)"
    by code_simp
  ultimately show ?thesis
    by (subst upload_text_roundtrip) (simp_all add: sample_upload_def sent_name_def is_default_name_def)
qed

text \<open>
  A carriage return cuts a comment short. The writer escapes tabs, newlines and backslashes but not
  carriage returns, and the reader ends a line at one, so of a comment \<open>s\<close>, carriage return, \<open>t\<close> only
  \<open>s\<close> arrives.
\<close>

theorem carriage_return_cuts_comment:
  assumes "plain_text s" "s \<noteq> []" "carriage_return \<notin> set t" "t \<noteq> []"
    and "uv_functions V = []" "uv_commentedAddresses V = [a]" "uv_commentForAddress V a = s @ carriage_return # t"
  shows "read_annotations (upload_analysis (Some V)) = [AnnotateComment a s]"
proof -
  define l where "l = CHR ''C'' # tab # print_hex a @ tab # upload_escape s"
  have t: "upload_escape t \<noteq> []" "hd (upload_escape t) \<noteq> newline"
    using \<open>t \<noteq> []\<close> by (cases t; simp add: upload_escape_eq escape_char_def)+
  have "upload_analysis (Some V) = l @ carriage_return # upload_escape t @ [newline]"
    using assms by (simp add: upload_analysis_def comment_line_eq l_def upload_escape_append upload_escape_return)
  moreover have "newline \<notin> set l" "carriage_return \<notin> set l"
    using \<open>plain_text s\<close> by (auto simp: l_def upload_escape_chars escape_plain print_hex_plain)
  moreover have "read_lines [] (upload_escape t @ [newline]) = [upload_escape t]"
    using read_lines_line [of "upload_escape t" "[]" "[]"] assms(3) by (simp add: upload_escape_chars upload_escape_no_return)
  moreover have "read_annotation (upload_escape t) = None"
    by (simp add: read_annotation_def split_on_last upload_escape_chars)
  moreover have "read_annotation l = Some (AnnotateComment a s)"
    unfolding l_def using assms(1,2) by (simp add: read_comment_line upload_escape_chars unescape_plain)
  ultimately show ?thesis
    using t read_lines_return [of l "upload_escape t @ [newline]" "[]"]
    by (simp add: read_annotations_def List.map_filter_simps)
qed

theorem carriage_return_cuts_comment_witness:
  "read_annotations (upload_analysis (Some \<lparr>uv_functions = [], uv_commentedAddresses = [0x401000],
     uv_commentForAddress = (\<lambda>_. ''one'' @ carriage_return # ''two'')\<rparr>)) = [AnnotateComment 0x401000 ''one'']"
  by (rule carriage_return_cuts_comment [where t = "''two''"]) (simp_all add: plain_text_def, code_simp+)

text \<open>A place marker in a function's name takes in the comment, which is the last argument of the format.\<close>

theorem place_marker_in_name:
  "read_annotations (upload_analysis (Some \<lparr>uv_functions = [\<lparr>uf_start = 0x401000, uf_rawName = ''f%3'', uf_comment = ''note''\<rparr>],
     uv_commentedAddresses = [], uv_commentForAddress = (\<lambda>_. [])\<rparr>)) = [AnnotateFunction 0x401000 ''fnote'' ''note'']"
  by code_simp

end
