(* ===== verification/Panel_Ops.thy ===== *)
theory Panel_Ops
  imports Panel Upload_Text
begin

text \<open>
  The panel's operations on items and project files: importing an item (\<open>importItem\<close>), adding items to
  a project (\<open>addItemToProject\<close>, \<open>bulkAddItemsToProject\<close>, \<open>populateProjectWithItems\<close>), uploading
  (\<open>uploadToGhidra\<close>), removing links (\<open>Delete from Server\<close>, \<open>Clear Ghidra Link\<close>), server events, the
  rows of the project files and the choice made on a double click. What a dialog, a file system or
  Binary Ninja answers is an argument.
\<close>

section \<open>Import\<close>

text \<open>\<open>openDatabase\<close> returns an empty export with the error text; only a text that is not empty counts.\<close>

definition open_outcome :: "GhidraDbExport result \<Rightarrow> string \<times> GhidraDbExport" where
  "open_outcome r = (case r of Inl e \<Rightarrow> (e, default_GhidraDbExport) | Inr data \<Rightarrow> ([], data))"

definition import_metadata :: "ghidra_conn \<Rightarrow> string \<Rightarrow> string \<Rightarrow> string \<Rightarrow> nat option \<Rightarrow> panel \<Rightarrow> panel" where
  "import_metadata K repo folder name view P =
     (let fileId = projectFileId P view;
          P = (case projectForView P view of
                 None \<Rightarrow> P
               | Some p \<Rightarrow>
                   if fileId = [] then P
                   else change_project_meta p (AList.update (file_key fileId) (checked_link_store repo folder name True))
                          (change_project_meta p
                            (AList.update ''ghidra.server'' (server_store (m_host K) (scast (m_port K)) (m_user K))) P))
      in case view of
           None \<Rightarrow> P
         | Some v \<Rightarrow>
             store_view_meta v ''ghidra.link'' (bndb_store (m_host K) (scast (m_port K)) (m_user K) repo folder name) True P)"

text \<open>
  The worker's part, with the view it captured and the answer of \<open>openDatabase\<close>: whether it went on to
  post \<open>import_done\<close>, the changed view, the check-in state and the panel
\<close>

definition import_worker ::
    "('v, 'f, 't, 'g) bn_api \<Rightarrow> ghidra_conn \<Rightarrow> GhidraDbExport result \<Rightarrow> string \<Rightarrow> string \<Rightarrow> string \<Rightarrow> (nat \<times> 'v) option \<Rightarrow>
     checkin_state \<Rightarrow> panel \<Rightarrow> bool \<times> 'v option \<times> checkin_state \<times> panel" where
  "import_worker A K answer repo folder name view S P =
     (let (err, data) = open_outcome answer in
      if err \<noteq> [] then (False, map_option snd view, S, P)
      else
        let (view', r) = applyToView A (map_option snd view) data
        in (True, view', storeCheckinState (to_store_args r repo folder name) S,
            import_metadata K repo folder name (map_option fst view) P))"

definition import_done :: "ghidra_conn \<Rightarrow> string \<Rightarrow> string \<Rightarrow> string \<Rightarrow> panel \<Rightarrow> panel" where
  "import_done K repo folder name P =
     persistCheckedOutState True
       (P\<lparr>m_linkedGhidra :=
           \<lparr>gl_host = m_host K, gl_user = m_user K, gl_repo = repo, gl_folder = folder, gl_item = name, gl_port = m_port K\<rparr>\<rparr>)"

section \<open>Adding items to a project\<close>

definition links_to :: "panel \<Rightarrow> nat \<Rightarrow> string \<Rightarrow> string \<Rightarrow> string \<Rightarrow> project_file \<Rightarrow> bool" where
  "links_to P p repo folder item pf \<longleftrightarrow>
     (case file_link P p (pf_id pf) of
        None \<Rightarrow> False
      | Some kv \<Rightarrow> kvStr kv ''repo'' = repo \<and> kvStr kv ''folder'' = folder \<and> kvStr kv ''item'' = item)"

definition linked_file :: "panel \<Rightarrow> nat \<Rightarrow> string \<Rightarrow> string \<Rightarrow> string \<Rightarrow> project_file option" where
  "linked_file P p repo folder item = find (links_to P p repo folder item) (pj_files (pn_project P p))"

datatype add_decision = AddWithoutProject | AddAlreadyPresent project_file | AddDownload nat

definition addItemToProject :: "panel \<Rightarrow> string \<Rightarrow> string \<Rightarrow> string \<Rightarrow> add_decision" where
  "addItemToProject P repo folder name =
     (case currentOpenProject P (m_currentView P) of
        None \<Rightarrow> AddWithoutProject
      | Some p \<Rightarrow>
          (case linked_file P p repo folder name of
             Some pf \<Rightarrow> AddAlreadyPresent pf
           | None \<Rightarrow> AddDownload p))"

text \<open>The case-insensitive comparison of file names is the one of ASCII letters.\<close>

definition lower_ascii :: "char \<Rightarrow> char" where
  "lower_ascii c = (if 65 \<le> char_code c \<and> char_code c \<le> 90 then char_of (char_code c + 32) else c)"

definition chosen_file :: "string \<Rightarrow> BinaryFile list \<Rightarrow> BinaryFile" where
  "chosen_file name files =
     (case find (\<lambda>f. map lower_ascii (bf_filename f) = map lower_ascii name) files of Some f \<Rightarrow> f | None \<Rightarrow> hd files)"

record RepoItemRef =
  ir_repo :: string
  ir_folder :: string
  ir_name :: string

text \<open>
  One item of the download loop. \<open>download\<close> answers \<open>downloadBinary\<close>, \<open>writable\<close> says whether the temporary
  file of that name can be opened, \<open>create\<close> answers \<open>CreateFileFromPath\<close> with the id of the new project
  file. The result is the id, or nothing when the item counts as failed.
\<close>

definition add_one ::
    "(RepoItemRef \<Rightarrow> BinaryFile list result) \<Rightarrow> (string \<Rightarrow> bool) \<Rightarrow> (RepoItemRef \<Rightarrow> string \<Rightarrow> string option) \<Rightarrow> RepoItemRef \<Rightarrow>
     string option" where
  "add_one download writable create it =
     (let (err, files) = (case download it of Inl e \<Rightarrow> (e, []) | Inr fs \<Rightarrow> ([], fs)) in
      if err \<noteq> [] \<or> files = [] then None
      else if \<not> writable (ir_name it) then None
      else create it (bf_bytes (chosen_file (ir_name it) files)))"

definition add_items_worker ::
    "(RepoItemRef \<Rightarrow> BinaryFile list result) \<Rightarrow> (string \<Rightarrow> bool) \<Rightarrow> (RepoItemRef \<Rightarrow> string \<Rightarrow> string option) \<Rightarrow> RepoItemRef list \<Rightarrow>
     (string \<times> RepoItemRef) list \<times> nat" where
  "add_items_worker download writable create items =
     fold (\<lambda>it (added, failed).
         case add_one download writable create it of
           None \<Rightarrow> (added, failed + 1)
         | Some fid \<Rightarrow> (added @ [(fid, it)], failed))
       items ([], 0)"

definition store_file_link :: "nat \<Rightarrow> string \<times> RepoItemRef \<Rightarrow> panel \<Rightarrow> panel" where
  "store_file_link p a P =
     change_project_meta p
       (AList.update (file_key (fst a)) (link_store (ir_repo (snd a)) (ir_folder (snd a)) (ir_name (snd a)))) P"

definition add_items_done ::
    "nat \<Rightarrow> string \<Rightarrow> u64 \<Rightarrow> string \<Rightarrow> (string \<times> RepoItemRef) list \<Rightarrow> panel \<Rightarrow> panel" where
  "add_items_done p host port user added P =
     fold (store_file_link p) added (if added \<noteq> [] then store_server_if_missing p host port user P else P)"

text \<open>\<open>bulkAddItemsToProject\<close> leaves out the items whose key is among those of the linked files.\<close>

definition item_key :: "string \<Rightarrow> string \<Rightarrow> string \<Rightarrow> string" where
  "item_key repo folder item = repo @ [newline] @ folder @ [newline] @ item"

definition existing_keys :: "panel \<Rightarrow> nat \<Rightarrow> string list" where
  "existing_keys P p =
     List.map_filter
       (\<lambda>pf. map_option (\<lambda>kv. item_key (kvStr kv ''repo'') (kvStr kv ''folder'') (kvStr kv ''item'')) (file_link P p (pf_id pf)))
       (pj_files (pn_project P p))"

definition bulk_todo :: "panel \<Rightarrow> nat \<Rightarrow> RepoItemRef list \<Rightarrow> RepoItemRef list" where
  "bulk_todo P p items =
     filter (\<lambda>r. item_key (ir_repo r) (ir_folder r) (ir_name r) \<notin> set (existing_keys P p)) items"

text \<open>The selection of the context menu: every selected item once, and the clicked one\<close>

definition select_items :: "RepoItemRef list \<Rightarrow> RepoItemRef \<Rightarrow> RepoItemRef list" where
  "select_items sel clicked = fold (\<lambda>r xs. if r \<in> set xs then xs else xs @ [r]) (sel @ [clicked]) []"

section \<open>Upload\<close>

definition trimmed :: "string \<Rightarrow> string" where
  "trimmed s = rev (dropWhile is_space (rev (dropWhile is_space s)))"

definition ends_with_bndb :: "string \<Rightarrow> bool" where
  "ends_with_bndb s \<longleftrightarrow> length s \<ge> 5 \<and> map lower_ascii (drop (length s - 5) s) = ''.bndb''"

definition default_item_name :: "string \<Rightarrow> string" where
  "default_item_name fileName = (if ends_with_bndb fileName then take (length fileName - 5) fileName else fileName)"

record upload_dialog =
  ud_repo :: string
  ud_folder :: string
  ud_item :: string
  ud_comment :: string
  ud_keep :: bool

text \<open>A view open in some window: the id of its project file and the bytes of its innermost parent\<close>

record open_view =
  ov_fileId :: "string option"
  ov_raw :: string

record upload_job =
  uj_repo :: string
  uj_folder :: string
  uj_item :: string
  uj_comment :: string
  uj_keep :: bool
  uj_bytes :: string
  uj_analysis :: string
  uj_project :: "nat option"
  uj_fileId :: string

text \<open>
  \<open>uploadToGhidra\<close> up to the worker: the job, or nothing when it stops. \<open>accepted\<close> is the answer of the
  dialog (\<open>None\<close> when cancelled), \<open>annotations\<close> what the writer reads of a view.
\<close>

definition uploadToGhidra ::
    "ghidra_conn \<Rightarrow> (nat \<Rightarrow> upload_view) \<Rightarrow> open_view list \<Rightarrow> string \<Rightarrow> upload_dialog option \<Rightarrow> panel \<Rightarrow> upload_job option" where
  "uploadToGhidra K annotations views pfId accepted P =
     (if \<not> m_serverConnected K then None
      else case accepted of
        None \<Rightarrow> None
      | Some d \<Rightarrow>
          let repo = trimmed (ud_repo d); folder = trimmed (ud_folder d); item = trimmed (ud_item d) in
          if repo = [] \<or> item = [] then None
          else
            let folder = (if take 1 folder = ''/'' then folder else CHR ''/'' # folder);
                bytes = (case find (\<lambda>w. ov_fileId w = Some pfId) views of None \<Rightarrow> [] | Some w \<Rightarrow> ov_raw w)
            in if bytes = [] then None
               else Some \<lparr>uj_repo = repo, uj_folder = folder, uj_item = item, uj_comment = trimmed (ud_comment d),
                          uj_keep = ud_keep d, uj_bytes = bytes,
                          uj_analysis = upload_analysis (map_option annotations (m_currentView P)),
                          uj_project = currentOpenProject P (m_currentView P), uj_fileId = pfId\<rparr>)"

definition upload_done :: "ghidra_conn \<Rightarrow> upload_job \<Rightarrow> bool \<Rightarrow> panel \<Rightarrow> panel" where
  "upload_done K job ok P =
     (if \<not> ok then P
      else
        let P = (case uj_project job of
                   None \<Rightarrow> P
                 | Some p \<Rightarrow>
                     if uj_fileId job = [] then P
                     else change_project_meta p
                            (AList.update (file_key (uj_fileId job))
                              (checked_link_store (uj_repo job) (uj_folder job) (uj_item job) (uj_keep job)))
                            (store_server_if_missing p (m_host K) (scast (m_port K)) (m_user K) P))
        in P\<lparr>m_linkedGhidra :=
               \<lparr>gl_host = m_host K, gl_user = m_user K, gl_repo = uj_repo job, gl_folder = uj_folder job,
                gl_item = uj_item job, gl_port = m_port K\<rparr>,
             m_checkedOut := uj_keep job\<rparr>)"

section \<open>Removing links\<close>

text \<open>The callback after a successful delete, for one project file and for all\<close>

definition names_item :: "panel \<Rightarrow> nat \<Rightarrow> string \<Rightarrow> string \<Rightarrow> project_file \<Rightarrow> bool" where
  "names_item P p repo item pf \<longleftrightarrow>
     (case file_link P p (pf_id pf) of None \<Rightarrow> False | Some kv \<Rightarrow> kvStr kv ''repo'' = repo \<and> kvStr kv ''item'' = item)"

definition delete_file_link :: "nat \<Rightarrow> string \<Rightarrow> string \<Rightarrow> project_file \<Rightarrow> panel \<Rightarrow> panel" where
  "delete_file_link p repo item pf P =
     (if \<not> names_item P p repo item pf then P
      else
        let P = change_project_meta p (AList.delete (file_key (pf_id pf))) P in
        case m_currentView P of
          None \<Rightarrow> P
        | Some v \<Rightarrow> (change_view_meta v (AList.delete ''ghidra.link'') P)\<lparr>m_linkedGhidra := no_link\<rparr>)"

definition delete_done :: "string \<Rightarrow> string \<Rightarrow> panel \<Rightarrow> panel" where
  "delete_done repo item P =
     (case currentOpenProject P (m_currentView P) of
        None \<Rightarrow> P
      | Some p \<Rightarrow> fold (delete_file_link p repo item) (pj_files (pn_project P p)) P)"

text \<open>\<open>Clear Ghidra Link\<close> of a project file, after the user confirmed\<close>

definition base_name :: "string \<Rightarrow> string" where
  "base_name path = rev (takeWhile (\<lambda>c. c \<noteq> CHR ''/'') (rev path))"

definition ends_with :: "string \<Rightarrow> string \<Rightarrow> bool" where
  "ends_with s t \<longleftrightarrow> length t \<le> length s \<and> drop (length s - length t) s = t"

definition clear_link :: "string \<Rightarrow> string \<Rightarrow> panel \<Rightarrow> panel" where
  "clear_link filePath pfId P =
     (let P = (case currentOpenProject P (m_currentView P) of
                 None \<Rightarrow> P
               | Some p \<Rightarrow> if pfId = [] then P else change_project_meta p (AList.delete (file_key pfId)) P)
      in case m_currentView P of
           None \<Rightarrow> P
         | Some v \<Rightarrow>
             let viewFile = vw_filename (pn_view P v) in
             if viewFile = filePath \<or> ends_with viewFile (CHR ''/'' # base_name filePath)
             then (change_view_meta v (AList.delete ''ghidra.link'') P)\<lparr>m_linkedGhidra := no_link\<rparr> else P)"

section \<open>Events, rows and double clicks\<close>

text \<open>The project file a server event is reported for\<close>

definition onEventReceived :: "panel \<Rightarrow> GhidraEvent \<Rightarrow> project_file option" where
  "onEventReceived P evt =
     (if ge_name evt = [] then None
      else case currentOpenProject P (m_currentView P) of
        None \<Rightarrow> None
      | Some p \<Rightarrow> find (names_item P p (ge_repo evt) (ge_name evt)) (pj_files (pn_project P p)))"

text \<open>A row of the project files: file name, the item shown, and whether it is the active checkout\<close>

datatype project_row = LinkedRow string string bool | UnlinkedRow string

definition project_row :: "checkin_state \<Rightarrow> panel \<Rightarrow> nat \<Rightarrow> project_file \<Rightarrow> project_row" where
  "project_row S P p pf =
     (case file_link P p (pf_id pf) of
        None \<Rightarrow> UnlinkedRow (pf_name pf)
      | Some kv \<Rightarrow>
          let repo = kvStr kv ''repo''; folder = kvStr kv ''folder''; name = kvStr kv ''item'' in
          LinkedRow (pf_name pf) (if folder \<noteq> ''/'' \<and> folder \<noteq> [] then folder @ name else name)
            (isCheckinItem S repo folder name))"

definition refreshProjectFiles :: "checkin_state \<Rightarrow> panel \<Rightarrow> project_row list" where
  "refreshProjectFiles S P =
     (case projectForView P (m_currentView P) of
        None \<Rightarrow> []
      | Some p \<Rightarrow> map (project_row S P p) (pj_files (pn_project P p)))"

datatype double_click = ShowTip | IgnoreClick | OpenLinked project_file | AddItem | ImportItem | OpenNewView

definition onRepoItemDoubleClicked ::
    "checkin_state \<Rightarrow> panel \<Rightarrow> string \<Rightarrow> string \<Rightarrow> string \<Rightarrow> string \<Rightarrow> double_click" where
  "onRepoItemDoubleClicked S P kind repo folder name =
     (if kind = ''repo'' \<or> kind = ''folder'' then ShowTip
      else if kind \<noteq> ''item'' then IgnoreClick
      else case currentOpenProject P (m_currentView P) of
        Some p \<Rightarrow> (case linked_file P p repo folder name of Some pf \<Rightarrow> OpenLinked pf | None \<Rightarrow> AddItem)
      | None \<Rightarrow>
          if m_currentView P \<noteq> None \<and> isCheckinItem S repo folder name then ImportItem
          else if m_currentView P = None then OpenNewView else ImportItem)"

end
