(* ===== verification/Panel_Props.thy ===== *)
theory Panel_Props
  imports Panel_Ops
begin

text \<open>
  What the panel's operations on links achieve: the link an import writes is the one a later opening of
  the view finds, an event or a delete concerns the files that name the item, a bulk add takes exactly
  the items that are not linked yet, and where the flag of the menu goes stale.
\<close>

section \<open>Metadata lemmas\<close>

named_theorems panel_simps \<open>fields of the panel after a change of metadata\<close>

lemma change_project_fields [panel_simps]:
  "pn_view (change_project_meta p f P) = pn_view P"
  "m_currentView (change_project_meta p f P) = m_currentView P"
  "pn_contextProject (change_project_meta p f P) = pn_contextProject P"
  "m_linkedGhidra (change_project_meta p f P) = m_linkedGhidra P"
  "m_checkedOut (change_project_meta p f P) = m_checkedOut P"
  "pj_files (pn_project (change_project_meta p f P) q) = pj_files (pn_project P q)"
  "project_meta (change_project_meta p f P) q k =
     (if q = p then map_of (f (pj_meta (pn_project P p))) k else project_meta P q k)"
  by (simp_all add: change_project_meta_def project_meta_def)

lemma change_view_fields [panel_simps]:
  "pn_project (change_view_meta v f P) = pn_project P"
  "m_currentView (change_view_meta v f P) = m_currentView P"
  "pn_contextProject (change_view_meta v f P) = pn_contextProject P"
  "m_linkedGhidra (change_view_meta v f P) = m_linkedGhidra P"
  "m_checkedOut (change_view_meta v f P) = m_checkedOut P"
  "vw_projectFile (pn_view (change_view_meta v f P) w) = vw_projectFile (pn_view P w)"
  "vw_meta (pn_view (change_view_meta v f P) w) = (if w = v then f (vw_meta (pn_view P v)) else vw_meta (pn_view P w))"
  by (simp_all add: change_view_meta_def)

lemma store_view_fields [panel_simps]:
  "pn_project (store_view_meta v key md isAuto P) = pn_project P"
  "project_meta (store_view_meta v key md isAuto P) p k = project_meta P p k"
  "vw_projectFile (pn_view (store_view_meta v key md isAuto P) w) = vw_projectFile (pn_view P w)"
  "vw_meta (pn_view (store_view_meta v key md isAuto P) v) = AList.update key md (vw_meta (pn_view P v))"
  "key \<in> vw_autoKeys (pn_view (store_view_meta v key md isAuto P) v) \<longleftrightarrow> isAuto"
  by (simp_all add: store_view_meta_def Let_def change_view_meta_def project_meta_def)

lemma project_lookup_frame [panel_simps]:
  "projectForView (change_project_meta p f P) w = projectForView P w"
  "projectFileId (change_project_meta p f P) w = projectFileId P w"
  "projectForView (change_view_meta v g P) w = projectForView P w"
  "projectFileId (change_view_meta v g P) w = projectFileId P w"
  "project_meta (change_view_meta v g P) p k = project_meta P p k"
  by (simp_all add: projectForView_def projectFileId_def panel_simps project_meta_def)

lemma view_of_file [panel_simps]:
  "vw_projectFile (pn_view P v) = Some (p, fid) \<Longrightarrow> projectForView P (Some v) = Some p"
  "vw_projectFile (pn_view P v) = Some (p, fid) \<Longrightarrow> projectFileId P (Some v) = fid"
  "vw_projectFile (pn_view P v) = None \<Longrightarrow> projectForView P (Some v) = None"
  by (simp_all add: projectForView_def projectFileId_def)

lemma file_key_inj [simp]: "file_key a = file_key b \<longleftrightarrow> a = b"
  by (simp add: file_key_def)

lemma file_key_server [simp]: "file_key fid \<noteq> ''ghidra.server''" "''ghidra.server'' \<noteq> file_key fid"
  by (simp_all add: file_key_def)

lemma port_roundtrip: "ucast (scast (port :: i32) :: u64) = port"
  by (rule bit_word_eqI) (auto simp: bit_simps)

lemma kv_simps [simp]:
  "kvStr ((k, MetaString s) # kv) k' = (if k' = k then s else kvStr kv k')"
  "kvStr ((k, MetaUInt n) # kv) k' = (if k' = k then [] else kvStr kv k')"
  "kvUInt ((k, MetaString s) # kv) k' = (if k' = k then 0 else kvUInt kv k')"
  "kvUInt ((k, MetaUInt n) # kv) k' = (if k' = k then n else kvUInt kv k')"
  by (simp_all add: kvStr_def kvUInt_def)

lemma kv_update [simp]:
  "kvStr (AList.update k (MetaUInt n) kv) k' = (if k' = k then [] else kvStr kv k')"
  "kvUInt (AList.update k (MetaUInt n) kv) k' = (if k' = k then n else kvUInt kv k')"
  by (simp_all add: kvStr_def kvUInt_def umap_simps)

section \<open>Import and reopening\<close>

definition session_link :: "ghidra_conn \<Rightarrow> string \<Rightarrow> string \<Rightarrow> string \<Rightarrow> GhidraLink" where
  "session_link K repo folder item =
     \<lparr>gl_host = m_host K, gl_user = m_user K, gl_repo = repo, gl_folder = folder, gl_item = item, gl_port = m_port K\<rparr>"

text \<open>
  A panel after a restart: the projects have their metadata, and the views those entries of theirs that are in the
  saved database, which are all or all but the automatic ones
\<close>

definition after_restart :: "bool \<Rightarrow> panel \<Rightarrow> panel \<Rightarrow> bool" where
  "after_restart autoSaved P Q \<longleftrightarrow> pn_project Q = pn_project P \<and>
     (\<forall>w. vw_projectFile (pn_view Q w) = vw_projectFile (pn_view P w) \<and>
       vw_meta (pn_view Q w) = filter (\<lambda>(k, md). autoSaved \<or> k \<notin> vw_autoKeys (pn_view P w)) (vw_meta (pn_view P w)))"

lemma import_keeps_files [panel_simps]:
  "vw_projectFile (pn_view (import_metadata K repo folder name view P) w) = vw_projectFile (pn_view P w)"
  by (simp add: import_metadata_def Let_def panel_simps split: option.split)

lemma import_writes:
  assumes "vw_projectFile (pn_view P v) = Some (p, fid)" "fid \<noteq> []"
    and "P' = import_metadata K repo folder name (Some v) P"
  shows "project_meta P' p ''ghidra.server'' = Some (server_store (m_host K) (scast (m_port K)) (m_user K))"
    and "project_meta P' p (file_key fid) = Some (checked_link_store repo folder name True)"
  using assms by (simp_all add: import_metadata_def Let_def panel_simps umap_simps project_meta_def change_project_meta_def)

lemma import_writes_view:
  "map_of (vw_meta (pn_view (import_metadata K repo folder name (Some v) P) v)) ''ghidra.link'' =
     Some (bndb_store (m_host K) (scast (m_port K)) (m_user K) repo folder name)"
  "''ghidra.link'' \<in> vw_autoKeys (pn_view (import_metadata K repo folder name (Some v) P) v)"
  by (simp_all add: import_metadata_def Let_def panel_simps umap_simps split: option.split)

lemma migrate_fields [panel_simps]:
  "m_linkedGhidra (migrateStandaloneMetadata P) = m_linkedGhidra P" "m_checkedOut (migrateStandaloneMetadata P) = m_checkedOut P"
  "m_currentView (migrateStandaloneMetadata P) = m_currentView P"
  by (auto simp: migrateStandaloneMetadata_def store_server_if_missing_def panel_simps Let_def split: option.split)

lemma reopen_from_project:
  assumes "vw_projectFile (pn_view Q v) = Some (p, fid)" "fid \<noteq> []"
    and "project_meta Q p ''ghidra.server'' = Some (server_store (m_host K) (scast (m_port K)) (m_user K))"
    and "file_link Q p fid = Some ikv" "kvStr ikv ''item'' \<noteq> []" "m_host K \<noteq> []"
  shows "m_linkedGhidra (notifyViewChanged (Some v) Q) =
       session_link K (kvStr ikv ''repo'') (kvStr ikv ''folder'') (kvStr ikv ''item'') \<and>
     m_checkedOut (notifyViewChanged (Some v) Q) = (kvInt ikv ''checked_out'' \<noteq> 0)"
proof -
  let ?Q = "Q\<lparr>m_currentView := Some v, m_linkedGhidra := no_link\<rparr>"
  have lk: "projectFileId ?Q (Some v) = fid" "projectForView ?Q (Some v) = Some p"
    using assms(1) by (simp_all add: projectFileId_def projectForView_def)
  have mt: "project_meta ?Q = project_meta Q" "file_link ?Q = file_link Q"
    by (simp_all add: project_meta_def file_link_def fun_eq_iff)
  show ?thesis
    using assms by (simp add: notifyViewChanged_def link_from_project_def link_from_view_def Let_def lk mt server_store_def
        session_link_def link_valid_def kvInt_def port_roundtrip)
qed

lemma reopen_from_view:
  assumes "vw_projectFile (pn_view Q v) = None"
    and "map_of (vw_meta (pn_view Q v)) ''ghidra.link'' = Some (bndb_store (m_host K) (scast (m_port K)) (m_user K) repo folder name)"
  shows "m_linkedGhidra (notifyViewChanged (Some v) Q) = session_link K repo folder name \<and>
     m_checkedOut (notifyViewChanged (Some v) Q) = m_checkedOut Q"
  using assms
  by (simp add: notifyViewChanged_def link_from_project_def link_from_view_def Let_def projectForView_def no_link_def
      bndb_store_def session_link_def link_valid_def kvInt_def port_roundtrip panel_simps)

lemma reopen_no_entry:
  assumes "vw_projectFile (pn_view Q v) = None" and "map_of (vw_meta (pn_view Q v)) ''ghidra.link'' = None"
  shows "m_linkedGhidra (notifyViewChanged (Some v) Q) = no_link"
  using assms
  by (simp add: notifyViewChanged_def link_from_project_def link_from_view_def Let_def projectForView_def no_link_def link_valid_def)

lemma after_restart_queries:
  "after_restart s R Q \<Longrightarrow> project_meta Q = project_meta R" "after_restart s R Q \<Longrightarrow> file_link Q = file_link R"
  "after_restart s R Q \<Longrightarrow> vw_projectFile (pn_view Q w) = vw_projectFile (pn_view R w)"
  by (simp_all add: after_restart_def project_meta_def file_link_def fun_eq_iff)

lemma after_restart_view:
  assumes "after_restart s R Q" and "k \<in> vw_autoKeys (pn_view R w)"
  shows "map_of (vw_meta (pn_view Q w)) k = (if s then map_of (vw_meta (pn_view R w)) k else None)"
  using assms by (auto simp: after_restart_def map_of_eq_None_iff)

lemma import_file_link:
  assumes "vw_projectFile (pn_view P v) = Some (p, fid)" "fid \<noteq> []" "P' = import_metadata K repo folder name (Some v) P"
  shows "file_link P' p fid = Some [(''repo'', MetaString repo), (''folder'', MetaString folder),
    (''item'', MetaString name), (''checked_out'', MetaUInt 1)]"
  by (simp add: file_link_def import_writes(2) [OF assms] checked_link_store_def)

lemma reopen_after_import:
  assumes "vw_projectFile (pn_view P v) = Some (p, fid)" "fid \<noteq> []" "P' = import_metadata K repo folder name (Some v) P"
    and "m_host K \<noteq> []" "name \<noteq> []" "after_restart s P' Q"
  shows "m_linkedGhidra (notifyViewChanged (Some v) Q) = session_link K repo folder name \<and>
     m_checkedOut (notifyViewChanged (Some v) Q)"
proof -
  have "vw_projectFile (pn_view Q v) = Some (p, fid)"
    using assms(1,3) by (simp add: after_restart_queries [OF assms(6)] panel_simps)
  from reopen_from_project [OF this assms(2), of K] show ?thesis
    using assms(4,5) import_file_link [OF assms(1-3)] import_writes(1) [OF assms(1-3)]
    by (simp add: after_restart_queries [OF assms(6)] kvInt_def)
qed

lemma reopen_after_persist:
  assumes "vw_projectFile (pn_view P v) = Some (p, fid)" "fid \<noteq> []" "P' = import_metadata K repo folder name (Some v) P"
    and "m_host K \<noteq> []" "name \<noteq> []" "after_restart s (persistCheckedOutState out (P'\<lparr>m_currentView := Some v\<rparr>)) Q"
  shows "m_linkedGhidra (notifyViewChanged (Some v) Q) = session_link K repo folder name \<and>
     m_checkedOut (notifyViewChanged (Some v) Q) = out"
proof -
  define ikv where "ikv = AList.update ''checked_out'' (MetaUInt (if out then 1 else 0))
    [(''repo'', MetaString repo), (''folder'', MetaString folder), (''item'', MetaString name), (''checked_out'', MetaUInt 1)]"
  define R where "R = change_project_meta p (AList.update (file_key fid) (MetaStore ikv)) (P'\<lparr>m_currentView := Some v, m_checkedOut := out\<rparr>)"
  have vp: "vw_projectFile (pn_view P' v) = Some (p, fid)" by (simp add: assms(3) panel_simps assms(1))
  have pm: "project_meta (P'\<lparr>m_currentView := Some v, m_checkedOut := out\<rparr>) = project_meta P'"
    by (simp add: project_meta_def fun_eq_iff)
  have "persistCheckedOutState out (P'\<lparr>m_currentView := Some v\<rparr>) = R"
    using vp assms(2) import_file_link [OF assms(1-3)]
    by (simp add: R_def persistCheckedOutState_def Let_def projectForView_def projectFileId_def ikv_def file_link_def pm)
  then have Q: "after_restart s R Q" using assms(6) by simp
  have "file_link R p fid = Some ikv" by (simp add: R_def file_link_def panel_simps umap_simps)
  moreover have "project_meta R p ''ghidra.server'' = Some (server_store (m_host K) (scast (m_port K)) (m_user K))"
    using import_writes(1) [OF assms(1-3)] unfolding project_meta_def R_def change_project_meta_def by (simp add: umap_simps)
  moreover have "vw_projectFile (pn_view R v) = Some (p, fid)" by (simp add: R_def panel_simps vp)
  ultimately show ?thesis
    using reopen_from_project [of Q v p fid K ikv] assms(2,4,5)
    by (simp add: after_restart_queries [OF Q] ikv_def kvInt_def)
qed

text \<open>
  C20: after an item was imported into a file of a project, any panel after a restart finds, on opening the view, the host,
  port and user of the session, the repository, folder and name of the item, and the checked-out flag as it was last
  persisted: set by the import, and cleared again when a check-in or a terminated checkout has persisted that. A view
  outside a project keeps its link only where the saved database has the automatic metadata of a view, since the import
  stores it as automatic; otherwise the view is not linked any more.
\<close>

theorem link_survives_restart:
  assumes "m_host K \<noteq> []" "name \<noteq> []"
    and "P' = import_metadata K repo folder name (Some v) P"
    and "vw_projectFile (pn_view P v) = None \<or> (\<exists>p fid. vw_projectFile (pn_view P v) = Some (p, fid) \<and> fid \<noteq> [])"
  shows "(\<forall>Q autoSaved. after_restart autoSaved P' Q \<longrightarrow>
       m_linkedGhidra (notifyViewChanged (Some v) Q) =
         (if vw_projectFile (pn_view P v) = None \<and> \<not> autoSaved then no_link else session_link K repo folder name) \<and>
       (vw_projectFile (pn_view P v) \<noteq> None \<longrightarrow> m_checkedOut (notifyViewChanged (Some v) Q))) \<and>
     (\<forall>Q out autoSaved. vw_projectFile (pn_view P v) \<noteq> None \<and>
         after_restart autoSaved (persistCheckedOutState out (P'\<lparr>m_currentView := Some v\<rparr>)) Q \<longrightarrow>
       m_linkedGhidra (notifyViewChanged (Some v) Q) = session_link K repo folder name \<and>
       m_checkedOut (notifyViewChanged (Some v) Q) = out)"
proof (cases "vw_projectFile (pn_view P v)")
  case None
  have "m_linkedGhidra (notifyViewChanged (Some v) Q) = (if \<not> autoSaved then no_link else session_link K repo folder name)"
    if Q: "after_restart autoSaved P' Q" for Q autoSaved
  proof -
    have "vw_projectFile (pn_view Q v) = None" using None by (simp add: after_restart_queries [OF Q] assms(3) panel_simps)
    moreover have "map_of (vw_meta (pn_view Q v)) ''ghidra.link'' =
        (if autoSaved then Some (bndb_store (m_host K) (scast (m_port K)) (m_user K) repo folder name) else None)"
      using after_restart_view [OF Q] import_writes_view [of K repo folder name v P] by (simp add: assms(3))
    ultimately show ?thesis using reopen_from_view [of Q v K repo folder name] reopen_no_entry [of Q v] by simp
  qed
  with None show ?thesis by simp
next
  case (Some pf)
  then obtain p fid where pf: "vw_projectFile (pn_view P v) = Some (p, fid)" "fid \<noteq> []" using assms(4) by auto
  have "vw_projectFile (pn_view P v) \<noteq> None" using Some by simp
  then show ?thesis
    using reopen_after_import [OF pf assms(3,1,2)] reopen_after_persist [OF pf assms(3,1,2)] by auto
qed

text \<open>Two views of a project, the first linked to an item, the second not yet, and a third outside it\<close>

definition sample_session :: ghidra_conn where
  "sample_session = new_connection\<lparr>m_serverConnected := True, m_host := ''srv'', m_port := 13100, m_user := ''ann''\<rparr>"

definition sample_panel :: panel where
  "sample_panel =
     \<lparr>pn_project = (\<lambda>_. \<lparr>pj_files = [\<lparr>pf_id = ''f1'', pf_name = ''ls'', pf_path = ''/p/ls''\<rparr>, \<lparr>pf_id = ''f2'', pf_name = ''cat'', pf_path = ''/p/cat''\<rparr>],
        pj_meta = [(''ghidra.server'', server_store ''srv'' 13100 ''ann''), (file_key ''f1'', link_store ''R'' ''/'' ''ls'')]\<rparr>),
      pn_view = (\<lambda>v. \<lparr>vw_projectFile = (if v = 0 then Some (0, ''f1'') else if v = 1 then Some (0, ''f2'') else None),
        vw_filename = [], vw_meta = (if v = 2 then [(''ghidra.link'', bndb_store ''srv'' 13100 ''ann'' ''R'' ''/'' ''cp'')] else []), vw_autoKeys = {}\<rparr>),
      pn_contextProject = None, m_currentView = Some 1, m_linkedGhidra = no_link, m_checkedOut = False\<rparr>"

text \<open>What is left of a panel's metadata when the automatic entries of its views are not saved\<close>

definition restart :: "panel \<Rightarrow> panel" where
  "restart P = P\<lparr>pn_view := (\<lambda>w. (pn_view P w)\<lparr>vw_meta := filter (\<lambda>(k, md). k \<notin> vw_autoKeys (pn_view P w)) (vw_meta (pn_view P w))\<rparr>),
     m_currentView := None, m_linkedGhidra := no_link, m_checkedOut := False\<rparr>"

lemma restart_saves: "after_restart False P (restart P)"
  by (simp add: after_restart_def restart_def)

theorem link_survives_restart_witness:
  "m_linkedGhidra (notifyViewChanged (Some 1) (restart (import_metadata sample_session ''R'' ''/'' ''cat'' (Some 1) sample_panel))) =
     session_link sample_session ''R'' ''/'' ''cat'' \<and>
   m_linkedGhidra (notifyViewChanged (Some 3) (restart (import_metadata sample_session ''R'' ''/'' ''cat'' (Some 3) sample_panel))) = no_link"
  using link_survives_restart [of sample_session "''cat''" _ "''R''" "''/''" 1 sample_panel, OF _ _ refl]
    link_survives_restart [of sample_session "''cat''" _ "''R''" "''/''" 3 sample_panel, OF _ _ refl]
    restart_saves [of "import_metadata sample_session ''R'' ''/'' ''cat'' (Some 1) sample_panel"]
    restart_saves [of "import_metadata sample_session ''R'' ''/'' ''cat'' (Some 3) sample_panel"]
  by (auto simp: sample_session_def sample_panel_def)

section \<open>The flag of the menu\<close>

text \<open>
  The flag of one view decides the menu of another. Opening a view that is not in a project takes the
  link from its database but leaves the flag as the previous view set it: the menu of the linked item
  offers a check-in exactly when the previous view was checked out, whatever the state of this item.
\<close>

theorem standalone_flag_stale:
  assumes "vw_projectFile (pn_view P v) = None"
    and "map_of (vw_meta (pn_view P v)) ''ghidra.link'' = Some (MetaStore kv)"
    and "kvStr kv ''host'' \<noteq> []" "kvStr kv ''item'' \<noteq> []"
  shows "effectivelyCheckedOut S (notifyViewChanged (Some v) P) (kvStr kv ''repo'') (kvStr kv ''folder'') (kvStr kv ''item'') \<longleftrightarrow>
     isCheckinItem S (kvStr kv ''repo'') (kvStr kv ''folder'') (kvStr kv ''item'') \<or> m_checkedOut P"
  using assms
  by (simp add: notifyViewChanged_def link_from_project_def link_from_view_def Let_def projectForView_def no_link_def
      link_valid_def effectivelyCheckedOut_def linkedHere_def panel_simps)

theorem standalone_flag_stale_witness:
  "effectivelyCheckedOut initial_checkin
     (notifyViewChanged (Some 2) (persistCheckedOutState True sample_panel)) ''R'' ''/'' ''cp''"
proof -
  have 1: "pn_view (persistCheckedOutState True sample_panel) = pn_view sample_panel" "m_checkedOut (persistCheckedOutState True sample_panel)"
    by (simp_all add: persistCheckedOutState_def Let_def panel_simps split: option.split)
  have 2: "vw_projectFile (pn_view sample_panel 2) = None"
    "map_of (vw_meta (pn_view sample_panel 2)) ''ghidra.link'' =
       Some (MetaStore [(''host'', MetaString ''srv''), (''port'', MetaUInt 13100), (''user'', MetaString ''ann''),
          (''repo'', MetaString ''R''), (''folder'', MetaString ''/''), (''item'', MetaString ''cp'')])"
    by (simp_all add: sample_panel_def bndb_store_def)
  from standalone_flag_stale [of "persistCheckedOutState True sample_panel" 2, unfolded 1, OF 2, of initial_checkin]
  show ?thesis by (simp add: 1)
qed

text \<open>
  Switching views during an import marks the wrong file. The callback that ends an import changes the
  view that is current when it runs: if the user has opened another linked file of a project meanwhile,
  the panel shows the imported item as the link of that file, and the stored entry of that file, which
  names another item, is marked as checked out.
\<close>

theorem import_marks_current_file:
  assumes "vw_projectFile (pn_view P w) = Some (p, fid)" "fid \<noteq> []"
    and "project_meta P p ''ghidra.server'' = Some (MetaStore skv)" "file_link P p fid = Some kv"
    and "kvStr skv ''host'' \<noteq> []" "kvStr kv ''item'' \<noteq> []"
    and "P' = import_done K repo folder name (notifyViewChanged (Some w) P)"
  shows "m_linkedGhidra P' = session_link K repo folder name \<and>
     (\<exists>kv'. file_link P' p fid = Some kv' \<and> kvStr kv' ''item'' = kvStr kv ''item'' \<and> kvStr kv' ''repo'' = kvStr kv ''repo'' \<and>
       kvInt kv' ''checked_out'' = 1)"
proof -
  have n: "notifyViewChanged (Some w) P =
      P\<lparr>m_currentView := Some w, m_linkedGhidra := \<lparr>gl_host = kvStr skv ''host'', gl_user = kvStr skv ''user'',
          gl_repo = kvStr kv ''repo'', gl_folder = kvStr kv ''folder'', gl_item = kvStr kv ''item'', gl_port = kvInt skv ''port''\<rparr>,
        m_checkedOut := kvInt kv ''checked_out'' \<noteq> 0\<rparr>"
    using assms by (simp add: notifyViewChanged_def link_from_project_def link_from_view_def Let_def projectForView_def
        projectFileId_def project_meta_def file_link_def link_valid_def)
  have "P' = change_project_meta p (AList.update (file_key fid) (MetaStore (AList.update ''checked_out'' (MetaUInt 1) kv)))
      (P\<lparr>m_currentView := Some w, m_linkedGhidra := session_link K repo folder name, m_checkedOut := True\<rparr>)"
    using assms(1,2,4) unfolding assms(7) n
    by (simp add: import_done_def persistCheckedOutState_def Let_def projectForView_def projectFileId_def file_link_def
        project_meta_def session_link_def)
  then show ?thesis
    by (simp add: panel_simps file_link_def umap_simps kvInt_def)
qed

theorem import_marks_current_file_witness:
  "m_linkedGhidra (import_done sample_session ''R'' ''/'' ''cat'' (notifyViewChanged (Some 0) sample_panel)) =
     session_link sample_session ''R'' ''/'' ''cat'' \<and>
   (\<exists>kv. file_link (import_done sample_session ''R'' ''/'' ''cat'' (notifyViewChanged (Some 0) sample_panel)) 0 ''f1'' = Some kv \<and>
      kvStr kv ''item'' = ''ls'' \<and> kvInt kv ''checked_out'' = 1)"
proof -
  have 1: "vw_projectFile (pn_view sample_panel 0) = Some (0, ''f1'')"
    "project_meta sample_panel 0 ''ghidra.server'' =
       Some (MetaStore [(''host'', MetaString ''srv''), (''port'', MetaUInt 13100), (''user'', MetaString ''ann'')])"
    "file_link sample_panel 0 ''f1'' =
       Some [(''repo'', MetaString ''R''), (''folder'', MetaString ''/''), (''item'', MetaString ''ls'')]"
    by (simp_all add: sample_panel_def project_meta_def file_link_def server_store_def link_store_def)
  from import_marks_current_file [OF 1(1) _ 1(2,3) _ _ refl, of sample_session "''R''" "''/''" "''cat''"]
  show ?thesis by auto
qed

section \<open>Deleting an item\<close>

lemma names_item_meta:
  "names_item P p repo item pf \<longleftrightarrow>
     (case key_value_store (project_meta P p (file_key (pf_id pf))) of
        None \<Rightarrow> False | Some kv \<Rightarrow> kvStr kv ''repo'' = repo \<and> kvStr kv ''item'' = item)"
  by (simp add: names_item_def file_link_def)

lemma names_item_cong: "pf_id pf' = pf_id pf \<Longrightarrow> names_item P p repo item pf' = names_item P p repo item pf"
  by (simp add: names_item_meta)

lemma project_meta_link [panel_simps]: "project_meta (P\<lparr>m_linkedGhidra := l\<rparr>) q k = project_meta P q k"
  by (simp add: project_meta_def)

lemma delete_meta:
  "project_meta (change_project_meta p (AList.delete k) P) q k' = (if q = p \<and> k' = k then None else project_meta P q k')"
  by (simp add: panel_simps umap_simps project_meta_def [symmetric])

lemma delete_file_link_fields [panel_simps]:
  "m_currentView (delete_file_link p repo item pf P) = m_currentView P"
  "project_meta (delete_file_link p repo item pf P) q k =
     (if q = p \<and> k = file_key (pf_id pf) \<and> names_item P p repo item pf then None else project_meta P q k)"
  by (cases "m_currentView P"; simp add: delete_file_link_def Let_def change_project_fields(2) change_view_fields(2)
      project_meta_link project_lookup_frame(5) delete_meta)+

lemma names_item_step:
  "names_item (delete_file_link p repo item pf P) p repo item pf' \<longleftrightarrow> names_item P p repo item pf' \<and> pf_id pf' \<noteq> pf_id pf"
proof (cases "pf_id pf' = pf_id pf \<and> names_item P p repo item pf")
  case True
  then show ?thesis by (simp add: names_item_meta [of "delete_file_link p repo item pf P"] delete_file_link_fields)
next
  case False
  then have "names_item (delete_file_link p repo item pf P) p repo item pf' = names_item P p repo item pf'"
    unfolding names_item_meta [of _ _ _ _ pf'] by (simp only: delete_file_link_fields file_key_inj if_False simp_thms)
  then show ?thesis using False names_item_cong [of pf' pf P p repo item] by auto
qed

lemma delete_links_fields:
  "m_currentView (fold (delete_file_link p repo item) fs P) = m_currentView P"
  "project_meta (fold (delete_file_link p repo item) fs P) q k =
     (if q = p \<and> (\<exists>pf \<in> set fs. k = file_key (pf_id pf) \<and> names_item P p repo item pf) then None else project_meta P q k)"
proof (induction fs arbitrary: P)
  case (Cons pf fs)
  {
    case 1
    then show ?case by (simp add: Cons.IH panel_simps)
  next
    case 2
    have "(\<exists>pf' \<in> set fs. k = file_key (pf_id pf') \<and> names_item P p repo item pf' \<and> pf_id pf' \<noteq> pf_id pf) \<or>
        k = file_key (pf_id pf) \<and> names_item P p repo item pf \<longleftrightarrow>
        (\<exists>pf' \<in> set (pf # fs). k = file_key (pf_id pf') \<and> names_item P p repo item pf')"
    proof (cases "k = file_key (pf_id pf)")
      case True
      have "names_item P p repo item pf" if "pf_id pf = pf_id pf'" "names_item P p repo item pf'" for pf'
        using that names_item_cong [OF that(1), of P p repo item] by simp
      with True show ?thesis by fastforce
    qed auto
    then show ?case
      unfolding fold_Cons comp_apply Cons.IH names_item_step delete_file_link_fields by auto
  }
qed simp_all

definition unlinked :: "nat \<Rightarrow> panel \<Rightarrow> bool" where
  "unlinked v P \<longleftrightarrow> m_linkedGhidra P = no_link \<and> map_of (vw_meta (pn_view P v)) ''ghidra.link'' = None"

lemma delete_step_unlinks:
  "m_currentView P = Some v \<Longrightarrow> names_item P p repo item pf \<or> unlinked v P \<Longrightarrow> unlinked v (delete_file_link p repo item pf P)"
  by (auto simp: unlinked_def delete_file_link_def Let_def panel_simps umap_simps)

lemma delete_links_unlink:
  "m_currentView P = Some v \<Longrightarrow> (\<exists>pf \<in> set fs. names_item P p repo item pf) \<or> unlinked v P \<Longrightarrow>
   unlinked v (fold (delete_file_link p repo item) fs P)"
proof (induction fs arbitrary: P)
  case (Cons pf fs)
  let ?P = "delete_file_link p repo item pf P"
  show ?case
  proof (cases "names_item P p repo item pf \<or> unlinked v P")
    case True
    then show ?thesis using Cons delete_step_unlinks by (simp add: panel_simps)
  next
    case False
    then have "?P = P" by (simp add: delete_file_link_def)
    then show ?thesis using Cons False by simp
  qed
qed simp

text \<open>
  C32: after an item was deleted from the server no file of the project names it any more, and every other
  entry of the metadata is as before. The entries are found by repository and name only: a file linked to an
  item of that name in another folder loses its link too. And as soon as one entry was removed, the
  view that is open loses its own link, in memory and in its database, whatever file it shows.
\<close>

theorem delete_removes_links:
  assumes "currentOpenProject P (m_currentView P) = Some p" "P' = delete_done repo item P"
  shows "(\<forall>pf \<in> set (pj_files (pn_project P p)). \<not> names_item P' p repo item pf) \<and>
     (\<forall>q k. project_meta P' q k \<noteq> project_meta P q k \<longrightarrow>
        q = p \<and> (\<exists>pf \<in> set (pj_files (pn_project P p)). k = file_key (pf_id pf) \<and> names_item P p repo item pf)) \<and>
     ((\<exists>pf \<in> set (pj_files (pn_project P p)). names_item P p repo item pf) \<and> m_currentView P = Some v \<longrightarrow> unlinked v P')"
proof -
  have P': "P' = fold (delete_file_link p repo item) (pj_files (pn_project P p)) P"
    using assms by (simp add: delete_done_def)
  have "\<not> names_item P' p repo item pf" if "pf \<in> set (pj_files (pn_project P p))" for pf
  proof (cases "names_item P p repo item pf")
    case True
    then have "project_meta P' p (file_key (pf_id pf)) = None" using that by (auto simp: P' delete_links_fields)
    then show ?thesis by (simp add: names_item_meta)
  next
    case False
    then show ?thesis by (auto simp: P' delete_links_fields names_item_meta split: option.splits)
  qed
  moreover have "q = p \<and> (\<exists>pf \<in> set (pj_files (pn_project P p)). k = file_key (pf_id pf) \<and> names_item P p repo item pf)"
    if "project_meta P' q k \<noteq> project_meta P q k" for q k
    using that by (auto simp: P' delete_links_fields split: if_splits)
  ultimately show ?thesis using delete_links_unlink [of P v "pj_files (pn_project P p)" p repo item] unfolding P' by blast
qed

theorem delete_removes_links_witness:
  "unlinked 1 (delete_done ''R'' ''ls'' (sample_panel\<lparr>m_linkedGhidra := session_link sample_session ''R'' ''/'' ''cat''\<rparr>))"
proof -
  let ?P = "sample_panel\<lparr>m_linkedGhidra := session_link sample_session ''R'' ''/'' ''cat''\<rparr>"
  have "currentOpenProject ?P (m_currentView ?P) = Some 0" "m_currentView ?P = Some 1"
    by (simp_all add: sample_panel_def currentOpenProject_def projectForView_def)
  moreover have "\<exists>pf \<in> set (pj_files (pn_project ?P 0)). names_item ?P 0 ''R'' ''ls'' pf"
    by (simp add: sample_panel_def names_item_meta project_meta_def link_store_def)
  ultimately show ?thesis using delete_removes_links [of ?P 0 _ "''R''" "''ls''" 1, OF _ refl] by blast
qed

section \<open>Adding items\<close>

lemma item_key_inj:
  assumes "newline \<notin> set r" "newline \<notin> set f" "newline \<notin> set r'" "newline \<notin> set f'"
  shows "item_key r f i = item_key r' f' i' \<longleftrightarrow> r = r' \<and> f = f' \<and> i = i'"
proof -
  have 1: "r = r' \<and> s = s'" if "r @ newline # s = r' @ newline # s'" "newline \<notin> set r" "newline \<notin> set r'" for r r' s s'
    using that by (simp add: append_eq_append_conv2 append_eq_Cons_conv Cons_eq_append_conv) auto
  show ?thesis
    using 1 [of r "f @ newline # i" r' "f' @ newline # i'"] 1 [of f i f' i'] assms by (auto simp: item_key_def)
qed

lemma linked_file_none:
  "linked_file P p repo folder item = None \<longleftrightarrow> (\<forall>pf \<in> set (pj_files (pn_project P p)). \<not> links_to P p repo folder item pf)"
  by (auto simp: linked_file_def find_None_iff)

lemma links_to_iff:
  "links_to P p repo folder item pf \<longleftrightarrow>
     (\<exists>kv. file_link P p (pf_id pf) = Some kv \<and> kvStr kv ''repo'' = repo \<and> kvStr kv ''folder'' = folder \<and> kvStr kv ''item'' = item)"
  by (simp add: links_to_def split: option.split)

lemma existing_keys_mem:
  "k \<in> set (existing_keys P p) \<longleftrightarrow>
     (\<exists>pf \<in> set (pj_files (pn_project P p)). \<exists>kv. file_link P p (pf_id pf) = Some kv \<and>
        k = item_key (kvStr kv ''repo'') (kvStr kv ''folder'') (kvStr kv ''item''))"
  by (force simp: existing_keys_def List.map_filter_def)

definition line_free :: "string \<Rightarrow> string \<Rightarrow> bool" where
  "line_free repo folder \<longleftrightarrow> newline \<notin> set repo \<and> newline \<notin> set folder"

lemma add_worker_fold:
  "case fold (\<lambda>it (added, failed). case add_one download writable create it of
       None \<Rightarrow> (added, failed + 1) | Some fid \<Rightarrow> (added @ [(fid, it)], failed)) rs (as, n) of
     (added, failed) \<Rightarrow> length added + failed = length as + n + length rs \<and>
       map snd added = map snd as @ filter (\<lambda>r. add_one download writable create r \<noteq> None) rs"
  by (induction rs arbitrary: as n) (simp, fastforce split: option.splits prod.splits)

lemma add_worker_counts:
  "case add_items_worker download writable create rs of
     (added, failed) \<Rightarrow> length added + failed = length rs \<and>
       map snd added = filter (\<lambda>r. add_one download writable create r \<noteq> None) rs"
  using add_worker_fold [where as = "[]" and n = 0] by (simp add: add_items_worker_def)

text \<open>
  A bulk add downloads exactly the selected items no file of the project is linked to, in their order,
  provided no repository or folder name holds a newline; each of them is either added or counted as failed.
\<close>

theorem bulk_adds_missing:
  assumes "\<forall>r \<in> set items. line_free (ir_repo r) (ir_folder r)"
    and "\<forall>pf \<in> set (pj_files (pn_project P p)). \<forall>kv. file_link P p (pf_id pf) = Some kv \<longrightarrow>
           line_free (kvStr kv ''repo'') (kvStr kv ''folder'')"
  shows "bulk_todo P p items = filter (\<lambda>r. linked_file P p (ir_repo r) (ir_folder r) (ir_name r) = None) items \<and>
     (case add_items_worker download writable create (bulk_todo P p items) of
        (added, failed) \<Rightarrow> length added + failed = length (bulk_todo P p items) \<and>
          map snd added = filter (\<lambda>r. add_one download writable create r \<noteq> None) (bulk_todo P p items))"
proof -
  have "item_key (ir_repo r) (ir_folder r) (ir_name r) \<in> set (existing_keys P p) \<longleftrightarrow>
      linked_file P p (ir_repo r) (ir_folder r) (ir_name r) \<noteq> None" if "r \<in> set items" for r
    unfolding existing_keys_mem linked_file_none links_to_iff using assms that item_key_inj
    by (simp add: line_free_def) metis
  then have 1: "bulk_todo P p items = filter (\<lambda>r. linked_file P p (ir_repo r) (ir_folder r) (ir_name r) = None) items"
    unfolding bulk_todo_def by (intro filter_cong) auto
  show ?thesis by (rule conjI [OF 1 add_worker_counts])
qed

theorem bulk_adds_missing_witness:
  "bulk_todo sample_panel 0 [\<lparr>ir_repo = ''R'', ir_folder = ''/'', ir_name = ''ls''\<rparr>, \<lparr>ir_repo = ''R'', ir_folder = ''/'', ir_name = ''cat''\<rparr>] =
     [\<lparr>ir_repo = ''R'', ir_folder = ''/'', ir_name = ''cat''\<rparr>]"
proof -
  have link: "file_link sample_panel 0 fid =
      (if fid = ''f1'' then Some [(''repo'', MetaString ''R''), (''folder'', MetaString ''/''), (''item'', MetaString ''ls'')] else None)" for fid
    by (simp add: sample_panel_def file_link_def project_meta_def link_store_def)
  have files: "pj_files (pn_project sample_panel 0) =
      [\<lparr>pf_id = ''f1'', pf_name = ''ls'', pf_path = ''/p/ls''\<rparr>, \<lparr>pf_id = ''f2'', pf_name = ''cat'', pf_path = ''/p/cat''\<rparr>]"
    by (simp add: sample_panel_def)
  have "newline \<noteq> CHR ''R''" "newline \<noteq> CHR ''/''" by code_simp+
  then show ?thesis
    using bulk_adds_missing [of "[\<lparr>ir_repo = ''R'', ir_folder = ''/'', ir_name = ''ls''\<rparr>,
        \<lparr>ir_repo = ''R'', ir_folder = ''/'', ir_name = ''cat''\<rparr>]" sample_panel 0]
    by (simp add: line_free_def files link linked_file_def links_to_def)
qed

section \<open>Upload\<close>

text \<open>
  An upload sends the annotations of the current view with the bytes of the chosen file. The bytes are
  those of the first open view of the chosen project file; the functions and comments are read from the view
  that is current, and after a success the panel links the current view to the new item, even when
  these are two different files.
\<close>

theorem upload_mixes_views:
  assumes "uploadToGhidra K annotations views pfId accepted P = Some job"
  shows "(\<exists>w \<in> set views. ov_fileId w = Some pfId \<and> uj_bytes job = ov_raw w) \<and>
     uj_bytes job \<noteq> [] \<and> uj_repo job \<noteq> [] \<and> uj_item job \<noteq> [] \<and> take 1 (uj_folder job) = ''/'' \<and> m_serverConnected K \<and>
     uj_analysis job = upload_analysis (map_option annotations (m_currentView P)) \<and>
     m_linkedGhidra (upload_done K job True P) = session_link K (uj_repo job) (uj_folder job) (uj_item job) \<and>
     m_checkedOut (upload_done K job True P) = uj_keep job"
proof -
  obtain d where d: "m_serverConnected K" "accepted = Some d"
    using assms by (auto simp: uploadToGhidra_def split: if_splits option.splits)
  obtain w where w: "find (\<lambda>w. ov_fileId w = Some pfId) views = Some w"
    using assms d by (cases "find (\<lambda>w. ov_fileId w = Some pfId) views") (auto simp: uploadToGhidra_def Let_def split: if_splits)
  then have "w \<in> set views" "ov_fileId w = Some pfId" by (auto simp: find_Some_iff)
  then show ?thesis
    using assms d w
    by (auto simp: uploadToGhidra_def upload_done_def Let_def session_link_def split: if_splits)
qed

theorem upload_mixes_views_witness:
  "\<exists>job. uploadToGhidra sample_session (\<lambda>v. \<lparr>uv_functions = [], uv_commentedAddresses = [0x1000], uv_commentForAddress = (\<lambda>_. if v = 1 then ''cat'' else ''ls'')\<rparr>)
       [\<lparr>ov_fileId = Some ''f1'', ov_raw = ''bytes of ls''\<rparr>] ''f1''
       (Some \<lparr>ud_repo = ''R'', ud_folder = [], ud_item = ''ls'', ud_comment = [], ud_keep = True\<rparr>) sample_panel = Some job \<and>
     uj_bytes job = ''bytes of ls'' \<and>
     uj_analysis job = upload_analysis (Some \<lparr>uv_functions = [], uv_commentedAddresses = [0x1000], uv_commentForAddress = (\<lambda>_. ''cat'')\<rparr>)"
proof -
  let ?ann = "\<lambda>v :: nat. \<lparr>uv_functions = [], uv_commentedAddresses = [0x1000], uv_commentForAddress = (\<lambda>_ :: u64. if v = 1 then ''cat'' else ''ls'')\<rparr>"
  let ?d = "\<lparr>ud_repo = ''R'', ud_folder = [], ud_item = ''ls'', ud_comment = [], ud_keep = True\<rparr>"
  have "trimmed ''R'' = ''R''" "trimmed ''ls'' = ''ls''" "trimmed [] = []" by code_simp+
  then have "\<exists>job. uploadToGhidra sample_session ?ann [\<lparr>ov_fileId = Some ''f1'', ov_raw = ''bytes of ls''\<rparr>] ''f1'' (Some ?d) sample_panel = Some job"
    by (simp add: uploadToGhidra_def sample_session_def new_connection_def Let_def)
  then obtain job where job: "uploadToGhidra sample_session ?ann [\<lparr>ov_fileId = Some ''f1'', ov_raw = ''bytes of ls''\<rparr>] ''f1'' (Some ?d) sample_panel = Some job" ..
  show ?thesis
    using job upload_mixes_views [OF job] by (simp add: sample_panel_def)
qed

end
