(* ===== verification/Review.thy ===== *)
theory Review
  imports Data_Model Text_Num
begin

text \<open>
  The review of a check-in in \<open>ProjectPanel::doCheckinWithState\<close>: the tree of changes the user
  confirms and its summary line. A node is its label with its rows, a row the pair of texts of its two
  columns. Texts are UTF-8 bytes; the shortening of a long comment counts characters in the code, which
  are bytes for the ASCII texts the model is exact for.
\<close>

section \<open>Texts\<close>

type_synonym review_row = "string \<times> string"
type_synonym review_node = "string \<times> review_row list"

definition arrow :: string where
  "arrow = '' '' @ '' '' @ map char_of [226 :: nat, 134, 146] @ '' '' @ '' ''"

definition ellipsis :: string where
  "ellipsis = map char_of [226 :: nat, 128, 166]"

fun join_with :: "string \<Rightarrow> string list \<Rightarrow> string" where
  "join_with sep [] = []"
| "join_with sep [x] = x"
| "join_with sep (x # y # xs) = x @ sep @ join_with sep (y # xs)"

definition count_text :: "nat \<Rightarrow> string" where
  "count_text n = dec_digits n"

definition shorten :: "string \<Rightarrow> string" where
  "shorten txt = (if length txt > 80 then take 77 txt @ ellipsis else txt)"

section \<open>The tree\<close>

text \<open>A category is a node only when it has entries.\<close>

definition review_category :: "string \<Rightarrow> review_row list \<Rightarrow> review_node list" where
  "review_category title rows = (if rows = [] then [] else [(title @ '' ('' @ count_text (length rows) @ '')'', rows)])"

definition rename_row :: "SymbolRename \<Rightarrow> review_row" where
  "rename_row r = (sr_originalName r @ arrow @ sr_newName r, print_hex (sr_addr r))"

definition comment_row :: "CommentChange \<Rightarrow> review_row" where
  "comment_row c = (shorten (cc_text c), print_hex (cc_addr c))"

definition type_row :: "DataTypeChange \<Rightarrow> review_row" where
  "type_row dt = (''['' @ tc_op dt @ ''] '' @ tc_kind dt @ '' '' @ tc_name dt, [])"

definition symbol_row :: "NewSymbol \<Rightarrow> review_row" where
  "symbol_row s = (ns_name s, print_hex (ns_addr s))"

definition bookmark_row :: "BookmarkChange \<Rightarrow> review_row" where
  "bookmark_row b = (''['' @ bc_op b @ ''] '' @ bc_category b, print_hex (bc_addr b))"

definition equate_row :: "EquateRename \<Rightarrow> review_row" where
  "equate_row e = (qr_name e, [])"

definition equateRef_row :: "NewEquateRef \<Rightarrow> review_row" where
  "equateRef_row r =
     (''equate id '' @ to_string_i64 (nr_equateId r) @ '', op '' @ to_string_i32 (nr_opIndex r), print_hex (nr_addr r))"

definition with_type :: "string \<Rightarrow> string \<Rightarrow> string" where
  "with_type detail typeName = (if typeName \<noteq> [] then detail @ '' ('' @ typeName @ '')'' else detail)"

definition param_row :: "ParamRename \<Rightarrow> review_row" where
  "param_row p = (with_type (pr_name p) (pr_typeName p), ''key '' @ to_string_i64 (pr_key p))"

definition newParam_row :: "NewParam \<Rightarrow> review_row" where
  "newParam_row p = (with_type (''[new] '' @ np_name p) (np_typeName p), print_hex (np_funcAddr p))"

definition funcSig_row :: "FuncSigChange \<Rightarrow> review_row" where
  "funcSig_row f =
     (let parts = (if sc_callingConvention f \<noteq> [] then [''cc: '' @ sc_callingConvention f] else []) @
                  (if sc_returnTypeName f \<noteq> [] then [''ret: '' @ sc_returnTypeName f] else [])
      in (if parts = [] then ''(signature)'' else join_with '', '' parts,
          ''key '' @ to_string_i64 (sc_key f)))"

definition dataItem_row :: "DataItemChange \<Rightarrow> review_row" where
  "dataItem_row d = (''['' @ ic_op d @ ''] '' @ ic_typeName d, print_hex (ic_addr d))"

definition review_tree :: "GhidraCheckinPreview \<Rightarrow> review_node list" where
  "review_tree p =
     review_category ''Symbol renames'' (map rename_row (pv_renames p)) @
     review_category ''Comment updates'' (map comment_row (pv_comments p)) @
     review_category ''Data type changes'' (map type_row (pv_dataTypeChanges p)) @
     review_category ''New symbols'' (map symbol_row (pv_newSymbols p)) @
     review_category ''Bookmark changes'' (map bookmark_row (pv_bookmarkChanges p)) @
     review_category ''Equate renames'' (map equate_row (pv_equateRenames p)) @
     review_category ''New equate bindings'' (map equateRef_row (pv_newEquateRefs p)) @
     review_category ''Parameter/variable changes''
       (map param_row (pv_paramRenames p) @ map newParam_row (pv_newParams p)) @
     review_category ''Function signature changes'' (map funcSig_row (pv_funcSigChanges p)) @
     review_category ''Data item changes'' (map dataItem_row (pv_dataItemChanges p))"

section \<open>The summary line\<close>

definition summary_part :: "nat \<Rightarrow> string \<Rightarrow> string list" where
  "summary_part n what = (if n = 0 then [] else [count_text n @ what])"

definition summaryParts :: "GhidraCheckinPreview \<Rightarrow> string list" where
  "summaryParts p =
     summary_part (length (pv_renames p)) '' rename(s)'' @
     summary_part (length (pv_comments p)) '' comment(s)'' @
     summary_part (length (pv_dataTypeChanges p)) '' type(s)'' @
     summary_part (length (pv_newSymbols p)) '' new symbol(s)'' @
     summary_part (length (pv_bookmarkChanges p)) '' bookmark(s)'' @
     summary_part (length (pv_equateRenames p)) '' equate rename(s)'' @
     summary_part (length (pv_newEquateRefs p)) '' equate binding(s)'' @
     summary_part (length (pv_paramRenames p) + length (pv_newParams p)) '' param/var change(s)'' @
     summary_part (length (pv_funcSigChanges p)) '' func sig(s)'' @
     summary_part (length (pv_dataItemChanges p)) '' data item(s)''"

definition review_summary :: "GhidraCheckinPreview \<Rightarrow> string" where
  "review_summary p = join_with ('','' @ '' '' @ '' '') (summaryParts p)"

section \<open>What the review shows\<close>

lemma review_category_rows: "concat (map snd (review_category t rows)) = rows"
  by (simp add: review_category_def)

lemma review_category_nil [simp]: "review_category t rows = [] \<longleftrightarrow> rows = []"
  by (simp add: review_category_def)

lemma summary_part_nil [simp]: "summary_part n what = [] \<longleftrightarrow> n = 0"
  by (simp add: summary_part_def)

lemma review_category_length: "length (review_category t rows) = (if rows = [] then 0 else 1)"
  by (simp add: review_category_def)

lemma summary_part_length: "length (summary_part n what) = (if n = 0 then 0 else 1)"
  by (simp add: summary_part_def)

lemma review_tree_rows:
  "concat (map snd (review_tree p)) =
     map rename_row (pv_renames p) @ map comment_row (pv_comments p) @ map type_row (pv_dataTypeChanges p) @
     map symbol_row (pv_newSymbols p) @ map bookmark_row (pv_bookmarkChanges p) @
     map equate_row (pv_equateRenames p) @ map equateRef_row (pv_newEquateRefs p) @
     map param_row (pv_paramRenames p) @ map newParam_row (pv_newParams p) @
     map funcSig_row (pv_funcSigChanges p) @ map dataItem_row (pv_dataItemChanges p)"
  by (simp add: review_tree_def review_category_rows)

lemma review_empty_iff: "review_tree p = [] \<longleftrightarrow> preview_empty p"
  by (auto simp: review_tree_def preview_empty_def)

lemma review_summary_lines: "length (review_tree p) = length (summaryParts p)"
  by (simp add: review_tree_def summaryParts_def review_category_length summary_part_length)

end
