(* ===== verification/Panel_Checkin.thy ===== *)
theory Panel_Checkin
  imports Panel_Props Import_Props Review Checkin
begin

text \<open>
  The check-in as the panel runs it: \<open>doCheckin\<close> restores a lost check-in state from the server,
  \<open>doCheckinWithState\<close> computes the changes, shows them for review and asks for a comment, and the
  worker sends them; a checkout can be terminated instead. The answers of the dialogs are a record.
\<close>

section \<open>doCheckin\<close>

datatype checkin_start = StartNoView | StartNotConnected | StartRestore string string string | StartReview

definition doCheckin :: "ghidra_conn \<Rightarrow> checkin_state \<Rightarrow> panel \<Rightarrow> checkin_start" where
  "doCheckin K S P =
     (if m_currentView P = None then StartNoView
      else if \<not> hasCheckinState S \<and> link_valid (m_linkedGhidra P) then
        (if \<not> m_serverConnected K then StartNotConnected
         else StartRestore (gl_repo (m_linkedGhidra P)) (gl_folder (m_linkedGhidra P)) (gl_item (m_linkedGhidra P)))
      else StartReview)"

text \<open>The worker that restores the state; the first component says whether the review follows\<close>

definition restore_checkin ::
    "('v, 'f, 't, 'g) bn_api \<Rightarrow> GhidraDbExport result \<Rightarrow> string \<Rightarrow> string \<Rightarrow> string \<Rightarrow> 'v option \<Rightarrow> checkin_state \<Rightarrow>
     bool \<times> checkin_state" where
  "restore_checkin A answer repo folder item view S =
     (let (err, data) = open_outcome answer in
      if err \<noteq> [] then (False, S)
      else (True, storeCheckinState (to_store_args (buildWritebackMaps A view data) repo folder item) S))"

section \<open>doCheckinWithState\<close>

text \<open>Whether a terminate question is answered with yes, whether the review is accepted, and the comment if its dialog is\<close>

record checkin_answers =
  ca_terminate :: bool
  ca_accept :: bool
  ca_comment :: "string option"

datatype checkin_task = NoTask | TerminateTask string string string | CheckinTask GhidraCheckinPreview string

definition doCheckinWithState :: "bn_view option \<Rightarrow> checkin_state \<Rightarrow> checkin_answers \<Rightarrow> checkin_task result" where
  "doCheckinWithState view S d =
     (if view = None then Inr NoTask
      else
        res_bind (collectCheckinChanges S view) (\<lambda>preview.
        Inr (if preview_empty preview then
               (if hasCheckinState S \<and> ca_terminate d
                then TerminateTask (m_checkinRepo S) (m_checkinFolder S) (m_checkinItem S) else NoTask)
             else if \<not> ca_accept d then NoTask
             else case ca_comment d of
               None \<Rightarrow> NoTask
             | Some comment \<Rightarrow> if trimmed comment = [] then NoTask else CheckinTask preview comment)))"

text \<open>The worker of a check-in: success, error text and state; the callback then changes the panel\<close>

definition checkin_worker ::
    "'j json_lib \<Rightarrow> bool \<Rightarrow> bool \<Rightarrow> ('j \<Rightarrow> nat \<Rightarrow> 'j result) \<Rightarrow> bn_view \<Rightarrow> GhidraCheckinPreview \<Rightarrow> string \<Rightarrow> checkin_state \<Rightarrow>
     bool \<times> string \<times> checkin_state" where
  "checkin_worker J bridgeConnected serverConnected send V preview comment S =
     (let r = checkin J bridgeConnected serverConnected send V preview comment [] S
      in (out_ok r, out_error r, if out_ok r then clearCheckinState (out_state r) else out_state r))"

definition checkin_done :: "bool \<Rightarrow> panel \<Rightarrow> panel" where
  "checkin_done success P = (if success then persistCheckedOutState False P else P)"

section \<open>Terminating a checkout\<close>

definition own_checkout :: "string \<Rightarrow> CheckoutInfo list \<Rightarrow> i64" where
  "own_checkout user checkouts = (case find (\<lambda>co. co_user co = user) checkouts of None \<Rightarrow> - 1 | Some co \<Rightarrow> co_id co)"

text \<open>
  The worker: the ids \<open>terminateCheckout\<close> is called with, the error text and the state. \<open>checkouts\<close> is the
  answer of \<open>getCheckouts\<close>, \<open>terminate\<close> that of \<open>terminateCheckout\<close>.
\<close>

definition terminate_worker ::
    "string \<Rightarrow> CheckoutInfo list result \<Rightarrow> (i64 \<Rightarrow> unit result) \<Rightarrow> checkin_state \<Rightarrow> i64 list \<times> string \<times> checkin_state" where
  "terminate_worker user checkouts terminate S =
     (let (err, cos) = (case checkouts of Inl e \<Rightarrow> (e, []) | Inr cs \<Rightarrow> ([], cs));
          coId = own_checkout user cos;
          (calls, err) = (if 0 <=s coId then ([coId], case terminate coId of Inl e \<Rightarrow> e | Inr _ \<Rightarrow> err) else ([], err))
      in (calls, err, clearCheckinState S))"

definition terminate_done :: "panel \<Rightarrow> panel" where
  "terminate_done P = persistCheckedOutState False P"

section \<open>Lemmas\<close>

lemma checkin_single_request:
  assumes "send (checkin_request J S V p comment) 120000 = send' (checkin_request J S V p comment) 120000"
  shows "checkin J bc sc send V p comment err S = checkin J bc sc send' V p comment err S"
proof -
  have same: "checkin_exchange J send V p comment S = checkin_exchange J send' V p comment S"
    by (simp add: checkin_exchange_def assms)
  show ?thesis unfolding checkin_def same ..
qed

lemma checkin_failed_state: "\<not> out_ok (checkin J bc sc send V p comment err S) \<Longrightarrow> out_state (checkin J bc sc send V p comment err S) = S"
  by (auto simp: checkin_def Let_def split: if_splits sum.splits)

lemma persist_flag: "m_checkedOut (persistCheckedOutState val P) = val"
  by (simp add: persistCheckedOutState_def Let_def panel_simps split: option.split)

definition change_count :: "GhidraCheckinPreview \<Rightarrow> nat" where
  "change_count p =
     length (pv_renames p) + length (pv_comments p) + length (pv_dataTypeChanges p) + length (pv_newSymbols p) +
     length (pv_bookmarkChanges p) + length (pv_equateRenames p) + length (pv_newEquateRefs p) +
     length (pv_paramRenames p) + length (pv_newParams p) + length (pv_funcSigChanges p) + length (pv_dataItemChanges p)"

lemma review_shows_all: "length (concat (map snd (review_tree p))) = change_count p"
  by (simp only: review_tree_rows length_append length_map change_count_def add.assoc)

lemma restored_maps:
  assumes "restore_checkin A (Inr data) repo folder item (Some v) S = (True, S')"
  shows "map_of (m_addrToKey S') b = last_entry (import_rebase (ap_start A v) data) sym_addr sym_key (ex_symbols data) b"
    and "map_of (m_addrToOriginalName S') b = last_entry (import_rebase (ap_start A v) data) sym_addr sym_name (ex_symbols data) b"
proof -
  have S': "S' = storeCheckinState (to_store_args (buildWritebackMaps A (Some v) data) repo folder item) S"
    using assms by (simp add: restore_checkin_def open_outcome_def)
  show "map_of (m_addrToKey S') b = last_entry (import_rebase (ap_start A v) data) sym_addr sym_key (ex_symbols data) b"
    "map_of (m_addrToOriginalName S') b = last_entry (import_rebase (ap_start A v) data) sym_addr sym_name (ex_symbols data) b"
    by (simp_all add: S' store_eqs to_store_args_def build_eqs map_of_update_all_last)
qed

lemma collect_renames_mem:
  assumes "map_of (m_addrToKey S) b = Some k" "map_of (m_addrToOriginalName S) b = Some n'"
    and "bv_symbolByAddress V b = Some n" "n \<noteq> n'"
  shows "\<lparr>sr_key = k, sr_addr = b, sr_originalName = n', sr_newName = n\<rparr> \<in> set (collect_renames S V)"
proof -
  have "(b, k) \<in> set (m_addrToKey S)" using assms(1) by (rule map_of_SomeD)
  then show ?thesis
    using assms unfolding collect_renames_def List.map_filter_def by (force simp: find_or_def Let_def)
qed

section \<open>Properties\<close>

text \<open>
  C9: Nothing is checked in that was not reviewed. A check-in is started only for changes the diff has found
  in the open view, after the user accepted the review and gave a comment that is not blank. The review has a row for
  every change, and its summary a part for every category. The worker sends at most the one request built from
  exactly these changes and this comment; after a success no check-in state and no checked-out flag are left, after
  a failure both are as before.
\<close>

theorem checkin_only_reviewed:
  assumes "doCheckinWithState view S d = Inr (CheckinTask preview comment)"
    and "checkin_worker J bc sc send V preview comment T = (success, err, T')"
  shows "collectCheckinChanges S view = Inr preview \<and> \<not> preview_empty preview \<and> ca_accept d \<and> ca_comment d = Some comment \<and>
     trimmed comment \<noteq> [] \<and>
     length (concat (map snd (review_tree preview))) = change_count preview \<and> change_count preview > 0 \<and>
     length (review_tree preview) = length (summaryParts preview) \<and>
     (\<forall>send'. send' (checkin_request J T V preview comment) 120000 = send (checkin_request J T V preview comment) 120000 \<longrightarrow>
        checkin_worker J bc sc send' V preview comment T = (success, err, T')) \<and>
     (success \<longrightarrow> \<not> hasCheckinState T' \<and> \<not> m_checkedOut (checkin_done success P)) \<and>
     (\<not> success \<longrightarrow> T' = T \<and> checkin_done success P = P)"
proof -
  have r: "collectCheckinChanges S view = Inr preview" "\<not> preview_empty preview" "ca_accept d" "ca_comment d = Some comment" "trimmed comment \<noteq> []"
    using assms(1) by (cases "collectCheckinChanges S view"; auto simp: doCheckinWithState_def split: if_splits option.splits)+
  have "change_count preview > 0" using r(2) by (auto simp: preview_empty_def change_count_def)
  moreover have "checkin_worker J bc sc send' V preview comment T = (success, err, T')"
    if "send' (checkin_request J T V preview comment) 120000 = send (checkin_request J T V preview comment) 120000" for send'
    using assms(2) checkin_single_request [where send = send' and send' = send, OF that, of bc sc "[]"]
    by (simp add: checkin_worker_def)
  moreover have "success \<longrightarrow> \<not> hasCheckinState T' \<and> \<not> m_checkedOut (checkin_done success P)"
    using assms(2) by (auto simp: checkin_worker_def Let_def clear_eq hasCheckinState_def initial_checkin_def checkin_done_def persist_flag)
  moreover have "\<not> success \<longrightarrow> T' = T \<and> checkin_done success P = P"
    using assms(2) checkin_failed_state by (auto simp: checkin_worker_def Let_def checkin_done_def)
  ultimately show ?thesis using r by (simp add: review_shows_all review_summary_lines)
qed

definition renamed_state :: checkin_state where
  "renamed_state = initial_checkin\<lparr>m_checkinItem := ''ls'', m_addrToKey := [(0x1000, 7)], m_addrToOriginalName := [(0x1000, ''old'')]\<rparr>"

definition renamed_view :: bn_view where
  "renamed_view = (empty_view 0)\<lparr>bv_symbolByAddress := (\<lambda>a. if a = 0x1000 then Some ''new'' else None)\<rparr>"

definition one_rename :: GhidraCheckinPreview where
  "one_rename = default_GhidraCheckinPreview\<lparr>pv_renames := [\<lparr>sr_key = 7, sr_addr = 0x1000, sr_originalName = ''old'', sr_newName = ''new''\<rparr>]\<rparr>"

theorem checkin_only_reviewed_witness:
  "length (concat (map snd (review_tree one_rename))) = 1 \<and>
   checkin_worker tree_json False True (\<lambda>req t. Inl ''timeout'') renamed_view one_rename ''mine'' renamed_state =
     (False, ''Bridge not connected'', renamed_state)"
proof -
  have "collectCheckinChanges renamed_state (Some renamed_view) = Inr one_rename" by code_simp
  moreover have "preview_empty one_rename = False" "trimmed ''mine'' \<noteq> []" by code_simp+
  ultimately have task: "doCheckinWithState (Some renamed_view) renamed_state
      \<lparr>ca_terminate = False, ca_accept = True, ca_comment = Some ''mine''\<rparr> = Inr (CheckinTask one_rename ''mine'')"
    by (simp add: doCheckinWithState_def)
  have worker: "checkin_worker tree_json False True (\<lambda>req t. Inl ''timeout'') renamed_view one_rename ''mine'' renamed_state =
      (False, ''Bridge not connected'', renamed_state)"
    by (simp add: checkin_worker_def checkin_def)
  have "change_count one_rename = 1"
    by (simp add: change_count_def one_rename_def default_GhidraCheckinPreview_def)
  then show ?thesis using checkin_only_reviewed [OF task worker] worker by simp
qed


definition server_renamed :: GhidraDbExport where
  "server_renamed = default_GhidraDbExport\<lparr>ex_symbols :=
     [\<lparr>sym_key = 7, sym_name = ''theirs'', sym_addr = 0x1000, sym_type = SymFunction, sym_source = SrcUser, sym_namespaceId = 0\<rparr>]\<rparr>"


text \<open>
  C36: Terminating a checkout asks the server to end only a checkout of the connected user, and at most one. The
  check-in state is dropped whatever the server answers: also when the list of checkouts could not be read or the server
  refused, so the panel then no longer knows of a checkout that still exists.
\<close>

theorem terminate_own_checkout_only:
  assumes "terminate_worker user checkouts terminate S = (calls, err, S')"
  shows "length calls \<le> 1 \<and> (\<forall>i \<in> set calls. \<exists>cs co. checkouts = Inr cs \<and> co \<in> set cs \<and> co_user co = user \<and> co_id co = i) \<and>
     \<not> hasCheckinState S' \<and> \<not> m_checkedOut (terminate_done P) \<and>
     (\<forall>e. checkouts = Inl e \<longrightarrow> calls = [] \<and> err = e)"
proof -
  have own: "\<exists>co \<in> set cs. co_user co = user \<and> co_id co = own_checkout user cs" if "0 <=s own_checkout user cs" for cs
  proof (cases "find (\<lambda>co. co_user co = user) cs")
    case None
    with that show ?thesis by (simp add: own_checkout_def)
  next
    case (Some co)
    then have "co \<in> set cs" "co_user co = user" by (auto simp: find_Some_iff)
    then show ?thesis by (auto simp: own_checkout_def Some)
  qed
  have "\<not> 0 <=s own_checkout user []" by (simp add: own_checkout_def)
  moreover have "\<not> hasCheckinState (clearCheckinState S)" by (simp add: clear_eq hasCheckinState_def initial_checkin_def)
  ultimately show ?thesis
    using assms own unfolding terminate_done_def persist_flag
    by (cases checkouts) (force simp: terminate_worker_def Let_def split: if_splits)+
qed

theorem terminate_own_checkout_only_witness:
  "case terminate_worker ''ann'' (Inl ''timeout'') (\<lambda>_. Inr ()) renamed_state of
     (calls, err, S') \<Rightarrow> calls = [] \<and> err = ''timeout'' \<and> \<not> hasCheckinState S'"
  by (cases "terminate_worker ''ann'' (Inl ''timeout'') (\<lambda>_. Inr ()) renamed_state")
    (use terminate_own_checkout_only in fastforce)

end
