(* ===== verification/Panel_Tree.thy ===== *)
theory Panel_Tree
  imports Panel_Ops
begin

text \<open>
  The repository tree of the panel and the enumeration of a folder. Nodes of the tree are numbered and a node
  that was deleted with the tree is no longer among \<open>rt_nodes\<close>; a callback that would use such a node is the
  value \<open>None\<close>. The workers' replies arrive in any order between the other events, as a step relation. The
  generation counter is a natural number: it counts rebuilds of the tree and stays far below \<open>2^31\<close>.
\<close>

section \<open>The tree\<close>

record tree_node =
  tn_parent :: "nat option"
  tn_kind :: string
  tn_repo :: string
  tn_folder :: string
  tn_name :: string
  tn_label :: string
  tn_placeholder :: bool

text \<open>A fetch in flight: the node to fill, its repository and folder, and the generation at dispatch\<close>

record expand_call =
  xc_parent :: nat
  xc_repo :: string
  xc_folder :: string
  xc_gen :: nat

record repo_tree =
  rt_nodes :: "(nat, tree_node) umap"
  rt_next :: nat
  rt_calls :: "expand_call list"
  m_treeGeneration :: nat
  rt_detached :: "(nat, tree_node) umap"

definition empty_tree :: repo_tree where
  "empty_tree = \<lparr>rt_nodes = [], rt_next = 0, rt_calls = [], m_treeGeneration = 0, rt_detached = []\<rparr>"

definition add_node :: "tree_node \<Rightarrow> repo_tree \<Rightarrow> repo_tree" where
  "add_node n T = T\<lparr>rt_nodes := (rt_next T, n) # rt_nodes T, rt_next := Suc (rt_next T)\<rparr>"

definition repo_node :: "string \<Rightarrow> tree_node" where
  "repo_node name =
     \<lparr>tn_parent = None, tn_kind = ''repo'', tn_repo = name, tn_folder = [], tn_name = [], tn_label = name, tn_placeholder = True\<rparr>"

definition populateRepos :: "string list \<Rightarrow> repo_tree \<Rightarrow> repo_tree" where
  "populateRepos repos T =
     fold (\<lambda>name. add_node (repo_node name)) repos (T\<lparr>m_treeGeneration := Suc (m_treeGeneration T), rt_nodes := []\<rparr>)"

text \<open>The callback of \<open>onDisconnectClicked\<close> clears the tree.\<close>

definition disconnect_done :: "repo_tree \<Rightarrow> repo_tree" where
  "disconnect_done T = T\<lparr>rt_nodes := []\<rparr>"

definition expandFolder :: "nat \<Rightarrow> string \<Rightarrow> string \<Rightarrow> repo_tree \<Rightarrow> repo_tree" where
  "expandFolder parent repo folder T =
     T\<lparr>rt_calls := rt_calls T @ [\<lparr>xc_parent = parent, xc_repo = repo, xc_folder = folder, xc_gen = m_treeGeneration T\<rparr>]\<rparr>"

definition onRepoItemExpanded :: "nat \<Rightarrow> repo_tree \<Rightarrow> repo_tree" where
  "onRepoItemExpanded i T =
     (case map_of (rt_nodes T) i of
        None \<Rightarrow> T
      | Some n \<Rightarrow>
          let folder = (if tn_folder n = [] then ''/'' else tn_folder n) in
          if tn_placeholder n
          then expandFolder i (tn_repo n) folder (T\<lparr>rt_nodes := AList.update i (n\<lparr>tn_placeholder := False\<rparr>) (rt_nodes T)\<rparr>)
          else T)"

definition folder_node :: "nat \<Rightarrow> tree_node \<Rightarrow> string \<Rightarrow> tree_node" where
  "folder_node parent n sf =
     \<lparr>tn_parent = Some parent, tn_kind = ''folder'', tn_repo = tn_repo n,
      tn_folder = (if tn_folder n = [] then ''/'' else tn_folder n) @ sf @ ''/'', tn_name = [], tn_label = sf, tn_placeholder = True\<rparr>"

definition item_node :: "nat \<Rightarrow> tree_node \<Rightarrow> RepoItem \<Rightarrow> tree_node" where
  "item_node parent n ri =
     \<lparr>tn_parent = Some parent, tn_kind = ''item'', tn_repo = tn_repo n, tn_folder = ri_parentPath ri, tn_name = ri_name ri,
      tn_label = ri_name ri @ (if 0 <=s ri_version ri then '' [v'' @ to_string_i32 (ri_version ri) @ '']'' else []),
      tn_placeholder = False\<rparr>"

text \<open>The callback of \<open>expandFolder\<close> with the worker's results; \<open>None\<close> is the use of a deleted node\<close>

definition expand_reply :: "expand_call \<Rightarrow> string list \<Rightarrow> RepoItem list \<Rightarrow> string \<Rightarrow> repo_tree \<Rightarrow> repo_tree option" where
  "expand_reply e subfolders items err T =
     (if xc_gen e \<noteq> m_treeGeneration T then Some T
      else if err \<noteq> [] then Some T
      else if subfolders = [] \<and> items = [] then Some T
      else case map_of (rt_nodes T @ rt_detached T) (xc_parent e) of
        None \<Rightarrow> None
      | Some n \<Rightarrow>
          Some (fold (\<lambda>ri. add_node (item_node (xc_parent e) n ri)) items
                 (fold (\<lambda>sf. add_node (folder_node (xc_parent e) n sf)) subfolders T)))"

text \<open>
  After an upload the contents of the repository are fetched anew: the children of its node are taken out of the tree,
  which does not delete them, and the node is opened with a new placeholder.
\<close>

definition top_level :: "repo_tree \<Rightarrow> (nat \<times> tree_node) list" where
  "top_level T = rev (filter (\<lambda>(i, n). tn_parent n = None) (rt_nodes T))"

definition descendants :: "nat \<Rightarrow> (nat \<times> tree_node) list \<Rightarrow> nat list" where
  "descendants i nodes =
     foldr (\<lambda>(j, n) ds. case tn_parent n of None \<Rightarrow> ds | Some p \<Rightarrow> if p = i \<or> p \<in> set ds then j # ds else ds) nodes []"

definition reload_repo :: "string \<Rightarrow> repo_tree \<Rightarrow> repo_tree" where
  "reload_repo repo T =
     (case find (\<lambda>(i, n). tn_repo n = repo) (top_level T) of
        None \<Rightarrow> T
      | Some (i, n) \<Rightarrow>
          let ds = descendants i (rt_nodes T) in
          onRepoItemExpanded i
            (T\<lparr>rt_nodes := AList.update i (n\<lparr>tn_placeholder := True\<rparr>) (filter (\<lambda>(j, _). j \<notin> set ds) (rt_nodes T)),
               rt_detached := filter (\<lambda>(j, _). j \<in> set ds) (rt_nodes T) @ rt_detached T\<rparr>))"

text \<open>
  The events of the tree, with \<open>d\<close> whether a disconnect may happen. A reply removes its call whether or not it
  changes the tree.
\<close>

inductive tree_step :: "bool \<Rightarrow> repo_tree \<Rightarrow> repo_tree \<Rightarrow> bool" for d where
  refresh: "tree_step d T (populateRepos repos T)"
| expand: "tree_step d T (onRepoItemExpanded i T)"
| reply: "e \<in> set (rt_calls T) \<Longrightarrow> expand_reply e subfolders items err T = Some T' \<Longrightarrow>
    tree_step d T (T'\<lparr>rt_calls := remove1 e (rt_calls T')\<rparr>)"
| reload: "tree_step d T (reload_repo repo T)"
| disconnected: "d \<Longrightarrow> tree_step d T (disconnect_done T)"

abbreviation tree_reachable :: "bool \<Rightarrow> repo_tree \<Rightarrow> bool" where
  "tree_reachable d \<equiv> reached (tree_step d) empty_tree"

section \<open>Enumerating a folder\<close>

text \<open>
  The loop of \<open>createProjectFromNode\<close> over a stack of folders, its top first, with fuel; \<open>items\<close> and \<open>subs\<close>
  are what \<open>listItems\<close> and \<open>getSubfolders\<close> return, an empty list after an error.
\<close>

fun enumerate_loop ::
    "string \<Rightarrow> (string \<Rightarrow> RepoItem list) \<Rightarrow> (string \<Rightarrow> string list) \<Rightarrow> nat \<Rightarrow> string list \<Rightarrow> RepoItemRef list \<Rightarrow>
     RepoItemRef list option" where
  "enumerate_loop repo items subs fuel [] found = Some found"
| "enumerate_loop repo items subs 0 (f # queue) found = None"
| "enumerate_loop repo items subs (Suc fuel) (f # queue) found =
     enumerate_loop repo items subs fuel
       (rev (map (\<lambda>sf. (if f = ''/'' then ''/'' else f) @ sf @ ''/'') (subs f)) @ queue)
       (found @ map (\<lambda>it. \<lparr>ir_repo = repo, ir_folder = ri_parentPath it, ir_name = ri_name it\<rparr>) (items f))"

section \<open>Invariant of the tree\<close>

definition alive :: "repo_tree \<Rightarrow> nat set" where
  "alive T = fst ` set (rt_nodes T) \<union> fst ` set (rt_detached T)"

lemma alive_lookup: "map_of (rt_nodes T @ rt_detached T) i = None \<longleftrightarrow> i \<notin> alive T"
  by (auto simp: alive_def map_of_eq_None_iff simp del: map_of_append)

definition calls_valid :: "repo_tree \<Rightarrow> bool" where
  "calls_valid T \<longleftrightarrow>
     list_all (\<lambda>e. xc_gen e \<le> m_treeGeneration T \<and> (xc_gen e = m_treeGeneration T \<longrightarrow> xc_parent e \<in> alive T)) (rt_calls T)"

lemma add_node_fields [simp]:
  "rt_calls (add_node n T) = rt_calls T" "m_treeGeneration (add_node n T) = m_treeGeneration T"
  by (simp_all add: add_node_def)

lemma add_node_valid: "calls_valid T \<Longrightarrow> calls_valid (add_node n T)"
  by (auto simp: calls_valid_def add_node_def list_all_iff alive_def)

lemma add_nodes_valid: "calls_valid T \<Longrightarrow> calls_valid (fold (\<lambda>x. add_node (f x)) xs T)"
  by (rule fold_inv [of calls_valid]) (simp_all add: add_node_valid)

lemma populate_valid: "calls_valid T \<Longrightarrow> calls_valid (populateRepos repos T)"
  unfolding populateRepos_def by (rule add_nodes_valid) (auto simp: calls_valid_def list_all_iff)

lemma expand_valid: "calls_valid T \<Longrightarrow> calls_valid (onRepoItemExpanded i T)"
  by (auto simp: onRepoItemExpanded_def expandFolder_def calls_valid_def list_all_iff Let_def alive_def dom_update split: option.split)

lemma reply_valid: "calls_valid T \<Longrightarrow> expand_reply e subs items err T = Some T' \<Longrightarrow> calls_valid T'"
  by (auto simp: expand_reply_def add_nodes_valid split: if_splits option.splits)

lemma filter_keys: "fst ` set (filter (\<lambda>(j, _). P j) xs) = {j \<in> fst ` set xs. P j}"
  by force

lemma reload_valid: "calls_valid T \<Longrightarrow> calls_valid (reload_repo repo T)"
proof (cases "find (\<lambda>(i, n). tn_repo n = repo) (top_level T)")
  case (Some x)
  obtain i n where x: "x = (i, n)" by (cases x)
  define U where "U = T\<lparr>rt_nodes := AList.update i (n\<lparr>tn_placeholder := True\<rparr>) (filter (\<lambda>(j, _). j \<notin> set (descendants i (rt_nodes T))) (rt_nodes T)),
      rt_detached := filter (\<lambda>(j, _). j \<in> set (descendants i (rt_nodes T))) (rt_nodes T) @ rt_detached T\<rparr>"
  assume "calls_valid T"
  moreover have "alive T \<subseteq> alive U"
    unfolding alive_def U_def by (simp add: dom_update filter_keys image_Un) blast
  ultimately have "calls_valid U" by (auto simp: calls_valid_def list_all_iff U_def)
  then show ?thesis using Some by (simp add: reload_repo_def x Let_def U_def [symmetric] expand_valid)
qed (simp add: reload_repo_def)

lemma calls_valid_remove: "calls_valid T \<Longrightarrow> calls_valid (T\<lparr>rt_calls := remove1 e (rt_calls T)\<rparr>)"
  by (auto simp: calls_valid_def list_all_iff alive_def dest: notin_set_remove1)

interpretation tree_calls: step_invariant "tree_step False" empty_tree calls_valid
proof unfold_locales
  fix T T' assume "tree_step False T T'" and "calls_valid T"
  then show "calls_valid T'"
    by cases (auto intro: populate_valid expand_valid reply_valid reload_valid calls_valid_remove)
qed (simp add: calls_valid_def empty_tree_def)

section \<open>Properties\<close>

text \<open>
  C11: No late reply uses a deleted node while the connection lasts. In every interleaving of refreshes, expansions,
  uploads and replies, the callback of a folder fetch finds its node alive or does nothing: a fetch sent before the tree was
  rebuilt changes nothing, and one of the current tree adds exactly one child per subfolder and item.
\<close>

theorem late_replies_safe:
  assumes "tree_reachable False T" "e \<in> set (rt_calls T)"
  shows "\<exists>T'. expand_reply e subfolders items err T = Some T' \<and>
     (xc_gen e \<noteq> m_treeGeneration T \<longrightarrow> T' = T) \<and>
     (xc_gen e = m_treeGeneration T \<and> err = [] \<longrightarrow> length (rt_nodes T') = length (rt_nodes T) + length subfolders + length items)"
proof -
  have valid: "xc_gen e = m_treeGeneration T \<Longrightarrow> map_of (rt_nodes T @ rt_detached T) (xc_parent e) \<noteq> None"
    using tree_calls.invariant [OF assms(1)] assms(2) unfolding alive_lookup by (auto simp: calls_valid_def list_all_iff)
  have len: "length (rt_nodes (fold (\<lambda>x. add_node (f x)) xs U)) = length (rt_nodes U) + length xs"
    for f :: "'x \<Rightarrow> tree_node" and xs U
    by (induction xs arbitrary: U) (simp_all add: add_node_def)
  show ?thesis
    using valid by (auto simp: expand_reply_def len simp del: map_of_append split: option.split)
qed

text \<open>
  A disconnect makes late replies unsafe. The callback of a disconnect deletes the nodes but does not advance the
  generation, so a reply to a fetch of the deleted tree passes the check and uses its deleted node.
\<close>

theorem disconnect_leaves_stale_call:
  "\<exists>T e. tree_reachable True T \<and> e \<in> set (rt_calls T) \<and> (\<forall>sf items. expand_reply e (sf # subfolders) items [] T = None)"
proof -
  define T where "T = disconnect_done (onRepoItemExpanded 0 (populateRepos [''R''] empty_tree))"
  define e where "e = \<lparr>xc_parent = 0, xc_repo = ''R'', xc_folder = ''/'', xc_gen = 1\<rparr>"
  have "tree_reachable True (populateRepos [''R''] empty_tree)"
    by (rule reached_first) (rule tree_step.refresh)
  from reached_step [OF reached_step [OF this tree_step.expand] tree_step.disconnected]
  have "tree_reachable True T" by (simp add: T_def)
  moreover have "T = \<lparr>rt_nodes = [], rt_next = 1, rt_calls = [e], m_treeGeneration = 1, rt_detached = []\<rparr>" unfolding T_def e_def by code_simp
  then have "e \<in> set (rt_calls T)" "expand_reply e (sf # subfolders) items [] T = None" for sf items
    by (simp_all add: expand_reply_def e_def)
  ultimately show ?thesis by blast
qed

theorem late_replies_safe_witness:
  "\<exists>T'. expand_reply \<lparr>xc_parent = 0, xc_repo = ''R'', xc_folder = ''/'', xc_gen = 1\<rparr> [''src''] [] []
       (onRepoItemExpanded 0 (populateRepos [''R''] empty_tree)) = Some T' \<and> length (rt_nodes T') = 2"
proof -
  let ?T = "onRepoItemExpanded 0 (populateRepos [''R''] empty_tree)"
  let ?e = "\<lparr>xc_parent = 0, xc_repo = ''R'', xc_folder = ''/'', xc_gen = 1\<rparr>"
  have "tree_reachable False (populateRepos [''R''] empty_tree)"
    by (rule reached_first) (rule tree_step.refresh)
  from reached_step [OF this tree_step.expand] have "tree_reachable False ?T" .
  moreover have "?e \<in> set (rt_calls ?T)" "m_treeGeneration ?T = 1" "length (rt_nodes ?T) = 1" by code_simp+
  ultimately show ?thesis using late_replies_safe [of ?T ?e "[''src'']" "[]" "[]"] by auto
qed

text \<open>
  An upload that ends while the contents of its repository are still being fetched shows every entry twice: the reply
  to the earlier fetch passes the generation check too, and a reply only adds nodes.
\<close>

lemma reload_doubles_entries:
  "\<exists>T e1 e2 T1 T2. rt_calls T = [e1, e2] \<and> T = reload_repo ''R'' (onRepoItemExpanded 0 (populateRepos [''R''] empty_tree)) \<and>
     expand_reply e1 [''src''] [] [] T = Some T1 \<and> expand_reply e2 [''src''] [] [] T1 = Some T2 \<and>
     map (\<lambda>(i, n). (tn_parent n, tn_label n)) (rt_nodes T2) = [(Some 0, ''src''), (Some 0, ''src''), (None, ''R'')]"
proof -
  define T where "T = reload_repo ''R'' (onRepoItemExpanded 0 (populateRepos [''R''] empty_tree))"
  define e where "e = \<lparr>xc_parent = 0, xc_repo = ''R'', xc_folder = ''/'', xc_gen = 1\<rparr>"
  define T1 where "T1 = the (expand_reply e [''src''] [] [] T)"
  define T2 where "T2 = the (expand_reply e [''src''] [] [] T1)"
  have "rt_calls T = [e, e]" "expand_reply e [''src''] [] [] T = Some T1" "expand_reply e [''src''] [] [] T1 = Some T2"
    "map (\<lambda>(i, n). (tn_parent n, tn_label n)) (rt_nodes T2) = [(Some 0, ''src''), (Some 0, ''src''), (None, ''R'')]"
    unfolding T2_def T1_def T_def e_def by code_simp+
  with T_def show ?thesis by (intro exI conjI)
qed

section \<open>The enumeration ends and finds every item\<close>

text \<open>A tree of folders, the answers of a server that has it at a path, and all items of the tree\<close>

datatype folder_tree = Folder (folder_name: string) "RepoItem list" "folder_tree list"

fun folder_count :: "folder_tree \<Rightarrow> nat" where
  "folder_count (Folder n its ts) = Suc (sum_list (map folder_count ts))"

fun serves :: "(string \<Rightarrow> RepoItem list) \<Rightarrow> (string \<Rightarrow> string list) \<Rightarrow> string \<Rightarrow> folder_tree \<Rightarrow> bool" where
  "serves items subs path (Folder n its ts) \<longleftrightarrow>
     items path = its \<and> subs path = map folder_name ts \<and> (\<forall>t \<in> set ts. serves items subs (path @ folder_name t @ ''/'') t)"

fun all_items :: "string \<Rightarrow> folder_tree \<Rightarrow> RepoItemRef list" where
  "all_items repo (Folder n its ts) =
     map (\<lambda>it. \<lparr>ir_repo = repo, ir_folder = ri_parentPath it, ir_name = ri_name it\<rparr>) its @ concat (map (all_items repo) (rev ts))"

lemma enumerate_stack:
  "(\<forall>(f, t) \<in> set st. serves items subs f t) \<Longrightarrow> sum_list (map (\<lambda>x. folder_count (snd x)) st) \<le> fuel \<Longrightarrow>
   enumerate_loop repo items subs fuel (map fst st) found = Some (found @ concat (map (\<lambda>x. all_items repo (snd x)) st))"
proof (induction fuel arbitrary: st found)
  case 0
  then show ?case by (cases st; cases "snd (hd st)") auto
next
  case (Suc fuel)
  show ?case
  proof (cases st)
    case (Cons x st')
    obtain f n its ts where x: "x = (f, Folder n its ts)" by (metis folder_tree.exhaust prod.exhaust)
    let ?new = "map (\<lambda>t. (f @ folder_name t @ ''/'', t)) (rev ts)"
    have "enumerate_loop repo items subs fuel (map fst (?new @ st'))
        (found @ map (\<lambda>it. \<lparr>ir_repo = repo, ir_folder = ri_parentPath it, ir_name = ri_name it\<rparr>) its) =
      Some ((found @ map (\<lambda>it. \<lparr>ir_repo = repo, ir_folder = ri_parentPath it, ir_name = ri_name it\<rparr>) its) @
        concat (map (\<lambda>x. all_items repo (snd x)) (?new @ st')))"
      by (rule Suc.IH) (use Suc.prems in \<open>auto simp: Cons x comp_def rev_map [symmetric] sum_list_rev\<close>)
    moreover have "items f = its" "subs f = map folder_name ts" using Suc.prems(1) by (auto simp: Cons x)
    ultimately show ?thesis by (simp add: Cons x comp_def rev_map)
  qed simp
qed

text \<open>
  C31: The enumeration of a folder ends and is complete. If the server's folders below a path form a finite tree, the
  loop visits every folder once: as many rounds as there are folders suffice, and the result is the list of all items
  of the tree.
\<close>

theorem enumeration_complete:
  assumes "serves items subs path t" "folder_count t \<le> fuel"
  shows "enumerate_loop repo items subs fuel [path] [] = Some (all_items repo t)"
  using enumerate_stack [of "[(path, t)]" items subs fuel repo "[]"] assms by simp

definition sample_items :: "string \<Rightarrow> RepoItem list" where
  "sample_items path =
     (if path = ''/lib/'' then [\<lparr>ri_name = ''c'', ri_parentPath = ''/lib'', ri_path = ''/lib/c'', ri_fileId = [], ri_itemType = 0,
        ri_contentType = [], ri_version = 1, ri_versionTime = 0\<rparr>] else [])"

definition sample_subs :: "string \<Rightarrow> string list" where
  "sample_subs path = (if path = ''/'' then [''lib'', ''bin''] else [])"

theorem enumeration_complete_witness:
  "enumerate_loop ''R'' sample_items sample_subs 3 [''/''] [] = Some [\<lparr>ir_repo = ''R'', ir_folder = ''/lib'', ir_name = ''c''\<rparr>]"
  by (subst enumeration_complete [of _ _ _ "Folder [] [] [Folder ''lib'' (sample_items ''/lib/'') [], Folder ''bin'' [] []]"])
    (simp_all add: sample_items_def sample_subs_def)

end
