(* ===== verification/Startup.thy ===== *)
theory Startup
  imports Connection_Props
begin

text \<open>
  The plugin's entry point (\<open>plugin.cpp\<close>): the settings it registers with their defaults, and the
  start of the local bridge in the background, with what a later connect of the user finds. The two
  run here one after the other; the code has no lock that keeps them so.
\<close>

section \<open>Settings\<close>

datatype setting_value = SettingText string | SettingFlag bool | SettingNumber i64

definition registered_settings :: "(string, setting_value) umap" where
  "registered_settings =
     [(''ghidra.bridgeMode'', SettingText ''local''), (''ghidra.javaExe'', SettingText ''java''),
      (''ghidra.ghidraHome'', SettingText []), (''ghidra.bridgeJar'', SettingText []),
      (''ghidra.trustAllCerts'', SettingFlag False), (''ghidra.autoStartBridge'', SettingFlag True),
      (''ghidra.bridgePort'', SettingNumber 13200), (''ghidra.defaultHost'', SettingText ''localhost''),
      (''ghidra.defaultPort'', SettingNumber 13100), (''ghidra.defaultUser'', SettingText [])]"

text \<open>
  The values the user has set, by type (the settings store keeps each key at its registered type); a key without one
  reads as its registered default.
\<close>

record user_settings =
  us_text :: "(string, string) umap"
  us_flag :: "(string, bool) umap"
  us_number :: "(string, i64) umap"

definition get_text :: "user_settings \<Rightarrow> string \<Rightarrow> string" where
  "get_text U key =
     (case map_of (us_text U) key of
        Some v \<Rightarrow> v
      | None \<Rightarrow> (case map_of registered_settings key of Some (SettingText v) \<Rightarrow> v | _ \<Rightarrow> []))"

definition get_flag :: "user_settings \<Rightarrow> string \<Rightarrow> bool" where
  "get_flag U key =
     (case map_of (us_flag U) key of
        Some v \<Rightarrow> v
      | None \<Rightarrow> (case map_of registered_settings key of Some (SettingFlag v) \<Rightarrow> v | _ \<Rightarrow> False))"

definition get_number :: "user_settings \<Rightarrow> string \<Rightarrow> i64" where
  "get_number U key =
     (case map_of (us_number U) key of
        Some v \<Rightarrow> v
      | None \<Rightarrow> (case map_of registered_settings key of Some (SettingNumber v) \<Rightarrow> v | _ \<Rightarrow> 0))"

text \<open>The accessors of \<open>GhidraConnection\<close>\<close>

definition bridge_settings_of :: "user_settings \<Rightarrow> bridge_settings" where
  "bridge_settings_of user =
     \<lparr>se_bridgeMode = get_text user ''ghidra.bridgeMode'', se_bridgePort = get_number user ''ghidra.bridgePort'',
      se_javaExe = get_text user ''ghidra.javaExe'', se_bridgeJar = get_text user ''ghidra.bridgeJar'',
      se_ghidraHome = get_text user ''ghidra.ghidraHome'', se_trustAll = get_flag user ''ghidra.trustAllCerts''\<rparr>"

section \<open>Start of the plugin\<close>

text \<open>\<open>CorePluginInit\<close>: whether a worker is started, and that worker\<close>

definition CorePluginInit :: "user_settings \<Rightarrow> bool" where
  "CorePluginInit user \<longleftrightarrow> get_text user ''ghidra.bridgeMode'' = ''local'' \<and> get_flag user ''ghidra.autoStartBridge''"

definition auto_start :: "'j json_lib \<Rightarrow> conn_env \<Rightarrow> ghidra_conn \<Rightarrow> string option result \<times> ghidra_conn" where
  "auto_start J E K = connectBridge J E ''127.0.0.1'' K"

section \<open>The bridge that is started\<close>

lemma started_process:
  assumes "process_start je jar home ta A P = (Inr None, P', calls)" and "\<forall>pid. os_fork A = Inr pid \<longrightarrow> 0 < pid"
  shows "process_isRunning 0 P'"
  using assms
  by (auto simp: process_start_def process_isRunning_def startStderrLogger_def Let_def split: prod.splits sum.splits if_splits)

lemma connected_client:
  "bridge_connect J host port socketOk ptonOk connectOk C = (None, C', calls) \<Longrightarrow> isConnected (setEventCallback cb C')"
  by (auto simp: bridge_connect_def isConnected_def setEventCallback_def Let_def split: prod.splits if_splits)

lemma spawn_outcome:
  assumes "spawn_bridge J E jar home (K\<lparr>m_client := None, m_process := None\<rparr>) = (r, K')"
    and "\<forall>pid. os_fork (en_posix E) = Inr pid \<longrightarrow> 0 < pid"
  shows "r = Inr None \<Longrightarrow> (\<exists>p c. m_process K' = Some p \<and> process_isRunning 0 p \<and> m_client K' = Some c \<and> isConnected c)"
    "r \<noteq> Inr None \<Longrightarrow> m_client K' = None" "r = Inr (Some e) \<Longrightarrow> m_process K' = None"
proof -
  show "\<exists>p c. m_process K' = Some p \<and> process_isRunning 0 p \<and> m_client K' = Some c \<and> isConnected c" if "r = Inr None"
    using assms that by (auto simp: spawn_bridge_def intro: started_process connected_client split: prod.splits sum.splits option.splits)
  show "m_client K' = None" if "r \<noteq> Inr None"
    using assms(1) that by (auto simp: spawn_bridge_def split: prod.splits sum.splits option.splits)
  show "m_process K' = None" if "r = Inr (Some e)"
    using assms(1) that by (auto simp: spawn_bridge_def split: prod.splits sum.splits option.splits)
qed

lemma local_outcome:
  assumes "startLocalBridge J E K = (r, K')" and "\<forall>pid. os_fork (en_posix E) = Inr pid \<longrightarrow> 0 < pid" and "en_wait E = 0"
  shows "r = Inr None \<Longrightarrow> (\<exists>p c. m_process K' = Some p \<and> process_isRunning 0 p \<and> m_client K' = Some c \<and> isConnected c)"
    "r \<noteq> Inr None \<Longrightarrow> m_client K' = None" "r = Inr (Some e) \<Longrightarrow> m_process K' = None"
proof -
  let ?found = "case (m_process K, m_client K) of (Some p, Some c) \<Rightarrow> process_isRunning (en_wait E) p \<and> isConnected c | _ \<Rightarrow> False"
  consider (found) "?found" "r = Inr None" "K' = K"
    | (unset) e where "r = Inr (Some e)" "K' = K\<lparr>m_client := None, m_process := None\<rparr>"
    | (spawned) jar home where "spawn_bridge J E jar home (K\<lparr>m_client := None, m_process := None\<rparr>) = (r, K')"
  proof (cases "?found")
    case True
    show ?thesis using assms(1) True unfolding startLocalBridge_def if_P [OF True] by (intro found) simp_all
  next
    case False
    have branches: "w = (if a then x else if b then y else z) \<Longrightarrow> w = x \<or> w = y \<or> w = z" for w x y z :: "string option result \<times> ghidra_conn" and a b
      by auto
    from branches [OF assms(1) [symmetric, unfolded startLocalBridge_def Let_def if_not_P [OF False]]] show ?thesis
      by (elim disjE) (rule unset, simp, simp, rule unset, simp, simp, rule spawned, rule sym)
  qed
  note outcome = this
  show "\<exists>p c. m_process K' = Some p \<and> process_isRunning 0 p \<and> m_client K' = Some c \<and> isConnected c" if "r = Inr None"
    using outcome that assms(3) by cases (auto dest: spawn_outcome(1) [OF _ assms(2)] split: option.splits)
  show "m_client K' = None" if "r \<noteq> Inr None"
    using outcome that by cases (auto dest: spawn_outcome(2) [OF _ assms(2)])
  show "m_process K' = None" if "r = Inr (Some e)"
    using outcome that by cases (auto dest: spawn_outcome(3) [OF _ assms(2)])
qed

text \<open>
  C27: the background start of the plugin, which runs only in the local mode and with the setting on, leaves the session
  alone. When it reports success the bridge is connected, and as long as its process runs, whatever else the environment
  answers later, a connect of the user takes this bridge: \<open>connectBridge\<close> changes nothing and \<open>connectToServer\<close> keeps
  the client and the process. When it fails there is no client, so the bridge does not count as connected and the next
  connect tries again; when it fails with an error text no process is left either.
\<close>

theorem auto_started_bridge_reused:
  assumes "CorePluginInit user" and "en_settings E = bridge_settings_of user" and "en_wait E = 0"
    and "\<forall>pid. os_fork (en_posix E) = Inr pid \<longrightarrow> 0 < pid"
    and "auto_start J E K = (r, K')"
    and "en_settings E' = bridge_settings_of user" and "en_wait E' = 0"
  shows "session_of K' = session_of K \<and>
    (r = Inr None \<longrightarrow> isBridgeConnected E' K' \<and> connectBridge J E' host K' = (Inr None, K') \<and>
       (\<forall>K''. K'' = snd (connectToServer J E' send host port login password K') \<longrightarrow>
          m_client K'' = m_client K' \<and> m_process K'' = m_process K')) \<and>
    (r \<noteq> Inr None \<longrightarrow> m_client K' = None \<and> \<not> isBridgeConnected E' K') \<and>
    (\<forall>e. r = Inr (Some e) \<longrightarrow> m_process K' = None)"
proof -
  have mode: "se_bridgeMode (bridge_settings_of user) = ''local''"
    using assms(1) by (simp add: CorePluginInit_def bridge_settings_of_def)
  have session: "session_of K' = session_of K" using bridge_session [of J E "''127.0.0.1''" K] assms(5) by (simp add: auto_start_def)
  have connected: "isBridgeConnected E' K'" if "r = Inr None"
  proof (cases "isBridgeConnected E K")
    case True
    then have "K' = K" using assms(5) by (simp add: auto_start_def connectBridge_def)
    with True assms(2,3,6,7) show ?thesis by (auto simp: isBridgeConnected_def split: option.splits if_splits)
  next
    case False
    then have "startLocalBridge J E K = (r, K')" using assms(2,5) mode by (simp add: auto_start_def connectBridge_def)
    from local_outcome(1) [OF this assms(4,3) that] assms(7) show ?thesis
      by (auto simp: isBridgeConnected_def)
  qed
  moreover have "m_client (snd (connectToServer J E' send host port login password K')) = m_client K' \<and>
      m_process (snd (connectToServer J E' send host port login password K')) = m_process K'" if "isBridgeConnected E' K'"
    using that by (simp add: connectToServer_def split: sum.split)
  moreover have "startLocalBridge J E K = (r, K')" if "r \<noteq> Inr None"
    using assms(2,5) mode that by (auto simp: auto_start_def connectBridge_def split: if_splits)
  note failed = local_outcome(2,3) [OF this assms(4,3)]
  have "m_client K' = None \<and> \<not> isBridgeConnected E' K'" if "r \<noteq> Inr None"
    using failed(1) [OF that that] by (simp add: isBridgeConnected_def)
  moreover have "m_process K' = None" if "r = Inr (Some e)" for e
    using failed(2) [OF _ that] that by simp
  ultimately show ?thesis using session by (simp add: connectBridge_def)
qed

text \<open>The default settings with a bridge and a Ghidra installation set\<close>

definition sample_user :: user_settings where
  "sample_user = \<lparr>us_text = [(''ghidra.bridgeJar'', ''/b.jar''), (''ghidra.ghidraHome'', ''/g'')], us_flag = [], us_number = []\<rparr>"

theorem auto_started_bridge_reused_witness:
  "\<exists>K'. auto_start tree_json (sample_env\<lparr>en_settings := bridge_settings_of sample_user\<rparr>) new_connection = (Inr None, K') \<and>
     connectBridge tree_json (broken_env\<lparr>en_settings := bridge_settings_of sample_user, en_wait := 0\<rparr>) ''srv'' K' = (Inr None, K')"
proof -
  let ?E = "sample_env\<lparr>en_settings := bridge_settings_of sample_user\<rparr>"
  have start: "fst (auto_start tree_json ?E new_connection) = Inr None" by code_simp
  have "CorePluginInit sample_user" by code_simp
  with auto_started_bridge_reused [of sample_user ?E tree_json new_connection "fst (auto_start tree_json ?E new_connection)"
      "snd (auto_start tree_json ?E new_connection)" "broken_env\<lparr>en_settings := bridge_settings_of sample_user, en_wait := 0\<rparr>"
      "''srv''"] start
  show ?thesis by (intro exI [of _ "snd (auto_start tree_json ?E new_connection)"] conjI) (auto simp: prod_eq_iff sample_env_def)
qed

end
