(* ===== verification/Panel_Files.thy ===== *)
theory Panel_Files
  imports Panel_Ops Review
begin

text \<open>
  The panel's handling of local files: which file was opened for an item last time (kept in the
  settings store of the operating system), opening an item without a project, saving a binary, adding
  one item, several items or a whole folder to a project, and the version history. Each handler is
  the part that runs on the user interface thread, the worker, and the callback; they return the
  actions they take in order. What dialogs, the file system, Binary Ninja and the connection answer
  are arguments. A message of the log is a constructor with its arguments.
\<close>

section \<open>Actions\<close>

datatype message =
    ErrorText string
  | OpeningRemembered string string
  | RememberedGone string
  | CannotOpenRemembered string
  | NoWindow
  | CannotOpen string
  | DownloadFailed string
  | NoBytes
  | CannotWrite string
  | Downloaded string nat string
  | NoProjectOpen
  | AlreadyInProject string
  | DownloadingItem string
  | NoBinaryData
  | TempFileFailed string
  | AddFailed
  | AddedToProject string
  | AllPresent nat
  | AddingItems nat nat
  | SkippedItem string string
  | BulkComplete nat nat
  | ConnectFirst
  | Enumerating string
  | NoItemsUnder string
  | NoItemsSelected
  | CannotCreateProject string
  | CreatingProject string nat
  | ProjectComplete string nat nat

datatype panel_action =
    Activity message
  | LogError message
  | ShowMessage message
  | OpenFilename string
  | OpenProject string
  | SaveBytes string string
  | ScheduleProjectFiles

section \<open>The file associated with an item\<close>

text \<open>\<open>fmt.arg(a, b, c)\<close> replaces the three lowest place markers at once.\<close>

definition qstring_arg3 :: "string \<Rightarrow> string \<Rightarrow> string \<Rightarrow> string \<Rightarrow> string" where
  "qstring_arg3 fmt a b c =
     (let ps = format_pieces fmt; low = zip (sort (remdups (marker_numbers ps))) [a, b, c] in
      concat (map (\<lambda>p. case p of Literal x \<Rightarrow> [x] | Marker n t \<Rightarrow> find_or low n t) ps))"

definition itemSettingsKey :: "ghidra_conn \<Rightarrow> string \<Rightarrow> string \<Rightarrow> string \<Rightarrow> string" where
  "itemSettingsKey K repo folder name =
     qstring_arg3 (qstring_arg (qstring_arg ''links/%1_%2/%3/%4/%5'' (m_host K)) (to_string_i32 (m_port K))) repo folder name"

text \<open>The store of \<open>QSettings("binja-ghidra", "item-links")\<close>, with \<open>norm\<close> the form it brings keys to\<close>

type_synonym item_files = "(string, string) umap"

definition recordedPathForItem ::
    "(string \<Rightarrow> string) \<Rightarrow> item_files \<Rightarrow> ghidra_conn \<Rightarrow> string \<Rightarrow> string \<Rightarrow> string \<Rightarrow> string" where
  "recordedPathForItem norm F K repo folder name = find_or F (norm (itemSettingsKey K repo folder name)) []"

definition recordPathForItem ::
    "(string \<Rightarrow> string) \<Rightarrow> ghidra_conn \<Rightarrow> string \<Rightarrow> string \<Rightarrow> string \<Rightarrow> string \<Rightarrow> item_files \<Rightarrow> item_files" where
  "recordPathForItem norm K repo folder name path F = AList.update (norm (itemSettingsKey K repo folder name)) path F"

text \<open>Whether ``Open'' is greyed out in the menu of an item\<close>

definition already_open ::
    "(string \<Rightarrow> string) \<Rightarrow> item_files \<Rightarrow> ghidra_conn \<Rightarrow> panel \<Rightarrow> string \<Rightarrow> string \<Rightarrow> string \<Rightarrow> bool" where
  "already_open norm F K P repo folder name \<longleftrightarrow>
     (case m_currentView P of
        None \<Rightarrow> False
      | Some v \<Rightarrow>
          if linkedHere P repo folder name then True
          else let rec = recordedPathForItem norm F K repo folder name; cur = vw_filename (pn_view P v) in
               rec \<noteq> [] \<and> (cur = rec \<or> cur = rec @ ''.bndb''))"

section \<open>Opening an item without a project\<close>

text \<open>
  \<open>fe_exists\<close> is \<open>QFileInfo::exists\<close>, \<open>fe_window\<close> whether \<open>resolveUIContext\<close> finds a window, \<open>fe_opens\<close> the
  answer of its \<open>openFilename\<close>, \<open>fe_choice\<close> the button of the dialog (1 to open, 2 to download, \<open>None\<close> when
  it is cancelled), \<open>fe_openPath\<close> and \<open>fe_savePath\<close> the paths of the file dialogs, \<open>fe_pick\<close> the label
  chosen of several, \<open>fe_writable\<close> whether the file can be opened for writing.
\<close>

record file_env =
  fe_exists :: "string \<Rightarrow> bool"
  fe_window :: bool
  fe_opens :: "string \<Rightarrow> bool"
  fe_choice :: "nat option"
  fe_openPath :: string
  fe_savePath :: string
  fe_pick :: "string list \<Rightarrow> string option"
  fe_writable :: "string \<Rightarrow> bool"

text \<open>The remembered file: whether it was opened, and the actions\<close>

definition open_remembered :: "file_env \<Rightarrow> string \<Rightarrow> string \<Rightarrow> bool \<times> panel_action list" where
  "open_remembered E name rec =
     (if rec = [] then (False, [])
      else
        let candidate = (if fe_exists E (rec @ ''.bndb'') then rec @ ''.bndb'' else if fe_exists E rec then rec else []) in
        if candidate \<noteq> [] then
          if \<not> fe_window E then (False, [])
          else if fe_opens E candidate then (True, [Activity (OpeningRemembered name candidate), OpenFilename candidate])
          else (False, [Activity (OpeningRemembered name candidate), OpenFilename candidate, LogError (CannotOpenRemembered candidate)])
        else (False, [Activity (RememberedGone name)]))"

text \<open>The handler: the actions, the settings, and the path to download to when a worker is started\<close>

definition openItemIntoNewView ::
    "(string \<Rightarrow> string) \<Rightarrow> file_env \<Rightarrow> ghidra_conn \<Rightarrow> string \<Rightarrow> string \<Rightarrow> string \<Rightarrow> item_files \<Rightarrow>
     panel_action list \<times> item_files \<times> string option" where
  "openItemIntoNewView norm E K repo folder name F =
     (let (opened, acts) = open_remembered E name (recordedPathForItem norm F K repo folder name) in
      if opened then (acts, F, None)
      else case fe_choice E of
        None \<Rightarrow> (acts, F, None)
      | Some choice \<Rightarrow>
          if choice = 1 then
            (let path = fe_openPath E in
             if path = [] then (acts, F, None)
             else if \<not> fe_window E then (acts @ [LogError NoWindow], F, None)
             else if \<not> fe_opens E path then (acts @ [OpenFilename path, LogError (CannotOpen path)], F, None)
             else (acts @ [OpenFilename path], recordPathForItem norm K repo folder name path F, None))
          else if choice = 2 then
            (if fe_savePath E = [] then (acts, F, None) else (acts, F, Some (fe_savePath E)))
          else (acts, F, None))"

text \<open>The answer of \<open>downloadBinary\<close>: no files with the error text, or the files\<close>

definition download_outcome :: "BinaryFile list result \<Rightarrow> string \<times> BinaryFile list" where
  "download_outcome r = (case r of Inl e \<Rightarrow> (e, []) | Inr fs \<Rightarrow> ([], fs))"

definition file_label :: "BinaryFile \<Rightarrow> string" where
  "file_label f = bf_filename f @ ''  ('' @ count_text (length (bf_bytes f)) @ '' bytes)''"

fun index_of :: "'a \<Rightarrow> 'a list \<Rightarrow> nat option" where
  "index_of x [] = None"
| "index_of x (y # ys) = (if x = y then Some 0 else map_option Suc (index_of x ys))"

text \<open>The source file to save: \<open>None\<close> when the choice among several was cancelled\<close>

definition pick_file :: "(string list \<Rightarrow> string option) \<Rightarrow> BinaryFile list \<Rightarrow> BinaryFile option" where
  "pick_file pick files =
     (if length files > 1 then
        let labels = map file_label files in
        case pick labels of
          None \<Rightarrow> None
        | Some sel \<Rightarrow> (case index_of sel labels of None \<Rightarrow> Some (files ! 0) | Some idx \<Rightarrow> Some (files ! idx))
      else Some (files ! 0))"

text \<open>The callback of the download\<close>

definition open_download_done ::
    "(string \<Rightarrow> string) \<Rightarrow> file_env \<Rightarrow> ghidra_conn \<Rightarrow> BinaryFile list result \<Rightarrow> string \<Rightarrow> string \<Rightarrow> string \<Rightarrow> string \<Rightarrow> item_files \<Rightarrow>
     panel_action list \<times> item_files" where
  "open_download_done norm E K answer savePath repo folder name F =
     (let (err, files) = download_outcome answer in
      if err \<noteq> [] then ([LogError (DownloadFailed err)], F)
      else if files = [] then ([ShowMessage NoBytes], F)
      else case pick_file (fe_pick E) files of
        None \<Rightarrow> ([], F)
      | Some chosen \<Rightarrow>
          if \<not> fe_writable E savePath then ([LogError (CannotWrite savePath)], F)
          else
            let acts = [SaveBytes savePath (bf_bytes chosen), Activity (Downloaded (bf_filename chosen) (length (bf_bytes chosen)) savePath)] in
            if \<not> fe_window E then (acts @ [LogError NoWindow], F)
            else if \<not> fe_opens E savePath then (acts @ [OpenFilename savePath, LogError (CannotOpen savePath)], F)
            else (acts @ [OpenFilename savePath], recordPathForItem norm K repo folder name savePath F))"

section \<open>Saving a binary\<close>

datatype download_start = DownloadIntoProject | DownloadCancelled | DownloadTo string

definition downloadBinary_start :: "panel \<Rightarrow> string \<Rightarrow> download_start" where
  "downloadBinary_start P savePath =
     (if currentOpenProject P (m_currentView P) \<noteq> None then DownloadIntoProject
      else if savePath = [] then DownloadCancelled else DownloadTo savePath)"

definition downloadBinary_done ::
    "(string list \<Rightarrow> string option) \<Rightarrow> (string \<Rightarrow> bool) \<Rightarrow> BinaryFile list result \<Rightarrow> string \<Rightarrow> panel_action list" where
  "downloadBinary_done pick writable answer savePath =
     (let (err, files) = download_outcome answer in
      if err \<noteq> [] then [LogError (DownloadFailed err)]
      else if files = [] then [ShowMessage NoBytes]
      else case pick_file pick files of
        None \<Rightarrow> []
      | Some chosen \<Rightarrow>
          if \<not> writable savePath then [ShowMessage (CannotWrite savePath)]
          else [SaveBytes savePath (bf_bytes chosen), Activity (Downloaded (bf_filename chosen) (length (bf_bytes chosen)) savePath)])"


section \<open>Adding one item to the project\<close>

text \<open>
  \<open>addItemToProject\<close> on the user interface thread: the actions, and the project to add to when a worker is
  started. Without a project the item is opened by \<open>openItemIntoNewView\<close>.
\<close>

datatype add_start = StartOpenNewView "panel_action list" | StartDone "panel_action list" | StartDownload nat "panel_action list"

definition addItemToProject_start :: "bool \<Rightarrow> panel \<Rightarrow> string \<Rightarrow> string \<Rightarrow> string \<Rightarrow> add_start" where
  "addItemToProject_start activeContext P repo folder name =
     (case addItemToProject P repo folder name of
        AddWithoutProject \<Rightarrow> StartOpenNewView [Activity NoProjectOpen]
      | AddAlreadyPresent pf \<Rightarrow>
          StartDone (Activity (AlreadyInProject name) # (if activeContext then [OpenFilename (pf_path pf)] else []))
      | AddDownload p \<Rightarrow> StartDownload p [Activity (DownloadingItem name)])"

text \<open>
  The worker: \<open>tempError\<close> is the error of opening the temporary file, if any; \<open>create\<close> answers
  \<open>CreateFileFromPath\<close> for the bytes, the name and the description. \<open>Inl\<close> is what it logs, \<open>Inr\<close> the new file.
\<close>

definition item_description :: "string \<Rightarrow> string \<Rightarrow> string \<Rightarrow> string" where
  "item_description repo folder name = ''Ghidra: '' @ repo @ ''/'' @ folder @ ''/'' @ name"

definition addItemToProject_worker ::
    "BinaryFile list result \<Rightarrow> string option \<Rightarrow> (string \<Rightarrow> string \<Rightarrow> string \<Rightarrow> project_file option) \<Rightarrow> string \<Rightarrow> string \<Rightarrow> string \<Rightarrow>
     message + project_file" where
  "addItemToProject_worker answer tempError create repo folder name =
     (let (err, files) = download_outcome answer in
      if err \<noteq> [] then Inl (ErrorText err)
      else if files = [] then Inl NoBinaryData
      else case tempError of
        Some e \<Rightarrow> Inl (TempFileFailed e)
      | None \<Rightarrow>
          (case create (bf_bytes (chosen_file name files)) name (item_description repo folder name) of
             None \<Rightarrow> Inl AddFailed
           | Some pf \<Rightarrow> Inr pf))"

text \<open>The callback, with the connection's coordinates captured before the worker ran\<close>

definition addItemToProject_done ::
    "bool \<Rightarrow> nat \<Rightarrow> string \<Rightarrow> u64 \<Rightarrow> string \<Rightarrow> project_file \<Rightarrow> string \<Rightarrow> string \<Rightarrow> string \<Rightarrow> panel \<Rightarrow> panel_action list \<times> panel" where
  "addItemToProject_done activeContext p host port user pf repo folder name P =
     ([Activity (AddedToProject name), ScheduleProjectFiles] @ (if activeContext then [OpenFilename (pf_path pf)] else []),
      store_file_link p (pf_id pf, \<lparr>ir_repo = repo, ir_folder = folder, ir_name = name\<rparr>)
        (store_server_if_missing p host port user P))"

section \<open>Adding several items\<close>

text \<open>\<open>bulkAddItemsToProject\<close>: the actions and, when something is left to do, the project and the items\<close>

definition bulkAdd_start :: "panel \<Rightarrow> RepoItemRef list \<Rightarrow> panel_action list \<times> (nat \<times> RepoItemRef list) option" where
  "bulkAdd_start P items =
     (case currentOpenProject P (m_currentView P) of
        None \<Rightarrow> ([Activity NoProjectOpen], None)
      | Some p \<Rightarrow>
          if items = [] then ([], None)
          else
            let todo = bulk_todo P p items; skipped = length items - length todo in
            if todo = [] then ([Activity (AllPresent (length items))], None)
            else ([Activity (AddingItems (length todo) skipped)], Some (p, todo)))"

text \<open>What the worker of one item logs: only a failed download is named\<close>

definition skip_log :: "(RepoItemRef \<Rightarrow> BinaryFile list result) \<Rightarrow> RepoItemRef \<Rightarrow> panel_action list" where
  "skip_log download it =
     (let (err, files) = download_outcome (download it) in
      if err \<noteq> [] then [LogError (SkippedItem (ir_name it) err)]
      else if files = [] then [LogError (SkippedItem (ir_name it) ''no binary data'')] else [])"

definition bulkAdd_worker ::
    "(RepoItemRef \<Rightarrow> BinaryFile list result) \<Rightarrow> (string \<Rightarrow> bool) \<Rightarrow> (RepoItemRef \<Rightarrow> string \<Rightarrow> string option) \<Rightarrow> RepoItemRef list \<Rightarrow>
     panel_action list \<times> (string \<times> RepoItemRef) list \<times> nat" where
  "bulkAdd_worker download writable create todo =
     (concat (map (skip_log download) todo), add_items_worker download writable create todo)"

definition bulkAdd_done ::
    "nat \<Rightarrow> string \<Rightarrow> u64 \<Rightarrow> string \<Rightarrow> (string \<times> RepoItemRef) list \<Rightarrow> nat \<Rightarrow> panel \<Rightarrow> panel_action list \<times> panel" where
  "bulkAdd_done p host port user added failed P =
     ([ScheduleProjectFiles, Activity (BulkComplete (length added) failed)], add_items_done p host port user added P)"

section \<open>A project from a folder\<close>

text \<open>
  The callback of the enumeration in \<open>createProjectFromNode\<close>: \<open>checks\<close> are the check marks when the list is accepted
  (\<open>None\<close> when it is cancelled), \<open>path\<close> the chosen path, \<open>baseName\<close> its \<open>completeBaseName\<close>, \<open>created\<close> the project
  \<open>CreateProject\<close> made. The result names what \<open>populateProjectWithItems\<close> is called with.
\<close>

definition checked_items :: "RepoItemRef list \<Rightarrow> bool list \<Rightarrow> RepoItemRef list" where
  "checked_items found checks = map fst (filter snd (zip found checks))"

definition createProject_choose ::
    "string \<Rightarrow> bool list option \<Rightarrow> string \<Rightarrow> string \<Rightarrow> nat option \<Rightarrow> RepoItemRef list \<Rightarrow>
     panel_action list \<times> (nat \<times> RepoItemRef list) option" where
  "createProject_choose label checks path baseName created found =
     (if found = [] then ([Activity (NoItemsUnder label)], None)
      else case checks of
        None \<Rightarrow> ([], None)
      | Some marks \<Rightarrow>
          let chosen = checked_items found marks in
          if chosen = [] then ([Activity NoItemsSelected], None)
          else if path = [] then ([], None)
          else case created of
            None \<Rightarrow> ([LogError (CannotCreateProject path)], None)
          | Some p \<Rightarrow> ([Activity (CreatingProject baseName (length chosen))], Some (p, chosen)))"

definition createProjectFromNode :: "ghidra_conn \<Rightarrow> string \<Rightarrow> bool \<times> panel_action list" where
  "createProjectFromNode K label =
     (if \<not> m_serverConnected K then (False, [Activity ConnectFirst]) else (True, [Activity (Enumerating label)]))"

text \<open>\<open>populateProjectWithItems\<close> with the callback of \<open>createProjectFromNode\<close>, which opens the new project\<close>

definition populate_done ::
    "bool \<Rightarrow> nat \<Rightarrow> string \<Rightarrow> u64 \<Rightarrow> string \<Rightarrow> string \<Rightarrow> string \<Rightarrow> (string \<times> RepoItemRef) list \<Rightarrow> nat \<Rightarrow> panel \<Rightarrow> panel_action list \<times> panel" where
  "populate_done activeContext p host port user path baseName added failed P =
     (Activity (ProjectComplete baseName (length added) failed) # (if activeContext then [OpenProject path] else []),
      add_items_done p host port user added P)"

section \<open>Version history\<close>

text \<open>A row of the table: version, time, user and comment; \<open>date\<close> prints the time\<close>

type_synonym history_line = "string \<times> string \<times> string \<times> string"

definition history_row :: "(i64 \<Rightarrow> string) \<Rightarrow> VersionInfo \<Rightarrow> history_line" where
  "history_row date v = (to_string_i32 (vi_version v), date (vi_time v), vi_user v, vi_comment v)"

text \<open>\<open>sortItems(0, Qt::DescendingOrder)\<close> compares the texts of the first column; \<open>lt\<close> is the comparison.\<close>

fun insert_row :: "(string \<Rightarrow> string \<Rightarrow> bool) \<Rightarrow> history_line \<Rightarrow> history_line list \<Rightarrow> history_line list" where
  "insert_row lt r [] = [r]"
| "insert_row lt r (x # xs) = (if lt (fst r) (fst x) then x # insert_row lt r xs else r # x # xs)"

definition sort_rows :: "(string \<Rightarrow> string \<Rightarrow> bool) \<Rightarrow> history_line list \<Rightarrow> history_line list" where
  "sort_rows lt rows = foldr (insert_row lt) rows []"

text \<open>The table and the status line: the error, or the rows and their number\<close>

definition showHistory ::
    "(string \<Rightarrow> string \<Rightarrow> bool) \<Rightarrow> (i64 \<Rightarrow> string) \<Rightarrow> VersionInfo list result \<Rightarrow> history_line list \<times> string" where
  "showHistory lt date answer =
     (case answer of
        Inl e \<Rightarrow> if e \<noteq> [] then ([], ''Error: '' @ e) else ([], count_text 0 @ '' version(s)'')
      | Inr versions \<Rightarrow> (sort_rows lt (map (history_row date) versions), count_text (length versions) @ '' version(s)''))"

end
