(* ===== verification/Panel_Window.thy ===== *)
theory Panel_Window
  imports Panel_Files Panel_Tree
begin

text \<open>
  The panel as a window: the event handler and the project watcher it registers, its buttons, the
  connect dialog and the handlers that connect, disconnect and refresh, the context menus of the two
  trees, and the requests for a refresh. The connection is the singleton of its own
  theory; a menu is the list of its entries.
\<close>

section \<open>Registration\<close>

text \<open>
  The members of the singleton and of Binary Ninja that the panels of several panes share: the one event
  handler of the connection, by the panel it calls, and the watchers registered with projects.
\<close>

record registrations =
  rg_handler :: "nat option"
  rg_watchers :: "(nat \<times> nat) list"

text \<open>A panel's own members: the project it watches\<close>

record watching =
  m_watchedProject :: "nat option"

definition panel_construct :: "nat \<Rightarrow> registrations \<Rightarrow> registrations" where
  "panel_construct self G = G\<lparr>rg_handler := Some self\<rparr>"

definition unwatchProject :: "nat \<Rightarrow> watching \<times> registrations \<Rightarrow> watching \<times> registrations" where
  "unwatchProject self st =
     (case m_watchedProject (fst st) of
        None \<Rightarrow> st
      | Some p \<Rightarrow> ((fst st)\<lparr>m_watchedProject := None\<rparr>, (snd st)\<lparr>rg_watchers := remove1 (p, self) (rg_watchers (snd st))\<rparr>))"

definition watchProject :: "nat \<Rightarrow> nat option \<Rightarrow> watching \<times> registrations \<Rightarrow> watching \<times> registrations" where
  "watchProject self project st =
     (if m_watchedProject (fst st) \<noteq> None \<and> m_watchedProject (fst st) = project then st
      else
        let st = unwatchProject self st in
        case project of
          None \<Rightarrow> st
        | Some p \<Rightarrow> ((fst st)\<lparr>m_watchedProject := Some p\<rparr>, (snd st)\<lparr>rg_watchers := (p, self) # rg_watchers (snd st)\<rparr>))"

definition panel_destruct :: "nat \<Rightarrow> watching \<times> registrations \<Rightarrow> watching \<times> registrations" where
  "panel_destruct self st = unwatchProject self (fst st, (snd st)\<lparr>rg_handler := None\<rparr>)"

section \<open>Requests for a refresh\<close>

text \<open>
  A timer is an object of Qt: \<open>newTimer\<close> gives a single-shot timer with an interval in milliseconds, connected to the
  refresh, and \<open>start\<close> starts it or starts it anew. The members \<open>m_statusTimer\<close> and \<open>m_refreshTimer\<close> are made with the
  first request.
\<close>

definition scheduleRefreshStatus :: "(nat \<Rightarrow> 't) \<Rightarrow> ('t \<Rightarrow> 't) \<Rightarrow> 't option \<Rightarrow> 't option" where
  "scheduleRefreshStatus newTimer start m_statusTimer =
     Some (start (case m_statusTimer of None \<Rightarrow> newTimer 200 | Some t \<Rightarrow> t))"

definition scheduleRefreshProjectFiles :: "(nat \<Rightarrow> 't) \<Rightarrow> ('t \<Rightarrow> 't) \<Rightarrow> 't option \<Rightarrow> 't option" where
  "scheduleRefreshProjectFiles newTimer start m_refreshTimer =
     Some (start (case m_refreshTimer of None \<Rightarrow> newTimer 150 | Some t \<Rightarrow> t))"

text \<open>
  A notification of a watched project comes on a thread of Binary Ninja; this is the call it queues, which tests the
  weak pointer to the panel when it runs.
\<close>

definition watcher_notify :: "(nat \<Rightarrow> 't) \<Rightarrow> ('t \<Rightarrow> 't) \<Rightarrow> bool \<Rightarrow> 't option \<Rightarrow> 't option" where
  "watcher_notify newTimer start panelAlive m_refreshTimer =
     (if panelAlive then scheduleRefreshProjectFiles newTimer start m_refreshTimer else m_refreshTimer)"

section \<open>Buttons, status and banner\<close>

text \<open>The state of the buttons, the text of the status line, whether the banner is shown, and the rows of the project files\<close>

record panel_buttons =
  bt_connect :: bool
  bt_disconnect :: bool
  bt_refresh :: bool
  bt_status :: string
  bt_banner :: bool
  bt_projectFiles :: "project_row list"

definition updateConnectionButtons :: "bool \<Rightarrow> panel_buttons \<Rightarrow> panel_buttons" where
  "updateConnectionButtons connected B = B\<lparr>bt_connect := \<not> connected, bt_disconnect := connected, bt_refresh := connected\<rparr>"

text \<open>What \<open>buildUi\<close> and the constructor leave: the refresh button is disabled, the banner hidden, then the buttons are set\<close>

definition new_buttons :: panel_buttons where
  "new_buttons = updateConnectionButtons False
     \<lparr>bt_connect = True, bt_disconnect = True, bt_refresh = False, bt_status = ''Not connected'',
      bt_banner = False, bt_projectFiles = []\<rparr>"

definition updateLinkBanner :: "ghidra_conn \<Rightarrow> panel \<Rightarrow> panel_buttons \<Rightarrow> panel_buttons" where
  "updateLinkBanner K P B = B\<lparr>bt_banner := link_banner_shown K P\<rparr>"

definition dismiss_banner :: "panel_buttons \<Rightarrow> panel_buttons" where
  "dismiss_banner B = B\<lparr>bt_banner := False\<rparr>"

section \<open>The connect dialog\<close>

record connect_settings =
  cs_defaultHost :: string
  cs_defaultPort :: i64
  cs_defaultUser :: string

record connect_dialog =
  cd_host :: string
  cd_port :: string
  cd_user :: string
  cd_password :: string

definition loadSettings :: "connect_settings \<Rightarrow> connect_dialog" where
  "loadSettings s =
     \<lparr>cd_host = cs_defaultHost s, cd_port = to_string_i64 (cs_defaultPort s), cd_user = cs_defaultUser s, cd_password = []\<rparr>"

definition preload :: "string \<Rightarrow> i32 \<Rightarrow> string \<Rightarrow> connect_dialog \<Rightarrow> connect_dialog" where
  "preload host port user d =
     d\<lparr>cd_host := (if host \<noteq> [] then host else cd_host d),
       cd_port := (if 0 <s port then to_string_i32 port else cd_port d),
       cd_user := (if user \<noteq> [] then user else cd_user d)\<rparr>"

text \<open>\<open>toInt\<close> is \<open>QString::toInt\<close>.\<close>

definition dialog_host :: "connect_dialog \<Rightarrow> string" where
  "dialog_host d = trimmed (cd_host d)"

definition dialog_port :: "(string \<Rightarrow> i32) \<Rightarrow> connect_dialog \<Rightarrow> i32" where
  "dialog_port toInt d = toInt (cd_port d)"

definition dialog_user :: "connect_dialog \<Rightarrow> string" where
  "dialog_user d = trimmed (cd_user d)"

definition saveSettings :: "(string \<Rightarrow> i32) \<Rightarrow> connect_dialog \<Rightarrow> connect_settings \<Rightarrow> connect_settings" where
  "saveSettings toInt d s =
     s\<lparr>cs_defaultHost := dialog_host d, cs_defaultPort := scast (dialog_port toInt d), cs_defaultUser := dialog_user d\<rparr>"

text \<open>
  The dialog as a whole: the fields shown, what the user makes of them (\<open>None\<close> when it is cancelled), and the
  settings afterwards
\<close>

definition connect_dialog_run ::
    "(string \<Rightarrow> i32) \<Rightarrow> (connect_dialog \<Rightarrow> connect_dialog option) \<Rightarrow> GhidraLink \<Rightarrow> connect_settings \<Rightarrow>
     connect_dialog option \<times> connect_settings" where
  "connect_dialog_run toInt edit link s =
     (let d = loadSettings s;
          d = (if link_valid link then preload (gl_host link) (gl_port link) (gl_user link) d else d) in
      case edit d of
        None \<Rightarrow> (None, s)
      | Some d \<Rightarrow> (Some d, saveSettings toInt d s))"

section \<open>Connecting\<close>

definition connecting :: "panel_buttons \<Rightarrow> panel_buttons" where
  "connecting B = B\<lparr>bt_connect := False, bt_status := ''Connecting'' @ ellipsis\<rparr>"

text \<open>The callback after \<open>connectToServer\<close>; whether the tree is refreshed\<close>

definition connect_done :: "ghidra_conn \<Rightarrow> panel \<Rightarrow> bool \<Rightarrow> string \<Rightarrow> panel_buttons \<Rightarrow> bool \<times> panel_buttons" where
  "connect_done K P ok user B =
     (if ok then (True, updateLinkBanner K P (updateConnectionButtons True (B\<lparr>bt_status := ''Connected as '' @ user\<rparr>)))
      else (False, updateConnectionButtons False (B\<lparr>bt_status := ''Connection failed''\<rparr>)))"

text \<open>
  \<open>onConnectClicked\<close>: dialog, worker and callback. An exception that leaves \<open>connectToServer\<close> leaves the worker, and
  no callback runs.
\<close>

definition onConnectClicked ::
    "'j json_lib \<Rightarrow> conn_env \<Rightarrow> ('j \<Rightarrow> nat \<Rightarrow> 'j result) \<Rightarrow> (string \<Rightarrow> i32) \<Rightarrow> connect_dialog option \<Rightarrow> panel \<Rightarrow> ghidra_conn \<Rightarrow>
     panel_buttons \<Rightarrow> bool \<times> ghidra_conn \<times> panel_buttons" where
  "onConnectClicked J E send toInt accepted P K B =
     (case accepted of
        None \<Rightarrow> (False, K, B)
      | Some d \<Rightarrow>
          let B = connecting B;
              (res, K) = connectToServer J E send (dialog_host d) (dialog_port toInt d) (dialog_user d) (cd_password d) K
          in case res of
               Inl exn \<Rightarrow> (False, K, B)
             | Inr e \<Rightarrow> (let (refresh, B) = connect_done K P (e = None) (dialog_user d) B in (refresh, K, B)))"

text \<open>The request sent, and the state after the callback, which empties both trees\<close>

definition onDisconnectClicked ::
    "'j json_lib \<Rightarrow> panel \<Rightarrow> ghidra_conn \<Rightarrow> panel_buttons \<Rightarrow> repo_tree \<Rightarrow> ('j \<times> nat) list \<times> ghidra_conn \<times> panel_buttons \<times> repo_tree" where
  "onDisconnectClicked J P K B T =
     (let (sent, K) = disconnectFromServer J K in
      (sent, K,
       updateLinkBanner K P (updateConnectionButtons False (B\<lparr>bt_projectFiles := [], bt_status := ''Disconnected''\<rparr>)),
       disconnect_done T))"

text \<open>
  \<open>connectAndCheckLinked\<close>: the worker connects and, if that succeeded, asks for the versions of the linked item; the
  callback reports the last of them. An error of the second request is dropped.
\<close>

datatype linked_report = LatestOnServer string VersionInfo | NoVersionHistory string

definition linked_versions ::
    "'j json_lib \<Rightarrow> ('j \<Rightarrow> nat \<Rightarrow> 'j result) \<Rightarrow> GhidraLink \<Rightarrow> VersionInfo list" where
  "linked_versions J send link =
     (case getVersions J send (gl_repo link) (gl_folder link) (gl_item link) of Inl e \<Rightarrow> [] | Inr vs \<Rightarrow> vs)"

definition connectAndCheckLinked ::
    "'j json_lib \<Rightarrow> conn_env \<Rightarrow> ('j \<Rightarrow> nat \<Rightarrow> 'j result) \<Rightarrow> ('j \<Rightarrow> nat \<Rightarrow> 'j result) \<Rightarrow> (string \<Rightarrow> i32) \<Rightarrow> connect_dialog option \<Rightarrow>
     panel \<Rightarrow> ghidra_conn \<Rightarrow> panel_buttons \<Rightarrow> linked_report option \<times> ghidra_conn \<times> panel_buttons" where
  "connectAndCheckLinked J E send send' toInt accepted P K B =
     (if \<not> link_valid (m_linkedGhidra P) then (None, K, B)
      else case accepted of
        None \<Rightarrow> (None, K, B)
      | Some d \<Rightarrow>
          let B = connecting B; link = m_linkedGhidra P;
              (res, K) = connectToServer J E send (dialog_host d) (dialog_port toInt d) (dialog_user d) (cd_password d) K
          in case res of
               Inl exn \<Rightarrow> (None, K, B)
             | Inr (Some e) \<Rightarrow> (None, K, snd (connect_done K P False (dialog_user d) B))
             | Inr None \<Rightarrow>
                 let versions = linked_versions J send' link in
                 (Some (if versions \<noteq> [] then LatestOnServer (gl_item link) (last versions) else NoVersionHistory (gl_item link)),
                  K, snd (connect_done K P True (dialog_user d) B)))"

section \<open>Refreshing the tree\<close>

text \<open>Opening every top-level node with a property\<close>

definition expand_where :: "(tree_node \<Rightarrow> bool) \<Rightarrow> repo_tree \<Rightarrow> repo_tree" where
  "expand_where cond T = fold (\<lambda>(i, n) T. if cond n then onRepoItemExpanded i T else T) (top_level T) T"

text \<open>\<open>onRefreshClicked\<close>: the repositories that are open, and the button while the worker runs; \<open>expanded\<close> is \<open>isExpanded\<close>\<close>

definition onRefreshClicked :: "(nat \<Rightarrow> bool) \<Rightarrow> repo_tree \<Rightarrow> panel_buttons \<Rightarrow> string list \<times> panel_buttons" where
  "onRefreshClicked expanded T B =
     (map (\<lambda>(i, n). tn_repo n) (filter (\<lambda>(i, n). expanded i) (top_level T)), B\<lparr>bt_refresh := False\<rparr>)"

text \<open>Its callback, with the repositories that were open\<close>

definition refresh_done :: "string list result \<Rightarrow> string list \<Rightarrow> repo_tree \<Rightarrow> panel_buttons \<Rightarrow> repo_tree \<times> panel_buttons" where
  "refresh_done answer expandedRepos T B =
     (let B = B\<lparr>bt_refresh := True\<rparr> in
      case answer of
        Inl e \<Rightarrow> if e \<noteq> [] then (T, B) else (populateRepos [] T, B)
      | Inr repos \<Rightarrow> (expand_where (\<lambda>n. tn_repo n \<in> set expandedRepos) (populateRepos repos T), B))"

text \<open>The callback of \<open>refreshStatus\<close> opens every repository.\<close>

definition refreshStatus_done :: "string list result \<Rightarrow> repo_tree \<Rightarrow> repo_tree" where
  "refreshStatus_done answer T =
     (case answer of
        Inl e \<Rightarrow> if e \<noteq> [] then T else populateRepos [] T
      | Inr repos \<Rightarrow> expand_where (\<lambda>_. True) (populateRepos repos T))"

section \<open>Reports\<close>

text \<open>The entry of the log for an event: none for the server's own bookkeeping\<close>

definition event_entry :: "GhidraEvent \<Rightarrow> string option" where
  "event_entry evt =
     (if ge_type evt = ''REP_OPEN_HANDLE_COUNT'' then None
      else Some (fold (\<lambda>a fmt. qstring_arg fmt a) [ge_repo evt, ge_type evt, ge_parentPath evt, ge_name evt]
             (''[%1] %2 '' @ map char_of [226 :: nat, 134, 146] @ '' %3/%4'')))"

text \<open>What the callback of an import reports: counts, and for an import of symbols the ranges of both sides\<close>

datatype import_line =
    ImportCounts string i32 i32 i32
  | CreatedFunctions i32
  | MemoryMap i32 i32
  | GhidraRange u64 u64 string
  | ViewStart u64

definition import_report :: "string \<Rightarrow> u64 \<Rightarrow> SyncResult \<Rightarrow> import_line list" where
  "import_report name bnBase r =
     [ImportCounts name (rs_symbolsApplied r) (rs_commentsApplied r) (rs_flagsApplied r)] @
     (if 0 <s rs_functionsCreated r then [CreatedFunctions (rs_functionsCreated r)] else []) @
     (if 0 <s rs_sectionsAdded r \<or> 0 <s rs_segmentsAdded r then [MemoryMap (rs_sectionsAdded r) (rs_segmentsAdded r)] else []) @
     (if 0 <s rs_symbolsApplied r
      then [GhidraRange (rs_addrMin r) (rs_addrMax r) (rs_sampleSymbol r), ViewStart bnBase] else [])"

section \<open>The upload dialog\<close>

text \<open>The repositories offered, taken from the tree, and whether another one can be typed\<close>

definition upload_repos :: "repo_tree \<Rightarrow> string list \<times> bool" where
  "upload_repos T =
     (let repos = map (\<lambda>(i, n). tn_repo n) (top_level T); shown = filter (\<lambda>r. r \<noteq> []) repos in
      (if shown = [] then [[]] else shown, repos = []))"

definition upload_defaults :: "repo_tree \<Rightarrow> string \<Rightarrow> upload_dialog" where
  "upload_defaults T fileName =
     \<lparr>ud_repo = hd (fst (upload_repos T)), ud_folder = ''/'', ud_item = default_item_name fileName,
      ud_comment = ''Uploaded from Binary Ninja'', ud_keep = False\<rparr>"

section \<open>Context menus\<close>

datatype menu_entry =
    EntryNewProject string string string
  | EntryOpen bool
  | EntryAddToProject "RepoItemRef list"
  | EntryCheckIn
  | EntryTerminateCheckout
  | EntryCheckOut bool
  | EntryHistory
  | EntryDownload
  | EntryDelete
  | EntryUpload bool
  | EntrySync string string string
  | EntryClearLink

text \<open>The clicked node, and the selected nodes of the tree\<close>

definition node_ref :: "tree_node \<Rightarrow> RepoItemRef option" where
  "node_ref n =
     (if tn_kind n \<noteq> ''item'' then None
      else Some \<lparr>ir_repo = tn_repo n, ir_folder = tn_folder n, ir_name = tn_name n\<rparr>)"

definition onTreeContextMenu ::
    "(string \<Rightarrow> string) \<Rightarrow> item_files \<Rightarrow> ghidra_conn \<Rightarrow> checkin_state \<Rightarrow> panel \<Rightarrow> tree_node list \<Rightarrow> tree_node option \<Rightarrow> menu_entry list" where
  "onTreeContextMenu norm F K S P selected clicked =
     (case clicked of
        None \<Rightarrow> []
      | Some n \<Rightarrow>
          if tn_kind n = ''repo'' \<or> tn_kind n = ''folder'' then
            let folder = (if tn_kind n = ''folder'' then tn_folder n else ''/'');
                folder = (if folder = [] then ''/'' else folder)
            in [EntryNewProject (tn_repo n) folder (tn_label n)]
          else case node_ref n of
            None \<Rightarrow> []
          | Some r \<Rightarrow>
              [EntryOpen (\<not> already_open norm F K P (ir_repo r) (ir_folder r) (ir_name r))] @
              (if currentOpenProject P (m_currentView P) \<noteq> None
               then [EntryAddToProject (select_items (List.map_filter node_ref selected) r)] else []) @
              (if effectivelyCheckedOut S P (ir_repo r) (ir_folder r) (ir_name r)
               then [EntryCheckIn, EntryTerminateCheckout] else [EntryCheckOut (m_currentView P \<noteq> None)]) @
              [EntryHistory, EntryDownload, EntryDelete])"

text \<open>
  The question before a delete, by the checkouts found or the error of looking for them
\<close>

datatype delete_question = AskDelete string | AskDeleteUnknown string string | AskDeleteCheckedOut string "(string \<times> string) list"

definition ask_delete :: "string \<Rightarrow> CheckoutInfo list result \<Rightarrow> delete_question" where
  "ask_delete name answer =
     (case answer of
        Inl e \<Rightarrow> if e \<noteq> [] then AskDeleteUnknown name e else AskDelete name
      | Inr checkouts \<Rightarrow>
          if checkouts \<noteq> [] then AskDeleteCheckedOut name (map (\<lambda>co. (co_user co, co_type co)) checkouts) else AskDelete name)"

text \<open>A row of the project files: the id of the file, its path on disk, its name and its link\<close>

record project_item =
  pi_id :: string
  pi_path :: string
  pi_name :: string
  pi_repo :: string
  pi_folder :: string
  pi_item :: string

definition project_item_of :: "panel \<Rightarrow> nat \<Rightarrow> project_file \<Rightarrow> project_item" where
  "project_item_of P p pf =
     (let kv = (case file_link P p (pf_id pf) of None \<Rightarrow> [] | Some kv \<Rightarrow> kv) in
      \<lparr>pi_id = pf_id pf, pi_path = pf_path pf, pi_name = pf_name pf, pi_repo = kvStr kv ''repo'',
       pi_folder = kvStr kv ''folder'', pi_item = kvStr kv ''item''\<rparr>)"

definition onProjectContextMenu :: "ghidra_conn \<Rightarrow> project_item option \<Rightarrow> menu_entry list" where
  "onProjectContextMenu K clicked =
     (case clicked of
        None \<Rightarrow> []
      | Some i \<Rightarrow>
          let hasLink = (pi_repo i \<noteq> []) in
          if \<not> hasLink \<and> m_serverConnected K then [EntryUpload True]
          else if hasLink then [EntrySync (pi_repo i) (pi_folder i) (pi_item i), EntryClearLink]
          else if \<not> m_serverConnected K then [EntryUpload False] else [])"

datatype open_request = OpenNothing | OpenFileOf project_file | OpenPath string

definition onProjectItemDoubleClicked :: "bool \<Rightarrow> panel \<Rightarrow> project_item \<Rightarrow> open_request" where
  "onProjectItemDoubleClicked activeContext P i =
     (if \<not> activeContext then OpenNothing
      else
        let fallback = (if pi_path i \<noteq> [] then OpenPath (pi_path i) else OpenNothing) in
        if pi_id i = [] then fallback
        else case projectForView P (m_currentView P) of
          None \<Rightarrow> fallback
        | Some p \<Rightarrow>
            (case find (\<lambda>pf. pf_id pf = pi_id i) (pj_files (pn_project P p)) of None \<Rightarrow> fallback | Some pf \<Rightarrow> OpenFileOf pf))"

end
