(* ===== verification/Panel_Window_Props.thy ===== *)
theory Panel_Window_Props
  imports Panel_Window
begin

text \<open>
  Properties of the panel as a window: what the panels of several panes leave registered and to
  which of them an event is delivered, what the connect dialog remembers, which file an item opens the second time,
  and the order of the version history.
\<close>

section \<open>Panels of several panes\<close>

text \<open>
  The receive thread in \<open>onBridgeEvent\<close>: it tests the handler, reads the members of the event, and calls the handler,
  which it reads a second time; the handler is a closure over its panel that queues \<open>onEventReceived\<close> for it. Nothing
  keeps the user interface thread from replacing the handler meanwhile.
\<close>

datatype receiver = Idle | Tested | Calling nat

text \<open>
  The panels that exist, with their own members, the registrations they share, the number of the next panel, the
  receive thread, and the queued calls of \<open>onEventReceived\<close>, each by its panel
\<close>

record panes =
  pa_alive :: "nat \<Rightarrow> watching option"
  pa_reg :: registrations
  pa_next :: nat
  pa_receiver :: receiver
  pa_queued :: "nat list"

definition no_panes :: panes where
  "no_panes = \<lparr>pa_alive = (\<lambda>_. None), pa_reg = \<lparr>rg_handler = None, rg_watchers = []\<rparr>, pa_next = 0, pa_receiver = Idle, pa_queued = []\<rparr>"

text \<open>
  The steps of the user interface thread (a pane is opened, changes its project, is closed, or runs a queued call; the
  calls queued for a destroyed object are removed with it) and those of the receive thread. A handler that is gone at
  the call throws, which the receive loop ignores. With \<open>quiet\<close>, panes are opened and closed only while no event is
  being delivered.
\<close>

inductive pane_step :: "bool \<Rightarrow> panes \<Rightarrow> panes \<Rightarrow> bool" for quiet where
  pane_open: "(quiet \<longrightarrow> pa_receiver Z = Idle) \<Longrightarrow>
    pane_step quiet Z (Z\<lparr>pa_alive := (pa_alive Z)(pa_next Z \<mapsto> \<lparr>m_watchedProject = None\<rparr>),
      pa_reg := panel_construct (pa_next Z) (pa_reg Z), pa_next := Suc (pa_next Z)\<rparr>)"
| pane_watch: "pa_alive Z i = Some W \<Longrightarrow> watchProject i project (W, pa_reg Z) = (W', G) \<Longrightarrow>
    pane_step quiet Z (Z\<lparr>pa_alive := (pa_alive Z)(i \<mapsto> W'), pa_reg := G\<rparr>)"
| pane_close: "(quiet \<longrightarrow> pa_receiver Z = Idle) \<Longrightarrow> pa_alive Z i = Some W \<Longrightarrow> panel_destruct i (W, pa_reg Z) = (W', G) \<Longrightarrow>
    pane_step quiet Z (Z\<lparr>pa_alive := (pa_alive Z)(i := None), pa_reg := G, pa_queued := removeAll i (pa_queued Z)\<rparr>)"
| queued_call: "pa_queued Z = i # is \<Longrightarrow> pane_step quiet Z (Z\<lparr>pa_queued := is\<rparr>)"
| event_tested: "pa_receiver Z = Idle \<Longrightarrow> rg_handler (pa_reg Z) \<noteq> None \<Longrightarrow> pane_step quiet Z (Z\<lparr>pa_receiver := Tested\<rparr>)"
| event_called: "pa_receiver Z = Tested \<Longrightarrow> rg_handler (pa_reg Z) = Some i \<Longrightarrow> pane_step quiet Z (Z\<lparr>pa_receiver := Calling i\<rparr>)"
| event_thrown: "pa_receiver Z = Tested \<Longrightarrow> rg_handler (pa_reg Z) = None \<Longrightarrow> pane_step quiet Z (Z\<lparr>pa_receiver := Idle\<rparr>)"
| event_queued: "pa_receiver Z = Calling i \<Longrightarrow> rg_handler (pa_reg Z) = Some i \<Longrightarrow>
    pane_step quiet Z (Z\<lparr>pa_receiver := Idle, pa_queued := pa_queued Z @ [i]\<rparr>)"

abbreviation pane_reachable :: "bool \<Rightarrow> panes \<Rightarrow> bool" where
  "pane_reachable quiet \<equiv> reached (pane_step quiet) no_panes"

text \<open>The receive thread is inside a closure that was destroyed, so what it reads there is undefined.\<close>

definition stale_call :: "panes \<Rightarrow> bool" where
  "stale_call Z \<longleftrightarrow> (case pa_receiver Z of Calling i \<Rightarrow> rg_handler (pa_reg Z) \<noteq> Some i | _ \<Rightarrow> False)"

text \<open>The next step of the receive thread calls a handler that is gone.\<close>

definition event_lost :: "panes \<Rightarrow> bool" where
  "event_lost Z \<longleftrightarrow> pa_receiver Z = Tested \<and> rg_handler (pa_reg Z) = None"

definition watches :: "panes \<Rightarrow> nat \<Rightarrow> nat \<Rightarrow> bool" where
  "watches Z p i \<longleftrightarrow> (\<exists>W. pa_alive Z i = Some W \<and> m_watchedProject W = Some p)"

definition panes_wf :: "bool \<Rightarrow> panes \<Rightarrow> bool" where
  "panes_wf quiet Z \<longleftrightarrow>
     (\<forall>i. rg_handler (pa_reg Z) = Some i \<longrightarrow> pa_alive Z i \<noteq> None) \<and> distinct (rg_watchers (pa_reg Z)) \<and>
     (\<forall>p i. (p, i) \<in> set (rg_watchers (pa_reg Z)) \<longleftrightarrow> watches Z p i) \<and>
     set (pa_queued Z) \<subseteq> dom (pa_alive Z) \<and> (\<forall>i. pa_next Z \<le> i \<longrightarrow> pa_alive Z i = None) \<and>
     (quiet \<longrightarrow> \<not> stale_call Z \<and> \<not> event_lost Z)"

lemma unwatch_result:
  assumes "unwatchProject i (W, G) = (W', G')"
  shows "m_watchedProject W' = None" "rg_handler G' = rg_handler G"
    "rg_watchers G' = (case m_watchedProject W of None \<Rightarrow> rg_watchers G | Some p \<Rightarrow> remove1 (p, i) (rg_watchers G))"
  using assms by (auto simp: unwatchProject_def split: option.splits)

lemma unwatch_others:
  assumes "panes_wf quiet Z" and "pa_alive Z i = Some W" and "unwatchProject i (W, pa_reg Z) = (W', G')"
  shows "distinct (rg_watchers G')" "(p, j) \<in> set (rg_watchers G') \<longleftrightarrow> j \<noteq> i \<and> watches Z p j"
  using assms(1,2) by (auto simp: unwatch_result [OF assms(3)] panes_wf_def watches_def split: option.split)

lemma watch_wf:
  assumes "panes_wf quiet Z" and "pa_alive Z i = Some W" and "watchProject i project (W, pa_reg Z) = (W', G)"
  shows "panes_wf quiet (Z\<lparr>pa_alive := (pa_alive Z)(i \<mapsto> W'), pa_reg := G\<rparr>)"
proof (cases "m_watchedProject W \<noteq> None \<and> m_watchedProject W = project")
  case True
  then have "W' = W" "G = pa_reg Z" using assms(3) by (auto simp: watchProject_def)
  then have "Z\<lparr>pa_alive := (pa_alive Z)(i \<mapsto> W'), pa_reg := G\<rparr> = Z" using assms(2) by (simp add: fun_upd_idem)
  with assms(1) show ?thesis by simp
next
  case False
  obtain V H where u: "unwatchProject i (W, pa_reg Z) = (V, H)" by (cases "unwatchProject i (W, pa_reg Z)")
  note o = unwatch_others [OF assms(1,2) u] and r = unwatch_result [OF u]
  have "(case project of None \<Rightarrow> (V, H) | Some p \<Rightarrow> (V\<lparr>m_watchedProject := Some p\<rparr>, H\<lparr>rg_watchers := (p, i) # rg_watchers H\<rparr>)) = (W', G)"
    using assms(3) False u by (auto simp: watchProject_def Let_def split: option.splits if_splits)
  moreover have "i < pa_next Z" using assms(1,2) by (auto simp: panes_wf_def simp flip: not_le)
  ultimately show ?thesis using assms(1,2) o r(1,2)
    by (auto simp: panes_wf_def watches_def stale_call_def event_lost_def split: option.splits receiver.splits)
qed

lemma close_wf:
  assumes "panes_wf quiet Z" and "quiet \<longrightarrow> pa_receiver Z = Idle" and "pa_alive Z i = Some W"
    and "panel_destruct i (W, pa_reg Z) = (W', G)"
  shows "panes_wf quiet (Z\<lparr>pa_alive := (pa_alive Z)(i := None), pa_reg := G, pa_queued := removeAll i (pa_queued Z)\<rparr>)"
proof -
  obtain V H where u: "unwatchProject i (W, pa_reg Z) = (V, H)" by (cases "unwatchProject i (W, pa_reg Z)")
  note o = unwatch_others [OF assms(1,3) u]
  have "G = H\<lparr>rg_handler := None\<rparr>"
    using assms(4) u by (auto simp: panel_destruct_def unwatchProject_def split: option.splits)
  with assms(1,2) o show ?thesis by (auto simp: panes_wf_def watches_def stale_call_def event_lost_def)
qed

lemma pane_step_wf: "pane_step quiet Z Z' \<Longrightarrow> panes_wf quiet Z \<Longrightarrow> panes_wf quiet Z'"
proof (induction rule: pane_step.induct)
  case (pane_open Z)
  then show ?case by (auto simp: panes_wf_def panel_construct_def watches_def stale_call_def event_lost_def)
next
  case (pane_watch Z i W project W' G)
  then show ?case by (intro watch_wf)
next
  case (pane_close Z i W W' G)
  then show ?case by (intro close_wf)
qed (auto simp: panes_wf_def watches_def stale_call_def event_lost_def split: receiver.splits)

interpretation panels: step_invariant "pane_step quiet" no_panes "panes_wf quiet" for quiet
  by unfold_locales (simp add: panes_wf_def no_panes_def watches_def stale_call_def event_lost_def, rule pane_step_wf)

text \<open>
  Runs: a pane that watches a project and has an event queued; two panes, the second of them closed; and a pane closed
  while an event for it is being delivered, after the test of the handler and after the call
\<close>

definition one_pane :: panes where
  "one_pane = no_panes\<lparr>pa_alive := [0 \<mapsto> \<lparr>m_watchedProject = None\<rparr>], pa_reg := \<lparr>rg_handler = Some 0, rg_watchers = []\<rparr>, pa_next := 1\<rparr>"

definition busy_pane :: panes where
  "busy_pane = one_pane\<lparr>pa_alive := [0 \<mapsto> \<lparr>m_watchedProject = Some 7\<rparr>], pa_reg := \<lparr>rg_handler = Some 0, rg_watchers = [(7, 0)]\<rparr>, pa_queued := [0]\<rparr>"

definition one_left :: panes where
  "one_left = one_pane\<lparr>pa_reg := \<lparr>rg_handler = None, rg_watchers = []\<rparr>, pa_next := 2\<rparr>"

definition closed_after :: "receiver \<Rightarrow> panes" where
  "closed_after r = no_panes\<lparr>pa_next := 1, pa_receiver := r\<rparr>"

lemma one_pane_reachable: "pane_reachable quiet one_pane"
  using pane_open [of quiet no_panes] by (intro reached_first) (simp add: one_pane_def no_panes_def panel_construct_def)

lemma one_left_reachable: "pane_reachable quiet one_left"
proof -
  let ?new = "\<lparr>m_watchedProject = None\<rparr>"
  define two where "two = one_pane\<lparr>pa_alive := (pa_alive one_pane)(1 \<mapsto> ?new), pa_reg := \<lparr>rg_handler = Some 1, rg_watchers = []\<rparr>, pa_next := 2\<rparr>"
  have "pane_step quiet one_pane two"
    using pane_open [of quiet one_pane] by (simp add: one_pane_def no_panes_def two_def panel_construct_def numeral_2_eq_2)
  moreover have "pane_step quiet two one_left"
    using pane_close [of quiet two 1 ?new ?new "\<lparr>rg_handler = None, rg_watchers = []\<rparr>"]
    by (simp add: two_def one_pane_def no_panes_def one_left_def panel_destruct_def unwatchProject_def)
  ultimately show ?thesis using one_pane_reachable by (blast intro: reached_step)
qed

lemma delivery_reachable:
  assumes "Z = one_pane \<or> Z = busy_pane\<lparr>pa_queued := []\<rparr>" and "pane_reachable quiet Z"
  shows "pane_reachable quiet (Z\<lparr>pa_receiver := Tested\<rparr>)" "pane_reachable quiet (Z\<lparr>pa_receiver := Calling 0\<rparr>)"
    "pane_reachable quiet (Z\<lparr>pa_queued := [0]\<rparr>)"
proof -
  have Z: "pa_receiver Z = Idle" "rg_handler (pa_reg Z) = Some 0" "pa_queued Z = []"
    using assms(1) by (auto simp: one_pane_def busy_pane_def no_panes_def)
  have "pane_step quiet Z (Z\<lparr>pa_receiver := Tested\<rparr>)" using Z by (intro event_tested) auto
  moreover have "pane_step quiet (Z\<lparr>pa_receiver := Tested\<rparr>) (Z\<lparr>pa_receiver := Calling 0\<rparr>)"
    using Z event_called [of "Z\<lparr>pa_receiver := Tested\<rparr>" 0] by simp
  moreover have "pane_step quiet (Z\<lparr>pa_receiver := Calling 0\<rparr>) (Z\<lparr>pa_queued := [0]\<rparr>)"
    using Z event_queued [of "Z\<lparr>pa_receiver := Calling 0\<rparr>" 0 quiet] by (cases Z) simp
  ultimately show "pane_reachable quiet (Z\<lparr>pa_receiver := Tested\<rparr>)" "pane_reachable quiet (Z\<lparr>pa_receiver := Calling 0\<rparr>)"
    "pane_reachable quiet (Z\<lparr>pa_queued := [0]\<rparr>)" using assms(2) by (blast intro: reached_step)+
qed

lemma busy_pane_reachable: "pane_reachable quiet busy_pane"
proof -
  have "pane_step quiet one_pane (busy_pane\<lparr>pa_queued := []\<rparr>)"
    using pane_watch [of one_pane 0 "\<lparr>m_watchedProject = None\<rparr>" "Some 7" "\<lparr>m_watchedProject = Some 7\<rparr>" "\<lparr>rg_handler = Some 0, rg_watchers = [(7, 0)]\<rparr>" quiet]
    by (simp add: one_pane_def busy_pane_def no_panes_def watchProject_def unwatchProject_def)
  from delivery_reachable(3) [OF disjI2 [OF refl] reached_step [OF one_pane_reachable this]]
  show ?thesis by (simp add: busy_pane_def)
qed

lemma closed_after_reachable:
  assumes "r \<in> {Tested, Calling 0}"
  shows "pane_reachable False (closed_after r)"
proof -
  have "pane_reachable False (one_pane\<lparr>pa_receiver := r\<rparr>)"
    using assms delivery_reachable [OF disjI1 [OF refl] one_pane_reachable] by blast
  moreover have "pane_step False (one_pane\<lparr>pa_receiver := r\<rparr>) (closed_after r)"
    using pane_close [of False "one_pane\<lparr>pa_receiver := r\<rparr>" 0 "\<lparr>m_watchedProject = None\<rparr>" "\<lparr>m_watchedProject = None\<rparr>" "\<lparr>rg_handler = None, rg_watchers = []\<rparr>"]
    by (simp add: one_pane_def no_panes_def closed_after_def panel_destruct_def unwatchProject_def)
  ultimately show ?thesis by (rule reached_step)
qed

section \<open>The connect dialog\<close>

lemma trimmed_idem: "trimmed (trimmed s) = trimmed s"
proof -
  have suffix: "dropWhile is_space (rev (dropWhile is_space (rev t))) = rev (dropWhile is_space (rev t))"
    if "dropWhile is_space t = t" for t
  proof (cases t)
    case (Cons c u)
    with that have "\<not> is_space c" by (auto split: if_splits dest: arg_cong [where f = length])
        (metis Suc_n_not_le_n length_Cons length_dropWhile_le)
    then have "dropWhile is_space (rev t) \<noteq> []" using Cons by auto
    moreover have "last (rev t) = c" using Cons by simp
    ultimately have "hd (rev (dropWhile is_space (rev t))) = c"
      by (metis hd_rev last_append takeWhile_dropWhile_id)
    with \<open>\<not> is_space c\<close> \<open>dropWhile is_space (rev t) \<noteq> []\<close> show ?thesis
      by (cases "rev (dropWhile is_space (rev t))") (simp_all del: dropWhile_eq_Nil_conv)
  qed simp
  show ?thesis using suffix [of "dropWhile is_space s"] by (simp add: trimmed_def)
qed

lemma dialog_saved:
  assumes "toInt (to_string_i32 (dialog_port toInt d)) = dialog_port toInt d"
  shows "dialog_host (loadSettings (saveSettings toInt d s)) = dialog_host d"
    "dialog_port toInt (loadSettings (saveSettings toInt d s)) = dialog_port toInt d"
    "dialog_user (loadSettings (saveSettings toInt d s)) = dialog_user d"
proof -
  have "to_string_i64 (scast n) = to_string_i32 n" for n :: i32
    by (simp add: to_string_i64_def to_string_i32_def sint_up_scast is_up)
  then show "dialog_port toInt (loadSettings (saveSettings toInt d s)) = dialog_port toInt d"
    using assms by (simp add: dialog_port_def loadSettings_def saveSettings_def)
qed (simp_all add: dialog_host_def dialog_user_def loadSettings_def saveSettings_def trimmed_idem)

section \<open>Version history\<close>

lemma insert_row_set: "mset (insert_row lt r rs) = add_mset r (mset rs)"
  by (induction rs) auto

lemma insert_row_sorted:
  assumes "\<And>a b. lt a b \<Longrightarrow> \<not> lt b a" and "\<And>a b c. \<not> lt a b \<Longrightarrow> \<not> lt b c \<Longrightarrow> \<not> lt a c"
    and "sorted_wrt (\<lambda>r r'. \<not> lt (fst r) (fst r')) rs"
  shows "sorted_wrt (\<lambda>r r'. \<not> lt (fst r) (fst r')) (insert_row lt r rs)"
  using assms(3)
proof (induction rs)
  case (Cons x xs)
  have "set (insert_row lt r xs) = insert r (set xs)"
    using insert_row_set [of lt r xs] by (metis set_mset_add_mset_insert set_mset_mset)
  moreover have "\<not> lt (fst r) (fst y)" if "\<not> lt (fst r) (fst x)" "y \<in> set xs" for y
    using assms(2) [OF that(1)] Cons.prems that(2) by simp
  ultimately show ?case using Cons assms(1) [of "fst r" "fst x"] by simp
qed simp

lemma sort_rows_sorted:
  assumes "\<And>a b. lt a b \<Longrightarrow> \<not> lt b a" and "\<And>a b c. \<not> lt a b \<Longrightarrow> \<not> lt b c \<Longrightarrow> \<not> lt a c"
  shows "sorted_wrt (\<lambda>r r'. \<not> lt (fst r) (fst r')) (sort_rows lt rs)" "mset (sort_rows lt rs) = mset rs"
proof -
  show "sorted_wrt (\<lambda>r r'. \<not> lt (fst r) (fst r')) (sort_rows lt rs)"
    unfolding sort_rows_def by (induction rs) (simp_all, rule insert_row_sorted [OF assms])
  show "mset (sort_rows lt rs) = mset rs"
    unfolding sort_rows_def by (induction rs) (simp_all add: insert_row_set)
qed

section \<open>Properties\<close>

text \<open>
  C18: whatever panes were opened and closed, whatever projects they watched and whatever events came, the handler of
  the connection is a panel that exists, the watchers registered with projects are, once each, the panels that exist with
  the project each of them watches, and every queued call of \<open>onEventReceived\<close> is for a panel that exists; if panes are
  opened and closed only between deliveries, no delivery runs in a closure that is gone and none finds the handler gone
  that it tested. Without that condition both happen, since nothing locks the handler: a pane closed after the test
  loses the event, and one closed after the call leaves the receive thread in the destroyed closure of the panel. And a
  panel that exists need not be reached: after a second pane was opened and closed again the connection has no handler.
\<close>

theorem panel_registrations:
  assumes "pane_reachable quiet Z"
  shows "(\<forall>i. rg_handler (pa_reg Z) = Some i \<longrightarrow> pa_alive Z i \<noteq> None) \<and> distinct (rg_watchers (pa_reg Z)) \<and>
    (\<forall>p i. (p, i) \<in> set (rg_watchers (pa_reg Z)) \<longleftrightarrow> watches Z p i) \<and> set (pa_queued Z) \<subseteq> dom (pa_alive Z) \<and>
    (quiet \<longrightarrow> \<not> stale_call Z \<and> \<not> event_lost Z) \<and>
    pane_reachable False (closed_after Tested) \<and> event_lost (closed_after Tested) \<and>
    pane_reachable False (closed_after (Calling 0)) \<and> stale_call (closed_after (Calling 0)) \<and> pa_alive (closed_after (Calling 0)) 0 = None \<and>
    pane_reachable True one_left \<and> pa_alive one_left 0 \<noteq> None \<and> rg_handler (pa_reg one_left) = None"
proof -
  have "event_lost (closed_after Tested)" "stale_call (closed_after (Calling 0))" "pa_alive (closed_after (Calling 0)) 0 = None"
    "pa_alive one_left 0 \<noteq> None" "rg_handler (pa_reg one_left) = None"
    by (simp_all add: event_lost_def stale_call_def closed_after_def no_panes_def one_left_def one_pane_def)
  moreover note panels.invariant [OF assms] closed_after_reachable one_left_reachable
  ultimately show ?thesis by (simp add: panes_wf_def)
qed

theorem panel_registrations_witness:
  "pane_reachable True busy_pane \<and> watches busy_pane 7 0 \<and> pa_queued busy_pane = [0] \<and> \<not> stale_call (busy_pane) \<and>
   {(p, i). watches busy_pane p i} = {(7, 0)}"
proof -
  have "rg_watchers (pa_reg busy_pane) = [(7, 0)]" "pa_queued busy_pane = [0]" by (simp_all add: busy_pane_def)
  with panel_registrations [OF busy_pane_reachable [of True]] busy_pane_reachable [of True] show ?thesis by auto
qed

text \<open>
  The connect dialog shows the next time what was accepted the last time, for a port whose decimal text the number
  parser reads back; the password is never kept, and a cancelled dialog leaves the settings alone.
\<close>

theorem connect_dialog_remembers:
  assumes "connect_dialog_run toInt edit link s = (Some d, s')"
    and "toInt (to_string_i32 (dialog_port toInt d)) = dialog_port toInt d"
  shows "(dialog_host (loadSettings s'), dialog_port toInt (loadSettings s'), dialog_user (loadSettings s'), cd_password (loadSettings s')) =
      (dialog_host d, dialog_port toInt d, dialog_user d, []) \<and>
    connect_dialog_run toInt (\<lambda>_. None) link s' = (None, s')"
proof -
  have s': "s' = saveSettings toInt d s" using assms(1) by (auto simp: connect_dialog_run_def Let_def split: option.splits)
  have "cd_password (loadSettings s') = []" by (simp add: loadSettings_def)
  moreover have "connect_dialog_run toInt (\<lambda>_. None) link s' = (None, s')" by (simp add: connect_dialog_run_def Let_def)
  ultimately show ?thesis using dialog_saved [OF assms(2), of s] by (simp add: s')
qed

theorem connect_dialog_remembers_witness:
  "\<exists>s'. connect_dialog_run (\<lambda>t. case stoi t of Inl _ \<Rightarrow> 0 | Inr n \<Rightarrow> n) (\<lambda>d. Some (d\<lparr>cd_host := '' srv'', cd_password := ''pw''\<rparr>)) no_link
      \<lparr>cs_defaultHost = ''localhost'', cs_defaultPort = 13100, cs_defaultUser = ''ann''\<rparr> =
      (Some \<lparr>cd_host = '' srv'', cd_port = ''13100'', cd_user = ''ann'', cd_password = ''pw''\<rparr>, s') \<and>
    dialog_host (loadSettings s') = ''srv'' \<and> cd_password (loadSettings s') = []"
proof -
  let ?toInt = "\<lambda>t. case stoi t of Inl _ \<Rightarrow> 0 | Inr n \<Rightarrow> n"
  let ?d = "\<lparr>cd_host = '' srv'', cd_port = ''13100'', cd_user = ''ann'', cd_password = ''pw''\<rparr>"
  define s' where "s' = saveSettings ?toInt ?d \<lparr>cs_defaultHost = ''localhost'', cs_defaultPort = 13100, cs_defaultUser = ''ann''\<rparr>"
  have "to_string_i64 13100 = ''13100''" by code_simp
  then have run: "connect_dialog_run ?toInt (\<lambda>d. Some (d\<lparr>cd_host := '' srv'', cd_password := ''pw''\<rparr>)) no_link
      \<lparr>cs_defaultHost = ''localhost'', cs_defaultPort = 13100, cs_defaultUser = ''ann''\<rparr> = (Some ?d, s')"
    by (simp add: connect_dialog_run_def loadSettings_def no_link_def link_valid_def s'_def Let_def)
  have "dialog_port ?toInt ?d = 13100" "?toInt (to_string_i32 13100) = 13100" "dialog_host ?d = ''srv''" by code_simp+
  with connect_dialog_remembers [OF run] run show ?thesis by auto
qed

text \<open>
  An item opened from a local file is opened from it again without asking: the handler finds the recorded path under
  the item's key and opens it, or the database beside it, whatever the dialogs would answer, and the record stays.
\<close>

theorem remembered_file_reopened:
  assumes "openItemIntoNewView norm E K repo folder name F = (acts, F', None)" and "fe_choice E = Some 1" and "fe_openPath E = path"
    and "path \<noteq> []" and "fe_window E" and "fe_opens E path" and "recordedPathForItem norm F K repo folder name = []"
    and "candidate = (if fe_exists E' (path @ ''.bndb'') then path @ ''.bndb'' else path)"
    and "fe_exists E' candidate" and "fe_window E'" and "fe_opens E' candidate"
  shows "openItemIntoNewView norm E' K repo folder name F' =
    ([Activity (OpeningRemembered name candidate), OpenFilename candidate], F', None)"
proof -
  have "F' = recordPathForItem norm K repo folder name path F"
    using assms(1-7) by (auto simp: openItemIntoNewView_def open_remembered_def)
  then have "recordedPathForItem norm F' K repo folder name = path"
    by (simp add: recordedPathForItem_def recordPathForItem_def find_or_def umap_simps)
  with assms(4,8-11) show ?thesis by (auto simp: openItemIntoNewView_def open_remembered_def Let_def)
qed

definition choosing :: file_env where
  "choosing = \<lparr>fe_exists = (\<lambda>p. p = ''/tmp/a.exe''), fe_window = True, fe_opens = (\<lambda>_. True), fe_choice = Some 1, fe_openPath = ''/tmp/a.exe'',
     fe_savePath = [], fe_pick = (\<lambda>_. None), fe_writable = (\<lambda>_. True)\<rparr>"

theorem remembered_file_reopened_witness:
  "\<exists>F'. openItemIntoNewView id (choosing\<lparr>fe_choice := None\<rparr>) new_connection ''r'' ''/'' ''a.exe'' F' =
     ([Activity (OpeningRemembered ''a.exe'' ''/tmp/a.exe''), OpenFilename ''/tmp/a.exe''], F', None)"
proof -
  define F' where "F' = recordPathForItem id new_connection ''r'' ''/'' ''a.exe'' ''/tmp/a.exe'' []"
  have "openItemIntoNewView id choosing new_connection ''r'' ''/'' ''a.exe'' [] = ([OpenFilename ''/tmp/a.exe''], F', None)"
    by (simp add: openItemIntoNewView_def open_remembered_def recordedPathForItem_def find_or_def choosing_def F'_def Let_def)
  then have "openItemIntoNewView id (choosing\<lparr>fe_choice := None\<rparr>) new_connection ''r'' ''/'' ''a.exe'' F' =
     ([Activity (OpeningRemembered ''a.exe'' ''/tmp/a.exe''), OpenFilename ''/tmp/a.exe''], F', None)"
    by (rule remembered_file_reopened) (simp_all add: choosing_def recordedPathForItem_def find_or_def)
  then show ?thesis by blast
qed

text \<open>
  The version history shows every version of the item once, in descending order of the text of its number; so with
  the order of texts version 9 stands above version 10, and the first row is not the newest version.
\<close>

theorem history_sorted_as_text:
  assumes "\<forall>a b. lt a b \<longrightarrow> \<not> lt b a" and "\<forall>a b c. \<not> lt a b \<longrightarrow> \<not> lt b c \<longrightarrow> \<not> lt a c"
    and "showHistory lt date (Inr versions) = (rows, status)"
  shows "mset rows = mset (map (history_row date) versions) \<and> sorted_wrt (\<lambda>r r'. \<not> lt (fst r) (fst r')) rows \<and>
    (lt ''10'' ''9'' \<longrightarrow> map fst (fst (showHistory lt date (Inr [v\<lparr>vi_version := 9\<rparr>, v\<lparr>vi_version := 10\<rparr>]))) = [''9'', ''10''])"
proof -
  have "to_string_i32 9 = ''9''" "to_string_i32 10 = ''10''" by code_simp+
  then have "lt ''10'' ''9'' \<longrightarrow> map fst (fst (showHistory lt date (Inr [v\<lparr>vi_version := 9\<rparr>, v\<lparr>vi_version := 10\<rparr>]))) = [''9'', ''10'']"
    using assms(1) by (auto simp: showHistory_def sort_rows_def history_row_def)
  moreover have "rows = sort_rows lt (map (history_row date) versions)" using assms(3) by (simp add: showHistory_def)
  moreover note sort_rows_sorted [of lt "map (history_row date) versions"]
  ultimately show ?thesis using assms(1,2) by blast
qed

text \<open>The order of texts by character codes\<close>

definition text_less :: "string \<Rightarrow> string \<Rightarrow> bool" where
  "text_less a b = ord_class.lexordp (map char_code a) (map char_code b)"

lemma text_less_laws: "text_less a b \<Longrightarrow> \<not> text_less b a" "\<not> text_less a b \<Longrightarrow> \<not> text_less b c \<Longrightarrow> \<not> text_less a c"
  unfolding text_less_def by (metis lexordp_antisym, metis lexordp_linear lexordp_trans)

definition some_version :: VersionInfo where
  "some_version = \<lparr>vi_version = 0, vi_time = 0, vi_user = ''ann'', vi_comment = []\<rparr>"

theorem history_sorted_as_text_witness:
  "map fst (fst (showHistory text_less (\<lambda>_. []) (Inr [some_version\<lparr>vi_version := 9\<rparr>, some_version\<lparr>vi_version := 10\<rparr>]))) = [''9'', ''10'']"
proof -
  have order: "text_less ''10'' ''9''" by code_simp
  have asym: "\<forall>a b. text_less a b \<longrightarrow> \<not> text_less b a" using text_less_laws(1) by blast
  have trans: "\<forall>a b c. \<not> text_less a b \<longrightarrow> \<not> text_less b c \<longrightarrow> \<not> text_less a c" using text_less_laws(2) by blast
  obtain rows status where h: "showHistory text_less (\<lambda>_. []) (Inr []) = (rows, status)"
    by (cases "showHistory text_less (\<lambda>_. []) (Inr [])")
  from history_sorted_as_text [OF asym trans h, of some_version] order show ?thesis by blast
qed

end
