(* ===== verification/Bridge_Server.thy ===== *)
theory Bridge_Server
  imports Connection
begin

text \<open>
  The other end of the wire: the request loop of the Java bridge (\<open>BridgeConnection\<close>), its session
  with the Ghidra Server (\<open>GhidraSession\<close>) and the event streams. The Ghidra Server and what the
  bridge calls of Ghidra's own classes are a record \<open>ghidra_remote\<close> over a state \<open>'w\<close> of the server;
  Gson is a \<open>json_lib\<close> of its own with two further operations. An exception is its message.
\<close>

section \<open>Gson and the Ghidra Server\<close>

text \<open>\<open>JsonElement.getAsJsonArray\<close> and \<open>gson.toJson\<close>; \<open>gson.fromJson\<close> is \<open>jl_parse\<close>\<close>

record 'j gson = "'j json_lib" +
  gs_asArray :: "'j \<Rightarrow> 'j list result"
  gs_toJson :: "'j \<Rightarrow> string"

record server_item =
  si_item :: RepoItem
  si_textData :: "string option"

text \<open>
  \<open>gr_npe\<close> is the message of a null pointer exception, \<open>gr_projectPath\<close> the value of
  \<open>ItemCheckoutStatus.getProjectPath("binja-ghidra", false)\<close>, \<open>gr_valueOf\<close> \<open>CheckoutType.valueOf\<close>.
  \<open>gr_login\<close> is the login up to the server's handle, \<open>gr_connected\<close> the call that tells the server
  about it. \<open>gr_checkout\<close> answers \<open>None\<close> for a null status. \<open>gr_export\<close> and \<open>gr_apply\<close> are
  \<open>DatabaseExporter.export\<close> and \<open>DatabaseImporter.apply\<close> on the opened database.
\<close>

record ('j, 'w) ghidra_remote =
  gr_npe :: string
  gr_projectPath :: string
  gr_valueOf :: "string \<Rightarrow> string result"
  gr_login :: "string \<Rightarrow> i32 \<Rightarrow> string \<Rightarrow> string \<Rightarrow> unit result"
  gr_connected :: "unit result"
  gr_repositoryNames :: "'w \<Rightarrow> string list result"
  gr_getRepository :: "'w \<Rightarrow> string \<Rightarrow> bool result"
  gr_subfolderList :: "'w \<Rightarrow> string \<Rightarrow> string \<Rightarrow> string list option result"
  gr_itemList :: "'w \<Rightarrow> string \<Rightarrow> string \<Rightarrow> server_item list option result"
  gr_versions :: "'w \<Rightarrow> string \<Rightarrow> string \<Rightarrow> string \<Rightarrow> VersionInfo list option result"
  gr_checkouts :: "'w \<Rightarrow> string \<Rightarrow> string \<Rightarrow> string \<Rightarrow> CheckoutInfo list option result"
  gr_checkout :: "'w \<Rightarrow> string \<Rightarrow> string \<Rightarrow> string \<Rightarrow> string \<Rightarrow> string \<Rightarrow> CheckoutInfo option result \<times> 'w"
  gr_terminate :: "'w \<Rightarrow> string \<Rightarrow> string \<Rightarrow> string \<Rightarrow> i64 \<Rightarrow> unit result \<times> 'w"
  gr_deleteItem :: "'w \<Rightarrow> string \<Rightarrow> string \<Rightarrow> string \<Rightarrow> unit result \<times> 'w"
  gr_export :: "'w \<Rightarrow> string \<Rightarrow> string \<Rightarrow> string \<Rightarrow> i32 \<Rightarrow> 'j result"
  gr_apply :: "'w \<Rightarrow> string \<Rightarrow> string \<Rightarrow> string \<Rightarrow> i64 \<Rightarrow> (string \<times> 'j list) list \<Rightarrow> string \<Rightarrow> 'j result \<times> 'w"
  gr_updateCheckoutVersion :: "'w \<Rightarrow> string \<Rightarrow> string \<Rightarrow> string \<Rightarrow> i64 \<Rightarrow> i32 \<Rightarrow> unit result \<times> 'w"

section \<open>State of a connection\<close>

text \<open>
  \<open>openRepos\<close> and \<open>streamers\<close> map a repository to the handle that was opened and to the handle the
  stream reads; a handle is a number, \<open>bs_handles\<close> counts those given out.
\<close>

record bridge_session =
  bs_serverHandle :: bool
  bs_openRepos :: "(string, nat) umap"
  bs_connectedUser :: "string option"
  bs_streamers :: "(string, nat) umap"
  bs_handles :: nat

definition new_session :: bridge_session where
  "new_session = \<lparr>bs_serverHandle = False, bs_openRepos = [], bs_connectedUser = None, bs_streamers = [], bs_handles = 0\<rparr>"

definition session_disconnect :: "bridge_session \<Rightarrow> bridge_session" where
  "session_disconnect S = S\<lparr>bs_openRepos := [], bs_serverHandle := False, bs_connectedUser := None\<rparr>"

definition session_connect ::
    "('j, 'w) ghidra_remote \<Rightarrow> string \<Rightarrow> i32 \<Rightarrow> string \<Rightarrow> string \<Rightarrow> bridge_session \<Rightarrow> unit result \<times> bridge_session" where
  "session_connect R host port user password S =
     (let S = session_disconnect S in
      case gr_login R host port user password of
        Inl e \<Rightarrow> (Inl e, S)
      | Inr _ \<Rightarrow>
          (let S = S\<lparr>bs_serverHandle := True\<rparr> in
           case gr_connected R of
             Inl e \<Rightarrow> (Inl e, S)
           | Inr _ \<Rightarrow> (Inr (), S\<lparr>bs_connectedUser := Some user\<rparr>)))"

definition session_openRepo ::
    "('j, 'w) ghidra_remote \<Rightarrow> string \<Rightarrow> 'w \<Rightarrow> bridge_session \<Rightarrow> unit result \<times> bridge_session" where
  "session_openRepo R name w S =
     (if \<not> bs_serverHandle S then (Inl ''Not connected to Ghidra server'', S)
      else if has_key (bs_openRepos S) name then (Inr (), S)
      else case gr_getRepository R w name of
        Inl e \<Rightarrow> (Inl e, S)
      | Inr found \<Rightarrow>
          if \<not> found then (Inl (''Repository not found: '' @ name), S)
          else (Inr (), S\<lparr>bs_openRepos := AList.update name (bs_handles S) (bs_openRepos S),
                         bs_handles := Suc (bs_handles S)\<rparr>))"

definition session_closeRepo :: "string \<Rightarrow> bridge_session \<Rightarrow> bridge_session" where
  "session_closeRepo name S = S\<lparr>bs_openRepos := AList.delete name (bs_openRepos S)\<rparr>"

definition getRepo :: "string \<Rightarrow> bridge_session \<Rightarrow> nat result" where
  "getRepo name S =
     (case map_of (bs_openRepos S) name of
        None \<Rightarrow> Inl (''Repository not open: '' @ name) | Some h \<Rightarrow> Inr h)"

definition startStreamer :: "string \<Rightarrow> bridge_session \<Rightarrow> unit result \<times> bridge_session" where
  "startStreamer name S =
     (if has_key (bs_streamers S) name then (Inr (), S)
      else case getRepo name S of
        Inl e \<Rightarrow> (Inl e, S)
      | Inr h \<Rightarrow> (Inr (), S\<lparr>bs_streamers := AList.update name h (bs_streamers S)\<rparr>))"

definition stopStreamer :: "string \<Rightarrow> bridge_session \<Rightarrow> bridge_session" where
  "stopStreamer name S = S\<lparr>bs_streamers := AList.delete name (bs_streamers S)\<rparr>"

definition stopAllStreamers :: "bridge_session \<Rightarrow> bridge_session" where
  "stopAllStreamers S = S\<lparr>bs_streamers := []\<rparr>"

section \<open>Reading a request\<close>

text \<open>\<open>req.get(key).getAs...()\<close>, where a missing member is null\<close>

definition member_as :: "'j gson \<Rightarrow> ('j, 'w) ghidra_remote \<Rightarrow> ('j \<Rightarrow> 'a result) \<Rightarrow> 'j \<Rightarrow> string \<Rightarrow> 'a result" where
  "member_as G R conv req key =
     (if jl_contains G req key then res_bind (jl_at G req key) conv else Inl (gr_npe R))"

text \<open>\<open>req.has(key) ? req.get(key).getAs...() : d\<close>\<close>

definition member_or :: "'j gson \<Rightarrow> ('j \<Rightarrow> 'a result) \<Rightarrow> 'a \<Rightarrow> 'j \<Rightarrow> string \<Rightarrow> 'a result" where
  "member_or G conv d req key = (if jl_contains G req key then res_bind (jl_at G req key) conv else Inr d)"

definition strOrDefault :: "'j gson \<Rightarrow> 'j \<Rightarrow> string \<Rightarrow> string \<Rightarrow> string result" where
  "strOrDefault G req key d = member_or G (jl_get_string G) d req key"

section \<open>Serialisation\<close>

definition itemToJson :: "'j gson \<Rightarrow> server_item \<Rightarrow> 'j" where
  "itemToJson G s =
     (let item = si_item s in
      jl_object G ([(''name'', jl_string G (ri_name item)), (''parent_path'', jl_string G (ri_parentPath item)),
         (''path'', jl_string G (ri_path item)), (''file_id'', jl_string G (ri_fileId item)),
         (''item_type'', jl_int G (ri_itemType item)), (''content_type'', jl_string G (ri_contentType item)),
         (''version'', jl_int G (ri_version item)), (''version_time'', jl_int64 G (ri_versionTime item))] @
        (case si_textData s of None \<Rightarrow> [] | Some t \<Rightarrow> [(''text_data'', jl_string G t)])))"

definition checkoutToJson :: "'j gson \<Rightarrow> CheckoutInfo \<Rightarrow> 'j" where
  "checkoutToJson G co =
     jl_object G [(''id'', jl_int64 G (co_id co)), (''type'', jl_string G (co_type co)),
       (''user'', jl_string G (co_user co)), (''version'', jl_int G (co_version co)),
       (''time'', jl_int64 G (co_time co)), (''project_path'', jl_string G (co_projectPath co))]"

definition versionToJson :: "'j gson \<Rightarrow> VersionInfo \<Rightarrow> 'j" where
  "versionToJson G v =
     jl_object G [(''version'', jl_int G (vi_version v)), (''time'', jl_int64 G (vi_time v)),
       (''user'', jl_string G (vi_user v)), (''comment'', jl_string G (vi_comment v))]"

text \<open>The member \<open>count\<close> is an \<open>int\<close>.\<close>

definition count_member :: "'j gson \<Rightarrow> 'a list \<Rightarrow> string \<times> 'j" where
  "count_member G xs = (''count'', jl_int G (of_nat (length xs)))"

section \<open>Operations\<close>

text \<open>
  A handler gives the extra members of the \<open>ok\<close> response or the message of an exception, the session
  and the server's state.
\<close>

type_synonym ('j, 'w) handled = "(string \<times> 'j) list result \<times> bridge_session \<times> 'w"

definition opConnect ::
    "'j gson \<Rightarrow> ('j, 'w) ghidra_remote \<Rightarrow> 'j \<Rightarrow> bridge_session \<Rightarrow> 'w \<Rightarrow> ('j, 'w) handled" where
  "opConnect G R req S w =
     (case res_bind (member_as G R (jl_get_string G) req ''host'') (\<lambda>host.
           res_bind (member_as G R (jl_get_int G) req ''port'') (\<lambda>port.
           res_bind (member_as G R (jl_get_string G) req ''user'') (\<lambda>user.
           res_bind (strOrDefault G req ''password'' []) (\<lambda>password. Inr (host, port, user, password))))) of
        Inl e \<Rightarrow> (Inl e, S, w)
      | Inr (host, port, user, password) \<Rightarrow>
          (case session_connect R host port user password S of
             (Inl e, S) \<Rightarrow> (Inl e, S, w)
           | (Inr _, S) \<Rightarrow> (Inr [(''user'', jl_string G user)], S, w)))"

definition opDisconnect :: "bridge_session \<Rightarrow> 'w \<Rightarrow> ('j, 'w) handled" where
  "opDisconnect S w = (Inr [], session_disconnect (stopAllStreamers S), w)"

text \<open>A null user is a JSON null.\<close>

definition opStatus :: "'j gson \<Rightarrow> bridge_session \<Rightarrow> 'w \<Rightarrow> ('j, 'w) handled" where
  "opStatus G S w =
     (Inr [(''connected'', jl_bool G (bs_serverHandle S)),
           (''user'', case bs_connectedUser S of None \<Rightarrow> jl_null G | Some u \<Rightarrow> jl_string G u),
           (''open_repos'', jl_array G (map (jl_string G \<circ> fst) (bs_openRepos S)))], S, w)"

definition opListRepos :: "'j gson \<Rightarrow> ('j, 'w) ghidra_remote \<Rightarrow> bridge_session \<Rightarrow> 'w \<Rightarrow> ('j, 'w) handled" where
  "opListRepos G R S w =
     (if \<not> bs_serverHandle S then Inl ''Not connected to Ghidra server''
      else res_bind (gr_repositoryNames R w) (\<lambda>repos. Inr [(''repos'', jl_array G (map (jl_string G) repos))]), S, w)"

definition opOpenRepo ::
    "'j gson \<Rightarrow> ('j, 'w) ghidra_remote \<Rightarrow> 'j \<Rightarrow> bridge_session \<Rightarrow> 'w \<Rightarrow> ('j, 'w) handled" where
  "opOpenRepo G R req S w =
     (case member_as G R (jl_get_string G) req ''repo'' of
        Inl e \<Rightarrow> (Inl e, S, w)
      | Inr name \<Rightarrow>
          (case session_openRepo R name w S of
             (Inl e, S) \<Rightarrow> (Inl e, S, w)
           | (Inr _, S) \<Rightarrow>
               (case startStreamer name S of
                  (Inl e, S) \<Rightarrow> (Inl e, S, w)
                | (Inr _, S) \<Rightarrow> (Inr [], S, w))))"

definition opCloseRepo ::
    "'j gson \<Rightarrow> ('j, 'w) ghidra_remote \<Rightarrow> 'j \<Rightarrow> bridge_session \<Rightarrow> 'w \<Rightarrow> ('j, 'w) handled" where
  "opCloseRepo G R req S w =
     (case member_as G R (jl_get_string G) req ''repo'' of
        Inl e \<Rightarrow> (Inl e, S, w)
      | Inr name \<Rightarrow> (Inr [], session_closeRepo name (stopStreamer name S), w))"

text \<open>A null array of the server lists nothing here.\<close>

definition opListItems ::
    "'j gson \<Rightarrow> ('j, 'w) ghidra_remote \<Rightarrow> 'j \<Rightarrow> bridge_session \<Rightarrow> 'w \<Rightarrow> ('j, 'w) handled" where
  "opListItems G R req S w =
     (res_bind (member_as G R (jl_get_string G) req ''repo'') (\<lambda>repo.
      res_bind (strOrDefault G req ''folder'' ''/'') (\<lambda>folder.
      res_bind (getRepo repo S) (\<lambda>_.
      res_bind (gr_itemList R w repo folder) (\<lambda>items.
      let items = (case items of None \<Rightarrow> [] | Some xs \<Rightarrow> xs) in
      Inr [(''items'', jl_array G (map (itemToJson G) items)), count_member G items])))), S, w)"

definition opGetSubfolders ::
    "'j gson \<Rightarrow> ('j, 'w) ghidra_remote \<Rightarrow> 'j \<Rightarrow> bridge_session \<Rightarrow> 'w \<Rightarrow> ('j, 'w) handled" where
  "opGetSubfolders G R req S w =
     (res_bind (member_as G R (jl_get_string G) req ''repo'') (\<lambda>repo.
      res_bind (strOrDefault G req ''folder'' ''/'') (\<lambda>folder.
      res_bind (getRepo repo S) (\<lambda>_.
      res_bind (gr_subfolderList R w repo folder) (\<lambda>subs.
      let subs = (case subs of None \<Rightarrow> [] | Some xs \<Rightarrow> xs) in
      Inr [(''subfolders'', jl_array G (map (jl_string G) subs)), count_member G subs])))), S, w)"

text \<open>The members \<open>repo\<close>, \<open>folder\<close> and \<open>item\<close> that most requests have\<close>

definition item_members ::
    "'j gson \<Rightarrow> ('j, 'w) ghidra_remote \<Rightarrow> 'j \<Rightarrow> (string \<times> string \<times> string) result" where
  "item_members G R req =
     res_bind (member_as G R (jl_get_string G) req ''repo'') (\<lambda>repo.
     res_bind (strOrDefault G req ''folder'' ''/'') (\<lambda>folder.
     res_bind (member_as G R (jl_get_string G) req ''item'') (\<lambda>item. Inr (repo, folder, item))))"

text \<open>\<open>String.toUpperCase\<close> on ASCII letters\<close>

definition to_upper :: "char \<Rightarrow> char" where
  "to_upper c = (if 97 \<le> (of_char c :: nat) \<and> (of_char c :: nat) \<le> 122 then char_of ((of_char c :: nat) - 32) else c)"

definition opCheckout ::
    "'j gson \<Rightarrow> ('j, 'w) ghidra_remote \<Rightarrow> 'j \<Rightarrow> bridge_session \<Rightarrow> 'w \<Rightarrow> ('j, 'w) handled" where
  "opCheckout G R req S w =
     (case res_bind (item_members G R req) (\<lambda>(repo, folder, item).
           res_bind (strOrDefault G req ''type'' ''NORMAL'') (\<lambda>type.
           res_bind (strOrDefault G req ''project_path'' (gr_projectPath R)) (\<lambda>projectPath.
           res_bind (gr_valueOf R (map to_upper type)) (\<lambda>type.
           res_bind (getRepo repo S) (\<lambda>_. Inr (repo, folder, item, type, projectPath)))))) of
        Inl e \<Rightarrow> (Inl e, S, w)
      | Inr (repo, folder, item, type, projectPath) \<Rightarrow>
          (case gr_checkout R w repo folder item type projectPath of
             (Inl e, w) \<Rightarrow> (Inl e, S, w)
           | (Inr None, w) \<Rightarrow> (Inl (gr_npe R), S, w)
           | (Inr (Some co), w) \<Rightarrow> (Inr [(''checkout'', checkoutToJson G co)], S, w)))"

definition opTerminateCheckout ::
    "'j gson \<Rightarrow> ('j, 'w) ghidra_remote \<Rightarrow> 'j \<Rightarrow> bridge_session \<Rightarrow> 'w \<Rightarrow> ('j, 'w) handled" where
  "opTerminateCheckout G R req S w =
     (case res_bind (item_members G R req) (\<lambda>(repo, folder, item).
           res_bind (member_as G R (jl_get_int64 G) req ''checkout_id'') (\<lambda>coId.
           res_bind (getRepo repo S) (\<lambda>_. Inr (repo, folder, item, coId)))) of
        Inl e \<Rightarrow> (Inl e, S, w)
      | Inr (repo, folder, item, coId) \<Rightarrow>
          (case gr_terminate R w repo folder item coId of
             (Inl e, w) \<Rightarrow> (Inl e, S, w)
           | (Inr _, w) \<Rightarrow> (Inr [], S, w)))"

text \<open>A null array of versions or checkouts is a null pointer exception in the loop over it.\<close>

definition opGetVersions ::
    "'j gson \<Rightarrow> ('j, 'w) ghidra_remote \<Rightarrow> 'j \<Rightarrow> bridge_session \<Rightarrow> 'w \<Rightarrow> ('j, 'w) handled" where
  "opGetVersions G R req S w =
     (res_bind (item_members G R req) (\<lambda>(repo, folder, item).
      res_bind (getRepo repo S) (\<lambda>_.
      res_bind (gr_versions R w repo folder item) (\<lambda>versions.
      case versions of
        None \<Rightarrow> Inl (gr_npe R)
      | Some vs \<Rightarrow> Inr [(''versions'', jl_array G (map (versionToJson G) vs))]))), S, w)"

definition opGetCheckouts ::
    "'j gson \<Rightarrow> ('j, 'w) ghidra_remote \<Rightarrow> 'j \<Rightarrow> bridge_session \<Rightarrow> 'w \<Rightarrow> ('j, 'w) handled" where
  "opGetCheckouts G R req S w =
     (res_bind (item_members G R req) (\<lambda>(repo, folder, item).
      res_bind (getRepo repo S) (\<lambda>_.
      res_bind (gr_checkouts R w repo folder item) (\<lambda>checkouts.
      case checkouts of
        None \<Rightarrow> Inl (gr_npe R)
      | Some cs \<Rightarrow> Inr [(''checkouts'', jl_array G (map (checkoutToJson G) cs))]))), S, w)"

definition opDeleteItem ::
    "'j gson \<Rightarrow> ('j, 'w) ghidra_remote \<Rightarrow> 'j \<Rightarrow> bridge_session \<Rightarrow> 'w \<Rightarrow> ('j, 'w) handled" where
  "opDeleteItem G R req S w =
     (case item_members G R req of
        Inl e \<Rightarrow> (Inl e, S, w)
      | Inr (repo, folder, item) \<Rightarrow>
          (case session_openRepo R repo w S of
             (Inl e, S) \<Rightarrow> (Inl e, S, w)
           | (Inr _, S) \<Rightarrow>
               (case gr_deleteItem R w repo folder item of
                  (Inl e, w) \<Rightarrow> (Inl e, S, w)
                | (Inr _, w) \<Rightarrow> (Inr [], S, w))))"

text \<open>
  The members of an export that are copied into the response: \<open>symbols\<close>, \<open>comments\<close> and
  \<open>func_flags\<close> always (\<open>add\<close> of a missing one stores null), the others when present.
\<close>

definition copied :: "'j gson \<Rightarrow> 'j \<Rightarrow> string \<Rightarrow> (string \<times> 'j) list" where
  "copied G dbData key =
     (if jl_contains G dbData key
      then case jl_at G dbData key of Inl _ \<Rightarrow> [] | Inr v \<Rightarrow> [(key, v)] else [])"

definition always_copied :: "'j gson \<Rightarrow> 'j \<Rightarrow> string \<Rightarrow> (string \<times> 'j) list" where
  "always_copied G dbData key = (case copied G dbData key of [] \<Rightarrow> [(key, jl_null G)] | m \<Rightarrow> m)"

definition open_db_members :: "'j gson \<Rightarrow> 'j \<Rightarrow> (string \<times> 'j) list" where
  "open_db_members G dbData =
     copied G dbData ''image_base'' @ always_copied G dbData ''symbols'' @ always_copied G dbData ''comments'' @
     always_copied G dbData ''func_flags'' @
     concat (map (copied G dbData) [''equates'', ''bookmarks'', ''parameters'', ''data_types'', ''data_items'', ''xref_stats''])"

definition opOpenDb ::
    "'j gson \<Rightarrow> ('j, 'w) ghidra_remote \<Rightarrow> 'j \<Rightarrow> bridge_session \<Rightarrow> 'w \<Rightarrow> ('j, 'w) handled" where
  "opOpenDb G R req S w =
     (case res_bind (item_members G R req) (\<lambda>(repo, folder, item).
           res_bind (member_or G (jl_get_int G) (- 1) req ''version'') (\<lambda>version. Inr (repo, folder, item, version))) of
        Inl e \<Rightarrow> (Inl e, S, w)
      | Inr (repo, folder, item, version) \<Rightarrow>
          (case session_openRepo R repo w S of
             (Inl e, S) \<Rightarrow> (Inl e, S, w)
           | (Inr _, S) \<Rightarrow> (res_bind (gr_export R w repo folder item version) (\<lambda>db. Inr (open_db_members G db)), S, w)))"

section \<open>Check-in\<close>

text \<open>The calls a check-in makes on the repository that change it\<close>

datatype repo_call =
    CallCheckout "CheckoutInfo option result"
  | CallApply i64
  | CallUpdateVersion i64 i32
  | CallTerminate i64

definition bridge_checkout :: "('j, 'w) ghidra_remote \<Rightarrow> bridge_session \<Rightarrow> CheckoutInfo \<Rightarrow> bool" where
  "bridge_checkout R S co \<longleftrightarrow> bs_connectedUser S = Some (co_user co) \<and> co_projectPath co = gr_projectPath R"

definition array_keys :: "string list" where
  "array_keys = [''symbols'', ''comments'', ''equate_renames'', ''equate_ref_adds'', ''bookmark_changes'',
     ''param_renames'', ''data_type_changes'', ''data_item_changes'', ''func_sig_changes'']"

definition checkin_members ::
    "'j gson \<Rightarrow> ('j, 'w) ghidra_remote \<Rightarrow> 'j \<Rightarrow> (string \<times> string \<times> string \<times> string \<times> (string \<times> 'j list) list) result" where
  "checkin_members G R req =
     res_bind (item_members G R req) (\<lambda>(repo, folder, item).
     res_bind (strOrDefault G req ''comment'' ''BN sync'') (\<lambda>comment.
     res_bind (res_map (\<lambda>k. res_bind (member_or G (gs_asArray G) [] req k) (\<lambda>xs. Inr (k, xs))) array_keys) (\<lambda>arrays.
     Inr (repo, folder, item, comment, arrays))))"

text \<open>The checkout the check-in writes under, and whether it was made for this check-in\<close>

definition acquire_checkout ::
    "('j, 'w) ghidra_remote \<Rightarrow> string \<Rightarrow> string \<Rightarrow> string \<Rightarrow> bridge_session \<Rightarrow> 'w \<Rightarrow>
     (i64 \<times> bool) result \<times> 'w \<times> repo_call list" where
  "acquire_checkout R repo folder item S w =
     (case gr_checkouts R w repo folder item of
        Inl e \<Rightarrow> (Inl e, w, [])
      | Inr existing \<Rightarrow>
          (case find (bridge_checkout R S) (case existing of None \<Rightarrow> [] | Some cs \<Rightarrow> cs) of
             Some co \<Rightarrow> (Inr (co_id co, False), w, [])
           | None \<Rightarrow>
               (case gr_checkout R w repo folder item ''EXCLUSIVE'' (gr_projectPath R) of
                  (Inl e, w) \<Rightarrow> (Inl e, w, [CallCheckout (Inl e)])
                | (Inr None, w) \<Rightarrow>
                    (Inl (''Checkout failed '' @ map char_of [226 :: nat, 128, 148] @
                          '' the item is already checked out (this may be your own Ghidra session). '' @
                          ''Check it in or undo the checkout in Ghidra, then retry.''), w, [CallCheckout (Inr None)])
                | (Inr (Some co), w) \<Rightarrow> (Inr (co_id co, True), w, [CallCheckout (Inr (Some co))]))))"

definition terminateQuietly ::
    "('j, 'w) ghidra_remote \<Rightarrow> string \<Rightarrow> string \<Rightarrow> string \<Rightarrow> i64 \<Rightarrow> 'w \<Rightarrow> 'w \<times> repo_call list" where
  "terminateQuietly R repo folder item coId w = (snd (gr_terminate R w repo folder item coId), [CallTerminate coId])"

text \<open>The move of the checkout to the new version; its exceptions are only logged\<close>

definition move_checkout ::
    "('j, 'w) ghidra_remote \<Rightarrow> string \<Rightarrow> string \<Rightarrow> string \<Rightarrow> i64 \<Rightarrow> 'w \<Rightarrow> 'w \<times> repo_call list" where
  "move_checkout R repo folder item coId w =
     (case gr_versions R w repo folder item of
        Inr (Some (v # vs)) \<Rightarrow>
          (let new = vi_version (last (v # vs)) in
           (snd (gr_updateCheckoutVersion R w repo folder item coId new), [CallUpdateVersion coId new]))
      | _ \<Rightarrow> (w, []))"

definition written :: "'j gson \<Rightarrow> (string \<times> 'j list) list \<Rightarrow> string \<Rightarrow> string \<Rightarrow> string \<times> 'j" where
  "written G arrays name key = (name, jl_int G (of_nat (length (find_or arrays key []))))"

definition checkin_data :: "'j gson \<Rightarrow> (string \<times> 'j list) list \<Rightarrow> 'j \<Rightarrow> (string \<times> 'j) list" where
  "checkin_data G arrays applyResult =
     [written G arrays ''symbols_written'' ''symbols'', written G arrays ''comments_written'' ''comments'',
      written G arrays ''equates_written'' ''equate_renames'',
      written G arrays ''equate_ref_adds_written'' ''equate_ref_adds'',
      written G arrays ''bookmarks_written'' ''bookmark_changes'', written G arrays ''params_written'' ''param_renames'',
      written G arrays ''data_items_written'' ''data_item_changes'',
      written G arrays ''func_sigs_written'' ''func_sig_changes''] @
     (case copied G applyResult ''added_type_ids'' of [] \<Rightarrow> [(''added_type_ids'', jl_object G [])] | m \<Rightarrow> m) @
     copied G applyResult ''applied''"

definition opCheckin ::
    "'j gson \<Rightarrow> ('j, 'w) ghidra_remote \<Rightarrow> 'j \<Rightarrow> bridge_session \<Rightarrow> 'w \<Rightarrow> ('j, 'w) handled \<times> repo_call list" where
  "opCheckin G R req S w =
     (case res_bind (checkin_members G R req) (\<lambda>m. res_bind (getRepo (fst m) S) (\<lambda>_. Inr m)) of
        Inl e \<Rightarrow> ((Inl e, S, w), [])
      | Inr (repo, folder, item, comment, arrays) \<Rightarrow>
          (case acquire_checkout R repo folder item S w of
             (Inl e, w, calls) \<Rightarrow> ((Inl e, S, w), calls)
           | (Inr (coId, owned), w, calls) \<Rightarrow>
               (case gr_apply R w repo folder item coId arrays comment of
                  (Inl e, w) \<Rightarrow>
                    (let (w, quiet) = (if owned then terminateQuietly R repo folder item coId w else (w, []))
                     in ((Inl e, S, w), calls @ [CallApply coId] @ quiet))
                | (Inr applyResult, w) \<Rightarrow>
                    (let (w, moved) = move_checkout R repo folder item coId w;
                         (w, quiet) = terminateQuietly R repo folder item coId w
                     in ((Inr (checkin_data G arrays applyResult), S, w), calls @ [CallApply coId] @ moved @ quiet)))))"

section \<open>The request loop\<close>

text \<open>
  \<open>download_binary\<close> and \<open>upload_binary\<close> work on files and child processes; their handlers are the
  argument \<open>files\<close>.
\<close>

type_synonym ('j, 'w) file_ops = "string \<Rightarrow> 'j \<Rightarrow> bridge_session \<Rightarrow> 'w \<Rightarrow> ('j, 'w) handled"

definition dispatch_op ::
    "'j gson \<Rightarrow> ('j, 'w) ghidra_remote \<Rightarrow> ('j, 'w) file_ops \<Rightarrow> string \<Rightarrow> 'j \<Rightarrow> bridge_session \<Rightarrow> 'w \<Rightarrow> ('j, 'w) handled" where
  "dispatch_op G R files oper req S w =
     (if oper = ''ping'' then (Inr [], S, w)
      else if oper = ''connect'' then opConnect G R req S w
      else if oper = ''disconnect'' then opDisconnect S w
      else if oper = ''status'' then opStatus G S w
      else if oper = ''list_repos'' then opListRepos G R S w
      else if oper = ''open_repo'' then opOpenRepo G R req S w
      else if oper = ''close_repo'' then opCloseRepo G R req S w
      else if oper = ''list_items'' then opListItems G R req S w
      else if oper = ''get_subfolders'' then opGetSubfolders G R req S w
      else if oper = ''checkout'' then opCheckout G R req S w
      else if oper = ''terminate_checkout'' then opTerminateCheckout G R req S w
      else if oper = ''get_versions'' then opGetVersions G R req S w
      else if oper = ''get_checkouts'' then opGetCheckouts G R req S w
      else if oper = ''open_db'' then opOpenDb G R req S w
      else if oper = ''checkin'' then fst (opCheckin G R req S w)
      else if oper = ''download_binary'' \<or> oper = ''upload_binary'' then files oper req S w
      else if oper = ''delete_item'' then opDeleteItem G R req S w
      else (Inl (''unknown op: '' @ oper), S, w))"

definition respondOk :: "'j gson \<Rightarrow> i32 \<Rightarrow> (string \<times> 'j) list \<Rightarrow> 'j" where
  "respondOk G rid extra = jl_object G ([(''id'', jl_int G rid), (''ok'', jl_bool G True)] @ extra)"

definition respondError :: "'j gson \<Rightarrow> i32 \<Rightarrow> string \<Rightarrow> 'j" where
  "respondError G rid e = jl_object G [(''id'', jl_int G rid), (''ok'', jl_bool G False), (''error'', jl_string G e)]"

text \<open>The response to a parsed request; an id that cannot be read is -1\<close>

definition answer_request ::
    "'j gson \<Rightarrow> ('j, 'w) ghidra_remote \<Rightarrow> ('j, 'w) file_ops \<Rightarrow> 'j \<Rightarrow> bridge_session \<times> 'w \<Rightarrow> 'j \<times> bridge_session \<times> 'w" where
  "answer_request G R files req st =
     (case member_or G (jl_get_int G) (- 1) req ''id'' of
        Inl e \<Rightarrow> (respondError G (- 1) e, st)
      | Inr rid \<Rightarrow>
          (case member_as G R (jl_get_string G) req ''op'' of
             Inl e \<Rightarrow> (respondError G rid e, st)
           | Inr oper \<Rightarrow>
               (case dispatch_op G R files oper req (fst st) (snd st) of
                  (Inl e, st) \<Rightarrow> (respondError G rid e, st)
                | (Inr extra, st) \<Rightarrow> (respondOk G rid extra, st))))"

definition handleRequest ::
    "'j gson \<Rightarrow> ('j, 'w) ghidra_remote \<Rightarrow> ('j, 'w) file_ops \<Rightarrow> string \<Rightarrow> bridge_session \<times> 'w \<Rightarrow> string \<times> bridge_session \<times> 'w" where
  "handleRequest G R files line st =
     (case jl_parse G line of
        Inl e \<Rightarrow> (gs_toJson G (respondError G (- 1) e), st)
      | Inr req \<Rightarrow> (let (resp, st) = answer_request G R files req st in (gs_toJson G resp, st)))"

text \<open>\<open>String.trim\<close> drops characters up to the space at both ends.\<close>

definition java_trim :: "string \<Rightarrow> string" where
  "java_trim s = (let blank = (\<lambda>c. (of_char c :: nat) \<le> 32) in rev (dropWhile blank (rev (dropWhile blank s))))"

text \<open>\<open>BufferedReader.readLine\<close> ends a line at a newline, a carriage return, or both together: \<open>skipLF\<close>
  drops the newline after a carriage return.\<close>

fun java_lines :: "bool \<Rightarrow> string \<Rightarrow> string \<Rightarrow> string list" where
  "java_lines skipLF acc [] = []"
| "java_lines skipLF acc (c # s) =
     (if c = newline then (if skipLF then java_lines False [] s else rev acc # java_lines False [] s)
      else if c = carriage_return then rev acc # java_lines True [] s
      else java_lines False (c # acc) s)"

text \<open>The lines written in answer to the lines read, with \<open>println\<close>'s line separator \<open>eol\<close>\<close>

fun serve_lines ::
    "'j gson \<Rightarrow> ('j, 'w) ghidra_remote \<Rightarrow> ('j, 'w) file_ops \<Rightarrow> string \<Rightarrow> string list \<Rightarrow> bridge_session \<times> 'w \<Rightarrow>
     string list \<times> bridge_session \<times> 'w" where
  "serve_lines G R files eol [] st = ([], st)"
| "serve_lines G R files eol (l # ls) st =
     (let trimmed = java_trim l in
      if trimmed = [] then serve_lines G R files eol ls st
      else let (out, st) = handleRequest G R files trimmed st;
               (outs, st) = serve_lines G R files eol ls st
           in ((out @ eol) # outs, st))"

definition serve ::
    "'j gson \<Rightarrow> ('j, 'w) ghidra_remote \<Rightarrow> ('j, 'w) file_ops \<Rightarrow> string \<Rightarrow> string \<Rightarrow> bridge_session \<times> 'w \<Rightarrow>
     string list \<times> bridge_session \<times> 'w" where
  "serve G R files eol bytes st = serve_lines G R files eol (java_lines False [] bytes) st"

section \<open>Events\<close>

record change_event =
  ce_type :: int
  ce_parentPath :: "string option"
  ce_name :: "string option"
  ce_newParentPath :: "string option"
  ce_newName :: "string option"

text \<open>The constants of \<open>RepositoryChangeEvent\<close>, in the order the function tests them, are \<open>codes\<close>.\<close>

definition event_names :: "string list" where
  "event_names = [''REP_FOLDER_CREATED'', ''REP_ITEM_CREATED'', ''REP_FOLDER_DELETED'', ''REP_FOLDER_MOVED'',
     ''REP_FOLDER_RENAMED'', ''REP_ITEM_DELETED'', ''REP_ITEM_RENAMED'', ''REP_ITEM_MOVED'', ''REP_ITEM_CHANGED'',
     ''REP_OPEN_HANDLE_COUNT'']"

definition eventTypeName :: "int list \<Rightarrow> (int \<Rightarrow> string) \<Rightarrow> int \<Rightarrow> string" where
  "eventTypeName codes print type =
     (case map_of (zip codes event_names) type of Some name \<Rightarrow> name | None \<Rightarrow> ''UNKNOWN_'' @ print type)"

definition optional_member :: "'j gson \<Rightarrow> string \<Rightarrow> string option \<Rightarrow> (string \<times> 'j) list" where
  "optional_member G key v = (case v of None \<Rightarrow> [] | Some s \<Rightarrow> [(key, jl_string G s)])"

definition pushEvent :: "'j gson \<Rightarrow> int list \<Rightarrow> (int \<Rightarrow> string) \<Rightarrow> string \<Rightarrow> change_event \<Rightarrow> 'j" where
  "pushEvent G codes print repoName evt =
     jl_object G ([(''event'', jl_string G ''repo_changed''), (''repo'', jl_string G repoName),
        (''type'', jl_string G (eventTypeName codes print (ce_type evt)))] @
       optional_member G ''parent_path'' (ce_parentPath evt) @ optional_member G ''name'' (ce_name evt) @
       optional_member G ''new_parent_path'' (ce_newParentPath evt) @ optional_member G ''new_name'' (ce_newName evt))"

end
