(* ===== verification/Wire.thy ===== *)
theory Wire
  imports Connection_Props Bridge_Server
begin

text \<open>
  The client and the bridge on one socket. First, several synchronous requests on one client: which
  line each of them takes for its answer. Then the two JSON libraries that meet on the wire: the
  locale \<open>json_interop\<close> says that each reads what the other writes, \<open>bridge_link\<close> adds a client that can
  send. In it a request is followed through the client's \<open>sendAsync\<close>, the bridge's request loop and
  the client's receive loop; what an operation then decodes is the handler's result (\<open>wire_op\<close>).
\<close>

section \<open>Requests in sequence\<close>

record ('c, 'j) request =
  rq_body :: 'j
  rq_timeout :: i32
  rq_promise :: 'c
  rq_received :: "string list"

fun run_requests ::
    "'j json_lib \<Rightarrow> (nat \<Rightarrow> string \<Rightarrow> int) \<Rightarrow> ('c, 'j) request list \<Rightarrow> string \<Rightarrow> 'c bridge_client \<Rightarrow> 'j result list" where
  "run_requests J sock [] partial C = []"
| "run_requests J sock (q # qs) partial C =
     (let (r, partial, C, calls) =
        sendSync J sock (map Some (rq_received q)) partial (rq_body q) (rq_timeout q) (rq_promise q) C
      in r # run_requests J sock qs partial C)"

text \<open>The lines that are completed while each of several parts of a stream arrives\<close>

fun lines_of_parts :: "string \<Rightarrow> string list \<Rightarrow> string list list" where
  "lines_of_parts partial [] = []"
| "lines_of_parts partial (s # ss) =
     fst (split_nl (partial @ s)) # lines_of_parts (snd (split_nl (partial @ s))) ss"

lemma lines_of_parts_concat:
  "newline \<notin> set partial \<Longrightarrow> concat (lines_of_parts partial ss) = fst (split_nl (partial @ concat ss))"
proof (induction ss arbitrary: partial)
  case (Cons s ss)
  then show ?case using split_nl_append [of "partial @ s" "concat ss"] by (simp add: split_nl_rest)
qed (simp add: split_nl_none)

definition first_reply :: "'j json_lib \<Rightarrow> i32 \<Rightarrow> i32 \<Rightarrow> string list \<Rightarrow> 'j result" where
  "first_reply J rid timeoutMs ls =
     (case List.map_filter (own_reply J rid) ls of
        [] \<Rightarrow> Inl (''Ghidra bridge request timed out after '' @ to_string_i32 timeoutMs @ ''ms'')
      | msg # _ \<Rightarrow> Inr msg)"

definition sendable :: "'j json_lib \<Rightarrow> (nat \<Rightarrow> string \<Rightarrow> int) \<Rightarrow> 'j \<Rightarrow> bool" where
  "sendable J sock body \<longleftrightarrow>
     (\<forall>rid. \<exists>line. jl_dump J (jl_set J ''id'' (jl_int J rid) body) = Inr line) \<and> (\<forall>k bytes. sock k bytes > 0)"

lemma sendRaw_loop_accepts: "(\<And>k bytes. sock k bytes > 0) \<Longrightarrow> fst (sendRaw_loop sock k n p)"
proof (induction sock k n p rule: sendRaw_loop.induct)
  case (1 sock k n p)
  have "\<not> sock k (take (nat n) p) \<le> 0" using "1.prems" by (simp add: not_le)
  with 1 show ?case by (subst sendRaw_loop.simps) (auto simp: Let_def split: prod.splits)
qed

lemma sendAsync_line:
  assumes "m_sockValid C" and "\<And>k bytes. sock k bytes > 0"
    and "jl_dump J (jl_set J ''id'' (jl_int J (m_nextId C)) body) = Inr line"
  shows "\<exists>wire. sendAsync J sock body cb C = (Inr (), wire, snd (register_callback cb C), []) \<and>
    (length line < 2 ^ 31 - 1 \<longrightarrow> wire = line @ [newline])"
proof -
  obtain ok wire where raw: "sendRaw sock (line @ [newline]) (snd (register_callback cb C)) = (ok, wire)"
    by (cases "sendRaw sock (line @ [newline]) (snd (register_callback cb C))")
  have ok
    using raw assms(1) sendRaw_loop_accepts [of sock 0 "sint (of_nat (length (line @ [newline])) :: i32)" "line @ [newline]"] assms(2)
    by (simp add: sendRaw_def register_callback_def Let_def)
  moreover have "wire = line @ [newline]" if "length line < 2 ^ 31 - 1"
    using sendRaw_prefix [OF raw] that \<open>ok\<close> by simp
  ultimately show ?thesis
    using raw assms(3) by (simp add: sendAsync_def register_callback_def Let_def newline_def)
qed

text \<open>What a line can change: it can only take requests off the table\<close>

definition fewer_pending :: "'c bridge_client \<Rightarrow> 'c bridge_client \<Rightarrow> bool" where
  "fewer_pending C C' \<longleftrightarrow>
     m_running C' = m_running C \<and> m_sockValid C' = m_sockValid C \<and> m_nextId C' = m_nextId C \<and>
     set (m_pending C') \<subseteq> set (m_pending C)"

lemma receive_line_fewer: "fewer_pending (fst st) (fst (receive_line J line st))"
  using set_delete_subset
  by (cases st) (fastforce simp: fewer_pending_def receive_line_def dispatch_def Let_def result_simps
      split: sum.split option.splits if_splits)

lemma receive_lines_fewer: "fewer_pending (fst st) (fst (fold (receive_line J) ls st))"
proof (induction ls arbitrary: st)
  case (Cons l ls)
  show ?case using receive_line_fewer [of st J l] Cons.IH [of "receive_line J l st"]
    by (auto simp: fewer_pending_def)
qed (simp add: fewer_pending_def)

text \<open>One request on a client that other requests may still be waiting on\<close>

lemma sendSync_step:
  assumes "m_running C" and "m_sockValid C" and "newline \<notin> set partial"
    and "cb \<notin> snd ` set (m_pending C)"
    and sent: "sendAsync J sock body cb C = (Inr (), wire, snd (register_callback cb C), [])"
  obtains C' calls where
    "sendSync J sock (map Some bufs) partial body t cb C =
       (first_reply J (m_nextId C) t (fst (split_nl (partial @ concat bufs))),
        snd (split_nl (partial @ concat bufs)), C', calls)"
    and "m_running C'" and "m_sockValid C'" and "m_nextId C' = m_nextId C + 1"
    and "snd ` set (m_pending C') \<subseteq> insert cb (snd ` set (m_pending C))"
proof -
  define C1 where "C1 = snd (register_callback cb C)"
  note sent = sent [folded C1_def]
  have c1: "m_running C1" "m_sockValid C1" "m_nextId C1 = m_nextId C + 1"
    "snd ` set (m_pending C1) \<subseteq> insert cb (snd ` set (m_pending C))"
    using assms(1,2) set_update_subset [of "m_nextId C" cb "m_pending C"]
    by (auto simp: C1_def register_callback_def Let_def)
  have aw: "awaits cb (m_nextId C) C1"
    using assms(4) by (auto simp: C1_def awaits_def register_callback_def Let_def umap_simps dest: map_of_SomeD
        intro: rev_image_eqI split: if_splits)
  define st where "st = fold (receive_line J) (fst (split_nl (partial @ concat bufs))) (C1, [])"
  have loop: "receiveLoop J (map Some bufs) partial (C1, []) = (snd (split_nl (partial @ concat bufs)), st)"
    unfolding st_def by (rule receiveLoop_stream) (use c1 assms(3) in auto)
  have resp: "response_of cb (snd st) =
      (case List.map_filter (own_reply J (m_nextId C)) (fst (split_nl (partial @ concat bufs))) of [] \<Rightarrow> None | msg # _ \<Rightarrow> Some msg)"
    unfolding st_def using receive_lines_own [of cb "m_nextId C" "(C1, [])"] aw by simp
  have "sendSync J sock (map Some bufs) partial body t cb C =
       (first_reply J (m_nextId C) t (fst (split_nl (partial @ concat bufs))),
        snd (split_nl (partial @ concat bufs)), fst st, snd st)"
    using resp by (cases st) (simp add: sendSync_def sent loop first_reply_def split: list.split)
  moreover have "fewer_pending C1 (fst st)" unfolding st_def using receive_lines_fewer [of "(C1, [])"] by simp
  ultimately show ?thesis using that [of "fst st" "snd st"] c1 by (auto simp: fewer_pending_def)
qed

lemma run_requests_replies:
  assumes "m_running C" and "m_sockValid C" and "newline \<notin> set partial"
    and "distinct (map rq_promise qs)" and "\<And>q. q \<in> set qs \<Longrightarrow> rq_promise q \<notin> snd ` set (m_pending C)"
    and "list_all (\<lambda>q. sendable J sock (rq_body q)) qs"
  shows "run_requests J sock qs partial C =
    map (\<lambda>(i, q, ls). first_reply J (m_nextId C + of_nat i) (rq_timeout q) ls)
      (List.enumerate 0 (zip qs (lines_of_parts partial (map (\<lambda>q. concat (rq_received q)) qs))))"
  using assms
proof (induction qs arbitrary: partial C)
  case (Cons q qs)
  let ?s = "partial @ concat (rq_received q)"
  obtain line where "jl_dump J (jl_set J ''id'' (jl_int J (m_nextId C)) (rq_body q)) = Inr line"
    using Cons.prems(6) unfolding list.pred_inject sendable_def by blast
  moreover have "sock k bytes > 0" for k bytes
    using Cons.prems(6) unfolding list.pred_inject sendable_def by blast
  ultimately obtain wire where sent: "sendAsync J sock (rq_body q) (rq_promise q) C = (Inr (), wire, snd (register_callback (rq_promise q) C), [])"
    using sendAsync_line [of C sock J "rq_body q" line "rq_promise q"] Cons.prems(2) by blast
  obtain C' calls where step: "sendSync J sock (map Some (rq_received q)) partial (rq_body q) (rq_timeout q) (rq_promise q) C =
       (first_reply J (m_nextId C) (rq_timeout q) (fst (split_nl ?s)), snd (split_nl ?s), C', calls)"
    and c': "m_running C'" "m_sockValid C'" "m_nextId C' = m_nextId C + 1"
    and pend: "snd ` set (m_pending C') \<subseteq> insert (rq_promise q) (snd ` set (m_pending C))"
    by (rule sendSync_step [OF Cons.prems(1-3) _ sent, where bufs = "rq_received q" and t = "rq_timeout q"]) (use Cons.prems in auto)
  have "run_requests J sock qs (snd (split_nl ?s)) C' =
    map (\<lambda>(i, q, ls). first_reply J (m_nextId C' + of_nat i) (rq_timeout q) ls)
      (List.enumerate 0 (zip qs (lines_of_parts (snd (split_nl ?s)) (map (\<lambda>q. concat (rq_received q)) qs))))"
  proof (rule Cons.IH)
    fix r assume r: "r \<in> set qs"
    then have "rq_promise r \<noteq> rq_promise q" using Cons.prems(4) by (metis distinct.simps(2) image_eqI image_set list.map(2))
    then show "rq_promise r \<notin> snd ` set (m_pending C')" using Cons.prems(5) [of r] r pend by auto
  next
    show "newline \<notin> set (snd (split_nl ?s))" by (rule split_nl_rest)
  qed (use Cons.prems(4,6) c' in simp_all)
  moreover have "List.enumerate (Suc 0) xs = map (\<lambda>(i, x). (Suc i, x)) (List.enumerate 0 xs)" for xs :: "(('a, 'b) request \<times> string list) list"
    by (auto simp: enumerate_Suc_eq)
  ultimately show ?case by (simp add: step c' case_prod_unfold comp_def add.assoc)
qed simp

section \<open>Two JSON libraries on one wire\<close>

text \<open>A text that travels as one line: not empty, no line break inside, no blank at either end\<close>

definition plain_line :: "string \<Rightarrow> bool" where
  "plain_line s \<longleftrightarrow>
     s \<noteq> [] \<and> newline \<notin> set s \<and> carriage_return \<notin> set s \<and> (of_char (hd s) :: nat) > 32 \<and> (of_char (last s) :: nat) > 32"

locale json_interop = json_library J for J :: "'j json_lib" +
  fixes G :: "'j gson"
  assumes documents: "jl_object G = jl_object J" "jl_array G = jl_array J" "jl_string G = jl_string J"
      "jl_int G = jl_int J" "jl_int64 G = jl_int64 J" "jl_bool G = jl_bool J" "jl_null G = jl_null J"
      "jl_contains G = jl_contains J" "jl_at G = jl_at J" "jl_get_string G = jl_get_string J"
      "jl_get_int G = jl_get_int J" "jl_get_int64 G = jl_get_int64 J" "jl_is_object G = jl_is_object J"
    and as_array: "gs_asArray G (jl_array J xs) = Inr xs"
    and request_text: "jl_dump J j = Inr s \<Longrightarrow> jl_parse G s = Inr j \<and> plain_line s"
    and response_text: "jl_parse J (gs_toJson G j) = Inr j \<and> plain_line (gs_toJson G j)"

lemma java_trim_plain: "plain_line s \<Longrightarrow> java_trim s = s"
proof -
  assume p: "plain_line s"
  then have "dropWhile (\<lambda>c. (of_char c :: nat) \<le> 32) s = s" by (cases s) (auto simp: plain_line_def)
  moreover have "dropWhile (\<lambda>c. (of_char c :: nat) \<le> 32) (rev s) = rev s"
    using p by (cases s rule: rev_cases) (auto simp: plain_line_def)
  ultimately show ?thesis by (simp add: java_trim_def)
qed

lemma java_lines_acc:
  "newline \<notin> set s \<Longrightarrow> carriage_return \<notin> set s \<Longrightarrow>
   java_lines b acc (s @ [newline]) = (if b \<and> s = [] then [] else [rev acc @ s])"
  by (induction s arbitrary: b acc) auto

lemma serve_plain:
  assumes "plain_line s" and "jl_parse G s = Inr req"
  shows "serve G R files eol (s @ [newline]) st =
    ([gs_toJson G (fst (answer_request G R files req st)) @ eol], snd (answer_request G R files req st))"
  using assms java_lines_acc [of s False "[]"]
  by (simp add: serve_def java_trim_plain handleRequest_def plain_line_def Let_def split: prod.split)

text \<open>
  A request sent by the client, answered by the bridge and received by the client, between lines of
  events the streams push; the reply comes before the deadline.
\<close>

definition over_wire ::
    "'j json_lib \<Rightarrow> 'j gson \<Rightarrow> ('j, 'w) ghidra_remote \<Rightarrow> ('j, 'w) file_ops \<Rightarrow> string \<Rightarrow> (nat \<Rightarrow> string \<Rightarrow> int) \<Rightarrow>
     'j list \<Rightarrow> 'j list \<Rightarrow> 'c \<Rightarrow> 'c bridge_client \<Rightarrow> bridge_session \<times> 'w \<Rightarrow> 'j \<Rightarrow> nat \<Rightarrow> 'j result" where
  "over_wire J G R files eol sock before after cb C st req t =
     (let wire = fst (snd (sendAsync J sock req cb C));
          replies = fst (serve G R files eol wire st);
          pushed = map (\<lambda>e. gs_toJson G e @ eol) in
      fst (sendSync J sock (map Some (pushed before @ replies @ pushed after)) [] req (of_nat t) cb C))"

definition fits :: "'j json_lib \<Rightarrow> 'c bridge_client \<Rightarrow> 'j \<Rightarrow> bool" where
  "fits J C req \<longleftrightarrow>
     (case jl_dump J (jl_set J ''id'' (jl_int J (m_nextId C)) req) of Inl _ \<Rightarrow> False | Inr s \<Rightarrow> length s < 2 ^ 31 - 1)"


text \<open>The request as the client numbers it, and the response to what a handler gives\<close>

abbreviation numbered :: "'j json_lib \<Rightarrow> 'c bridge_client \<Rightarrow> 'j \<Rightarrow> 'j" where
  "numbered J C req \<equiv> jl_set J ''id'' (jl_int J (m_nextId C)) req"

definition response :: "'j gson \<Rightarrow> i32 \<Rightarrow> (string \<times> 'j) list result \<Rightarrow> 'j" where
  "response G rid r = (case r of Inl e \<Rightarrow> respondError G rid e | Inr extra \<Rightarrow> respondOk G rid extra)"

definition good_members :: "(string \<times> 'j) list result \<Rightarrow> bool" where
  "good_members r \<longleftrightarrow>
     (case r of Inl _ \<Rightarrow> True
      | Inr extra \<Rightarrow> distinct (map fst extra) \<and> {''id'', ''ok'', ''event''} \<inter> fst ` set extra = {})"

text \<open>A client that can send, and the bridge at the other end\<close>

locale bridge_link = json_interop J G for J :: "'j json_lib" and G :: "'j gson" +
  fixes R :: "('j, 'w) ghidra_remote" and files :: "('j, 'w) file_ops" and eol :: string
    and sock :: "nat \<Rightarrow> string \<Rightarrow> int" and cb :: 'c and C :: "'c bridge_client"
  assumes separator: "eol = [newline] \<or> eol = [carriage_return, newline]"
    and accepts: "sock k bytes > 0"
    and ready: "m_running C" "m_sockValid C" "cb \<notin> snd ` set (m_pending C)"
begin

text \<open>What the bridge reads: the request with the id of the client\<close>

lemma pushed_lines:
  "split_nl (concat (map (\<lambda>j. gs_toJson G j @ eol) js) @ s) =
     (map (\<lambda>j. gs_toJson G j @ butlast eol) js @ fst (split_nl s), snd (split_nl s))"
proof -
  have "concat (map (\<lambda>j. gs_toJson G j @ eol) js) = concat (map (\<lambda>l. l @ [newline]) (map (\<lambda>j. gs_toJson G j @ butlast eol) js))"
    using separator by (induction js) auto
  moreover have "list_all (\<lambda>l. newline \<notin> set l) (map (\<lambda>j. gs_toJson G j @ butlast eol) js)"
    using response_text separator by (auto simp: list_all_iff plain_line_def newline_def carriage_return_def)
  ultimately show ?thesis by (simp only: split_nl_lines)
qed

lemma own_reply_text:
  "own_reply J rid (gs_toJson G j @ butlast eol) =
     (if jl_contains J j ''event'' \<or> \<not> jl_contains J j ''id'' then None
      else case res_bind (jl_at J j ''id'') (jl_get_int J) of Inl _ \<Rightarrow> None | Inr i \<Rightarrow> if i = rid then Some j else None)"
proof -
  have t: "plain_line (gs_toJson G j)" "jl_parse J (gs_toJson G j) = Inr j" using response_text by auto
  then have "strip_cr (gs_toJson G j @ butlast eol) = gs_toJson G j"
    using separator by (auto simp: strip_cr_def plain_line_def last_in_set) (metis last_in_set)
  with t show ?thesis by (simp add: own_reply_def plain_line_def)
qed

lemma over_wire_reply:
  assumes "fits J C req" and "list_all (\<lambda>e. jl_contains J e ''event'') before"
    and "resp = fst (answer_request G R files (jl_set J ''id'' (jl_int J (m_nextId C)) req) st)"
    and "own_reply J (m_nextId C) (gs_toJson G resp @ butlast eol) = Some resp"
  shows "over_wire J G R files eol sock before after cb C st req t = Inr resp"
proof -
  obtain s where s: "jl_dump J (jl_set J ''id'' (jl_int J (m_nextId C)) req) = Inr s" "length s < 2 ^ 31 - 1"
    using assms(1) by (auto simp: fits_def split: sum.splits)
  obtain wire where sent: "sendAsync J sock req cb C = (Inr (), wire, snd (register_callback cb C), [])"
    and wire: "wire = s @ [newline]"
    using sendAsync_line [of C sock J req s cb] ready(2) accepts s by blast
  have served: "fst (serve G R files eol wire st) = [gs_toJson G resp @ eol]"
    using serve_plain [of s G "jl_set J ''id'' (jl_int J (m_nextId C)) req" R files eol st] request_text [OF s(1)]
    by (simp add: wire assms(3))
  define ls where "ls = map (\<lambda>j. gs_toJson G j @ butlast eol) (before @ [resp] @ after)"
  have lines: "fst (split_nl ([] @ concat (map (\<lambda>e. gs_toJson G e @ eol) before @ [gs_toJson G resp @ eol] @ map (\<lambda>e. gs_toJson G e @ eol) after))) = ls"
    using pushed_lines [of "before @ [resp] @ after" "[]"] by (simp add: ls_def)
  have "List.map_filter (own_reply J (m_nextId C)) (map (\<lambda>j. gs_toJson G j @ butlast eol) before) = []"
    using assms(2) by (induction before) (simp_all add: List.map_filter_simps own_reply_text)
  then have "first_reply J (m_nextId C) (of_nat t) ls = Inr resp"
    using assms(4) by (simp add: first_reply_def ls_def map_filter_append List.map_filter_simps)
  moreover obtain C' calls where "sendSync J sock (map Some (map (\<lambda>e. gs_toJson G e @ eol) before @ [gs_toJson G resp @ eol] @ map (\<lambda>e. gs_toJson G e @ eol) after)) [] req (of_nat t) cb C =
     (first_reply J (m_nextId C) (of_nat t) ls, snd (split_nl ([] @ concat (map (\<lambda>e. gs_toJson G e @ eol) before @ [gs_toJson G resp @ eol] @ map (\<lambda>e. gs_toJson G e @ eol) after))), C', calls)"
    by (rule sendSync_step [OF ready(1,2) _ ready(3) sent, where partial = "[]" and t = "of_nat t" and
        bufs = "map (\<lambda>e. gs_toJson G e @ eol) before @ [gs_toJson G resp @ eol] @ map (\<lambda>e. gs_toJson G e @ eol) after"])
      (simp_all only: lines list.set empty_iff not_False_eq_True)
  ultimately show ?thesis
    unfolding over_wire_def Let_def sent fst_conv snd_conv served by simp
qed


text \<open>Reading the members of a request\<close>

lemma numbered_members:
  assumes "jl_is_object J req" and "jl_contains J req k" and "jl_at J req k = Inr v" and "k \<noteq> ''id''"
  shows "member_as G R conv (numbered J C req) k = conv v" "member_or G conv d (numbered J C req) k = conv v"
proof -
  have "jl_contains J (numbered J C req) k" using assms(1,2) by (simp add: object_laws)
  moreover have "jl_at J (numbered J C req) k = Inr v"
    using at_set_other [OF disjI1 [OF assms(1)] assms(4,2)] assms(3) by simp
  ultimately show "member_as G R conv (numbered J C req) k = conv v" "member_or G conv d (numbered J C req) k = conv v"
    by (simp_all add: member_as_def member_or_def documents)
qed

lemma request_members:
  assumes "distinct (map fst kvs)" and "map_of kvs k = Some v" and "k \<noteq> ''id''"
  shows "member_as G R conv (numbered J C (jl_object J kvs)) k = conv v"
    "member_or G conv d (numbered J C (jl_object J kvs)) k = conv v"
proof -
  have "jl_contains J (jl_object J kvs) k" using assms(2) by (auto simp: contains_object dest: map_of_SomeD intro: rev_image_eqI)
  note m = numbered_members [OF is_object_object this at_object [OF assms(1,2)] assms(3)]
  show "member_as G R conv (numbered J C (jl_object J kvs)) k = conv v" by (rule m(1))
  show "member_or G conv d (numbered J C (jl_object J kvs)) k = conv v" by (rule m(2))
qed

lemma request_missing:
  "k \<notin> fst ` set kvs \<Longrightarrow> k \<noteq> ''id'' \<Longrightarrow> member_or G conv d (numbered J C (jl_object J kvs)) k = Inr d"
  by (simp add: member_or_def documents object_laws)

lemma request_id: "jl_is_object J req \<Longrightarrow> member_or G (jl_get_int G) d (numbered J C req) ''id'' = Inr (m_nextId C)"
  by (simp add: member_or_def documents object_laws get_int_int)

lemmas conversions = documents get_string_string get_int_int get_int64_int64

text \<open>The response is taken for the answer to the request\<close>

lemma response_own:
  assumes "good_members r"
  shows "own_reply J (m_nextId C) (gs_toJson G (response G (m_nextId C) r) @ butlast eol) = Some (response G (m_nextId C) r)"
proof -
  obtain kvs where r: "response G (m_nextId C) r = jl_object J ((''id'', jl_int J (m_nextId C)) # kvs)"
    and k: "distinct (map fst ((''id'', jl_int J (m_nextId C)) # kvs))" "''event'' \<notin> fst ` set kvs"
    using assms that by (auto simp: response_def respondError_def respondOk_def good_members_def documents split: sum.splits)
  have "jl_at J (response G (m_nextId C) r) ''id'' = Inr (jl_int J (m_nextId C))" unfolding r by (rule at_object [OF k(1)]) simp
  moreover have "jl_contains J (response G (m_nextId C) r) ''id''" "\<not> jl_contains J (response G (m_nextId C) r) ''event''"
    unfolding r contains_object using k(2) by auto
  ultimately show ?thesis by (simp add: own_reply_text get_int_int)
qed

lemma wire_answer:
  assumes "fits J C req" and "list_all (\<lambda>e. jl_contains J e ''event'') before"
    and "jl_is_object J req" and "jl_contains J req ''op''" and "jl_at J req ''op'' = Inr (jl_string J oper)"
    and "r = fst (dispatch_op G R files oper (numbered J C req) (fst st) (snd st))" and "good_members r"
  shows "over_wire J G R files eol sock before after cb C st req t = Inr (response G (m_nextId C) r)"
proof (rule over_wire_reply [OF assms(1,2) _ response_own [OF assms(7)]])
  have "member_as G R (jl_get_string G) (numbered J C req) ''op'' = Inr oper"
    using numbered_members(1) [OF assms(3-5), where conv = "jl_get_string G"] by (simp add: conversions)
  with request_id [OF assms(3)] assms(6)
  show "response G (m_nextId C) r = fst (answer_request G R files (numbered J C req) st)"
    by (simp add: answer_request_def response_def split: sum.split prod.split)
qed

lemma respond_reads:
  assumes "good_members (Inr extra)"
  shows "jl_value_bool J (respondOk G rid extra) ''ok'' d = Inr True"
    "map_of extra k = Some v \<Longrightarrow> jl_at J (respondOk G rid extra) k = Inr v"
proof -
  have d: "distinct (map fst ([(''id'', jl_int J rid), (''ok'', jl_bool J True)] @ extra))"
    using assms by (auto simp: good_members_def)
  show "jl_value_bool J (respondOk G rid extra) ''ok'' d = Inr True"
    unfolding respondOk_def documents by (rule object_value_bool [OF d]) simp
  assume v: "map_of extra k = Some v"
  then have "k \<noteq> ''id''" "k \<noteq> ''ok''" using assms by (auto simp: good_members_def dest: map_of_SomeD intro: rev_image_eqI)
  with v show "jl_at J (respondOk G rid extra) k = Inr v"
    unfolding respondOk_def documents by (intro at_object [OF d]) simp
qed

lemma wire_op:
  assumes "fits J C (item_request J oper args)" and "list_all (\<lambda>e. jl_contains J e ''event'') before"
    and "distinct (map fst ((''op'', jl_string J oper) # args))" and "''id'' \<notin> fst ` set args"
    and "r = fst (dispatch_op G R files oper (numbered J C (item_request J oper args)) (fst st) (snd st))" and "good_members r"
  shows "bridge_op J (over_wire J G R files eol sock before after cb C st) (item_request J oper args) t refused decode =
    (case r of Inl e \<Rightarrow> Inl e | Inr extra \<Rightarrow> decode (respondOk G (m_nextId C) extra))"
proof -
  have "jl_at J (item_request J oper args) ''op'' = Inr (jl_string J oper)"
    unfolding item_request_def by (rule at_object [OF assms(3)]) simp
  then have answer: "over_wire J G R files eol sock before after cb C st (item_request J oper args) t = Inr (response G (m_nextId C) r)"
    by (intro wire_answer [OF assms(1,2)]) (use assms(5,6) in \<open>simp_all add: item_request_def object_laws\<close>)
  show ?thesis
  proof (cases r)
    case (Inl e)
    then show ?thesis by (simp add: bridge_op_def answer response_def respondError_def documents object_reads)
  next
    case (Inr extra)
    then show ?thesis using assms(6) by (simp add: bridge_op_def answer response_def respond_reads)
  qed
qed

lemma decode_response:
  assumes "good_members (Inr extra)" and "map_of extra key = Some (jl_array J (map enc xs))"
    and "\<And>x. x \<in> set xs \<Longrightarrow> f (enc x) = Inr (g x)"
  shows "decode_array J key f (respondOk G rid extra) = Inr (map g xs)"
proof -
  have "res_map f (map enc xs) = Inr (map g xs)" using assms(3) by (induction xs) auto
  then show ?thesis by (simp add: decode_array_def respond_reads(2) [OF assms(1,2)] elements_array)
qed

lemma item_sent: "itemFromJson J (itemToJson G s) = Inr (si_item s)"
  by (simp add: itemFromJson_def itemToJson_def Let_def documents object_reads split: option.split)

lemma checkout_sent: "checkoutFromJson J (checkoutToJson G co) = Inr co"
  by (simp add: checkoutFromJson_def checkoutToJson_def documents object_reads)

lemma version_sent: "versionFromJson J (versionToJson G v) = Inr v"
  by (simp add: versionFromJson_def versionToJson_def documents object_reads)

end

end
