(* ===== verification/Rpc.thy ===== *)
theory Rpc
  imports Wire
begin

text \<open>
  The repository operations over the wire: for each operation of \<open>GhidraConnection\<close>, what it returns
  when the bridge's handler answers, in terms of the calls on the Ghidra Server.
\<close>

section \<open>What an operation returns of the Ghidra Server\<close>

definition listed :: "'a list option \<Rightarrow> 'a list" where
  "listed xs = (case xs of None \<Rightarrow> [] | Some ys \<Rightarrow> ys)"

definition remote_repos :: "('j, 'w) ghidra_remote \<Rightarrow> bridge_session \<Rightarrow> 'w \<Rightarrow> string list result" where
  "remote_repos R S w =
     (if bs_serverHandle S then gr_repositoryNames R w else Inl ''Not connected to Ghidra server'')"

text \<open>A call on a repository that the session has open\<close>

definition in_repo :: "bridge_session \<Rightarrow> string \<Rightarrow> 'a result \<Rightarrow> 'a result" where
  "in_repo S repo r = res_bind (getRepo repo S) (\<lambda>_. r)"

definition non_null :: "('j, 'w) ghidra_remote \<Rightarrow> 'a option result \<Rightarrow> 'a result" where
  "non_null R r = res_bind r (\<lambda>x. case x of None \<Rightarrow> Inl (gr_npe R) | Some y \<Rightarrow> Inr y)"

definition remote_checkout ::
    "('j, 'w) ghidra_remote \<Rightarrow> bridge_session \<Rightarrow> 'w \<Rightarrow> string \<Rightarrow> string \<Rightarrow> string \<Rightarrow> string \<Rightarrow> CheckoutInfo result" where
  "remote_checkout R S w repo folder item type =
     res_bind (gr_valueOf R (map to_upper type)) (\<lambda>type.
     in_repo S repo (non_null R (fst (gr_checkout R w repo folder item type (gr_projectPath R)))))"

lemma res_bind_assoc: "res_bind (res_bind m f) h = res_bind m (\<lambda>x. res_bind (f x) h)"
  by (cases m) simp_all

lemma res_bind_return [simp]: "res_bind m Inr = m"
  by (cases m) simp_all

lemma bind_option_result:
  "res_bind (case x of None \<Rightarrow> Inl e | Some y \<Rightarrow> Inr y) h = (case x of None \<Rightarrow> Inl e | Some y \<Rightarrow> h y)"
  by (cases x) simp_all

section \<open>Members copied from an export\<close>

definition open_db_keys :: "string list" where
  "open_db_keys = [''image_base'', ''symbols'', ''comments'', ''func_flags'', ''equates'', ''bookmarks'', ''parameters'',
     ''data_types'', ''data_items'', ''xref_stats'']"

definition open_db_member :: "'j gson \<Rightarrow> 'j \<Rightarrow> string \<Rightarrow> (string \<times> 'j) list" where
  "open_db_member G db k =
     (if k \<in> {''symbols'', ''comments'', ''func_flags''} then always_copied G db k else copied G db k)"

lemma open_db_members_map: "open_db_members G db = concat (map (open_db_member G db) open_db_keys)"
  by (simp add: open_db_members_def open_db_keys_def open_db_member_def)

lemma copied_cases: "copied G db k = [] \<or> (\<exists>v. copied G db k = [(k, v)])"
  by (simp add: copied_def split: sum.split)

lemma open_db_member_cases: "open_db_member G db k = [] \<or> (\<exists>v. open_db_member G db k = [(k, v)])"
  using copied_cases [of G db k] by (auto simp: open_db_member_def always_copied_def)

lemma concat_members:
  assumes f: "\<And>k. f k = [] \<or> (\<exists>v. f k = [(k, v)])" and "distinct ks"
  shows "fst ` set (concat (map f ks)) \<subseteq> set ks \<and> distinct (map fst (concat (map f ks))) \<and>
    map_of (concat (map f ks)) k = (if k \<in> set ks then map_of (f k) k else None)"
  using assms(2)
proof (induction ks)
  case (Cons l ks)
  then have "l \<notin> fst ` set (concat (map f ks))" by auto
  with Cons show ?case using f [of l] by (auto simp del: set_concat)
qed simp

lemma open_db_facts:
  "fst ` set (open_db_members G db) \<subseteq> set open_db_keys" "distinct (map fst (open_db_members G db))"
  "map_of (open_db_members G db) k = (if k \<in> set open_db_keys then map_of (open_db_member G db k) k else None)"
  using concat_members [of "open_db_member G db" open_db_keys k, OF open_db_member_cases]
  unfolding open_db_members_map by (auto simp: open_db_keys_def)

context bridge_link
begin

lemmas request_reads = item_request_def item_args_def request_members request_missing strOrDefault_def item_members_def conversions

lemma array_op:
  assumes "fits J C (item_request J oper args)" and "list_all (\<lambda>e. jl_contains J e ''event'') before"
    and "distinct (map fst ((''op'', jl_string J oper) # args))" and "''id'' \<notin> fst ` set args"
    and r: "fst (dispatch_op G R files oper (numbered J C (item_request J oper args)) S w) =
      res_bind x (\<lambda>xs. Inr ((key, jl_array J (map enc xs)) # rest xs))"
    and good: "\<And>xs. good_members (Inr ((key, jl_array J (map enc xs)) # rest xs))"
    and dec: "\<And>y. f (enc y) = Inr (g y)"
  shows "bridge_op J (over_wire J G R files eol sock before after cb C (S, w)) (item_request J oper args) t refused
      (decode_array J key f) = res_bind x (\<lambda>xs. Inr (map g xs))"
proof -
  have "good_members (res_bind x (\<lambda>xs. Inr ((key, jl_array J (map enc xs)) # rest xs)))"
    using good by (cases x) (simp_all add: good_members_def)
  then have "bridge_op J (over_wire J G R files eol sock before after cb C (S, w)) (item_request J oper args) t refused
      (decode_array J key f) = (case res_bind x (\<lambda>xs. Inr ((key, jl_array J (map enc xs)) # rest xs)) of
        Inl e \<Rightarrow> Inl e | Inr extra \<Rightarrow> decode_array J key f (respondOk G (m_nextId C) extra))"
    by (intro wire_op [OF assms(1-4)]) (simp_all add: r)
  then show ?thesis
    using decode_response [OF good, where f = f and g = g] dec by (cases x) simp_all
qed

lemma list_repos_wire:
  assumes "fits J C (item_request J ''list_repos'' [])" and "list_all (\<lambda>e. jl_contains J e ''event'') before"
  shows "listRepos J (over_wire J G R files eol sock before after cb C (S, w)) = remote_repos R S w"
proof -
  have "listRepos J (over_wire J G R files eol sock before after cb C (S, w)) =
      res_bind (remote_repos R S w) (\<lambda>xs. Inr (map (\<lambda>s. s) xs))"
    unfolding listRepos_def
    by (rule array_op [OF assms, where enc = "jl_string J" and rest = "\<lambda>_. []"])
      (simp_all add: dispatch_op_def opListRepos_def remote_repos_def conversions good_members_def)
  then show ?thesis by (cases "remote_repos R S w") simp_all
qed

lemma list_items_wire:
  assumes "fits J C (item_request J ''list_items'' [(''repo'', jl_string J repo), (''folder'', jl_string J folder)])"
    and "list_all (\<lambda>e. jl_contains J e ''event'') before"
  shows "listItems J (over_wire J G R files eol sock before after cb C (S, w)) repo folder =
    in_repo S repo (res_bind (gr_itemList R w repo folder) (\<lambda>items. Inr (map si_item (listed items))))"
proof -
  have "listItems J (over_wire J G R files eol sock before after cb C (S, w)) repo folder =
      res_bind (in_repo S repo (res_bind (gr_itemList R w repo folder) (\<lambda>items. Inr (listed items)))) (\<lambda>xs. Inr (map si_item xs))"
    unfolding listItems_def
    by (rule array_op [OF assms, where enc = "itemToJson G" and rest = "\<lambda>xs. [count_member G xs]"])
      (simp_all add: dispatch_op_def opListItems_def Let_def listed_def request_reads in_repo_def res_bind_assoc
        count_member_def good_members_def item_sent)
  then show ?thesis by (simp add: in_repo_def res_bind_assoc)
qed

lemma subfolders_wire:
  assumes "fits J C (item_request J ''get_subfolders'' [(''repo'', jl_string J repo), (''folder'', jl_string J folder)])"
    and "list_all (\<lambda>e. jl_contains J e ''event'') before"
  shows "getSubfolders J (over_wire J G R files eol sock before after cb C (S, w)) repo folder =
    in_repo S repo (res_bind (gr_subfolderList R w repo folder) (\<lambda>subs. Inr (listed subs)))"
proof -
  have "getSubfolders J (over_wire J G R files eol sock before after cb C (S, w)) repo folder =
      res_bind (in_repo S repo (res_bind (gr_subfolderList R w repo folder) (\<lambda>subs. Inr (listed subs)))) (\<lambda>xs. Inr (map (\<lambda>s. s) xs))"
    unfolding getSubfolders_def
    by (rule array_op [OF assms, where enc = "jl_string J" and rest = "\<lambda>xs. [count_member G xs]"])
      (simp_all add: dispatch_op_def opGetSubfolders_def Let_def listed_def request_reads in_repo_def res_bind_assoc
        count_member_def good_members_def)
  then show ?thesis by (simp add: in_repo_def res_bind_assoc)
qed

lemma versions_wire:
  assumes "fits J C (item_request J ''get_versions'' (item_args J repo folder item))"
    and "list_all (\<lambda>e. jl_contains J e ''event'') before"
  shows "getVersions J (over_wire J G R files eol sock before after cb C (S, w)) repo folder item =
    in_repo S repo (non_null R (gr_versions R w repo folder item))"
proof -
  have "getVersions J (over_wire J G R files eol sock before after cb C (S, w)) repo folder item =
      res_bind (in_repo S repo (non_null R (gr_versions R w repo folder item))) (\<lambda>xs. Inr (map (\<lambda>s. s) xs))"
    unfolding getVersions_def
    by (rule array_op [OF assms, where enc = "versionToJson G" and rest = "\<lambda>xs. []"])
      (simp_all add: dispatch_op_def opGetVersions_def request_reads in_repo_def non_null_def res_bind_assoc
        good_members_def version_sent bind_option_result)
  then show ?thesis by (simp add: in_repo_def res_bind_assoc non_null_def)
qed

lemma checkouts_wire:
  assumes "fits J C (item_request J ''get_checkouts'' (item_args J repo folder item))"
    and "list_all (\<lambda>e. jl_contains J e ''event'') before"
  shows "getCheckouts J (over_wire J G R files eol sock before after cb C (S, w)) repo folder item =
    in_repo S repo (non_null R (gr_checkouts R w repo folder item))"
proof -
  have "getCheckouts J (over_wire J G R files eol sock before after cb C (S, w)) repo folder item =
      res_bind (in_repo S repo (non_null R (gr_checkouts R w repo folder item))) (\<lambda>xs. Inr (map (\<lambda>s. s) xs))"
    unfolding getCheckouts_def
    by (rule array_op [OF assms, where enc = "checkoutToJson G" and rest = "\<lambda>xs. []"])
      (simp_all add: dispatch_op_def opGetCheckouts_def request_reads in_repo_def non_null_def res_bind_assoc
        good_members_def checkout_sent bind_option_result)
  then show ?thesis by (simp add: in_repo_def res_bind_assoc non_null_def)
qed


lemma open_db_good: "good_members (Inr (open_db_members G db))"
  using open_db_facts(1,2) [of G db] by (auto simp: good_members_def open_db_keys_def)

lemma open_db_contains:
  "jl_contains J (respondOk G rid (open_db_members G db)) k \<longleftrightarrow>
     k = ''id'' \<or> k = ''ok'' \<or> (k \<in> set open_db_keys \<and> open_db_member G db k \<noteq> [])"
proof -
  have "k \<in> fst ` set (open_db_members G db) \<longleftrightarrow> map_of (open_db_members G db) k \<noteq> None"
    by (simp add: map_of_eq_None_iff)
  also have "\<dots> \<longleftrightarrow> k \<in> set open_db_keys \<and> open_db_member G db k \<noteq> []"
    using open_db_facts(3) [of G db k] open_db_member_cases [of G db k] by auto
  finally have "k \<in> fst ` set (open_db_members G db) \<longleftrightarrow> k \<in> set open_db_keys \<and> open_db_member G db k \<noteq> []" .
  then show ?thesis by (simp add: respondOk_def documents contains_object)
qed

lemma open_db_at:
  assumes "k \<in> set open_db_keys" and "map_of (open_db_member G db k) k = Some v"
  shows "jl_at J (respondOk G rid (open_db_members G db)) k = Inr v"
proof (rule respond_reads(2) [OF open_db_good])
  show "map_of (open_db_members G db) k = Some v"
    using open_db_facts(3) [of G db k] assms by simp
qed

text \<open>An array of the export is read as it was exported, one that is not forwarded as an empty one.\<close>

lemma open_db_array:
  assumes "k \<in> set open_db_keys" and "parse_array J k f db = Inr xs"
  shows "parse_array J k f (respondOk G rid (open_db_members G db)) = Inr xs"
proof (cases "jl_contains J db k")
  case True
  then obtain v where v: "jl_at J db k = Inr v" using assms(2) by (auto simp: parse_array_def result_simps)
  with True have m: "open_db_member G db k = [(k, v)]"
    by (simp add: open_db_member_def always_copied_def copied_def documents)
  then show ?thesis
    using True v assms open_db_at [OF assms(1), of db v rid] by (simp add: parse_array_def open_db_contains)
next
  case False
  then have c: "copied G db k = []" by (simp add: copied_def documents)
  have xs: "xs = []" using False assms(2) by (simp add: parse_array_def)
  have k: "k \<noteq> ''id''" "k \<noteq> ''ok''" using assms(1) by (auto simp: open_db_keys_def)
  show ?thesis
  proof (cases "k \<in> {''symbols'', ''comments'', ''func_flags''}")
    case True
    then have "open_db_member G db k = [(k, jl_null J)]"
      using c by (simp add: open_db_member_def always_copied_def documents)
    then show ?thesis
      using open_db_at [OF assms(1), of db "jl_null J" rid] xs by (simp add: parse_array_def elements_null)
  next
    case False
    then have "open_db_member G db k = []" using c by (simp add: open_db_member_def)
    with k show ?thesis by (simp add: parse_array_def open_db_contains xs)
  qed
qed

lemma open_db_missing:
  "k \<notin> set open_db_keys \<Longrightarrow> k \<noteq> ''id'' \<Longrightarrow> k \<noteq> ''ok'' \<Longrightarrow>
   parse_array J k f (respondOk G rid (open_db_members G db)) = Inr []"
  by (simp add: parse_array_def open_db_contains)

lemma open_db_stats:
  "parse_xref_stats J db = Inr x \<Longrightarrow> parse_xref_stats J (respondOk G rid (open_db_members G db)) = Inr x"
proof (cases "jl_contains J db ''xref_stats''")
  case True
  assume x: "parse_xref_stats J db = Inr x"
  then obtain v where v: "jl_at J db ''xref_stats'' = Inr v" using True by (auto simp: parse_xref_stats_def result_simps)
  with True have m: "open_db_member G db ''xref_stats'' = [(''xref_stats'', v)]"
    by (simp add: open_db_member_def copied_def documents)
  then show ?thesis
    using True v x open_db_at [of "''xref_stats''" db v rid] by (simp add: parse_xref_stats_def open_db_contains open_db_keys_def)
next
  case False
  assume x: "parse_xref_stats J db = Inr x"
  have "open_db_member G db ''xref_stats'' = []" using False by (simp add: open_db_member_def copied_def documents)
  with False x show ?thesis by (simp add: parse_xref_stats_def open_db_contains)
qed

lemma open_db_base:
  assumes "jl_is_object J db" and "jl_contains J db ''image_base'' \<Longrightarrow> \<exists>s. jl_at J db ''image_base'' = Inr (jl_string J s)"
  shows "value_addr J (respondOk G rid (open_db_members G db)) ''image_base'' = value_addr J db ''image_base''"
proof (cases "jl_contains J db ''image_base''")
  case True
  then obtain s where s: "jl_at J db ''image_base'' = Inr (jl_string J s)" using assms(2) by blast
  with True have m: "open_db_member G db ''image_base'' = [(''image_base'', jl_string J s)]"
    by (simp add: open_db_member_def copied_def documents)
  then have "jl_value_string J (respondOk G rid (open_db_members G db)) ''image_base'' ''0x0'' = Inr s"
    using open_db_at [of "''image_base''" db "jl_string J s" rid]
    by (intro value_string_at) (simp_all add: open_db_contains open_db_keys_def, simp add: respondOk_def documents object_laws)
  with value_string_at [OF assms(1) True s] show ?thesis by (simp add: value_addr_def)
next
  case False
  then have "open_db_member G db ''image_base'' = []" by (simp add: open_db_member_def copied_def documents)
  then have "jl_value_string J (respondOk G rid (open_db_members G db)) ''image_base'' ''0x0'' = Inr ''0x0''"
    by (intro value_string_missing) (simp_all add: open_db_contains, simp add: respondOk_def documents object_laws)
  with value_string_missing [OF assms(1) False] show ?thesis by (simp add: value_addr_def)
qed

lemma open_db_parsed:
  assumes "jl_is_object J db" and "jl_contains J db ''image_base'' \<Longrightarrow> \<exists>s. jl_at J db ''image_base'' = Inr (jl_string J s)"
    and "parseDbExportJson J db = Inr X"
  shows "parseDbExportJson J (respondOk G rid (open_db_members G db)) = Inr (X\<lparr>ex_memoryBlocks := [], ex_diag := []\<rparr>)"
proof -
  have keys: "{''symbols'', ''comments'', ''func_flags'', ''equates'', ''bookmarks'', ''parameters'', ''data_types'',
      ''data_items''} \<subseteq> set open_db_keys" "''diag'' \<notin> set open_db_keys" "''memory_blocks'' \<notin> set open_db_keys"
    by (simp_all add: open_db_keys_def)
  have base: "value_addr J (respondOk G rid (open_db_members G db)) ''image_base'' = value_addr J db ''image_base''"
    by (rule open_db_base [OF assms(1,2)])
  from assms(3) keys(1) show ?thesis
    unfolding parseDbExportJson_def result_simps
    by (auto simp: base open_db_array open_db_stats open_db_missing [OF keys(2)] open_db_missing [OF keys(3)])
qed


lemma open_db_wire:
  assumes "fits J C (item_request J ''open_db'' (item_args J repo folder item @ [(''version'', jl_int J version)]))"
    and "list_all (\<lambda>e. jl_contains J e ''event'') before"
    and "session_openRepo R repo w S = (Inr (), S')" and "gr_export R w repo folder item version = Inr db"
    and "jl_is_object J db" and "jl_contains J db ''image_base'' \<Longrightarrow> \<exists>s. jl_at J db ''image_base'' = Inr (jl_string J s)"
    and "parseDbExportJson J db = Inr X"
  shows "openDatabase J (over_wire J G R files eol sock before after cb C (S, w)) repo folder item version =
    Inr (X\<lparr>ex_memoryBlocks := [], ex_diag := []\<rparr>)"
proof -
  let ?args = "item_args J repo folder item @ [(''version'', jl_int J version)]"
  have r: "fst (dispatch_op G R files ''open_db'' (numbered J C (item_request J ''open_db'' ?args)) S w) = Inr (open_db_members G db)"
    using assms(3,4) by (simp add: dispatch_op_def opOpenDb_def request_reads)
  have "openDatabase J (over_wire J G R files eol sock before after cb C (S, w)) repo folder item version =
      (case Inr (open_db_members G db) of Inl e \<Rightarrow> Inl e | Inr extra \<Rightarrow> parseDbExportJson J (respondOk G (m_nextId C) extra))"
    unfolding openDatabase_def
    by (rule wire_op [OF assms(1,2)]) (simp_all add: r open_db_good, simp_all add: item_args_def)
  then show ?thesis using open_db_parsed [OF assms(5-7)] by simp
qed

lemma open_db_fails:
  assumes "fits J C (item_request J ''open_db'' (item_args J repo folder item @ [(''version'', jl_int J version)]))"
    and "list_all (\<lambda>e. jl_contains J e ''event'') before"
    and "res_bind (fst (session_openRepo R repo w S)) (\<lambda>_. gr_export R w repo folder item version) = Inl e"
  shows "openDatabase J (over_wire J G R files eol sock before after cb C (S, w)) repo folder item version = Inl e"
proof -
  let ?args = "item_args J repo folder item @ [(''version'', jl_int J version)]"
  have r: "fst (dispatch_op G R files ''open_db'' (numbered J C (item_request J ''open_db'' ?args)) S w) = Inl e"
    using assms(3) by (cases "session_openRepo R repo w S"; cases "fst (session_openRepo R repo w S)")
      (simp_all add: dispatch_op_def opOpenDb_def request_reads)
  have "openDatabase J (over_wire J G R files eol sock before after cb C (S, w)) repo folder item version =
      (case Inl e of Inl e \<Rightarrow> Inl e | Inr extra \<Rightarrow> parseDbExportJson J (respondOk G (m_nextId C) extra))"
    unfolding openDatabase_def
    by (rule wire_op [OF assms(1,2)]) (simp_all add: r good_members_def, simp_all add: item_args_def)
  then show ?thesis by simp
qed

lemma open_repo_wire:
  assumes "fits J C (item_request J ''open_repo'' [(''repo'', jl_string J repo)])"
    and "list_all (\<lambda>e. jl_contains J e ''event'') before"
  shows "openRepo J (over_wire J G R files eol sock before after cb C (S, w)) repo =
    res_bind (fst (session_openRepo R repo w S)) (\<lambda>_. fst (startStreamer repo (snd (session_openRepo R repo w S))))"
proof -
  let ?r = "fst (dispatch_op G R files ''open_repo'' (numbered J C (item_request J ''open_repo'' [(''repo'', jl_string J repo)])) S w)"
  have r: "?r = res_bind (fst (session_openRepo R repo w S)) (\<lambda>_.
      res_bind (fst (startStreamer repo (snd (session_openRepo R repo w S)))) (\<lambda>_. Inr []))"
    by (simp add: dispatch_op_def opOpenRepo_def request_reads split: prod.split sum.split)
  have good: "good_members ?r"
    unfolding r by (auto simp: good_members_def result_simps split: sum.split)
  have "openRepo J (over_wire J G R files eol sock before after cb C (S, w)) repo =
      (case ?r of Inl e \<Rightarrow> Inl e | Inr extra \<Rightarrow> Inr ())"
    unfolding openRepo_def by (rule wire_op [OF assms]) (use good in simp_all)
  also have "\<dots> = res_bind (fst (session_openRepo R repo w S)) (\<lambda>_. fst (startStreamer repo (snd (session_openRepo R repo w S))))"
    unfolding r by (cases "fst (session_openRepo R repo w S)"; cases "fst (startStreamer repo (snd (session_openRepo R repo w S)))") simp_all
  finally show ?thesis .
qed

lemma checkout_wire:
  assumes "fits J C (item_request J ''checkout'' (item_args J repo folder item @ [(''type'', jl_string J type)]))"
    and "list_all (\<lambda>e. jl_contains J e ''event'') before"
  shows "checkout J (over_wire J G R files eol sock before after cb C (S, w)) repo folder item type =
    remote_checkout R S w repo folder item type"
proof -
  let ?args = "item_args J repo folder item @ [(''type'', jl_string J type)]"
  let ?r = "fst (dispatch_op G R files ''checkout'' (numbered J C (item_request J ''checkout'' ?args)) S w)"
  have r: "?r = res_bind (remote_checkout R S w repo folder item type) (\<lambda>co. Inr [(''checkout'', checkoutToJson G co)])"
    by (cases "gr_valueOf R (map to_upper type)"; cases "getRepo repo S")
      (simp_all add: dispatch_op_def opCheckout_def request_reads remote_checkout_def in_repo_def non_null_def
        split: prod.split sum.split option.split)
  have good: "good_members ?r" unfolding r by (auto simp: good_members_def result_simps split: sum.split)
  have "checkout J (over_wire J G R files eol sock before after cb C (S, w)) repo folder item type =
      (case ?r of Inl e \<Rightarrow> Inl e
       | Inr extra \<Rightarrow> res_bind (jl_at J (respondOk G (m_nextId C) extra) ''checkout'') (checkoutFromJson J))"
    unfolding checkout_def by (rule wire_op [OF assms]) (use good in \<open>simp_all add: item_args_def\<close>)
  also have "\<dots> = remote_checkout R S w repo folder item type"
    using respond_reads(2) [of "[(''checkout'', checkoutToJson G co)]" "''checkout''" for co]
    unfolding r by (cases "remote_checkout R S w repo folder item type") (simp_all add: good_members_def checkout_sent)
  finally show ?thesis .
qed

end

end
