(* ===== verification/Rpc_Checkin.thy ===== *)
theory Rpc_Checkin
  imports Rpc Checkin
begin

text \<open>
  The check-in over the wire: the request of \<open>GhidraConnection::checkin\<close> reaches the bridge's handler with
  the arrays of the preview, and the outcome is that of the importer.
\<close>

text \<open>The arrays of a request body, by member\<close>

definition checkin_arrays ::
    "'j json_lib \<Rightarrow> checkin_state \<Rightarrow> bn_view \<Rightarrow> GhidraCheckinPreview \<Rightarrow> (string \<times> 'j list) list" where
  "checkin_arrays J S V p =
     (let body = buildCheckinJson J p (rebase_of S V) (m_addrToOriginalFuncComment S) (m_addrToCommentField S) in
      map (\<lambda>k. (k, entries_of J body k)) array_keys)"

text \<open>What the bridge's check-in does, without its JSON: the result of applying the arrays, or the exception\<close>

definition bridge_checkin ::
    "('j, 'w) ghidra_remote \<Rightarrow> bridge_session \<Rightarrow> 'w \<Rightarrow> string \<Rightarrow> string \<Rightarrow> string \<Rightarrow> string \<Rightarrow>
     (string \<times> 'j list) list \<Rightarrow> 'j result" where
  "bridge_checkin R S w repo folder item comment arrays =
     in_repo S repo
       (case acquire_checkout R repo folder item S w of
          (Inl e, _, _) \<Rightarrow> Inl e
        | (Inr (coId, _), w, _) \<Rightarrow> fst (gr_apply R w repo folder item coId arrays comment))"

lemma checkin_result:
  assumes "checkin_members G R req = Inr (repo, folder, item, comment, arrays)"
  shows "fst (fst (opCheckin G R req S w)) =
    res_bind (bridge_checkin R S w repo folder item comment arrays) (\<lambda>res. Inr (checkin_data G arrays res))"
  by (cases "getRepo repo S")
    (simp_all add: opCheckin_def assms bridge_checkin_def in_repo_def Let_def split: sum.split prod.split)

context bridge_link
begin

lemma body_facts:
  assumes "body = buildCheckinJson J p rb fc cols"
  shows "jl_is_object J body" "jl_contains J body k \<longleftrightarrow> k \<in> set array_keys"
    "k \<in> set array_keys \<Longrightarrow> jl_at J body k = Inr (jl_array J (entries_of J body k))"
  by (auto simp: assms buildCheckinJson_def array_keys_def object_laws entries_of_def at_object elements_array)

lemma checkin_request_reads:
  assumes "req = checkin_request J S V p comment"
    and "(k, v) \<in> {(''op'', jl_string J ''checkin''), (''repo'', jl_string J (m_checkinRepo S)),
      (''folder'', jl_string J (m_checkinFolder S)), (''item'', jl_string J (m_checkinItem S)), (''comment'', jl_string J comment)}
      \<union> (\<lambda>(k, xs). (k, jl_array J xs)) ` set (checkin_arrays J S V p)"
  shows "jl_is_object J req" "jl_contains J req k" "jl_at J req k = Inr v" "k \<noteq> ''id''"
proof -
  define body where "body = buildCheckinJson J p (rebase_of S V) (m_addrToOriginalFuncComment S) (m_addrToCommentField S)"
  define kvs where "kvs = [(''op'', jl_string J ''checkin''), (''repo'', jl_string J (m_checkinRepo S)),
      (''folder'', jl_string J (m_checkinFolder S)), (''item'', jl_string J (m_checkinItem S)), (''comment'', jl_string J comment)]"
  note b = body_facts [OF body_def]
  have req: "req = jl_update J (jl_object J kvs) body"
    by (simp add: assms(1) checkin_request_def body_def kvs_def)
  show "jl_is_object J req" unfolding req by (simp add: object_laws b)
  have dist: "distinct (map fst kvs)" "fst ` set kvs \<inter> set array_keys = {}" by (simp_all add: kvs_def array_keys_def)
  consider "(k, v) \<in> set kvs" | "k \<in> set array_keys" "v = jl_array J (entries_of J body k)"
    using assms(2) by (auto simp: kvs_def checkin_arrays_def body_def Let_def)
  then have "jl_contains J req k \<and> jl_at J req k = Inr v \<and> k \<noteq> ''id''"
  proof cases
    case 1
    then have k: "k \<in> fst ` set kvs" "map_of kvs k = Some v" using dist(1) by (auto intro: rev_image_eqI)
    then have "\<not> jl_contains J body k" using dist(2) b(2) by blast
    moreover have "k \<noteq> ''id''" using k(1) by (auto simp: kvs_def)
    ultimately show ?thesis
      using k at_object [OF dist(1) k(2)] unfolding req by (simp add: object_laws b(1))
  next
    case 2
    then show ?thesis
      unfolding req by (auto simp: object_laws b) (simp add: array_keys_def)
  qed
  then show "jl_contains J req k" "jl_at J req k = Inr v" "k \<noteq> ''id''" by simp_all
qed

lemma checkin_members_request:
  assumes "req = checkin_request J S V p comment"
  shows "checkin_members G R (numbered J C req) =
    Inr (m_checkinRepo S, m_checkinFolder S, m_checkinItem S, comment, checkin_arrays J S V p)"
proof -
  let ?members = "{(''op'', jl_string J ''checkin''), (''repo'', jl_string J (m_checkinRepo S)),
      (''folder'', jl_string J (m_checkinFolder S)), (''item'', jl_string J (m_checkinItem S)), (''comment'', jl_string J comment)}
      \<union> (\<lambda>(k, xs). (k, jl_array J xs)) ` set (checkin_arrays J S V p)"
  have as: "member_as G R conv (numbered J C req) k = conv v" if "(k, v) \<in> ?members" for k v and conv :: "'j \<Rightarrow> string result"
    by (rule numbered_members(1) [OF checkin_request_reads [OF assms that]])
  have str: "member_as G R (jl_get_string G) (numbered J C req) ''repo'' = Inr (m_checkinRepo S)"
    "member_as G R (jl_get_string G) (numbered J C req) ''item'' = Inr (m_checkinItem S)"
    using as [of "''repo''" "jl_string J (m_checkinRepo S)"] as [of "''item''" "jl_string J (m_checkinItem S)"]
    by (simp_all add: conversions)
  have dft: "strOrDefault G (numbered J C req) ''folder'' d = Inr (m_checkinFolder S)"
    "strOrDefault G (numbered J C req) ''comment'' d = Inr comment" for d
    unfolding strOrDefault_def
    using numbered_members(2) [OF checkin_request_reads [OF assms, of "''folder''" "jl_string J (m_checkinFolder S)"],
        where conv = "jl_get_string G" and d = d]
      numbered_members(2) [OF checkin_request_reads [OF assms, of "''comment''" "jl_string J comment"],
        where conv = "jl_get_string G" and d = d]
    by (simp_all add: conversions)
  have arr: "member_or G (gs_asArray G) [] (numbered J C req) k = Inr xs" if "(k, xs) \<in> set (checkin_arrays J S V p)" for k xs
  proof -
    have "(k, jl_array J xs) \<in> (\<lambda>(k, xs). (k, jl_array J xs)) ` set (checkin_arrays J S V p)"
      using that by (auto intro: rev_image_eqI)
    then have m: "(k, jl_array J xs) \<in> ?members" by blast
    show ?thesis
      using numbered_members(2) [OF checkin_request_reads [OF assms m], where conv = "gs_asArray G" and d = "[]"] by (simp add: as_array)
  qed
  have "res_map (\<lambda>k. res_bind (member_or G (gs_asArray G) [] (numbered J C req) k) (\<lambda>xs. Inr (k, xs))) array_keys =
      Inr (map (\<lambda>k. (k, entries_of J (buildCheckinJson J p (rebase_of S V) (m_addrToOriginalFuncComment S) (m_addrToCommentField S)) k)) array_keys)"
  proof (rule res_map_Inr_map)
    fix k assume "k \<in> set array_keys"
    then show "res_bind (member_or G (gs_asArray G) [] (numbered J C req) k) (\<lambda>xs. Inr (k, xs)) =
      Inr (k, entries_of J (buildCheckinJson J p (rebase_of S V) (m_addrToOriginalFuncComment S) (m_addrToCommentField S)) k)"
      by (subst arr) (auto simp: checkin_arrays_def Let_def)
  qed
  then show ?thesis
    by (simp add: checkin_members_def item_members_def str dft checkin_arrays_def Let_def)
qed

lemma checkin_data_good: "good_members (Inr (checkin_data G arrays res))"
  using copied_cases [of G res "''added_type_ids''"] copied_cases [of G res "''applied''"]
  by (auto simp: good_members_def checkin_data_def written_def)

lemma checkin_answer:
  assumes "fits J C (checkin_request J S V p comment)" and "list_all (\<lambda>e. jl_contains J e ''event'') before"
  shows "over_wire J G R files eol sock before after cb C (Sb, w) (checkin_request J S V p comment) t =
    Inr (response G (m_nextId C) (res_bind
      (bridge_checkin R Sb w (m_checkinRepo S) (m_checkinFolder S) (m_checkinItem S) comment (checkin_arrays J S V p))
      (\<lambda>res. Inr (checkin_data G (checkin_arrays J S V p) res))))"
proof (rule wire_answer [OF assms])
  let ?req = "checkin_request J S V p comment"
  note op = checkin_request_reads [OF refl, where k = "''op''" and v = "jl_string J ''checkin''" and S = S and comment = comment and V = V and p = p]
  show "jl_is_object J ?req" "jl_contains J ?req ''op''" "jl_at J ?req ''op'' = Inr (jl_string J ''checkin'')"
    using op by simp_all
  let ?r = "res_bind (bridge_checkin R Sb w (m_checkinRepo S) (m_checkinFolder S) (m_checkinItem S) comment (checkin_arrays J S V p))
      (\<lambda>res. Inr (checkin_data G (checkin_arrays J S V p) res))"
  show "?r = fst (dispatch_op G R files ''checkin'' (numbered J C ?req) (fst (Sb, w)) (snd (Sb, w)))"
    using checkin_result [OF checkin_members_request [OF refl]] by (simp add: dispatch_op_def)
  show "good_members ?r"
    using checkin_data_good
    by (cases "bridge_checkin R Sb w (m_checkinRepo S) (m_checkinFolder S) (m_checkinItem S) comment (checkin_arrays J S V p)")
      (simp_all add: good_members_def)
qed


text \<open>The response carries what the importer reported.\<close>

lemma checkin_data_contains:
  "jl_contains J (respondOk G rid (checkin_data G arrays res)) ''added_type_ids''"
  "jl_contains J (respondOk G rid (checkin_data G arrays res)) ''applied'' \<longleftrightarrow> copied G res ''applied'' \<noteq> []"
  using copied_cases [of G res "''added_type_ids''"] copied_cases [of G res "''applied''"]
  by (auto simp: respondOk_def documents contains_object checkin_data_def written_def)

lemma checkin_data_at:
  "jl_at J (respondOk G rid (checkin_data G arrays res)) ''added_type_ids'' =
     Inr (case copied G res ''added_type_ids'' of [] \<Rightarrow> jl_object J [] | m # _ \<Rightarrow> snd m)"
  "copied G res ''applied'' = [(''applied'', v)] \<Longrightarrow>
     jl_at J (respondOk G rid (checkin_data G arrays res)) ''applied'' = Inr v"
proof -
  have "map_of (checkin_data G arrays res) ''added_type_ids'' =
      Some (case copied G res ''added_type_ids'' of [] \<Rightarrow> jl_object J [] | m # _ \<Rightarrow> snd m)"
    using copied_cases [of G res "''added_type_ids''"] by (auto simp: checkin_data_def written_def documents)
  then show "jl_at J (respondOk G rid (checkin_data G arrays res)) ''added_type_ids'' =
     Inr (case copied G res ''added_type_ids'' of [] \<Rightarrow> jl_object J [] | m # _ \<Rightarrow> snd m)"
    by (rule respond_reads(2) [OF checkin_data_good])
  assume "copied G res ''applied'' = [(''applied'', v)]"
  then have "map_of (checkin_data G arrays res) ''applied'' = Some v"
    using copied_cases [of G res "''added_type_ids''"] by (auto simp: checkin_data_def written_def)
  then show "jl_at J (respondOk G rid (checkin_data G arrays res)) ''applied'' = Inr v"
    by (rule respond_reads(2) [OF checkin_data_good])
qed

lemma copied_at:
  assumes "jl_contains J res k \<Longrightarrow> \<exists>v. jl_at J res k = Inr v"
  obtains "\<not> jl_contains J res k" "copied G res k = []" | v where "jl_contains J res k" "jl_at J res k = Inr v" "copied G res k = [(k, v)]"
  using assms that by (cases "jl_contains J res k") (auto simp: copied_def documents)

lemma empty_items: "jl_items J (jl_object J []) = []"
  using items_object [of "[]"] by simp

lemma checkin_reads:
  assumes "\<And>k. jl_contains J res k \<Longrightarrow> \<exists>v. jl_at J res k = Inr v"
  shows "added_type_ids J (respondOk G rid (checkin_data G arrays res)) = added_type_ids J res"
    "applied_warnings J body (respondOk G rid (checkin_data G arrays res)) = applied_warnings J body res"
proof -
  show "added_type_ids J (respondOk G rid (checkin_data G arrays res)) = added_type_ids J res"
    by (rule copied_at [OF assms, of "''added_type_ids''"])
      (simp_all add: added_type_ids_def checkin_data_contains checkin_data_at is_object_object empty_items)
  show "applied_warnings J body (respondOk G rid (checkin_data G arrays res)) = applied_warnings J body res"
    by (rule copied_at [OF assms, of "''applied''"])
      (simp_all add: applied_warnings_def checkin_data_contains checkin_data_at(2))
qed

lemma checkin_wire:
  assumes "fits J C (checkin_request J S V p comment)" and "list_all (\<lambda>e. jl_contains J e ''event'') before"
    and "m_checkinItem S \<noteq> []"
    and "\<And>res k. bridge_checkin R Sb w (m_checkinRepo S) (m_checkinFolder S) (m_checkinItem S) comment (checkin_arrays J S V p) = Inr res \<Longrightarrow>
      jl_contains J res k \<Longrightarrow> \<exists>v. jl_at J res k = Inr v"
  shows "checkin J True True (over_wire J G R files eol sock before after cb C (Sb, w)) V p comment errorOut S =
    (let fail = (\<lambda>e. \<lparr>out_ok = False, out_error = e, out_warnings = [], out_state = S\<rparr>);
         body = buildCheckinJson J p (rebase_of S V) (m_addrToOriginalFuncComment S) (m_addrToCommentField S) in
     case bridge_checkin R Sb w (m_checkinRepo S) (m_checkinFolder S) (m_checkinItem S) comment (checkin_arrays J S V p) of
       Inl e \<Rightarrow> fail e
     | Inr res \<Rightarrow>
         (case res_bind (applied_warnings J body res) (\<lambda>ws. res_bind (added_type_ids J res) (\<lambda>ids. Inr (ws, ids))) of
            Inl e \<Rightarrow> fail e
          | Inr (ws, ids) \<Rightarrow>
              \<lparr>out_ok = True, out_error = errorOut, out_warnings = ws,
               out_state = update_baselines V p (apply_type_ids ids S)\<rparr>))"
proof (cases "bridge_checkin R Sb w (m_checkinRepo S) (m_checkinFolder S) (m_checkinItem S) comment (checkin_arrays J S V p)")
  case (Inl e)
  then show ?thesis
    using assms(3)
    by (simp add: checkin_def checkin_exchange_def checkin_answer [OF assms(1,2)] response_def respondError_def
        documents object_reads)
next
  case (Inr res)
  note reads = checkin_reads [OF assms(4) [OF Inr]]
  let ?body = "buildCheckinJson J p (rebase_of S V) (m_addrToOriginalFuncComment S) (m_addrToCommentField S)"
  show ?thesis
    using assms(3) Inr
    by (cases "applied_warnings J ?body res"; cases "added_type_ids J res")
      (simp_all add: checkin_def checkin_exchange_def checkin_answer [OF assms(1,2)] response_def
        respond_reads(1) [OF checkin_data_good] reads)
qed

end

end
