(* ===== verification/Json_Text.thy ===== *)
theory Json_Text
  imports Wire
begin

text \<open>
  A text form of the concrete tree of JSON values, with a printer, a parser and their round trip. It
  shows that the laws of \<open>json_interop\<close> and \<open>bridge_link\<close> can hold: both ends of the wire use it in the
  interpretations at the end of the theory.
\<close>

section \<open>Printer\<close>

definition print_char :: "char \<Rightarrow> string" where
  "print_char c = [char_of (65 + of_char c div 16 :: nat), char_of (65 + of_char c mod 16 :: nat)]"

definition print_string :: "string \<Rightarrow> string" where
  "print_string s = concat (map print_char s) @ ''.''"

fun print_tree :: "jtree \<Rightarrow> string" where
  "print_tree JNull = ''n''"
| "print_tree (JBool b) = (if b then ''t'' else ''f'')"
| "print_tree (JNum n) = ''i'' @ print_string (toHex n)"
| "print_tree (JStr s) = ''s'' @ print_string s"
| "print_tree (JArr xs) = ''['' @ concat (map print_tree xs) @ '']''"
| "print_tree (JObj kvs) = ''{'' @ concat (map (\<lambda>(k, v). print_string k @ print_tree v) kvs) @ ''}''"

section \<open>Parser\<close>

fun read_string :: "string \<Rightarrow> (string \<times> string) option" where
  "read_string [] = None"
| "read_string [c] = (if c = CHR ''.'' then Some ([], []) else None)"
| "read_string (c # d # s) =
     (if c = CHR ''.'' then Some ([], d # s)
      else case read_string s of
        None \<Rightarrow> None
      | Some (r, t) \<Rightarrow> Some (char_of (16 * (of_char c - 65) + (of_char d - 65) :: nat) # r, t))"

text \<open>The text itself is fuel enough: every call reads a character.\<close>

fun read_tree :: "string \<Rightarrow> string \<Rightarrow> (jtree \<times> string) option"
  and read_array :: "string \<Rightarrow> string \<Rightarrow> (jtree list \<times> string) option"
  and read_object :: "string \<Rightarrow> string \<Rightarrow> ((string \<times> jtree) list \<times> string) option" where
  "read_tree (_ # n) (c # s) =
     (if c = CHR ''n'' then Some (JNull, s)
      else if c = CHR ''t'' then Some (JBool True, s)
      else if c = CHR ''f'' then Some (JBool False, s)
      else if c = CHR ''i'' then map_option (map_prod (\<lambda>r. JNum (parseHexAddr r)) id) (read_string s)
      else if c = CHR ''s'' then map_option (map_prod JStr id) (read_string s)
      else if c = CHR ''['' then map_option (map_prod JArr id) (read_array n s)
      else if c = CHR ''{'' then map_option (map_prod JObj id) (read_object n s)
      else None)"
| "read_tree _ _ = None"
| "read_array (_ # n) (c # s) =
     (if c = CHR '']'' then Some ([], s)
      else case read_tree n (c # s) of
        None \<Rightarrow> None
      | Some (x, t) \<Rightarrow> map_option (map_prod ((#) x) id) (read_array n t))"
| "read_array _ _ = None"
| "read_object (_ # n) (c # s) =
     (if c = CHR ''}'' then Some ([], s)
      else case read_string (c # s) of
        None \<Rightarrow> None
      | Some (k, t) \<Rightarrow>
          (case read_tree n t of
             None \<Rightarrow> None
           | Some (v, u) \<Rightarrow> map_option (map_prod ((#) (k, v)) id) (read_object n u)))"
| "read_object _ _ = None"

definition parse_tree :: "string \<Rightarrow> jtree result" where
  "parse_tree s = (case read_tree s s of Some (j, []) \<Rightarrow> Inr j | _ \<Rightarrow> Inl ''parse_error.101'')"

section \<open>Round trip\<close>

lemma nibble: "n < 16 \<Longrightarrow> of_char (char_of (65 + n :: nat)) = (65 + n :: nat)"
  by simp

lemma char_code_byte: "(of_char c :: nat) < 256"
  by simp

lemma print_char_reads:
  "print_char c = [a, b] \<Longrightarrow> a \<noteq> CHR ''.'' \<and> char_of (16 * (of_char a - 65) + (of_char b - 65) :: nat) = c \<and>
     64 < (of_char a :: nat) \<and> 64 < (of_char b :: nat)"
proof -
  assume p: "print_char c = [a, b]"
  have "of_char c div 16 < (16 :: nat)" using char_code_byte [of c] by linarith
  then have a: "of_char a = (65 + of_char c div 16 :: nat)" and b: "of_char b = (65 + of_char c mod 16 :: nat)"
    using p by (auto simp: print_char_def)
  then have "a \<noteq> CHR ''.''" by auto
  moreover have "16 * (of_char a - 65) + (of_char b - 65) = (of_char c :: nat)" by (simp add: a b)
  ultimately show ?thesis using a b by simp
qed

lemma print_char_two: "\<exists>a b. print_char c = [a, b]"
  by (simp add: print_char_def)

lemma read_print_string: "read_string (print_string s @ t) = Some (s, t)"
proof (induction s)
  case Nil
  show ?case by (cases t) (simp_all add: print_string_def)
next
  case (Cons c s)
  obtain a b where ab: "print_char c = [a, b]" using print_char_two by blast
  with Cons print_char_reads [OF ab] show ?case by (simp add: print_string_def del: add_diff_assoc add_diff_assoc2)
qed

lemma print_string_length: "0 < length (print_string s)"
  by (simp add: print_string_def)

lemma print_tree_length: "0 < length (print_tree j)"
  by (cases j) simp_all

lemma print_tree_first: "\<exists>c s. print_tree j = c # s \<and> c \<noteq> CHR '']''"
  by (cases j) simp_all

lemma print_string_first: "\<exists>c s'. print_string s = c # s' \<and> c \<noteq> CHR ''}''"
proof (cases s)
  case (Cons d s')
  have "of_char d div 16 < (16 :: nat)" using char_code_byte [of d] by linarith
  then have "of_char (char_of (65 + of_char d div 16 :: nat)) \<noteq> (125 :: nat)" by (simp only: nibble)
  moreover have "of_char (CHR ''}'') = (125 :: nat)" by simp
  ultimately have "char_of (65 + of_char d div 16 :: nat) \<noteq> CHR ''}''" by metis
  with Cons show ?thesis by (simp add: print_string_def print_char_def)
qed (simp add: print_string_def)

lemma read_print_array:
  assumes "\<And>x n t. x \<in> set xs \<Longrightarrow> length (print_tree x) \<le> length n \<Longrightarrow> read_tree n (print_tree x @ t) = Some (x, t)"
    and "length (concat (map print_tree xs)) < length n"
  shows "read_array n (concat (map print_tree xs) @ '']'' @ t) = Some (xs, t)"
  using assms
proof (induction xs arbitrary: n)
  case Nil
  then show ?case by (cases n) simp_all
next
  case (Cons x xs)
  obtain d m where n: "n = d # m" using Cons.prems(2) by (cases n) auto
  obtain c s where c: "print_tree x = c # s" "c \<noteq> CHR '']''" using print_tree_first by blast
  have "read_tree m (print_tree x @ concat (map print_tree xs) @ '']'' @ t) = Some (x, concat (map print_tree xs) @ '']'' @ t)"
    by (rule Cons.prems(1)) (use Cons.prems(2) n in auto)
  moreover have "read_array m (concat (map print_tree xs) @ '']'' @ t) = Some (xs, t)"
  proof (rule Cons.IH)
    have "length (print_tree x) + length (concat (map print_tree xs)) < Suc (length m)" using Cons.prems(2) n by simp
    with print_tree_length [of x] show "length (concat (map print_tree xs)) < length m" by linarith
  qed (use Cons.prems(1) in simp)
  ultimately show ?case by (simp add: n c)
qed

lemma read_print_object:
  assumes "\<And>k x n t. (k, x) \<in> set kvs \<Longrightarrow> length (print_tree x) \<le> length n \<Longrightarrow> read_tree n (print_tree x @ t) = Some (x, t)"
    and "length (concat (map (\<lambda>(k, v). print_string k @ print_tree v) kvs)) < length n"
  shows "read_object n (concat (map (\<lambda>(k, v). print_string k @ print_tree v) kvs) @ ''}'' @ t) = Some (kvs, t)"
  using assms
proof (induction kvs arbitrary: n)
  case Nil
  then show ?case by (cases n) simp_all
next
  case (Cons kv kvs)
  obtain k x where kv: "kv = (k, x)" by (cases kv)
  let ?rest = "concat (map (\<lambda>(k, v). print_string k @ print_tree v) kvs) @ ''}'' @ t"
  obtain d m where n: "n = d # m" using Cons.prems(2) by (cases n) auto
  obtain c s where c: "print_string k = c # s" "c \<noteq> CHR ''}''" using print_string_first by blast
  have "read_string (c # s @ print_tree x @ ?rest) = Some (k, print_tree x @ ?rest)"
    using read_print_string [of k "print_tree x @ ?rest"] c by simp
  moreover have "read_tree m (print_tree x @ ?rest) = Some (x, ?rest)"
    by (rule Cons.prems(1)) (use Cons.prems(2) n kv in auto)
  moreover have "read_object m ?rest = Some (kvs, t)"
  proof (rule Cons.IH)
    have "length (print_string k) + (length (print_tree x) + length (concat (map (\<lambda>(k, v). print_string k @ print_tree v) kvs))) < Suc (length m)"
      using Cons.prems(2) n kv by simp
    with print_tree_length [of x] show "length (concat (map (\<lambda>(k, v). print_string k @ print_tree v) kvs)) < length m" by linarith
  qed (metis Cons.prems(1) list.set_intros(2))
  ultimately show ?case by (simp add: n c kv)
qed

lemma read_print_tree: "length (print_tree j) \<le> length n \<Longrightarrow> read_tree n (print_tree j @ t) = Some (j, t)"
proof (induction j arbitrary: n t)
  case (JArr xs)
  obtain d m where n: "n = d # m" using JArr.prems by (cases n) auto
  have "read_array m (concat (map print_tree xs) @ '']'' @ t) = Some (xs, t)"
    by (rule read_print_array) (use JArr n in auto)
  then show ?case by (simp add: n)
next
  case (JObj kvs)
  obtain d m where n: "n = d # m" using JObj.prems by (cases n) auto
  have "read_object m (concat (map (\<lambda>(k, v). print_string k @ print_tree v) kvs) @ ''}'' @ t) = Some (kvs, t)"
    by (rule read_print_object) (use JObj n in \<open>auto simp: snds.simps\<close>)
  then show ?case by (simp add: n)
next
  case (JNum x)
  obtain d m where n: "n = d # m" using JNum.prems by (cases n) auto
  then show ?case by (simp add: read_print_string parse_toHex)
next
  case (JStr x)
  obtain d m where n: "n = d # m" using JStr.prems by (cases n) auto
  then show ?case by (simp add: read_print_string)
next
  case JNull
  then show ?case by (cases n) simp_all
next
  case (JBool b)
  then show ?case by (cases n; cases b) simp_all
qed


lemma parse_print: "parse_tree (print_tree j) = Inr j"
  using read_print_tree [of j "print_tree j" "[]"] by (simp add: parse_tree_def)

section \<open>One line\<close>

lemma print_string_chars: "c \<in> set (print_string s) \<Longrightarrow> (of_char c :: nat) > 32"
proof -
  assume "c \<in> set (print_string s)"
  then consider "c = CHR ''.''" | d where "c \<in> set (print_char d)" by (auto simp: print_string_def)
  then show ?thesis
  proof cases
    case 2
    obtain a b where ab: "print_char d = [a, b]" using print_char_two by blast
    with 2 print_char_reads [OF ab] show ?thesis by auto
  qed simp
qed

lemma print_tree_chars: "c \<in> set (print_tree j) \<Longrightarrow> (of_char c :: nat) > 32"
proof (induction j)
  case (JObj kvs)
  then show ?case by (fastforce simp: print_string_chars split: prod.splits)
qed (auto dest: print_string_chars split: if_splits)

lemma print_tree_plain: "plain_line (print_tree j)"
proof -
  have ne: "print_tree j \<noteq> []" using print_tree_length [of j] by simp
  have "newline \<notin> set (print_tree j)" "carriage_return \<notin> set (print_tree j)"
    using print_tree_chars [of newline j] print_tree_chars [of carriage_return j]
    by (auto simp: newline_def carriage_return_def)
  with ne show ?thesis
    using print_tree_chars [of "hd (print_tree j)" j] print_tree_chars [of "last (print_tree j)" j]
    by (simp add: plain_line_def)
qed

section \<open>Both libraries\<close>

definition text_json :: "jtree json_lib" where
  "text_json = tree_json_with (\<lambda>j. Inr (print_tree j)) parse_tree"

fun tree_array :: "jtree \<Rightarrow> jtree list result" where
  "tree_array (JArr xs) = Inr xs"
| "tree_array _ = Inl ''Not a JSON Array''"

definition text_gson :: "jtree gson" where
  "text_gson = json_lib.extend text_json (gson.fields tree_array print_tree)"

lemmas text_gson_simps = text_gson_def text_json_def tree_json_with_def json_lib.defs gson.defs

lemma text_json_laws: "json_library text_json"
  unfolding text_json_def by (rule tree.json_library_axioms)

interpretation texts: json_interop text_json text_gson
proof -
  have "json_interop_axioms text_json text_gson"
    using print_tree_plain parse_print by unfold_locales (auto simp: text_gson_simps)
  with text_json_laws show "json_interop text_json text_gson" by (rule json_interop.intro)
qed

interpretation plain: bridge_link text_json text_gson R files "[newline]" "\<lambda>k bytes. 1" "''cb''" ready_client
  for R :: "(jtree, 'w) ghidra_remote" and files :: "(jtree, 'w) file_ops"
  by unfold_locales (simp_all add: ready_client_def new_client_def)

end
