(* ===== verification/Bridge_Server_Props.thy ===== *)
theory Bridge_Server_Props
  imports Json_Text
begin

text \<open>
  Properties of the bridge's side: which checkouts a check-in touches, and what the session and the
  event streams keep. The steps of a connection's session are the relation \<open>bridge_step\<close>.
\<close>

section \<open>Sessions\<close>

inductive bridge_step :: "'j gson \<Rightarrow> ('j, 'w) ghidra_remote \<Rightarrow> bridge_session \<Rightarrow> bridge_session \<Rightarrow> bool"
  for G :: "'j gson" and R :: "('j, 'w) ghidra_remote" where
  bridge_connect: "opConnect G R req S w = (res, S', w') \<Longrightarrow> bridge_step G R S S'"
| bridge_disconnect: "(opDisconnect S w :: ('j, 'w) handled) = (res, S', w') \<Longrightarrow> bridge_step G R S S'"
| bridge_open: "opOpenRepo G R req S w = (res, S', w') \<Longrightarrow> bridge_step G R S S'"
| bridge_close: "opCloseRepo G R req S w = (res, S', w') \<Longrightarrow> bridge_step G R S S'"
| bridge_delete: "opDeleteItem G R req S w = (res, S', w') \<Longrightarrow> bridge_step G R S S'"
| bridge_open_db: "opOpenDb G R req S w = (res, S', w') \<Longrightarrow> bridge_step G R S S'"

abbreviation bridge_reachable :: "'j gson \<Rightarrow> ('j, 'w) ghidra_remote \<Rightarrow> bridge_session \<Rightarrow> bool" where
  "bridge_reachable G R \<equiv> reached (bridge_step G R) new_session"

text \<open>
  Repositories are open only while there is a server, at most once each; every handle was given out;
  a stream and the open repository of its name share the handle unless the stream is left over.
\<close>

definition handles_below :: "nat \<Rightarrow> (string, nat) umap \<Rightarrow> bool" where
  "handles_below n m \<longleftrightarrow> (\<forall>h \<in> snd ` set m. h < n)"

lemma handles_below_simps [simp]: "handles_below n []"
  by (simp add: handles_below_def)

lemma handles_below_mono: "handles_below n m \<Longrightarrow> n \<le> k \<Longrightarrow> handles_below k m"
  by (auto simp: handles_below_def)

lemma handles_below_update: "handles_below n m \<Longrightarrow> h < n \<Longrightarrow> handles_below n (AList.update k h m)"
  using set_update_subset [of k h m] by (auto simp: handles_below_def)

lemma handles_below_delete: "handles_below n m \<Longrightarrow> handles_below n (AList.delete k m)"
  using set_delete_subset [of k m] by (auto simp: handles_below_def)

lemma handles_below_lookup: "handles_below n m \<Longrightarrow> map_of m k = Some h \<Longrightarrow> h < n"
  by (auto simp: handles_below_def dest!: map_of_SomeD intro: rev_image_eqI)

definition session_wf :: "bridge_session \<Rightarrow> bool" where
  "session_wf S \<longleftrightarrow>
     (bs_openRepos S \<noteq> [] \<longrightarrow> bs_serverHandle S) \<and> distinct_keys (bs_openRepos S) \<and> distinct_keys (bs_streamers S) \<and>
     handles_below (bs_handles S) (bs_openRepos S) \<and> handles_below (bs_handles S) (bs_streamers S) \<and>
     (bs_connectedUser S \<noteq> None \<longrightarrow> bs_serverHandle S)"

lemma session_wf_disconnect: "session_wf S \<Longrightarrow> session_wf (session_disconnect S)"
  by (auto simp: session_wf_def session_disconnect_def)

lemma session_wf_connect: "session_wf S \<Longrightarrow> session_wf (snd (session_connect R host port user password S))"
  by (auto simp: session_wf_def session_connect_def session_disconnect_def Let_def split: sum.split)

lemma session_wf_open: "session_wf S \<Longrightarrow> session_wf (snd (session_openRepo R name w S))"
  by (auto simp: session_wf_def session_openRepo_def distinct_keys_update
      intro!: handles_below_update elim: handles_below_mono split: sum.split)

lemma session_wf_close: "session_wf S \<Longrightarrow> session_wf (session_closeRepo name S)"
  by (auto simp: session_wf_def session_closeRepo_def distinct_keys_delete handles_below_delete)

lemma session_wf_start: "session_wf S \<Longrightarrow> session_wf (snd (startStreamer name S))"
  by (auto simp: session_wf_def startStreamer_def getRepo_def distinct_keys_update
      intro!: handles_below_update elim: handles_below_lookup split: sum.split option.splits)

lemma session_wf_stop: "session_wf S \<Longrightarrow> session_wf (stopStreamer name S)" "session_wf S \<Longrightarrow> session_wf (stopAllStreamers S)"
  by (auto simp: session_wf_def stopStreamer_def stopAllStreamers_def distinct_keys_delete handles_below_delete)

lemmas session_wf_ops =
  session_wf_disconnect session_wf_connect session_wf_open session_wf_close session_wf_start session_wf_stop

lemma session_wf_new: "session_wf new_session"
  by (simp add: session_wf_def new_session_def)

lemma openRepo_wf: "session_openRepo R name w S = (res, S') \<Longrightarrow> session_wf S \<Longrightarrow> session_wf S'"
  using session_wf_open [of S R name w] by simp

lemma start_wf: "startStreamer name S = (res, S') \<Longrightarrow> session_wf S \<Longrightarrow> session_wf S'"
  using session_wf_start [of S name] by simp

lemma connect_wf: "session_connect R host port user password S = (res, S') \<Longrightarrow> session_wf S \<Longrightarrow> session_wf S'"
  using session_wf_connect [of S R host port user password] by simp

lemma bridge_step_wf:
  assumes "bridge_step G R S S'" and "session_wf S"
  shows "session_wf S'"
  using assms
proof cases
  case bridge_connect
  then show ?thesis using assms(2) by (auto simp: opConnect_def split: sum.splits prod.splits dest: connect_wf)
next
  case bridge_disconnect
  then show ?thesis using assms(2) by (auto simp: opDisconnect_def intro: session_wf_ops)
next
  case bridge_open
  then show ?thesis using assms(2) by (auto simp: opOpenRepo_def split: sum.splits prod.splits dest: openRepo_wf start_wf)
next
  case bridge_close
  then show ?thesis using assms(2) by (auto simp: opCloseRepo_def split: sum.splits intro: session_wf_ops)
next
  case bridge_delete
  then show ?thesis using assms(2) by (auto simp: opDeleteItem_def split: sum.splits prod.splits dest: openRepo_wf)
next
  case bridge_open_db
  then show ?thesis using assms(2) by (auto simp: opOpenDb_def split: sum.splits prod.splits dest: openRepo_wf)
qed

interpretation bridge: step_invariant "bridge_step G R" new_session session_wf
  for G :: "'j gson" and R :: "('j, 'w) ghidra_remote"
  by unfold_locales (auto intro: session_wf_new bridge_step_wf)

lemma connect_session:
  assumes "session_connect R host port user password S = (Inr u, S')"
  shows "bs_openRepos S' = []" "bs_streamers S' = bs_streamers S" "bs_handles S' = bs_handles S" "bs_serverHandle S'"
  using assms by (auto simp: session_connect_def session_disconnect_def Let_def split: sum.splits)

section \<open>Checkouts of a check-in\<close>

definition bridge_owned ::
    "('j, 'w) ghidra_remote \<Rightarrow> bridge_session \<Rightarrow> 'w \<Rightarrow> string \<Rightarrow> string \<Rightarrow> string \<Rightarrow> repo_call list \<Rightarrow> i64 \<Rightarrow> bool" where
  "bridge_owned R S w repo folder item calls coId \<longleftrightarrow>
     (\<exists>cs co. gr_checkouts R w repo folder item = Inr (Some cs) \<and> co \<in> set cs \<and> bs_connectedUser S = Some (co_user co) \<and>
       co_projectPath co = gr_projectPath R \<and> co_id co = coId) \<or>
     (\<exists>co. CallCheckout (Inr (Some co)) \<in> set calls \<and> co_id co = coId)"

lemma find_found: "find P xs = Some x \<Longrightarrow> x \<in> set xs \<and> P x"
  by (auto simp: find_Some_iff)

lemma acquire_calls:
  assumes "acquire_checkout R repo folder item S w = (res, w', calls)"
  shows "(\<exists>r. calls = [CallCheckout r]) \<or> calls = []"
    "res = Inr (coId, owned) \<Longrightarrow> bridge_owned R S w repo folder item calls coId \<and>
      (if owned then \<exists>co. calls = [CallCheckout (Inr (Some co))] \<and> co_id co = coId else calls = [])"
    "CallCheckout (Inr (Some co)) \<in> set calls \<Longrightarrow> res = Inr (co_id co, True)"
  using assms
  by (auto simp: acquire_checkout_def bridge_owned_def bridge_checkout_def split: sum.splits option.splits prod.splits if_splits
      dest!: find_found)


lemma move_calls: "move_checkout R repo folder item coId w = (w', moved) \<Longrightarrow> moved = [] \<or> (\<exists>v. moved = [CallUpdateVersion coId v])"
  by (auto simp: move_checkout_def Let_def split: sum.splits option.splits list.splits)

section \<open>A sample server\<close>

text \<open>A server with one repository, whose state is the list of checkouts of its one item\<close>

definition sample_co :: CheckoutInfo where
  "sample_co = \<lparr>co_id = 7, co_type = ''EXCLUSIVE'', co_user = ''ann'', co_version = 1, co_time = 0, co_projectPath = ''h::binja-ghidra''\<rparr>"

definition foreign_co :: CheckoutInfo where
  "foreign_co = sample_co\<lparr>co_id := 3, co_projectPath := ''h::/home/ann/project''\<rparr>"

definition sample_server_item :: server_item where
  "sample_server_item =
     \<lparr>si_item = \<lparr>ri_name = ''a.exe'', ri_parentPath = ''/'', ri_path = ''/a.exe'', ri_fileId = ''f1'', ri_itemType = 0,
        ri_contentType = ''Program'', ri_version = 1, ri_versionTime = 0\<rparr>, si_textData = None\<rparr>"

definition bridge_sample_export :: jtree where
  "bridge_sample_export = JObj [(''image_base'', JStr ''0x400000''), (''memory_blocks'', JArr [JObj [(''name'', JStr ''.text'')]])]"

definition sample_remote :: "(jtree, CheckoutInfo list) ghidra_remote" where
  "sample_remote =
     \<lparr>gr_npe = ''null'', gr_projectPath = ''h::binja-ghidra'', gr_valueOf = Inr, gr_login = (\<lambda>_ _ _ _. Inr ()),
      gr_connected = Inr (), gr_repositoryNames = (\<lambda>_. Inr [''r'']), gr_getRepository = (\<lambda>_ name. Inr (name = ''r'')),
      gr_subfolderList = (\<lambda>_ _ _. Inr (Some [''sub''])), gr_itemList = (\<lambda>_ _ _. Inr (Some [sample_server_item])),
      gr_versions = (\<lambda>_ _ _ _. Inr (Some [\<lparr>vi_version = 1, vi_time = 0, vi_user = ''ann'', vi_comment = ''first''\<rparr>])),
      gr_checkouts = (\<lambda>w _ _ _. Inr (Some w)), gr_checkout = (\<lambda>w _ _ _ _ _. (Inr (Some sample_co), sample_co # w)),
      gr_terminate = (\<lambda>w _ _ _ i. (Inr (), filter (\<lambda>co. co_id co \<noteq> i) w)), gr_deleteItem = (\<lambda>w _ _ _. (Inr (), [])),
      gr_export = (\<lambda>_ _ _ _ _. Inr bridge_sample_export), gr_apply = (\<lambda>w _ _ _ _ _ _. (Inr (JObj []), w)),
      gr_updateCheckoutVersion = (\<lambda>w _ _ _ _ _. (Inr (), w))\<rparr>"

definition sample_session_req :: jtree where
  "sample_session_req = JObj [(''repo'', JStr ''r''), (''item'', JStr ''a.exe''), (''host'', JStr ''srv''), (''port'', JNum 13100), (''user'', JStr ''ann'')]"

definition sample_bridge :: bridge_session where
  "sample_bridge = \<lparr>bs_serverHandle = True, bs_openRepos = [(''r'', 0)], bs_connectedUser = Some ''ann'', bs_streamers = [(''r'', 0)], bs_handles = 1\<rparr>"

section \<open>Properties\<close>

text \<open>
  C13: the bridge's check-in touches only checkouts of its own. Every checkout it writes under or
  terminates carries the user's name and the bridge's project path, or was made for this check-in; one
  made for it is always given up at the end, also when applying fails; after a success the checkout
  written under is given up last. The session is not changed.
\<close>

theorem bridge_checkin_checkouts:
  assumes "checkin_members G R req = Inr (repo, folder, item, comment, arrays)"
    and "opCheckin G R req S w = ((res, S', w'), calls)"
  shows "S' = S \<and>
    (\<forall>coId. CallTerminate coId \<in> set calls \<or> CallApply coId \<in> set calls \<longrightarrow> bridge_owned R S w repo folder item calls coId) \<and>
    (\<forall>co. CallCheckout (Inr (Some co)) \<in> set calls \<longrightarrow> last calls = CallTerminate (co_id co)) \<and>
    (\<forall>extra. res = Inr extra \<longrightarrow> (\<exists>coId pre. calls = pre @ [CallTerminate coId] \<and> CallApply coId \<in> set pre))"
proof (cases "getRepo repo S")
  case (Inl e)
  then show ?thesis using assms by (auto simp: opCheckin_def)
next
  case (Inr h)
  obtain acq w1 pre where acq: "acquire_checkout R repo folder item S w = (acq, w1, pre)"
    by (cases "acquire_checkout R repo folder item S w")
  note calls = acquire_calls [OF acq]
  show ?thesis
  proof (cases acq)
    case (Inl e)
    have "calls = pre" "S' = S" "res = Inl e"
      using assms Inr acq Inl by (simp_all add: opCheckin_def)
    with Inl calls(1,3) show ?thesis by auto
  next
    case (Inr a)
    obtain coId owned where a: "acq = Inr (coId, owned)" using Inr by (cases a) simp
    note own = calls(2) [OF a]
    obtain ap w2 where ap: "gr_apply R w1 repo folder item coId arrays comment = (ap, w2)"
      by (cases "gr_apply R w1 repo folder item coId arrays comment")
    obtain w3 moved where mv: "move_checkout R repo folder item coId w2 = (w3, moved)"
      by (cases "move_checkout R repo folder item coId w2")
    have run: "S' = S" "calls = pre @ [CallApply coId] @
        (case ap of Inl _ \<Rightarrow> if owned then [CallTerminate coId] else [] | Inr _ \<Rightarrow> moved @ [CallTerminate coId])"
      "(\<exists>x. res = Inr x) = (\<exists>x. ap = Inr x)"
      using assms \<open>getRepo repo S = Inr h\<close> acq a ap mv
      by (auto simp: opCheckin_def Let_def terminateQuietly_def split: sum.splits if_splits)
    define rest where "rest = (case ap of Inl _ \<Rightarrow> if owned then [CallTerminate coId] else [] | Inr _ \<Rightarrow> moved @ [CallTerminate coId])"
    have calls_eq: "calls = pre @ CallApply coId # rest" using run(2) by (simp add: rest_def)
    have "bridge_owned R S w repo folder item calls coId" using own by (auto simp: calls_eq bridge_owned_def)
    moreover have "set rest \<subseteq> insert (CallTerminate coId) {CallUpdateVersion coId v |v. True}"
      using move_calls [OF mv] by (auto simp: rest_def split: sum.splits if_splits)
    moreover have "(\<exists>co. pre = [CallCheckout (Inr (Some co))] \<and> co_id co = coId) \<and> owned \<or> pre = [] \<and> \<not> owned"
      using own by (auto split: if_splits)
    ultimately show ?thesis
      using run(1,3) by (cases ap) (auto simp: calls_eq rest_def split: if_splits)
  qed
qed

theorem bridge_checkin_checkouts_witness:
  "\<exists>st calls. opCheckin text_gson sample_remote sample_session_req sample_bridge [foreign_co] = (st, calls) \<and>
     last calls = CallTerminate 7 \<and> CallTerminate 3 \<notin> set calls"
proof -
  define call where "call = opCheckin text_gson sample_remote sample_session_req sample_bridge [foreign_co]"
  have m: "checkin_members text_gson sample_remote sample_session_req = Inr (''r'', ''/'', ''a.exe'', ''BN sync'', map (\<lambda>k. (k, [])) array_keys)"
    by code_simp
  have made: "snd call = [CallCheckout (Inr (Some sample_co)), CallApply 7, CallUpdateVersion 7 1, CallTerminate 7]"
    unfolding call_def by code_simp
  then have own: "CallCheckout (Inr (Some sample_co)) \<in> set (snd call)"
    "\<not> bridge_owned sample_remote sample_bridge [foreign_co] ''r'' ''/'' ''a.exe'' (snd call) 3"
    by (auto simp: bridge_owned_def sample_remote_def foreign_co_def sample_co_def)
  obtain res S' w' calls where call: "call = ((res, S', w'), calls)" by (cases call) auto
  with bridge_checkin_checkouts [OF m, of sample_bridge "[foreign_co]" res S' w' calls] own
  have "last calls = CallTerminate (co_id sample_co) \<and> CallTerminate 3 \<notin> set calls" by (auto simp: call_def)
  then show ?thesis using call by (auto simp: call_def sample_co_def)
qed

text \<open>
  Connecting again without disconnecting leaves an event stream behind. When the bridge logs in
  while a stream for a repository runs, and the repository is opened again, the stream in the table
  is still the one that reads the handle closed by the login, not the one of the repository now open;
  no new stream is started, so no event of that repository reaches the plugin any more.
\<close>

theorem reconnect_keeps_dead_stream:
  assumes "bridge_reachable G R S" and "map_of (bs_streamers S) name = Some h"
    and "opConnect G R req S w = (Inr d, S1, w1)" and "opOpenRepo G R req' S1 w1 = (Inr e, S2, w2)"
    and "member_as G R (jl_get_string G) req' ''repo'' = Inr name"
  shows "map_of (bs_streamers S2) name = Some h \<and> (\<exists>h'. map_of (bs_openRepos S2) name = Some h' \<and> h' \<noteq> h)"
proof -
  have h: "h < bs_handles S"
    using bridge.invariant [OF assms(1)] handles_below_lookup [OF _ assms(2)] by (simp add: session_wf_def)
  from assms(3) obtain host port user password u where "session_connect R host port user password S = (Inr u, S1)"
    by (auto simp: opConnect_def split: sum.splits prod.splits)
  note S1 = connect_session [OF this]
  have "bs_streamers S2 = bs_streamers S" "map_of (bs_openRepos S2) name = Some (bs_handles S)"
    using assms(2,4,5) S1
    by (auto simp: opOpenRepo_def session_openRepo_def startStreamer_def has_key_def umap_simps split: sum.splits prod.splits if_splits)
  with h assms(2) show ?thesis by auto
qed


definition sample_login :: bridge_session where
  "sample_login = \<lparr>bs_serverHandle = True, bs_openRepos = [], bs_connectedUser = Some ''ann'', bs_streamers = [], bs_handles = 0\<rparr>"

lemma sample_runs:
  "opConnect text_gson sample_remote sample_session_req new_session [] = (Inr [(''user'', JStr ''ann'')], sample_login, [])"
  "opOpenRepo text_gson sample_remote sample_session_req sample_login [] = (Inr [], sample_bridge, [])"
  by code_simp+

lemma sample_bridge_reachable: "bridge_reachable text_gson sample_remote sample_bridge"
proof -
  have "bridge_reachable text_gson sample_remote sample_login"
    by (rule reached_first) (rule bridge_step.bridge_connect [OF sample_runs(1)])
  then show ?thesis by (rule reached_step) (rule bridge_step.bridge_open [OF sample_runs(2)])
qed

theorem reconnect_keeps_dead_stream_witness:
  "\<exists>S1 S2. opConnect text_gson sample_remote sample_session_req sample_bridge [] = (Inr [(''user'', JStr ''ann'')], S1, []) \<and>
     opOpenRepo text_gson sample_remote sample_session_req S1 [] = (Inr [], S2, []) \<and>
     map_of (bs_streamers S2) ''r'' = Some 0 \<and> (\<exists>h'. map_of (bs_openRepos S2) ''r'' = Some h' \<and> h' \<noteq> 0)"
proof -
  define S1 where "S1 = sample_login\<lparr>bs_streamers := [(''r'', 0)], bs_handles := 1\<rparr>"
  define S2 where "S2 = S1\<lparr>bs_openRepos := [(''r'', 1)], bs_handles := 2\<rparr>"
  have c: "opConnect text_gson sample_remote sample_session_req sample_bridge [] = (Inr [(''user'', JStr ''ann'')], S1, [])"
    and o2: "opOpenRepo text_gson sample_remote sample_session_req S1 [] = (Inr [], S2, [])"
    and m: "member_as text_gson sample_remote (jl_get_string text_gson) sample_session_req ''repo'' = Inr ''r''"
    and h: "map_of (bs_streamers sample_bridge) ''r'' = Some 0"
    unfolding S1_def S2_def by code_simp+
  from reconnect_keeps_dead_stream [OF sample_bridge_reachable h c o2 m] c o2 show ?thesis by blast
qed

end
