(* ===== verification/Rpc_Props.thy ===== *)
theory Rpc_Props
  imports Rpc_Checkin Bridge_Server_Props Panel_Window Panel_Checkin
begin

text \<open>
  The composition of the plugin's client, the wire and the bridge, as a whole: a reference for each
  repository operation in terms of the Ghidra Server alone (\<open>remote_call\<close>), the theorem that the plugin's
  operation over the wire is that reference, and the same for the check-in and for the events the bridge
  pushes. What a login loses is stated at the end.
\<close>

section \<open>Operations of the plugin and their reference\<close>

datatype rpc =
    ListRepos
  | OpenRepo string
  | ListItems string string
  | Subfolders string string
  | Versions string string string
  | Checkouts string string string
  | Checkout string string string string
  | Terminate string string string i64
  | Delete string string string

datatype rpc_value =
    Names "string list"
  | Items "RepoItem list"
  | History "VersionInfo list"
  | Held "CheckoutInfo list"
  | Taken CheckoutInfo
  | Finished

fun rpc_request :: "'j json_lib \<Rightarrow> rpc \<Rightarrow> 'j" where
  "rpc_request J ListRepos = item_request J ''list_repos'' []"
| "rpc_request J (OpenRepo repo) = item_request J ''open_repo'' [(''repo'', jl_string J repo)]"
| "rpc_request J (ListItems repo folder) =
     item_request J ''list_items'' [(''repo'', jl_string J repo), (''folder'', jl_string J folder)]"
| "rpc_request J (Subfolders repo folder) =
     item_request J ''get_subfolders'' [(''repo'', jl_string J repo), (''folder'', jl_string J folder)]"
| "rpc_request J (Versions repo folder item) = item_request J ''get_versions'' (item_args J repo folder item)"
| "rpc_request J (Checkouts repo folder item) = item_request J ''get_checkouts'' (item_args J repo folder item)"
| "rpc_request J (Checkout repo folder item type) =
     item_request J ''checkout'' (item_args J repo folder item @ [(''type'', jl_string J type)])"
| "rpc_request J (Terminate repo folder item coId) =
     item_request J ''terminate_checkout'' (item_args J repo folder item @ [(''checkout_id'', jl_int64 J coId)])"
| "rpc_request J (Delete repo folder item) = item_request J ''delete_item'' (item_args J repo folder item)"

text \<open>The operation of \<open>GhidraConnection\<close> on a client\<close>

fun plugin_call :: "'j json_lib \<Rightarrow> ('j \<Rightarrow> nat \<Rightarrow> 'j result) \<Rightarrow> rpc \<Rightarrow> rpc_value result" where
  "plugin_call J send ListRepos = map_sum id Names (listRepos J send)"
| "plugin_call J send (OpenRepo repo) = map_sum id (\<lambda>_. Finished) (openRepo J send repo)"
| "plugin_call J send (ListItems repo folder) = map_sum id Items (listItems J send repo folder)"
| "plugin_call J send (Subfolders repo folder) = map_sum id Names (getSubfolders J send repo folder)"
| "plugin_call J send (Versions repo folder item) = map_sum id History (getVersions J send repo folder item)"
| "plugin_call J send (Checkouts repo folder item) = map_sum id Held (getCheckouts J send repo folder item)"
| "plugin_call J send (Checkout repo folder item type) = map_sum id Taken (checkout J send repo folder item type)"
| "plugin_call J send (Terminate repo folder item coId) =
     map_sum id (\<lambda>_. Finished) (terminateCheckout J send repo folder item coId)"
| "plugin_call J send (Delete repo folder item) = map_sum id (\<lambda>_. Finished) (deleteItem J send repo folder item)"

text \<open>The reference: the answer of the Ghidra Server to the bridge's session, without any JSON\<close>

fun remote_call :: "('j, 'w) ghidra_remote \<Rightarrow> bridge_session \<Rightarrow> 'w \<Rightarrow> rpc \<Rightarrow> rpc_value result" where
  "remote_call R S w ListRepos = map_sum id Names (remote_repos R S w)"
| "remote_call R S w (OpenRepo repo) =
     map_sum id (\<lambda>_. Finished)
       (res_bind (fst (session_openRepo R repo w S)) (\<lambda>_. fst (startStreamer repo (snd (session_openRepo R repo w S)))))"
| "remote_call R S w (ListItems repo folder) =
     in_repo S repo (map_sum id (Items \<circ> map si_item \<circ> listed) (gr_itemList R w repo folder))"
| "remote_call R S w (Subfolders repo folder) =
     in_repo S repo (map_sum id (Names \<circ> listed) (gr_subfolderList R w repo folder))"
| "remote_call R S w (Versions repo folder item) =
     in_repo S repo (map_sum id History (non_null R (gr_versions R w repo folder item)))"
| "remote_call R S w (Checkouts repo folder item) =
     in_repo S repo (map_sum id Held (non_null R (gr_checkouts R w repo folder item)))"
| "remote_call R S w (Checkout repo folder item type) = map_sum id Taken (remote_checkout R S w repo folder item type)"
| "remote_call R S w (Terminate repo folder item coId) =
     in_repo S repo (map_sum id (\<lambda>_. Finished) (fst (gr_terminate R w repo folder item coId)))"
| "remote_call R S w (Delete repo folder item) =
     res_bind (fst (session_openRepo R repo w S)) (\<lambda>_.
       map_sum id (\<lambda>_. Finished) (fst (gr_deleteItem R w repo folder item)))"

lemma map_sum_in_repo: "map_sum id f (in_repo S repo r) = in_repo S repo (map_sum id f r)"
  by (cases "getRepo repo S") (simp_all add: in_repo_def)

lemma map_sum_bind: "map_sum id f (res_bind m h) = res_bind m (\<lambda>x. map_sum id f (h x))"
  by (cases m) simp_all

context bridge_link
begin

lemma unit_op:
  assumes "fits J C (item_request J oper args)" and "list_all (\<lambda>e. jl_contains J e ''event'') before"
    and "distinct (map fst ((''op'', jl_string J oper) # args))" and "''id'' \<notin> fst ` set args"
    and r: "fst (dispatch_op G R files oper (numbered J C (item_request J oper args)) S w) = res_bind x (\<lambda>_. Inr [])"
  shows "bridge_op J (over_wire J G R files eol sock before after cb C (S, w)) (item_request J oper args) t refused (\<lambda>_. Inr ()) =
    map_sum id (\<lambda>_. ()) x"
proof -
  have "good_members (res_bind x (\<lambda>_. Inr []) :: (string \<times> 'j) list result)" by (cases x) (simp_all add: good_members_def)
  then have "bridge_op J (over_wire J G R files eol sock before after cb C (S, w)) (item_request J oper args) t refused (\<lambda>_. Inr ()) =
    (case (res_bind x (\<lambda>_. Inr []) :: (string \<times> 'j) list result) of Inl e \<Rightarrow> Inl e | Inr extra \<Rightarrow> Inr ())"
    by (intro wire_op [OF assms(1-4)]) (simp_all add: r)
  then show ?thesis by (cases x) simp_all
qed

lemma terminate_wire:
  assumes "fits J C (rpc_request J (Terminate repo folder item coId))" and "list_all (\<lambda>e. jl_contains J e ''event'') before"
  shows "terminateCheckout J (over_wire J G R files eol sock before after cb C (S, w)) repo folder item coId =
    in_repo S repo (map_sum id (\<lambda>_. ()) (fst (gr_terminate R w repo folder item coId)))"
  unfolding terminateCheckout_def map_sum_in_repo [symmetric]
  by (rule unit_op; cases "getRepo repo S")
    (use assms in \<open>simp_all add: item_args_def dispatch_op_def opTerminateCheckout_def request_reads in_repo_def
      split: prod.split sum.split\<close>)

lemma delete_wire:
  assumes "fits J C (rpc_request J (Delete repo folder item))" and "list_all (\<lambda>e. jl_contains J e ''event'') before"
  shows "deleteItem J (over_wire J G R files eol sock before after cb C (S, w)) repo folder item =
    res_bind (fst (session_openRepo R repo w S)) (\<lambda>_. map_sum id (\<lambda>_. ()) (fst (gr_deleteItem R w repo folder item)))"
  unfolding deleteItem_def map_sum_bind [symmetric]
  by (rule unit_op) (use assms in \<open>simp_all add: item_args_def dispatch_op_def opDeleteItem_def request_reads
      split: prod.split sum.split\<close>)

lemma connect_wire:
  assumes "fits J C (connect_request J host port user password)" and "list_all (\<lambda>e. jl_contains J e ''event'') before"
  shows "bridge_op J (over_wire J G R files eol sock before after cb C (S, w)) (connect_request J host port user password) t refused (\<lambda>_. Inr ()) =
    fst (session_connect R host port user password S)"
proof -
  let ?args = "[(''host'', jl_string J host), (''port'', jl_int J port), (''user'', jl_string J user), (''password'', jl_string J password)]"
  have req: "connect_request J host port user password = item_request J ''connect'' ?args"
    by (simp add: connect_request_def item_request_def)
  let ?r = "fst (dispatch_op G R files ''connect'' (numbered J C (item_request J ''connect'' ?args)) S w)"
  have r: "?r = res_bind (fst (session_connect R host port user password S)) (\<lambda>_. Inr [(''user'', jl_string J user)])"
    by (simp add: dispatch_op_def opConnect_def request_reads split: prod.split sum.split)
  then have good: "good_members ?r"
    by (cases "fst (session_connect R host port user password S)") (simp_all add: good_members_def)
  have "bridge_op J (over_wire J G R files eol sock before after cb C (S, w)) (item_request J ''connect'' ?args) t refused (\<lambda>_. Inr ()) =
      (case ?r of Inl e \<Rightarrow> Inl e | Inr extra \<Rightarrow> Inr ())"
    by (rule wire_op) (use assms good req in simp_all)
  then show ?thesis unfolding req r by (cases "fst (session_connect R host port user password S)") simp_all
qed

lemma plugin_call_wire:
  assumes "fits J C (rpc_request J q)" and "list_all (\<lambda>e. jl_contains J e ''event'') before"
  shows "plugin_call J (over_wire J G R files eol sock before after cb C (S, w)) q = remote_call R S w q"
proof (cases q)
  case ListRepos
  with assms show ?thesis by (simp add: list_repos_wire)
next
  case (OpenRepo repo)
  with assms show ?thesis by (simp add: open_repo_wire)
next
  case (ListItems repo folder)
  with assms show ?thesis by (cases "gr_itemList R w repo folder") (simp_all add: list_items_wire map_sum_in_repo)
next
  case (Subfolders repo folder)
  with assms show ?thesis by (cases "gr_subfolderList R w repo folder") (simp_all add: subfolders_wire map_sum_in_repo)
next
  case (Versions repo folder item)
  with assms show ?thesis by (simp add: versions_wire map_sum_in_repo)
next
  case (Checkouts repo folder item)
  with assms show ?thesis by (simp add: checkouts_wire map_sum_in_repo)
next
  case (Checkout repo folder item type)
  with assms show ?thesis by (simp add: checkout_wire)
next
  case (Terminate repo folder item coId)
  with assms show ?thesis
    by (cases "fst (gr_terminate R w repo folder item coId)") (simp_all add: terminate_wire map_sum_in_repo del: rpc_request.simps)
next
  case (Delete repo folder item)
  with assms show ?thesis
    by (cases "fst (gr_deleteItem R w repo folder item)"; cases "fst (session_openRepo R repo w S)")
      (simp_all add: delete_wire map_sum_bind del: rpc_request.simps)
qed

end


section \<open>Events\<close>

text \<open>The event the handler is given for a change of a repository; a member the change has not is empty.\<close>

definition change_of :: "int list \<Rightarrow> (int \<Rightarrow> string) \<Rightarrow> string \<Rightarrow> change_event \<Rightarrow> GhidraEvent" where
  "change_of codes print repo evt =
     (let opt = (\<lambda>v. case v of None \<Rightarrow> [] | Some s \<Rightarrow> s) in
      \<lparr>ge_repo = repo, ge_type = eventTypeName codes print (ce_type evt), ge_parentPath = opt (ce_parentPath evt),
       ge_name = opt (ce_name evt), ge_newParentPath = opt (ce_newParentPath evt), ge_newName = opt (ce_newName evt)\<rparr>)"

context json_interop
begin

lemma event_read: "m_eventHandler K \<Longrightarrow> onBridgeEvent J (pushEvent G codes print repo evt) K = Inr (Some (change_of codes print repo evt))"
  by (cases "ce_parentPath evt"; cases "ce_name evt"; cases "ce_newParentPath evt"; cases "ce_newName evt")
    (simp_all add: onBridgeEvent_def pushEvent_def change_of_def optional_member_def documents object_reads Let_def)

end

section \<open>The check-in\<close>

text \<open>The outcome of a check-in in terms of what the bridge's importer gives\<close>

definition remote_checkin ::
    "'j json_lib \<Rightarrow> ('j, 'w) ghidra_remote \<Rightarrow> bridge_session \<Rightarrow> 'w \<Rightarrow> bn_view \<Rightarrow> GhidraCheckinPreview \<Rightarrow> string \<Rightarrow> string \<Rightarrow>
     checkin_state \<Rightarrow> checkin_outcome" where
  "remote_checkin J R Sb w V p comment errorOut S =
     (let fail = (\<lambda>e. \<lparr>out_ok = False, out_error = e, out_warnings = [], out_state = S\<rparr>);
          body = buildCheckinJson J p (rebase_of S V) (m_addrToOriginalFuncComment S) (m_addrToCommentField S) in
      case bridge_checkin R Sb w (m_checkinRepo S) (m_checkinFolder S) (m_checkinItem S) comment (checkin_arrays J S V p) of
        Inl e \<Rightarrow> fail e
      | Inr res \<Rightarrow>
          (case res_bind (applied_warnings J body res) (\<lambda>ws. res_bind (added_type_ids J res) (\<lambda>ids. Inr (ws, ids))) of
             Inl e \<Rightarrow> fail e
           | Inr (ws, ids) \<Rightarrow>
               \<lparr>out_ok = True, out_error = errorOut, out_warnings = ws, out_state = update_baselines V p (apply_type_ids ids S)\<rparr>))"

section \<open>Samples\<close>

definition no_files :: "(jtree, CheckoutInfo list) file_ops" where
  "no_files = (\<lambda>oper req S w. (Inl ''no file operation'', S, w))"

text \<open>What the plugin's client receives of the sample bridge, after an event\<close>

definition sample_send :: "CheckoutInfo list \<Rightarrow> bridge_session \<Rightarrow> jtree \<Rightarrow> nat \<Rightarrow> jtree result" where
  "sample_send w S = over_wire text_json text_gson sample_remote no_files [newline] (\<lambda>k bytes. 1)
     [JObj [(''event'', JStr ''repo_changed'')]] [] ''cb'' ready_client (S, w)"

section \<open>Properties\<close>

text \<open>
  C12: requests sent one after another on one client never take each other's answers. However the bytes of the socket are
  cut, each request returns the first line among those completed while it waited that carries its own id and is no
  event, or the timeout; an answer that comes after its request gave up is taken by none of the later ones.
\<close>

theorem requests_never_cross:
  assumes "m_running C" and "m_sockValid C" and "newline \<notin> set partial"
    and "distinct (map rq_promise qs)" and "\<forall>q \<in> set qs. rq_promise q \<notin> snd ` set (m_pending C)"
    and "list_all (\<lambda>q. sendable J sock (rq_body q)) qs"
    and "parts = lines_of_parts partial (map (\<lambda>q. concat (rq_received q)) qs)"
  shows "run_requests J sock qs partial C =
      map (\<lambda>(i, q, ls). first_reply J (m_nextId C + of_nat i) (rq_timeout q) ls) (List.enumerate 0 (zip qs parts)) \<and>
    concat parts = fst (split_nl (partial @ concat (map (\<lambda>q. concat (rq_received q)) qs)))"
  using run_requests_replies [OF assms(1-4) _ assms(6)] lines_of_parts_concat [OF assms(3)] assms(5)
  by (simp add: assms(7))

definition waiting :: "string \<Rightarrow> string list \<Rightarrow> (string, jtree) request" where
  "waiting p received = \<lparr>rq_body = JObj [], rq_timeout = 10, rq_promise = p, rq_received = received\<rparr>"

text \<open>The answer to the first request comes while the second one waits, in two parts.\<close>

theorem requests_never_cross_witness:
  "run_requests text_json (\<lambda>k bytes. 1)
     [waiting ''p'' [take 3 (print_tree (JObj [(''id'', JNum 1)]))],
      waiting ''q'' [drop 3 (print_tree (JObj [(''id'', JNum 1)])) @ [newline], print_tree (JObj [(''id'', JNum 2)]) @ [newline]]]
     [] ready_client =
   [Inl ''Ghidra bridge request timed out after 10ms'', Inr (JObj [(''id'', JNum 2)])]"
proof -
  define qs where "qs = [waiting ''p'' [take 3 (print_tree (JObj [(''id'', JNum 1)]))],
      waiting ''q'' [drop 3 (print_tree (JObj [(''id'', JNum 1)])) @ [newline], print_tree (JObj [(''id'', JNum 2)]) @ [newline]]]"
  have "distinct (map rq_promise qs)" "\<forall>q \<in> set qs. rq_promise q \<notin> snd ` set (m_pending ready_client)"
    "list_all (\<lambda>q. sendable text_json (\<lambda>k bytes. 1) (rq_body q)) qs"
    by (simp_all add: qs_def waiting_def ready_client_def new_client_def sendable_def text_json_def tree_json_with_def)
  then have "run_requests text_json (\<lambda>k bytes. 1) qs [] ready_client =
      map (\<lambda>(i, q, ls). first_reply text_json (m_nextId ready_client + of_nat i) (rq_timeout q) ls)
        (List.enumerate 0 (zip qs (lines_of_parts [] (map (\<lambda>q. concat (rq_received q)) qs))))"
    using requests_never_cross [of ready_client "[]" qs text_json "\<lambda>k bytes. 1", OF _ _ _ _ _ _ refl] by (simp add: ready_client_def)
  also have "\<dots> = [Inl ''Ghidra bridge request timed out after 10ms'', Inr (JObj [(''id'', JNum 2)])]"
    unfolding qs_def by code_simp
  finally show ?thesis unfolding qs_def .
qed

text \<open>
  C3: each repository operation of the plugin, sent by its client, read and answered by the bridge's request loop and
  received between events, returns what the reference gives: the answer of the Ghidra Server to the bridge's session,
  or the very message of the exception it threw.
\<close>

theorem plugin_calls_transparent:
  assumes "bridge_link J G eol sock cb C" and "fits J C (rpc_request J q)"
    and "list_all (\<lambda>e. jl_contains J e ''event'') before"
  shows "plugin_call J (over_wire J G R files eol sock before after cb C (S, w)) q = remote_call R S w q"
  using assms by (rule bridge_link.plugin_call_wire)

theorem plugin_calls_transparent_witness:
  "plugin_call text_json (sample_send [foreign_co] sample_bridge) (Checkouts ''r'' ''/'' ''a.exe'') = Inr (Held [foreign_co])"
proof -
  have "fits text_json ready_client (rpc_request text_json (Checkouts ''r'' ''/'' ''a.exe''))" by code_simp
  then have "plugin_call text_json (sample_send [foreign_co] sample_bridge) (Checkouts ''r'' ''/'' ''a.exe'') =
      remote_call sample_remote sample_bridge [foreign_co] (Checkouts ''r'' ''/'' ''a.exe'')"
    unfolding sample_send_def
    by (rule plugin_calls_transparent [OF plain.bridge_link_axioms]) (simp add: text_json_def tree_json_with_def)
  also have "\<dots> = Inr (Held [foreign_co])" by code_simp
  finally show ?thesis .
qed

text \<open>
  C4: a check-in of the plugin over the wire has the outcome the bridge's importer gives for the arrays of the reviewed
  changes, under a checkout of the bridge's own: the same error with the state unchanged, or success with the warnings
  and the baselines computed from the counts and type ids the importer reported.
\<close>

theorem checkin_over_wire:
  assumes "bridge_link J G eol sock cb C" and "list_all (\<lambda>e. jl_contains J e ''event'') before"
    and "fits J C (checkin_request J S V p comment)" and "m_checkinItem S \<noteq> []"
    and "\<forall>res k. bridge_checkin R Sb w (m_checkinRepo S) (m_checkinFolder S) (m_checkinItem S) comment (checkin_arrays J S V p) = Inr res \<longrightarrow>
      jl_contains J res k \<longrightarrow> (\<exists>v. jl_at J res k = Inr v)"
  shows "checkin J True True (over_wire J G R files eol sock before after cb C (Sb, w)) V p comment errorOut S =
    remote_checkin J R Sb w V p comment errorOut S"
  unfolding remote_checkin_def by (rule bridge_link.checkin_wire [OF assms(1,3,2,4)]) (use assms(5) in blast)

theorem checkin_over_wire_witness:
  "out_ok (checkin text_json True True (sample_send [] (sample_bridge\<lparr>bs_openRepos := [([], 0)]\<rparr>)) renamed_view one_rename ''mine'' [] renamed_state)"
proof -
  let ?Sb = "sample_bridge\<lparr>bs_openRepos := [([], 0)]\<rparr>"
  have f: "fits text_json ready_client (checkin_request text_json renamed_state renamed_view one_rename ''mine'')"
    and item: "m_checkinItem renamed_state \<noteq> []" by code_simp+
  have "\<not> jl_contains text_json (JObj []) k" for k by (simp add: text_json_def tree_json_with_def)
  moreover have "bridge_checkin sample_remote ?Sb [] repo folder item comment arrays = Inr res \<Longrightarrow> res = JObj []" for repo folder item comment arrays res
    by (auto simp: bridge_checkin_def sample_remote_def in_repo_def result_simps split: sum.splits prod.splits)
  ultimately have "\<forall>res k. bridge_checkin sample_remote ?Sb [] (m_checkinRepo renamed_state) (m_checkinFolder renamed_state)
      (m_checkinItem renamed_state) ''mine'' (checkin_arrays text_json renamed_state renamed_view one_rename) = Inr res \<longrightarrow>
      jl_contains text_json res k \<longrightarrow> (\<exists>v. jl_at text_json res k = Inr v)" by blast
  then have "checkin text_json True True (sample_send [] ?Sb) renamed_view one_rename ''mine'' [] renamed_state =
      remote_checkin text_json sample_remote ?Sb [] renamed_view one_rename ''mine'' [] renamed_state"
    unfolding sample_send_def
    by (intro checkin_over_wire [OF plain.bridge_link_axioms _ f item]) (simp add: text_json_def tree_json_with_def)
  also have "out_ok \<dots>" by code_simp
  finally show ?thesis .
qed

text \<open>
  A login refused while the plugin is connected ends the bridge's session and not the plugin's. The plugin reports the
  error and still counts as connected, as the user of before, while the bridge has given up its server: the next
  operation fails with ''Not connected to Ghidra server''.
\<close>

theorem refused_login_splits_session:
  assumes "bridge_link J G eol sock cb C" and "list_all (\<lambda>e. jl_contains J e ''event'') before"
    and "fits J C (connect_request J host port user password)" and "fits J C (rpc_request J ListRepos)"
    and "isBridgeConnected E K" and "m_serverConnected K" and "gr_login R host port user password = Inl e"
    and "S' = snd (session_connect R host port user password S)"
  shows "connectToServer J E (over_wire J G R files eol sock before after cb C (S, w)) host port user password K = (Inr (Some e), K) \<and>
    m_serverConnected K \<and>
    plugin_call J (over_wire J G R files eol sock before after cb C (S', w)) ListRepos = Inl ''Not connected to Ghidra server''"
proof (intro conjI)
  have "fst (session_connect R host port user password S) = Inl e" using assms(7) by (simp add: session_connect_def Let_def)
  with assms(5)
  show "connectToServer J E (over_wire J G R files eol sock before after cb C (S, w)) host port user password K = (Inr (Some e), K)"
    by (simp add: connectToServer_def bridge_link.connect_wire [OF assms(1,3,2)])
  have "\<not> bs_serverHandle S'" using assms(7,8) by (simp add: session_connect_def session_disconnect_def Let_def)
  then show "plugin_call J (over_wire J G R files eol sock before after cb C (S', w)) ListRepos = Inl ''Not connected to Ghidra server''"
    by (simp add: bridge_link.plugin_call_wire [OF assms(1,4,2)] remote_repos_def del: plugin_call.simps)
qed (rule assms(6))

definition refusing_remote :: "(jtree, CheckoutInfo list) ghidra_remote" where
  "refusing_remote = sample_remote\<lparr>gr_login := (\<lambda>_ _ _ _. Inl ''Login failed'')\<rparr>"

definition connected_sample :: ghidra_conn where
  "connected_sample = new_connection\<lparr>m_client := Some (new_client\<lparr>m_sockValid := True, m_running := True\<rparr>), m_serverConnected := True, m_user := ''ann''\<rparr>"

theorem refused_login_splits_session_witness:
  "connectToServer text_json sample_env
     (over_wire text_json text_gson refusing_remote no_files [newline] (\<lambda>k bytes. 1) [] [] ''cb'' ready_client (sample_bridge, []))
     ''other'' 13100 ''bob'' ''pw'' connected_sample = (Inr (Some ''Login failed''), connected_sample) \<and> m_serverConnected connected_sample"
proof -
  have f: "fits text_json ready_client (connect_request text_json ''other'' 13100 ''bob'' ''pw'')"
    "fits text_json ready_client (rpc_request text_json ListRepos)" "isBridgeConnected sample_env connected_sample"
    "m_serverConnected connected_sample" by code_simp+
  have "gr_login refusing_remote ''other'' 13100 ''bob'' ''pw'' = Inl ''Login failed''" by (simp add: refusing_remote_def)
  from refused_login_splits_session [OF plain.bridge_link_axioms _ f this refl, where before = "[]" and S = sample_bridge and files = no_files and w = "[]" and after = "[]"]
  show ?thesis by simp
qed

text \<open>
  C23: the check of a linked view right after its login never finds a version: a login leaves the bridge without an open
  repository, the request for the versions needs one, and its error is dropped, so the panel always reports that the
  history could not be read.
\<close>

theorem linked_check_reads_nothing:
  assumes "bridge_link J G eol sock cb C" and "list_all (\<lambda>e. jl_contains J e ''event'') before"
    and "link_valid (m_linkedGhidra P)" and "link = m_linkedGhidra P"
    and "fits J C (rpc_request J (Versions (gl_repo link) (gl_folder link) (gl_item link)))"
    and "session_connect R host port user password S = (Inr (), S')"
    and "connectToServer J E send (dialog_host d) (dialog_port toInt d) (dialog_user d) (cd_password d) K = (Inr None, K')"
  shows "connectAndCheckLinked J E send (over_wire J G R files eol sock before after cb C (S', w)) toInt (Some d) P K B =
    (Some (NoVersionHistory (gl_item link)), K', snd (connect_done K' P True (dialog_user d) (connecting B)))"
proof -
  have "in_repo S' (gl_repo link) x = Inl (''Repository not open: '' @ gl_repo link)" for x :: "VersionInfo list result"
    using connect_session(1) [OF assms(6)] by (simp add: in_repo_def getRepo_def)
  then have "linked_versions J (over_wire J G R files eol sock before after cb C (S', w)) link = []"
    using assms(5) by (simp add: linked_versions_def bridge_link.versions_wire [OF assms(1) _ assms(2)])
  with assms(3,4,7) show ?thesis by (simp add: connectAndCheckLinked_def Let_def)
qed

definition linked_sample :: GhidraLink where
  "linked_sample = \<lparr>gl_host = ''srv'', gl_user = ''ann'', gl_repo = ''r'', gl_folder = ''/'', gl_item = ''a.exe'', gl_port = 13100\<rparr>"

definition dialog_sample :: connect_dialog where
  "dialog_sample = \<lparr>cd_host = ''srv'', cd_port = ''13100'', cd_user = ''ann'', cd_password = ''pw''\<rparr>"

theorem linked_check_reads_nothing_witness:
  "fst (connectAndCheckLinked text_json sample_env (\<lambda>_ _. Inr (JObj [(''ok'', JBool True)]))
     (sample_send [] sample_login) (\<lambda>_. 13100) (Some dialog_sample) (sample_panel\<lparr>m_linkedGhidra := linked_sample\<rparr>) connected_sample new_buttons) =
   Some (NoVersionHistory ''a.exe'')"
proof -
  let ?P = "sample_panel\<lparr>m_linkedGhidra := linked_sample\<rparr>" and ?send = "\<lambda>_ _. Inr (JObj [(''ok'', JBool True)])"
  have v: "link_valid (m_linkedGhidra ?P)" "linked_sample = m_linkedGhidra ?P" by (simp_all add: linked_sample_def link_valid_def)
  have f: "fits text_json ready_client (rpc_request text_json (Versions (gl_repo linked_sample) (gl_folder linked_sample) (gl_item linked_sample)))"
    by code_simp
  have s: "session_connect sample_remote ''srv'' 13100 ''ann'' ''pw'' new_session = (Inr (), sample_login)" by code_simp
  have "isBridgeConnected sample_env connected_sample" by code_simp
  then obtain K' where c: "connectToServer text_json sample_env ?send (dialog_host dialog_sample) (dialog_port (\<lambda>_. 13100) dialog_sample)
      (dialog_user dialog_sample) (cd_password dialog_sample) connected_sample = (Inr None, K')"
    by (simp add: connectToServer_def bridge_op_def text_json_def tree_json_with_def)
  show ?thesis
    unfolding sample_send_def
    using linked_check_reads_nothing [OF plain.bridge_link_axioms _ v f s c, where before = "[JObj [(''event'', JStr ''repo_changed'')]]" and files = no_files and w = "[]" and after = "[]" and B = new_buttons]
    by (simp add: text_json_def tree_json_with_def linked_sample_def)
qed

end
