(* ===== verification/Db_Export.thy ===== *)
theory Db_Export
  imports Bridge_Server
begin

text \<open>
  \<open>DatabaseExporter\<close> of the Java bridge: the tables of a Ghidra program database as the JSON export the
  plugin decodes. Ghidra's \<open>db\<close> package is a parameter: a record \<open>db_api\<close> of the accessors of a \<open>DBRecord\<close>,
  each of which may throw, and a database that maps a name to a table. A table is the rows its iterator
  gives, the exception that ends the iteration, if any, its record count and the test whether the field of a
  column is a \<open>StringField\<close>. What the exporter prints on the standard error is left out.
\<close>

unbundle bit_operations_syntax

section \<open>Records, tables and loops over them\<close>

type_synonym i16 = "16 word"
type_synonym i8 = "8 word"

record 'r db_api =
  dr_key :: "'r \<Rightarrow> i64"
  dr_long :: "'r \<Rightarrow> nat \<Rightarrow> i64 result"
  dr_int :: "'r \<Rightarrow> nat \<Rightarrow> i32 result"
  dr_short :: "'r \<Rightarrow> nat \<Rightarrow> i16 result"
  dr_byte :: "'r \<Rightarrow> nat \<Rightarrow> i8 result"
  dr_boolean :: "'r \<Rightarrow> nat \<Rightarrow> bool result"
  dr_string :: "'r \<Rightarrow> nat \<Rightarrow> string option result"
  dr_binary :: "'r \<Rightarrow> nat \<Rightarrow> i8 list option result"

record 'r db_table =
  tb_rows :: "'r list"
  tb_error :: "string option"
  tb_count :: i32
  tb_stringField :: "nat \<Rightarrow> bool result"

type_synonym 'r database = "string \<Rightarrow> 'r db_table option"

text \<open>\<open>try { return e; } catch (Exception ignored) {}\<close> followed by \<open>d\<close>\<close>

definition try_or :: "'a result \<Rightarrow> 'a \<Rightarrow> 'a" where
  "try_or e d = (case e of Inl _ \<Rightarrow> d | Inr x \<Rightarrow> x)"

text \<open>A loop over the rows inside a \<open>try\<close>: the first exception ends it and keeps what was done before\<close>

fun try_rows :: "('r \<Rightarrow> 's \<Rightarrow> 's result) \<Rightarrow> 'r list \<Rightarrow> 's \<Rightarrow> 's" where
  "try_rows f [] s = s"
| "try_rows f (r # rs) s = (case f r s of Inl _ \<Rightarrow> s | Inr s' \<Rightarrow> try_rows f rs s')"

definition table_rows :: "'r database \<Rightarrow> string \<Rightarrow> 'r list" where
  "table_rows db name = (case db name of None \<Rightarrow> [] | Some T \<Rightarrow> tb_rows T)"

text \<open>A loop that is left by the exceptions of its body and of the iterator; a missing table has no rows\<close>

fun res_fold :: "('r \<Rightarrow> 's \<Rightarrow> 's result) \<Rightarrow> 'r list \<Rightarrow> 's \<Rightarrow> 's result" where
  "res_fold f [] s = Inr s"
| "res_fold f (r # rs) s = res_bind (f r s) (res_fold f rs)"

definition for_rows :: "('r \<Rightarrow> 's \<Rightarrow> 's result) \<Rightarrow> 'r db_table option \<Rightarrow> 's \<Rightarrow> 's result" where
  "for_rows f T s =
     (case T of
        None \<Rightarrow> Inr s
      | Some T \<Rightarrow>
          res_bind (res_fold f (tb_rows T) s) (\<lambda>s. case tb_error T of None \<Rightarrow> Inr s | Some e \<Rightarrow> Inl e))"

text \<open>The loop that fills an array: a body that \<open>continue\<close>s gives \<open>None\<close>\<close>

definition collect_rows :: "('r \<Rightarrow> 'a option result) \<Rightarrow> 'r db_table option \<Rightarrow> 'a list result" where
  "collect_rows f T =
     for_rows (\<lambda>r arr. res_bind (f r) (\<lambda>x. Inr (case x of None \<Rightarrow> arr | Some j \<Rightarrow> arr @ [j]))) T []"

section \<open>Helpers\<close>

definition addrHex :: "i64 \<Rightarrow> string" where
  "addrHex addr = ''0x'' @ hex_digits (unat addr)"

definition emptyIfNull :: "string option \<Rightarrow> string" where
  "emptyIfNull s = (case s of None \<Rightarrow> [] | Some t \<Rightarrow> t)"

definition isExportedType :: "i8 \<Rightarrow> bool" where
  "isExportedType type \<longleftrightarrow> type = 0 \<or> type = 4 \<or> type = 5 \<or> type = 8"

definition normalizeType :: "i8 \<Rightarrow> i32" where
  "normalizeType type = (if type = 5 then 4 else ucast type)"

text \<open>\<open>addProperty\<close> of a \<open>String\<close> that may be null\<close>

definition string_or_null :: "'j gson \<Rightarrow> string option \<Rightarrow> 'j" where
  "string_or_null G s = (case s of None \<Rightarrow> jl_null G | Some t \<Rightarrow> jl_string G t)"

section \<open>Address map\<close>

text \<open>The big-endian number in the first bytes of a binary column, eight at most\<close>

definition be_value :: "i8 list \<Rightarrow> i64" where
  "be_value b = fold (\<lambda>x v. push_bit 8 v OR ucast x) (take 8 b) 0"

definition binary_base :: "'r db_api \<Rightarrow> 'r \<Rightarrow> nat \<Rightarrow> i64 option" where
  "binary_base A r col =
     (case dr_binary A r col of
        Inr (Some b) \<Rightarrow> if 4 \<le> length b then Some (be_value b) else None
      | _ \<Rightarrow> None)"

definition readBaseVA :: "'r db_api \<Rightarrow> 'r \<Rightarrow> i64" where
  "readBaseVA A r =
     try_or (dr_long A r 1)
      (try_or (res_bind (dr_int A r 1) (\<lambda>i. Inr (ucast i)))
        (try_or (dr_long A r 0)
          (try_or (res_bind (dr_int A r 0) (\<lambda>i. Inr (ucast i)))
            (case binary_base A r 1 of
               Some v \<Rightarrow> v
             | None \<Rightarrow> (case binary_base A r 0 of Some v \<Rightarrow> v | None \<Rightarrow> 0)))))"

definition buildAddressMap :: "'r db_api \<Rightarrow> 'r database \<Rightarrow> (i64, i64) umap" where
  "buildAddressMap A db =
     try_rows (\<lambda>r m. Inr (AList.update (dr_key A r) (readBaseVA A r) m)) (table_rows db ''ADDRESS MAP'') []"

text \<open>\<open>>>\<close> on a \<open>long\<close> keeps the sign.\<close>

definition decode :: "(i64, i64) umap \<Rightarrow> i64 \<Rightarrow> i64" where
  "decode addrMap encoded =
     (let segKey = signed_drop_bit 32 encoded; offset = encoded AND 0xFFFFFFFF in
      if addrMap \<noteq> [] then
        (case map_of addrMap segKey of
           Some base \<Rightarrow> base + offset
         | None \<Rightarrow>
             (case (if signed_drop_bit 8 segKey = 0x200000 then map_of addrMap (segKey AND 0xFF) else None) of
                Some base \<Rightarrow> base + offset
              | None \<Rightarrow> - 1))
      else offset)"

section \<open>Symbols and comments\<close>

definition exportSymbol :: "'j gson \<Rightarrow> 'r db_api \<Rightarrow> (i64, i64) umap \<Rightarrow> 'r \<Rightarrow> 'j option result" where
  "exportSymbol G A addrMap rec =
     res_bind (dr_byte A rec 3) (\<lambda>type.
     if \<not> isExportedType type then Inr None else
     res_bind (dr_string A rec 0) (\<lambda>name.
     if emptyIfNull name = [] then Inr None else
     res_bind (dr_long A rec 1) (\<lambda>encoded.
     let va = decode addrMap encoded in
     if va <s 0 then Inr None else
     res_bind (dr_byte A rec 4) (\<lambda>flags.
     let source = signed_drop_bit 6 (scast flags :: i32) AND 3 in
     res_bind (dr_long A rec 2) (\<lambda>ns.
     Inr (Some (jl_object G
       [(''key'', jl_int64 G (dr_key A rec)), (''name'', jl_string G (emptyIfNull name)),
        (''addr'', jl_string G (addrHex va)), (''type'', jl_int G (normalizeType type)),
        (''source'', jl_int G source), (''ns'', jl_int64 G ns)])))))))"

definition exportSymbols :: "'j gson \<Rightarrow> 'r db_api \<Rightarrow> 'r database \<Rightarrow> (i64, i64) umap \<Rightarrow> 'j list result" where
  "exportSymbols G A db addrMap = collect_rows (exportSymbol G A addrMap) (db ''Symbols'')"

definition comment_member :: "'j gson \<Rightarrow> string \<Rightarrow> string \<Rightarrow> (string \<times> 'j) list" where
  "comment_member G key s = (if s \<noteq> [] then [(key, jl_string G s)] else [])"

definition exportComment :: "'j gson \<Rightarrow> 'r db_api \<Rightarrow> (i64, i64) umap \<Rightarrow> 'r \<Rightarrow> 'j option result" where
  "exportComment G A addrMap rec =
     res_bind (dr_string A rec 0) (\<lambda>eol.
     res_bind (dr_string A rec 1) (\<lambda>pre.
     res_bind (dr_string A rec 2) (\<lambda>post.
     res_bind (dr_string A rec 3) (\<lambda>plate.
     res_bind (dr_string A rec 4) (\<lambda>rep.
     let eol = emptyIfNull eol; pre = emptyIfNull pre; post = emptyIfNull post;
         plate = emptyIfNull plate; rep = emptyIfNull rep;
         va = decode addrMap (dr_key A rec) in
     Inr (if eol = [] \<and> pre = [] \<and> post = [] \<and> plate = [] \<and> rep = [] then None
          else if va <s 0 then None
          else Some (jl_object G
            ([(''addr'', jl_string G (addrHex va)), (''key'', jl_string G (addrHex (dr_key A rec)))] @
             comment_member G ''eol'' eol @ comment_member G ''pre'' pre @ comment_member G ''post'' post @
             comment_member G ''plate'' plate @ comment_member G ''rep'' rep))))))))"

definition exportComments :: "'j gson \<Rightarrow> 'r db_api \<Rightarrow> 'r database \<Rightarrow> (i64, i64) umap \<Rightarrow> 'j list result" where
  "exportComments G A db addrMap = collect_rows (exportComment G A addrMap) (db ''Comments'')"

section \<open>Type names\<close>

definition put_name :: "i64 \<Rightarrow> string option \<Rightarrow> (i64, string) umap \<Rightarrow> (i64, string) umap" where
  "put_name key name m = (if emptyIfNull name \<noteq> [] then AList.update key (emptyIfNull name) m else m)"

definition named_rows :: "'r db_api \<Rightarrow> nat \<Rightarrow> 'r list \<Rightarrow> (i64, string) umap \<Rightarrow> (i64, string) umap" where
  "named_rows A col =
     try_rows (\<lambda>r m. res_bind (dr_string A r col) (\<lambda>name. Inr (put_name (dr_key A r) name m)))"

definition builtin_tables :: "string list" where
  "builtin_tables = [''Built-in datatypes'', ''Built-In Data Types'', ''BuiltInTypes'', ''Built In Data Types'']"

text \<open>The name of a built-in type: column 0, or column 1 when that is missing or empty\<close>

definition builtin_name :: "'r db_api \<Rightarrow> 'r \<Rightarrow> string option" where
  "builtin_name A r =
     (let name = try_or (dr_string A r 0) None in
      if emptyIfNull name = [] then try_or (dr_string A r 1) name else name)"

text \<open>Only the first of the tables that exists is read.\<close>

definition builtin_rows :: "'r database \<Rightarrow> 'r list" where
  "builtin_rows db = (case find (\<lambda>n. db n \<noteq> None) builtin_tables of None \<Rightarrow> [] | Some n \<Rightarrow> table_rows db n)"

definition pointer_name :: "'r db_api \<Rightarrow> 'r \<Rightarrow> (i64, string) umap \<Rightarrow> (i64, string) umap" where
  "pointer_name A r m =
     (if has_key m (dr_key A r) then m
      else
        let innerTypeId = try_or (dr_long A r 0) (- 1);
            innerName = (if innerTypeId <s 0 then ''void'' else find_or m innerTypeId []) in
        if innerName \<noteq> [] then AList.update (dr_key A r) (innerName @ '' *'') m else m)"

definition array_name :: "'r db_api \<Rightarrow> 'r \<Rightarrow> (i64, string) umap \<Rightarrow> (i64, string) umap" where
  "array_name A r m =
     (let innerTypeId = try_or (dr_long A r 0) (- 1);
          elemCount = try_or (dr_int A r 2) (try_or (dr_int A r 1) 0);
          innerName = (if innerTypeId <s 0 then [] else find_or m innerTypeId []) in
      if innerName \<noteq> [] \<and> 0 <s elemCount
      then AList.update (dr_key A r) (innerName @ ''['' @ to_string_i32 elemCount @ '']'') m else m)"

definition buildTypeNameMap :: "'r db_api \<Rightarrow> 'r database \<Rightarrow> (i64, string) umap" where
  "buildTypeNameMap A db =
     (let m = named_rows A 0 (table_rows db ''Composite Data Types'') [];
          m = named_rows A 0 (table_rows db ''Enumeration Data Types'') m;
          m = named_rows A 2 (table_rows db ''Typedefs'') m;
          m = fold (\<lambda>r. put_name (dr_key A r) (builtin_name A r)) (builtin_rows db) m;
          m = fold (pointer_name A) (table_rows db ''Pointer Data Types'') m;
          m = fold (pointer_name A) (table_rows db ''Pointer Data Types'') m
      in fold (array_name A) (table_rows db ''Array Data Types'') m)"

text \<open>\<open>id >= 0 ? typeNameById.getOrDefault(id, "") : ""\<close>\<close>

definition type_name_of :: "(i64, string) umap \<Rightarrow> i64 \<Rightarrow> string" where
  "type_name_of names tid = (if tid <s 0 then [] else find_or names tid [])"

section \<open>Functions, equates, bookmarks and parameters\<close>

definition exportFunction ::
    "'j gson \<Rightarrow> 'r db_api \<Rightarrow> bool \<Rightarrow> (i64, string) umap \<Rightarrow> 'r \<Rightarrow> 'j option result" where
  "exportFunction G A v2Schema names rec =
     res_bind (dr_byte A rec 4) (\<lambda>flags.
     let cc = (if v2Schema then emptyIfNull (try_or (dr_string A rec 3) None) else []);
         retTypeId = try_or (dr_long A rec (if v2Schema then 1 else 0)) (- 1);
         retTypeName = type_name_of names retTypeId in
     Inr (if flags = 0 \<and> cc = [] \<and> retTypeName = [] then None
          else Some (jl_object G
            [(''key'', jl_int64 G (dr_key A rec)), (''thunk'', jl_bool G (flags AND 1 \<noteq> 0)),
             (''no_ret'', jl_bool G (flags AND 2 \<noteq> 0)), (''inline'', jl_bool G (flags AND 4 \<noteq> 0)),
             (''cc'', jl_string G cc), (''ret_type'', jl_string G retTypeName),
             (''ret_type_id'', jl_int64 G retTypeId)])))"

definition exportFunctions :: "'j gson \<Rightarrow> 'r db_api \<Rightarrow> 'r database \<Rightarrow> 'j list result" where
  "exportFunctions G A db =
     (case db ''Function Data'' of
        None \<Rightarrow> Inr []
      | Some T \<Rightarrow>
          collect_rows (exportFunction G A (try_or (tb_stringField T 3) False) (buildTypeNameMap A db)) (Some T))"

text \<open>An entry of \<open>equateMap\<close>: the name, the value and the references added so far\<close>

type_synonym 'j equate_entry = "string option \<times> i64 \<times> 'j list"

definition add_equate :: "'r db_api \<Rightarrow> 'r \<Rightarrow> (i64, 'j equate_entry) umap \<Rightarrow> (i64, 'j equate_entry) umap result" where
  "add_equate A rec m =
     res_bind (dr_string A rec 0) (\<lambda>name.
     res_bind (dr_long A rec 1) (\<lambda>val. Inr (AList.update (dr_key A rec) (name, val, []) m)))"

definition op_index :: "'r db_api \<Rightarrow> 'r \<Rightarrow> i32 result" where
  "op_index A rec = (case dr_short A rec 2 of Inr s \<Rightarrow> Inr (scast s) | Inl _ \<Rightarrow> dr_int A rec 2)"

definition add_equate_ref ::
    "'j gson \<Rightarrow> 'r db_api \<Rightarrow> (i64, i64) umap \<Rightarrow> 'r \<Rightarrow> (i64, 'j equate_entry) umap \<Rightarrow> (i64, 'j equate_entry) umap result" where
  "add_equate_ref G A addrMap rec m =
     res_bind (dr_long A rec 0) (\<lambda>eqId.
     res_bind (dr_long A rec 1) (\<lambda>encoded.
     res_bind (op_index A rec) (\<lambda>opIdx.
     let va = decode addrMap encoded in
     Inr (if va <s 0 then m
          else case map_of m eqId of
            None \<Rightarrow> m
          | Some (name, val, refs) \<Rightarrow>
              AList.update eqId (name, val, refs @
                [jl_object G [(''addr'', jl_string G (addrHex va)), (''op_index'', jl_int G opIdx)]]) m))))"

definition equate_object :: "'j gson \<Rightarrow> i64 \<times> 'j equate_entry \<Rightarrow> 'j" where
  "equate_object G e =
     (let (eqId, name, val, refs) = e in
      jl_object G [(''id'', jl_int64 G eqId), (''name'', string_or_null G name), (''value'', jl_int64 G val),
        (''refs'', jl_array G refs)])"

definition exportEquates :: "'j gson \<Rightarrow> 'r db_api \<Rightarrow> 'r database \<Rightarrow> (i64, i64) umap \<Rightarrow> 'j list result" where
  "exportEquates G A db addrMap =
     (case db ''Equates'' of
        None \<Rightarrow> Inr []
      | Some T \<Rightarrow>
          res_bind (for_rows (add_equate A) (Some T) []) (\<lambda>m.
          res_bind (for_rows (add_equate_ref G A addrMap) (db ''Equate References'') m) (\<lambda>m.
          Inr (map (equate_object G) (filter (\<lambda>(_, _, _, refs). refs \<noteq> []) m)))))"

definition exportBookmark ::
    "'j gson \<Rightarrow> 'r db_api \<Rightarrow> (i64, i64) umap \<Rightarrow> string option \<Rightarrow> 'r \<Rightarrow> 'j option result" where
  "exportBookmark G A addrMap typeName bm =
     res_bind (dr_long A bm 0) (\<lambda>encoded.
     let va = decode addrMap encoded in
     if va <s 0 then Inr None else
     res_bind (dr_string A bm 1) (\<lambda>category.
     res_bind (dr_string A bm 2) (\<lambda>comment.
     Inr (Some (jl_object G
       [(''type'', string_or_null G typeName), (''addr'', jl_string G (addrHex va)),
        (''category'', jl_string G (emptyIfNull category)), (''comment'', jl_string G (emptyIfNull comment))])))))"

definition exportBookmarks :: "'j gson \<Rightarrow> 'r db_api \<Rightarrow> 'r database \<Rightarrow> (i64, i64) umap \<Rightarrow> 'j list result" where
  "exportBookmarks G A db addrMap =
     for_rows (\<lambda>typeRec arr.
       res_bind (dr_string A typeRec 0) (\<lambda>typeName.
       res_bind (collect_rows (exportBookmark G A addrMap typeName)
                   (db (''Bookmarks'' @ to_string_i64 (dr_key A typeRec)))) (\<lambda>xs. Inr (arr @ xs))))
       (db ''Bookmark Types'') []"

definition exportParameter ::
    "'j gson \<Rightarrow> 'r db_api \<Rightarrow> (i64, i64) umap \<Rightarrow> (i64, string) umap \<Rightarrow> 'r \<Rightarrow> 'j option result" where
  "exportParameter G A addrMap names rec =
     res_bind (dr_byte A rec 3) (\<lambda>type.
     if type \<noteq> 6 \<and> type \<noteq> 7 then Inr None else
     res_bind (dr_string A rec 0) (\<lambda>name.
     if emptyIfNull name = [] then Inr None else
     res_bind (dr_long A rec 1) (\<lambda>encodedFuncAddr.
     let funcVa = decode addrMap encodedFuncAddr in
     if funcVa <s 0 then Inr None else
     res_bind (dr_long A rec 8) (\<lambda>varOffset.
     let dataTypeId = try_or (dr_long A rec 7) (- 1) in
     Inr (Some (jl_object G
       [(''key'', jl_int64 G (dr_key A rec)), (''func_addr'', jl_string G (addrHex funcVa)),
        (''name'', jl_string G (emptyIfNull name)), (''is_param'', jl_bool G (type = 6)),
        (''ordinal'', jl_int G (ucast varOffset)), (''type_name'', jl_string G (type_name_of names dataTypeId)),
        (''type_id'', jl_int64 G dataTypeId)]))))))"

definition exportParameters :: "'j gson \<Rightarrow> 'r db_api \<Rightarrow> 'r database \<Rightarrow> (i64, i64) umap \<Rightarrow> 'j list result" where
  "exportParameters G A db addrMap =
     collect_rows (exportParameter G A addrMap (buildTypeNameMap A db)) (db ''Symbols'')"


section \<open>Data types\<close>

text \<open>\<open>m.computeIfAbsent(k, ...).add(x)\<close>\<close>

definition add_to :: "'k \<Rightarrow> 'v \<Rightarrow> ('k, 'v list) umap \<Rightarrow> ('k, 'v list) umap" where
  "add_to k x m = AList.update k (find_or m k [] @ [x]) m"

text \<open>A component is kept with its ordinal, which the sort reads back from the object.\<close>

definition add_component ::
    "'j gson \<Rightarrow> 'r db_api \<Rightarrow> (i64, string) umap \<Rightarrow> 'r \<Rightarrow> (i64, (i32 \<times> 'j) list) umap \<Rightarrow>
     (i64, (i32 \<times> 'j) list) umap result" where
  "add_component G A names rec m =
     res_bind (dr_long A rec 0) (\<lambda>parentId.
     res_bind (dr_long A rec 2) (\<lambda>memberTypeId.
     res_bind (dr_int A rec 1) (\<lambda>offset.
     res_bind (dr_string A rec 3) (\<lambda>name.
     res_bind (dr_string A rec 4) (\<lambda>comment.
     res_bind (dr_int A rec 5) (\<lambda>size.
     res_bind (dr_int A rec 6) (\<lambda>ordinal.
     Inr (add_to parentId (ordinal, jl_object G
       [(''offset'', jl_int G offset), (''type_id'', jl_int64 G memberTypeId),
        (''type_name'', jl_string G (find_or names memberTypeId [])), (''name'', jl_string G (emptyIfNull name)),
        (''comment'', jl_string G (emptyIfNull comment)), (''size'', jl_int G size),
        (''ordinal'', jl_int G ordinal)]) m))))))))"

definition is_union :: "'r db_api \<Rightarrow> 'r \<Rightarrow> bool result" where
  "is_union A rec =
     (case dr_boolean A rec 2 of Inr b \<Rightarrow> Inr b | Inl _ \<Rightarrow> res_bind (dr_byte A rec 2) (\<lambda>b. Inr (b \<noteq> 0)))"

text \<open>
  The comparator subtracts two ordinals; it is the order of the ordinals as long as no difference leaves the
  range of an \<open>int\<close>. The sort is stable.
\<close>

definition exportComposite ::
    "'j gson \<Rightarrow> 'r db_api \<Rightarrow> (i64, (i32 \<times> 'j) list) umap \<Rightarrow> 'r \<Rightarrow> 'j option result" where
  "exportComposite G A componentMap rec =
     res_bind (is_union A rec) (\<lambda>isUnion.
     res_bind (dr_string A rec 0) (\<lambda>name.
     res_bind (dr_string A rec 1) (\<lambda>comment.
     res_bind (dr_int A rec 4) (\<lambda>size.
     Inr (Some (jl_object G
       [(''id'', jl_int64 G (dr_key A rec)), (''kind'', jl_string G (if isUnion then ''union'' else ''struct'')),
        (''name'', jl_string G (emptyIfNull name)), (''comment'', jl_string G (emptyIfNull comment)),
        (''size'', jl_int G size),
        (''members'', jl_array G (map snd (sort_key (sint \<circ> fst) (find_or componentMap (dr_key A rec) []))))]))))))"

definition add_enum_value ::
    "'j gson \<Rightarrow> 'r db_api \<Rightarrow> 'r \<Rightarrow> (i64, 'j list) umap \<Rightarrow> (i64, 'j list) umap result" where
  "add_enum_value G A rec m =
     res_bind (dr_long A rec 2) (\<lambda>enumId.
     res_bind (dr_string A rec 0) (\<lambda>name.
     res_bind (dr_long A rec 1) (\<lambda>val.
     res_bind (dr_string A rec 3) (\<lambda>comment.
     Inr (add_to enumId (jl_object G
       [(''name'', jl_string G (emptyIfNull name)), (''value'', jl_int64 G val),
        (''comment'', jl_string G (emptyIfNull comment))]) m)))))"

definition exportEnum :: "'j gson \<Rightarrow> 'r db_api \<Rightarrow> (i64, 'j list) umap \<Rightarrow> 'r \<Rightarrow> 'j option result" where
  "exportEnum G A enumValMap rec =
     res_bind (dr_string A rec 0) (\<lambda>name.
     res_bind (dr_string A rec 1) (\<lambda>comment.
     res_bind (dr_byte A rec 3) (\<lambda>size.
     Inr (Some (jl_object G
       [(''id'', jl_int64 G (dr_key A rec)), (''kind'', jl_string G ''enum''),
        (''name'', jl_string G (emptyIfNull name)), (''comment'', jl_string G (emptyIfNull comment)),
        (''size'', jl_int G (ucast size)),
        (''values'', jl_array G (find_or enumValMap (dr_key A rec) []))])))))"

definition typeIdToSize :: "'r db_api \<Rightarrow> 'r database \<Rightarrow> (i64, i32) umap" where
  "typeIdToSize A db =
     (let m = try_rows (\<lambda>r m. res_bind (dr_int A r 4) (\<lambda>size. Inr (AList.update (dr_key A r) size m)))
                (table_rows db ''Composite Data Types'') []
      in try_rows (\<lambda>r m. res_bind (dr_byte A r 3) (\<lambda>size. Inr (AList.update (dr_key A r) (ucast size) m)))
           (table_rows db ''Enumeration Data Types'') m)"

definition exportTypedef ::
    "'j gson \<Rightarrow> 'r db_api \<Rightarrow> (i64, string) umap \<Rightarrow> (i64, i32) umap \<Rightarrow> 'r \<Rightarrow> 'j option result" where
  "exportTypedef G A names sizes rec =
     (let underlyingId = try_or (dr_long A rec 0) (- 1) in
      res_bind (dr_string A rec 2) (\<lambda>name.
      Inr (Some (jl_object G
        [(''id'', jl_int64 G (dr_key A rec)), (''kind'', jl_string G ''typedef''),
         (''name'', jl_string G (emptyIfNull name)), (''underlying_type_id'', jl_int64 G underlyingId),
         (''underlying_name'', jl_string G (type_name_of names underlyingId)),
         (''size'', jl_int G (find_or sizes underlyingId 0))]))))"

definition exportDataTypes :: "'j gson \<Rightarrow> 'r db_api \<Rightarrow> 'r database \<Rightarrow> 'j list result" where
  "exportDataTypes G A db =
     (let names = buildTypeNameMap A db in
      res_bind (for_rows (add_component G A names) (db ''Component Data Types'') []) (\<lambda>componentMap.
      res_bind (collect_rows (exportComposite G A componentMap) (db ''Composite Data Types'')) (\<lambda>composites.
      res_bind (for_rows (add_enum_value G A) (db ''Enumeration Values'') []) (\<lambda>enumValMap.
      res_bind (collect_rows (exportEnum G A enumValMap) (db ''Enumeration Data Types'')) (\<lambda>enums.
      res_bind (collect_rows (exportTypedef G A names (typeIdToSize A db)) (db ''Typedefs'')) (\<lambda>typedefs.
      Inr (composites @ enums @ typedefs)))))))"

section \<open>Data items, memory blocks and the whole export\<close>

definition exportDataItem :: "'j gson \<Rightarrow> 'r db_api \<Rightarrow> (i64, i64) umap \<Rightarrow> 'r \<Rightarrow> 'j option result" where
  "exportDataItem G A addrMap rec =
     (let va = decode addrMap (dr_key A rec) in
      if va <s 0 then Inr None else
      res_bind (dr_long A rec 0) (\<lambda>typeId.
      Inr (Some (jl_object G [(''addr'', jl_string G (addrHex va)), (''type_id'', jl_int64 G typeId)]))))"

definition exportDataItems :: "'j gson \<Rightarrow> 'r db_api \<Rightarrow> 'r database \<Rightarrow> (i64, i64) umap \<Rightarrow> 'j list result" where
  "exportDataItems G A db addrMap = collect_rows (exportDataItem G A addrMap) (db ''Data'')"

text \<open>
  What is read of a \<open>ProgramDB\<close>: the lowest address of its memory and the blocks its memory gives before an
  exception, if any. \<open>pb_default\<close> tells whether the block starts in the default address space.
\<close>

record program_block =
  pb_name :: string
  pb_start :: i64
  pb_size :: i64
  pb_read :: bool
  pb_write :: bool
  pb_execute :: bool
  pb_initialized :: bool
  pb_overlay :: bool
  pb_default :: bool

record ghidra_program =
  gp_minAddress :: "i64 option"
  gp_blocks :: "program_block list"

definition exportMemoryBlock :: "'j gson \<Rightarrow> program_block \<Rightarrow> 'j" where
  "exportMemoryBlock G b =
     jl_object G
       [(''name'', jl_string G (pb_name b)), (''addr'', jl_string G (addrHex (pb_start b))),
        (''size'', jl_string G (addrHex (pb_size b))), (''r'', jl_bool G (pb_read b)),
        (''w'', jl_bool G (pb_write b)), (''x'', jl_bool G (pb_execute b)),
        (''initialized'', jl_bool G (pb_initialized b)),
        (''overlay'', jl_bool G (pb_overlay b \<or> \<not> pb_default b))]"

definition exportMemoryBlocks :: "'j gson \<Rightarrow> ghidra_program \<Rightarrow> 'j list" where
  "exportMemoryBlocks G program = map (exportMemoryBlock G) (gp_blocks program)"

definition record_count :: "'r db_table option \<Rightarrow> i32" where
  "record_count T = (case T of None \<Rightarrow> 0 | Some T \<Rightarrow> tb_count T)"

definition exportCrossRefStats :: "'j gson \<Rightarrow> 'r database \<Rightarrow> 'j" where
  "exportCrossRefStats G db =
     jl_object G [(''from_count'', jl_int G (record_count (db ''FROM REFS''))),
       (''to_count'', jl_int G (record_count (db ''TO REFS'')))]"

definition image_base :: "(i64, i64) umap \<Rightarrow> ghidra_program option \<Rightarrow> i64" where
  "image_base addrMap program =
     (let imageBase = find_or addrMap 0 0 in
      if imageBase = 0 then
        (case program of
           Some p \<Rightarrow> (case gp_minAddress p of Some low \<Rightarrow> low | None \<Rightarrow> imageBase)
         | None \<Rightarrow> imageBase)
      else imageBase)"

text \<open>\<open>program\<close> is \<open>None\<close> when the database could not be opened as a \<open>ProgramDB\<close>.\<close>

definition db_export :: "'j gson \<Rightarrow> 'r db_api \<Rightarrow> 'r database \<Rightarrow> ghidra_program option \<Rightarrow> 'j result" where
  "db_export G A db program =
     (let addrMap = buildAddressMap A db in
      res_bind (exportSymbols G A db addrMap) (\<lambda>symbols.
      res_bind (exportComments G A db addrMap) (\<lambda>comments.
      res_bind (exportFunctions G A db) (\<lambda>funcFlags.
      res_bind (exportEquates G A db addrMap) (\<lambda>equates.
      res_bind (exportBookmarks G A db addrMap) (\<lambda>bookmarks.
      res_bind (exportParameters G A db addrMap) (\<lambda>parameters.
      res_bind (exportDataTypes G A db) (\<lambda>dataTypes.
      res_bind (exportDataItems G A db addrMap) (\<lambda>dataItems.
      Inr (jl_object G
        [(''image_base'', jl_string G (addrHex (image_base addrMap program))), (''symbols'', jl_array G symbols),
         (''comments'', jl_array G comments), (''func_flags'', jl_array G funcFlags), (''equates'', jl_array G equates),
         (''bookmarks'', jl_array G bookmarks), (''parameters'', jl_array G parameters),
         (''data_types'', jl_array G dataTypes), (''data_items'', jl_array G dataItems),
         (''memory_blocks'', jl_array G (case program of None \<Rightarrow> [] | Some p \<Rightarrow> exportMemoryBlocks G p)),
         (''xref_stats'', exportCrossRefStats G db)]))))))))))"

end
