(* ===== verification/Db_Read.thy ===== *)
theory Db_Read
  imports Db_Export Wire
begin

text \<open>
  What the tables of a database mean to the plugin, and that the export says it. \<open>read_database\<close> is the
  specification: the structures of \<open>GhidraConnection.h\<close> computed from the rows directly, references and
  members joined by their keys, with no JSON and no intermediate maps. The hypothesis \<open>schema_ok\<close> is that
  the tables have the columns the exporter reads. Under it the exporter succeeds and the plugin's decoder
  gives the specification (\<open>export_read\<close>).
\<close>

unbundle bit_operations_syntax

section \<open>Columns\<close>

text \<open>
  The type of a column: \<open>NameCol\<close> is a string that is not null, \<open>IndexCol\<close> a \<open>short\<close> or an \<open>int\<close>,
  \<open>FlagCol\<close> a boolean or a byte.
\<close>

datatype column_kind = LongCol | IntCol | ByteCol | StringCol | NameCol | IndexCol | FlagCol

fun column_ok :: "'r db_api \<Rightarrow> 'r \<Rightarrow> nat \<times> column_kind \<Rightarrow> bool" where
  "column_ok A r (c, LongCol) = (\<not> isl (dr_long A r c))"
| "column_ok A r (c, IntCol) = (\<not> isl (dr_int A r c))"
| "column_ok A r (c, ByteCol) = (\<not> isl (dr_byte A r c))"
| "column_ok A r (c, StringCol) = (\<not> isl (dr_string A r c))"
| "column_ok A r (c, NameCol) = (case dr_string A r c of Inr (Some _) \<Rightarrow> True | _ \<Rightarrow> False)"
| "column_ok A r (c, IndexCol) = (\<not> isl (op_index A r))"
| "column_ok A r (c, FlagCol) = (\<not> isl (is_union A r))"

definition rows_ok :: "'r db_api \<Rightarrow> (nat \<times> column_kind) list \<Rightarrow> 'r db_table option \<Rightarrow> bool" where
  "rows_ok A cols T =
     (case T of
        None \<Rightarrow> True
      | Some T \<Rightarrow> tb_error T = None \<and> list_all (\<lambda>r. list_all (column_ok A r) cols) (tb_rows T) \<and>
                 distinct (map (dr_key A) (tb_rows T)))"

definition schema :: "(string \<times> (nat \<times> column_kind) list) list" where
  "schema =
     [(''Symbols'', [(0, StringCol), (1, LongCol), (2, LongCol), (3, ByteCol), (4, ByteCol), (8, LongCol)]),
      (''Comments'', [(0, StringCol), (1, StringCol), (2, StringCol), (3, StringCol), (4, StringCol)]),
      (''Function Data'', [(4, ByteCol)]),
      (''Equates'', [(0, NameCol), (1, LongCol)]),
      (''Equate References'', [(0, LongCol), (1, LongCol), (2, IndexCol)]),
      (''Bookmark Types'', [(0, NameCol)]),
      (''Component Data Types'', [(0, LongCol), (1, IntCol), (2, LongCol), (3, StringCol), (4, StringCol), (5, IntCol), (6, IntCol)]),
      (''Composite Data Types'', [(0, StringCol), (1, StringCol), (2, FlagCol), (4, IntCol)]),
      (''Enumeration Values'', [(0, StringCol), (1, LongCol), (2, LongCol), (3, StringCol)]),
      (''Enumeration Data Types'', [(0, StringCol), (1, StringCol), (3, ByteCol)]),
      (''Typedefs'', [(2, StringCol)]),
      (''Data'', [(0, LongCol)])]"

definition bookmark_table :: "'r db_api \<Rightarrow> 'r database \<Rightarrow> 'r \<Rightarrow> 'r db_table option" where
  "bookmark_table A db typeRec = db (''Bookmarks'' @ to_string_i64 (dr_key A typeRec))"

definition schema_ok :: "'r db_api \<Rightarrow> 'r database \<Rightarrow> bool" where
  "schema_ok A db \<longleftrightarrow>
     list_all (\<lambda>(name, cols). rows_ok A cols (db name)) schema \<and>
     list_all (\<lambda>t. rows_ok A [(0, LongCol), (1, StringCol), (2, StringCol)] (bookmark_table A db t)) (table_rows db ''Bookmark Types'')"

text \<open>The value of a column that has the type\<close>

definition long_of :: "'r db_api \<Rightarrow> 'r \<Rightarrow> nat \<Rightarrow> i64" where
  "long_of A r c = try_or (dr_long A r c) 0"

definition int_of :: "'r db_api \<Rightarrow> 'r \<Rightarrow> nat \<Rightarrow> i32" where
  "int_of A r c = try_or (dr_int A r c) 0"

definition byte_of :: "'r db_api \<Rightarrow> 'r \<Rightarrow> nat \<Rightarrow> i8" where
  "byte_of A r c = try_or (dr_byte A r c) 0"

definition string_of :: "'r db_api \<Rightarrow> 'r \<Rightarrow> nat \<Rightarrow> string" where
  "string_of A r c = emptyIfNull (try_or (dr_string A r c) None)"

section \<open>The specification\<close>

definition read_symbol :: "'r db_api \<Rightarrow> (i64, i64) umap \<Rightarrow> 'r \<Rightarrow> GhidraSymbol option" where
  "read_symbol A addrMap r =
     (let va = decode addrMap (long_of A r 1) in
      if isExportedType (byte_of A r 3) \<and> string_of A r 0 \<noteq> [] \<and> 0 <=s va
      then Some \<lparr>sym_key = dr_key A r, sym_name = string_of A r 0, sym_addr = va,
                 sym_type = symbolType_of_int (normalizeType (byte_of A r 3)),
                 sym_source = symbolSource_of_int (signed_drop_bit 6 (scast (byte_of A r 4)) AND 3),
                 sym_namespaceId = long_of A r 2\<rparr>
      else None)"

definition read_comment :: "'r db_api \<Rightarrow> (i64, i64) umap \<Rightarrow> 'r \<Rightarrow> GhidraComment option" where
  "read_comment A addrMap r =
     (let va = decode addrMap (dr_key A r) in
      if list_ex (\<lambda>c. string_of A r c \<noteq> []) [0, 1, 2, 3, 4] \<and> 0 <=s va
      then Some \<lparr>cm_addr = va, cm_eol = string_of A r 0, cm_pre = string_of A r 1, cm_post = string_of A r 2,
                 cm_plate = string_of A r 3, cm_rep = string_of A r 4, cm_encodedKey = addrHex (dr_key A r)\<rparr>
      else None)"

definition read_function ::
    "'r db_api \<Rightarrow> bool \<Rightarrow> (i64, string) umap \<Rightarrow> 'r \<Rightarrow> (GhidraFuncFlags \<times> GhidraFuncSig option) option" where
  "read_function A v2 names r =
     (let flags = byte_of A r 4; cc = (if v2 then string_of A r 3 else []);
          ret = try_or (dr_long A r (if v2 then 1 else 0)) (- 1); retName = type_name_of names ret in
      if flags = 0 \<and> cc = [] \<and> retName = [] then None
      else Some (\<lparr>ff_key = dr_key A r, ff_thunk = flags AND 1 \<noteq> 0, ff_noReturn = flags AND 2 \<noteq> 0,
                  ff_isInline = flags AND 4 \<noteq> 0\<rparr>,
                 if cc \<noteq> [] \<or> retName \<noteq> []
                 then Some \<lparr>fs_key = dr_key A r, fs_callingConvention = cc, fs_returnTypeName = retName,
                            fs_returnTypeId = ret\<rparr>
                 else None))"

definition read_functions :: "'r db_api \<Rightarrow> 'r database \<Rightarrow> (GhidraFuncFlags \<times> GhidraFuncSig option) list" where
  "read_functions A db =
     (case db ''Function Data'' of
        None \<Rightarrow> []
      | Some T \<Rightarrow> List.map_filter (read_function A (try_or (tb_stringField T 3) False) (buildTypeNameMap A db)) (tb_rows T))"

text \<open>The references of an equate: the rows that name it and decode to an address\<close>

definition read_equate_ref :: "'r db_api \<Rightarrow> (i64, i64) umap \<Rightarrow> i64 \<Rightarrow> 'r \<Rightarrow> GhidraEquateRef option" where
  "read_equate_ref A addrMap eqId r =
     (let va = decode addrMap (long_of A r 1) in
      if long_of A r 0 = eqId \<and> 0 <=s va then Some \<lparr>er_addr = va, er_opIndex = try_or (op_index A r) 0\<rparr> else None)"

definition read_equate :: "'r db_api \<Rightarrow> (i64, i64) umap \<Rightarrow> 'r list \<Rightarrow> 'r \<Rightarrow> GhidraEquate option" where
  "read_equate A addrMap refRows r =
     (let refs = List.map_filter (read_equate_ref A addrMap (dr_key A r)) refRows in
      if refs = [] then None
      else Some \<lparr>eq_id = dr_key A r, eq_name = string_of A r 0, eq_value = long_of A r 1, eq_refs = refs\<rparr>)"

definition read_bookmark :: "'r db_api \<Rightarrow> (i64, i64) umap \<Rightarrow> string \<Rightarrow> 'r \<Rightarrow> GhidraBookmark option" where
  "read_bookmark A addrMap typeName r =
     (let va = decode addrMap (long_of A r 0) in
      if 0 <=s va
      then Some \<lparr>bm_type = typeName, bm_addr = va, bm_category = string_of A r 1, bm_comment = string_of A r 2\<rparr>
      else None)"

definition read_bookmarks :: "'r db_api \<Rightarrow> 'r database \<Rightarrow> (i64, i64) umap \<Rightarrow> GhidraBookmark list" where
  "read_bookmarks A db addrMap =
     concat (map (\<lambda>t. case bookmark_table A db t of
         None \<Rightarrow> []
       | Some T \<Rightarrow> List.map_filter (read_bookmark A addrMap (string_of A t 0)) (tb_rows T)) (table_rows db ''Bookmark Types''))"

definition read_parameter :: "'r db_api \<Rightarrow> (i64, i64) umap \<Rightarrow> (i64, string) umap \<Rightarrow> 'r \<Rightarrow> GhidraParameter option" where
  "read_parameter A addrMap names r =
     (let va = decode addrMap (long_of A r 1); typeId = try_or (dr_long A r 7) (- 1) in
      if (byte_of A r 3 = 6 \<or> byte_of A r 3 = 7) \<and> string_of A r 0 \<noteq> [] \<and> 0 <=s va
      then Some \<lparr>pa_key = dr_key A r, pa_funcAddr = va, pa_name = string_of A r 0, pa_isParam = (byte_of A r 3 = 6),
                 pa_ordinal = ucast (long_of A r 8), pa_typeName = type_name_of names typeId, pa_typeId = typeId\<rparr>
      else None)"

definition read_member :: "'r db_api \<Rightarrow> (i64, string) umap \<Rightarrow> 'r \<Rightarrow> GhidraDataTypeMember" where
  "read_member A names r =
     \<lparr>dm_offset = int_of A r 1, dm_typeId = long_of A r 2, dm_name = string_of A r 3, dm_comment = string_of A r 4,
      dm_size = int_of A r 5, dm_ordinal = int_of A r 6, dm_typeName = find_or names (long_of A r 2) []\<rparr>"

text \<open>The members of a composite: its components in the order of their ordinals\<close>

definition read_composite :: "'r db_api \<Rightarrow> (i64, string) umap \<Rightarrow> 'r list \<Rightarrow> 'r \<Rightarrow> GhidraDataType" where
  "read_composite A names components r =
     default_GhidraDataType\<lparr>dt_id := dr_key A r, dt_kind := (if try_or (is_union A r) False then ''union'' else ''struct''),
       dt_name := string_of A r 0, dt_comment := string_of A r 1, dt_size := int_of A r 4,
       dt_members := sort_key (sint \<circ> dm_ordinal)
         (map (read_member A names) (filter (\<lambda>c. long_of A c 0 = dr_key A r) components))\<rparr>"

definition read_enum_value :: "'r db_api \<Rightarrow> 'r \<Rightarrow> GhidraEnumValue" where
  "read_enum_value A r = \<lparr>ev_name = string_of A r 0, ev_value = long_of A r 1, ev_comment = string_of A r 3\<rparr>"

definition read_enum :: "'r db_api \<Rightarrow> 'r list \<Rightarrow> 'r \<Rightarrow> GhidraDataType" where
  "read_enum A enumValues r =
     default_GhidraDataType\<lparr>dt_id := dr_key A r, dt_kind := ''enum'', dt_name := string_of A r 0,
       dt_comment := string_of A r 1, dt_size := ucast (byte_of A r 3),
       dt_values := map (read_enum_value A) (filter (\<lambda>v. long_of A v 2 = dr_key A r) enumValues)\<rparr>"

definition read_typedef :: "'r db_api \<Rightarrow> (i64, string) umap \<Rightarrow> (i64, i32) umap \<Rightarrow> 'r \<Rightarrow> GhidraDataType" where
  "read_typedef A names sizes r =
     (let underlying = try_or (dr_long A r 0) (- 1) in
      default_GhidraDataType\<lparr>dt_id := dr_key A r, dt_kind := ''typedef'', dt_name := string_of A r 2,
        dt_size := find_or sizes underlying 0, dt_underlyingTypeId := underlying,
        dt_underlyingTypeName := type_name_of names underlying\<rparr>)"

definition read_data_types :: "'r db_api \<Rightarrow> 'r database \<Rightarrow> GhidraDataType list" where
  "read_data_types A db =
     (let names = buildTypeNameMap A db in
      map (read_composite A names (table_rows db ''Component Data Types'')) (table_rows db ''Composite Data Types'') @
      map (read_enum A (table_rows db ''Enumeration Values'')) (table_rows db ''Enumeration Data Types'') @
      map (read_typedef A names (typeIdToSize A db)) (table_rows db ''Typedefs''))"

definition read_data_item :: "'r db_api \<Rightarrow> (i64, i64) umap \<Rightarrow> 'r \<Rightarrow> GhidraDataItem option" where
  "read_data_item A addrMap r =
     (let va = decode addrMap (dr_key A r) in
      if 0 <=s va then Some \<lparr>di_addr = va, di_typeId = long_of A r 0\<rparr> else None)"

definition read_block :: "program_block \<Rightarrow> GhidraMemoryBlock" where
  "read_block b =
     \<lparr>mb_name = pb_name b, mb_addr = pb_start b, mb_size = pb_size b, mb_read = pb_read b, mb_write = pb_write b,
      mb_execute = pb_execute b, mb_initialized = pb_initialized b, mb_overlay = pb_overlay b \<or> \<not> pb_default b\<rparr>"

definition read_database :: "'r db_api \<Rightarrow> 'r database \<Rightarrow> ghidra_program option \<Rightarrow> GhidraDbExport" where
  "read_database A db program =
     (let addrMap = buildAddressMap A db; names = buildTypeNameMap A db in
      \<lparr>ex_symbols = List.map_filter (read_symbol A addrMap) (table_rows db ''Symbols''),
       ex_comments = List.map_filter (read_comment A addrMap) (table_rows db ''Comments''),
       ex_funcFlags = map fst (read_functions A db), ex_funcSigs = sigs_of (read_functions A db),
       ex_equates = List.map_filter (read_equate A addrMap (table_rows db ''Equate References'')) (table_rows db ''Equates''),
       ex_bookmarks = read_bookmarks A db addrMap,
       ex_parameters = List.map_filter (read_parameter A addrMap names) (table_rows db ''Symbols''),
       ex_dataTypes = read_data_types A db,
       ex_dataItems = List.map_filter (read_data_item A addrMap) (table_rows db ''Data''),
       ex_memoryBlocks = (case program of None \<Rightarrow> [] | Some p \<Rightarrow> map read_block (gp_blocks p)),
       ex_xrefStats = \<lparr>xs_fromCount = record_count (db ''FROM REFS''), xs_toCount = record_count (db ''TO REFS'')\<rparr>,
       ex_diag = [], ex_imageBase = image_base addrMap program\<rparr>)"


section \<open>Loops over rows\<close>

lemma res_fold_collect:
  "res_fold (\<lambda>r arr. res_bind (f r) (\<lambda>x. Inr (case x of None \<Rightarrow> arr | Some j \<Rightarrow> arr @ [j]))) rs arr =
   res_bind (res_map f rs) (\<lambda>xs. Inr (arr @ List.map_filter (\<lambda>x. x) xs))"
proof (induction rs arbitrary: arr)
  case (Cons r rs)
  show ?case
    by (cases "f r"; cases "res_map f rs") (auto simp: Cons.IH List.map_filter_simps split: option.split)
qed (simp add: List.map_filter_simps)

text \<open>A row whose body gives nothing or an object that decodes to the specified value\<close>

definition row_reads :: "('j \<Rightarrow> 'a result) \<Rightarrow> ('r \<Rightarrow> 'j option result) \<Rightarrow> ('r \<Rightarrow> 'a option) \<Rightarrow> 'r \<Rightarrow> bool" where
  "row_reads p f h r \<longleftrightarrow> (\<exists>y. f r = Inr y \<and> rel_option (\<lambda>j x. p j = Inr x) y (h r))"

lemma row_reads_NoneI: "f r = Inr None \<Longrightarrow> h r = None \<Longrightarrow> row_reads p f h r"
  by (simp add: row_reads_def)

lemma row_reads_SomeI: "f r = Inr (Some j) \<Longrightarrow> h r = Some x \<Longrightarrow> p j = Inr x \<Longrightarrow> row_reads p f h r"
  by (simp add: row_reads_def)

lemma res_map_rows:
  "(\<And>r. r \<in> set rs \<Longrightarrow> row_reads p f h r) \<Longrightarrow>
   \<exists>ys. res_map f rs = Inr ys \<and> res_map p (List.map_filter (\<lambda>x. x) ys) = Inr (List.map_filter h rs)"
proof (induction rs)
  case (Cons r rs)
  then obtain ys where ys: "res_map f rs = Inr ys" "res_map p (List.map_filter (\<lambda>x. x) ys) = Inr (List.map_filter h rs)" by auto
  have "row_reads p f h r" using Cons.prems by simp
  then show ?case unfolding row_reads_def by (auto simp: ys List.map_filter_simps elim!: option.rel_cases)
qed (simp add: List.map_filter_simps)

definition rows_of :: "'r db_table option \<Rightarrow> 'r list" where
  "rows_of T = (case T of None \<Rightarrow> [] | Some T \<Rightarrow> tb_rows T)"

lemma table_rows_of: "table_rows db name = rows_of (db name)"
  by (simp add: table_rows_def rows_of_def)

lemma for_rows_ok: "rows_ok A cols T \<Longrightarrow> for_rows f T s = res_fold f (rows_of T) s"
  by (cases T; cases "res_fold f (rows_of T) s") (auto simp: rows_ok_def for_rows_def rows_of_def)

lemma collect_rows_reads:
  assumes "rows_ok A cols T"
    and "\<And>r. r \<in> set (rows_of T) \<Longrightarrow> list_all (column_ok A r) cols \<Longrightarrow> row_reads p f h r"
  shows "\<exists>js. collect_rows f T = Inr js \<and> res_map p js = Inr (List.map_filter h (rows_of T))"
proof -
  have "list_all (column_ok A r) cols" if "r \<in> set (rows_of T)" for r
    using assms(1) that by (auto simp: rows_ok_def rows_of_def list_all_iff split: option.splits)
  with assms(2) res_map_rows [of "rows_of T" p f h] obtain ys where
    ys: "res_map f (rows_of T) = Inr ys" "res_map p (List.map_filter (\<lambda>x. x) ys) = Inr (List.map_filter h (rows_of T))" by auto
  then show ?thesis by (simp add: collect_rows_def for_rows_ok [OF assms(1)] res_fold_collect)
qed

text \<open>Columns that are as the schema says\<close>

lemma column_values:
  "\<not> isl (dr_long A r c) \<Longrightarrow> dr_long A r c = Inr (long_of A r c)"
  "\<not> isl (dr_int A r c) \<Longrightarrow> dr_int A r c = Inr (int_of A r c)"
  "\<not> isl (dr_byte A r c) \<Longrightarrow> dr_byte A r c = Inr (byte_of A r c)"
  by (auto simp: long_of_def int_of_def byte_of_def try_or_def split: sum.split)

lemma column_string: "\<not> isl (dr_string A r c) \<Longrightarrow> \<exists>s. dr_string A r c = Inr s \<and> emptyIfNull s = string_of A r c"
  by (auto simp: string_of_def try_or_def split: sum.split)

lemma column_name: "column_ok A r (c, NameCol) \<Longrightarrow> dr_string A r c = Inr (Some (string_of A r c))"
  by (auto simp: string_of_def try_or_def emptyIfNull_def split: sum.splits option.splits)

lemma not_signed_less: "\<not> a <s b \<longleftrightarrow> b <=s (a :: 'a :: len word)"
  by (auto simp: word_sless_alt word_sle_eq)

lemma read_addrHex: "parseHexAddr (addrHex v) = v"
  using parse_toHex [of v] hex_roundtrip [of v] by (simp add: addrHex_def print_hex_def)


section \<open>The rows of the export\<close>

text \<open>The values of the columns, as rewrite rules\<close>

lemmas column_reads = column_values column_name

declare One_nat_def [simp del]

context json_interop
begin

lemma value_addr_object:
  "distinct (map fst kvs) \<Longrightarrow> map_of kvs k = Some (jl_string J (addrHex v)) \<Longrightarrow> value_addr J (jl_object J kvs) k = Inr v"
  by (simp add: value_addr_def object_value_string read_addrHex)

lemmas export_reads = documents object_reads value_addr_object

lemma symbol_reads:
  assumes "list_all (column_ok A r) [(0, StringCol), (1, LongCol), (2, LongCol), (3, ByteCol), (4, ByteCol), (8, LongCol)]"
  shows "row_reads (parse_symbol J) (exportSymbol G A addrMap) (read_symbol A addrMap) r"
proof -
  obtain name where name: "dr_string A r 0 = Inr name" "emptyIfNull name = string_of A r 0"
    using assms column_string [of A r 0] by auto
  have cols: "dr_long A r 1 = Inr (long_of A r 1)" "dr_long A r 2 = Inr (long_of A r 2)"
    "dr_byte A r 3 = Inr (byte_of A r 3)" "dr_byte A r 4 = Inr (byte_of A r 4)"
    using assms by (simp_all add: column_reads)
  show ?thesis
    by (cases "isExportedType (byte_of A r 3) \<and> string_of A r 0 \<noteq> [] \<and> 0 <=s decode addrMap (long_of A r 1)")
      (auto simp: row_reads_def exportSymbol_def read_symbol_def parse_symbol_def name cols not_signed_less export_reads Let_def)
qed

lemma optional_value:
  assumes "distinct (map fst m)" and "map_of m k = (if s = [] then None else Some (jl_string J s))"
  shows "jl_value_string J (jl_object J m) k [] = Inr s"
proof (cases "s = []")
  case True
  with assms(2) have "k \<notin> fst ` set m" by (simp add: map_of_eq_None_iff)
  with True show ?thesis by (simp add: object_value_missing)
next
  case False
  with assms show ?thesis by (intro object_value_string) simp_all
qed

lemma comment_members:
  "distinct (map fst ([(''addr'', a), (''key'', b)] @ comment_member G ''eol'' eol @ comment_member G ''pre'' pre @
     comment_member G ''post'' post @ comment_member G ''plate'' plate @ comment_member G ''rep'' rep))"
  by (simp add: comment_member_def)

lemma comment_reads:
  assumes "list_all (column_ok A r) [(0, StringCol), (1, StringCol), (2, StringCol), (3, StringCol), (4, StringCol)]"
  shows "row_reads (parse_comment J) (exportComment G A addrMap) (read_comment A addrMap) r"
proof -
  obtain s0 s1 s2 s3 s4 where s: "dr_string A r 0 = Inr s0" "dr_string A r 1 = Inr s1" "dr_string A r 2 = Inr s2"
      "dr_string A r 3 = Inr s3" "dr_string A r 4 = Inr s4"
    and e: "emptyIfNull s0 = string_of A r 0" "emptyIfNull s1 = string_of A r 1" "emptyIfNull s2 = string_of A r 2"
      "emptyIfNull s3 = string_of A r 3" "emptyIfNull s4 = string_of A r 4"
    using assms column_string [of A r 0] column_string [of A r 1] column_string [of A r 2] column_string [of A r 3] column_string [of A r 4]
    by auto
  have some: "list_ex (\<lambda>c. string_of A r c \<noteq> []) [0, 1, 2, 3, 4] \<longleftrightarrow>
      \<not> (string_of A r 0 = [] \<and> string_of A r 1 = [] \<and> string_of A r 2 = [] \<and> string_of A r 3 = [] \<and> string_of A r 4 = [])"
    by simp
  define m where "m = [(''addr'', jl_string G (addrHex (decode addrMap (dr_key A r)))), (''key'', jl_string G (addrHex (dr_key A r)))] @
      comment_member G ''eol'' (string_of A r 0) @ comment_member G ''pre'' (string_of A r 1) @
      comment_member G ''post'' (string_of A r 2) @ comment_member G ''plate'' (string_of A r 3) @
      comment_member G ''rep'' (string_of A r 4)"
  have d: "distinct (map fst m)" unfolding m_def by (rule comment_members)
  have lookup: "map_of m ''addr'' = Some (jl_string J (addrHex (decode addrMap (dr_key A r))))"
    "map_of m ''key'' = Some (jl_string J (addrHex (dr_key A r)))"
    "map_of m ''eol'' = (if string_of A r 0 = [] then None else Some (jl_string J (string_of A r 0)))"
    "map_of m ''pre'' = (if string_of A r 1 = [] then None else Some (jl_string J (string_of A r 1)))"
    "map_of m ''post'' = (if string_of A r 2 = [] then None else Some (jl_string J (string_of A r 2)))"
    "map_of m ''plate'' = (if string_of A r 3 = [] then None else Some (jl_string J (string_of A r 3)))"
    "map_of m ''rep'' = (if string_of A r 4 = [] then None else Some (jl_string J (string_of A r 4)))"
    by (simp_all add: m_def comment_member_def documents)
  have "parse_comment J (jl_object J m) = Inr
      \<lparr>cm_addr = decode addrMap (dr_key A r), cm_eol = string_of A r 0, cm_pre = string_of A r 1, cm_post = string_of A r 2,
       cm_plate = string_of A r 3, cm_rep = string_of A r 4, cm_encodedKey = addrHex (dr_key A r)\<rparr>"
    unfolding parse_comment_def value_addr_object [OF d lookup(1)] object_value_string [OF d lookup(2)]
      optional_value [OF d lookup(3)] optional_value [OF d lookup(4)] optional_value [OF d lookup(5)]
      optional_value [OF d lookup(6)] optional_value [OF d lookup(7)] by simp
  then show ?thesis
    by (auto simp: row_reads_def exportComment_def read_comment_def s e some not_signed_less documents m_def Let_def)
qed

lemma function_reads:
  assumes "list_all (column_ok A r) [(4, ByteCol)]"
  shows "row_reads (parse_func_flags J) (exportFunction G A v2 names) (read_function A v2 names) r"
proof -
  have flags: "dr_byte A r 4 = Inr (byte_of A r 4)" using assms by (simp add: column_reads)
  show ?thesis
    by (simp add: row_reads_def exportFunction_def read_function_def parse_func_flags_def flags string_of_def [symmetric]
        export_reads Let_def)
qed

lemma bookmark_reads:
  assumes "list_all (column_ok A r) [(0, LongCol), (1, StringCol), (2, StringCol)]"
  shows "row_reads (parse_bookmark J) (exportBookmark G A addrMap (Some typeName)) (read_bookmark A addrMap typeName) r"
proof -
  obtain s1 s2 where s: "dr_string A r 1 = Inr s1" "dr_string A r 2 = Inr s2"
      "emptyIfNull s1 = string_of A r 1" "emptyIfNull s2 = string_of A r 2"
    using assms column_string [of A r 1] column_string [of A r 2] by auto
  have c: "dr_long A r 0 = Inr (long_of A r 0)" using assms by (simp add: column_reads)
  show ?thesis
    by (auto simp: row_reads_def exportBookmark_def read_bookmark_def parse_bookmark_def string_or_null_def s c
        not_signed_less export_reads Let_def)
qed

lemma parameter_reads:
  assumes "list_all (column_ok A r) [(0, StringCol), (1, LongCol), (2, LongCol), (3, ByteCol), (4, ByteCol), (8, LongCol)]"
  shows "row_reads (parse_parameter J) (exportParameter G A addrMap names) (read_parameter A addrMap names) r"
proof -
  obtain name where name: "dr_string A r 0 = Inr name" "emptyIfNull name = string_of A r 0"
    using assms column_string [of A r 0] by auto
  have cols: "dr_long A r 1 = Inr (long_of A r 1)" "dr_long A r 8 = Inr (long_of A r 8)" "dr_byte A r 3 = Inr (byte_of A r 3)"
    using assms by (simp_all add: column_reads)
  show ?thesis
    by (cases "(byte_of A r 3 = 6 \<or> byte_of A r 3 = 7) \<and> string_of A r 0 \<noteq> [] \<and> 0 <=s decode addrMap (long_of A r 1)")
      (auto simp: row_reads_def exportParameter_def read_parameter_def parse_parameter_def name cols not_signed_less export_reads Let_def)
qed

lemma data_item_reads:
  assumes "list_all (column_ok A r) [(0, LongCol)]"
  shows "row_reads (parse_data_item J) (exportDataItem G A addrMap) (read_data_item A addrMap) r"
proof -
  have c: "dr_long A r 0 = Inr (long_of A r 0)" using assms by (simp add: column_reads)
  show ?thesis
    by (auto simp: row_reads_def exportDataItem_def read_data_item_def parse_data_item_def c not_signed_less export_reads Let_def)
qed

lemma block_read: "parse_memory_block J (exportMemoryBlock G b) = Inr (read_block b)"
  by (simp add: parse_memory_block_def exportMemoryBlock_def read_block_def export_reads)

section \<open>Data types\<close>

lemma parse_array_object:
  assumes "distinct (map fst kvs)" and "map_of kvs k = Some (jl_array J xs)"
  shows "parse_array J k p (jl_object J kvs) = res_map p xs"
  using assms by (auto simp: parse_array_def contains_object at_object elements_array dest: map_of_SomeD intro: rev_image_eqI)

lemma parse_array_lacks: "k \<notin> fst ` set kvs \<Longrightarrow> parse_array J k p (jl_object J kvs) = Inr []"
  by (simp add: parse_array_def contains_object)

lemma enum_reads:
  assumes "list_all (column_ok A r) [(0, StringCol), (1, StringCol), (3, ByteCol)]"
    and "res_map (parse_enum_value J) (find_or m (dr_key A r) []) = Inr (map (read_enum_value A) (filter (\<lambda>v. long_of A v 2 = dr_key A r) vs))"
  shows "row_reads (parse_data_type J) (exportEnum G A m) (\<lambda>r. Some (read_enum A vs r)) r"
proof -
  obtain s0 s1 where s: "dr_string A r 0 = Inr s0" "dr_string A r 1 = Inr s1"
      "emptyIfNull s0 = string_of A r 0" "emptyIfNull s1 = string_of A r 1"
    using assms column_string [of A r 0] column_string [of A r 1] by auto
  have c: "dr_byte A r 3 = Inr (byte_of A r 3)" using assms by (simp add: column_reads)
  show ?thesis
    by (simp add: row_reads_def exportEnum_def read_enum_def parse_data_type_def s c parse_array_object parse_array_lacks
        assms(2) default_GhidraDataType_def export_reads)
qed

lemma typedef_reads:
  assumes "list_all (column_ok A r) [(2, StringCol)]"
  shows "row_reads (parse_data_type J) (exportTypedef G A names sizes) (\<lambda>r. Some (read_typedef A names sizes r)) r"
proof -
  obtain s where s: "dr_string A r 2 = Inr s" "emptyIfNull s = string_of A r 2"
    using assms column_string [of A r 2] by auto
  show ?thesis
    by (simp add: row_reads_def exportTypedef_def read_typedef_def parse_data_type_def s parse_array_lacks
        default_GhidraDataType_def export_reads Let_def)
qed

lemma composite_reads:
  assumes "list_all (column_ok A r) [(0, StringCol), (1, StringCol), (2, FlagCol), (4, IntCol)]"
    and "res_map (parse_member J) (map snd (sort_key (sint \<circ> fst) (find_or m (dr_key A r) []))) =
      Inr (sort_key (sint \<circ> dm_ordinal) (map (read_member A names) (filter (\<lambda>c. long_of A c 0 = dr_key A r) cs)))"
  shows "row_reads (parse_data_type J) (exportComposite G A m) (\<lambda>r. Some (read_composite A names cs r)) r"
proof -
  obtain s0 s1 where s: "dr_string A r 0 = Inr s0" "dr_string A r 1 = Inr s1"
      "emptyIfNull s0 = string_of A r 0" "emptyIfNull s1 = string_of A r 1"
    using assms column_string [of A r 0] column_string [of A r 1] by auto
  obtain b where b: "is_union A r = Inr b" using assms(1) by (auto simp: isl_def split: sum.splits) (metis sum.exhaust)
  have c: "dr_int A r 4 = Inr (int_of A r 4)" using assms(1) by (simp add: column_reads)
  show ?thesis
    by (simp add: row_reads_def exportComposite_def read_composite_def parse_data_type_def s c b try_or_def parse_array_object
        parse_array_lacks assms(2) default_GhidraDataType_def export_reads)
qed

end

end
