(* ===== verification/Db_Read_Props.thy ===== *)
theory Db_Read_Props
  imports Db_Read
begin

text \<open>
  The loops of the exporter that join tables through maps: the components of a composite, the values of an
  enumeration, the references of an equate. Each map lookup is the rows with that key, in the order of
  the table. With them the whole export is the specification, and over the wire it is what \<open>openDatabase\<close>
  returns.
\<close>

section \<open>Maps filled by a loop\<close>

lemma res_fold_group:
  assumes "\<And>r m. r \<in> set rs \<Longrightarrow> f r m = Inr (add_to (k r) (x r) m)"
  shows "\<exists>m'. res_fold f rs m = Inr m' \<and> (\<forall>key. find_or m' key [] = find_or m key [] @ map x (filter (\<lambda>r. k r = key) rs))"
  using assms
proof (induction rs arbitrary: m)
  case (Cons r rs)
  obtain m' where "res_fold f rs (add_to (k r) (x r) m) = Inr m'"
    and "\<forall>key. find_or m' key [] = find_or (add_to (k r) (x r) m) key [] @ map x (filter (\<lambda>r. k r = key) rs)"
    using Cons.IH [of "add_to (k r) (x r) m"] Cons.prems by auto
  then show ?case using Cons.prems by (auto simp: add_to_def umap_simps)
qed simp

lemma insort_key_map: "insort_key f (g x) (map g xs) = map g (insort_key (f \<circ> g) x xs)"
  by (induction xs) auto

lemma sort_key_map: "sort_key f (map g xs) = map g (sort_key (f \<circ> g) xs)"
  by (induction xs) (simp_all add: insort_key_map comp_def)

lemma res_map_map: "res_map p (map x rs) = res_map (\<lambda>r. p (x r)) rs"
  by (induction rs) simp_all

lemma res_map_total: "res_map (\<lambda>r. Inr (y r)) rs = Inr (map y rs)"
  by (induction rs) simp_all

lemma update_map_rows:
  assumes "distinct (map key rs)" and "k \<in> key ` set rs"
  shows "AList.update k v (map (\<lambda>r. (key r, g r)) rs) = map (\<lambda>r. (key r, if key r = k then v else g r)) rs"
  using assms
proof (induction rs)
  case (Cons r rs)
  show ?case
  proof (cases "key r = k")
    case True
    then have "k \<notin> key ` set rs" using Cons.prems(1) by auto
    with True show ?thesis by (auto simp: image_iff)
  next
    case False
    with Cons show ?thesis by auto
  qed
qed simp

lemma update_fresh: "k \<notin> fst ` set m \<Longrightarrow> AList.update k v m = m @ [(k, v)]"
  by (induction m) auto

lemma res_fold_fresh:
  assumes "\<And>r m. r \<in> set rs \<Longrightarrow> f r m = Inr (AList.update (key r) (g r) m)"
    and "distinct (map key rs)" and "fst ` set m \<inter> key ` set rs = {}"
  shows "res_fold f rs m = Inr (m @ map (\<lambda>r. (key r, g r)) rs)"
  using assms
proof (induction rs arbitrary: m)
  case (Cons r rs)
  then have "AList.update (key r) (g r) m = m @ [(key r, g r)]" by (intro update_fresh) auto
  with Cons show ?case by auto
qed simp

lemma map_of_rows: "map_of (map (\<lambda>r. (key r, g r)) rs) k = None \<longleftrightarrow> k \<notin> key ` set rs"
  by (auto simp: map_of_eq_None_iff image_iff)

lemma map_of_rows_Some: "map_of (map (\<lambda>r. (key r, h (key r) (g r))) rs) k = Some v \<Longrightarrow> \<exists>r \<in> set rs. key r = k \<and> v = h k (g r)"
  by (auto dest!: map_of_SomeD)

lemma map_filter_Some: "List.map_filter (\<lambda>r. Some (h r)) rs = map h rs"
  by (induction rs) (simp_all add: List.map_filter_simps)

lemma res_map_append: "res_map p (xs @ ys) = res_bind (res_map p xs) (\<lambda>a. res_bind (res_map p ys) (\<lambda>b. Inr (a @ b)))"
proof (induction xs)
  case Nil
  show ?case by (cases "res_map p ys") simp_all
next
  case (Cons x xs)
  then show ?case by (cases "p x"; cases "res_map p xs"; cases "res_map p ys") simp_all
qed

section \<open>Members and values\<close>

lemma rows_ok_columns: "rows_ok A cols T \<Longrightarrow> r \<in> set (rows_of T) \<Longrightarrow> list_all (column_ok A r) cols"
  by (auto simp: rows_ok_def rows_of_def list_all_iff split: option.splits)

lemma rows_ok_distinct: "rows_ok A cols T \<Longrightarrow> distinct (map (dr_key A) (rows_of T))"
  by (auto simp: rows_ok_def rows_of_def split: option.splits)

text \<open>The objects the loops build\<close>

definition member_object :: "'j gson \<Rightarrow> 'r db_api \<Rightarrow> (i64, string) umap \<Rightarrow> 'r \<Rightarrow> 'j" where
  "member_object G A names r = jl_object G
     [(''offset'', jl_int G (int_of A r 1)), (''type_id'', jl_int64 G (long_of A r 2)),
      (''type_name'', jl_string G (find_or names (long_of A r 2) [])), (''name'', jl_string G (string_of A r 3)),
      (''comment'', jl_string G (string_of A r 4)), (''size'', jl_int G (int_of A r 5)),
      (''ordinal'', jl_int G (int_of A r 6))]"

definition value_object :: "'j gson \<Rightarrow> 'r db_api \<Rightarrow> 'r \<Rightarrow> 'j" where
  "value_object G A r = jl_object G
     [(''name'', jl_string G (string_of A r 0)), (''value'', jl_int64 G (long_of A r 1)),
      (''comment'', jl_string G (string_of A r 3))]"

lemma add_component_step:
  assumes "list_all (column_ok A r) [(0, LongCol), (1, IntCol), (2, LongCol), (3, StringCol), (4, StringCol), (5, IntCol), (6, IntCol)]"
  shows "add_component G A names r m = Inr (add_to (long_of A r 0) (int_of A r 6, member_object G A names r) m)"
proof -
  obtain s3 s4 where s: "dr_string A r 3 = Inr s3" "dr_string A r 4 = Inr s4"
      "emptyIfNull s3 = string_of A r 3" "emptyIfNull s4 = string_of A r 4"
    using assms column_string [of A r 3] column_string [of A r 4] by auto
  have c: "dr_long A r 0 = Inr (long_of A r 0)" "dr_long A r 2 = Inr (long_of A r 2)" "dr_int A r 1 = Inr (int_of A r 1)"
    "dr_int A r 5 = Inr (int_of A r 5)" "dr_int A r 6 = Inr (int_of A r 6)"
    using assms by (simp_all add: column_reads)
  show ?thesis by (simp add: add_component_def member_object_def s c)
qed

lemma add_enum_value_step:
  assumes "list_all (column_ok A r) [(0, StringCol), (1, LongCol), (2, LongCol), (3, StringCol)]"
  shows "add_enum_value G A r m = Inr (add_to (long_of A r 2) (value_object G A r) m)"
proof -
  obtain s0 s3 where s: "dr_string A r 0 = Inr s0" "dr_string A r 3 = Inr s3"
      "emptyIfNull s0 = string_of A r 0" "emptyIfNull s3 = string_of A r 3"
    using assms column_string [of A r 0] column_string [of A r 3] by auto
  have c: "dr_long A r 1 = Inr (long_of A r 1)" "dr_long A r 2 = Inr (long_of A r 2)"
    using assms by (simp_all add: column_reads)
  show ?thesis by (simp add: add_enum_value_def value_object_def s c)
qed

context json_interop
begin

lemma member_read: "parse_member J (member_object G A names r) = Inr (read_member A names r)"
  by (simp add: parse_member_def member_object_def read_member_def export_reads)

lemma enum_value_read: "parse_enum_value J (value_object G A r) = Inr (read_enum_value A r)"
  by (simp add: parse_enum_value_def value_object_def read_enum_value_def export_reads)

lemma components_read:
  assumes "rows_ok A [(0, LongCol), (1, IntCol), (2, LongCol), (3, StringCol), (4, StringCol), (5, IntCol), (6, IntCol)] T"
  obtains m where "for_rows (add_component G A names) T [] = Inr m"
    and "\<And>key. res_map (parse_member J) (map snd (sort_key (sint \<circ> fst) (find_or m key []))) =
      Inr (sort_key (sint \<circ> dm_ordinal) (map (read_member A names) (filter (\<lambda>c. long_of A c 0 = key) (rows_of T))))"
proof -
  let ?x = "\<lambda>r. (int_of A r 6, member_object G A names r)"
  obtain m where m: "res_fold (add_component G A names) (rows_of T) [] = Inr m"
    "\<forall>key. find_or m key [] = find_or [] key [] @ map ?x (filter (\<lambda>r. long_of A r 0 = key) (rows_of T))"
    using res_fold_group [of "rows_of T" "add_component G A names" "\<lambda>r. long_of A r 0" ?x "[]"]
      add_component_step [OF rows_ok_columns [OF assms]] by blast
  have ord: "(sint \<circ> fst) \<circ> ?x = sint \<circ> (\<lambda>r. int_of A r 6)" "(sint \<circ> dm_ordinal) \<circ> read_member A names = sint \<circ> (\<lambda>r. int_of A r 6)"
    by (auto simp: read_member_def)
  show thesis
  proof (rule that)
    show "for_rows (add_component G A names) T [] = Inr m" using m(1) by (simp add: for_rows_ok [OF assms])
    show "res_map (parse_member J) (map snd (sort_key (sint \<circ> fst) (find_or m key []))) =
      Inr (sort_key (sint \<circ> dm_ordinal) (map (read_member A names) (filter (\<lambda>c. long_of A c 0 = key) (rows_of T))))" for key
      using m(2) by (simp add: find_or_def [of "[]"] sort_key_map ord res_map_map res_map_total member_read)
  qed
qed

lemma values_read:
  assumes "rows_ok A [(0, StringCol), (1, LongCol), (2, LongCol), (3, StringCol)] T"
  obtains m where "for_rows (add_enum_value G A) T [] = Inr m"
    and "\<And>key. res_map (parse_enum_value J) (find_or m key []) =
      Inr (map (read_enum_value A) (filter (\<lambda>v. long_of A v 2 = key) (rows_of T)))"
proof -
  obtain m where m: "res_fold (add_enum_value G A) (rows_of T) [] = Inr m"
    "\<forall>key. find_or m key [] = find_or [] key [] @ map (value_object G A) (filter (\<lambda>r. long_of A r 2 = key) (rows_of T))"
    using res_fold_group [of "rows_of T" "add_enum_value G A" "\<lambda>r. long_of A r 2" "value_object G A" "[]"]
      add_enum_value_step [OF rows_ok_columns [OF assms]] by blast
  show thesis
  proof (rule that)
    show "for_rows (add_enum_value G A) T [] = Inr m" using m(1) by (simp add: for_rows_ok [OF assms])
    show "res_map (parse_enum_value J) (find_or m key []) =
      Inr (map (read_enum_value A) (filter (\<lambda>v. long_of A v 2 = key) (rows_of T)))" for key
      using m(2) by (simp add: find_or_def [of "[]"] res_map_map res_map_total enum_value_read)
  qed
qed

lemma data_types_read:
  assumes "schema_ok A db"
  shows "\<exists>js. exportDataTypes G A db = Inr js \<and> res_map (parse_data_type J) js = Inr (read_data_types A db)"
proof -
  have ok: "rows_ok A [(0, LongCol), (1, IntCol), (2, LongCol), (3, StringCol), (4, StringCol), (5, IntCol), (6, IntCol)] (db ''Component Data Types'')"
    "rows_ok A [(0, StringCol), (1, StringCol), (2, FlagCol), (4, IntCol)] (db ''Composite Data Types'')"
    "rows_ok A [(0, StringCol), (1, LongCol), (2, LongCol), (3, StringCol)] (db ''Enumeration Values'')"
    "rows_ok A [(0, StringCol), (1, StringCol), (3, ByteCol)] (db ''Enumeration Data Types'')"
    "rows_ok A [(2, StringCol)] (db ''Typedefs'')"
    using assms by (simp_all add: schema_ok_def schema_def)
  define names where "names = buildTypeNameMap A db"
  obtain m where m: "for_rows (add_component G A names) (db ''Component Data Types'') [] = Inr m"
    "\<And>key. res_map (parse_member J) (map snd (sort_key (sint \<circ> fst) (find_or m key []))) =
      Inr (sort_key (sint \<circ> dm_ordinal) (map (read_member A names) (filter (\<lambda>c. long_of A c 0 = key) (rows_of (db ''Component Data Types'')))))"
    by (rule components_read [OF ok(1), of names]) (rule that)
  obtain v where v: "for_rows (add_enum_value G A) (db ''Enumeration Values'') [] = Inr v"
    "\<And>key. res_map (parse_enum_value J) (find_or v key []) =
      Inr (map (read_enum_value A) (filter (\<lambda>v. long_of A v 2 = key) (rows_of (db ''Enumeration Values''))))"
    by (rule values_read [OF ok(3)]) (rule that)
  obtain a where a: "collect_rows (exportComposite G A m) (db ''Composite Data Types'') = Inr a"
      "res_map (parse_data_type J) a = Inr (map (read_composite A names (rows_of (db ''Component Data Types''))) (rows_of (db ''Composite Data Types'')))"
    using collect_rows_reads [OF ok(2) composite_reads [OF _ m(2)]] by (auto simp: map_filter_Some)
  obtain b where b: "collect_rows (exportEnum G A v) (db ''Enumeration Data Types'') = Inr b"
      "res_map (parse_data_type J) b = Inr (map (read_enum A (rows_of (db ''Enumeration Values''))) (rows_of (db ''Enumeration Data Types'')))"
    using collect_rows_reads [OF ok(4) enum_reads [OF _ v(2)]] by (auto simp: map_filter_Some)
  obtain c where c: "collect_rows (exportTypedef G A names (typeIdToSize A db)) (db ''Typedefs'') = Inr c"
      "res_map (parse_data_type J) c = Inr (map (read_typedef A names (typeIdToSize A db)) (rows_of (db ''Typedefs'')))"
    using collect_rows_reads [OF ok(5) typedef_reads [of A _ names "typeIdToSize A db"]] by (auto simp: map_filter_Some)
  from a b c show ?thesis
    by (simp add: exportDataTypes_def read_data_types_def names_def [symmetric] m(1) v(1) table_rows_of res_map_append Let_def)
qed

end

section \<open>Equates\<close>

text \<open>The state of \<open>equateMap\<close> when the references \<open>refs\<close> were added\<close>

definition equate_entries :: "'r db_api \<Rightarrow> 'r list \<Rightarrow> (i64 \<Rightarrow> 'j list) \<Rightarrow> (i64, 'j equate_entry) umap" where
  "equate_entries A rs refs = map (\<lambda>r. (dr_key A r, (Some (string_of A r 0), long_of A r 1, refs (dr_key A r)))) rs"

definition ref_objects :: "'j gson \<Rightarrow> 'r db_api \<Rightarrow> (i64, i64) umap \<Rightarrow> 'r list \<Rightarrow> i64 \<Rightarrow> 'j list" where
  "ref_objects G A addrMap refRows eqId = List.map_filter (\<lambda>r. map_option (\<lambda>e.
     jl_object G [(''addr'', jl_string G (addrHex (er_addr e))), (''op_index'', jl_int G (er_opIndex e))])
     (read_equate_ref A addrMap eqId r)) refRows"

lemma add_equate_step:
  assumes "list_all (column_ok A r) [(0, NameCol), (1, LongCol)]"
  shows "add_equate A r m = Inr (AList.update (dr_key A r) (Some (string_of A r 0), long_of A r 1, []) m)"
proof -
  have "dr_string A r 0 = Inr (Some (string_of A r 0))" "dr_long A r 1 = Inr (long_of A r 1)"
    using assms column_name [of A r 0] by (simp_all add: column_values)
  then show ?thesis by (simp add: add_equate_def)
qed

lemma add_equate_ref_step:
  assumes "list_all (column_ok A r) [(0, LongCol), (1, LongCol), (2, IndexCol)]" and "distinct (map (dr_key A) rs)"
  shows "add_equate_ref G A addrMap r (equate_entries A rs refs) =
    Inr (equate_entries A rs (\<lambda>k. refs k @ ref_objects G A addrMap [r] k))"
proof -
  obtain i where i: "op_index A r = Inr i" using assms(1) by (cases "op_index A r") auto
  have c: "dr_long A r 0 = Inr (long_of A r 0)" "dr_long A r 1 = Inr (long_of A r 1)"
    using assms(1) by (simp_all add: column_values)
  let ?va = "decode addrMap (long_of A r 1)" and ?k = "long_of A r 0"
  show ?thesis
  proof (cases "0 <=s ?va \<and> ?k \<in> dr_key A ` set rs")
    case False
    then have "ref_objects G A addrMap [r] (dr_key A x) = []" if "x \<in> set rs" for x
      using that by (auto simp: ref_objects_def read_equate_ref_def List.map_filter_simps Let_def)
    then have "equate_entries A rs (\<lambda>k. refs k @ ref_objects G A addrMap [r] k) = equate_entries A rs refs"
      by (simp add: equate_entries_def)
    then show ?thesis using False
      by (auto simp: add_equate_ref_def i c equate_entries_def map_of_rows not_signed_less Let_def
          split: option.split dest!: map_of_SomeD)
  next
    case True
    then obtain x where x: "x \<in> set rs" "dr_key A x = ?k" by auto
    then have "map_of (equate_entries A rs refs) ?k = Some (Some (string_of A x 0), long_of A x 1, refs ?k)"
      using assms(2) by (auto simp: equate_entries_def comp_def intro!: map_of_is_SomeI rev_image_eqI)
    moreover have same: "y = x" if "y \<in> set rs" "dr_key A y = ?k" for y
      using assms(2) that x by (metis distinct_map inj_onD)
    ultimately show ?thesis using True i c same
      by (auto simp: add_equate_ref_def equate_entries_def not_signed_less update_map_rows [OF assms(2)] ref_objects_def
          read_equate_ref_def List.map_filter_simps try_or_def Let_def)
  qed
qed

lemma ref_objects_Cons: "ref_objects G A addrMap (r # rs) k = ref_objects G A addrMap [r] k @ ref_objects G A addrMap rs k"
  by (simp add: ref_objects_def List.map_filter_simps split: option.split)

lemma add_equate_refs:
  assumes "\<And>r. r \<in> set refRows \<Longrightarrow> list_all (column_ok A r) [(0, LongCol), (1, LongCol), (2, IndexCol)]" and "distinct (map (dr_key A) rs)"
  shows "res_fold (add_equate_ref G A addrMap) refRows (equate_entries A rs refs) =
    Inr (equate_entries A rs (\<lambda>k. refs k @ ref_objects G A addrMap refRows k))"
  using assms(1)
proof (induction refRows arbitrary: refs)
  case (Cons r refRows)
  have "add_equate_ref G A addrMap r (equate_entries A rs refs) = Inr (equate_entries A rs (\<lambda>k. refs k @ ref_objects G A addrMap [r] k))"
    by (rule add_equate_ref_step [OF Cons.prems assms(2)]) simp
  moreover have "res_fold (add_equate_ref G A addrMap) refRows (equate_entries A rs (\<lambda>k. refs k @ ref_objects G A addrMap [r] k)) =
      Inr (equate_entries A rs (\<lambda>k. (refs k @ ref_objects G A addrMap [r] k) @ ref_objects G A addrMap refRows k))"
    using Cons by simp
  ultimately show ?case by (subst ref_objects_Cons) simp
qed (simp add: ref_objects_def List.map_filter_simps)

context json_interop
begin

lemma refs_read:
  "res_map (parse_equate_ref J) (ref_objects G A addrMap refRows k) = Inr (List.map_filter (read_equate_ref A addrMap k) refRows)"
  by (induction refRows)
    (auto simp: ref_objects_def parse_equate_ref_def export_reads List.map_filter_simps split: option.split)

lemma equate_read:
  "parse_equate J (equate_object G (k, Some name, val, ref_objects G A addrMap refRows k)) =
    Inr \<lparr>eq_id = k, eq_name = name, eq_value = val, eq_refs = List.map_filter (read_equate_ref A addrMap k) refRows\<rparr>"
  by (simp add: parse_equate_def equate_object_def string_or_null_def parse_array_object refs_read export_reads)

lemma equates_read:
  assumes "schema_ok A db"
  shows "\<exists>js. exportEquates G A db addrMap = Inr js \<and>
    res_map (parse_equate J) js = Inr (List.map_filter (read_equate A addrMap (table_rows db ''Equate References'')) (table_rows db ''Equates''))"
proof (cases "db ''Equates''")
  case None
  then show ?thesis by (simp add: exportEquates_def table_rows_def List.map_filter_simps)
next
  case (Some T)
  have ok: "rows_ok A [(0, NameCol), (1, LongCol)] (db ''Equates'')"
    "rows_ok A [(0, LongCol), (1, LongCol), (2, IndexCol)] (db ''Equate References'')"
    using assms by (simp_all add: schema_ok_def schema_def)
  let ?rs = "rows_of (db ''Equates'')" and ?refs = "rows_of (db ''Equate References'')"
  have first: "for_rows (add_equate A) (db ''Equates'') [] = Inr (equate_entries A ?rs (\<lambda>_. [] :: 'j list))"
    using res_fold_fresh [OF add_equate_step [OF rows_ok_columns [OF ok(1)]] rows_ok_distinct [OF ok(1)], of "[]"]
    by (simp add: for_rows_ok [OF ok(1)] equate_entries_def)
  have second: "for_rows (add_equate_ref G A addrMap) (db ''Equate References'') (equate_entries A ?rs (\<lambda>_. [])) =
      Inr (equate_entries A ?rs (ref_objects G A addrMap ?refs))"
    using add_equate_refs [OF rows_ok_columns [OF ok(2)] rows_ok_distinct [OF ok(1)], where G = G and addrMap = addrMap and refs = "\<lambda>_. []"]
    by (simp add: for_rows_ok [OF ok(2)])
  have none: "ref_objects G A addrMap ?refs k = [] \<longleftrightarrow> List.map_filter (read_equate_ref A addrMap k) ?refs = []" for k
    by (simp add: ref_objects_def map_filter_empty)
  have "res_map (parse_equate J) (map (equate_object G) (filter (\<lambda>(_, _, _, refs). refs \<noteq> []) (equate_entries A rs (ref_objects G A addrMap ?refs)))) =
      Inr (List.map_filter (read_equate A addrMap ?refs) rs)" for rs
    by (induction rs) (simp_all add: equate_entries_def equate_read read_equate_def none List.map_filter_simps)
  then show ?thesis using first second by (simp add: exportEquates_def Some table_rows_of)
qed

end

section \<open>Bookmarks and the whole export\<close>

lemma res_fold_concat:
  assumes "\<And>r arr. r \<in> set rs \<Longrightarrow> \<exists>js. f r arr = Inr (arr @ js) \<and> res_map p js = Inr (h r)"
  shows "\<exists>js. res_fold f rs arr = Inr (arr @ js) \<and> res_map p js = Inr (concat (map h rs))"
  using assms
proof (induction rs arbitrary: arr)
  case (Cons r rs)
  then obtain js where js: "f r arr = Inr (arr @ js)" "res_map p js = Inr (h r)" by force
  obtain ks where "res_fold f rs (arr @ js) = Inr ((arr @ js) @ ks)" "res_map p ks = Inr (concat (map h rs))"
    using Cons.IH [of "arr @ js"] Cons.prems by auto
  with js show ?case by (auto simp: res_map_append)
qed simp

context json_interop
begin

lemma bookmarks_read:
  assumes "schema_ok A db"
  shows "\<exists>js. exportBookmarks G A db addrMap = Inr js \<and> res_map (parse_bookmark J) js = Inr (read_bookmarks A db addrMap)"
proof -
  have ok: "rows_ok A [(0, NameCol)] (db ''Bookmark Types'')"
    and marks: "\<And>t. t \<in> set (rows_of (db ''Bookmark Types'')) \<Longrightarrow>
      rows_ok A [(0, LongCol), (1, StringCol), (2, StringCol)] (bookmark_table A db t)"
    using assms by (simp_all add: schema_ok_def schema_def table_rows_of list_all_iff)
  let ?h = "\<lambda>t. List.map_filter (read_bookmark A addrMap (string_of A t 0)) (rows_of (bookmark_table A db t))"
  have step: "\<exists>js. res_bind (dr_string A t 0) (\<lambda>typeName.
        res_bind (collect_rows (exportBookmark G A addrMap typeName) (db (''Bookmarks'' @ to_string_i64 (dr_key A t)))) (\<lambda>xs. Inr (arr @ xs))) =
      Inr (arr @ js) \<and> res_map (parse_bookmark J) js = Inr (?h t)"
    if t: "t \<in> set (rows_of (db ''Bookmark Types''))" for t arr
  proof -
    have "dr_string A t 0 = Inr (Some (string_of A t 0))" using rows_ok_columns [OF ok t] column_name [of A t 0] by simp
    moreover obtain js where "collect_rows (exportBookmark G A addrMap (Some (string_of A t 0))) (bookmark_table A db t) = Inr js"
      "res_map (parse_bookmark J) js = Inr (?h t)"
      using collect_rows_reads [OF marks [OF t] bookmark_reads] by blast
    ultimately show ?thesis by (simp add: bookmark_table_def)
  qed
  have "?h t = (case bookmark_table A db t of None \<Rightarrow> [] | Some T \<Rightarrow> List.map_filter (read_bookmark A addrMap (string_of A t 0)) (tb_rows T))" for t
    by (simp add: rows_of_def List.map_filter_simps split: option.split)
  then show ?thesis
    using res_fold_concat [of "rows_of (db ''Bookmark Types'')" _ "parse_bookmark J" ?h "[]", OF step]
    by (simp add: exportBookmarks_def read_bookmarks_def for_rows_ok [OF ok] table_rows_of)
qed

lemma functions_read:
  assumes "schema_ok A db"
  shows "\<exists>js. exportFunctions G A db = Inr js \<and> res_map (parse_func_flags J) js = Inr (read_functions A db)"
proof (cases "db ''Function Data''")
  case None
  then show ?thesis by (simp add: exportFunctions_def read_functions_def)
next
  case (Some T)
  then have ok: "rows_ok A [(4, ByteCol)] (Some T)" using assms by (simp add: schema_ok_def schema_def)
  show ?thesis
    using collect_rows_reads [OF ok function_reads] Some
    by (simp add: exportFunctions_def read_functions_def rows_of_def)
qed

lemma blocks_read:
  "res_map (parse_memory_block J) (case program of None \<Rightarrow> [] | Some p \<Rightarrow> exportMemoryBlocks G p) =
   Inr (case program of None \<Rightarrow> [] | Some p \<Rightarrow> map read_block (gp_blocks p))"
  by (simp add: exportMemoryBlocks_def res_map_map res_map_total block_read split: option.split)

lemma stats_read:
  assumes "distinct (map fst kvs)" and "map_of kvs ''xref_stats'' = Some (exportCrossRefStats G db)"
  shows "parse_xref_stats J (jl_object J kvs) =
    Inr \<lparr>xs_fromCount = record_count (db ''FROM REFS''), xs_toCount = record_count (db ''TO REFS'')\<rparr>"
  using assms map_of_SomeD [OF assms(2)]
  by (auto simp: parse_xref_stats_def contains_object at_object exportCrossRefStats_def export_reads intro: rev_image_eqI)

text \<open>The object of the export, given that its arrays decode\<close>

lemma export_object_read:
  assumes "m = [(''image_base'', jl_string G (addrHex base)), (''symbols'', jl_array G sy),
     (''comments'', jl_array G co), (''func_flags'', jl_array G fu), (''equates'', jl_array G eq),
     (''bookmarks'', jl_array G bo), (''parameters'', jl_array G pa), (''data_types'', jl_array G ty),
     (''data_items'', jl_array G it), (''memory_blocks'', jl_array G bl), (''xref_stats'', exportCrossRefStats G db)]"
    and "res_map (parse_symbol J) sy = Inr sy'" and "res_map (parse_comment J) co = Inr co'"
    and "res_map (parse_func_flags J) fu = Inr fu'" and "res_map (parse_equate J) eq = Inr eq'"
    and "res_map (parse_bookmark J) bo = Inr bo'" and "res_map (parse_parameter J) pa = Inr pa'"
    and "res_map (parse_data_type J) ty = Inr ty'" and "res_map (parse_data_item J) it = Inr it'"
    and "res_map (parse_memory_block J) bl = Inr bl'"
  shows "jl_at J (jl_object J m) ''image_base'' = Inr (jl_string J (addrHex base))"
    and "parseDbExportJson J (jl_object J m) =
      Inr \<lparr>ex_symbols = sy', ex_comments = co', ex_funcFlags = map fst fu', ex_funcSigs = sigs_of fu', ex_equates = eq',
        ex_bookmarks = bo', ex_parameters = pa', ex_dataTypes = ty', ex_dataItems = it', ex_memoryBlocks = bl',
        ex_xrefStats = \<lparr>xs_fromCount = record_count (db ''FROM REFS''), xs_toCount = record_count (db ''TO REFS'')\<rparr>,
        ex_diag = [], ex_imageBase = base\<rparr>"
proof -
  have d: "distinct (map fst m)" by (simp add: assms(1))
  have look: "map_of m ''image_base'' = Some (jl_string J (addrHex base))"
    "map_of m ''symbols'' = Some (jl_array J sy)" "map_of m ''comments'' = Some (jl_array J co)" "map_of m ''func_flags'' = Some (jl_array J fu)"
    "map_of m ''equates'' = Some (jl_array J eq)" "map_of m ''bookmarks'' = Some (jl_array J bo)" "map_of m ''parameters'' = Some (jl_array J pa)"
    "map_of m ''data_types'' = Some (jl_array J ty)" "map_of m ''data_items'' = Some (jl_array J it)"
    "map_of m ''memory_blocks'' = Some (jl_array J bl)" "map_of m ''xref_stats'' = Some (exportCrossRefStats G db)"
    by (simp_all add: assms(1) documents)
  show "jl_at J (jl_object J m) ''image_base'' = Inr (jl_string J (addrHex base))" by (rule at_object [OF d look(1)])
  have diag: "parse_array J ''diag'' f (jl_object J m) = Inr []" for f :: "'j \<Rightarrow> string result"
    by (rule parse_array_lacks) (simp add: assms(1))
  note arrays = look(2-10) [THEN parse_array_object [OF d]]
  show "parseDbExportJson J (jl_object J m) =
      Inr \<lparr>ex_symbols = sy', ex_comments = co', ex_funcFlags = map fst fu', ex_funcSigs = sigs_of fu', ex_equates = eq',
        ex_bookmarks = bo', ex_parameters = pa', ex_dataTypes = ty', ex_dataItems = it', ex_memoryBlocks = bl',
        ex_xrefStats = \<lparr>xs_fromCount = record_count (db ''FROM REFS''), xs_toCount = record_count (db ''TO REFS'')\<rparr>,
        ex_diag = [], ex_imageBase = base\<rparr>"
    unfolding parseDbExportJson_def value_addr_object [OF d look(1)] arrays stats_read [OF d look(11)] diag
    by (simp add: assms(2-))
qed

lemma export_read:
  assumes "schema_ok A db"
  obtains s where "db_export G A db program = Inr s" and "jl_is_object J s"
    and "jl_at J s ''image_base'' = Inr (jl_string J (addrHex (image_base (buildAddressMap A db) program)))"
    and "parseDbExportJson J s = Inr (read_database A db program)"
proof -
  define addrMap where "addrMap = buildAddressMap A db"
  have ok: "rows_ok A [(0, StringCol), (1, LongCol), (2, LongCol), (3, ByteCol), (4, ByteCol), (8, LongCol)] (db ''Symbols'')"
    "rows_ok A [(0, StringCol), (1, StringCol), (2, StringCol), (3, StringCol), (4, StringCol)] (db ''Comments'')"
    "rows_ok A [(0, LongCol)] (db ''Data'')"
    using assms by (simp_all add: schema_ok_def schema_def)
  obtain sy where sy: "exportSymbols G A db addrMap = Inr sy"
      "res_map (parse_symbol J) sy = Inr (List.map_filter (read_symbol A addrMap) (table_rows db ''Symbols''))"
    using collect_rows_reads [OF ok(1) symbol_reads] unfolding exportSymbols_def table_rows_of by blast
  obtain co where co: "exportComments G A db addrMap = Inr co"
      "res_map (parse_comment J) co = Inr (List.map_filter (read_comment A addrMap) (table_rows db ''Comments''))"
    using collect_rows_reads [OF ok(2) comment_reads] unfolding exportComments_def table_rows_of by blast
  obtain pa where pa: "exportParameters G A db addrMap = Inr pa"
      "res_map (parse_parameter J) pa = Inr (List.map_filter (read_parameter A addrMap (buildTypeNameMap A db)) (table_rows db ''Symbols''))"
    using collect_rows_reads [OF ok(1) parameter_reads] unfolding exportParameters_def table_rows_of by blast
  obtain it where it: "exportDataItems G A db addrMap = Inr it"
      "res_map (parse_data_item J) it = Inr (List.map_filter (read_data_item A addrMap) (table_rows db ''Data''))"
    using collect_rows_reads [OF ok(3) data_item_reads] unfolding exportDataItems_def table_rows_of by blast
  obtain fu eq bo ty where fu: "exportFunctions G A db = Inr fu" "res_map (parse_func_flags J) fu = Inr (read_functions A db)"
    and eq: "exportEquates G A db addrMap = Inr eq"
      "res_map (parse_equate J) eq = Inr (List.map_filter (read_equate A addrMap (table_rows db ''Equate References'')) (table_rows db ''Equates''))"
    and bo: "exportBookmarks G A db addrMap = Inr bo" "res_map (parse_bookmark J) bo = Inr (read_bookmarks A db addrMap)"
    and ty: "exportDataTypes G A db = Inr ty" "res_map (parse_data_type J) ty = Inr (read_data_types A db)"
    using functions_read [OF assms] equates_read [OF assms] bookmarks_read [OF assms] data_types_read [OF assms] by metis
  note whole = export_object_read [OF refl sy(2) co(2) fu(2) eq(2) bo(2) pa(2) ty(2) it(2) blocks_read]
  show thesis
    by (rule that [OF _ is_object_object whole(1) [unfolded addrMap_def] whole(2) [THEN trans]])
      (simp_all add: db_export_def addrMap_def [symmetric] sy co fu eq bo pa ty it documents read_database_def Let_def)
qed

end

end
