(* ===== verification/Pointer_Names.thy ===== *)
theory Pointer_Names
  imports Db_Export
begin

text \<open>
  The names of pointer types. The exporter resolves them in two passes over the pointer table, each row from what
  the map holds at that moment. \<open>pointer_type\<close> says which name a pointer of a given depth has, whatever the order of
  the rows; \<open>n\<close> passes find the names up to depth \<open>n\<close>.
\<close>

section \<open>Depth and name of a pointer type\<close>

definition inner_id :: "'r db_api \<Rightarrow> 'r \<Rightarrow> i64" where
  "inner_id A r = try_or (dr_long A r 0) (- 1)"

text \<open>\<open>names\<close> are the names of the other types, \<open>rows\<close> the rows of the pointer table.\<close>

inductive pointer_type :: "'r db_api \<Rightarrow> (i64, string) umap \<Rightarrow> 'r list \<Rightarrow> nat \<Rightarrow> i64 \<Rightarrow> string \<Rightarrow> bool"
  for A names rows where
  to_void: "r \<in> set rows \<Longrightarrow> inner_id A r <s 0 \<Longrightarrow> pointer_type A names rows 1 (dr_key A r) ''void *''"
| to_named: "r \<in> set rows \<Longrightarrow> \<not> inner_id A r <s 0 \<Longrightarrow> find_or names (inner_id A r) [] = n \<Longrightarrow> n \<noteq> [] \<Longrightarrow>
    pointer_type A names rows 1 (dr_key A r) (n @ '' *'')"
| to_pointer: "r \<in> set rows \<Longrightarrow> \<not> inner_id A r <s 0 \<Longrightarrow> pointer_type A names rows d (inner_id A r) n \<Longrightarrow>
    pointer_type A names rows (Suc d) (dr_key A r) (n @ '' *'')"

lemma pointer_type_nonempty: "pointer_type A names rows d k n \<Longrightarrow> n \<noteq> [] \<and> k \<in> dr_key A ` set rows \<and> 0 < d"
  by (induction rule: pointer_type.induct) auto

text \<open>A table whose keys are its own: the ids of pointer types name no other type and do not repeat.\<close>

definition own_keys :: "'r db_api \<Rightarrow> (i64, string) umap \<Rightarrow> 'r list \<Rightarrow> bool" where
  "own_keys A names rows \<longleftrightarrow> distinct (map (dr_key A) rows) \<and> (\<forall>r \<in> set rows. \<not> has_key names (dr_key A r))"

lemma own_keys_row: "own_keys A names rows \<Longrightarrow> r \<in> set rows \<Longrightarrow> s \<in> set rows \<Longrightarrow> dr_key A r = dr_key A s \<Longrightarrow> r = s"
  by (auto simp: own_keys_def distinct_map dest: inj_onD)

lemma own_keys_other: "own_keys A names rows \<Longrightarrow> r \<in> set rows \<Longrightarrow> find_or names (dr_key A r) [] = []"
  by (simp add: own_keys_def has_key_def find_or_def)

lemma pointer_type_unique:
  assumes "own_keys A names rows" and "pointer_type A names rows d k n"
  shows "pointer_type A names rows d' k n' \<Longrightarrow> n' = n \<and> d' = d"
  using assms(2)
proof (induction arbitrary: n' d' rule: pointer_type.induct)
  case (to_void r)
  from to_void(3,1,2) show ?case
    by (cases rule: pointer_type.cases) (auto dest: own_keys_row [OF assms(1)])
next
  case (to_named r n)
  from to_named(5) show ?case
  proof (cases rule: pointer_type.cases)
    case (to_pointer s d m)
    then have "s = r" using own_keys_row [OF assms(1)] to_named(1) by metis
    then have "inner_id A r \<in> dr_key A ` set rows" using pointer_type_nonempty to_pointer(6) by metis
    then show ?thesis using own_keys_other [OF assms(1)] to_named(3,4) by fastforce
  next
    case (to_void s)
    then have "s = r" using own_keys_row [OF assms(1)] to_named(1) by metis
    with to_void to_named(2) show ?thesis by simp
  next
    case (to_named s m)
    then have "s = r" using own_keys_row [OF assms(1)] \<open>r \<in> set rows\<close> by metis
    with to_named \<open>find_or names (inner_id A r) [] = n\<close> show ?thesis by simp
  qed
next
  case (to_pointer r d n)
  from to_pointer(5) show ?case
  proof (cases rule: pointer_type.cases)
    case (to_named s m)
    then have "s = r" using own_keys_row [OF assms(1)] to_pointer(1) by metis
    moreover have "inner_id A r \<in> dr_key A ` set rows" using pointer_type_nonempty to_pointer(3) by metis
    ultimately show ?thesis using own_keys_other [OF assms(1)] to_named by fastforce
  next
    case (to_pointer s e m)
    then have "s = r" using own_keys_row [OF assms(1)] \<open>r \<in> set rows\<close> by metis
    then show ?thesis using to_pointer \<open>\<And>n' d'. pointer_type A names rows d' (inner_id A r) n' \<Longrightarrow> n' = n \<and> d' = d\<close> by blast
  next
    case (to_void s)
    then have "s = r" using own_keys_row [OF assms(1)] to_pointer(1) by metis
    with to_void to_pointer(2) show ?thesis by simp
  qed
qed

section \<open>Passes\<close>

text \<open>Between the passes the map holds the names of the other types and right names of pointers.\<close>

definition pointer_map :: "'r db_api \<Rightarrow> (i64, string) umap \<Rightarrow> 'r list \<Rightarrow> (i64, string) umap \<Rightarrow> bool" where
  "pointer_map A names rows m \<longleftrightarrow>
     (\<forall>k. k \<notin> dr_key A ` set rows \<longrightarrow> map_of m k = map_of names k) \<and>
     (\<forall>k \<in> dr_key A ` set rows. \<forall>n. map_of m k = Some n \<longrightarrow> (\<exists>d. pointer_type A names rows d k n))"

definition resolved :: "'r db_api \<Rightarrow> (i64, string) umap \<Rightarrow> 'r list \<Rightarrow> nat \<Rightarrow> (i64, string) umap \<Rightarrow> bool" where
  "resolved A names rows i m \<longleftrightarrow> (\<forall>d k n. d \<le> i \<longrightarrow> pointer_type A names rows d k n \<longrightarrow> map_of m k = Some n)"

lemma pointer_name_keeps: "map_of m k = Some n \<Longrightarrow> map_of (pointer_name A r m) k = Some n"
  by (auto simp: pointer_name_def has_key_def umap_simps Let_def)

lemma pointer_pass_keeps: "map_of m k = Some n \<Longrightarrow> map_of (fold (pointer_name A) rs m) k = Some n"
  by (induction rs arbitrary: m) (simp_all add: pointer_name_keeps)

lemma pointer_name_map:
  assumes "own_keys A names rows" and "r \<in> set rows" and "pointer_map A names rows m"
  shows "pointer_map A names rows (pointer_name A r m)"
proof -
  let ?i = "inner_id A r" and ?n = "if inner_id A r <s 0 then ''void'' else find_or m (inner_id A r) []"
  show ?thesis
  proof (cases "has_key m (dr_key A r) \<or> ?n = []")
    case True
    then have "pointer_name A r m = m" by (auto simp: pointer_name_def inner_id_def [symmetric] Let_def)
    with assms(3) show ?thesis by simp
  next
    case False
    then have "pointer_name A r m = AList.update (dr_key A r) (?n @ '' *'') m"
      by (auto simp: pointer_name_def inner_id_def [symmetric] Let_def)
    moreover have "\<exists>d. pointer_type A names rows d (dr_key A r) (?n @ '' *'')"
    proof (cases "?i <s 0")
      case True
      then show ?thesis using pointer_type.to_void [OF assms(2)] by auto
    next
      case pos: False
      show ?thesis
      proof (cases "?i \<in> dr_key A ` set rows")
        case True
        then obtain d where "pointer_type A names rows d ?i (find_or m ?i [])"
          using assms(3) False pos by (force simp: pointer_map_def find_or_def split: option.splits)
        then show ?thesis using pointer_type.to_pointer [OF assms(2) pos] pos by auto
      next
        case other: False
        then have "find_or m ?i [] = find_or names ?i []" using assms(3) by (simp add: pointer_map_def find_or_def)
        then show ?thesis using pointer_type.to_named [OF assms(2) pos] pos False by fastforce
      qed
    qed
    ultimately show ?thesis using assms(2,3) by (auto simp: pointer_map_def umap_simps)
  qed
qed

lemma pointer_pass_map:
  "own_keys A names rows \<Longrightarrow> set rs \<subseteq> set rows \<Longrightarrow> pointer_map A names rows m \<Longrightarrow> pointer_map A names rows (fold (pointer_name A) rs m)"
  by (induction rs arbitrary: m) (simp_all add: pointer_name_map)

lemma pointer_row_resolves:
  assumes own: "own_keys A names rows" and "pointer_map A names rows m" and "resolved A names rows i m"
    and "r \<in> set rows" and p: "pointer_type A names rows (Suc i) (dr_key A r) n"
  shows "map_of (pointer_name A r m) (dr_key A r) = Some n"
proof (cases "has_key m (dr_key A r)")
  case True
  then obtain n' where n': "map_of m (dr_key A r) = Some n'" by (auto simp: has_key_def)
  then obtain d where "pointer_type A names rows d (dr_key A r) n'" using assms(2,4) unfolding pointer_map_def by blast
  then have "n' = n" using pointer_type_unique [OF own p] by blast
  with n' show ?thesis by (simp add: pointer_name_keeps)
next
  case False
  define inner where "inner = (if inner_id A r <s 0 then ''void'' else find_or m (inner_id A r) [])"
  have "inner \<noteq> [] \<and> n = inner @ '' *''"
    using p
  proof (cases rule: pointer_type.cases)
    case (to_void s)
    then have "s = r" using own_keys_row [OF own] assms(4) by metis
    with to_void show ?thesis by (simp add: inner_def)
  next
    case (to_named s b)
    then have [simp]: "s = r" using own_keys_row [OF own] assms(4) by metis
    then have "inner_id A r \<notin> dr_key A ` set rows" using own_keys_other [OF own] to_named by fastforce
    then have "find_or m (inner_id A r) [] = b" using assms(2) to_named by (simp add: pointer_map_def find_or_def)
    with to_named show ?thesis by (simp add: inner_def)
  next
    case (to_pointer s b)
    then have [simp]: "s = r" using own_keys_row [OF own] assms(4) by metis
    then have "map_of m (inner_id A r) = Some b" using assms(3) to_pointer unfolding resolved_def by blast
    with to_pointer pointer_type_nonempty show ?thesis by (fastforce simp: inner_def find_or_def)
  qed
  with False show ?thesis by (simp add: pointer_name_def inner_id_def [symmetric] inner_def [symmetric] umap_simps Let_def)
qed

lemma pointer_pass_resolves:
  assumes own: "own_keys A names rows" and "pointer_map A names rows m" and res: "resolved A names rows i m"
  shows "resolved A names rows (Suc i) (fold (pointer_name A) rows m)"
  unfolding resolved_def
proof (intro allI impI)
  fix d k n
  assume d: "d \<le> Suc i" and p: "pointer_type A names rows d k n"
  show "map_of (fold (pointer_name A) rows m) k = Some n"
  proof (cases "d \<le> i")
    case True
    then show ?thesis using res p by (simp add: resolved_def pointer_pass_keeps)
  next
    case False
    then have [simp]: "d = Suc i" using d by simp
    obtain r where r: "r \<in> set rows" "k = dr_key A r" using pointer_type_nonempty [OF p] by blast
    then obtain as bs where rows: "rows = as @ r # bs" by (meson split_list)
    let ?m = "fold (pointer_name A) as m"
    have "pointer_map A names rows ?m" by (rule pointer_pass_map [OF own _ assms(2)]) (auto simp: rows)
    moreover have "resolved A names rows i ?m" using res by (simp add: resolved_def pointer_pass_keeps)
    ultimately have "map_of (pointer_name A r ?m) k = Some n" using pointer_row_resolves [OF own _ _ r(1)] p r(2) by simp
    then show ?thesis by (simp add: rows pointer_pass_keeps)
  qed
qed

section \<open>The map of the exporter\<close>

text \<open>The names the map holds before the pointer table is read\<close>

definition base_names :: "'r db_api \<Rightarrow> 'r database \<Rightarrow> (i64, string) umap" where
  "base_names A db =
     fold (\<lambda>r. put_name (dr_key A r) (builtin_name A r)) (builtin_rows db)
       (named_rows A 2 (table_rows db ''Typedefs'')
         (named_rows A 0 (table_rows db ''Enumeration Data Types'')
           (named_rows A 0 (table_rows db ''Composite Data Types'') [])))"

lemma array_names_keep:
  "k \<notin> dr_key A ` set rs \<Longrightarrow> map_of (fold (array_name A) rs m) k = map_of m k"
  by (induction rs arbitrary: m) (auto simp: array_name_def umap_simps Let_def)

lemma pointer_names:
  assumes own: "own_keys A (base_names A db) (table_rows db ''Pointer Data Types'')"
    and other: "dr_key A ` set (table_rows db ''Pointer Data Types'') \<inter> dr_key A ` set (table_rows db ''Array Data Types'') = {}"
  shows "pointer_type A (base_names A db) (table_rows db ''Pointer Data Types'') d k n \<Longrightarrow> d \<le> 2 \<Longrightarrow>
      map_of (buildTypeNameMap A db) k = Some n"
    and "k \<in> dr_key A ` set (table_rows db ''Pointer Data Types'') \<Longrightarrow> map_of (buildTypeNameMap A db) k = Some n \<Longrightarrow>
      \<exists>d. pointer_type A (base_names A db) (table_rows db ''Pointer Data Types'') d k n"
proof -
  let ?rows = "table_rows db ''Pointer Data Types''" and ?b = "base_names A db"
  let ?m1 = "fold (pointer_name A) ?rows ?b" let ?m2 = "fold (pointer_name A) ?rows ?m1"
  have m0: "pointer_map A ?b ?rows ?b" "resolved A ?b ?rows 0 ?b"
    using own pointer_type_nonempty by (fastforce simp: pointer_map_def own_keys_def has_key_def resolved_def)+
  have m1: "pointer_map A ?b ?rows ?m1" "resolved A ?b ?rows 1 ?m1"
    using pointer_pass_map [OF own _ m0(1)] pointer_pass_resolves [OF own m0] by simp_all
  have m2: "pointer_map A ?b ?rows ?m2" "resolved A ?b ?rows 2 ?m2"
    using pointer_pass_map [OF own _ m1(1)] pointer_pass_resolves [OF own m1] by (simp_all add: numeral_2_eq_2)
  have same: "map_of (buildTypeNameMap A db) k = map_of ?m2 k" if "k \<in> dr_key A ` set ?rows" for k
    using array_names_keep [of k A "table_rows db ''Array Data Types''" ?m2] other that
    by (auto simp: buildTypeNameMap_def base_names_def Let_def)
  show "pointer_type A ?b ?rows d k n \<Longrightarrow> d \<le> 2 \<Longrightarrow> map_of (buildTypeNameMap A db) k = Some n"
    using m2(2) same pointer_type_nonempty unfolding resolved_def by metis
  show "k \<in> dr_key A ` set ?rows \<Longrightarrow> map_of (buildTypeNameMap A db) k = Some n \<Longrightarrow> \<exists>d. pointer_type A ?b ?rows d k n"
    using m2(1) same unfolding pointer_map_def by metis
qed

end
