(* ===== verification/Export_Props.thy ===== *)
theory Export_Props
  imports Rpc_Props Db_Read_Props Pointer_Names
begin

text \<open>
  What the export means for the plugin: how encoded addresses become virtual addresses, which addresses never arrive,
  how far pointer types are named, and the whole way from the tables of a database over the wire to the
  structures \<open>openDatabase\<close> returns.
\<close>

unbundle bit_operations_syntax

section \<open>Encoded addresses\<close>

lemma bit_unat: "bit w m \<longleftrightarrow> odd (unat w div 2 ^ m)" for w :: "'a :: len word"
  using bit_unsigned_iff [of w m, where 'a = nat] by (simp add: bit_iff_odd)

lemma bit_below: "unat x < 2 ^ n \<Longrightarrow> bit x m \<Longrightarrow> m < n" for x :: "'a :: len word"
proof (rule ccontr)
  assume "unat x < 2 ^ n" and b: "bit x m" and "\<not> m < n"
  then have "unat x < 2 ^ m" using power_increasing [of n m "2 :: nat"] by linarith
  with b show False by (simp add: bit_unat)
qed

lemma packed_word:
  fixes s off :: i64
  assumes "unat s < 2 ^ (63 - n)" and "unat off < 2 ^ n" and "n < 64"
  shows "signed_drop_bit n (push_bit n s OR off) = s" and "(push_bit n s OR off) AND mask n = off"
proof -
  have top: "\<not> bit off 63" "\<not> bit s (63 - n)"
    using bit_below [OF assms(1)] bit_below [OF assms(2), of 63] assms(3) by fastforce+
  show "signed_drop_bit n (push_bit n s OR off) = s"
  proof (rule bit_eqI)
    fix m :: nat
    assume "possible_bit TYPE(64 word) m"
    have low: "bit s m \<Longrightarrow> m < 63 - n" "\<not> bit off (n + m)"
      using bit_below [OF assms(1), of m] bit_below [OF assms(2), of "n + m"] by auto
    show "bit (signed_drop_bit n (push_bit n s OR off)) m = bit s m"
    proof (cases "64 - n \<le> m \<and> m < 64")
      case True
      then have "\<not> bit s m" using low(1) by auto
      with True top assms(3) show ?thesis by (simp add: bit_simps)
    next
      case False
      moreover have "n + m < 64" if "bit s m" using low(1) [OF that] by simp
      ultimately show ?thesis using low(2) by (auto simp: bit_simps)
    qed
  qed
  show "(push_bit n s OR off) AND mask n = off"
    by (rule bit_eqI) (use bit_below [OF assms(2)] in \<open>auto simp: bit_simps\<close>)
qed

text \<open>An address of the segment \<open>k\<close> of a space, as the class comment lays it out\<close>

definition encode :: "i64 \<Rightarrow> i64 \<Rightarrow> i64 \<Rightarrow> i64" where
  "encode space k off = push_bit 32 (push_bit 8 space OR k) OR off"

lemma unat_packed: "unat space < 2 ^ 23 \<Longrightarrow> unat k < 2 ^ 8 \<Longrightarrow> unat (push_bit 8 space OR k :: i64) < 2 ^ 31"
proof (rule ccontr)
  assume s: "unat space < 2 ^ 23" and k: "unat k < 2 ^ 8" and "\<not> unat (push_bit 8 space OR k) < 2 ^ 31"
  moreover have "take_bit 31 (push_bit 8 space OR k) = push_bit 8 space OR k"
    using bit_below [OF s] bit_below [OF k] by (intro bit_eqI) (fastforce simp: bit_simps)
  then have "take_bit 31 (unat (push_bit 8 space OR k)) = unat (push_bit 8 space OR k)"
    by (metis unsigned_take_bit_eq)
  ultimately show False by (simp add: take_bit_nat_eq_self_iff)
qed

lemma decode_encode:
  assumes "unat space < 2 ^ 23" and "unat k < 2 ^ 8" and "unat off < 2 ^ 32"
    and "addrMap \<noteq> []" and "\<And>key. has_key addrMap key \<Longrightarrow> unat key < 2 ^ 8" and "space \<noteq> 0"
  shows "decode addrMap (encode space k off) =
    (if space = 0x200000 then (case map_of addrMap k of Some base \<Rightarrow> base + off | None \<Rightarrow> - 1) else - 1)"
proof -
  let ?seg = "push_bit 8 space OR k"
  have outer: "signed_drop_bit 32 (encode space k off) = ?seg" "encode space k off AND 0xFFFFFFFF = off"
    using packed_word [of ?seg 32 off] unat_packed [OF assms(1,2)] assms(3) unfolding encode_def
    by (simp_all add: mask_eq_exp_minus_1)
  have inner: "signed_drop_bit 8 ?seg = space" "?seg AND 0xFF = k"
    using packed_word [of space 8 k] assms(1,2) by (simp_all add: mask_eq_exp_minus_1)
  have "map_of addrMap ?seg = None"
  proof (rule ccontr)
    assume "map_of addrMap ?seg \<noteq> None"
    then have small: "unat ?seg < 2 ^ 8" by (intro assms(5)) (simp add: has_key_def)
    have "space = 0"
    proof (rule bit_eqI)
      fix n :: nat
      show "bit space n = bit 0 n"
        using bit_below [OF small, of "n + 8"] bit_below [OF assms(1), of n] by (auto simp: bit_simps)
    qed
    with assms(6) show False ..
  qed
  then show ?thesis using assms(4) unfolding decode_def outer inner Let_def by (simp split: option.split)
qed

text \<open>With rows keyed by the whole segment key, the key of a row is never one of the 256 segment indices.\<close>

lemma decode_encode_direct:
  assumes "unat space < 2 ^ 23" and "unat k < 2 ^ 8" and "unat off < 2 ^ 32"
    and "addrMap \<noteq> []" and "\<And>key. has_key addrMap key \<Longrightarrow> 2 ^ 8 \<le> unat key"
  shows "decode addrMap (encode space k off) = (case map_of addrMap (push_bit 8 space OR k) of Some base \<Rightarrow> base + off | None \<Rightarrow> - 1)"
proof -
  let ?seg = "push_bit 8 space OR k"
  have outer: "signed_drop_bit 32 (encode space k off) = ?seg" "encode space k off AND 0xFFFFFFFF = off"
    using packed_word [of ?seg 32 off] unat_packed [OF assms(1,2)] assms(3) unfolding encode_def
    by (simp_all add: mask_eq_exp_minus_1)
  have inner: "?seg AND 0xFF = k" using packed_word [of space 8 k] assms(1,2) by (simp add: mask_eq_exp_minus_1)
  have "map_of addrMap k = None" using assms(5) [of k] assms(2) by (cases "map_of addrMap k") (simp_all add: has_key_def)
  then show ?thesis using assms(4) unfolding decode_def outer inner Let_def by (simp split: option.split)
qed

section \<open>Addresses that do not arrive\<close>

lemma negative_high: "w <s 0 \<longleftrightarrow> 2 ^ 63 \<le> unat w" for w :: i64
proof -
  have "w <s 0 \<longleftrightarrow> bit w 63" using bit_last_iff [of w] by (simp add: word_sless_alt)
  also have "\<dots> \<longleftrightarrow> 2 ^ 63 \<le> unat w"
  proof
    assume "bit w 63"
    then show "2 ^ 63 \<le> unat w" using bit_below [of w 63 63] by (metis less_irrefl not_le)
  next
    assume "2 ^ 63 \<le> unat w"
    moreover have "unat w < 2 ^ 64" by (rule unat_u64_bound)
    ultimately have "unat w div 2 ^ 63 = 1" by (simp add: div_nat_eqI)
    then show "bit w 63" by (simp add: bit_unat)
  qed
  finally show ?thesis .
qed

definition high_bases :: "(i64, i64) umap \<Rightarrow> bool" where
  "high_bases addrMap \<longleftrightarrow> addrMap \<noteq> [] \<and> (\<forall>(k, base) \<in> set addrMap. 2 ^ 63 \<le> unat base \<and> unat base \<le> 2 ^ 64 - 2 ^ 32)"

lemma decode_high:
  assumes "high_bases addrMap"
  shows "decode addrMap encoded <s 0"
proof -
  let ?off = "encoded AND 0xFFFFFFFF"
  have "?off = take_bit 32 encoded" by (simp add: take_bit_eq_mask mask_eq_exp_minus_1)
  then have off: "unat ?off < 2 ^ 32" by (metis unsigned_take_bit_eq take_bit_nat_less_exp)
  have sum: "base + ?off <s 0" if "map_of addrMap k = Some base" for k base
  proof -
    have b: "2 ^ 63 \<le> unat base" "unat base \<le> 2 ^ 64 - 2 ^ 32" using assms that by (auto simp: high_bases_def dest!: map_of_SomeD)
    then have "unat base + unat ?off < 2 ^ 64" using off by simp
    then have "unat (base + ?off) = unat base + unat ?off" by (simp add: unat_word_ariths(1))
    with b show ?thesis unfolding negative_high by linarith
  qed
  have "(- 1 :: i64) <s 0" by simp
  with sum assms show ?thesis by (auto simp: decode_def Let_def high_bases_def split: option.split)
qed

lemma skipped_rows: "(\<And>r. f r = None) \<Longrightarrow> List.map_filter f rs = []"
  by (induction rs) (simp_all add: List.map_filter_simps)

lemma read_high:
  assumes "high_bases (buildAddressMap A db)" and X: "X = read_database A db program"
  shows "ex_symbols X = []" "ex_comments X = []" "ex_equates X = []" "ex_bookmarks X = []" "ex_parameters X = []" "ex_dataItems X = []"
proof -
  have low: "\<not> 0 <=s decode (buildAddressMap A db) e" for e
    using decode_high [OF assms(1)] by (simp add: not_signed_less [symmetric])
  show "ex_symbols X = []" "ex_comments X = []" "ex_equates X = []" "ex_parameters X = []" "ex_dataItems X = []"
    unfolding X read_database_def Let_def GhidraDbExport.simps
    by (intro skipped_rows, simp add: read_symbol_def read_comment_def read_equate_def read_equate_ref_def read_parameter_def
        read_data_item_def low skipped_rows Let_def)+
  show "ex_bookmarks X = []"
    by (simp add: X read_database_def read_bookmarks_def read_bookmark_def low skipped_rows Let_def split: option.split)
qed

text \<open>
  The addresses of the symbols, comments, equate references, bookmarks, parameters and data items of an export. Its memory
  blocks and image base, which are not decoded from the tables' encoded addresses alone, are not among them.
\<close>

definition item_addresses :: "GhidraDbExport \<Rightarrow> u64 set" where
  "item_addresses X =
     sym_addr ` set (ex_symbols X) \<union> cm_addr ` set (ex_comments X) \<union> (\<Union>e \<in> set (ex_equates X). er_addr ` set (eq_refs e)) \<union>
     bm_addr ` set (ex_bookmarks X) \<union> pa_funcAddr ` set (ex_parameters X) \<union> di_addr ` set (ex_dataItems X)"

definition decodes_to :: "(i64, i64) umap \<Rightarrow> i64 \<Rightarrow> bool" where
  "decodes_to m a \<longleftrightarrow> (\<exists>e. a = decode m e) \<and> unat a < 2 ^ 63"

lemma decodes_toI: "0 <=s decode m e \<Longrightarrow> decodes_to m (decode m e)"
  using not_signed_less [of "decode m e" 0] negative_high [of "decode m e"] by (auto simp: decodes_to_def not_le)

lemma read_addresses: "a \<in> item_addresses (read_database A db program) \<Longrightarrow> decodes_to (buildAddressMap A db) a"
  by (auto simp: item_addresses_def read_database_def in_map_filter read_symbol_def read_comment_def read_equate_def
      read_equate_ref_def read_parameter_def read_data_item_def read_bookmarks_def read_bookmark_def Let_def
      intro!: decodes_toI split: if_splits option.splits)

lemma read_database_fields:
  "ex_symbols (read_database A db program) = List.map_filter (read_symbol A (buildAddressMap A db)) (table_rows db ''Symbols'')"
  "ex_parameters (read_database A db program) =
     List.map_filter (read_parameter A (buildAddressMap A db) (buildTypeNameMap A db)) (table_rows db ''Symbols'')"
  "ex_dataTypes (read_database A db program) = read_data_types A db"
  by (simp_all add: read_database_def Let_def)

lemma read_database_diag: "(read_database A db program)\<lparr>ex_memoryBlocks := [], ex_diag := []\<rparr> = (read_database A db program)\<lparr>ex_memoryBlocks := []\<rparr>"
  by (simp add: read_database_def Let_def)

section \<open>A database for the witnesses\<close>

text \<open>Records of typed fields, whose accessors throw on another type and outside the record\<close>

datatype cell = CLong i64 | CInt i32 | CByte i8 | CString "string option"

type_synonym cells = "i64 \<times> cell list"

definition cell_at :: "(cell \<Rightarrow> 'a result) \<Rightarrow> cells \<Rightarrow> nat \<Rightarrow> 'a result" where
  "cell_at get r c = (if c < length (snd r) then get (snd r ! c) else Inl ''Index out of bounds'')"

definition wrong_field :: "'a result" where
  "wrong_field = Inl ''IllegalFieldAccessException''"

definition cell_api :: "cells db_api" where
  "cell_api =
     \<lparr>dr_key = fst, dr_long = cell_at (\<lambda>f. case f of CLong v \<Rightarrow> Inr v | _ \<Rightarrow> wrong_field),
      dr_int = cell_at (\<lambda>f. case f of CInt v \<Rightarrow> Inr v | _ \<Rightarrow> wrong_field), dr_short = cell_at (\<lambda>_. wrong_field),
      dr_byte = cell_at (\<lambda>f. case f of CByte v \<Rightarrow> Inr v | _ \<Rightarrow> wrong_field), dr_boolean = cell_at (\<lambda>_. wrong_field),
      dr_string = cell_at (\<lambda>f. case f of CString v \<Rightarrow> Inr v | _ \<Rightarrow> wrong_field), dr_binary = cell_at (\<lambda>_. wrong_field)\<rparr>"

definition cell_table :: "cells list \<Rightarrow> cells db_table" where
  "cell_table rows = \<lparr>tb_rows = rows, tb_error = None, tb_count = of_nat (length rows), tb_stringField = (\<lambda>_. Inr False)\<rparr>"

definition cell_db :: "(string \<times> cells list) list \<Rightarrow> cells database" where
  "cell_db tables = (\<lambda>name. map_option cell_table (map_of tables name))"

definition symbol_cells :: "i64 \<Rightarrow> string \<Rightarrow> i64 \<Rightarrow> i8 \<Rightarrow> cells" where
  "symbol_cells key name addr type =
     (key, [CString (Some name), CLong addr, CLong 0, CByte type, CByte 0, CLong 0, CLong 0, CLong 3, CLong 0])"

text \<open>
  A program at \<open>base\<close>: a function with a parameter, an import of another space, a comment, a bookmark, an equate with one
  reference and a structure with two members in the reverse order
\<close>

definition sample_tables :: "i64 \<Rightarrow> (string \<times> cells list) list" where
  "sample_tables base =
     [(''ADDRESS MAP'', [(0, [CInt 0, CLong base])]),
      (''Symbols'', [symbol_cells 1 ''main'' 0x2000000000000010 5, symbol_cells 2 ''argc'' 0x2000000000000010 6,
                     symbol_cells 3 ''puts'' 0x5000000000000001 8]),
      (''Comments'', [(0x2000000000000014, [CString None, CString (Some ''pre''), CString None, CString None, CString None])]),
      (''Equates'', [(7, [CString (Some ''FLAG''), CLong 1])]),
      (''Equate References'', [(0, [CLong 7, CLong 0x2000000000000018, CInt 1])]),
      (''Bookmark Types'', [(0, [CString (Some ''Note'')])]),
      (''Bookmarks0'', [(0, [CLong 0x200000000000001C, CString (Some ''todo''), CString None])]),
      (''Built-in datatypes'', [(3, [CString (Some ''int'')])]),
      (''Pointer Data Types'', [(12, [CLong 11]), (11, [CLong 10]), (10, [CLong 3])]),
      (''Composite Data Types'', [(20, [CString (Some ''pair''), CString None, CByte 0, CLong 0, CInt 8])]),
      (''Component Data Types'', [(0, [CLong 20, CInt 4, CLong 3, CString (Some ''b''), CString None, CInt 4, CInt 1]),
                                  (1, [CLong 20, CInt 0, CLong 3, CString (Some ''a''), CString None, CInt 4, CInt 0])])]"

definition sample_block :: program_block where
  "sample_block = \<lparr>pb_name = ''.text'', pb_start = 0x400000, pb_size = 0x1000, pb_read = True, pb_write = False, pb_execute = True,
     pb_initialized = True, pb_overlay = False, pb_default = True\<rparr>"

definition sample_program :: ghidra_program where
  "sample_program = \<lparr>gp_minAddress = Some 0x400000, gp_blocks = [sample_block]\<rparr>"

definition sample_db :: "i64 \<Rightarrow> cells database" where
  "sample_db base = cell_db (sample_tables base)"

lemmas cell_simps = cell_api_def cell_at_def wrong_field_def cell_table_def cell_db_def symbol_cells_def sample_tables_def sample_db_def

lemma sample_rows:
  "table_rows (sample_db base) ''Symbols'' = [symbol_cells 1 ''main'' 0x2000000000000010 5, symbol_cells 2 ''argc'' 0x2000000000000010 6,
     symbol_cells 3 ''puts'' 0x5000000000000001 8]"
  "table_rows (sample_db base) ''Composite Data Types'' = [(20, [CString (Some ''pair''), CString None, CByte 0, CLong 0, CInt 8])]"
  "table_rows (sample_db base) ''Component Data Types'' =
     [(0, [CLong 20, CInt 4, CLong 3, CString (Some ''b''), CString None, CInt 4, CInt 1]),
      (1, [CLong 20, CInt 0, CLong 3, CString (Some ''a''), CString None, CInt 4, CInt 0])]"
  "table_rows (sample_db base) ''Enumeration Data Types'' = []" "table_rows (sample_db base) ''Typedefs'' = []"
  "table_rows (sample_db base) ''Pointer Data Types'' = [(12, [CLong 11]), (11, [CLong 10]), (10, [CLong 3])]"
  "table_rows (sample_db base) ''Array Data Types'' = []"
  by (simp_all add: table_rows_def cell_table_def cell_db_def sample_tables_def sample_db_def)

lemma sample_schema: "schema_ok cell_api (sample_db base)"
  by (simp add: schema_ok_def schema_def rows_ok_def bookmark_table_def table_rows_def op_index_def is_union_def
      to_string_i64_def dec_int_def dec_digits.simps hex_char_def cell_simps)

lemma sample_map: "buildAddressMap cell_api (sample_db base) = [(0, base)]"
  by (simp add: buildAddressMap_def readBaseVA_def table_rows_def try_or_def cell_simps)

lemma cell_reads:
  "dr_key cell_api = fst" "dr_long cell_api = cell_at (\<lambda>f. case f of CLong v \<Rightarrow> Inr v | _ \<Rightarrow> wrong_field)"
  "dr_int cell_api = cell_at (\<lambda>f. case f of CInt v \<Rightarrow> Inr v | _ \<Rightarrow> wrong_field)"
  "dr_byte cell_api = cell_at (\<lambda>f. case f of CByte v \<Rightarrow> Inr v | _ \<Rightarrow> wrong_field)"
  "dr_string cell_api = cell_at (\<lambda>f. case f of CString v \<Rightarrow> Inr v | _ \<Rightarrow> wrong_field)"
  "dr_boolean cell_api = cell_at (\<lambda>_. wrong_field)"
  by (simp_all add: cell_api_def)

lemmas row_simps = sample_rows cell_reads cell_at_def wrong_field_def symbol_cells_def long_of_def int_of_def byte_of_def string_of_def emptyIfNull_def try_or_def find_or_def
  List.map_filter_simps Let_def

text \<open>The pointer to the pointer to the pointer comes first in its table: two passes do not name it.\<close>

lemma sample_type_names: "buildTypeNameMap cell_api (sample_db 0x400000) = [(20, ''pair''), (3, ''int''), (10, ''int *''), (11, ''int * *'')]"
  and sample_base_names: "base_names cell_api (sample_db 0x400000) = [(20, ''pair''), (3, ''int'')]"
  by code_simp+

section \<open>Properties\<close>

text \<open>
  C22: opening a database returns what its tables say. Over the wire, for a database of the expected schema, \<open>openDatabase\<close>
  gives exactly the structures computed from the rows: every symbol, comment, function, bookmark, parameter and data item
  that decodes to an address, in the order of its table, every equate with its references and every composite with its
  members by ordinal. Only the memory blocks are missing: the bridge's handler does not copy them into its response,
  although the exporter writes them and the plugin reads them. If the repository cannot be opened, or the exporter throws
  on some table, the result is the text of that exception.
\<close>

theorem database_over_wire:
  assumes "bridge_link J G eol sock cb C" and "list_all (\<lambda>e. jl_contains J e ''event'') before"
    and "fits J C (item_request J ''open_db'' (item_args J repo folder item @ [(''version'', jl_int J version)]))"
    and "gr_export R w repo folder item version = db_export G A db program"
    and "opened = openDatabase J (over_wire J G R files eol sock before after cb C (S, w)) repo folder item version"
  shows "(fst (session_openRepo R repo w S) = Inr () \<and> schema_ok A db \<longrightarrow>
       opened = Inr ((read_database A db program)\<lparr>ex_memoryBlocks := []\<rparr>)) \<and>
     (\<forall>e. fst (session_openRepo R repo w S) = Inl e \<longrightarrow> opened = Inl e) \<and>
     (\<forall>e. fst (session_openRepo R repo w S) = Inr () \<and> db_export G A db program = Inl e \<longrightarrow> opened = Inl e)"
proof (intro conjI impI allI)
  assume ok: "fst (session_openRepo R repo w S) = Inr () \<and> schema_ok A db"
  have link: "json_interop J G" using assms(1) by (simp add: bridge_link_def)
  obtain s where s: "db_export G A db program = Inr s" "jl_is_object J s"
    "jl_at J s ''image_base'' = Inr (jl_string J (addrHex (image_base (buildAddressMap A db) program)))"
    "parseDbExportJson J s = Inr (read_database A db program)"
    by (rule json_interop.export_read [OF link conjunct2 [OF ok]])
  have "session_openRepo R repo w S = (Inr (), snd (session_openRepo R repo w S))" using ok by (simp add: prod_eq_iff)
  from bridge_link.open_db_wire [OF assms(1,3,2) this _ s(2) _ s(4), of files after] s(1,3) assms(4) read_database_diag
  show "opened = Inr ((read_database A db program)\<lparr>ex_memoryBlocks := []\<rparr>)" unfolding assms(5) by metis
qed (auto simp: assms(4,5) intro!: bridge_link.open_db_fails [OF assms(1,3,2)])

definition table_remote :: "cells database \<Rightarrow> (jtree, CheckoutInfo list) ghidra_remote" where
  "table_remote db = sample_remote\<lparr>gr_export := (\<lambda>_ _ _ _ _. db_export text_gson cell_api db (Some sample_program))\<rparr>"

text \<open>The same with an iterator of the symbols that throws\<close>

definition torn_db :: "cells database" where
  "torn_db = (sample_db 0x400000)(''Symbols'' \<mapsto> (cell_table [])\<lparr>tb_error := Some ''corrupt''\<rparr>)"

theorem database_over_wire_witness:
  "\<exists>X. openDatabase text_json (over_wire text_json text_gson (table_remote (sample_db 0x400000)) no_files [newline] (\<lambda>k bytes. 1)
       [JObj [(''event'', JStr ''repo_changed'')]] [] ''cb'' ready_client (sample_bridge, [])) ''r'' ''/'' ''a.exe'' (- 1) = Inr X \<and>
     map (\<lambda>s. (sym_name s, sym_addr s)) (ex_symbols X) = [(''main'', 0x400010)] \<and>
     map (\<lambda>p. (pa_name p, pa_typeName p)) (ex_parameters X) = [(''argc'', ''int'')] \<and>
     map (\<lambda>t. map dm_name (dt_members t)) (ex_dataTypes X) = [[''a'', ''b'']] \<and> ex_memoryBlocks X = [] \<and>
   openDatabase text_json (over_wire text_json text_gson (table_remote torn_db) no_files [newline] (\<lambda>k bytes. 1)
       [JObj [(''event'', JStr ''repo_changed'')]] [] ''cb'' ready_client (sample_bridge, [])) ''r'' ''/'' ''a.exe'' (- 1) = Inl ''corrupt''"
proof -
  let ?X = "(read_database cell_api (sample_db 0x400000) (Some sample_program))\<lparr>ex_memoryBlocks := []\<rparr>"
  let ?open = "\<lambda>db. openDatabase text_json (over_wire text_json text_gson (table_remote db) no_files [newline] (\<lambda>k bytes. 1)
       [JObj [(''event'', JStr ''repo_changed'')]] [] ''cb'' ready_client (sample_bridge, [])) ''r'' ''/'' ''a.exe'' (- 1)"
  have f: "fits text_json ready_client (item_request text_json ''open_db''
      (item_args text_json ''r'' ''/'' ''a.exe'' @ [(''version'', jl_int text_json (- 1))]))" by code_simp
  have event: "list_all (\<lambda>e. jl_contains text_json e ''event'') [JObj [(''event'', JStr ''repo_changed'')]]"
    by (simp add: text_json_def tree_json_with_def)
  have export: "gr_export (table_remote db) [] ''r'' ''/'' ''a.exe'' (- 1) = db_export text_gson cell_api db (Some sample_program)" for db
    by (simp add: table_remote_def)
  have repo: "fst (session_openRepo (table_remote db) ''r'' [] sample_bridge) = Inr ()" for db
    by (simp add: session_openRepo_def sample_bridge_def has_key_def)
  have "db_export text_gson cell_api torn_db (Some sample_program) = Inl ''corrupt''"
    by (simp add: db_export_def exportSymbols_def collect_rows_def for_rows_def torn_db_def cell_table_def Let_def)
  then have "?open torn_db = Inl ''corrupt''"
    using database_over_wire [OF plain.bridge_link_axioms event f export refl] repo by blast
  moreover have "?open (sample_db 0x400000) = Inr ?X"
    using database_over_wire [OF plain.bridge_link_axioms event f export refl] repo sample_schema by blast
  moreover have "map (\<lambda>s. (sym_name s, sym_addr s)) (List.map_filter (read_symbol cell_api [(0, 0x400000)])
      (table_rows (sample_db 0x400000) ''Symbols'')) = [(''main'', 0x400010)]"
    by (simp add: read_symbol_def decode_def isExportedType_def word_sle_eq row_simps)
  moreover have "map (\<lambda>p. (pa_name p, pa_typeName p)) (List.map_filter (read_parameter cell_api [(0, 0x400000)]
      (buildTypeNameMap cell_api (sample_db 0x400000))) (table_rows (sample_db 0x400000) ''Symbols'')) = [(''argc'', ''int'')]"
    by (simp add: sample_type_names read_parameter_def type_name_of_def decode_def word_sle_eq word_sless_alt row_simps)
  moreover have "map (\<lambda>t. map dm_name (dt_members t)) (read_data_types cell_api (sample_db 0x400000)) = [[''a'', ''b'']]"
    by (simp add: read_data_types_def read_composite_def read_member_def is_union_def row_simps)
  ultimately show ?thesis by (intro exI [of _ ?X]) (simp add: read_database_fields sample_map)
qed

text \<open>
  C40: the symbols, comments, equate references, bookmarks, parameters and data items an import receives have decoded
  addresses below 2^63. The exporter takes a negative number for an address outside of memory, so every such row whose
  address has the top bit set is dropped: of a program whose segments all lie in the upper half of the address space, as a
  kernel image does, no symbol, comment, equate, bookmark, parameter or data item is in the export, while the export
  succeeds and has the function flags, the memory blocks and the image base as ever.
\<close>

theorem upper_half_lost:
  assumes "json_interop J G" and "schema_ok A db"
  shows "\<exists>s X. db_export G A db program = Inr s \<and> parseDbExportJson J s = Inr X \<and>
    (\<forall>a \<in> item_addresses X. (\<exists>e. a = decode (buildAddressMap A db) e) \<and> unat a < 2 ^ 63) \<and>
    (high_bases (buildAddressMap A db) \<longrightarrow>
       ex_symbols X = [] \<and> ex_comments X = [] \<and> ex_equates X = [] \<and> ex_bookmarks X = [] \<and> ex_parameters X = [] \<and> ex_dataItems X = []) \<and>
    ex_funcFlags X = map fst (read_functions A db) \<and>
    ex_memoryBlocks X = (case program of None \<Rightarrow> [] | Some p \<Rightarrow> map read_block (gp_blocks p)) \<and>
    ex_imageBase X = image_base (buildAddressMap A db) program"
proof -
  obtain s where "db_export G A db program = Inr s" "parseDbExportJson J s = Inr (read_database A db program)"
    by (rule json_interop.export_read [OF assms])
  moreover have "(\<exists>e. a = decode (buildAddressMap A db) e) \<and> unat a < 2 ^ 63"
    if "a \<in> item_addresses (read_database A db program)" for a
    using read_addresses [OF that] by (simp add: decodes_to_def)
  moreover have "ex_funcFlags (read_database A db program) = map fst (read_functions A db)"
    "ex_memoryBlocks (read_database A db program) = (case program of None \<Rightarrow> [] | Some p \<Rightarrow> map read_block (gp_blocks p))"
    "ex_imageBase (read_database A db program) = image_base (buildAddressMap A db) program"
    by (simp_all add: read_database_def Let_def)
  ultimately show ?thesis using read_high [OF _ refl, of A db program] by (intro exI [of _ s] exI [of _ "read_database A db program"]) blast
qed

theorem upper_half_lost_witness:
  "\<exists>s X. db_export text_gson cell_api (sample_db 0xFFFFFFFF00000000) None = Inr s \<and> parseDbExportJson text_json s = Inr X \<and>
     length (table_rows (sample_db 0xFFFFFFFF00000000) ''Symbols'') = 3 \<and> ex_symbols X = []"
proof -
  have "high_bases (buildAddressMap cell_api (sample_db 0xFFFFFFFF00000000))"
    by (simp add: sample_map high_bases_def)
  with upper_half_lost [OF texts.json_interop_axioms sample_schema, of "0xFFFFFFFF00000000" None]
  show ?thesis by (auto simp: sample_rows)
qed



text \<open>
  C39: pointer types are named from the inside out, whatever the order of their rows. Two passes over the table give
  every pointer of depth one or two to a named type or to void its name, with one star per level; and no pointer type
  ever has a wrong name. A deeper pointer is named only if its row follows those it points to.
\<close>

theorem pointer_names_any_order:
  assumes "own_keys A (base_names A db) (table_rows db ''Pointer Data Types'')"
    and "dr_key A ` set (table_rows db ''Pointer Data Types'') \<inter> dr_key A ` set (table_rows db ''Array Data Types'') = {}"
  shows "(pointer_type A (base_names A db) (table_rows db ''Pointer Data Types'') d k n \<and> d \<le> 2 \<longrightarrow>
      map_of (buildTypeNameMap A db) k = Some n) \<and>
    (k \<in> dr_key A ` set (table_rows db ''Pointer Data Types'') \<and> map_of (buildTypeNameMap A db) k = Some n \<longrightarrow>
      (\<exists>d. pointer_type A (base_names A db) (table_rows db ''Pointer Data Types'') d k n))"
  using pointer_names [OF assms] by blast

theorem pointer_names_any_order_witness:
  "map_of (buildTypeNameMap cell_api (sample_db 0x400000)) 11 = Some ''int * *'' \<and>
   map_of (buildTypeNameMap cell_api (sample_db 0x400000)) 12 = None"
proof -
  let ?rows = "table_rows (sample_db 0x400000) ''Pointer Data Types''" and ?b = "base_names cell_api (sample_db 0x400000)"
  have own: "own_keys cell_api ?b ?rows" by (simp add: own_keys_def sample_base_names row_simps has_key_def)
  have "pointer_type cell_api ?b ?rows 1 10 (''int'' @ '' *'')"
    using to_named [of "(10, [CLong 3])" ?rows cell_api ?b "''int''"]
    by (simp add: sample_base_names row_simps inner_id_def word_sless_alt)
  then have "pointer_type cell_api ?b ?rows (Suc 1) 11 ((''int'' @ '' *'') @ '' *'')"
    using to_pointer [of "(11, [CLong 10])" ?rows cell_api ?b 1 "''int'' @ '' *''"]
    by (simp add: row_simps inner_id_def word_sless_alt)
  then have "map_of (buildTypeNameMap cell_api (sample_db 0x400000)) 11 = Some ((''int'' @ '' *'') @ '' *'')"
    using pointer_names_any_order [OF own, of "Suc 1" 11 "(''int'' @ '' *'') @ '' *''"] by (simp add: row_simps)
  then show ?thesis by (simp add: sample_type_names)
qed

end
