(* ===== verification/Event_Stream.thy ===== *)
theory Event_Stream
  imports Rpc_Props
begin

text \<open>
  \<open>EventStreamer\<close>: the thread that waits for the events of one repository and pushes them to the plugin. The thread and
  the request thread that stops it are one step relation over the streamer, whose program counter tells where the
  loop of \<open>run\<close> is. The text the bridge writes for the events is then followed through the plugin's receive loop to
  the handler.
\<close>

section \<open>The streamer\<close>

text \<open>
  The thread is at the head of its loop, blocked in \<open>getEvents\<close>, before the next of the events it got, about to push
  one, or ended. \<open>es_received\<close> are the events of all batches so far, \<open>es_pushed\<close> those handed to \<open>onEvent\<close>.
\<close>

datatype stream_pc = AtLoop | InGetEvents | AtEvent "change_event list" | Pushing change_event "change_event list" | Ended

record event_streamer =
  es_running :: bool
  es_pc :: stream_pc
  es_received :: "change_event list"
  es_pushed :: "change_event list"

definition streamer_start :: event_streamer where
  "streamer_start = \<lparr>es_running = True, es_pc = AtLoop, es_received = [], es_pushed = []\<rparr>"

definition streamer_stop :: "event_streamer \<Rightarrow> event_streamer" where
  "streamer_stop E = E\<lparr>es_running := False\<rparr>"

text \<open>The \<open>finally\<close> block\<close>

definition streamer_end :: "event_streamer \<Rightarrow> event_streamer" where
  "streamer_end E = E\<lparr>es_running := False, es_pc := Ended\<rparr>"

text \<open>The body of the inner loop up to the push; \<open>nullType\<close> is \<open>REP_NULL_EVENT\<close>\<close>

definition next_event :: "int \<Rightarrow> change_event \<Rightarrow> change_event list \<Rightarrow> event_streamer \<Rightarrow> event_streamer" where
  "next_event nullType evt rest E =
     (if \<not> es_running E then streamer_end E
      else if ce_type evt = nullType then E\<lparr>es_pc := AtEvent rest\<rparr>
      else E\<lparr>es_pc := Pushing evt rest\<rparr>)"

text \<open>A blocked \<open>getEvents\<close> returns a batch or throws; \<open>stop\<close> comes from the request thread at any time.\<close>

inductive stream_step :: "int \<Rightarrow> event_streamer \<Rightarrow> event_streamer \<Rightarrow> bool" for nullType where
  wait: "es_pc E = AtLoop \<Longrightarrow> es_running E \<Longrightarrow> stream_step nullType E (E\<lparr>es_pc := InGetEvents\<rparr>)"
| leave: "es_pc E = AtLoop \<Longrightarrow> \<not> es_running E \<Longrightarrow> stream_step nullType E (streamer_end E)"
| batch: "es_pc E = InGetEvents \<Longrightarrow>
    stream_step nullType E (E\<lparr>es_pc := AtEvent events, es_received := es_received E @ events\<rparr>)"
| thrown: "es_pc E = InGetEvents \<Longrightarrow> stream_step nullType E (streamer_end E)"
| event: "es_pc E = AtEvent (evt # rest) \<Longrightarrow> stream_step nullType E (next_event nullType evt rest E)"
| push: "es_pc E = Pushing evt rest \<Longrightarrow>
    stream_step nullType E (E\<lparr>es_pc := AtEvent rest, es_pushed := es_pushed E @ [evt]\<rparr>)"
| again: "es_pc E = AtEvent [] \<Longrightarrow> stream_step nullType E (E\<lparr>es_pc := AtLoop\<rparr>)"
| stop: "stream_step nullType E (streamer_stop E)"

section \<open>Invariants\<close>

abbreviation real_events :: "int \<Rightarrow> change_event list \<Rightarrow> change_event list" where
  "real_events nullType \<equiv> filter (\<lambda>e. ce_type e \<noteq> nullType)"

text \<open>The events the thread has got and not pushed yet\<close>

fun unpushed :: "int \<Rightarrow> stream_pc \<Rightarrow> change_event list" where
  "unpushed nullType (AtEvent es) = real_events nullType es"
| "unpushed nullType (Pushing e es) = e # real_events nullType es"
| "unpushed nullType _ = []"

definition in_order :: "int \<Rightarrow> event_streamer \<Rightarrow> bool" where
  "in_order nullType E \<longleftrightarrow>
     (if es_pc E = Ended then prefix (es_pushed E) (real_events nullType (es_received E))
      else real_events nullType (es_received E) = es_pushed E @ unpushed nullType (es_pc E))"

interpretation streams: step_invariant "stream_step nullType" streamer_start "in_order nullType" for nullType
proof
  show "in_order nullType streamer_start" by (simp add: in_order_def streamer_start_def)
  show "stream_step nullType s t \<Longrightarrow> in_order nullType s \<Longrightarrow> in_order nullType t" for s t
    by (induction rule: stream_step.induct)
      (auto simp: in_order_def streamer_end_def streamer_stop_def next_event_def split: if_splits)
qed

text \<open>After a stop only the event the thread was about to push can follow.\<close>

fun last_words :: "stream_pc \<Rightarrow> change_event list" where
  "last_words (Pushing e es) = [e]"
| "last_words _ = []"

definition stopped_from :: "event_streamer \<Rightarrow> event_streamer \<Rightarrow> bool" where
  "stopped_from S E \<longleftrightarrow>
     \<not> es_running E \<and> (es_pushed E = es_pushed S \<and> last_words (es_pc E) = last_words (es_pc S) \<or>
       es_pushed E = es_pushed S @ last_words (es_pc S) \<and> last_words (es_pc E) = [])"

lemma stopped_from_step: "stream_step nullType s t \<Longrightarrow> stopped_from S s \<Longrightarrow> stopped_from S t"
  by (induction rule: stream_step.induct)
    (auto simp: stopped_from_def streamer_end_def streamer_stop_def next_event_def)

interpretation stopping: step_invariant "stream_step nullType" "streamer_stop E" "stopped_from (streamer_stop E)" for nullType E
proof
  show "stopped_from (streamer_stop E) (streamer_stop E)" by (simp add: stopped_from_def streamer_stop_def)
qed (rule stopped_from_step)

lemma stopped_pushes:
  assumes "reached (stream_step nullType) (streamer_stop E) E'"
  shows "\<exists>late. es_pushed E' = es_pushed E @ late \<and> length late \<le> 1"
proof -
  have "length (last_words pc) \<le> 1" for pc by (cases pc) simp_all
  with stopping.invariant [OF assms] show ?thesis by (auto simp: stopped_from_def streamer_stop_def)
qed

lemma ended_stays: "stream_step nullType E E' \<Longrightarrow> es_pc E = Ended \<Longrightarrow> es_pc E' = Ended \<and> es_pushed E' = es_pushed E"
  by (induction rule: stream_step.induct) (auto simp: streamer_end_def streamer_stop_def)

section \<open>Events on the wire\<close>

text \<open>What \<open>writeLine\<close> sends for the events\<close>

definition event_text :: "'j gson \<Rightarrow> int list \<Rightarrow> (int \<Rightarrow> string) \<Rightarrow> string \<Rightarrow> string \<Rightarrow> change_event list \<Rightarrow> string" where
  "event_text G codes print repo eol evts = concat (map (\<lambda>e. gs_toJson G (pushEvent G codes print repo e) @ eol) evts)"

lemma event_text_lines:
  assumes "eol \<in> {[newline], [carriage_return, newline]}"
  shows "event_text G codes print repo eol evts =
    concat (map (\<lambda>l. l @ [newline]) (map (\<lambda>e. gs_toJson G (pushEvent G codes print repo e) @ butlast eol) evts))"
  using assms by (auto simp: event_text_def comp_def intro!: arg_cong [where f = concat])

context json_interop
begin

lemma event_line:
  assumes "eol \<in> {[newline], [carriage_return, newline]}" and "m_eventCallback C = Some ecb"
  shows "receive_line J (gs_toJson G (pushEvent G codes print repo e) @ butlast eol) (C, calls) =
    (C, calls @ [EventCall ecb (pushEvent G codes print repo e)])"
proof -
  let ?j = "pushEvent G codes print repo e"
  have parse: "jl_parse J (gs_toJson G ?j) = Inr ?j" and plain: "plain_line (gs_toJson G ?j)" using response_text [of ?j] by blast+
  have "last (gs_toJson G ?j) \<noteq> carriage_return" using plain by (auto simp: plain_line_def dest: last_in_set)
  then have "strip_cr (gs_toJson G ?j @ butlast eol) = gs_toJson G ?j" using assms(1) by (auto simp: strip_cr_def)
  moreover have "jl_contains J ?j ''event''" by (simp add: pushEvent_def documents contains_object)
  moreover have "gs_toJson G ?j \<noteq> []" using plain by (simp add: plain_line_def)
  ultimately show ?thesis using assms(2) by (simp add: receive_line_def parse dispatch_def)
qed

lemma event_lines:
  assumes "eol \<in> {[newline], [carriage_return, newline]}" and "m_eventCallback C = Some ecb"
  shows "fold (receive_line J) (map (\<lambda>e. gs_toJson G (pushEvent G codes print repo e) @ butlast eol) evts) (C, calls) =
    (C, calls @ map (\<lambda>e. EventCall ecb (pushEvent G codes print repo e)) evts)"
  by (induction evts arbitrary: calls) (simp_all add: event_line [OF assms])

lemma events_received:
  assumes "eol \<in> {[newline], [carriage_return, newline]}" and "m_eventCallback C = Some ecb" and "m_running C"
    and "concat bufs = event_text G codes print repo eol evts"
  shows "receiveLoop J (map Some bufs) [] (C, []) = ([], C, map (\<lambda>e. EventCall ecb (pushEvent G codes print repo e)) evts)"
proof -
  let ?ls = "map (\<lambda>e. gs_toJson G (pushEvent G codes print repo e) @ butlast eol) evts"
  have "newline \<noteq> carriage_return" by (simp add: newline_def carriage_return_def)
  moreover have "newline \<notin> set (gs_toJson G j)" for j using response_text [of j] by (auto simp: plain_line_def)
  ultimately have "list_all (\<lambda>l. newline \<notin> set l) ?ls" using assms(1) by (auto simp: list_all_iff)
  then have "split_nl (concat bufs) = (?ls, [])"
    using split_nl_lines [of ?ls "[]"] by (simp add: assms(4) event_text_lines [OF assms(1)] split_nl_none)
  then show ?thesis using receiveLoop_stream [of "(C, [])" "[]" J bufs] assms(3) by (simp add: event_lines [OF assms(1,2)])
qed

end

section \<open>Properties\<close>

text \<open>
  C24: the changes of a repository reach the plugin in order and without loss or repetition. Whatever the interleaving with a
  stop, what the event thread has pushed is an initial part of the real events the server delivered, all of them
  whenever the thread waits for more; keep-alive events are not pushed. The receive loop hands each of them once to
  the event callback, however the socket cuts the text, and the handler is given all its members. After a stop at
  most one more event is pushed.
\<close>

theorem event_stream_delivered:
  assumes "json_interop J G" and "reached (stream_step nullType) streamer_start E"
    and "eol \<in> {[newline], [carriage_return, newline]}" and "m_eventCallback C = Some ecb" and "m_running C"
    and "m_eventHandler K" and "concat bufs = event_text G codes print repo eol (es_pushed E)"
  shows "prefix (es_pushed E) (real_events nullType (es_received E)) \<and>
    (es_pc E \<in> {AtLoop, InGetEvents} \<longrightarrow> es_pushed E = real_events nullType (es_received E)) \<and>
    receiveLoop J (map Some bufs) [] (C, []) = ([], C, map (\<lambda>e. EventCall ecb (pushEvent G codes print repo e)) (es_pushed E)) \<and>
    (\<forall>e. onBridgeEvent J (pushEvent G codes print repo e) K = Inr (Some (change_of codes print repo e))) \<and>
    (\<forall>E'. reached (stream_step nullType) (streamer_stop E) E' \<longrightarrow> (\<exists>late. es_pushed E' = es_pushed E @ late \<and> length late \<le> 1))"
proof -
  have "in_order nullType E" by (rule streams.invariant [OF assms(2)])
  then have "prefix (es_pushed E) (real_events nullType (es_received E))"
    and "es_pc E \<in> {AtLoop, InGetEvents} \<longrightarrow> es_pushed E = real_events nullType (es_received E)"
    by (auto simp: in_order_def split: if_splits)
  then show ?thesis
    using json_interop.events_received [OF assms(1,3-5,7)] json_interop.event_read [OF assms(1,6)] stopped_pushes by blast
qed

definition sample_change :: change_event where
  "sample_change = \<lparr>ce_type = 2, ce_parentPath = Some ''/'', ce_name = Some ''a.exe'', ce_newParentPath = None, ce_newName = None\<rparr>"

definition keep_alive :: change_event where
  "keep_alive = \<lparr>ce_type = - 1, ce_parentPath = None, ce_name = None, ce_newParentPath = None, ce_newName = None\<rparr>"

text \<open>A batch of a keep-alive event and a change, pushed while the thread is being stopped\<close>

definition sample_stream :: event_streamer where
  "sample_stream = \<lparr>es_running = False, es_pc = AtEvent [], es_received = [keep_alive, sample_change], es_pushed = [sample_change]\<rparr>"

lemma sample_stream_reached: "reached (stream_step (- 1)) streamer_start sample_stream"
proof -
  let ?E = "\<lambda>run pc recv pushed. \<lparr>es_running = run, es_pc = pc, es_received = recv, es_pushed = pushed\<rparr>"
  let ?b = "[keep_alive, sample_change]"
  have "reached (stream_step (- 1)) streamer_start (?E True InGetEvents [] [])"
    using reached_first [of "stream_step (- 1)" streamer_start, OF wait] by (simp add: streamer_start_def)
  from reached_step [OF this batch [of _ _ ?b]] have "reached (stream_step (- 1)) streamer_start (?E True (AtEvent ?b) ?b [])" by simp
  from reached_step [OF this event [of _ keep_alive "[sample_change]"]]
  have "reached (stream_step (- 1)) streamer_start (?E True (AtEvent [sample_change]) ?b [])" by (simp add: next_event_def keep_alive_def)
  from reached_step [OF this event [of _ sample_change "[]"]]
  have "reached (stream_step (- 1)) streamer_start (?E True (Pushing sample_change []) ?b [])" by (simp add: next_event_def sample_change_def)
  from reached_step [OF this stop]
  have "reached (stream_step (- 1)) streamer_start (?E False (Pushing sample_change []) ?b [])" by (simp add: streamer_stop_def)
  from reached_step [OF this push [of _ sample_change "[]"]] show ?thesis by (simp add: sample_stream_def)
qed

theorem event_stream_delivered_witness:
  "receiveLoop text_json [Some (event_text text_gson [0, 1, 2] (\<lambda>_. []) ''r'' [newline] [sample_change])] []
       (ready_client\<lparr>m_eventCallback := Some ''ev''\<rparr>, []) =
     ([], ready_client\<lparr>m_eventCallback := Some ''ev''\<rparr>, [EventCall ''ev'' (pushEvent text_gson [0, 1, 2] (\<lambda>_. []) ''r'' sample_change)]) \<and>
   onBridgeEvent text_json (pushEvent text_gson [0, 1, 2] (\<lambda>_. []) ''r'' sample_change) (setEventHandler True new_connection) =
     Inr (Some \<lparr>ge_repo = ''r'', ge_type = ''REP_FOLDER_DELETED'', ge_parentPath = ''/'', ge_name = ''a.exe'', ge_newParentPath = [], ge_newName = []\<rparr>)"
proof -
  have "m_eventHandler (setEventHandler True new_connection)" by (simp add: setEventHandler_def)
  moreover have "change_of [0, 1, 2] (\<lambda>_. []) ''r'' sample_change =
      \<lparr>ge_repo = ''r'', ge_type = ''REP_FOLDER_DELETED'', ge_parentPath = ''/'', ge_name = ''a.exe'', ge_newParentPath = [], ge_newName = []\<rparr>"
    by code_simp
  moreover have "m_running ready_client" by code_simp
  ultimately show ?thesis
    using event_stream_delivered [OF texts.json_interop_axioms sample_stream_reached, of "[newline]" "ready_client\<lparr>m_eventCallback := Some ''ev''\<rparr>" "''ev''"
        "setEventHandler True new_connection" "[event_text text_gson [0, 1, 2] (\<lambda>_. []) ''r'' [newline] [sample_change]]" "[0, 1, 2]" "\<lambda>_. []" "''r''"]
    by (simp add: sample_stream_def)
qed

end
