(* ===== verification/Bridge_Main.thy ===== *)
theory Bridge_Main
  imports Bridge_Process
begin

text \<open>
  The Java side of the start: the command line of \<open>BridgeMain\<close>, what it initialises, and \<open>BridgeServer.serve\<close>, which
  binds the socket, announces the port on the standard output and starts a handler per client. What the Java
  platform and Ghidra answer are the members of \<open>java_answers\<close>. With them the plugin's \<open>start\<close> and the bridge's
  \<open>main\<close> are composed: the arguments the one passes are those the other reads, and the line the other prints is the
  one the first waits for.
\<close>

section \<open>Command line\<close>

text \<open>
  \<open>Integer.parseInt\<close> on ASCII text: one sign at most and then digits only, within the range of an \<open>int\<close>
\<close>

definition parseInt :: "string \<Rightarrow> i32 result" where
  "parseInt s =
     (let (neg, ds) = split_sign s;
          v = (if neg then - int (digits_val 10 ds) else int (digits_val 10 ds))
      in if ds = [] \<or> \<not> list_all is_dec_digit ds \<or> v < - (2 ^ 31) \<or> 2 ^ 31 \<le> v
         then Inl (''For input string: '' @ [CHR 0x22] @ s @ [CHR 0x22]) else Inr (word_of_int v))"

record bridge_options =
  bo_port :: i32
  bo_trustAll :: bool
  bo_bindAll :: bool
  bo_ghidraHome :: string

definition default_options :: bridge_options where
  "default_options = \<lparr>bo_port = 13200, bo_trustAll = False, bo_bindAll = False, bo_ghidraHome = []\<rparr>"

text \<open>An option that needs a value is ignored as the last argument, as is every unknown argument.\<close>

fun parse_args :: "string list \<Rightarrow> bridge_options \<Rightarrow> bridge_options result" where
  "parse_args [] opt = Inr opt"
| "parse_args [a] opt =
     Inr (if a = ''--trust-all'' then opt\<lparr>bo_trustAll := True\<rparr>
          else if a = ''--bind-all'' then opt\<lparr>bo_bindAll := True\<rparr> else opt)"
| "parse_args (a # b # rest) opt =
     (if a = ''--port'' then res_bind (parseInt b) (\<lambda>port. parse_args rest (opt\<lparr>bo_port := port\<rparr>))
      else if a = ''--trust-all'' then parse_args (b # rest) (opt\<lparr>bo_trustAll := True\<rparr>)
      else if a = ''--bind-all'' then parse_args (b # rest) (opt\<lparr>bo_bindAll := True\<rparr>)
      else if a = ''--ghidra-home'' then parse_args rest (opt\<lparr>bo_ghidraHome := b\<rparr>)
      else parse_args (b # rest) opt)"

section \<open>Main and the server socket\<close>

datatype bind_address = Loopback | AnyAddress

datatype java_call = InstallTrustAll | InitIdGenerator | InitApplication string | BindSocket i32 bind_address | StartHandler nat

text \<open>
  \<open>ja_trustAll\<close> is the answer of \<open>installTrustAllContext\<close>, \<open>ja_printed\<close> the lines other code prints on the standard
  output before the socket is bound, \<open>ja_bind\<close> the port the new server socket has, \<open>ja_accept\<close> what \<open>accept\<close>
  answers in turn and \<open>ja_eol\<close> the line separator. A failed initialisation of the Ghidra application is only logged.
\<close>

record java_answers =
  ja_trustAll :: "unit result"
  ja_printed :: "string list"
  ja_bind :: "i32 \<Rightarrow> bind_address \<Rightarrow> i32 result"
  ja_accept :: "nat result list"
  ja_eol :: string

text \<open>The loop of \<open>serve\<close>: one handler thread per client until \<open>accept\<close> throws\<close>

fun accept_loop :: "nat result list \<Rightarrow> java_call list" where
  "accept_loop [] = []"
| "accept_loop (Inl e # rest) = []"
| "accept_loop (Inr client # rest) = StartHandler client # accept_loop rest"

text \<open>The calls and the standard output\<close>

definition server_serve :: "java_answers \<Rightarrow> i32 \<Rightarrow> bool \<Rightarrow> java_call list \<times> string" where
  "server_serve A requestedPort bindAll =
     (let bindAddr = (if bindAll then AnyAddress else Loopback) in
      case ja_bind A requestedPort bindAddr of
        Inl e \<Rightarrow> ([BindSocket requestedPort bindAddr], [])
      | Inr boundPort \<Rightarrow>
          (BindSocket requestedPort bindAddr # accept_loop (ja_accept A),
           ''READY port='' @ to_string_i32 boundPort @ ja_eol A))"

definition bridge_main :: "java_answers \<Rightarrow> string list \<Rightarrow> java_call list \<times> string" where
  "bridge_main A args =
     (case parse_args args default_options of
        Inl e \<Rightarrow> ([], [])
      | Inr opt \<Rightarrow>
          if bo_trustAll opt \<and> isl (ja_trustAll A) then ([InstallTrustAll], [])
          else
            let (calls, out) = server_serve A (bo_port opt) (bo_bindAll opt) in
            ((if bo_trustAll opt then [InstallTrustAll] else []) @ [InitIdGenerator] @
             (if bo_ghidraHome opt \<noteq> [] then [InitApplication (bo_ghidraHome opt)] else []) @ calls,
             concat (map (\<lambda>l. l @ ja_eol A) (ja_printed A)) @ out))"

section \<open>Lemmas\<close>

lemma parse_child_args:
  "parse_args (drop 4 (child_argv javaExe bridgeJar ghidraHome trustAll)) default_options =
   Inr \<lparr>bo_port = 0, bo_trustAll = trustAll, bo_bindAll = False, bo_ghidraHome = ghidraHome\<rparr>"
proof -
  have "parseInt ''0'' = Inr 0" by code_simp
  then show ?thesis by (simp add: child_argv_def default_options_def)
qed

lemma child_args: "child_argv javaExe bridgeJar ghidraHome trustAll =
    take 4 (child_argv javaExe bridgeJar ghidraHome trustAll) @ drop 4 (child_argv javaExe bridgeJar ghidraHome trustAll)"
  by simp

lemma main_of_child:
  assumes "trustAll \<longrightarrow> \<not> isl (ja_trustAll A)"
  shows "bridge_main A (drop 4 (child_argv javaExe bridgeJar ghidraHome trustAll)) =
    ((if trustAll then [InstallTrustAll] else []) @ [InitIdGenerator] @
       (if ghidraHome \<noteq> [] then [InitApplication ghidraHome] else []) @ fst (server_serve A 0 False),
     concat (map (\<lambda>l. l @ ja_eol A) (ja_printed A)) @ snd (server_serve A 0 False))"
  using assms by (simp add: bridge_main_def parse_child_args case_prod_unfold Let_def)

lemma to_string_port: "0 <=s p \<Longrightarrow> to_string_i32 p = dec_digits (unat p) \<and> unat p < 2 ^ 31"
proof -
  assume "0 <=s p"
  then have "0 \<le> sint p" by (simp add: word_sle_eq)
  moreover have "sint p < 2 ^ 31" using sint_lt [of p] by simp
  moreover from calculation have "sint p = int (unat p)"
    using uint_word_of_int [of "sint p", where 'a = 32] by (simp add: unsigned_word_eqI)
  ultimately have "sint p = int (unat p)" "int (unat p) < int (2 ^ 31)" by simp_all
  then have "unat p < 2 ^ 31" by (simp only: of_nat_less_iff)
  with \<open>sint p = int (unat p)\<close> show ?thesis by (simp add: to_string_i32_def dec_int_def)
qed


lemma ready_none:
  assumes "list_all (\<lambda>l. newline \<notin> set l \<and> \<not> starts_with kPrefix (strip_cr l)) pre"
  shows "ready_loop [] (concat (map (\<lambda>l. l @ [newline]) pre)) = Inr None"
proof -
  have "fst (split_nl (concat (map (\<lambda>l. l @ [newline]) pre))) = pre"
    using assms
  proof (induction pre)
    case (Cons l pre)
    then show ?case using split_nl_line [of l "concat (map (\<lambda>l. l @ [newline]) pre)"] by simp
  qed (simp add: split_nl_none)
  moreover have "find (\<lambda>l. starts_with kPrefix (strip_cr l)) pre = None"
    using assms by (auto simp: find_None_iff list_all_iff)
  ultimately show ?thesis by (simp add: ready_loop_lines)
qed

lemma printed_lines:
  assumes "ja_eol A \<in> {[newline], [carriage_return, newline]}"
    and "list_all (\<lambda>l. newline \<notin> set l \<and> \<not> starts_with kPrefix l) (ja_printed A)"
  obtains pre where "concat (map (\<lambda>l. l @ ja_eol A) (ja_printed A)) = concat (map (\<lambda>l. l @ [newline]) pre)"
    and "list_all (\<lambda>l. newline \<notin> set l \<and> \<not> starts_with kPrefix (strip_cr l)) pre"
proof
  let ?pre = "map (\<lambda>l. l @ butlast (ja_eol A)) (ja_printed A)"
  show "concat (map (\<lambda>l. l @ ja_eol A) (ja_printed A)) = concat (map (\<lambda>l. l @ [newline]) ?pre)"
    using assms(1) by (auto intro!: arg_cong [where f = concat])
  have "starts_with kPrefix l" if "starts_with kPrefix (strip_cr l)" for l
    using that by (auto simp: strip_cr_def starts_with_iff split: if_splits) (metis append_butlast_last_id append_assoc)
  moreover have "strip_cr (l @ [carriage_return]) = l" "newline \<noteq> carriage_return" for l
    by (simp_all add: strip_cr_def newline_def carriage_return_def)
  ultimately show "list_all (\<lambda>l. newline \<notin> set l \<and> \<not> starts_with kPrefix (strip_cr l)) ?pre"
    using assms by (auto simp: list_all_iff)
qed

lemma stop_stopped: "process_stop Q = (Q', cs) \<Longrightarrow> process_stop Q' = (Q', [])"
  using stop_twice [of Q] by simp

section \<open>Properties\<close>

text \<open>
  C30: the plugin's start and the bridge's \<open>main\<close> fit together. The child gets exactly the options the plugin was given: a
  free port on the loopback address, the certificate option, the Ghidra directory. If the socket can be bound, the
  start succeeds with the port the bridge has bound, whatever else was printed before; if it cannot, or the bridge
  fails before that, the start reports that the process exited and is stopped.
\<close>

theorem launch_and_handshake:
  assumes "os_pipe B = Inr (rd, wr)" and "os_errpipe B = Inr (erd, ewr)" and "os_fork B = Inr pid"
    and "bridge_main A (drop 4 (child_argv javaExe bridgeJar ghidraHome trustAll)) = (java_calls, os_stdout B)"
    and "ja_eol A \<in> {[newline], [carriage_return, newline]}"
    and "list_all (\<lambda>l. newline \<notin> set l \<and> \<not> starts_with kPrefix l) (ja_printed A)"
    and "\<forall>port. ja_bind A 0 Loopback = Inr port \<longrightarrow> 0 <=s port"
    and "process_start javaExe bridgeJar ghidraHome trustAll B P = (res, P', calls)"
  shows "Exec (take 4 (child_argv javaExe bridgeJar ghidraHome trustAll) @ drop 4 (child_argv javaExe bridgeJar ghidraHome trustAll)) \<in> set calls \<and>
    parse_args (drop 4 (child_argv javaExe bridgeJar ghidraHome trustAll)) default_options =
      Inr \<lparr>bo_port = 0, bo_trustAll = trustAll, bo_bindAll = False, bo_ghidraHome = ghidraHome\<rparr> \<and>
    (if trustAll \<and> isl (ja_trustAll A) \<or> isl (ja_bind A 0 Loopback)
     then res = Inr (Some exited_error) \<and> process_stop P' = (P', [])
     else res = Inr None \<and> ja_bind A 0 Loopback = Inr (bp_port P') \<and> bp_pid P' = pid)"
proof -
  have exec: "Exec (child_argv javaExe bridgeJar ghidraHome trustAll) \<in> set calls"
    using assms(8) by (auto simp: process_start_def assms(1-3) Let_def split: prod.splits sum.splits)
  obtain pre where pre: "concat (map (\<lambda>l. l @ ja_eol A) (ja_printed A)) = concat (map (\<lambda>l. l @ [newline]) pre)"
    "list_all (\<lambda>l. newline \<notin> set l \<and> \<not> starts_with kPrefix (strip_cr l)) pre"
    by (rule printed_lines [OF assms(5,6)])
  show ?thesis
  proof (cases "trustAll \<and> isl (ja_trustAll A) \<or> isl (ja_bind A 0 Loopback)")
    case True
    then have "os_stdout B = [] \<or> os_stdout B = concat (map (\<lambda>l. l @ [newline]) pre)"
      using assms(4) pre(1)
      by (auto simp: bridge_main_def parse_child_args server_serve_def isl_def Let_def split: if_splits)
    then have "readReadyLine_posix (os_stdout B) = Inr (Inl exited_error)"
      using ready_none [OF pre(2)] by (auto simp: readReadyLine_posix_def)
    then show ?thesis using True exec assms(8)
      by (auto simp: parse_child_args process_start_def assms(1-3) Let_def split: prod.splits dest: stop_stopped)
  next
    case False
    then obtain port where port: "ja_bind A 0 Loopback = Inr port" by (cases "ja_bind A 0 Loopback") auto
    then have "os_stdout B = concat (map (\<lambda>l. l @ [newline]) pre) @ kPrefix @ dec_digits (unat port) @ ja_eol A @ []"
      using assms(4,7) main_of_child [of trustAll A javaExe bridgeJar ghidraHome] False pre(1) to_string_port [of port]
      by (simp add: server_serve_def kPrefix_def)
    then have "readReadyLine_posix (os_stdout B) = Inr (Inr port)"
      using ready_line [OF pre(2) _ assms(5), of "unat port" "[]"] to_string_port [of port] assms(7) port
      by (simp add: readReadyLine_posix_def)
    then show ?thesis using False exec assms(8) port
      by (auto simp: parse_child_args process_start_def assms(1-3) startStderrLogger_def Let_def split: prod.splits)
  qed
qed

definition free_port :: java_answers where
  "free_port = \<lparr>ja_trustAll = Inr (), ja_printed = [''INFO  loading''], ja_bind = (\<lambda>_ _. Inr 49152), ja_accept = [Inr 1, Inl ''closed''],
     ja_eol = [newline]\<rparr>"

definition free_port_posix :: posix_answers where
  "free_port_posix = \<lparr>os_pipe = Inr (3, 4), os_errpipe = Inr (5, 6), os_fork = Inr 77,
     os_stdout = snd (bridge_main free_port (drop 4 (child_argv [] ''/b.jar'' ''/opt/ghidra'' True)))\<rparr>"

theorem launch_and_handshake_witness:
  "fst (process_start [] ''/b.jar'' ''/opt/ghidra'' True free_port_posix new_process) = Inr None \<and>
   bp_port (fst (snd (process_start [] ''/b.jar'' ''/opt/ghidra'' True free_port_posix new_process))) = 49152"
proof -
  obtain res P' calls where start: "process_start [] ''/b.jar'' ''/opt/ghidra'' True free_port_posix new_process = (res, P', calls)"
    by (cases "process_start [] ''/b.jar'' ''/opt/ghidra'' True free_port_posix new_process") auto
  obtain jc out where main: "bridge_main free_port (drop 4 (child_argv [] ''/b.jar'' ''/opt/ghidra'' True)) = (jc, out)"
    by (cases "bridge_main free_port (drop 4 (child_argv [] ''/b.jar'' ''/opt/ghidra'' True))") auto
  have quiet: "list_all (\<lambda>l. newline \<notin> set l \<and> \<not> starts_with kPrefix l) (ja_printed free_port)" by code_simp
  have "(0 :: i32) <=s 49152" by code_simp
  with launch_and_handshake [of free_port_posix 3 4 5 6 77 free_port "[]" "''/b.jar''" "''/opt/ghidra''" True jc new_process res P' calls]
    start main quiet
  show ?thesis by (simp add: free_port_posix_def free_port_def)
qed

end
