(* ===== verification/Base64.thy ===== *)
theory Base64
  imports Text_Num
begin

text \<open>
  \<open>java.util.Base64\<close> as the bridge uses it: \<open>getEncoder().encodeToString\<close> and \<open>getMimeDecoder().decode\<close>, which
  skips characters outside the alphabet. The encoding of a text is the list of its groups of four characters, because
  line breaks may stand between groups. Bytes are characters.
\<close>

section \<open>Encoder\<close>

definition base64_alphabet :: string where
  "base64_alphabet = ''ABCDEFGHIJKLMNOPQRSTUVWXYZabcdefghijklmnopqrstuvwxyz0123456789+/''"

definition base64_char :: "nat \<Rightarrow> char" where
  "base64_char v = base64_alphabet ! (v mod 64)"

text \<open>The four characters for three bytes as one number\<close>

definition base64_quad :: "nat \<Rightarrow> string" where
  "base64_quad bits = map (\<lambda>s. base64_char (bits div 2 ^ s)) [18, 12, 6, 0]"

fun encode_groups :: "string \<Rightarrow> string list" where
  "encode_groups [] = []"
| "encode_groups [a] = [take 2 (base64_quad (char_code a * 2 ^ 16)) @ ''==''] "
| "encode_groups [a, b] = [take 3 (base64_quad (char_code a * 2 ^ 16 + char_code b * 2 ^ 8)) @ ''='']"
| "encode_groups (a # b # c # rest) =
     base64_quad (char_code a * 2 ^ 16 + char_code b * 2 ^ 8 + char_code c) # encode_groups rest"

definition encodeToString :: "string \<Rightarrow> string" where
  "encodeToString bytes = concat (encode_groups bytes)"

section \<open>MIME decoder\<close>

definition base64_value :: "char \<Rightarrow> nat option" where
  "base64_value c =
     (if c \<in> set base64_alphabet then Some (length (takeWhile (\<lambda>d. d \<noteq> c) base64_alphabet)) else None)"

definition unit_bytes :: "nat \<Rightarrow> string" where
  "unit_bytes bits = map (\<lambda>s. char_of (bits div 2 ^ s)) [16, 8, 0]"

text \<open>
  The end of the input after \<open>k\<close> characters of an incomplete group; of \<open>n\<close> characters in all \<open>rest\<close> are left, which
  must be outside the alphabet.
\<close>

definition decode_end :: "nat \<Rightarrow> nat \<Rightarrow> nat \<Rightarrow> string \<Rightarrow> string \<Rightarrow> string result" where
  "decode_end n bits k out rest =
     (if k = 1 then Inl ''Last unit does not have enough valid bits''
      else
        let out = out @ take (k - 1) (unit_bytes bits);
            left = dropWhile (\<lambda>c. base64_value c = None) rest in
        if left \<noteq> []
        then Inl (''Input byte array has incorrect ending byte at '' @ dec_digits (n - length left + 1))
        else Inr out)"

fun decode_loop :: "nat \<Rightarrow> nat \<Rightarrow> nat \<Rightarrow> string \<Rightarrow> string \<Rightarrow> string result" where
  "decode_loop n bits k out [] = decode_end n bits k out []"
| "decode_loop n bits k out (c # cs) =
     (if c = CHR ''='' then
        (if k = 2 \<and> (cs = [] \<or> hd cs \<noteq> CHR ''='') \<or> k = 0
         then Inl ''Input byte array has wrong 4-byte ending unit''
         else decode_end n bits k out (if k = 2 then tl cs else cs))
      else
        case base64_value c of
          None \<Rightarrow> decode_loop n bits k out cs
        | Some v \<Rightarrow>
            let bits = bits + v * 2 ^ (18 - 6 * k) in
            if k = 3 then decode_loop n 0 0 (out @ unit_bytes bits) cs else decode_loop n bits (k + 1) out cs)"

definition mime_decode :: "string \<Rightarrow> string result" where
  "mime_decode src = decode_loop (length src) 0 0 [] src"

section \<open>Round trip\<close>

lemma alphabet: "distinct base64_alphabet" "length base64_alphabet = 64" "CHR ''='' \<notin> set base64_alphabet"
  by (simp_all add: base64_alphabet_def)

lemma position_of_nth:
  assumes "distinct xs" and "i < length xs"
  shows "length (takeWhile (\<lambda>d. d \<noteq> xs ! i) xs) = i"
proof -
  have "takeWhile (\<lambda>d. d \<noteq> xs ! i) xs = take i xs"
    using assms by (intro takeWhile_eq_take_P_nth) (auto simp: nth_eq_iff_index_eq)
  then show ?thesis using assms(2) by simp
qed

lemma value_char: "base64_value (base64_char v) = Some (v mod 64)" "base64_char v \<noteq> CHR ''=''"
proof -
  have "v mod 64 < length base64_alphabet" using alphabet(2) by simp
  then have "base64_char v \<in> set base64_alphabet" "length (takeWhile (\<lambda>d. d \<noteq> base64_char v) base64_alphabet) = v mod 64"
    using position_of_nth [OF alphabet(1)] by (simp_all add: base64_char_def)
  then show "base64_value (base64_char v) = Some (v mod 64)" "base64_char v \<noteq> CHR ''=''"
    using alphabet(3) by (auto simp: base64_value_def)
qed

lemma code_bound: "char_code c < 256"
  by (simp add: char_code_def)

text \<open>The four values of a number of 24 bits are its bits again.\<close>

lemma quad_bits:
  "(bits :: nat) div 2 ^ 18 * 2 ^ 18 + bits div 2 ^ 12 mod 64 * 2 ^ 12 + bits div 2 ^ 6 mod 64 * 2 ^ 6 + bits mod 64 = bits"
proof -
  have "bits div 2 ^ 12 = bits div 2 ^ 18 * 64 + bits div 2 ^ 12 mod 64"
    using div_mult_mod_eq [of "bits div 2 ^ 12" 64] by (simp add: div_mult2_eq [symmetric])
  moreover have "bits div 2 ^ 6 = bits div 2 ^ 12 * 64 + bits div 2 ^ 6 mod 64"
    using div_mult_mod_eq [of "bits div 2 ^ 6" 64] by (simp add: div_mult2_eq [symmetric])
  moreover have "bits = bits div 2 ^ 6 * 64 + bits mod 64"
    using div_mult_mod_eq [of bits 64] by simp
  moreover have "(2 :: nat) ^ 18 = 64 * 64 * 64" "(2 :: nat) ^ 12 = 64 * 64" "(2 :: nat) ^ 6 = 64" by simp_all
  ultimately show ?thesis by algebra
qed

lemma char_of_code: "char_of (k * 256 + char_code c) = c"
  by (simp add: char_code_def flip: char_of_mod_256 [of "k * 256 + of_char c"])

lemma unit_bytes_eq:
  "unit_bytes (char_code a * 2 ^ 16 + char_code b * 2 ^ 8 + char_code c) = [a, b, c]"
proof -
  have "char_code b < 256" "char_code c < 256" by (rule code_bound)+
  then have "(char_code a * 2 ^ 16 + char_code b * 2 ^ 8 + char_code c) div 2 ^ 16 = 0 * 256 + char_code a"
    "(char_code a * 2 ^ 16 + char_code b * 2 ^ 8 + char_code c) div 2 ^ 8 = char_code a * 256 + char_code b"
    "char_code a * 2 ^ 16 + char_code b * 2 ^ 8 + char_code c = (char_code a * 256 + char_code b) * 256 + char_code c"
    by simp_all
  then show ?thesis unfolding unit_bytes_def list.map power_0 div_by_1 by (simp only: char_of_code)
qed

text \<open>Characters outside the alphabet are skipped, a whole group is decoded.\<close>

definition ignored :: "string \<Rightarrow> bool" where
  "ignored s \<longleftrightarrow> list_all (\<lambda>c. base64_value c = None \<and> c \<noteq> CHR ''='') s"

lemma skip_ignored: "ignored s \<Longrightarrow> decode_loop n bits k out (s @ rest) = decode_loop n bits k out rest"
  by (induction s) (auto simp: ignored_def)

lemma decode_quad:
  assumes "bits < 2 ^ 24"
  shows "decode_loop n 0 0 out (base64_quad bits @ rest) = decode_loop n 0 0 (out @ unit_bytes bits) rest"
  using quad_bits [of bits] assms
  by (simp add: base64_quad_def value_char numeral_eq_Suc [of "num.One"] del: One_nat_def)

lemma end_ignored:
  "ignored rest \<Longrightarrow> k \<noteq> 1 \<Longrightarrow> decode_end n bits k out rest = Inr (out @ take (k - 1) (unit_bytes bits))"
  by (auto simp: decode_end_def ignored_def list_all_iff dropWhile_eq_Nil_conv)

lemma decode_one:
  assumes "ignored rest"
  shows "decode_loop n 0 0 out (take 2 (base64_quad (char_code a * 2 ^ 16)) @ ''=='' @ rest) = Inr (out @ [a])"
proof -
  have z: "char_code a * 2 ^ 16 div 2 ^ 6 mod 64 = 0" "char_code a * 2 ^ 16 mod 64 = 0" by (simp_all add: mod_eq_0_iff_dvd)
  have "char_code a div 4 mod 64 = char_code a div 4" using code_bound [of a] by (intro mod_less) simp
  with quad_bits [of "char_code a * 2 ^ 16"] z unit_bytes_eq [of a "CHR 0x00" "CHR 0x00"] assms
  show ?thesis by (simp add: base64_quad_def value_char end_ignored numeral_eq_Suc [of "num.One"] char_code_def del: One_nat_def)
qed

lemma decode_two:
  assumes "ignored rest"
  shows "decode_loop n 0 0 out (take 3 (base64_quad (char_code a * 2 ^ 16 + char_code b * 2 ^ 8)) @ ''='' @ rest) = Inr (out @ [a, b])"
proof -
  let ?bits = "char_code a * 2 ^ 16 + char_code b * 2 ^ 8"
  have z: "?bits mod 64 = 0" by (simp add: mod_eq_0_iff_dvd)
  have "?bits < 2 ^ 24" using code_bound [of a] code_bound [of b] by simp
  with quad_bits [of ?bits] z unit_bytes_eq [of a b "CHR 0x00"] assms
  show ?thesis by (simp add: base64_quad_def value_char end_ignored numeral_eq_Suc [of "num.One"] char_code_def del: One_nat_def)
qed

lemma decode_groups:
  assumes "length breaks = length (encode_groups bytes)" and "list_all ignored breaks"
  shows "decode_loop n 0 0 out (concat (map2 (@) (encode_groups bytes) breaks)) = Inr (out @ bytes)"
  using assms
proof (induction bytes arbitrary: breaks out rule: encode_groups.induct)
  case 1
  then show ?case by (simp add: end_ignored ignored_def)
next
  case (2 a)
  then show ?case using decode_one [of "hd breaks"] by (cases breaks) auto
next
  case (3 a b)
  then show ?case using decode_two [of "hd breaks"] by (cases breaks) auto
next
  case (4 a b c rest)
  then obtain s ss where br: "breaks = s # ss" by (cases breaks) auto
  have "char_code a * 2 ^ 16 + char_code b * 2 ^ 8 + char_code c < 2 ^ 24"
    using code_bound [of a] code_bound [of b] code_bound [of c] by simp
  note quad = decode_quad [OF this, unfolded unit_bytes_eq]
  from 4 br show ?case by (simp add: quad [simplified] skip_ignored)
qed

lemma mime_roundtrip:
  "length breaks = length (encode_groups bytes) \<Longrightarrow> list_all ignored breaks \<Longrightarrow>
   mime_decode (concat (map2 (@) (encode_groups bytes) breaks)) = Inr bytes"
  unfolding mime_decode_def using decode_groups [of breaks bytes _ "[]"] by simp

end
