(* ===== verification/File_Handlers.thy ===== *)
theory File_Handlers
  imports Base64 Bridge_Server Upload_Text
begin

text \<open>
  The two handlers of the bridge that move binary files: \<open>opDownloadBinary\<close> with \<open>BinaryExtractor\<close>, and
  \<open>opUploadBinary\<close>, which writes the binary and its annotations to temporary files and runs Ghidra's
  \<open>analyzeHeadless\<close> on them. The record \<open>headless_env\<close> is what they use of Ghidra, the file system and the
  operating system; the calls whose order matters are recorded. \<open>JsonElement.getAsBoolean\<close> is the argument \<open>asBoolean\<close>.
\<close>

section \<open>Environment\<close>

text \<open>
  \<open>FileBytes\<close>: \<open>fb_original n\<close> is what \<open>getOriginalBytes(0, b)\<close> puts into an array of \<open>n\<close> bytes, which may be
  fewer.
\<close>

record file_bytes =
  fb_filename :: string
  fb_size :: i64
  fb_original :: "nat \<Rightarrow> string result"

text \<open>A process: its command, the input it is given and the temporary files there are while it runs\<close>

record headless_run =
  hr_cmd :: "string list"
  hr_stdin :: string
  hr_files :: "(string \<times> string) list"

text \<open>The end of a process, with the output read by then\<close>

datatype headless_exit = TimedOut | Exited i32 string

text \<open>
  \<open>he_fileBytes\<close> opens a version of an item and lists its \<open>FileBytes\<close>. \<open>he_tempDirectory\<close> and \<open>he_tempFile\<close> give
  absolute paths, \<open>he_write\<close> tells whether a file can be written, \<open>he_run\<close> runs the process on the server's state.
  \<open>he_syncScript\<close> is the constant \<open>BINJA_SYNC_SCRIPT\<close>, whose reading of the annotations \<open>Upload_Text\<close> models.
\<close>

record 'w headless_env =
  he_ghidraHome :: string
  he_osName :: string
  he_separator :: string
  he_syncScript :: string
  he_exists :: "string \<Rightarrow> bool"
  he_fileBytes :: "'w \<Rightarrow> string \<Rightarrow> string \<Rightarrow> string \<Rightarrow> i32 \<Rightarrow> file_bytes list result"
  he_tempDirectory :: "string \<Rightarrow> string result"
  he_tempFile :: "string \<Rightarrow> string \<Rightarrow> string result"
  he_write :: "string \<Rightarrow> unit result"
  he_run :: "headless_run \<Rightarrow> 'w \<Rightarrow> headless_exit result \<times> 'w"

section \<open>Download\<close>

definition max_bytes :: i64 where
  "max_bytes = 512 * 1024 * 1024"

text \<open>A file of the database, unless it is empty or too large; bytes that were not read are 0\<close>

definition extract_file :: "file_bytes \<Rightarrow> BinaryFile option result" where
  "extract_file fb =
     (if fb_size fb <=s 0 \<or> max_bytes <s fb_size fb then Inr None
      else
        let size = unat (fb_size fb) in
        res_bind (fb_original fb size) (\<lambda>read.
        Inr (Some \<lparr>bf_filename = fb_filename fb,
                   bf_bytes = take size read @ replicate (size - length read) (CHR 0x00)\<rparr>)))"

definition extract_files :: "file_bytes list \<Rightarrow> BinaryFile list result" where
  "extract_files all = res_bind (res_map extract_file all) (\<lambda>files. Inr (List.map_filter (\<lambda>f. f) files))"

definition extractedToJson :: "'j gson \<Rightarrow> BinaryFile \<Rightarrow> 'j" where
  "extractedToJson G f =
     jl_object G [(''filename'', jl_string G (bf_filename f)), (''size'', jl_int G (of_nat (length (bf_bytes f)))),
       (''data'', jl_string G (encodeToString (bf_bytes f)))]"

definition opDownloadBinary ::
    "'j gson \<Rightarrow> ('j, 'w) ghidra_remote \<Rightarrow> 'w headless_env \<Rightarrow> 'j \<Rightarrow> bridge_session \<Rightarrow> 'w \<Rightarrow> ('j, 'w) handled" where
  "opDownloadBinary G R E req S w =
     (res_bind (item_members G R req) (\<lambda>(repo, folder, item).
      res_bind (member_or G (jl_get_int G) (- 1) req ''version'') (\<lambda>version.
      res_bind (getRepo repo S) (\<lambda>_.
      res_bind (he_fileBytes E w repo folder item version) (\<lambda>all.
      res_bind (extract_files all) (\<lambda>files.
      Inr [(''files'', jl_array G (map (extractedToJson G) files))]))))), S, w)"

section \<open>Upload\<close>

definition to_lower :: "char \<Rightarrow> char" where
  "to_lower c = (if 65 \<le> char_code c \<and> char_code c \<le> 90 then char_of (char_code c + 32) else c)"

definition isWin :: "'w headless_env \<Rightarrow> bool" where
  "isWin E \<longleftrightarrow> sublist ''win'' (map to_lower (he_osName E))"

definition headless_script :: "'w headless_env \<Rightarrow> string" where
  "headless_script E =
     he_ghidraHome E @ he_separator E @ ''support'' @ he_separator E @
     (if isWin E then ''analyzeHeadless.bat'' else ''analyzeHeadless'')"

text \<open>\<open>name.replaceAll("[^a-zA-Z0-9._-]", "_")\<close>\<close>

definition file_name_char :: "char \<Rightarrow> bool" where
  "file_name_char c \<longleftrightarrow>
     97 \<le> char_code c \<and> char_code c \<le> 122 \<or> 65 \<le> char_code c \<and> char_code c \<le> 90 \<or> is_dec_digit c \<or> c \<in> set ''._-''"

definition sanitize :: "string \<Rightarrow> string" where
  "sanitize name = map (\<lambda>c. if file_name_char c then c else CHR ''_'') name"

record upload_members =
  um_repo :: string
  um_folder :: string
  um_item :: string
  um_data :: string
  um_comment :: string
  um_keepCheckout :: bool
  um_host :: string
  um_port :: i32
  um_user :: string
  um_password :: string
  um_analysis :: string

definition read_upload :: "'j gson \<Rightarrow> ('j \<Rightarrow> bool result) \<Rightarrow> ('j, 'w) ghidra_remote \<Rightarrow> 'j \<Rightarrow> upload_members result" where
  "read_upload G asBoolean R req =
     res_bind (item_members G R req) (\<lambda>(repo, folder, item).
     res_bind (member_as G R (jl_get_string G) req ''data'') (\<lambda>b64Data.
     res_bind (strOrDefault G req ''comment'' ''Uploaded from Binary Ninja'') (\<lambda>comment.
     res_bind (member_or G asBoolean False req ''keep_checkout'') (\<lambda>keepCheckout.
     res_bind (member_as G R (jl_get_string G) req ''host'') (\<lambda>host.
     res_bind (member_as G R (jl_get_int G) req ''port'') (\<lambda>port.
     res_bind (member_as G R (jl_get_string G) req ''user'') (\<lambda>user.
     res_bind (strOrDefault G req ''password'' []) (\<lambda>password.
     res_bind (strOrDefault G req ''analysis_json'' []) (\<lambda>analysisJson.
     Inr \<lparr>um_repo = repo, um_folder = folder, um_item = item, um_data = b64Data, um_comment = comment,
          um_keepCheckout = keepCheckout, um_host = host, um_port = port, um_user = user, um_password = password,
          um_analysis = analysisJson\<rparr>)))))))))"

definition serverUrl :: "upload_members \<Rightarrow> string" where
  "serverUrl m = ''ghidra://'' @ um_user m @ ''@'' @ um_host m @ '':'' @ to_string_i32 (um_port m) @ ''/'' @ um_repo m"

definition quote_char :: char where
  "quote_char = CHR 0x22"

text \<open>The directory of the script and the file of the annotations, if there are any, as options\<close>

definition script_options :: "(string \<times> string) option \<Rightarrow> string" where
  "script_options ann =
     (case ann of
        None \<Rightarrow> []
      | Some (scriptDir, dataFile) \<Rightarrow>
          '' -scriptPath '' @ quoted scriptDir @ '' -postScript BinjaSyncScript.java '' @ quoted dataFile)"

definition headless_line :: "string \<Rightarrow> upload_members \<Rightarrow> string \<Rightarrow> (string \<times> string) option \<Rightarrow> string" where
  "headless_line script m tempBin ann =
     quoted script @ '' '' @ quoted (serverUrl m) @ '' -connect '' @ um_user m @
     (if um_password m \<noteq> [] then '' -p'' else []) @ '' -import '' @ quoted tempBin @ '' -noanalysis'' @
     script_options ann @ '' -commit '' @ quoted (replace_char quote_char [CHR 0x27] (um_comment m)) @
     (if um_folder m \<noteq> ''/'' then '' -folder '' @ um_folder m else [])"

definition headless_cmd :: "'w headless_env \<Rightarrow> string \<Rightarrow> string list" where
  "headless_cmd E sh = (if isWin E then [''cmd.exe'', ''/c'', sh] else [''/bin/sh'', ''-c'', sh])"

text \<open>
  What happens to temporary files, and the process. A deletion is asked for: \<open>deleteRecursively\<close> and the handler ignore
  what \<open>File.delete\<close> returns.
\<close>

datatype file_call = MakeDir string | MakeFile string | Headless headless_run | DeleteTree string | DeleteFile string

text \<open>
  The files for a run in the directory of the binary: the path of the binary, the options' paths and the contents,
  or the exception; then \<open>scriptDir\<close> and \<open>dataFile\<close> as they are at this point, and the calls that made them.
\<close>

definition temp_files ::
    "'w headless_env \<Rightarrow> string \<Rightarrow> upload_members \<Rightarrow> string \<Rightarrow>
     (string \<times> (string \<times> string) option \<times> (string \<times> string) list) result \<times> string option \<times> string option \<times> file_call list" where
  "temp_files E dir m bytes =
     (let tempBin = dir @ he_separator E @ sanitize (um_item m) in
      case he_write E tempBin of
        Inl e \<Rightarrow> (Inl e, None, None, [])
      | Inr _ \<Rightarrow>
          if um_analysis m = [] then (Inr (tempBin, None, [(tempBin, bytes)]), None, None, [])
          else
            (case he_tempDirectory E ''binja_script_'' of
               Inl e \<Rightarrow> (Inl e, None, None, [])
             | Inr scriptDir \<Rightarrow>
                 (case he_tempFile E ''binja_data_'' ''.tsv'' of
                    Inl e \<Rightarrow> (Inl e, Some scriptDir, None, [MakeDir scriptDir])
                  | Inr dataFile \<Rightarrow>
                      let scriptFile = scriptDir @ he_separator E @ ''BinjaSyncScript.java'' in
                      (res_bind (he_write E dataFile) (\<lambda>_.
                       res_bind (he_write E scriptFile) (\<lambda>_.
                       Inr (tempBin, Some (scriptDir, dataFile),
                            [(tempBin, bytes), (dataFile, um_analysis m), (scriptFile, he_syncScript E)]))),
                       Some scriptDir, Some dataFile, [MakeDir scriptDir, MakeFile dataFile]))))"

text \<open>The \<open>finally\<close> block\<close>

definition deleted_files :: "string \<Rightarrow> string option \<Rightarrow> string option \<Rightarrow> file_call list" where
  "deleted_files dir scriptDir dataFile =
     [DeleteTree dir] @ (case dataFile of None \<Rightarrow> [] | Some f \<Rightarrow> [DeleteFile f]) @
     (case scriptDir of None \<Rightarrow> [] | Some d \<Rightarrow> [DeleteTree d])"

text \<open>The exception for a process that did not end well: the last 500 characters of its output\<close>

definition headless_result :: "headless_exit \<Rightarrow> unit result" where
  "headless_result x =
     (case x of
        TimedOut \<Rightarrow> Inl ''analyzeHeadless timed out after 10 minutes''
      | Exited code output \<Rightarrow>
          if code = 0 then Inr ()
          else
            let tail = java_trim output;
                tail = (if 500 < length tail then [CHR 0xE2, CHR 0x80, CHR 0xA6] @ drop (length tail - 500) tail else tail) in
            Inl (''analyzeHeadless failed (exit '' @ to_string_i32 code @ '')'' @
                 (if tail = [] then [] else '':'' @ [newline] @ tail)))"

text \<open>The checkout that is kept on request; a null status leaves the id -1\<close>

definition keep_checkout ::
    "('j, 'w) ghidra_remote \<Rightarrow> upload_members \<Rightarrow> bridge_session \<Rightarrow> 'w \<Rightarrow> i64 result \<times> bridge_session \<times> 'w" where
  "keep_checkout R m S w =
     (if \<not> um_keepCheckout m then (Inr (- 1), S, w)
      else
        case session_openRepo R (um_repo m) w S of
          (Inl e, S) \<Rightarrow> (Inl e, S, w)
        | (Inr _, S) \<Rightarrow>
            (case getRepo (um_repo m) S of
               Inl e \<Rightarrow> (Inl e, S, w)
             | Inr _ \<Rightarrow>
                 (case gr_checkout R w (um_repo m) (um_folder m) (um_item m) ''NORMAL'' (gr_projectPath R) of
                    (Inl e, w) \<Rightarrow> (Inl e, S, w)
                  | (Inr None, w) \<Rightarrow> (Inr (- 1), S, w)
                  | (Inr (Some co), w) \<Rightarrow> (Inr (co_id co), S, w))))"

definition home_unknown :: string where
  "home_unknown = ''Ghidra home directory is not known to the bridge '' @ [CHR 0xE2, CHR 0x80, CHR 0x94] @
     '' restart Binary Ninja so the bridge picks up the path.''"

text \<open>The body of the \<open>try\<close> block: the outcome, the two variables the \<open>finally\<close> block looks at, and the calls\<close>

definition upload_body ::
    "'j gson \<Rightarrow> ('j, 'w) ghidra_remote \<Rightarrow> 'w headless_env \<Rightarrow> upload_members \<Rightarrow> string \<Rightarrow> string \<Rightarrow> bridge_session \<Rightarrow> 'w \<Rightarrow>
     ('j, 'w) handled \<times> string option \<times> string option \<times> file_call list" where
  "upload_body G R E m bytes dir S w =
     (case temp_files E dir m bytes of
        (Inl e, scriptDir, dataFile, calls) \<Rightarrow> ((Inl e, S, w), scriptDir, dataFile, calls)
      | (Inr (tempBin, ann, files), scriptDir, dataFile, calls) \<Rightarrow>
          (let run = \<lparr>hr_cmd = headless_cmd E (headless_line (headless_script E) m tempBin ann),
                      hr_stdin = (if um_password m \<noteq> [] then um_password m @ [newline] else []), hr_files = files\<rparr>;
               calls = calls @ [Headless run] in
           case he_run E run w of
             (Inl e, w) \<Rightarrow> ((Inl e, S, w), scriptDir, dataFile, calls)
           | (Inr x, w) \<Rightarrow>
               (case headless_result x of
                  Inl e \<Rightarrow> ((Inl e, S, w), scriptDir, dataFile, calls)
                | Inr _ \<Rightarrow>
                    (case keep_checkout R m S w of
                       (Inl e, S, w) \<Rightarrow> ((Inl e, S, w), scriptDir, dataFile, calls)
                     | (Inr checkoutId, S, w) \<Rightarrow>
                         ((Inr [(''checkout_id'', jl_int64 G checkoutId)], S, w), scriptDir, dataFile, calls)))))"

text \<open>The \<open>try\<close> with its \<open>finally\<close>, after the temporary directory was made\<close>

definition upload_in ::
    "'j gson \<Rightarrow> ('j, 'w) ghidra_remote \<Rightarrow> 'w headless_env \<Rightarrow> upload_members \<Rightarrow> string \<Rightarrow> string \<Rightarrow> bridge_session \<Rightarrow> 'w \<Rightarrow>
     ('j, 'w) handled \<times> file_call list" where
  "upload_in G R E m bytes dir S w =
     (let (outcome, scriptDir, dataFile, calls) = upload_body G R E m bytes dir S w
      in (outcome, [MakeDir dir] @ calls @ deleted_files dir scriptDir dataFile))"

definition opUploadBinary ::
    "'j gson \<Rightarrow> ('j \<Rightarrow> bool result) \<Rightarrow> ('j, 'w) ghidra_remote \<Rightarrow> 'w headless_env \<Rightarrow> 'j \<Rightarrow> bridge_session \<Rightarrow> 'w \<Rightarrow>
     ('j, 'w) handled \<times> file_call list" where
  "opUploadBinary G asBoolean R E req S w =
     (case res_bind (read_upload G asBoolean R req) (\<lambda>m.
           if he_ghidraHome E = [] then Inl home_unknown
           else if \<not> he_exists E (headless_script E) then Inl (''analyzeHeadless not found: '' @ headless_script E)
           else res_bind (mime_decode (um_data m)) (\<lambda>bytes.
                res_bind (he_tempDirectory E ''binja_bin_'') (\<lambda>dir. Inr (m, bytes, dir)))) of
        Inl e \<Rightarrow> ((Inl e, S, w), [])
      | Inr (m, bytes, dir) \<Rightarrow> upload_in G R E m bytes dir S w)"

text \<open>Both handlers as the dispatch calls them\<close>

definition file_handlers ::
    "'j gson \<Rightarrow> ('j \<Rightarrow> bool result) \<Rightarrow> ('j, 'w) ghidra_remote \<Rightarrow> 'w headless_env \<Rightarrow> ('j, 'w) file_ops" where
  "file_handlers G asBoolean R E oper req S w =
     (if oper = ''download_binary'' then opDownloadBinary G R E req S w
      else fst (opUploadBinary G asBoolean R E req S w))"

end
