(* ===== verification/File_Props.thy ===== *)
theory File_Props
  imports File_Handlers Rpc_Props
begin

text \<open>
  Binary files over the wire: the locale \<open>base64_codec\<close> is what is relied on of Binary Ninja's Base64, and \<open>binary_link\<close> adds it to a client and a
  bridge whose file operations are the handlers. Downloads and uploads are then followed from the plugin to the
  database and to \<open>analyzeHeadless\<close>.
\<close>

section \<open>Over the wire\<close>

text \<open>
  \<open>DataBuffer::ToBase64\<close> and \<open>FromBase64\<close> of Binary Ninja: the first may put line breaks between the groups of four, the
  second reads what the bridge's encoder writes.
\<close>

locale base64_codec =
  fixes toBase64 :: "string \<Rightarrow> string" and fromBase64 :: "string \<Rightarrow> string"
  assumes wrapped: "\<exists>breaks. length breaks = length (encode_groups b) \<and> list_all (\<lambda>s. set s \<subseteq> {newline, carriage_return}) breaks \<and>
      toBase64 b = concat (map2 (@) (encode_groups b) breaks)"
    and unwrapped: "fromBase64 (encodeToString b) = b"
begin

lemma break_ignored: "set s \<subseteq> {newline, carriage_return} \<Longrightarrow> ignored s"
proof -
  have "base64_value newline = None \<and> newline \<noteq> CHR ''=''" "base64_value carriage_return = None \<and> carriage_return \<noteq> CHR ''=''"
    by code_simp+
  then show "set s \<subseteq> {newline, carriage_return} \<Longrightarrow> ignored s" by (auto simp: ignored_def list_all_iff)
qed

lemma bytes_decoded: "mime_decode (toBase64 b) = Inr b"
proof -
  obtain breaks where "length breaks = length (encode_groups b)" "list_all (\<lambda>s. set s \<subseteq> {newline, carriage_return}) breaks"
    and b: "toBase64 b = concat (map2 (@) (encode_groups b) breaks)"
    using wrapped by blast
  then have "length breaks = length (encode_groups b)" "list_all ignored breaks"
    using break_ignored by (auto simp: list_all_iff)
  then show ?thesis unfolding b by (rule mime_roundtrip)
qed

end

definition upload_of ::
    "ghidra_conn \<Rightarrow> string \<Rightarrow> string \<Rightarrow> string \<Rightarrow> string \<Rightarrow> string \<Rightarrow> bool \<Rightarrow> string \<Rightarrow> upload_members" where
  "upload_of K repo folder item b64 comment keep analysis =
     \<lparr>um_repo = repo, um_folder = folder, um_item = item, um_data = b64, um_comment = comment, um_keepCheckout = keep,
      um_host = m_host K, um_port = m_port K, um_user = m_user K, um_password = m_password K, um_analysis = analysis\<rparr>"

locale binary_link = bridge_link J G R "file_handlers G asBoolean R E" eol sock cb C + base64_codec toBase64 fromBase64
  for J :: "'j json_lib" and G :: "'j gson" and asBoolean :: "'j \<Rightarrow> bool result" and R :: "('j, 'w) ghidra_remote" and E :: "'w headless_env"
    and eol sock and cb :: 'c and C toBase64 fromBase64 +
  assumes as_boolean: "asBoolean (jl_bool J b) = Inr b"
begin

lemma extracted_sent: "binary_file J fromBase64 (extractedToJson G f) = Inr f"
  by (simp add: binary_file_def extractedToJson_def documents object_reads unwrapped)

lemma download_wire:
  assumes "fits J C (item_request J ''download_binary'' (item_args J repo folder item @ [(''version'', jl_int J version)]))"
    and "list_all (\<lambda>e. jl_contains J e ''event'') before"
  shows "downloadBinary J fromBase64 (over_wire J G R (file_handlers G asBoolean R E) eol sock before after cb C (S, w)) repo folder item version =
    in_repo S repo (res_bind (he_fileBytes E w repo folder item version) extract_files)"
proof -
  have "downloadBinary J fromBase64 (over_wire J G R (file_handlers G asBoolean R E) eol sock before after cb C (S, w)) repo folder item version =
      res_bind (in_repo S repo (res_bind (he_fileBytes E w repo folder item version) extract_files)) (\<lambda>fs. Inr (map (\<lambda>f. f) fs))"
    unfolding downloadBinary_def
    by (rule array_op [OF assms, where enc = "extractedToJson G" and rest = "\<lambda>_. []"])
      (simp_all add: dispatch_op_def file_handlers_def opDownloadBinary_def request_reads in_repo_def res_bind_assoc
        good_members_def extracted_sent)
  then show ?thesis by simp
qed

lemma upload_read:
  "read_upload G asBoolean R (numbered J C (upload_request J toBase64 K repo folder item bytes comment keep analysis)) =
   Inr (upload_of K repo folder item (toBase64 bytes) comment keep analysis)"
  by (simp add: read_upload_def upload_request_def upload_of_def request_reads as_boolean)

lemma upload_wire:
  assumes "isBridgeConnected V K" and "m_serverConnected K" and "bytes \<noteq> []"
    and "fits J C (upload_request J toBase64 K repo folder item bytes comment keep analysis)"
    and "list_all (\<lambda>e. jl_contains J e ''event'') before"
    and "he_ghidraHome E \<noteq> []" and "he_exists E (headless_script E)" and "he_tempDirectory E ''binja_bin_'' = Inr dir"
  shows "uploadBinary J toBase64 V (over_wire J G R (file_handlers G asBoolean R E) eol sock before after cb C (S, w)) K
      repo folder item bytes comment keep analysis =
    map_sum id (\<lambda>_. ()) (fst (fst (upload_in G R E (upload_of K repo folder item (toBase64 bytes) comment keep analysis) bytes dir S w)))"
proof -
  let ?m = "upload_of K repo folder item (toBase64 bytes) comment keep analysis"
  let ?req = "upload_request J toBase64 K repo folder item bytes comment keep analysis"
  let ?r = "fst (dispatch_op G R (file_handlers G asBoolean R E) ''upload_binary'' (numbered J C ?req) S w)"
  have r: "?r = fst (fst (upload_in G R E ?m bytes dir S w))"
    using assms(6-8) bytes_decoded [of bytes] upload_read [of K repo folder item bytes comment keep analysis]
    by (simp add: dispatch_op_def file_handlers_def opUploadBinary_def upload_of_def)
  have good: "good_members ?r"
    unfolding r upload_in_def upload_body_def by (auto simp: good_members_def Let_def split: prod.split sum.split)
  have "bridge_op J (over_wire J G R (file_handlers G asBoolean R E) eol sock before after cb C (S, w)) ?req 660000 ''upload_binary failed'' (\<lambda>_. Inr ()) =
      (case ?r of Inl e \<Rightarrow> Inl e | Inr extra \<Rightarrow> Inr ())"
    unfolding upload_request_def
    by (rule wire_op) (use assms(4,5) good in \<open>simp_all add: upload_request_def item_args_def\<close>)
  then show ?thesis using assms(1-3) by (cases ?r) (simp_all add: uploadBinary_def r)
qed

end

section \<open>Temporary files and the password\<close>

text \<open>
  The temporary files and directories that some calls make, and those that are left after them when the deletion of a
  path succeeds or fails as \<open>deletes\<close> says
\<close>

definition made_paths :: "file_call list \<Rightarrow> string set" where
  "made_paths calls = {p. MakeDir p \<in> set calls \<or> MakeFile p \<in> set calls}"

lemma made_paths_simps [simp]:
  "made_paths [] = {}" "made_paths (cs @ ds) = made_paths cs \<union> made_paths ds"
  "made_paths (MakeDir p # cs) = insert p (made_paths cs)" "made_paths (MakeFile p # cs) = insert p (made_paths cs)"
  "made_paths (Headless run # cs) = made_paths cs"
  "made_paths (DeleteTree p # cs) = made_paths cs" "made_paths (DeleteFile p # cs) = made_paths cs"
  by (auto simp: made_paths_def)

fun temp_left :: "(string \<Rightarrow> bool) \<Rightarrow> file_call list \<Rightarrow> string set \<Rightarrow> string set" where
  "temp_left deletes [] paths = paths"
| "temp_left deletes (MakeDir p # cs) paths = temp_left deletes cs (insert p paths)"
| "temp_left deletes (MakeFile p # cs) paths = temp_left deletes cs (insert p paths)"
| "temp_left deletes (Headless run # cs) paths = temp_left deletes cs paths"
| "temp_left deletes (DeleteTree p # cs) paths = temp_left deletes cs (if deletes p then paths - {p} else paths)"
| "temp_left deletes (DeleteFile p # cs) paths = temp_left deletes cs (if deletes p then paths - {p} else paths)"

definition is_deletion :: "file_call \<Rightarrow> bool" where
  "is_deletion c = (case c of DeleteTree p \<Rightarrow> True | DeleteFile p \<Rightarrow> True | _ \<Rightarrow> False)"

lemma is_deletion_simps [simp]:
  "\<not> is_deletion (MakeDir p)" "\<not> is_deletion (MakeFile p)" "\<not> is_deletion (Headless run)"
  "is_deletion (DeleteTree p)" "is_deletion (DeleteFile p)"
  by (simp_all add: is_deletion_def)

definition without_input :: "file_call \<Rightarrow> file_call" where
  "without_input c = (case c of Headless run \<Rightarrow> Headless (run\<lparr>hr_stdin := []\<rparr>) | c \<Rightarrow> c)"

text \<open>What the body of the upload makes is what the two variables name.\<close>

lemma temp_files_named:
  "temp_files E dir m bytes = (x, sd, df, calls) \<Longrightarrow>
   list_all (\<lambda>c. \<not> is_deletion c) calls \<and> made_paths calls = set_option sd \<union> set_option df"
  by (auto simp: temp_files_def Let_def split: sum.splits if_splits)

text \<open>The calls and the variables do not depend on what the process and the server answer.\<close>

lemma upload_body_calls:
  "snd (upload_body G R E m bytes dir S w) =
     (case temp_files E dir m bytes of
        (Inl e, sd, df, calls) \<Rightarrow> (sd, df, calls)
      | (Inr (tempBin, ann, files), sd, df, calls) \<Rightarrow>
          (sd, df, calls @ [Headless \<lparr>hr_cmd = headless_cmd E (headless_line (headless_script E) m tempBin ann),
             hr_stdin = (if um_password m \<noteq> [] then um_password m @ [newline] else []), hr_files = files\<rparr>]))"
  by (simp add: upload_body_def Let_def split: prod.split sum.split)

lemma upload_body_named:
  assumes "upload_body G R E m bytes dir S w = (outcome, sd, df, calls)"
  shows "list_all (\<lambda>c. \<not> is_deletion c) calls \<and> made_paths calls = set_option sd \<union> set_option df"
proof -
  obtain x sd' df' cs where t: "temp_files E dir m bytes = (x, sd', df', cs)" by (metis prod_cases4)
  have "sd = sd' \<and> df = df' \<and> (calls = cs \<or> (\<exists>run. calls = cs @ [Headless run]))"
    using arg_cong [OF assms, of snd] unfolding upload_body_calls t by (cases x) (auto split: prod.splits)
  with temp_files_named [OF t] show ?thesis by (elim conjE disjE exE) simp_all
qed

lemma temp_left_made:
  "list_all (\<lambda>c. \<not> is_deletion c) calls \<Longrightarrow> temp_left deletes (calls @ rest) paths = temp_left deletes rest (paths \<union> made_paths calls)"
  by (induction deletes calls paths rule: temp_left.induct) (simp_all add: insert_commute)

lemma temp_left_deleted:
  "temp_left deletes (deleted_files dir sd df) paths = paths - {p \<in> {dir} \<union> set_option sd \<union> set_option df. deletes p}"
  by (auto simp: deleted_files_def split: option.splits)

lemma upload_in_left:
  assumes "calls = snd (upload_in G R E m bytes dir S w)"
  shows "temp_left deletes calls {} = {p \<in> made_paths calls. \<not> deletes p}"
    "calls = filter (\<lambda>c. \<not> is_deletion c) calls @ filter is_deletion calls"
proof -
  obtain outcome sd df cs where body: "upload_body G R E m bytes dir S w = (outcome, sd, df, cs)" by (metis prod_cases4)
  note named = upload_body_named [OF body]
  have calls: "calls = (MakeDir dir # cs) @ deleted_files dir sd df" using body by (simp add: assms upload_in_def)
  have del: "list_all is_deletion (deleted_files dir sd df)" "made_paths (deleted_files dir sd df) = {}"
    by (simp_all add: deleted_files_def split: option.split)
  have made: "made_paths calls = {dir} \<union> set_option sd \<union> set_option df"
    using named del(2) by (simp add: calls Un_assoc)
  have "temp_left deletes calls {} = ({} \<union> made_paths (MakeDir dir # cs)) - {p \<in> {dir} \<union> set_option sd \<union> set_option df. deletes p}"
    unfolding calls using named by (subst temp_left_made) (simp_all add: temp_left_deleted)
  moreover have "made_paths (MakeDir dir # cs) = made_paths calls" using named made by simp
  ultimately show "temp_left deletes calls {} = {p \<in> made_paths calls. \<not> deletes p}" using made by auto
  show "calls = filter (\<lambda>c. \<not> is_deletion c) calls @ filter is_deletion calls"
    using named del(1) unfolding calls filter_append
    by (simp add: list_all_iff)
qed

lemma upload_in_calls:
  "snd (upload_in G R E m bytes dir S w) =
     (case snd (upload_body G R E m bytes dir S w) of (sd, df, calls) \<Rightarrow> MakeDir dir # calls @ deleted_files dir sd df)"
  by (simp add: upload_in_def split: prod.split)

lemma temp_files_password: "temp_files E dir (m\<lparr>um_password := p\<rparr>) bytes = temp_files E dir m bytes"
  by (simp add: temp_files_def Let_def split: sum.split)

text \<open>The files of a run when all of them can be made, and what the handler then answers\<close>

lemma temp_files_made:
  assumes "\<forall>p. he_write E p = Inr ()" and "he_tempDirectory E ''binja_script_'' = Inr sdir"
    and "he_tempFile E ''binja_data_'' ''.tsv'' = Inr dfile"
  shows "\<exists>sd df calls. temp_files E dir m bytes =
    (Inr (dir @ he_separator E @ sanitize (um_item m), if um_analysis m = [] then None else Some (sdir, dfile),
       (dir @ he_separator E @ sanitize (um_item m), bytes) # (if um_analysis m = [] then []
         else [(dfile, um_analysis m), (sdir @ he_separator E @ ''BinjaSyncScript.java'', he_syncScript E)])), sd, df, calls)"
  using assms by (simp add: temp_files_def Let_def)

lemma upload_in_result:
  assumes "temp_files E dir m bytes = (Inr (tempBin, ann, files), sd, df, calls)"
    and "run = \<lparr>hr_cmd = headless_cmd E (headless_line (headless_script E) m tempBin ann),
      hr_stdin = (if um_password m = [] then [] else um_password m @ [newline]), hr_files = files\<rparr>"
  shows "fst (fst (upload_in G R E m bytes dir S w)) =
    (case he_run E run w of
       (Inl e, w') \<Rightarrow> Inl e
     | (Inr x, w') \<Rightarrow> res_bind (headless_result x) (\<lambda>_.
         res_bind (fst (keep_checkout R m S w')) (\<lambda>coId. Inr [(''checkout_id'', jl_int64 G coId)])))"
proof -
  have "run = \<lparr>hr_cmd = headless_cmd E (headless_line (headless_script E) m tempBin ann),
      hr_stdin = (if um_password m \<noteq> [] then um_password m @ [newline] else []), hr_files = files\<rparr>"
    by (simp add: assms(2))
  then show ?thesis unfolding upload_in_def upload_body_def assms(1) by (simp add: Let_def split: prod.split sum.split)
qed

lemma line_password:
  "p \<noteq> [] \<Longrightarrow> um_password m \<noteq> [] \<Longrightarrow> headless_line script (m\<lparr>um_password := p\<rparr>) tempBin ann = headless_line script m tempBin ann"
  by (simp add: headless_line_def serverUrl_def)

section \<open>An executable instance\<close>

definition wrap64 :: "string \<Rightarrow> string" where
  "wrap64 b = concat (map (\<lambda>g. g @ [newline]) (encode_groups b))"

definition unwrap64 :: "string \<Rightarrow> string" where
  "unwrap64 s = (case mime_decode s of Inl _ \<Rightarrow> [] | Inr b \<Rightarrow> b)"

definition tree_boolean :: "jtree \<Rightarrow> bool result" where
  "tree_boolean j = (case j of JBool b \<Rightarrow> Inr b | _ \<Rightarrow> Inl ''no boolean'')"

interpretation coded: binary_link text_json text_gson tree_boolean R E "[newline]" "\<lambda>k bytes. 1" "''cb''" ready_client wrap64 unwrap64 for R E
proof unfold_locales
  show "\<exists>breaks. length breaks = length (encode_groups b) \<and> list_all (\<lambda>s. set s \<subseteq> {newline, carriage_return}) breaks \<and>
      wrap64 b = concat (map2 (@) (encode_groups b) breaks)" for b
    by (rule exI [of _ "map (\<lambda>_. [newline]) (encode_groups b)"])
      (simp add: wrap64_def list_all_iff map_zip_map2 zip_same_conv_map comp_def)
  have "encodeToString b = concat (map2 (@) (encode_groups b) (map (\<lambda>_. []) (encode_groups b)))" for b
    by (simp add: encodeToString_def map_zip_map2 zip_same_conv_map comp_def)
  then have "mime_decode (encodeToString b) = Inr b" for b
    using mime_roundtrip [of "map (\<lambda>_. []) (encode_groups b)" b] by (simp add: ignored_def list_all_iff)
  then show "unwrap64 (encodeToString b) = b" for b by (simp add: unwrap64_def)
qed (simp add: tree_boolean_def text_json_def tree_json_with_def)

text \<open>A process that ends well if it finds the binary and the annotations\<close>

definition sample_headless :: "CheckoutInfo list headless_env" where
  "sample_headless =
     \<lparr>he_ghidraHome = ''/opt/ghidra'', he_osName = ''Linux'', he_separator = ''/'', he_syncScript = ''script'',
      he_exists = (\<lambda>_. True), he_fileBytes = (\<lambda>_ _ _ _ _. Inr [\<lparr>fb_filename = ''a.exe'', fb_size = 4, fb_original = (\<lambda>_. Inr ''MZ'')\<rparr>]),
      he_tempDirectory = (\<lambda>p. Inr (''/tmp/'' @ p)), he_tempFile = (\<lambda>p s. Inr (''/tmp/'' @ p @ s)), he_write = (\<lambda>_. Inr ()),
      he_run = (\<lambda>r w. (Inr (Exited (if map snd (hr_files r) = [''MZ'', ''notes'', ''script''] then 0 else 1) []), w))\<rparr>"

definition sample_upload_members :: upload_members where
  "sample_upload_members = \<lparr>um_repo = ''r'', um_folder = ''/'', um_item = ''a.exe'', um_data = [], um_comment = ''it costs 5$'', um_keepCheckout = False,
     um_host = ''srv'', um_port = 13100, um_user = ''ann'', um_password = ''pw'', um_analysis = []\<rparr>"

section \<open>Properties\<close>

text \<open>
  C26: downloads are the files of the database. Over the wire \<open>downloadBinary\<close> returns, byte for byte, the files
  \<open>BinaryExtractor\<close> takes from the version of the item: those of 1 to 512 MB in their order, filled with zeros where the
  database gives fewer bytes; or the message of the exception, also when the repository is not open.
\<close>

theorem download_over_wire:
  assumes "binary_link J G asBoolean eol sock cb C toBase64 fromBase64" and "list_all (\<lambda>e. jl_contains J e ''event'') before"
    and "fits J C (item_request J ''download_binary'' (item_args J repo folder item @ [(''version'', jl_int J version)]))"
  shows "downloadBinary J fromBase64 (over_wire J G R (file_handlers G asBoolean R E) eol sock before after cb C (S, w)) repo folder item version =
    in_repo S repo (res_bind (he_fileBytes E w repo folder item version) extract_files)"
  using binary_link.download_wire [OF assms(1,3,2)] .

theorem download_over_wire_witness:
  "downloadBinary text_json unwrap64 (over_wire text_json text_gson sample_remote (file_handlers text_gson tree_boolean sample_remote sample_headless)
     [newline] (\<lambda>k bytes. 1) [] [] ''cb'' ready_client (sample_bridge, [])) ''r'' ''/'' ''a.exe'' (- 1) =
   Inr [\<lparr>bf_filename = ''a.exe'', bf_bytes = ''MZ'' @ [CHR 0x00, CHR 0x00]\<rparr>]"
proof -
  have f: "fits text_json ready_client (item_request text_json ''download_binary''
      (item_args text_json ''r'' ''/'' ''a.exe'' @ [(''version'', jl_int text_json (- 1))]))" by code_simp
  have "in_repo sample_bridge ''r'' (res_bind (he_fileBytes sample_headless [] ''r'' ''/'' ''a.exe'' (- 1)) extract_files) =
      Inr [\<lparr>bf_filename = ''a.exe'', bf_bytes = ''MZ'' @ [CHR 0x00, CHR 0x00]\<rparr>]" by code_simp
  with download_over_wire [OF coded.binary_link_axioms _ f, where before = "[]" and after = "[]" and S = sample_bridge and R = sample_remote
      and E = sample_headless and w = "[]"]
  show ?thesis by simp
qed

text \<open>
  C25: an upload hands \<open>analyzeHeadless\<close> what the plugin was given. When the temporary files can be made, the process
  gets the bytes of the binary in a file named after the item, with every character other than letters, digits, dot,
  underscore and hyphen replaced by an underscore; the annotations in the file its script reads; the account of the
  session on its command line and the password on its input. The plugin's upload succeeds when the process ends with 0
  and, if a checkout was asked for, opening the repository and the checkout throw nothing, also when the server gives no
  checkout; otherwise it returns the message.
\<close>

theorem upload_over_wire:
  assumes "binary_link J G asBoolean eol sock cb C toBase64 fromBase64" and "list_all (\<lambda>e. jl_contains J e ''event'') before"
    and "isBridgeConnected V K" and "m_serverConnected K" and "bytes \<noteq> []"
    and "fits J C (upload_request J toBase64 K repo folder item bytes comment keep analysis)"
    and "he_ghidraHome E \<noteq> []" and "he_exists E (headless_script E)" and "\<forall>p. he_write E p = Inr ()"
    and "he_tempDirectory E ''binja_bin_'' = Inr dir" and "he_tempDirectory E ''binja_script_'' = Inr sdir"
    and "he_tempFile E ''binja_data_'' ''.tsv'' = Inr dfile"
    and "m = upload_of K repo folder item (toBase64 bytes) comment keep analysis"
    and "tempBin = dir @ he_separator E @ sanitize item"
    and "run = \<lparr>hr_cmd = headless_cmd E (headless_line (headless_script E) m tempBin (if analysis = [] then None else Some (sdir, dfile))),
      hr_stdin = (if m_password K = [] then [] else m_password K @ [newline]),
      hr_files = (tempBin, bytes) # (if analysis = [] then []
        else [(dfile, analysis), (sdir @ he_separator E @ ''BinjaSyncScript.java'', he_syncScript E)])\<rparr>"
  shows "uploadBinary J toBase64 V (over_wire J G R (file_handlers G asBoolean R E) eol sock before after cb C (S, w)) K
      repo folder item bytes comment keep analysis =
    (case he_run E run w of
       (Inl e, w') \<Rightarrow> Inl e
     | (Inr x, w') \<Rightarrow> res_bind (headless_result x) (\<lambda>_. map_sum id (\<lambda>_. ()) (fst (keep_checkout R m S w'))))"
proof -
  have "uploadBinary J toBase64 V (over_wire J G R (file_handlers G asBoolean R E) eol sock before after cb C (S, w)) K
      repo folder item bytes comment keep analysis = map_sum id (\<lambda>_. ()) (fst (fst (upload_in G R E m bytes dir S w)))"
    unfolding assms(13) by (rule binary_link.upload_wire [OF assms(1,3-6,2,7,8,10)])
  moreover have m: "um_item m = item" "um_analysis m = analysis" "um_password m = m_password K"
    by (simp_all add: assms(13) upload_of_def)
  moreover obtain sd df calls where "temp_files E dir m bytes =
      (Inr (tempBin, if analysis = [] then None else Some (sdir, dfile), (tempBin, bytes) # (if analysis = [] then []
         else [(dfile, analysis), (sdir @ he_separator E @ ''BinjaSyncScript.java'', he_syncScript E)])), sd, df, calls)"
    using temp_files_made [OF assms(9,11,12), of dir m bytes] unfolding m assms(14) by blast
  note r = upload_in_result [OF this assms(15) [folded m(3)], of G R S w]
  obtain y w' where "he_run E run w = (y, w')" by fastforce
  ultimately show ?thesis unfolding r
    by (cases y; cases "headless_result (projr y)"; cases "fst (keep_checkout R m S w')") simp_all
qed

theorem upload_over_wire_witness:
  "uploadBinary text_json wrap64 sample_env (over_wire text_json text_gson sample_remote
     (file_handlers text_gson tree_boolean sample_remote sample_headless) [newline] (\<lambda>k bytes. 1) [] [] ''cb'' ready_client (sample_bridge, []))
     connected_sample ''r'' ''/'' ''a b'' ''MZ'' ''first'' True ''notes'' = Inr ()"
proof -
  have f: "fits text_json ready_client (upload_request text_json wrap64 connected_sample ''r'' ''/'' ''a b'' ''MZ'' ''first'' True ''notes'')"
    by code_simp
  have c: "isBridgeConnected sample_env connected_sample" "m_serverConnected connected_sample" by code_simp+
  have k: "fst (keep_checkout sample_remote m sample_bridge []) \<noteq> Inl e" if "um_repo m = ''r''" for m e
    using that by (simp add: keep_checkout_def sample_remote_def sample_bridge_def session_openRepo_def has_key_def getRepo_def)
  note u = upload_over_wire [OF coded.binary_link_axioms _ c _ f _ _ _ _ _ _ refl refl refl, where before = "[]" and after = "[]"
      and S = sample_bridge and R = sample_remote and E = sample_headless and w = "[]" and dir = "''/tmp/binja_bin_''"
      and sdir = "''/tmp/binja_script_''" and dfile = "''/tmp/binja_data_.tsv''"]
  show ?thesis
    by (subst u) (use k [of "upload_of connected_sample ''r'' ''/'' ''a b'' (wrap64 ''MZ'') ''first'' True ''notes''"] in
      \<open>auto simp: sample_headless_def headless_result_def upload_of_def map_sum_def split: sum.split\<close>)
qed


text \<open>An upload with annotations, where the directory of the script cannot be deleted\<close>

definition annotated_request :: jtree where
  "annotated_request = upload_request text_json wrap64 connected_sample ''r'' ''/'' ''a b'' ''MZ'' ''first'' True ''notes''"


end
