(* ===== verification/Program_Applier.thy ===== *)
theory Program_Applier
  imports Rpc_Props
begin

text \<open>
  \<open>ProgramApplier\<close> of the Java bridge, which writes the arrays of a check-in into a Ghidra program, and the entry
  \<open>DatabaseImporter.apply\<close> that calls it. Ghidra's program API is a parameter: the record \<open>program_api\<close> over a state \<open>'p\<close>
  of a program, data types \<open>'t\<close> and equates \<open>'e\<close>. A call that may throw or change the program is an action, a
  function of the program to a result and a program. A symbol and a function are the key they are looked up by, a
  bookmark is its id, an address its offset. Counts are Java \<open>int\<close>s. What the applier prints is left out.
\<close>

section \<open>Actions\<close>

type_synonym ('p, 'a) act = "'p \<Rightarrow> 'a result \<times> 'p"

definition act_return :: "'a \<Rightarrow> ('p, 'a) act" where
  "act_return x = (\<lambda>p. (Inr x, p))"

definition act_lift :: "'a result \<Rightarrow> ('p, 'a) act" where
  "act_lift r = (\<lambda>p. (r, p))"

definition act_bind :: "('p, 'a) act \<Rightarrow> ('a \<Rightarrow> ('p, 'b) act) \<Rightarrow> ('p, 'b) act" where
  "act_bind m f = (\<lambda>p. case m p of (Inl e, p) \<Rightarrow> (Inl e, p) | (Inr x, p) \<Rightarrow> f x p)"

text \<open>A look at the program, and a \<open>try\<close> that keeps what was done and goes on with a value\<close>

definition act_look :: "('p \<Rightarrow> ('p, 'a) act) \<Rightarrow> ('p, 'a) act" where
  "act_look f = (\<lambda>p. f p p)"

definition act_try :: "('p, 'a) act \<Rightarrow> 'a \<Rightarrow> ('p, 'a) act" where
  "act_try m d = (\<lambda>p. case m p of (Inl e, p) \<Rightarrow> (Inr d, p) | (Inr x, p) \<Rightarrow> (Inr x, p))"

fun act_fold :: "('x \<Rightarrow> 's \<Rightarrow> ('p, 's) act) \<Rightarrow> 'x list \<Rightarrow> 's \<Rightarrow> ('p, 's) act" where
  "act_fold f [] s = act_return s"
| "act_fold f (x # xs) s = act_bind (f x s) (act_fold f xs)"

text \<open>\<open>m; return s\<close>\<close>

definition act_then :: "('p, 'a) act \<Rightarrow> 's \<Rightarrow> ('p, 's) act" where
  "act_then m s = act_bind m (\<lambda>_. act_return s)"

section \<open>Ghidra's program API\<close>

text \<open>
  \<open>pg_symbolRows\<close> and \<open>pg_equateRows\<close> are the rows of two raw tables as far as they can be read: the key with the
  type and address fields, and the key with the name. \<open>pg_rowsError\<close> is the exception of the first iteration, if any.
  A member of a structure or union is given by type, length, name and comment.
\<close>

record ('p, 't, 'e) program_api =
  pg_address :: "i64 \<Rightarrow> u64 result"
  pg_symbolRows :: "'p \<Rightarrow> (i64 \<times> 8 word result \<times> i64 result) list option"
  pg_rowsError :: "'p \<Rightarrow> bool"
  pg_isVariableAddress :: "i64 \<Rightarrow> bool result"
  pg_deleteSymbolRow :: "i64 \<Rightarrow> ('p, unit) act"
  pg_hasSymbol :: "'p \<Rightarrow> i64 \<Rightarrow> bool result"
  pg_setName :: "i64 \<Rightarrow> string \<Rightarrow> ('p, unit) act"
  pg_createLabel :: "u64 \<Rightarrow> string \<Rightarrow> ('p, unit) act"
  pg_setComment :: "u64 \<Rightarrow> string \<Rightarrow> string option \<Rightarrow> ('p, unit) act"
  pg_equateRows :: "'p \<Rightarrow> (i64 \<times> string option) list"
  pg_getEquate :: "'p \<Rightarrow> string \<Rightarrow> 'e option result"
  pg_equateData :: "'p \<Rightarrow> 'e \<Rightarrow> (i64 \<times> (u64 \<times> i32) list \<times> string) result"
  pg_removeEquate :: "string \<Rightarrow> ('p, unit) act"
  pg_createEquate :: "string \<Rightarrow> i64 \<Rightarrow> ('p, 'e) act"
  pg_addReference :: "'e \<Rightarrow> u64 \<Rightarrow> i32 \<Rightarrow> ('p, unit) act"
  pg_getBookmarks :: "'p \<Rightarrow> u64 \<Rightarrow> string \<Rightarrow> i64 list result"
  pg_removeBookmark :: "i64 \<Rightarrow> ('p, unit) act"
  pg_setBookmark :: "u64 \<Rightarrow> string \<Rightarrow> string \<Rightarrow> string \<Rightarrow> ('p, unit) act"
  pg_getDataType :: "'p \<Rightarrow> string \<Rightarrow> 't option result"
  pg_parseType :: "'p \<Rightarrow> string \<Rightarrow> 't option result"
  pg_length :: "'t \<Rightarrow> i32"
  pg_undefined :: "i32 \<Rightarrow> 't"
  pg_undefined1 :: 't
  pg_default :: 't
  pg_structure :: "string \<Rightarrow> i32 \<Rightarrow> 't result"
  pg_insertAtOffset :: "i32 \<Rightarrow> 't \<Rightarrow> i32 \<Rightarrow> string option \<Rightarrow> string option \<Rightarrow> 't \<Rightarrow> 't result"
  pg_structureAdd :: "'t \<Rightarrow> i32 \<Rightarrow> string option \<Rightarrow> string option \<Rightarrow> 't \<Rightarrow> 't result"
  pg_growStructure :: "i32 \<Rightarrow> 't \<Rightarrow> 't result"
  pg_union :: "string \<Rightarrow> 't result"
  pg_unionAdd :: "'t \<Rightarrow> i32 \<Rightarrow> string option \<Rightarrow> string option \<Rightarrow> 't \<Rightarrow> 't result"
  pg_enum :: "string \<Rightarrow> i32 \<Rightarrow> 't result"
  pg_enumAdd :: "string \<Rightarrow> i64 \<Rightarrow> string option \<Rightarrow> 't \<Rightarrow> 't result"
  pg_typedef :: "string \<Rightarrow> 't \<Rightarrow> 't result"
  pg_addDataType :: "'t \<Rightarrow> ('p, 't option) act"
  pg_removeDataType :: "'t \<Rightarrow> ('p, unit) act"
  pg_getID :: "'p \<Rightarrow> 't \<Rightarrow> i64 result"
  pg_isVariable :: "'p \<Rightarrow> i64 \<Rightarrow> bool result"
  pg_setVariableType :: "i64 \<Rightarrow> 't \<Rightarrow> ('p, unit) act"
  pg_getFunctionAt :: "'p \<Rightarrow> u64 \<Rightarrow> i64 option result"
  pg_parameterCount :: "'p \<Rightarrow> i64 \<Rightarrow> nat result"
  pg_setParameterName :: "i64 \<Rightarrow> nat \<Rightarrow> string \<Rightarrow> ('p, unit) act"
  pg_setParameterType :: "i64 \<Rightarrow> nat \<Rightarrow> 't \<Rightarrow> ('p, unit) act"
  pg_addParameter :: "i64 \<Rightarrow> string \<Rightarrow> 't \<Rightarrow> ('p, unit) act"
  pg_getDataAt :: "'p \<Rightarrow> u64 \<Rightarrow> u64 option result"
  pg_clearCodeUnits :: "u64 \<Rightarrow> u64 \<Rightarrow> ('p, unit) act"
  pg_createData :: "u64 \<Rightarrow> 't \<Rightarrow> ('p, unit) act"
  pg_getFunction :: "'p \<Rightarrow> i64 \<Rightarrow> bool result"
  pg_setReturnType :: "i64 \<Rightarrow> 't \<Rightarrow> ('p, unit) act"
  pg_callingConventions :: "string list result"
  pg_setCallingConvention :: "i64 \<Rightarrow> string \<Rightarrow> ('p, unit) act"

section \<open>Helpers\<close>

definition asObject :: "'j gson \<Rightarrow> 'j \<Rightarrow> 'j result" where
  "asObject G el = (if jl_is_object G el then Inr el else Inl ''Not a JSON Object'')"

definition getStr :: "'j gson \<Rightarrow> 'j \<Rightarrow> string \<Rightarrow> string \<Rightarrow> string result" where
  "getStr G obj key dflt = member_or G (jl_get_string G) dflt obj key"

definition nullIfEmpty :: "string \<Rightarrow> string option" where
  "nullIfEmpty s = (if s = [] then None else Some s)"

definition parseHexLong :: "string \<Rightarrow> i64 result" where
  "parseHexLong s =
     (if s = [] then Inr 0
      else
        let t = (if take 2 s = ''0x'' \<or> take 2 s = ''0X'' then drop 2 s else s) in
        case parseUnsignedLong16 t of
          None \<Rightarrow> Inl (''For input string: '' @ [CHR 0x22] @ t @ [CHR 0x22]) | Some v \<Rightarrow> Inr v)"

text \<open>\<open>c.has(key) ? parseHexLong(c.get(key).getAsString()) : -1\<close>\<close>

definition hex_member :: "'j gson \<Rightarrow> 'j \<Rightarrow> string \<Rightarrow> i64 result" where
  "hex_member G c key = member_or G (\<lambda>v. res_bind (jl_get_string G v) parseHexLong) (- 1) c key"

section \<open>Types\<close>

definition stdint_to_ghidra :: "(string \<times> string) list" where
  "stdint_to_ghidra =
     [(''int8_t'', ''sbyte''), (''uint8_t'', ''byte''), (''int16_t'', ''short''), (''uint16_t'', ''ushort''),
      (''int32_t'', ''int''), (''uint32_t'', ''uint''), (''int64_t'', ''longlong''), (''uint64_t'', ''ulonglong''),
      (''size_t'', ''ulonglong''), (''ssize_t'', ''longlong''), (''intptr_t'', ''longlong''), (''uintptr_t'', ''ulonglong'')]"

text \<open>Letters and digits, of ASCII: type names with other letters are not modelled.\<close>

definition identifier_char :: "char \<Rightarrow> bool" where
  "identifier_char c \<longleftrightarrow>
     97 \<le> char_code c \<and> char_code c \<le> 122 \<or> 65 \<le> char_code c \<and> char_code c \<le> 90 \<or> is_dec_digit c \<or> c = CHR ''_''"

definition normalizePrimitives :: "string \<Rightarrow> string" where
  "normalizePrimitives type =
     (let base = takeWhile identifier_char type in
      case map_of stdint_to_ghidra base of
        None \<Rightarrow> type | Some mapped \<Rightarrow> mapped @ drop (length base) type)"

text \<open>The separators of \<open>split("[\s*[<]+")\<close>; the first part of a text of separators only does not exist\<close>

definition type_separator :: "char \<Rightarrow> bool" where
  "type_separator c \<longleftrightarrow> is_space c \<or> c = CHR ''*'' \<or> c = CHR ''['' \<or> c = CHR ''<''"

definition first_part :: "string \<Rightarrow> string result" where
  "first_part s =
     (if s \<noteq> [] \<and> list_all type_separator s then Inl ''Index 0 out of bounds for length 0''
      else Inr (takeWhile (\<lambda>c. \<not> type_separator c) s))"

definition resolveDataType :: "('p, 't, 'e) program_api \<Rightarrow> 'p \<Rightarrow> string \<Rightarrow> 't option result" where
  "resolveDataType A p name =
     (if name = [] then Inr None
      else
        let trimmed = normalizePrimitives (java_trim name) in
        res_bind (pg_getDataType A p trimmed) (\<lambda>dt.
        case dt of
          Some dt \<Rightarrow> Inr (Some dt)
        | None \<Rightarrow>
            (case pg_parseType A p trimmed of
               Inr (Some dt) \<Rightarrow> Inr (Some dt)
             | _ \<Rightarrow>
                 res_bind (first_part trimmed) (\<lambda>stripped.
                 if stripped \<noteq> trimmed then pg_getDataType A p stripped else Inr None))))"

text \<open>The first pass: a stub for each new composite or enumeration, so that members can name it\<close>

definition add_stub :: "('p, 't, 'e) program_api \<Rightarrow> string \<Rightarrow> 't result \<Rightarrow> ('p, unit) act" where
  "add_stub A name stub =
     act_look (\<lambda>p.
     act_bind (act_lift (pg_getDataType A p name)) (\<lambda>dt.
     if dt = None then act_bind (act_lift stub) (\<lambda>t. act_then (pg_addDataType A t) ()) else act_return ()))"

definition type_header :: "'j gson \<Rightarrow> 'j \<Rightarrow> ('j \<times> string \<times> string \<times> string) result" where
  "type_header G el =
     res_bind (asObject G el) (\<lambda>c.
     res_bind (getStr G c ''op'' ''add'') (\<lambda>oper.
     res_bind (getStr G c ''kind'' []) (\<lambda>kind.
     res_bind (getStr G c ''name'' []) (\<lambda>name. Inr (c, oper, kind, name)))))"

definition stub_step :: "'j gson \<Rightarrow> ('p, 't, 'e) program_api \<Rightarrow> 'j \<Rightarrow> unit \<Rightarrow> ('p, unit) act" where
  "stub_step G A el = (\<lambda>_.
     act_bind (act_lift (type_header G el)) (\<lambda>(c, oper, kind, name).
     if name = [] \<or> oper = ''delete'' then act_return ()
     else
       act_try
         (if kind = ''struct'' then
            act_bind (act_lift (member_or G (jl_get_int G) 0 c ''size'')) (\<lambda>size. add_stub A name (pg_structure A name size))
          else if kind = ''union'' then add_stub A name (pg_union A name)
          else if kind = ''enum'' then
            act_bind (act_lift (member_or G (jl_get_int G) 4 c ''size'')) (\<lambda>size.
            add_stub A name (pg_enum A name (if 0 <s size then size else 4)))
          else act_return ()) ()))"

text \<open>The type and length of a member; an unknown type is undefined bytes of its size\<close>

definition member_data_type :: "('p, 't, 'e) program_api \<Rightarrow> 'p \<Rightarrow> string \<Rightarrow> i32 \<Rightarrow> ('t \<times> i32) result" where
  "member_data_type A p typeName sz =
     res_bind (resolveDataType A p typeName) (\<lambda>dt.
     let dt = (case dt of
                 Some dt \<Rightarrow> dt
               | None \<Rightarrow> if 0 <s sz then pg_undefined A sz else pg_undefined1 A) in
     Inr (dt, if 0 <s sz then sz else pg_length A dt))"

text \<open>A member added by \<open>add\<close>, unless that throws\<close>

definition struct_member :: "('p, 't, 'e) program_api \<Rightarrow> 'p \<Rightarrow> string \<times> string \<times> string \<times> i32 \<times> i32 \<Rightarrow> 't \<Rightarrow> 't result" where
  "struct_member A p m s =
     (case m of (name, typeName, comment, sz, offset) \<Rightarrow>
        res_bind (member_data_type A p typeName sz) (\<lambda>(dt, len).
        Inr (case (if 0 <=s offset then pg_insertAtOffset A offset dt len (nullIfEmpty name) (nullIfEmpty comment) s
                   else pg_structureAdd A dt len (nullIfEmpty name) (nullIfEmpty comment) s) of
               Inl _ \<Rightarrow> s | Inr s \<Rightarrow> s)))"

definition union_member :: "('p, 't, 'e) program_api \<Rightarrow> 'p \<Rightarrow> string \<times> string \<times> string \<times> i32 \<times> i32 \<Rightarrow> 't \<Rightarrow> 't result" where
  "union_member A p m u =
     (case m of (name, typeName, comment, sz, offset) \<Rightarrow>
        res_bind (member_data_type A p typeName sz) (\<lambda>(dt, len).
        Inr (case pg_unionAdd A dt len (nullIfEmpty name) (nullIfEmpty comment) u of Inl _ \<Rightarrow> u | Inr u \<Rightarrow> u)))"

definition enum_value :: "('p, 't, 'e) program_api \<Rightarrow> string \<times> i64 \<times> string \<Rightarrow> 't \<Rightarrow> 't result" where
  "enum_value A v t =
     (case v of (name, val, comment) \<Rightarrow>
        Inr (if name = [] then t
             else case pg_enumAdd A name val (nullIfEmpty comment) t of Inl _ \<Rightarrow> t | Inr t \<Rightarrow> t))"

text \<open>A member of a structure (\<open>placed\<close>) or union; only the former has an offset.\<close>

definition read_type_member :: "'j gson \<Rightarrow> bool \<Rightarrow> 'j \<Rightarrow> (string \<times> string \<times> string \<times> i32 \<times> i32) result" where
  "read_type_member G placed el =
     res_bind (asObject G el) (\<lambda>m.
     res_bind (getStr G m ''name'' []) (\<lambda>name.
     res_bind (getStr G m ''type_name'' []) (\<lambda>typeName.
     res_bind (getStr G m ''comment'' []) (\<lambda>comment.
     res_bind (member_or G (jl_get_int G) 0 m ''size'') (\<lambda>size.
     res_bind (if placed then member_or G (jl_get_int G) (- 1) m ''offset'' else Inr (- 1)) (\<lambda>offset.
     Inr (name, typeName, comment, size, offset)))))))"

definition read_type_value :: "'j gson \<Rightarrow> 'j \<Rightarrow> (string \<times> i64 \<times> string) result" where
  "read_type_value G el =
     res_bind (asObject G el) (\<lambda>v.
     res_bind (getStr G v ''name'' []) (\<lambda>name.
     res_bind (member_or G (jl_get_int64 G) 0 v ''value'') (\<lambda>val.
     res_bind (getStr G v ''comment'' []) (\<lambda>comment. Inr (name, val, comment)))))"

text \<open>A loop over an array: each element is read and then used, the first exception ends it\<close>

fun read_fold :: "('j \<Rightarrow> 'm result) \<Rightarrow> ('m \<Rightarrow> 's \<Rightarrow> 's result) \<Rightarrow> 'j list \<Rightarrow> 's \<Rightarrow> 's result" where
  "read_fold rd f [] s = Inr s"
| "read_fold rd f (el # els) s = res_bind (rd el) (\<lambda>m. res_bind (f m s) (read_fold rd f els))"

definition array_member :: "'j gson \<Rightarrow> 'j \<Rightarrow> string \<Rightarrow> 'j list result" where
  "array_member G c key = member_or G (gs_asArray G) [] c key"

text \<open>\<open>addDataType\<close> with the replacing handler; the id of an added type is remembered.\<close>

definition put_type ::
    "('p, 't, 'e) program_api \<Rightarrow> string \<Rightarrow> string \<Rightarrow> i32 \<times> (string, i64) umap \<Rightarrow> 't result \<Rightarrow> ('p, i32 \<times> (string, i64) umap) act" where
  "put_type A oper name na dt =
     act_bind (act_lift dt) (\<lambda>dt.
     act_bind (pg_addDataType A dt) (\<lambda>result.
     act_look (\<lambda>p.
     act_bind
       (case result of
          Some t \<Rightarrow> if oper = ''add'' then act_bind (act_lift (pg_getID A p t)) (\<lambda>i. act_return (AList.update name i (snd na)))
                    else act_return (snd na)
        | None \<Rightarrow> act_return (snd na))
       (\<lambda>added. act_return (fst na + 1, added)))))"

definition grow_to :: "('p, 't, 'e) program_api \<Rightarrow> i32 \<Rightarrow> 't \<Rightarrow> 't result" where
  "grow_to A sz s = (if pg_length A s <s sz then pg_growStructure A (sz - pg_length A s) s else Inr s)"

definition type_step ::
    "'j gson \<Rightarrow> ('p, 't, 'e) program_api \<Rightarrow> 'j \<Rightarrow> i32 \<times> (string, i64) umap \<Rightarrow> ('p, i32 \<times> (string, i64) umap) act" where
  "type_step G A el na =
     act_bind (act_lift (type_header G el)) (\<lambda>(c, oper, kind, name).
     if name = [] then act_return na
     else
       act_try
         (if oper = ''delete'' then
            act_look (\<lambda>p.
            act_bind (act_lift (pg_getDataType A p name)) (\<lambda>dt.
            case dt of
              None \<Rightarrow> act_return (fst na + 1, snd na)
            | Some dt \<Rightarrow> act_then (pg_removeDataType A dt) (fst na + 1, snd na)))
          else if kind = ''struct'' then
            act_look (\<lambda>p.
            put_type A oper name na
              (res_bind (member_or G (jl_get_int G) 0 c ''size'') (\<lambda>size.
               res_bind (pg_structure A name 0) (\<lambda>s.
               res_bind (array_member G c ''members'') (\<lambda>members.
               res_bind (read_fold (read_type_member G True) (struct_member A p) members s) (grow_to A size))))))
          else if kind = ''union'' then
            act_look (\<lambda>p.
            put_type A oper name na
              (res_bind (pg_union A name) (\<lambda>u.
               res_bind (array_member G c ''members'') (\<lambda>members.
               read_fold (read_type_member G False) (union_member A p) members u))))
          else if kind = ''enum'' then
            put_type A oper name na
              (res_bind (member_or G (jl_get_int G) 4 c ''size'') (\<lambda>size.
               res_bind (pg_enum A name (if 0 <s size then size else 4)) (\<lambda>e.
               res_bind (array_member G c ''values'') (\<lambda>values.
               read_fold (read_type_value G) (enum_value A) values e))))
          else if kind = ''typedef'' then
            act_look (\<lambda>p.
            act_bind (act_lift (res_bind (getStr G c ''underlying_type_name'' []) (resolveDataType A p))) (\<lambda>under.
            case under of
              None \<Rightarrow> act_return na
            | Some dt \<Rightarrow> put_type A oper name na (pg_typedef A name dt)))
          else act_return na) na)"

definition applyDataTypes :: "'j gson \<Rightarrow> ('p, 't, 'e) program_api \<Rightarrow> 'j list \<Rightarrow> ('p, i32 \<times> (string, i64) umap) act" where
  "applyDataTypes G A changes =
     act_bind (act_fold (stub_step G A) changes ()) (\<lambda>_. act_fold (type_step G A) changes (0, []))"

section \<open>Symbols and comments\<close>

definition rename_symbol :: "('p, 't, 'e) program_api \<Rightarrow> i64 \<Rightarrow> string \<Rightarrow> i32 \<Rightarrow> ('p, i32) act" where
  "rename_symbol A key name cnt =
     act_look (\<lambda>p.
     act_bind (act_lift (pg_hasSymbol A p key)) (\<lambda>found.
     if found then act_then (pg_setName A key name) (cnt + 1) else act_return cnt))"

definition create_label :: "('p, 't, 'e) program_api \<Rightarrow> i64 \<Rightarrow> string \<Rightarrow> i32 \<Rightarrow> ('p, i32) act" where
  "create_label A va name cnt =
     act_bind (act_lift (pg_address A va)) (\<lambda>addr. act_then (pg_createLabel A addr name) (cnt + 1))"

definition symbol_step :: "'j gson \<Rightarrow> ('p, 't, 'e) program_api \<Rightarrow> 'j \<Rightarrow> i32 \<Rightarrow> ('p, i32) act" where
  "symbol_step G A el cnt =
     act_bind (act_lift (res_bind (asObject G el) (\<lambda>s. res_bind (getStr G s ''name'' []) (\<lambda>name. Inr (s, name))))) (\<lambda>(s, name).
     if name = [] then act_return cnt
     else
       act_try
         (if jl_contains G s ''key'' then
            act_bind (act_lift (res_bind (jl_at G s ''key'') (jl_get_int64 G))) (\<lambda>key. rename_symbol A key name cnt)
          else if jl_contains G s ''va'' then
            act_bind (act_lift (hex_member G s ''va'')) (\<lambda>va. create_label A va name cnt)
          else act_return cnt) cnt)"

definition applySymbols :: "'j gson \<Rightarrow> ('p, 't, 'e) program_api \<Rightarrow> 'j list \<Rightarrow> ('p, i32) act" where
  "applySymbols G A symbols = act_fold (symbol_step G A) symbols 0"

definition comment_kinds :: "(string \<times> string) list" where
  "comment_kinds = [(''eol'', ''EOL''), (''pre'', ''PRE''), (''post'', ''POST''), (''plate'', ''PLATE''), (''rep'', ''REPEATABLE'')]"

definition set_comment :: "'j gson \<Rightarrow> ('p, 't, 'e) program_api \<Rightarrow> 'j \<Rightarrow> u64 \<Rightarrow> string \<times> string \<Rightarrow> unit \<Rightarrow> ('p, unit) act" where
  "set_comment G A c addr kind = (\<lambda>_.
     if jl_contains G c (fst kind) then
       act_bind (act_lift (res_bind (jl_at G c (fst kind)) (jl_get_string G))) (\<lambda>s. pg_setComment A addr (snd kind) (nullIfEmpty s))
     else act_return ())"

definition write_comment :: "'j gson \<Rightarrow> ('p, 't, 'e) program_api \<Rightarrow> 'j \<Rightarrow> i32 \<Rightarrow> ('p, i32) act" where
  "write_comment G A el cnt =
     act_bind (act_lift (asObject G el)) (\<lambda>c.
     if \<not> jl_contains G c ''va'' then act_return cnt
     else
       act_bind (act_lift (hex_member G c ''va'')) (\<lambda>va.
       case pg_address A va of
         Inl _ \<Rightarrow> act_return cnt
       | Inr addr \<Rightarrow> act_try (act_then (act_fold (set_comment G A c addr) comment_kinds ()) (cnt + 1)) cnt))"

definition applyComments :: "'j gson \<Rightarrow> ('p, 't, 'e) program_api \<Rightarrow> 'j list \<Rightarrow> ('p, i32) act" where
  "applyComments G A comments = act_fold (write_comment G A) comments 0"

section \<open>Equates and bookmarks\<close>

text \<open>The equates by the key of their row; the first exception ends the loop and is ignored\<close>

fun equate_loop :: "(string \<Rightarrow> 'e option result) \<Rightarrow> (i64 \<times> string option) list \<Rightarrow> (i64, 'e) umap \<Rightarrow> (i64, 'e) umap" where
  "equate_loop get [] m = m"
| "equate_loop get ((key, None) # rows) m = equate_loop get rows m"
| "equate_loop get ((key, Some name) # rows) m =
     (case get name of
        Inl _ \<Rightarrow> m
      | Inr None \<Rightarrow> equate_loop get rows m
      | Inr (Some eq) \<Rightarrow> equate_loop get rows (AList.update key eq m))"

definition equates_by_key :: "('p, 't, 'e) program_api \<Rightarrow> 'p \<Rightarrow> (i64, 'e) umap" where
  "equates_by_key A p = equate_loop (pg_getEquate A p) (pg_equateRows A p) []"

text \<open>There is no renaming: the equate is removed, made again with the new name, and its references added one by one.\<close>

definition rename_equate :: "('p, 't, 'e) program_api \<Rightarrow> 'e \<Rightarrow> string \<Rightarrow> i32 \<Rightarrow> ('p, i32) act" where
  "rename_equate A eq name cnt =
     act_look (\<lambda>p.
     act_bind (act_lift (pg_equateData A p eq)) (\<lambda>(val, refs, oldName).
     act_bind (pg_removeEquate A oldName) (\<lambda>_.
     act_bind (pg_createEquate A name val) (\<lambda>newEq.
     act_then (act_fold (\<lambda>(addr, opIdx) _. act_try (pg_addReference A newEq addr opIdx) ()) refs ()) (cnt + 1)))))"

definition rename_equate_at :: "('p, 't, 'e) program_api \<Rightarrow> (i64, 'e) umap \<Rightarrow> i64 \<Rightarrow> string \<Rightarrow> i32 \<Rightarrow> ('p, i32) act" where
  "rename_equate_at A byKey key name cnt =
     (if key <s 0 \<or> name = [] then act_return cnt
      else
        case map_of byKey key of
          None \<Rightarrow> act_return cnt
        | Some eq \<Rightarrow> act_try (rename_equate A eq name cnt) cnt)"

definition equate_rename_step :: "'j gson \<Rightarrow> ('p, 't, 'e) program_api \<Rightarrow> (i64, 'e) umap \<Rightarrow> 'j \<Rightarrow> i32 \<Rightarrow> ('p, i32) act" where
  "equate_rename_step G A byKey el cnt =
     act_bind (act_lift (res_bind (asObject G el) (\<lambda>e.
       res_bind (member_or G (jl_get_int64 G) (- 1) e ''id'') (\<lambda>key.
       res_bind (getStr G e ''name'' []) (\<lambda>name. Inr (key, name)))))) (\<lambda>(key, name).
     rename_equate_at A byKey key name cnt)"

definition applyEquateRenames :: "'j gson \<Rightarrow> ('p, 't, 'e) program_api \<Rightarrow> 'j list \<Rightarrow> ('p, i32) act" where
  "applyEquateRenames G A equateRenames =
     act_look (\<lambda>p. act_fold (equate_rename_step G A (equates_by_key A p)) equateRenames 0)"

definition add_equate_reference :: "('p, 't, 'e) program_api \<Rightarrow> (i64, 'e) umap \<Rightarrow> i64 \<Rightarrow> i64 \<Rightarrow> i32 \<Rightarrow> i32 \<Rightarrow> ('p, i32) act" where
  "add_equate_reference A byKey key va opIdx cnt =
     (if key <s 0 \<or> va <s 0 then act_return cnt
      else
        case map_of byKey key of
          None \<Rightarrow> act_return cnt
        | Some eq \<Rightarrow>
            act_try (act_bind (act_lift (pg_address A va)) (\<lambda>addr. act_then (pg_addReference A eq addr opIdx) (cnt + 1))) cnt)"

definition equate_ref_step :: "'j gson \<Rightarrow> ('p, 't, 'e) program_api \<Rightarrow> (i64, 'e) umap \<Rightarrow> 'j \<Rightarrow> i32 \<Rightarrow> ('p, i32) act" where
  "equate_ref_step G A byKey el cnt =
     act_bind (act_lift (res_bind (asObject G el) (\<lambda>r.
       res_bind (member_or G (jl_get_int64 G) (- 1) r ''id'') (\<lambda>key.
       res_bind (hex_member G r ''va'') (\<lambda>va.
       res_bind (member_or G (jl_get_int G) 0 r ''op_index'') (\<lambda>opIdx. Inr (key, va, opIdx))))))) (\<lambda>(key, va, opIdx).
     add_equate_reference A byKey key va opIdx cnt)"

definition applyEquateRefAdds :: "'j gson \<Rightarrow> ('p, 't, 'e) program_api \<Rightarrow> 'j list \<Rightarrow> ('p, i32) act" where
  "applyEquateRefAdds G A equateRefAdds =
     act_look (\<lambda>p. act_fold (equate_ref_step G A (equates_by_key A p)) equateRefAdds 0)"

definition change_bookmark :: "('p, 't, 'e) program_api \<Rightarrow> string \<Rightarrow> string \<Rightarrow> string \<Rightarrow> string \<Rightarrow> i64 \<Rightarrow> i32 \<Rightarrow> ('p, i32) act" where
  "change_bookmark A oper type cat cmt va cnt =
     (if va <s 0 then act_return cnt
      else
        act_try
          (act_bind (act_lift (pg_address A va)) (\<lambda>addr.
           act_then
             (if oper = ''delete'' then
                act_look (\<lambda>p. act_bind (act_lift (pg_getBookmarks A p addr type)) (\<lambda>existing.
                  act_fold (\<lambda>b _. pg_removeBookmark A b) existing ()))
              else pg_setBookmark A addr type cat cmt) (cnt + 1))) cnt)"

definition bookmark_step :: "'j gson \<Rightarrow> ('p, 't, 'e) program_api \<Rightarrow> 'j \<Rightarrow> i32 \<Rightarrow> ('p, i32) act" where
  "bookmark_step G A el cnt =
     act_bind (act_lift (res_bind (asObject G el) (\<lambda>c.
       res_bind (getStr G c ''op'' ''add'') (\<lambda>oper.
       res_bind (getStr G c ''type'' ''Note'') (\<lambda>type.
       res_bind (getStr G c ''category'' []) (\<lambda>cat.
       res_bind (getStr G c ''comment'' []) (\<lambda>cmt.
       res_bind (hex_member G c ''addr'') (\<lambda>va. Inr (oper, type, cat, cmt, va))))))))) (\<lambda>(oper, type, cat, cmt, va).
     change_bookmark A oper type cat cmt va cnt)"

definition applyBookmarks :: "'j gson \<Rightarrow> ('p, 't, 'e) program_api \<Rightarrow> 'j list \<Rightarrow> ('p, i32) act" where
  "applyBookmarks G A bookmarkChanges = act_fold (bookmark_step G A) bookmarkChanges 0"

section \<open>Parameters\<close>

text \<open>The type of a member \<open>type_name\<close>, if there is one; a type that cannot be resolved is null\<close>

definition named_member_type :: "'j gson \<Rightarrow> ('p, 't, 'e) program_api \<Rightarrow> 'p \<Rightarrow> 'j \<Rightarrow> 't option result" where
  "named_member_type G A p c = member_or G (\<lambda>v. res_bind (jl_get_string G v) (resolveDataType A p)) None c ''type_name''"

text \<open>
  An existing parameter or variable: its symbol is renamed, and its type set if it is a variable. The type is read from
  the program after the renaming.
\<close>

definition rename_variable ::
    "('p, 't, 'e) program_api \<Rightarrow> i64 \<Rightarrow> string \<Rightarrow> bool \<Rightarrow> ('p \<Rightarrow> 't option result) \<Rightarrow> i32 \<Rightarrow> ('p, i32) act" where
  "rename_variable A key name typed type cnt =
     act_look (\<lambda>p.
     act_bind (act_lift (pg_hasSymbol A p key)) (\<lambda>found.
     if \<not> found then act_return cnt
     else
       act_bind (pg_setName A key name) (\<lambda>_.
       act_look (\<lambda>p.
       act_then
         (if \<not> typed then act_return ()
          else
            act_bind (act_lift (pg_isVariable A p key)) (\<lambda>variable.
            if \<not> variable then act_return ()
            else
              act_bind (act_lift (type p)) (\<lambda>dt.
              case dt of None \<Rightarrow> act_return () | Some dt \<Rightarrow> act_try (pg_setVariableType A key dt) ()))) (cnt + 1)))))"

text \<open>A parameter of a function: changed at its ordinal, or appended\<close>

definition change_parameter ::
    "('p, 't, 'e) program_api \<Rightarrow> i64 \<Rightarrow> i32 \<Rightarrow> string \<Rightarrow> ('p \<Rightarrow> 't option result) \<Rightarrow> i32 \<Rightarrow> ('p, i32) act" where
  "change_parameter A va ord name type cnt =
     act_bind (act_lift (pg_address A va)) (\<lambda>fAddr.
     act_look (\<lambda>p.
     act_bind (act_lift (pg_getFunctionAt A p fAddr)) (\<lambda>func.
     case func of
       None \<Rightarrow> act_return cnt
     | Some f \<Rightarrow>
         act_bind (act_lift (type p)) (\<lambda>dt.
         let dt = (case dt of None \<Rightarrow> pg_default A | Some dt \<Rightarrow> dt) in
         case pg_parameterCount A p f of
           Inl _ \<Rightarrow> act_return cnt
         | Inr n \<Rightarrow>
             act_then
               (if 0 <=s ord \<and> unat ord < n then
                  act_bind (pg_setParameterName A f (unat ord) name) (\<lambda>_.
                  if dt \<noteq> pg_default A then act_try (pg_setParameterType A f (unat ord) dt) () else act_return ())
                else act_try (pg_addParameter A f name dt) ()) (cnt + 1)))))"

definition param_step ::
    "'j gson \<Rightarrow> ('j \<Rightarrow> bool result) \<Rightarrow> ('p, 't, 'e) program_api \<Rightarrow> 'j \<Rightarrow> i32 \<Rightarrow> ('p, i32) act" where
  "param_step G asBoolean A el cnt =
     act_bind (act_lift (res_bind (asObject G el) (\<lambda>c. res_bind (getStr G c ''name'' []) (\<lambda>name. Inr (c, name))))) (\<lambda>(c, name).
     if name = [] then act_return cnt
     else
       act_try
         (if jl_contains G c ''key'' then
            act_bind (act_lift (res_bind (jl_at G c ''key'') (jl_get_int64 G))) (\<lambda>key.
            rename_variable A key name (jl_contains G c ''type_name'') (\<lambda>p. named_member_type G A p c) cnt)
          else if jl_contains G c ''func_va'' \<and> jl_contains G c ''ordinal'' then
            act_bind (act_lift (member_or G asBoolean False c ''is_local'')) (\<lambda>isLocal.
            if isLocal then act_return cnt
            else
              act_bind (act_lift (hex_member G c ''func_va'')) (\<lambda>va.
              act_bind (act_lift (res_bind (jl_at G c ''ordinal'') (jl_get_int G))) (\<lambda>ord.
              change_parameter A va ord name (\<lambda>p. named_member_type G A p c) cnt)))
          else act_return cnt) cnt)"

definition applyParameters :: "'j gson \<Rightarrow> ('j \<Rightarrow> bool result) \<Rightarrow> ('p, 't, 'e) program_api \<Rightarrow> 'j list \<Rightarrow> ('p, i32) act" where
  "applyParameters G asBoolean A paramRenames = act_fold (param_step G asBoolean A) paramRenames 0"

section \<open>Data items and signatures\<close>

definition clear_data :: "('p, 't, 'e) program_api \<Rightarrow> u64 \<Rightarrow> ('p, unit) act" where
  "clear_data A addr =
     act_look (\<lambda>p.
     act_bind (act_lift (pg_getDataAt A p addr)) (\<lambda>found.
     case found of None \<Rightarrow> act_return () | Some maxAddr \<Rightarrow> pg_clearCodeUnits A addr maxAddr))"

definition change_data :: "('p, 't, 'e) program_api \<Rightarrow> string \<Rightarrow> i64 \<Rightarrow> string result \<Rightarrow> i32 \<Rightarrow> ('p, i32) act" where
  "change_data A oper va typeName cnt =
     (if va <s 0 then act_return cnt
      else
        act_try
          (act_bind (act_lift (pg_address A va)) (\<lambda>addr.
           if oper = ''delete'' then act_then (clear_data A addr) (cnt + 1)
           else
             act_look (\<lambda>p.
             act_bind (act_lift (res_bind typeName (resolveDataType A p))) (\<lambda>dt.
             case dt of
               None \<Rightarrow> act_return cnt
             | Some dt \<Rightarrow> act_bind (clear_data A addr) (\<lambda>_. act_then (pg_createData A addr dt) (cnt + 1)))))) cnt)"

definition data_step :: "'j gson \<Rightarrow> ('p, 't, 'e) program_api \<Rightarrow> 'j \<Rightarrow> i32 \<Rightarrow> ('p, i32) act" where
  "data_step G A el cnt =
     act_bind (act_lift (res_bind (asObject G el) (\<lambda>d.
       res_bind (getStr G d ''op'' ''add'') (\<lambda>oper.
       res_bind (hex_member G d ''addr'') (\<lambda>va. Inr (d, oper, va)))))) (\<lambda>(d, oper, va).
     change_data A oper va (getStr G d ''type_name'' []) cnt)"

definition applyDataItems :: "'j gson \<Rightarrow> ('p, 't, 'e) program_api \<Rightarrow> 'j list \<Rightarrow> ('p, i32) act" where
  "applyDataItems G A dataItems = act_fold (data_step G A) dataItems 0"

text \<open>Whether the return type was set; only the resolving is outside the \<open>try\<close>\<close>

definition set_return_type :: "('p, 't, 'e) program_api \<Rightarrow> i64 \<Rightarrow> string \<Rightarrow> ('p, bool) act" where
  "set_return_type A f rt =
     act_look (\<lambda>p.
     act_bind (act_lift (resolveDataType A p rt)) (\<lambda>dt.
     case dt of None \<Rightarrow> act_return False | Some dt \<Rightarrow> act_try (act_then (pg_setReturnType A f dt) True) False))"

text \<open>The convention under the name of the compiler specification, with or without two underscores\<close>

definition set_convention :: "('p, 't, 'e) program_api \<Rightarrow> i64 \<Rightarrow> string \<Rightarrow> ('p, bool) act" where
  "set_convention A f cc =
     (if cc = [] then act_return False
      else
        act_try
          (act_bind (act_lift (pg_callingConventions A)) (\<lambda>known.
           if cc \<in> set known then act_then (pg_setCallingConvention A f cc) True
           else if ''__'' @ cc \<in> set known then act_then (pg_setCallingConvention A f (''__'' @ cc)) True
           else act_return False)) False)"

definition change_signature ::
    "('p, 't, 'e) program_api \<Rightarrow> i64 \<Rightarrow> string option result \<Rightarrow> string option result \<Rightarrow> i32 \<Rightarrow> ('p, i32) act" where
  "change_signature A key retType cc cnt =
     act_look (\<lambda>p.
     if pg_getFunction A p key \<noteq> Inr True then act_return cnt
     else
       act_bind (act_lift retType) (\<lambda>rt.
       act_bind (case rt of None \<Rightarrow> act_return False | Some rt \<Rightarrow> set_return_type A key rt) (\<lambda>changed.
       act_bind (act_lift cc) (\<lambda>cc.
       act_bind (case cc of None \<Rightarrow> act_return False | Some cc \<Rightarrow> set_convention A key cc) (\<lambda>changed'.
       act_return (if changed \<or> changed' then cnt + 1 else cnt))))))"

text \<open>A member that may be missing\<close>

definition optional_string :: "'j gson \<Rightarrow> 'j \<Rightarrow> string \<Rightarrow> string option result" where
  "optional_string G c key = member_or G (\<lambda>v. res_bind (jl_get_string G v) (\<lambda>s. Inr (Some s))) None c key"

definition signature_step :: "'j gson \<Rightarrow> ('p, 't, 'e) program_api \<Rightarrow> string \<Rightarrow> 'j \<Rightarrow> i32 \<Rightarrow> ('p, i32) act" where
  "signature_step G A npe el cnt =
     act_bind (act_lift (res_bind (asObject G el) (\<lambda>c.
       if jl_contains G c ''key'' then res_bind (res_bind (jl_at G c ''key'') (jl_get_int64 G)) (\<lambda>key. Inr (c, key))
       else Inl npe))) (\<lambda>(c, key).
     change_signature A key (optional_string G c ''ret_type'') (optional_string G c ''cc'') cnt)"

definition applyFuncSigs :: "'j gson \<Rightarrow> ('p, 't, 'e) program_api \<Rightarrow> string \<Rightarrow> 'j list \<Rightarrow> ('p, i32) act" where
  "applyFuncSigs G A npe changes = act_fold (signature_step G A npe) changes 0"

section \<open>The whole check-in\<close>

text \<open>Rows of parameters and variables whose address is not that of a variable, left by earlier versions\<close>

fun bad_variable_row :: "('p, 't, 'e) program_api \<Rightarrow> i64 \<times> 8 word result \<times> i64 result \<Rightarrow> bool" where
  "bad_variable_row A (key, type, encAddr) \<longleftrightarrow>
     type \<in> {Inr 6, Inr 7} \<and> (case encAddr of Inl _ \<Rightarrow> True | Inr a \<Rightarrow> pg_isVariableAddress A a \<noteq> Inr True)"

definition cleanupBadVariableSymbols :: "('p, 't, 'e) program_api \<Rightarrow> ('p, unit) act" where
  "cleanupBadVariableSymbols A =
     act_look (\<lambda>p.
     case pg_symbolRows A p of
       None \<Rightarrow> act_return ()
     | Some rows \<Rightarrow>
         if pg_rowsError A p then act_return ()
         else act_try (act_fold (\<lambda>r _. pg_deleteSymbolRow A (fst r)) (filter (bad_variable_row A) rows) ()) ())"

text \<open>The categories after the data types: name of the count, array of the request, writer\<close>

definition write_categories ::
    "'j gson \<Rightarrow> ('j \<Rightarrow> bool result) \<Rightarrow> string \<Rightarrow> ('p, 't, 'e) program_api \<Rightarrow> (string \<times> string \<times> ('j list \<Rightarrow> ('p, i32) act)) list" where
  "write_categories G asBoolean npe A =
     [(''symbols'', ''symbols'', applySymbols G A), (''comments'', ''comments'', applyComments G A),
      (''equate_renames'', ''equate_renames'', applyEquateRenames G A),
      (''equate_ref_adds'', ''equate_ref_adds'', applyEquateRefAdds G A),
      (''bookmarks'', ''bookmark_changes'', applyBookmarks G A),
      (''params'', ''param_renames'', applyParameters G asBoolean A),
      (''data_items'', ''data_item_changes'', applyDataItems G A),
      (''func_sigs'', ''func_sig_changes'', applyFuncSigs G A npe)]"

definition array_of :: "(string \<times> 'j list) list \<Rightarrow> string \<Rightarrow> 'j list" where
  "array_of arrays key = (case map_of arrays key of None \<Rightarrow> [] | Some xs \<Rightarrow> xs)"

text \<open>An array that is empty is not applied and has no count.\<close>

definition count_category :: "string \<Rightarrow> 'x list \<Rightarrow> ('x list \<Rightarrow> ('p, i32) act) \<Rightarrow> (string \<times> i32) list \<Rightarrow> ('p, (string \<times> i32) list) act" where
  "count_category field xs write applied =
     (if xs = [] then act_return applied else act_bind (write xs) (\<lambda>n. act_return (applied @ [(field, n)])))"

definition apply_arrays ::
    "'j gson \<Rightarrow> ('j \<Rightarrow> bool result) \<Rightarrow> string \<Rightarrow> ('p, 't, 'e) program_api \<Rightarrow> (string \<times> 'j list) list \<Rightarrow>
     ('p, (string, i64) umap \<times> (string \<times> i32) list) act" where
  "apply_arrays G asBoolean npe A arrays =
     act_bind (cleanupBadVariableSymbols A) (\<lambda>_.
     act_bind (if array_of arrays ''data_type_changes'' = [] then act_return ([], [])
               else act_bind (applyDataTypes G A (array_of arrays ''data_type_changes'')) (\<lambda>(n, added). act_return (added, [(''data_types'', n)])))
       (\<lambda>(added, applied).
     act_bind (act_fold (\<lambda>(field, key, write). count_category field (array_of arrays key) write) (write_categories G asBoolean npe A) applied)
       (\<lambda>applied. act_return (added, applied))))"

text \<open>A transaction: an exception leaves the program as it was\<close>

definition in_transaction :: "('p, 'a) act \<Rightarrow> ('p, 'a) act" where
  "in_transaction m = (\<lambda>p. case m p of (Inl e, _) \<Rightarrow> (Inl e, p) | (Inr x, p) \<Rightarrow> (Inr x, p))"

definition apply_result :: "'j gson \<Rightarrow> (string, i64) umap \<Rightarrow> (string \<times> i32) list \<Rightarrow> 'j" where
  "apply_result G added applied =
     jl_object G [(''added_type_ids'', jl_object G (map (\<lambda>(name, i). (name, jl_int64 G i)) added)),
       (''applied'', jl_object G (map (\<lambda>(field, n). (field, jl_int G n)) applied))]"

text \<open>
  The database for a checkout: opening its handle and giving it the version's comment, the program over it, and saving,
  which may be cancelled (\<open>Inr False\<close>).
\<close>

record ('w, 'p) program_store =
  ps_handle :: "'w \<Rightarrow> string \<Rightarrow> string \<Rightarrow> string \<Rightarrow> i64 \<Rightarrow> string \<Rightarrow> unit result"
  ps_program :: "'w \<Rightarrow> string \<Rightarrow> string \<Rightarrow> string \<Rightarrow> i64 \<Rightarrow> 'p result"
  ps_save :: "'w \<Rightarrow> string \<Rightarrow> string \<Rightarrow> string \<Rightarrow> i64 \<Rightarrow> string \<Rightarrow> 'p \<Rightarrow> bool result \<times> 'w"

definition program_apply ::
    "'j gson \<Rightarrow> ('j \<Rightarrow> bool result) \<Rightarrow> string \<Rightarrow> ('p, 't, 'e) program_api \<Rightarrow> ('w, 'p) program_store \<Rightarrow>
     'w \<Rightarrow> string \<Rightarrow> string \<Rightarrow> string \<Rightarrow> i64 \<Rightarrow> (string \<times> 'j list) list \<Rightarrow> string \<Rightarrow> 'j result \<times> 'w" where
  "program_apply G asBoolean npe A T w repo folder item coId arrays comment =
     (case res_bind (ps_handle T w repo folder item coId comment) (\<lambda>_.
           case ps_program T w repo folder item coId of
             Inl e \<Rightarrow> Inl (''Failed to open ProgramDB: '' @ e)
           | Inr p \<Rightarrow>
               (case in_transaction (apply_arrays G asBoolean npe A arrays) p of
                  (Inl e, _) \<Rightarrow> Inl e | (Inr (added, applied), p) \<Rightarrow> Inr (added, applied, p))) of
        Inl e \<Rightarrow> (Inl e, w)
      | Inr (added, applied, p) \<Rightarrow>
          (case ps_save T w repo folder item coId comment p of
             (Inl e, w) \<Rightarrow> (Inl e, w)
           | (Inr saved, w) \<Rightarrow>
               (if saved then Inr (apply_result G added applied) else Inl ''save cancelled unexpectedly'', w)))"

end
