(* ===== verification/Applier_Props.thy ===== *)
theory Applier_Props
  imports Program_Applier File_Props
begin

text \<open>
  What a check-in writes into the program. The specification \<open>apply_preview\<close> goes through the reviewed changes and calls
  Ghidra's API for each, with no JSON in between; the applier on the arrays the plugin sends does the same
  (\<open>applied_arrays\<close>).
\<close>

section \<open>The specification\<close>

definition apply_rename :: "('p, 't, 'e) program_api \<Rightarrow> SymbolRename \<Rightarrow> i32 \<Rightarrow> ('p, i32) act" where
  "apply_rename A r cnt =
     (if sr_newName r = [] then act_return cnt else act_try (rename_symbol A (sr_key r) (sr_newName r) cnt) cnt)"

definition apply_new_symbol :: "('p, 't, 'e) program_api \<Rightarrow> i64 \<Rightarrow> NewSymbol \<Rightarrow> i32 \<Rightarrow> ('p, i32) act" where
  "apply_new_symbol A rebase s cnt =
     (if ns_name s = [] then act_return cnt
      else act_try (create_label A (ghidra_va rebase (ns_addr s)) (ns_name s) cnt) cnt)"

text \<open>A comment goes to one column: that of the plate for a function's comment, otherwise the one it came from.\<close>

definition apply_comment_change ::
    "('p, 't, 'e) program_api \<Rightarrow> i64 \<Rightarrow> (u64, string) umap \<Rightarrow> (u64, string) umap \<Rightarrow> CommentChange \<Rightarrow> i32 \<Rightarrow> ('p, i32) act" where
  "apply_comment_change A rebase funcComments cols c cnt =
     (case (map_of comment_kinds (comment_field funcComments cols (cc_addr c)), pg_address A (ghidra_va rebase (cc_addr c))) of
        (Some kind, Inr addr) \<Rightarrow> act_try (act_then (pg_setComment A addr kind (nullIfEmpty (cc_text c))) (cnt + 1)) cnt
      | _ \<Rightarrow> act_return cnt)"

definition apply_equate_rename :: "('p, 't, 'e) program_api \<Rightarrow> (i64, 'e) umap \<Rightarrow> EquateRename \<Rightarrow> i32 \<Rightarrow> ('p, i32) act" where
  "apply_equate_rename A byKey r = rename_equate_at A byKey (qr_id r) (qr_name r)"

definition apply_equate_ref :: "('p, 't, 'e) program_api \<Rightarrow> i64 \<Rightarrow> (i64, 'e) umap \<Rightarrow> NewEquateRef \<Rightarrow> i32 \<Rightarrow> ('p, i32) act" where
  "apply_equate_ref A rebase byKey r =
     add_equate_reference A byKey (nr_equateId r) (ghidra_va rebase (nr_addr r)) (nr_opIndex r)"

definition apply_bookmark_change :: "('p, 't, 'e) program_api \<Rightarrow> i64 \<Rightarrow> BookmarkChange \<Rightarrow> i32 \<Rightarrow> ('p, i32) act" where
  "apply_bookmark_change A rebase b =
     change_bookmark A (bc_op b) (bc_type b) (bc_category b) (bc_comment b) (ghidra_va rebase (bc_addr b))"

definition type_of_name :: "('p, 't, 'e) program_api \<Rightarrow> string \<Rightarrow> 'p \<Rightarrow> 't option result" where
  "type_of_name A name p = (if name = [] then Inr None else resolveDataType A p name)"

definition apply_param_rename :: "('p, 't, 'e) program_api \<Rightarrow> ParamRename \<Rightarrow> i32 \<Rightarrow> ('p, i32) act" where
  "apply_param_rename A r cnt =
     (if pr_name r = [] then act_return cnt
      else act_try (rename_variable A (pr_key r) (pr_name r) (pr_typeName r \<noteq> []) (type_of_name A (pr_typeName r)) cnt) cnt)"

text \<open>New local variables are not written.\<close>

definition apply_new_param :: "('p, 't, 'e) program_api \<Rightarrow> i64 \<Rightarrow> NewParam \<Rightarrow> i32 \<Rightarrow> ('p, i32) act" where
  "apply_new_param A rebase q cnt =
     (if np_name q = [] \<or> np_isLocal q then act_return cnt
      else act_try (change_parameter A (ghidra_va rebase (np_funcAddr q)) (np_ordinal q) (np_name q) (type_of_name A (np_typeName q)) cnt) cnt)"

definition apply_data_item :: "('p, 't, 'e) program_api \<Rightarrow> i64 \<Rightarrow> DataItemChange \<Rightarrow> i32 \<Rightarrow> ('p, i32) act" where
  "apply_data_item A rebase d = change_data A (ic_op d) (ghidra_va rebase (ic_addr d)) (Inr (ic_typeName d))"

definition apply_func_sig :: "('p, 't, 'e) program_api \<Rightarrow> FuncSigChange \<Rightarrow> i32 \<Rightarrow> ('p, i32) act" where
  "apply_func_sig A c =
     change_signature A (sc_key c) (Inr (nullIfEmpty (sc_returnTypeName c))) (Inr (nullIfEmpty (sc_callingConvention c)))"

definition apply_stub :: "('p, 't, 'e) program_api \<Rightarrow> DataTypeChange \<Rightarrow> unit \<Rightarrow> ('p, unit) act" where
  "apply_stub A c = (\<lambda>_.
     if tc_name c = [] \<or> tc_op c = ''delete'' then act_return ()
     else
       act_try
         (if tc_kind c = ''struct'' then add_stub A (tc_name c) (pg_structure A (tc_name c) (tc_size c))
          else if tc_kind c = ''union'' then add_stub A (tc_name c) (pg_union A (tc_name c))
          else if tc_kind c = ''enum'' then add_stub A (tc_name c) (pg_enum A (tc_name c) (if 0 <s tc_size c then tc_size c else 4))
          else act_return ()) ())"

fun fold_result :: "('m \<Rightarrow> 's \<Rightarrow> 's result) \<Rightarrow> 'm list \<Rightarrow> 's \<Rightarrow> 's result" where
  "fold_result f [] s = Inr s"
| "fold_result f (m # ms) s = res_bind (f m s) (fold_result f ms)"

definition apply_type :: "('p, 't, 'e) program_api \<Rightarrow> DataTypeChange \<Rightarrow> i32 \<times> (string, i64) umap \<Rightarrow> ('p, i32 \<times> (string, i64) umap) act" where
  "apply_type A c na =
     (let members = (\<lambda>placed. map (\<lambda>m. (tm_name m, tm_typeName m, [], tm_size m, if placed then tm_offset m else - 1)) (tc_members c));
          put = put_type A (tc_op c) (tc_name c) na in
      if tc_name c = [] then act_return na
      else
        act_try
          (if tc_op c = ''delete'' then
             act_look (\<lambda>p.
             act_bind (act_lift (pg_getDataType A p (tc_name c))) (\<lambda>dt.
             case dt of
               None \<Rightarrow> act_return (fst na + 1, snd na)
             | Some dt \<Rightarrow> act_then (pg_removeDataType A dt) (fst na + 1, snd na)))
           else if tc_kind c = ''struct'' then
             act_look (\<lambda>p. put (res_bind (pg_structure A (tc_name c) 0) (\<lambda>s.
               res_bind (fold_result (struct_member A p) (members True) s) (grow_to A (tc_size c)))))
           else if tc_kind c = ''union'' then
             act_look (\<lambda>p. put (res_bind (pg_union A (tc_name c)) (fold_result (union_member A p) (members False))))
           else if tc_kind c = ''enum'' then
             put (res_bind (pg_enum A (tc_name c) (if 0 <s tc_size c then tc_size c else 4))
               (fold_result (enum_value A) (map (\<lambda>v. (tv_name v, tv_value v, [])) (tc_values c))))
           else if tc_kind c = ''typedef'' then
             act_look (\<lambda>p.
             act_bind (act_lift (resolveDataType A p (tc_underlyingTypeName c))) (\<lambda>under.
             case under of None \<Rightarrow> act_return na | Some dt \<Rightarrow> put (pg_typedef A (tc_name c) dt)))
           else act_return na) na)"

text \<open>Each category with whether it is empty and what it writes, in the order of the applier\<close>

definition preview_categories ::
    "('p, 't, 'e) program_api \<Rightarrow> i64 \<Rightarrow> (u64, string) umap \<Rightarrow> (u64, string) umap \<Rightarrow> GhidraCheckinPreview \<Rightarrow> (string \<times> bool \<times> ('p, i32) act) list" where
  "preview_categories A rebase fc cols p =
     [(''symbols'', pv_renames p = [] \<and> pv_newSymbols p = [],
       act_bind (act_fold (apply_rename A) (pv_renames p) 0) (act_fold (apply_new_symbol A rebase) (pv_newSymbols p))),
      (''comments'', pv_comments p = [], act_fold (apply_comment_change A rebase fc cols) (pv_comments p) 0),
      (''equate_renames'', pv_equateRenames p = [],
       act_look (\<lambda>q. act_fold (apply_equate_rename A (equates_by_key A q)) (pv_equateRenames p) 0)),
      (''equate_ref_adds'', pv_newEquateRefs p = [],
       act_look (\<lambda>q. act_fold (apply_equate_ref A rebase (equates_by_key A q)) (pv_newEquateRefs p) 0)),
      (''bookmarks'', pv_bookmarkChanges p = [], act_fold (apply_bookmark_change A rebase) (pv_bookmarkChanges p) 0),
      (''params'', pv_paramRenames p = [] \<and> pv_newParams p = [],
       act_bind (act_fold (apply_param_rename A) (pv_paramRenames p) 0) (act_fold (apply_new_param A rebase) (pv_newParams p))),
      (''data_items'', pv_dataItemChanges p = [], act_fold (apply_data_item A rebase) (pv_dataItemChanges p) 0),
      (''func_sigs'', pv_funcSigChanges p = [], act_fold (apply_func_sig A) (pv_funcSigChanges p) 0)]"

definition apply_preview ::
    "('p, 't, 'e) program_api \<Rightarrow> i64 \<Rightarrow> (u64, string) umap \<Rightarrow> (u64, string) umap \<Rightarrow> GhidraCheckinPreview \<Rightarrow>
     ('p, (string, i64) umap \<times> (string \<times> i32) list) act" where
  "apply_preview A rebase fc cols p =
     act_bind (cleanupBadVariableSymbols A) (\<lambda>_.
     act_bind (if pv_dataTypeChanges p = [] then act_return ([], [])
               else
                 act_bind (act_fold (apply_stub A) (pv_dataTypeChanges p) ()) (\<lambda>_.
                 act_bind (act_fold (apply_type A) (pv_dataTypeChanges p) (0, [])) (\<lambda>(n, added).
                 act_return (added, [(''data_types'', n)]))))
       (\<lambda>(added, applied).
     act_bind (act_fold (\<lambda>(field, none, write) applied.
                 if none then act_return applied else act_bind write (\<lambda>n. act_return (applied @ [(field, n)])))
                 (preview_categories A rebase fc cols p) applied)
       (\<lambda>applied. act_return (added, applied))))"

text \<open>The counts and type ids of a check-in written into the program of a checkout, and the items sent in each category\<close>

definition saved_program ::
    "('w, 'p) program_store \<Rightarrow> 'w \<Rightarrow> string \<Rightarrow> string \<Rightarrow> string \<Rightarrow> i64 \<Rightarrow> string \<Rightarrow> ('p, 'a) act \<Rightarrow> 'a result \<times> 'w" where
  "saved_program T w repo folder item coId comment write =
     (case res_bind (ps_handle T w repo folder item coId comment) (\<lambda>_.
           case ps_program T w repo folder item coId of Inl e \<Rightarrow> Inl (''Failed to open ProgramDB: '' @ e) | Inr p \<Rightarrow> Inr p) of
        Inl e \<Rightarrow> (Inl e, w)
      | Inr p \<Rightarrow>
          (case write p of
             (Inl e, _) \<Rightarrow> (Inl e, w)
           | (Inr x, p) \<Rightarrow>
               (case ps_save T w repo folder item coId comment p of
                  (Inl e, w) \<Rightarrow> (Inl e, w) | (Inr saved, w) \<Rightarrow> (if saved then Inr x else Inl ''save cancelled unexpectedly'', w))))"

definition program_checkin ::
    "('j, 'w) ghidra_remote \<Rightarrow> ('p, 't, 'e) program_api \<Rightarrow> ('w, 'p) program_store \<Rightarrow> bridge_session \<Rightarrow> 'w \<Rightarrow> bn_view \<Rightarrow>
     GhidraCheckinPreview \<Rightarrow> string \<Rightarrow> checkin_state \<Rightarrow> ((string, i64) umap \<times> (string \<times> i32) list) result" where
  "program_checkin R A T Sb w V p comment S =
     in_repo Sb (m_checkinRepo S)
       (case acquire_checkout R (m_checkinRepo S) (m_checkinFolder S) (m_checkinItem S) Sb w of
          (Inl e, _, _) \<Rightarrow> Inl e
        | (Inr (coId, _), w, _) \<Rightarrow>
            fst (saved_program T w (m_checkinRepo S) (m_checkinFolder S) (m_checkinItem S) coId comment
              (apply_preview A (rebase_of S V) (m_addrToOriginalFuncComment S) (m_addrToCommentField S) p)))"

definition sent_counts :: "GhidraCheckinPreview \<Rightarrow> (string \<times> string \<times> nat) list" where
  "sent_counts p =
     [(''symbols'', ''symbols'', length (pv_renames p) + length (pv_newSymbols p)), (''comments'', ''comments'', length (pv_comments p)),
      (''equate renames'', ''equate_renames'', length (pv_equateRenames p)), (''equate refs'', ''equate_ref_adds'', length (pv_newEquateRefs p)),
      (''bookmarks'', ''bookmarks'', length (pv_bookmarkChanges p)),
      (''params/vars'', ''params'', length (pv_paramRenames p) + length (pv_newParams p)),
      (''data types'', ''data_types'', length (pv_dataTypeChanges p)), (''data items'', ''data_items'', length (pv_dataItemChanges p)),
      (''function signatures'', ''func_sigs'', length (pv_funcSigChanges p))]"

definition shortfall :: "(string \<times> i32) list \<Rightarrow> string \<times> string \<times> nat \<Rightarrow> (i64 \<times> nat \<times> string) list" where
  "shortfall applied c =
     (case c of (label, field, sent) \<Rightarrow>
        if sent = 0 then []
        else case map_of applied field of
               None \<Rightarrow> []
             | Some n \<Rightarrow> if sint n < sint (word_of_nat sent :: i64) then [(scast n, sent, label)] else [])"

definition program_outcome ::
    "bn_view \<Rightarrow> GhidraCheckinPreview \<Rightarrow> string \<Rightarrow> checkin_state \<Rightarrow> ((string, i64) umap \<times> (string \<times> i32) list) result \<Rightarrow> checkin_outcome" where
  "program_outcome V p errorOut S r =
     (case r of
        Inl e \<Rightarrow> \<lparr>out_ok = False, out_error = e, out_warnings = [], out_state = S\<rparr>
      | Inr (added, applied) \<Rightarrow>
          \<lparr>out_ok = True, out_error = errorOut, out_warnings = concat (map (shortfall applied) (sent_counts p)),
           out_state = update_baselines V p (apply_type_ids added S)\<rparr>)"

section \<open>Reading the plugin's entries\<close>

lemma act_lift_bind [simp]: "act_bind (act_lift (Inr x)) f = f x" "act_bind (act_return x) f = f x"
  by (simp_all add: act_bind_def act_lift_def act_return_def)

lemma act_bind_return [simp]: "act_bind m act_return = m" "act_bind m (\<lambda>u :: unit. act_return ()) = m"
  by (auto simp: act_bind_def act_return_def split: prod.split sum.split intro!: ext)

lemma act_fold_fun: "act_fold f [] = act_return" "act_fold f (x # xs) = (\<lambda>s. act_bind (f x s) (act_fold f xs))"
  by (simp_all add: fun_eq_iff)

lemma act_bind_assoc: "act_bind (act_bind m f) g = act_bind m (\<lambda>x. act_bind (f x) g)"
  by (auto simp: act_bind_def split: prod.split sum.split intro!: ext)

lemma act_fold_append: "act_fold f (xs @ ys) = (\<lambda>s. act_bind (act_fold f xs s) (act_fold f ys))"
  by (induction xs) (simp_all add: act_fold_fun act_bind_assoc)

lemma act_fold_map: "act_fold f (map g xs) = act_fold (\<lambda>x. f (g x)) xs"
  by (induction xs) (simp_all add: act_fold_fun)

lemma act_fold_cong: "(\<And>x. x \<in> set xs \<Longrightarrow> f x = h x) \<Longrightarrow> act_fold f xs = act_fold h xs"
  by (induction xs) (simp_all add: act_fold_fun)

lemma read_fold_map: "(\<And>m. rd (enc m) = Inr (g m)) \<Longrightarrow> read_fold rd f (map enc ms) = fold_result f (map g ms)"
  by (induction ms) (auto intro!: ext)

lemma act_try_return [simp]: "act_try (act_return x) d = act_return x"
  by (simp add: act_try_def act_return_def)

lemma type_of_name_cases: "type_of_name A name = (if name = [] then (\<lambda>p. Inr None) else (\<lambda>p. resolveDataType A p name))"
  by (simp add: type_of_name_def fun_eq_iff)

lemma parse_sent_address: "parseHexLong (toHex v) = Inr v"
  by (simp add: toHex_eq parseHexLong_def parse_printed_address)

context json_interop
begin

lemma member_set:
  assumes "jl_is_object J j \<or> j = jl_null J"
  shows "member_or G conv d (jl_set J k v j) k' = (if k' = k then conv v else member_or G conv d j k')"
  using assms at_set_other [OF assms, of k' k v] by (auto simp: member_or_def documents object_laws)

lemma member_object:
  "distinct (map fst kvs) \<Longrightarrow> member_or G conv d (jl_object J kvs) k = (case map_of kvs k of None \<Rightarrow> Inr d | Some v \<Rightarrow> conv v)"
  by (auto simp: member_or_def documents object_laws at_object map_of_eq_None_iff split: option.split dest: map_of_SomeD intro: rev_image_eqI)

lemma member_null: "member_or G conv d (jl_null J) k = Inr d"
  by (simp add: member_or_def documents object_laws)

lemmas entry_reads = member_set member_object member_null getStr_def hex_member_def asObject_def documents object_laws
  get_string_string get_int_int get_int64_int64 parse_sent_address

lemma at_member: "jl_contains J c k \<Longrightarrow> res_bind (jl_at J c k) conv = member_or G conv d c k"
  by (simp add: member_or_def documents)

lemma rename_applied: "symbol_step G A (build_rename J r) = apply_rename A r"
  by (rule ext) (simp add: symbol_step_def build_rename_def apply_rename_def entry_reads at_object)

lemma new_symbol_applied: "symbol_step G A (build_new_symbol J rebase s) = apply_new_symbol A rebase s"
  by (rule ext) (simp add: symbol_step_def build_new_symbol_def apply_new_symbol_def entry_reads)

text \<open>Only the column of the comment is among the members.\<close>

lemma single_kind:
  assumes "map_of comment_kinds f = Some kind"
    and "\<And>k. k \<in> fst ` set comment_kinds \<Longrightarrow> k \<noteq> f \<Longrightarrow> \<not> jl_contains G c k"
    and "jl_contains G c f" and "res_bind (jl_at G c f) (jl_get_string G) = Inr s"
  shows "act_fold (set_comment G A c addr) comment_kinds () = pg_setComment A addr kind (nullIfEmpty s)"
proof -
  have present: "set_comment G A c addr (f, k) = (\<lambda>_. pg_setComment A addr k (nullIfEmpty s))" for k
    using assms(3,4) by (simp add: set_comment_def)
  have absent: "set_comment G A c addr (k, k') = (\<lambda>_. act_return ())" if "k \<in> {''eol'', ''pre'', ''post'', ''plate'', ''rep''}" "k \<noteq> f" for k k'
    using assms(2) [of k] that by (simp add: set_comment_def comment_kinds_def)
  have "f \<in> fst ` set comment_kinds" using assms(1) by (auto dest: map_of_SomeD intro: rev_image_eqI)
  then have "f \<in> {''eol'', ''pre'', ''post'', ''plate'', ''rep''}" by (simp add: comment_kinds_def)
  from this assms(1) present absent show ?thesis
    by (elim insertE emptyE) (simp_all add: comment_kinds_def act_fold_fun)
qed

lemma comment_applied:
  assumes "comment_field fc cols (cc_addr c) \<in> fst ` set comment_kinds"
  shows "write_comment G A (build_comment J rebase fc cols c) = apply_comment_change A rebase fc cols c"
proof
  fix cnt
  let ?f = "comment_field fc cols (cc_addr c)" and ?c = "build_comment J rebase fc cols c"
  obtain kind where kind: "map_of comment_kinds ?f = Some kind"
    using assms by (metis map_of_eq_None_iff not_None_eq)
  have f: "?f \<noteq> ''va''" "?f \<noteq> ''key''" using assms by (auto simp: comment_kinds_def)
  have "act_fold (set_comment G A ?c addr) comment_kinds () = pg_setComment A addr kind (nullIfEmpty (cc_text c))" for addr
  proof (rule single_kind [OF kind])
    fix k assume "k \<in> fst ` set comment_kinds" "k \<noteq> ?f"
    then have "k \<noteq> ''va''" "k \<noteq> ''key''" by (auto simp: comment_kinds_def)
    with \<open>k \<noteq> ?f\<close> show "\<not> jl_contains G ?c k" by (simp add: build_comment_def documents object_laws Let_def)
  next
    show "jl_contains G ?c ?f" by (simp add: build_comment_def documents object_laws Let_def)
    have "member_or G (jl_get_string G) [] ?c ?f = Inr (cc_text c)" using f by (simp add: build_comment_def entry_reads Let_def)
    then show "res_bind (jl_at G ?c ?f) (jl_get_string G) = Inr (cc_text c)"
      by (simp add: member_or_def build_comment_def documents object_laws Let_def split: if_splits)
  qed
  moreover have "hex_member G ?c ''va'' = Inr (ghidra_va rebase (cc_addr c))" "jl_contains G ?c ''va''" "asObject G ?c = Inr ?c"
    using f by (simp_all add: build_comment_def entry_reads Let_def)
  ultimately show "write_comment G A ?c cnt = apply_comment_change A rebase fc cols c cnt"
    by (simp add: write_comment_def apply_comment_change_def kind split: sum.split)
qed

lemma equate_rename_applied: "equate_rename_step G A byKey (build_equate_rename J r) = apply_equate_rename A byKey r"
  by (rule ext) (simp add: equate_rename_step_def build_equate_rename_def apply_equate_rename_def entry_reads)

lemma equate_ref_applied: "equate_ref_step G A byKey (build_equate_ref J rebase r) = apply_equate_ref A rebase byKey r"
  by (rule ext) (simp add: equate_ref_step_def build_equate_ref_def apply_equate_ref_def entry_reads)

lemma bookmark_applied: "bookmark_step G A (build_bookmark J rebase b) = apply_bookmark_change A rebase b"
  by (rule ext) (simp add: bookmark_step_def build_bookmark_def apply_bookmark_change_def entry_reads)

lemma data_item_applied: "data_step G A (build_data_item J rebase d) = apply_data_item A rebase d"
  by (rule ext) (simp add: data_step_def build_data_item_def apply_data_item_def entry_reads)

lemma func_sig_applied: "signature_step G A npe (build_func_sig J c) = apply_func_sig A c"
  by (rule ext)
    (simp add: signature_step_def build_func_sig_def apply_func_sig_def optional_string_def nullIfEmpty_def Let_def entry_reads
      at_set_other at_set_same)

lemma param_rename_applied: "param_step G asBoolean A (build_param_rename J r) = apply_param_rename A r"
  by (rule ext)
    (simp add: param_step_def build_param_rename_def apply_param_rename_def type_of_name_cases named_member_type_def Let_def entry_reads
      at_set_other at_object)

lemma new_param_applied:
  assumes "\<And>b. asBoolean (jl_bool J b) = Inr b"
  shows "param_step G asBoolean A (build_new_param J rebase q) = apply_new_param A rebase q"
  by (rule ext)
    (simp add: param_step_def build_new_param_def apply_new_param_def type_of_name_cases named_member_type_def Let_def entry_reads
      at_set_other at_object assms)

lemma type_entry:
  assumes "e = build_data_type J c"
  shows "type_header G e = Inr (e, tc_op c, tc_kind c, tc_name c)" "member_or G (jl_get_int G) d e ''size'' = Inr (tc_size c)"
    "getStr G e ''underlying_type_name'' [] = Inr (tc_underlyingTypeName c)"
    "array_member G e ''members'' = Inr (map (\<lambda>m. jl_object J [(''name'', jl_string J (tm_name m)), (''offset'', jl_int J (tm_offset m)),
       (''size'', jl_int J (tm_size m)), (''type_name'', jl_string J (tm_typeName m))]) (tc_members c))"
    "array_member G e ''values'' = Inr (map (\<lambda>v. jl_object J [(''name'', jl_string J (tv_name v)), (''value'', jl_int64 J (tv_value v))]) (tc_values c))"
  unfolding assms by (simp_all add: type_header_def array_member_def build_data_type_def Let_def entry_reads as_array)

lemma stub_applied: "stub_step G A (build_data_type J c) = apply_stub A c"
  by (rule ext) (simp add: stub_step_def apply_stub_def type_entry [OF refl])

lemma type_members_read:
  "read_fold (read_type_member G placed) f (map (\<lambda>m. jl_object J [(''name'', jl_string J (tm_name m)), (''offset'', jl_int J (tm_offset m)),
       (''size'', jl_int J (tm_size m)), (''type_name'', jl_string J (tm_typeName m))]) ms) s =
   fold_result f (map (\<lambda>m. (tm_name m, tm_typeName m, [], tm_size m, if placed then tm_offset m else - 1)) ms) s"
  by (subst read_fold_map [where g = "\<lambda>m. (tm_name m, tm_typeName m, [], tm_size m, if placed then tm_offset m else - 1)"])
    (simp_all add: read_type_member_def entry_reads)

lemma enum_values_read:
  "read_fold (read_type_value G) f (map (\<lambda>v. jl_object J [(''name'', jl_string J (tv_name v)), (''value'', jl_int64 J (tv_value v))]) vs) s =
   fold_result f (map (\<lambda>v. (tv_name v, tv_value v, [])) vs) s"
  by (subst read_fold_map [where g = "\<lambda>v. (tv_name v, tv_value v, [])"]) (simp_all add: read_type_value_def entry_reads)

lemma type_applied: "type_step G A (build_data_type J c) = apply_type A c"
  by (rule ext) (simp add: type_step_def apply_type_def type_entry [OF refl] type_members_read enum_values_read Let_def)


lemma array_entries:
  "k \<in> set array_keys \<Longrightarrow>
   array_of (checkin_arrays J S V p) k =
     entries_of J (buildCheckinJson J p (rebase_of S V) (m_addrToOriginalFuncComment S) (m_addrToCommentField S)) k"
  by (auto simp: array_of_def checkin_arrays_def map_of_map_restrict restrict_map_def Let_def)

lemma sent_entries:
  fixes p rebase fc cols
  defines "body \<equiv> buildCheckinJson J p rebase fc cols"
  shows "entries_of J body ''symbols'' = map (build_rename J) (pv_renames p) @ map (build_new_symbol J rebase) (pv_newSymbols p)"
    "entries_of J body ''comments'' = map (build_comment J rebase fc cols) (pv_comments p)"
    "entries_of J body ''equate_renames'' = map (build_equate_rename J) (pv_equateRenames p)"
    "entries_of J body ''equate_ref_adds'' = map (build_equate_ref J rebase) (pv_newEquateRefs p)"
    "entries_of J body ''bookmark_changes'' = map (build_bookmark J rebase) (pv_bookmarkChanges p)"
    "entries_of J body ''param_renames'' = map (build_param_rename J) (pv_paramRenames p) @ map (build_new_param J rebase) (pv_newParams p)"
    "entries_of J body ''data_type_changes'' = map (build_data_type J) (pv_dataTypeChanges p)"
    "entries_of J body ''data_item_changes'' = map (build_data_item J rebase) (pv_dataItemChanges p)"
    "entries_of J body ''func_sig_changes'' = map (build_func_sig J) (pv_funcSigChanges p)"
  by (simp_all add: body_def entries_of_def buildCheckinJson_def at_object elements_array)

lemma comments_applied:
  assumes "columns_ok cols"
  shows "applyComments G A (map (build_comment J rebase fc cols) cs) = act_fold (apply_comment_change A rebase fc cols) cs 0"
proof -
  have "comment_field fc cols a \<in> fst ` set comment_kinds" for a
    using comment_field_cases [OF assms, of fc a] by (auto simp: columns_def comment_kinds_def)
  then show ?thesis by (simp add: applyComments_def act_fold_map comment_applied)
qed

lemma types_applied:
  "applyDataTypes G A (map (build_data_type J) cs) =
   act_bind (act_fold (apply_stub A) cs ()) (\<lambda>_. act_fold (apply_type A) cs (0, []))"
  by (simp add: applyDataTypes_def act_fold_map stub_applied type_applied)

lemma categories_applied:
  assumes "\<And>b. asBoolean (jl_bool J b) = Inr b" and "columns_ok (m_addrToCommentField S)"
  shows "map (\<lambda>(field, key, write). (field, array_of (checkin_arrays J S V p) key = [], write (array_of (checkin_arrays J S V p) key)))
      (write_categories G asBoolean npe A) =
    preview_categories A (rebase_of S V) (m_addrToOriginalFuncComment S) (m_addrToCommentField S) p"
  by (simp add: write_categories_def preview_categories_def array_entries array_keys_def sent_entries
      comments_applied [OF assms(2)] applySymbols_def applyEquateRenames_def applyEquateRefAdds_def applyBookmarks_def
      applyParameters_def applyDataItems_def applyFuncSigs_def act_fold_append act_fold_map rename_applied
      new_symbol_applied equate_rename_applied equate_ref_applied bookmark_applied param_rename_applied
      new_param_applied [OF assms(1)] data_item_applied func_sig_applied)

text \<open>The applier on the plugin's arrays is the specification.\<close>

lemma applied_arrays:
  assumes "\<And>b. asBoolean (jl_bool J b) = Inr b" and "columns_ok (m_addrToCommentField S)"
  shows "apply_arrays G asBoolean npe A (checkin_arrays J S V p) =
    apply_preview A (rebase_of S V) (m_addrToOriginalFuncComment S) (m_addrToCommentField S) p"
proof -
  have types: "array_of (checkin_arrays J S V p) ''data_type_changes'' = map (build_data_type J) (pv_dataTypeChanges p)"
    by (simp add: array_entries array_keys_def sent_entries)
  show ?thesis
    unfolding apply_arrays_def apply_preview_def categories_applied [OF assms, where npe = npe, symmetric] types
    by (simp add: act_fold_map case_prod_unfold count_category_def [abs_def] types_applied act_bind_assoc cong: if_cong)
qed

end

section \<open>What the applier can return\<close>

definition yields :: "('a \<Rightarrow> bool) \<Rightarrow> ('p, 'a) act \<Rightarrow> bool" where
  "yields P m \<longleftrightarrow> (\<forall>p x q. m p = (Inr x, q) \<longrightarrow> P x)"

lemma yields_return: "P x \<Longrightarrow> yields P (act_return x)"
  by (simp add: yields_def act_return_def)

lemma yields_bind: "yields Q m \<Longrightarrow> (\<And>x. Q x \<Longrightarrow> yields P (f x)) \<Longrightarrow> yields P (act_bind m f)"
  by (fastforce simp: yields_def act_bind_def split: prod.splits sum.splits)

lemma yields_any: "(\<And>x. yields P (f x)) \<Longrightarrow> yields P (act_bind m f)"
  by (rule yields_bind [where Q = "\<lambda>_. True"]) (simp_all add: yields_def)

lemma yields_look: "(\<And>p. yields P (f p)) \<Longrightarrow> yields P (act_look f)"
  by (auto simp: yields_def act_look_def)

lemma yields_try: "yields P m \<Longrightarrow> P d \<Longrightarrow> yields P (act_try m d)"
  by (fastforce simp: yields_def act_try_def split: prod.splits sum.splits)

lemma yields_then: "P x \<Longrightarrow> yields P (act_then m x)"
  by (auto simp: act_then_def intro: yields_any yields_return)

lemma yields_fold: "P s \<Longrightarrow> (\<And>x s. P s \<Longrightarrow> yields P (f x s)) \<Longrightarrow> yields P (act_fold f xs s)"
  by (induction xs arbitrary: s) (auto intro: yields_return yields_bind)

lemmas yields_rules = yields_return yields_any yields_look yields_try yields_then

lemma yields_mono: "yields Q m \<Longrightarrow> (\<And>x. Q x \<Longrightarrow> P x) \<Longrightarrow> yields P m"
  by (auto simp: yields_def)

definition returns :: "('p, 'a) act \<Rightarrow> bool" where
  "returns m \<longleftrightarrow> (\<forall>p. \<exists>x q. m p = (Inr x, q))"

lemma returns_rules:
  "returns (act_return x)" "returns (act_try m d)" "(\<And>p. returns (f p)) \<Longrightarrow> returns (act_look f)"
  by (auto simp: returns_def act_return_def act_try_def act_look_def split: prod.splits sum.splits)

lemma returns_lift: "\<exists>x. r = Inr x \<Longrightarrow> returns (act_lift r)"
  by (auto simp: returns_def act_lift_def)

lemma returns_bind: "returns m \<Longrightarrow> (\<And>x. returns (f x)) \<Longrightarrow> returns (act_bind m f)"
  unfolding returns_def act_bind_def by (metis (no_types, lifting) case_prod_conv sum.case(2))

lemma returns_fold: "(\<And>x s. x \<in> set xs \<Longrightarrow> returns (f x s)) \<Longrightarrow> returns (act_fold f xs s)"
  by (induction xs arbitrary: s) (auto intro: returns_rules returns_bind)

text \<open>The type ids are a map, and each count is of another category.\<close>

lemma put_type_ids: "distinct (map fst (snd na)) \<Longrightarrow> yields (\<lambda>na. distinct (map fst (snd na))) (put_type A oper name na dt)"
  unfolding put_type_def
  by (rule yields_any, rule yields_any, rule yields_look, rule yields_bind [where Q = "\<lambda>added. distinct (map fst added)"])
    (auto simp: distinct_update split: option.split intro!: yields_return yields_any)

lemma apply_type_ids_distinct:
  "distinct (map fst (snd na)) \<Longrightarrow> yields (\<lambda>na. distinct (map fst (snd na))) (apply_type A c na)"
  by (auto simp: apply_type_def Let_def split: option.split intro!: yields_rules put_type_ids)

lemma counted_categories:
  "yields (\<lambda>applied'. map fst applied' = map fst applied @ map fst (filter (\<lambda>(field, none, write). \<not> none) cats))
     (act_fold (\<lambda>(field, none, write) applied.
        if none then act_return applied else act_bind write (\<lambda>n. act_return (applied @ [(field, n)]))) cats applied)"
proof (induction cats arbitrary: applied)
  case (Cons c cats)
  obtain field none wr where c: "c = (field, none, wr)" by (metis prod_cases3)
  show ?case
    by (cases none) (use Cons.IH [of applied] Cons.IH [of "applied @ [(field, n)]" for n] in \<open>auto simp: c act_bind_assoc intro!: yields_any\<close>)
qed (simp add: yields_return)

lemma category_fields: "map fst (preview_categories A rebase fc cols p) =
    [''symbols'', ''comments'', ''equate_renames'', ''equate_ref_adds'', ''bookmarks'', ''params'', ''data_items'', ''func_sigs'']"
  by (simp add: preview_categories_def)

lemma apply_preview_keys:
  "yields (\<lambda>(added, applied). distinct (map fst added) \<and> distinct (map fst applied)) (apply_preview A rebase fc cols p)"
proof -
  let ?cats = "filter (\<lambda>(field, none, write). \<not> none) (preview_categories A rebase fc cols p)"
  have sub: "set (map fst ?cats) \<subseteq> set (map fst (preview_categories A rebase fc cols p))" by auto
  have "''data_types'' \<notin> set (map fst (preview_categories A rebase fc cols p))" unfolding category_fields by simp
  with sub have new: "''data_types'' \<notin> fst ` set ?cats" by auto
  have dist: "distinct (map fst ?cats)" by (rule distinct_map_filter) (simp only: category_fields, simp)
  have types: "yields (\<lambda>(added, applied). distinct (map fst added) \<and> map fst applied \<in> {[], [''data_types'']})
      (if pv_dataTypeChanges p = [] then act_return ([], [])
       else act_bind (act_fold (apply_stub A) (pv_dataTypeChanges p) ()) (\<lambda>_.
            act_bind (act_fold (apply_type A) (pv_dataTypeChanges p) (0, [])) (\<lambda>(n, added). act_return (added, [(''data_types'', n)]))))"
  proof -
    have ids: "yields (\<lambda>na. distinct (map fst (snd na))) (act_fold (apply_type A) (pv_dataTypeChanges p) (0, []))"
      by (rule yields_fold) (auto intro: apply_type_ids_distinct)
    show ?thesis
      by (auto intro!: yields_return yields_any [of _ _ "act_fold (apply_stub A) xs s" for xs s] yields_bind [OF ids])
  qed
  show ?thesis
    unfolding apply_preview_def
    by (rule yields_any, rule yields_bind [OF types], clarify, rule yields_bind [OF counted_categories])
      (use new dist in \<open>auto intro!: yields_return\<close>)
qed

text \<open>Each item counts once or not at all, so no count exceeds what was sent.\<close>

definition one_more :: "('s \<Rightarrow> i32) \<Rightarrow> 's \<Rightarrow> ('p, 's) act \<Rightarrow> bool" where
  "one_more c s m \<longleftrightarrow> yields (\<lambda>t. c t = c s \<or> c t = c s + 1) m"

lemma one_more_rules:
  "c t = c s \<or> c t = c s + 1 \<Longrightarrow> one_more c s (act_return t)" "(\<And>x. one_more c s (f x)) \<Longrightarrow> one_more c s (act_bind m f)"
  "(\<And>p. one_more c s (h p)) \<Longrightarrow> one_more c s (act_look h)" "one_more c s m' \<Longrightarrow> one_more c s (act_try m' s)"
  "c t = c s \<or> c t = c s + 1 \<Longrightarrow> one_more c s (act_then m t)"
  unfolding one_more_def by (auto intro!: yields_rules)

lemma fold_counts:
  assumes "\<And>x s. one_more c s (f x s)"
  shows "yields (\<lambda>t. \<exists>k \<le> length xs. c t = c s + word_of_nat k) (act_fold f xs s)"
proof (induction xs arbitrary: s)
  case (Cons x xs)
  have "yields (\<lambda>u. \<exists>k \<le> length (x # xs). c u = c s + word_of_nat k) (act_fold f xs t)" if "c t = c s \<or> c t = c s + 1" for t
  proof (rule yields_mono [OF Cons.IH [of t]])
    fix u assume "\<exists>k \<le> length xs. c u = c t + word_of_nat k"
    then obtain k where k: "k \<le> length xs" "c u = c t + word_of_nat k" by blast
    with that show "\<exists>k \<le> length (x # xs). c u = c s + word_of_nat k"
      by (elim disjE) (rule exI [of _ k], simp, rule exI [of _ "Suc k"], simp add: algebra_simps)
  qed
  then show ?case using assms [of s x] by (auto simp: one_more_def intro: yields_bind)
qed (simp add: yields_return)

lemma writers_count:
  "one_more id cnt (apply_rename A r cnt)" "one_more id cnt (apply_new_symbol A rebase sy cnt)"
  "one_more id cnt (apply_comment_change A rebase fc cols cc cnt)" "one_more id cnt (apply_equate_rename A byKey er cnt)"
  "one_more id cnt (apply_equate_ref A rebase byKey ef cnt)" "one_more id cnt (apply_bookmark_change A rebase b cnt)"
  "one_more id cnt (apply_param_rename A pr cnt)" "one_more id cnt (apply_new_param A rebase q cnt)"
  "one_more id cnt (apply_data_item A rebase d cnt)" "one_more id cnt (apply_func_sig A fs cnt)"
  by (auto simp: apply_rename_def rename_symbol_def apply_new_symbol_def create_label_def apply_comment_change_def
      apply_equate_rename_def rename_equate_at_def rename_equate_def apply_equate_ref_def add_equate_reference_def
      apply_bookmark_change_def change_bookmark_def apply_param_rename_def rename_variable_def apply_new_param_def
      change_parameter_def apply_data_item_def change_data_def apply_func_sig_def change_signature_def Let_def
      split: option.split sum.split intro!: one_more_rules)

lemma put_type_counts: "one_more fst na (put_type A oper name na dt)"
  by (auto simp: put_type_def split: option.split intro!: one_more_rules)

lemma types_count: "one_more fst na (apply_type A c na)"
  by (auto simp: apply_type_def Let_def split: option.split intro!: one_more_rules put_type_counts)

definition up_to :: "nat \<Rightarrow> i32 \<Rightarrow> bool" where
  "up_to n v \<longleftrightarrow> (\<exists>k \<le> n. v = word_of_nat k)"

lemma fold_up_to: "(\<And>x s. one_more id s (f x s)) \<Longrightarrow> yields (up_to (length xs)) (act_fold f xs 0)"
  using fold_counts [of id f xs 0] by (simp add: up_to_def [abs_def])

lemma two_folds_up_to:
  assumes "\<And>x s. one_more id s (f x s)" and "\<And>y s. one_more id s (g y s)"
  shows "yields (up_to (length xs + length ys)) (act_bind (act_fold f xs 0) (act_fold g ys))"
proof (rule yields_bind [OF fold_up_to [of f xs, OF assms(1)]])
  fix s assume "up_to (length xs) s"
  then obtain k where k: "k \<le> length xs" "s = word_of_nat k" by (auto simp: up_to_def)
  show "yields (up_to (length xs + length ys)) (act_fold g ys s)"
  proof (rule yields_mono [OF fold_counts [of id g ys s, OF assms(2)]])
    fix v assume "\<exists>j \<le> length ys. id v = id s + word_of_nat j"
    then obtain j where "j \<le> length ys" "v = s + word_of_nat j" by auto
    with k show "up_to (length xs + length ys) v" unfolding up_to_def by (intro exI [of _ "k + j"]) simp
  qed
qed

definition counted :: "GhidraCheckinPreview \<Rightarrow> string \<times> i32 \<Rightarrow> bool" where
  "counted p c = (case map_of (map snd (sent_counts p)) (fst c) of None \<Rightarrow> False | Some sent \<Rightarrow> up_to sent (snd c))"

lemma category_counts:
  assumes "(field, none, wr) \<in> set (preview_categories A rebase fc cols p)"
  shows "yields (\<lambda>n. counted p (field, n)) wr"
proof -
  have sent: "(\<lambda>n. counted p (f, n)) = up_to sent" if "map_of (map snd (sent_counts p)) f = Some sent" for f sent
    using that by (simp add: counted_def)
  have "list_all (\<lambda>(field, none, wr). \<exists>sent. map_of (map snd (sent_counts p)) field = Some sent \<and> yields (up_to sent) wr)
      (preview_categories A rebase fc cols p)"
    by (simp add: preview_categories_def sent_counts_def fold_up_to two_folds_up_to writers_count yields_look)
  with assms show ?thesis by (auto simp: list_all_iff sent)
qed

lemma counted_fold:
  assumes "list_all (counted p) applied" and "\<And>field none wr. (field, none, wr) \<in> set cats \<Longrightarrow> yields (\<lambda>n. counted p (field, n)) wr"
  shows "yields (list_all (counted p)) (act_fold (\<lambda>(field, none, write) applied.
        if none then act_return applied else act_bind write (\<lambda>n. act_return (applied @ [(field, n)]))) cats applied)"
  using assms
proof (induction cats arbitrary: applied)
  case (Cons c cats)
  obtain field none wr where c: "c = (field, none, wr)" by (metis prod_cases3)
  have "yields (\<lambda>n. counted p (field, n)) wr" by (rule Cons.prems(2) [of field none]) (simp add: c)
  moreover have "yields (list_all (counted p)) (act_fold (\<lambda>(field, none, write) applied.
        if none then act_return applied else act_bind write (\<lambda>n. act_return (applied @ [(field, n)]))) cats ap)"
    if "list_all (counted p) ap" for ap
    by (rule Cons.IH [OF that]) (use Cons.prems(2) in auto)
  ultimately show ?case
    by (cases none) (use Cons.prems(1) in \<open>auto simp: c act_bind_assoc elim!: yields_bind\<close>)
qed (simp add: yields_return)

lemma apply_preview_counts: "yields (\<lambda>(added, applied). list_all (counted p) applied) (apply_preview A rebase fc cols p)"
proof -
  have types: "yields (\<lambda>(added, applied). list_all (counted p) applied)
      (if pv_dataTypeChanges p = [] then act_return ([], [])
       else act_bind (act_fold (apply_stub A) (pv_dataTypeChanges p) ()) (\<lambda>_.
            act_bind (act_fold (apply_type A) (pv_dataTypeChanges p) (0, [])) (\<lambda>(n, added). act_return (added, [(''data_types'', n)]))))"
    using fold_counts [of fst "apply_type A" "pv_dataTypeChanges p" "(0, [])", OF types_count]
    by (auto simp: counted_def sent_counts_def up_to_def intro!: yields_return yields_any [of _ _ "act_fold (apply_stub A) xs s" for xs s]
        elim!: yields_bind)
  show ?thesis
    unfolding apply_preview_def
    by (rule yields_any, rule yields_bind [OF types], clarify)
      (rule yields_bind [OF counted_fold], assumption, erule category_counts, rule yields_return, simp)
qed

text \<open>
  Only the resolving of a return type is outside every \<open>try\<close>: a name of separators alone or a lookup that throws ends
  the check-in, everything else that can fail for an item is caught.
\<close>

definition return_type_ok :: "FuncSigChange \<Rightarrow> bool" where
  "return_type_ok c \<longleftrightarrow> (let t = normalizePrimitives (java_trim (sc_returnTypeName c)) in t = [] \<or> \<not> list_all type_separator t)"

definition lookups_return :: "('p, 't, 'e) program_api \<Rightarrow> bool" where
  "lookups_return A \<longleftrightarrow> (\<forall>q n. \<exists>dt. pg_getDataType A q n = Inr dt)"

lemma resolve_returns:
  assumes "return_type_ok c" and "lookups_return A"
  shows "\<exists>dt. resolveDataType A p (sc_returnTypeName c) = Inr dt"
proof -
  let ?t = "normalizePrimitives (java_trim (sc_returnTypeName c))"
  obtain dt where dt: "pg_getDataType A p ?t = Inr dt" using assms(2) by (auto simp: lookups_return_def)
  have "\<exists>dt. pg_getDataType A p n = Inr dt" for n using assms(2) by (simp add: lookups_return_def)
  moreover have "\<exists>part. first_part ?t = Inr part" using assms(1) by (auto simp: return_type_ok_def first_part_def Let_def)
  ultimately show ?thesis
    by (auto simp: resolveDataType_def dt Let_def split: option.split sum.split)
qed

lemma func_sig_returns:
  assumes "return_type_ok c" and "lookups_return A"
  shows "returns (apply_func_sig A c cnt)"
proof -
  have "returns (set_return_type A key (sc_returnTypeName c))" for key
    using resolve_returns [OF assms]
    by (auto simp: set_return_type_def split: option.split intro!: returns_rules returns_bind returns_lift)
  then show ?thesis
    by (auto simp: apply_func_sig_def change_signature_def nullIfEmpty_def set_convention_def intro!: returns_rules returns_bind)
qed

lemma writers_return:
  "returns (apply_rename A r cnt)" "returns (apply_new_symbol A rebase sy cnt)"
  "returns (apply_comment_change A rebase fc cols cc cnt)" "returns (apply_equate_rename A byKey er cnt)"
  "returns (apply_equate_ref A rebase byKey ef cnt)" "returns (apply_bookmark_change A rebase b cnt)"
  "returns (apply_param_rename A pr cnt)" "returns (apply_new_param A rebase q cnt)"
  "returns (apply_data_item A rebase d cnt)" "returns (apply_stub A tc u)" "returns (apply_type A tc na)"
  by (auto simp: apply_rename_def apply_new_symbol_def apply_comment_change_def apply_equate_rename_def rename_equate_at_def
      apply_equate_ref_def add_equate_reference_def apply_bookmark_change_def change_bookmark_def apply_param_rename_def
      apply_new_param_def apply_data_item_def change_data_def apply_stub_def apply_type_def Let_def
      split: option.split sum.split intro!: returns_rules)

lemma apply_preview_returns:
  assumes "list_all return_type_ok (pv_funcSigChanges p)" and "pv_funcSigChanges p \<noteq> [] \<longrightarrow> lookups_return A"
  shows "returns (apply_preview A rebase fc cols p)"
proof -
  have "returns wr" if "(field, none, wr) \<in> set (preview_categories A rebase fc cols p)" for field none wr
    using that assms
    by (auto simp: preview_categories_def list_all_iff intro!: returns_bind returns_fold writers_return func_sig_returns returns_rules(3))
  then show ?thesis
    unfolding apply_preview_def cleanupBadVariableSymbols_def
    by (auto simp: case_prod_unfold intro!: returns_bind returns_fold writers_return returns_rules split: option.split)
qed

section \<open>What the plugin is told\<close>

lemma update_commute:
  "a \<noteq> b \<Longrightarrow> map_of m a \<noteq> None \<Longrightarrow> map_of m b \<noteq> None \<Longrightarrow> AList.update a x (AList.update b y m) = AList.update b y (AList.update a x m)"
  by (induction m) auto

lemma set_type_id_commute: "fst x = fst y \<longrightarrow> x = y \<Longrightarrow> set_type_id x \<circ> set_type_id y = set_type_id y \<circ> set_type_id x"
  by (cases x; cases y) (auto simp: fun_eq_iff set_type_id_def umap_simps split: option.split intro!: update_commute)

lemma set_type_id_again: "set_type_id x \<circ> set_type_id x = set_type_id x"
  by (cases x) (auto simp: fun_eq_iff set_type_id_def umap_simps AList.update_last split: option.split)

text \<open>The ids are set in whatever order the object lists them.\<close>

lemma type_ids_order:
  assumes "distinct (map fst ids)" and "set ids' = set ids"
  shows "apply_type_ids ids' S = apply_type_ids ids S"
proof -
  have "fst x = fst y \<longrightarrow> x = y" if "x \<in> set ids" "y \<in> set ids" for x y
    using assms(1) that by (auto simp: distinct_map dest: inj_onD)
  then have "comp_fun_idem_on (set ids) set_type_id"
    by unfold_locales (simp_all add: set_type_id_commute set_type_id_again)
  then have "fold set_type_id ids' m = fold set_type_id ids m" for m
    using comp_fun_idem_on.fold_set_fold [of "set ids" set_type_id ids' m] comp_fun_idem_on.fold_set_fold [of "set ids" set_type_id ids m]
      assms(2) by simp
  then show ?thesis by (simp add: apply_type_ids_def)
qed

lemma saved_program_yields: "yields P m \<Longrightarrow> fst (saved_program T w repo folder item coId comment m) = Inr x \<Longrightarrow> P x"
  by (cases "ps_handle T w repo folder item coId comment")
    (auto simp: saved_program_def yields_def split: sum.splits prod.splits if_splits)

text \<open>Booleans and counts cross the wire as what they are: Gson's \<open>getAsBoolean\<close>, and an \<open>int\<close> read as a 64-bit number.\<close>

locale program_link = bridge_link J G R files eol sock cb C
  for J :: "'j json_lib" and G :: "'j gson" and R :: "('j, 'w) ghidra_remote" and files eol sock and cb :: 'c and C +
  fixes asBoolean :: "'j \<Rightarrow> bool result"
  assumes boolean: "asBoolean (jl_bool J b) = Inr b"
    and count_number: "jl_is_number J (jl_int J n)" "jl_get_int64 J (jl_int J n) = Inr (scast n)"
begin

lemma result_members:
  "jl_contains J (apply_result G added applied) k \<longleftrightarrow> k \<in> {''added_type_ids'', ''applied''}"
  "jl_at J (apply_result G added applied) ''added_type_ids'' = Inr (jl_object J (map (\<lambda>(name, i). (name, jl_int64 J i)) added))"
  "jl_at J (apply_result G added applied) ''applied'' = Inr (jl_object J (map (\<lambda>(field, n). (field, jl_int J n)) applied))"
  by (auto simp: apply_result_def documents object_laws at_object)

lemma result_ids:
  assumes "distinct (map fst added)"
  obtains ids where "added_type_ids J (apply_result G added applied) = Inr ids" "set ids = set added"
proof -
  let ?kvs = "map (\<lambda>(name, i). (name, jl_int64 J i)) added" and ?items = "jl_items J (jl_object J (map (\<lambda>(name, i). (name, jl_int64 J i)) added))"
  have items: "set ?items = set ?kvs" using assms by (intro items_object) (simp add: comp_def case_prod_unfold)
  then have num: "filter (\<lambda>(n, v). jl_is_number J v) ?items = ?items" by (auto simp: filter_id_conv is_number_int64)
  define rd where "rd = (\<lambda>(n :: string, v). (n, case jl_get_int64 J v of Inr i \<Rightarrow> i | Inl _ \<Rightarrow> 0))"
  have "res_map (\<lambda>(n, v). res_bind (jl_get_int64 J v) (\<lambda>i. Inr (n, i))) ?items = Inr (map rd ?items)"
    using items by (intro res_map_Inr_map) (auto simp: rd_def get_int64_int64)
  moreover have "set (map rd ?items) = set added"
    using items by (force simp: rd_def get_int64_int64)
  ultimately show ?thesis
    using that [of "map rd ?items"] num by (simp add: added_type_ids_def result_members is_object_object)
qed

lemma result_warnings:
  assumes "distinct (map fst applied)"
  shows "applied_warnings J (buildCheckinJson J p rebase fc cols) (apply_result G added applied) =
    Inr (concat (map (shortfall applied) (sent_counts p)))"
proof -
  let ?ap = "jl_object J (map (\<lambda>(field, n). (field, jl_int J n)) applied)"
  have keys: "distinct (map fst (map (\<lambda>(field, n). (field, jl_int J n)) applied))" using assms by (simp add: comp_def case_prod_unfold)
  have short: "warnShort J ?ap label field sent = Inr (shortfall applied (label, field, sent))" for label field sent
  proof (cases "map_of applied field")
    case None
    then have "\<not> jl_contains J ?ap field" by (force simp: object_laws map_of_eq_None_iff)
    with None show ?thesis by (simp add: warnShort_def shortfall_def)
  next
    case (Some n)
    then have "map_of (map (\<lambda>(field, n). (field, jl_int J n)) applied) field = Some (jl_int J n)" by (simp add: map_of_map)
    then have "jl_at J ?ap field = Inr (jl_int J n)" "jl_contains J ?ap field"
      using at_object [OF keys] by (simp_all add: object_laws) (force dest!: map_of_SomeD)
    with Some show ?thesis by (simp add: warnShort_def shortfall_def count_number sint_up_scast is_up)
  qed
  show ?thesis
    by (simp add: applied_warnings_def result_members is_object_object applied_categories_def sent_counts_def
        buildCheckinJson_def at_object size_array short)
qed

lemma applier_saves:
  assumes "columns_ok (m_addrToCommentField S)"
  shows "program_apply G asBoolean npe A T w repo folder item coId (checkin_arrays J S V p) comment =
    map_prod (map_sum id (\<lambda>(added, applied). apply_result G added applied)) id
      (saved_program T w repo folder item coId comment
        (apply_preview A (rebase_of S V) (m_addrToOriginalFuncComment S) (m_addrToCommentField S) p))"
  unfolding program_apply_def applied_arrays [OF boolean assms] saved_program_def in_transaction_def
  by (cases "ps_handle T w repo folder item coId comment") (simp_all split: sum.split prod.split)

lemma program_checkin_result:
  assumes "columns_ok (m_addrToCommentField S)" and "gr_apply R = program_apply G asBoolean npe A T"
  shows "bridge_checkin R Sb w (m_checkinRepo S) (m_checkinFolder S) (m_checkinItem S) comment (checkin_arrays J S V p) =
    map_sum id (\<lambda>(added, applied). apply_result G added applied) (program_checkin R A T Sb w V p comment S)"
  unfolding bridge_checkin_def program_checkin_def map_sum_in_repo assms(2) applier_saves [OF assms(1)]
  by (simp split: sum.split prod.split)

lemma program_checkin_keys:
  assumes "program_checkin R A T Sb w V p comment S = Inr (added, applied)"
  shows "distinct (map fst added) \<and> distinct (map fst applied)"
proof -
  obtain u where repo: "getRepo (m_checkinRepo S) Sb = Inr u"
    using assms by (cases "getRepo (m_checkinRepo S) Sb") (simp_all add: program_checkin_def in_repo_def)
  have saved_yields: "fst (saved_program T w repo folder item coId comment
      (apply_preview A (rebase_of S V) (m_addrToOriginalFuncComment S) (m_addrToCommentField S) p)) = Inr (added, applied) \<Longrightarrow> ?thesis"
    for w repo folder item coId
    using saved_program_yields [OF apply_preview_keys] by fastforce
  show ?thesis
    using assms saved_yields by (auto simp: program_checkin_def in_repo_def repo split: sum.splits prod.splits)
qed

lemma program_wire:
  assumes "columns_ok (m_addrToCommentField S)" and "gr_apply R = program_apply G asBoolean npe A T"
    and "fits J C (checkin_request J S V p comment)" and "list_all (\<lambda>e. jl_contains J e ''event'') before" and "m_checkinItem S \<noteq> []"
  shows "checkin J True True (over_wire J G R files eol sock before after cb C (Sb, w)) V p comment errorOut S =
    program_outcome V p errorOut S (program_checkin R A T Sb w V p comment S)"
proof -
  note bridge = program_checkin_result [OF assms(1,2), of Sb w comment V p]
  have at: "\<exists>v. jl_at J res k = Inr v"
    if "bridge_checkin R Sb w (m_checkinRepo S) (m_checkinFolder S) (m_checkinItem S) comment (checkin_arrays J S V p) = Inr res"
      "jl_contains J res k" for res k
    using that by (cases "program_checkin R A T Sb w V p comment S") (auto simp: bridge result_members)
  show ?thesis
  proof (cases "program_checkin R A T Sb w V p comment S")
    case (Inl e)
    then show ?thesis
      by (subst checkin_wire [OF assms(3-5)]) (rule at, assumption, assumption, simp add: bridge program_outcome_def)
  next
    case (Inr out)
    obtain added applied where out: "out = (added, applied)" by force
    with Inr have keys: "distinct (map fst added)" "distinct (map fst applied)" using program_checkin_keys by blast+
    obtain ids where ids: "added_type_ids J (apply_result G added applied) = Inr ids" "set ids = set added"
      by (rule result_ids [OF keys(1)])
    show ?thesis
      using type_ids_order [OF keys(1) ids(2)]
      by (subst checkin_wire [OF assms(3-5)])
        (rule at, assumption, assumption, simp add: bridge Inr out program_outcome_def result_warnings [OF keys(2)] ids(1) Let_def)
  qed
qed

end

section \<open>Losses\<close>

text \<open>An equate is removed before its successor is made: if that fails, it is gone, and the check-in goes on.\<close>

lemma failed_rename_loses_equate:
  assumes "map_of byKey key = Some eq" and "\<not> key <s 0" and "name \<noteq> []" and "pg_equateData A q eq = Inr (val, refs, oldName)"
    and "pg_removeEquate A oldName q = (Inr u, q1)" and "pg_createEquate A name val q1 = (Inl e, q2)"
  shows "rename_equate_at A byKey key name cnt q = (Inr cnt, q2)"
  using assms by (simp add: rename_equate_at_def rename_equate_def act_try_def act_look_def act_bind_def act_lift_def)

text \<open>A new parameter that cannot be added counts as written, so the plugin is not warned.\<close>

lemma failed_parameter_counted:
  assumes "pg_address A va = Inr a" and "pg_getFunctionAt A q a = Inr (Some f)" and "type q = Inr (Some dt)"
    and "pg_parameterCount A q f = Inr n" and "\<not> (0 <=s ord \<and> unat ord < n)" and "pg_addParameter A f name dt q = (Inl e, q)"
  shows "change_parameter A va ord name type cnt q = (Inr (cnt + 1), q)"
  using assms by (auto simp: change_parameter_def act_then_def act_try_def act_look_def act_bind_def act_lift_def act_return_def Let_def)

text \<open>A return type of separators alone, which Ghidra does not know, ends the whole check-in.\<close>

lemma separator_type_ends_checkin:
  assumes "pg_getFunction A q (sc_key c) = Inr True" and "\<not> return_type_ok c"
    and "\<And>n. pg_getDataType A q n = Inr None" and "\<And>n. pg_parseType A q n = Inr None"
  shows "apply_func_sig A c cnt q = (Inl ''Index 0 out of bounds for length 0'', q)"
proof -
  let ?t = "normalizePrimitives (java_trim (sc_returnTypeName c))"
  have t: "?t \<noteq> []" "list_all type_separator ?t" using assms(2) by (simp_all add: return_type_ok_def Let_def)
  then have "sc_returnTypeName c \<noteq> []" by (auto simp: java_trim_def normalizePrimitives_def stdint_to_ghidra_def)
  with assms t show ?thesis
    by (simp add: apply_func_sig_def change_signature_def nullIfEmpty_def set_return_type_def resolveDataType_def
        first_part_def act_look_def act_bind_def act_lift_def)
qed

section \<open>An executable instance\<close>

interpretation written: program_link text_json text_gson R files "[newline]" "\<lambda>k bytes. 1" "''cb''" ready_client tree_boolean
  for R :: "(jtree, 'w) ghidra_remote" and files :: "(jtree, 'w) file_ops"
  by unfold_locales (simp_all add: tree_boolean_def text_json_def tree_json_with_def)

text \<open>A program of symbols only, by key; the other calls throw\<close>

definition unsupported :: "('p, 'a) act" where
  "unsupported = act_lift (Inl ''unsupported'')"

definition symbol_api :: "((i64 \<times> string) list, string, string) program_api" where
  "symbol_api =
     \<lparr>pg_address = Inr, pg_symbolRows = (\<lambda>_. None), pg_rowsError = (\<lambda>_. False), pg_isVariableAddress = (\<lambda>_. Inr True),
      pg_deleteSymbolRow = (\<lambda>_. unsupported), pg_hasSymbol = (\<lambda>p key. Inr (has_key p key)),
      pg_setName = (\<lambda>key name p. (Inr (), AList.update key name p)),
      pg_createLabel = (\<lambda>a name p. if name = ''?'' then (Inl ''invalid name'', p) else (Inr (), AList.update a name p)),
      pg_setComment = (\<lambda>_ _ _. unsupported), pg_equateRows = (\<lambda>_. []), pg_getEquate = (\<lambda>_ _. Inr None),
      pg_equateData = (\<lambda>_ _. Inl []), pg_removeEquate = (\<lambda>_. unsupported), pg_createEquate = (\<lambda>_ _. unsupported),
      pg_addReference = (\<lambda>_ _ _. unsupported), pg_getBookmarks = (\<lambda>_ _ _. Inr []), pg_removeBookmark = (\<lambda>_. unsupported),
      pg_setBookmark = (\<lambda>_ _ _ _. unsupported), pg_getDataType = (\<lambda>_ n. if n = ''int'' then Inr (Some n) else Inr None), pg_parseType = (\<lambda>_ _. Inr None),
      pg_length = (\<lambda>_. 1), pg_undefined = (\<lambda>_. ''undefined''), pg_undefined1 = ''undefined1'', pg_default = ''undefined'',
      pg_structure = (\<lambda>name _. Inr name), pg_insertAtOffset = (\<lambda>_ _ _ _ _ s. Inr s), pg_structureAdd = (\<lambda>_ _ _ _ s. Inr s),
      pg_growStructure = (\<lambda>_ s. Inr s), pg_union = Inr, pg_unionAdd = (\<lambda>_ _ _ _ u. Inr u), pg_enum = (\<lambda>name _. Inr name),
      pg_enumAdd = (\<lambda>_ _ _ t. Inr t), pg_typedef = (\<lambda>name _. Inr name), pg_addDataType = (\<lambda>_. unsupported),
      pg_removeDataType = (\<lambda>_. unsupported), pg_getID = (\<lambda>_ _. Inr 0), pg_isVariable = (\<lambda>_ _. Inr False),
      pg_setVariableType = (\<lambda>_ _. unsupported), pg_getFunctionAt = (\<lambda>_ _. Inr None), pg_parameterCount = (\<lambda>_ _. Inr 0),
      pg_setParameterName = (\<lambda>_ _ _. unsupported), pg_setParameterType = (\<lambda>_ _ _. unsupported),
      pg_addParameter = (\<lambda>_ _ _. unsupported), pg_getDataAt = (\<lambda>_ _. Inr None), pg_clearCodeUnits = (\<lambda>_ _. unsupported),
      pg_createData = (\<lambda>_ _. unsupported), pg_getFunction = (\<lambda>_ _. Inr True), pg_setReturnType = (\<lambda>_ _. unsupported),
      pg_callingConventions = Inr [], pg_setCallingConvention = (\<lambda>_ _. unsupported)\<rparr>"

definition symbol_store :: "(i64 \<times> string) list \<Rightarrow> (CheckoutInfo list, (i64 \<times> string) list) program_store" where
  "symbol_store p = \<lparr>ps_handle = (\<lambda>_ _ _ _ _ _. Inr ()), ps_program = (\<lambda>_ _ _ _ _. Inr p), ps_save = (\<lambda>w _ _ _ _ _ _. (Inr True, w))\<rparr>"

definition symbol_remote :: "(i64 \<times> string) list \<Rightarrow> (jtree, CheckoutInfo list) ghidra_remote" where
  "symbol_remote p = sample_remote\<lparr>gr_apply := program_apply text_gson tree_boolean ''null'' symbol_api (symbol_store p)\<rparr>"

text \<open>A rename of a symbol and a new symbol with a name the program refuses\<close>

definition two_symbols :: GhidraCheckinPreview where
  "two_symbols = one_rename\<lparr>pv_newSymbols := [\<lparr>ns_addr = 0x2000, ns_name = ''?'', ns_isFunction = False\<rparr>]\<rparr>"

section \<open>Properties\<close>

text \<open>
  C5: a check-in of the plugin over the wire writes exactly the reviewed changes into the program of the bridge's checkout.
  After corrupt variable symbols are purged, each item of each category, data types first, is written by the calls of
  Ghidra's API its kind needs, with the addresses turned back and the comments in their columns. The plugin is told the outcome: the error with the state unchanged, or success with a
  warning for each category of which fewer items were written than sent, and the ids of the types made.
\<close>

theorem checkin_reaches_program:
  assumes "program_link J G eol sock cb C asBoolean" and "columns_ok (m_addrToCommentField S)"
    and "gr_apply R = program_apply G asBoolean npe A T" and "fits J C (checkin_request J S V p comment)"
    and "list_all (\<lambda>e. jl_contains J e ''event'') before" and "m_checkinItem S \<noteq> []"
  shows "checkin J True True (over_wire J G R files eol sock before after cb C (Sb, w)) V p comment errorOut S =
    program_outcome V p errorOut S (program_checkin R A T Sb w V p comment S)"
  by (rule program_link.program_wire [OF assms])

theorem checkin_reaches_program_witness:
  "out_warnings (checkin text_json True True (over_wire text_json text_gson (symbol_remote [(7, ''old'')]) no_files [newline] (\<lambda>k bytes. 1)
     [] [] ''cb'' ready_client (sample_bridge\<lparr>bs_openRepos := [([], 0)]\<rparr>, [])) renamed_view two_symbols ''mine'' [] renamed_state) =
   [(1, 2, ''symbols'')]"
proof -
  let ?Sb = "sample_bridge\<lparr>bs_openRepos := [([], 0)]\<rparr>" and ?R = "symbol_remote [(7, ''old'')]"
  have eq: "checkin text_json True True (over_wire text_json text_gson ?R no_files [newline] (\<lambda>k bytes. 1) [] [] ''cb'' ready_client (?Sb, []))
      renamed_view two_symbols ''mine'' [] renamed_state =
    program_outcome renamed_view two_symbols [] renamed_state
      (program_checkin ?R symbol_api (symbol_store [(7, ''old'')]) ?Sb [] renamed_view two_symbols ''mine'' renamed_state)"
  proof (rule checkin_reaches_program [OF written.program_link_axioms])
    show "gr_apply ?R = program_apply text_gson tree_boolean ''null'' symbol_api (symbol_store [(7, ''old'')])" by (simp add: symbol_remote_def)
    show "fits text_json ready_client (checkin_request text_json renamed_state renamed_view two_symbols ''mine'')" by code_simp
    show "columns_ok (m_addrToCommentField renamed_state)" "m_checkinItem renamed_state \<noteq> []" by code_simp+
  qed simp
  have "out_warnings (program_outcome renamed_view two_symbols [] renamed_state
      (program_checkin ?R symbol_api (symbol_store [(7, ''old'')]) ?Sb [] renamed_view two_symbols ''mine'' renamed_state)) = [(1, 2, ''symbols'')]"
    by code_simp
  with eq show ?thesis by (simp only:)
qed

text \<open>
  C14: no item of a check-in can end it, whatever the calls made for it throw, except one: the type of a return value is
  resolved outside every \<open>try\<close>. As long as no lookup of a data type throws while signatures are applied, and no
  return type is made of separators alone, the arrays of the plugin are worked through to the end, and the count of each category is
  at most the number of items sent.
\<close>

theorem checkin_survives_bad_items:
  assumes "json_interop J G" and "\<forall>b. asBoolean (jl_bool J b) = Inr b" and "columns_ok (m_addrToCommentField S)"
    and "list_all return_type_ok (pv_funcSigChanges p)" and "pv_funcSigChanges p \<noteq> [] \<longrightarrow> lookups_return A"
  shows "\<exists>added applied q'. apply_arrays G asBoolean npe A (checkin_arrays J S V p) q = (Inr (added, applied), q') \<and>
    list_all (counted p) applied"
proof -
  let ?m = "apply_preview A (rebase_of S V) (m_addrToOriginalFuncComment S) (m_addrToCommentField S) p"
  have "apply_arrays G asBoolean npe A (checkin_arrays J S V p) = ?m"
    using json_interop.applied_arrays [OF assms(1) _ assms(3), of asBoolean] assms(2) by simp
  then show ?thesis
    using apply_preview_returns [OF assms(4,5)] apply_preview_counts [of p A] unfolding returns_def yields_def by (metis (lifting) case_prodD old.prod.exhaust)
qed

text \<open>A signature whose return type cannot be set, beside a symbol with a name the program refuses\<close>

definition bad_items :: GhidraCheckinPreview where
  "bad_items = two_symbols\<lparr>pv_funcSigChanges := [\<lparr>sc_key = 7, sc_callingConvention = [], sc_returnTypeName = ''int''\<rparr>]\<rparr>"

theorem checkin_survives_bad_items_witness:
  "\<exists>added applied q'. apply_arrays text_gson tree_boolean ''null'' symbol_api (checkin_arrays text_json renamed_state renamed_view bad_items) [] =
     (Inr (added, applied), q') \<and> list_all (counted bad_items) applied"
proof (rule checkin_survives_bad_items)
  show "json_interop text_json text_gson" by (rule texts.json_interop_axioms)
  show "\<forall>b. tree_boolean (jl_bool text_json b) = Inr b" using written.boolean by blast
  show "columns_ok (m_addrToCommentField renamed_state)" "list_all return_type_ok (pv_funcSigChanges bad_items)" by code_simp+
  show "pv_funcSigChanges bad_items \<noteq> [] \<longrightarrow> lookups_return symbol_api" by (simp add: lookups_return_def symbol_api_def)
qed

end
