(* ===== verification/Spec2Isabelle.thy ===== *)
theory Spec2Isabelle
  imports Resurfacing Import_Props Connection_Props Panel_Checkin Panel_Tree Startup Panel_Window_Props Export_Props Event_Stream Bridge_Main File_Props Applier_Props
begin

text \<open>
  A verification of the Binary Ninja plugin of \<open>ghidra_svr_bridge\<close> (\<open>src/plugin\<close>) and of its bridge to the
  Ghidra Server (\<open>src/bridge\<close>).

  \<^bold>\<open>The program.\<close> The plugin connects Binary Ninja to a Ghidra server. A Java process, the bridge, speaks
  Ghidra's protocol; the plugin starts it (\<open>BridgeProcess.cpp\<close>), talks to it in lines of JSON over a
  socket (\<open>BridgeClient.cpp\<close>), and keeps the session and the check-in state (\<open>GhidraConnection.cpp\<close>).
  A program database exported by the bridge is decoded (\<open>GhidraJson.cpp\<close>) and applied to the open view
  (\<open>SyncEngine.cpp\<close>), which also leaves the baselines of every name, comment, type, parameter, bookmark,
  data item, equate and signature. A check-in compares the view with these baselines
  (\<open>collectCheckinChanges\<close>), shows the changes for review, encodes and sends them, and moves the
  baselines forward (\<open>checkin\<close>). The panel (\<open>ui/ProjectPanel.cpp\<close>) drives all of this and remembers
  in metadata which file belongs to which item.

  \<^bold>\<open>Theories and sources.\<close>
  \<^item> \<open>Prelude\<close>: unordered maps and sets as association lists and lists, folds over them, the result type
    (\<open>Inl\<close> an error text or exception, \<open>Inr\<close> a value), and the states a step relation reaches with the locale
    \<open>step_invariant\<close>, which every step relation below interprets for its invariant. \<open>Text_Num\<close>: the printing and reading of numbers
    of the C++ library at 32 and 64 bits. \<open>Lines\<close>: cutting a byte stream into lines.
  \<^item> \<open>Data_Model\<close>: the structs of \<open>GhidraConnection.h\<close> as records. \<open>Json_Lib\<close>: the JSON library as a
    parameter \<open>json_lib\<close> with its laws as a locale, and a tree instance of it. \<open>Ghidra_Json\<close>:
    \<open>GhidraJson.cpp\<close>, \<open>parseDbExportJson\<close> and \<open>buildCheckinJson\<close>.
  \<^item> \<open>Names\<close>: the tests for generated names and \<open>canonicalTypeName\<close>. \<open>Checkin_State\<close>: the check-in
    state of \<open>GhidraConnection\<close>, \<open>storeCheckinState\<close>, \<open>clearCheckinState\<close>, and its invariant
    \<open>checkin_wf\<close>. \<open>Bn_View\<close>: what is read of a view. \<open>Collect\<close>: \<open>collectCheckinChanges\<close>, one
    definition per loop. \<open>Checkin\<close>: \<open>checkin\<close>. \<open>Converge_Items\<close>, \<open>Converge_Program\<close>, \<open>Convergence\<close>:
    after a successful check-in a second diff is empty. \<open>Resurfacing\<close>: the cases outside these hypotheses.
  \<^item> \<open>Sync_Engine\<close>: \<open>applyToView\<close>, \<open>buildWritebackMaps\<close>, \<open>resolveTypeName\<close> over a parameter \<open>bn_api\<close>
    for the mutable part of Binary Ninja's API. \<open>Import\<close>: the maps they compute, and the locale
    \<open>view_laws\<close> with what the import relies on of the API; creating a function may fail, and defining a variable may add names. \<open>Import_Props\<close>: an executable API,
    its interpretation of the laws, and the properties of the import.
  \<^item> \<open>Bridge_Client\<close>: \<open>BridgeClient.cpp\<close>; sending, the receive loop, dispatch and \<open>sendSync\<close>, and the
    interleavings of the threads as the step relation \<open>client_step\<close> over the critical sections.
    \<open>Bridge_Process\<close>: \<open>BridgeProcess.cpp\<close>, POSIX and Windows. \<open>Connection\<close> and \<open>Connection_Props\<close>:
    the life cycle of the bridge, the session, the repository operations, and the reachable connections.
  \<^item> \<open>Review\<close>: the review tree of \<open>doCheckinWithState\<close>. \<open>Upload_Text\<close>: the annotation lines of
    \<open>uploadToGhidra\<close> and the script in \<open>BridgeConnection.java\<close> that reads them. \<open>Panel\<close>, \<open>Panel_Ops\<close>,
    \<open>Panel_Props\<close>: the link of the open view, its metadata and the operations on items and project
    files. \<open>Panel_Checkin\<close>: \<open>doCheckin\<close> and \<open>doCheckinWithState\<close>. \<open>Panel_Tree\<close>: the repository tree
    with late replies as the step relation \<open>tree_step\<close>, and the enumeration of a folder. \<open>Panel_Files\<close>: the files
    remembered for items, downloads, adding items and the history. \<open>Panel_Window\<close>: registration, requests for a refresh
    over a parameter for Qt's timers, buttons and banner, \<open>ConnectDialog.cpp\<close>, connecting and refreshing, and the context menus;
    \<open>Panel_Window_Props\<close>: the panels of several panes and the delivery of events to them on the receive thread as the
    step relation \<open>pane_step\<close>, and the properties.
  \<^item> \<open>Startup\<close>: the settings and the background start of \<open>plugin.cpp\<close>, and what a later connect finds.
  \<^item> \<open>Bridge_Server\<close>: \<open>BridgeConnection.java\<close> and \<open>GhidraSession.java\<close>; the request loop, the handlers, the
    session and the table of event streams over a parameter \<open>ghidra_remote\<close> for the Ghidra Server's API, the exporter and
    the importer, which \<open>Db_Export\<close> and \<open>Program_Applier\<close> define, and a parameter for the handlers of binary files, which \<open>File_Handlers\<close> defines. \<open>Bridge_Server_Props\<close>: the reachable sessions and the
    checkouts a check-in touches.
  \<^item> \<open>Wire\<close>: client and bridge on one socket; the locale \<open>json_interop\<close> says that each of the two JSON
    libraries reads what the other writes, \<open>bridge_link\<close> extends it by a client that can send. \<open>Json_Text\<close>: a codec
    that satisfies both, with the interpretations. \<open>Rpc\<close>, \<open>Rpc_Checkin\<close>: each operation over the wire.
    \<open>Rpc_Props\<close>: the properties of the composition.
  \<^item> \<open>Db_Export\<close>: \<open>DatabaseExporter.java\<close>; the address map and \<open>decode\<close>, the names of types, one definition per table and
    \<open>db_export\<close> for \<open>export\<close>, over a parameter \<open>db_api\<close> for the typed fields of Ghidra's database records. \<open>Db_Read\<close>: the
    specification \<open>read_database\<close>, the plugin's structures read off the tables by comprehensions, and the schema the
    exporter relies on; \<open>Db_Read_Props\<close>: the exporter and the plugin's parser compose to it. \<open>Pointer_Names\<close>: the two
    passes that name pointer types. \<open>Export_Props\<close>: opening a database over the wire, and the addresses in it.
  \<^item> \<open>Event_Stream\<close>: \<open>EventStreamer.java\<close> as the step relation \<open>stream_step\<close>, followed to the plugin's handler.
    \<open>Bridge_Main\<close>: \<open>BridgeMain.java\<close> and \<open>BridgeServer.java\<close> composed with \<open>process_start\<close>.
  \<^item> \<open>Base64\<close>: \<open>java.util.Base64\<close>, encoder and MIME decoder. \<open>File_Handlers\<close>: \<open>opDownloadBinary\<close> with \<open>BinaryExtractor.java\<close>
    and \<open>opUploadBinary\<close> over a parameter \<open>headless_env\<close> for the file system, Ghidra's stored files and its headless
    analyser. \<open>File_Props\<close>: both over the wire, with the locales \<open>base64_codec\<close> for Binary Ninja's Base64 and \<open>binary_link\<close>,
    the temporary files and the password.
  \<^item> \<open>Program_Applier\<close>: \<open>ProgramApplier.java\<close>, which writes a check-in into a Ghidra program, one definition per category, as
    actions over a parameter \<open>program_api\<close> for Ghidra's program API. \<open>Applier_Props\<close>: the specification \<open>apply_preview\<close>
    without JSON, the applier on the plugin's arrays as its refinement, rules for what an action returns and whether it
    throws, and the locale \<open>program_link\<close> for the whole check-in from the plugin to the program.

  \<^bold>\<open>State and operations.\<close> A class is a record whose fields have the names of its members; an operation is
  a function of its arguments and that record. An \<open>std::unordered_map\<close> is an association list, so iteration
  order is whatever the list is. Addresses, keys and ports are words of their C++ width with wrap-around.
  Exceptions and error texts are \<open>Inl\<close>. What a socket, the operating system, a dialog or Binary Ninja answers
  is an argument; calls whose order matters are recorded in lists. A handler that hands work to a
  worker thread is split where other handlers can run.

  \<^bold>\<open>What is shown.\<close> The check-in converges, is atomic on failure and keeps the invariant of its state; each category
  settles on its own. An import never overwrites names or comments of the user, comments of functions included, and leaves
  well-formed baselines that refine the export; afterwards, with one symbol and one comment per address, only the user's
  earlier edits are reported. Every
  response callback is called exactly once in every interleaving, framing does not depend on how the stream is cut, a
  synchronous request gets its own response. Credentials are held only during a session; a failed start releases
  everything, and a started bridge is taken by the next connect. Hexadecimal addresses, uploaded and downloaded bytes, upload annotations and the links of project files survive
  their round trips. Nothing is checked in that was not reviewed. Over the wire every repository operation and the
  check-in are what the Ghidra Server and the bridge's importer answer, requests in sequence never take each other's
  answers, an opened database is what its tables say, and the changes of a repository arrive in order without loss; the
  bridge's check-in touches no checkout but its own. The options the plugin passes are those the bridge reads, and a
  bridge that binds its socket is found at its port. Encoded addresses decode to base and offset, and pointers are
  named from the inside out. Uploaded bytes and annotations reach the analyser unchanged, downloads are the stored files,
  and an upload asks for the deletion of every temporary file it made and keeps the password out of the command. A check-in writes exactly the reviewed
  changes into the program and reports what it left out, and no item Ghidra refuses can end it but a return type
  that cannot be resolved. Handlers, watchers and queued events are of panels that exist. The remaining theorems describe where the code
  does not do what it means to, each with the smallest hypotheses that show it.

  \<^bold>\<open>Bounds and fuel.\<close> The search for an installation has the three rounds of the source. The enumeration of a folder
  takes fuel, and as many rounds as there are folders are shown to suffice. \<open>sendRaw\<close> is exact for lines shorter than
  \<open>2^31\<close> bytes, where the source's \<open>int\<close> cannot overflow; request ids are 32-bit words and the exactly-once property
  is for at most \<open>2^32\<close> requests, after which an id would return. All other loops are structural or have a termination proof.

  \<^bold>\<open>Hypotheses.\<close> The laws of the locales are what the code relies on of others: \<open>json_library\<close> and \<open>json_interop\<close> of
  nlohmann's library and Gson (a text that was printed is read back as the same value; null members, which Gson omits, and
  Java's null strings do not occur in it, and the getters are compared on values of their type only), \<open>view_laws\<close> and \<open>base64_codec\<close> of Binary Ninja. Each is interpreted on an executable
  instance, on which the witnesses compute. A database has the columns of Ghidra's schema with their types and no row
  without a name where the exporter needs one (\<open>schema_ok\<close>, with a concrete database in the witness); what the Java
  platform and the operating system answer at the start are \<open>java_answers\<close> and \<open>posix_answers\<close>. A request of the
  composition fits in a line of less than \<open>2^31 - 1\<close> bytes (\<open>fits\<close>) and its reply comes before the deadline.

  \<^bold>\<open>Not modelled.\<close> Of the Java bridge the helpers of \<open>DatabaseImporter\<close> that write raw tables, which only unit tests
  call; the trust manager that accepts every certificate; the layout of the panel
  and of the dialogs and the exact texts of the log; \<open>enterprise_stubs.cpp\<close>, which is generated and only returns null,
  and the icon data; Winsock initialisation and UTF-16 conversion; and the calls through a null \<open>m_client\<close>, which are
  undefined behaviour. Texts are bytes: the case-insensitive comparison and the shortening of comments in the panel, the
  names of temporary files, the lengths in the bridge and the letters of a type name in the applier are exact for ASCII.
\<close>

end
